(* ===== verification/Barton_Prelude.thy ===== *)
theory Barton_Prelude
  imports Main "HOL-Library.Word"
begin

text \<open>
  Shared vocabulary of the development: the widths of the C integer types, nullable C strings, the
  containers of the support library (linked lists and hash maps) as HOL data, the interface of a
  hash map as a locale, and the generic list lemmas the component theories use.

  A linked list is a HOL list. A hash map is an association list whose keys are distinct: lookup is
  by key, and the position of an entry stands for the iteration order of the C map, which no theorem
  of the development relies on. \<open>hashMapPut\<close> refuses a key that is present (the callers of
  \<^verbatim>\<open>hashMapPut\<close> and \<^verbatim>\<open>stringHashMapPut\<close> delete first when they want to replace), while
  \<open>hashTableInsert\<close> is GLib's \<^verbatim>\<open>g_hash_table_insert\<close>, which replaces and reports whether the key was new.
\<close>

section \<open>Types\<close>

type_synonym u8 = "8 word"
type_synonym u16 = "16 word"
type_synonym u32 = "32 word"
type_synonym u64 = "64 word"

text \<open>A \<^verbatim>\<open>char *\<close> that may be \<^verbatim>\<open>NULL\<close>.\<close>

type_synonym cstr = "string option"

type_synonym ('k, 'v) hmap = "('k \<times> 'v) list"

section \<open>Fact collections\<close>

named_theorems hmap_simps \<open>rewriting hash map operations to their lookup functions\<close>
named_theorems frame_simps \<open>fields an operation leaves unchanged\<close>
named_theorems keeps_inv \<open>operations that preserve a component's invariant\<close>

section \<open>Hash maps\<close>

definition hashMapGet :: "('k, 'v) hmap \<Rightarrow> 'k \<Rightarrow> 'v option" where
  "hashMapGet m k = map_of m k"

definition hashMapContains :: "('k, 'v) hmap \<Rightarrow> 'k \<Rightarrow> bool" where
  "hashMapContains m k = (map_of m k \<noteq> None)"

definition hashMapPut :: "('k, 'v) hmap \<Rightarrow> 'k \<Rightarrow> 'v \<Rightarrow> bool \<times> ('k, 'v) hmap" where
  "hashMapPut m k v = (if hashMapContains m k then (False, m) else (True, m @ [(k, v)]))"

definition hashMapDelete :: "('k, 'v) hmap \<Rightarrow> 'k \<Rightarrow> bool \<times> ('k, 'v) hmap" where
  "hashMapDelete m k = (hashMapContains m k, filter (\<lambda>e. fst e \<noteq> k) m)"

fun hashMapUpdate :: "('k, 'v) hmap \<Rightarrow> 'k \<Rightarrow> ('v \<Rightarrow> 'v) \<Rightarrow> ('k, 'v) hmap" where
  "hashMapUpdate [] k f = []"
| "hashMapUpdate ((k', v) # m) k f =
     (if k' = k then (k', f v) # m else (k', v) # hashMapUpdate m k f)"

definition hashTableInsert :: "('k, 'v) hmap \<Rightarrow> 'k \<Rightarrow> 'v \<Rightarrow> bool \<times> ('k, 'v) hmap" where
  "hashTableInsert m k v =
     (if hashMapContains m k then (False, hashMapUpdate m k (\<lambda>_. v)) else (True, m @ [(k, v)]))"

definition hmap_ok :: "('k, 'v) hmap \<Rightarrow> bool" where
  "hmap_ok m \<longleftrightarrow> distinct (map fst m)"

text \<open>The values a linked list iterator finds first, and the removal of the first match.\<close>

fun linkedListDelete :: "('a \<Rightarrow> bool) \<Rightarrow> 'a list \<Rightarrow> bool \<times> 'a list" where
  "linkedListDelete p [] = (False, [])"
| "linkedListDelete p (x # xs) =
     (if p x then (True, xs) else (let (b, ys) = linkedListDelete p xs in (b, x # ys)))"

section \<open>Generic lemmas\<close>

lemma map_of_filter_neq: "map_of (filter (\<lambda>e. fst e \<noteq> k) m) = (map_of m)(k := None)"
  by (induction m) (auto simp: fun_eq_iff)

lemma map_of_append_new: "map_of m k = None \<Longrightarrow> map_of (m @ [(k, v)]) = (map_of m)(k \<mapsto> v)"
  by (induction m) (auto simp: fun_eq_iff split: if_splits)

lemma map_of_hashMapUpdate:
  "map_of (hashMapUpdate m k f) = (map_of m)(k := map_option f (map_of m k))"
  by (induction m k f rule: hashMapUpdate.induct) (auto simp: fun_eq_iff)

lemma keys_hashMapUpdate [simp]: "map fst (hashMapUpdate m k f) = map fst m"
  by (induction m k f rule: hashMapUpdate.induct) auto

lemma find_Some_mem: "find p xs = Some x \<Longrightarrow> x \<in> set xs \<and> p x"
  by (auto simp: find_Some_iff in_set_conv_nth)

lemma find_map_same:
  "(\<And>x. p (f x) = p x) \<Longrightarrow> find p (map f xs) = map_option f (find p xs)"
  by (induction xs) auto

lemma map_of_Some_mem: "map_of m k = Some v \<Longrightarrow> (k, v) \<in> set m"
  by (rule map_of_SomeD)

lemma linkedListDelete_set: "linkedListDelete p xs = (b, ys) \<Longrightarrow> set ys \<subseteq> set xs"
  by (induction xs arbitrary: b ys) (auto split: if_splits prod.splits)

lemma linkedListDelete_found: "fst (linkedListDelete p xs) \<longleftrightarrow> (\<exists>x \<in> set xs. p x)"
  by (induction xs) (auto split: prod.splits)

section \<open>The hash map interface\<close>

text \<open>
  What the components rely on: lookup after each update, what the boolean results mean, and the
  invariant of distinct keys. The client lemmas are proved from these laws only.
\<close>

locale hash_map =
  fixes get :: "'m \<Rightarrow> 'k \<Rightarrow> 'v option"
    and put :: "'m \<Rightarrow> 'k \<Rightarrow> 'v \<Rightarrow> bool \<times> 'm"
    and del :: "'m \<Rightarrow> 'k \<Rightarrow> bool \<times> 'm"
    and ok :: "'m \<Rightarrow> bool"
  assumes put_fresh: "ok m \<Longrightarrow> get m k = None \<Longrightarrow>
      fst (put m k v) \<and> get (snd (put m k v)) = (get m)(k \<mapsto> v)"
    and put_present: "ok m \<Longrightarrow> get m k \<noteq> None \<Longrightarrow> put m k v = (False, m)"
    and del_get: "ok m \<Longrightarrow> get (snd (del m k)) = (get m)(k := None)"
    and del_result: "ok m \<Longrightarrow> fst (del m k) = (get m k \<noteq> None)"
    and ok_put: "ok m \<Longrightarrow> ok (snd (put m k v))"
    and ok_del: "ok m \<Longrightarrow> ok (snd (del m k))"
begin

lemma put_result: "ok m \<Longrightarrow> fst (put m k v) = (get m k = None)"
  using put_fresh put_present by (cases "get m k = None") auto

lemma get_put_other: "ok m \<Longrightarrow> k' \<noteq> k \<Longrightarrow> get (snd (put m k v)) k' = get m k'"
  using put_fresh [of m k v] put_present [of m k v] by (cases "get m k = None") auto

text \<open>Delete before put is the replace idiom of the code: it always succeeds and stores the value.\<close>

lemma replace_idiom:
  assumes "ok m"
  shows "fst (put (snd (del m k)) k v)"
    and "get (snd (put (snd (del m k)) k v)) = (get m)(k \<mapsto> v)"
proof -
  have "ok (snd (del m k))" and "get (snd (del m k)) k = None"
    using assms by (auto simp: ok_del del_get)
  then have "fst (put (snd (del m k)) k v)"
    and "get (snd (put (snd (del m k)) k v)) = (get (snd (del m k)))(k \<mapsto> v)"
    using put_fresh by blast+
  then show "fst (put (snd (del m k)) k v)"
    and "get (snd (put (snd (del m k)) k v)) = (get m)(k \<mapsto> v)"
    using assms by (auto simp: del_get)
qed

end

interpretation hm: hash_map hashMapGet hashMapPut hashMapDelete hmap_ok
proof (unfold_locales, goal_cases)
  case (1 m k v)
  then show ?case
    by (simp add: hashMapPut_def hashMapContains_def hashMapGet_def map_of_append_new fun_eq_iff
        del: map_of_append)
next
  case (2 m k v)
  then show ?case by (auto simp: hashMapPut_def hashMapContains_def hashMapGet_def)
next
  case (3 m k)
  then show ?case
    by (simp add: hashMapDelete_def hashMapGet_def map_of_filter_neq fun_eq_iff)
next
  case (4 m k)
  then show ?case by (simp add: hashMapDelete_def hashMapContains_def hashMapGet_def)
next
  case (5 m k v)
  then show ?case
    by (auto simp: hashMapPut_def hashMapContains_def hmap_ok_def map_of_eq_None_iff)
next
  case (6 m k)
  then show ?case by (auto simp: hashMapDelete_def hmap_ok_def distinct_map_filter)
qed

lemma hashMapGet_hashMapDelete [hmap_simps]:
  "hashMapGet (snd (hashMapDelete m k)) k' = (if k' = k then None else hashMapGet m k')"
  by (simp add: hashMapDelete_def hashMapGet_def map_of_filter_neq)

lemma hashMapGet_hashMapPut [hmap_simps]:
  "hashMapGet (snd (hashMapPut m k v)) k' =
     (if k' = k \<and> hashMapGet m k = None then Some v else hashMapGet m k')"
  by (auto simp: hashMapPut_def hashMapContains_def hashMapGet_def map_of_append_new
      simp del: map_of_append)

lemma hashMapPut_result [hmap_simps]: "fst (hashMapPut m k v) = (hashMapGet m k = None)"
  by (simp add: hashMapPut_def hashMapContains_def hashMapGet_def)

lemma hashMapGet_hashMapUpdate [hmap_simps]:
  "hashMapGet (hashMapUpdate m k f) k' =
     (if k' = k then map_option f (hashMapGet m k) else hashMapGet m k')"
  by (simp add: hashMapGet_def map_of_hashMapUpdate)

lemma hashMapGet_hashTableInsert [hmap_simps]:
  "hashMapGet (snd (hashTableInsert m k v)) k' = (if k' = k then Some v else hashMapGet m k')"
  by (auto simp: hashTableInsert_def hashMapContains_def hashMapGet_def map_of_append_new
      map_of_hashMapUpdate simp del: map_of_append)

lemma hashMapContains_get [hmap_simps]: "hashMapContains m k = (hashMapGet m k \<noteq> None)"
  by (simp add: hashMapContains_def hashMapGet_def)

lemma hashMapGet_Nil [simp]: "hashMapGet [] k = None"
  by (simp add: hashMapGet_def)

lemma hmap_ok_Nil [simp]: "hmap_ok []"
  by (simp add: hmap_ok_def)

lemma hmap_ok_hashMapUpdate [simp]: "hmap_ok (hashMapUpdate m k f) = hmap_ok m"
  by (simp add: hmap_ok_def)

lemma hmap_ok_hashTableInsert: "hmap_ok m \<Longrightarrow> hmap_ok (snd (hashTableInsert m k v))"
  by (auto simp: hashTableInsert_def hmap_ok_def hashMapContains_def map_of_eq_None_iff)

text \<open>Copying a map entry by entry: putting keeps what is there, inserting replaces it.\<close>

lemma hashMapGet_Cons: "hashMapGet ((k, v) # m) k' = (if k' = k then Some v else hashMapGet m k')"
  by (simp add: hashMapGet_def)

lemma get_put_all:
  "hashMapGet (foldl (\<lambda>m (k, v). snd (hashMapPut m k v)) m es) n =
     (case hashMapGet m n of None \<Rightarrow> hashMapGet es n | Some v \<Rightarrow> Some v)"
  by (induction es arbitrary: m) (auto simp: hmap_simps hashMapGet_Cons split: option.splits if_splits)

lemma ok_put_all: "hmap_ok m \<Longrightarrow> hmap_ok (foldl (\<lambda>m (k, v). snd (hashMapPut m k v)) m es)"
  by (induction es arbitrary: m) (auto simp: hm.ok_put)

lemma get_insert_all:
  "hmap_ok es \<Longrightarrow> hashMapGet (foldl (\<lambda>m (k, v). snd (hashTableInsert m k v)) m es) n =
     (case hashMapGet es n of None \<Rightarrow> hashMapGet m n | Some v \<Rightarrow> Some v)"
proof (induction es arbitrary: m)
  case (Cons e es)
  obtain k v where e: "e = (k, v)" by fastforce
  have "hmap_ok es" "hashMapGet es k = None"
    using Cons.prems by (auto simp: e hmap_ok_def hashMapGet_def map_of_eq_None_iff)
  with Cons.IH show ?case by (auto simp: e hmap_simps hashMapGet_Cons split: option.splits)
qed simp

end
