(* ===== verification/Barton_Externals.thy ===== *)
theory Barton_Externals
  imports Barton_Prelude
begin

text \<open>
  The libraries the C code calls and whose source is not part of the repository, as parameters of
  the model: the string helpers of the support library (\<^verbatim>\<open>icUtil/stringUtils.h\<close>) and cJSON with its
  typed readers (\<^verbatim>\<open>jsonHelper.h\<close>). A definition that uses one of them takes the record of its
  operations as an argument. \<open>util_ok\<close> and \<open>cjson_ok\<close> collect what the code relies on;
  they appear as hypotheses of the theorems that need them, and \<open>example_util\<close> and
  \<open>example_json\<close> are instances on which the witnesses evaluate.
\<close>

section \<open>String helpers\<close>

definition to_lower :: "char \<Rightarrow> char" where
  "to_lower c = (let n = (of_char c :: nat) in if 65 \<le> n \<and> n \<le> 90 then char_of (n + 32) else c)"

definition lower :: "string \<Rightarrow> string" where
  "lower s = map to_lower s"

record util_api =
  stringIsEmpty :: "cstr \<Rightarrow> bool"
  stringCompare :: "cstr \<Rightarrow> cstr \<Rightarrow> bool \<Rightarrow> int"
  stringIsPrintable :: "cstr \<Rightarrow> bool \<Rightarrow> bool"
  stringToUint16 :: "cstr \<Rightarrow> u16 option"
  stringToUint64 :: "cstr \<Rightarrow> u64 option"
  simpleProtectConfigData :: "string \<Rightarrow> cstr \<Rightarrow> cstr"
  simpleUnprotectConfigData :: "string \<Rightarrow> string \<Rightarrow> cstr"

text \<open>
  \<^verbatim>\<open>stringIsEmpty\<close> holds of \<^verbatim>\<open>NULL\<close> and the empty string; \<^verbatim>\<open>stringCompare\<close> is 0 on equal strings, up to
  case when its last argument is true, and never on a null and a non-null string.
\<close>

definition util_ok :: "util_api \<Rightarrow> bool" where
  "util_ok U \<longleftrightarrow>
     (\<forall>s. stringIsEmpty U s \<longleftrightarrow> s = None \<or> s = Some []) \<and>
     (\<forall>a b. stringCompare U (Some a) (Some b) True = 0 \<longleftrightarrow> lower a = lower b) \<and>
     (\<forall>a b. stringCompare U (Some a) (Some b) False = 0 \<longleftrightarrow> a = b) \<and>
     (\<forall>a c. stringCompare U None (Some a) c \<noteq> 0 \<and> stringCompare U (Some a) None c \<noteq> 0)"

lemma util_okD:
  assumes "util_ok U"
  shows "stringIsEmpty U s \<longleftrightarrow> s = None \<or> s = Some []"
    and "stringCompare U (Some a) (Some b) True = 0 \<longleftrightarrow> lower a = lower b"
    and "stringCompare U (Some a) (Some b) False = 0 \<longleftrightarrow> a = b"
    and "stringCompare U None (Some a) c \<noteq> 0"
    and "stringCompare U (Some a) None c \<noteq> 0"
  using assms by (auto simp: util_ok_def)

text \<open>
  Decimal notation: \<open>decimal\<close> is what \<^verbatim>\<open>printf\<close> writes for an unsigned number, and \<open>stringToUint16\<close>
  reads such a text back.
\<close>

fun decimal :: "nat \<Rightarrow> string" where
  "decimal n = (if n < 10 then [char_of (48 + n)] else decimal (n div 10) @ [char_of (48 + n mod 10)])"

declare decimal.simps [simp del]

definition is_space :: "char \<Rightarrow> bool" where
  "is_space c = ((of_char c :: nat) \<in> {9, 10, 11, 12, 13, 32})"

definition is_digit :: "char \<Rightarrow> bool" where
  "is_digit c \<longleftrightarrow> 48 \<le> (of_char c :: nat) \<and> (of_char c :: nat) \<le> 57"

definition digits_value :: "string \<Rightarrow> nat" where
  "digits_value t = foldl (\<lambda>n c. 10 * n + (of_char c - 48)) 0 t"

definition decimal_ok :: "util_api \<Rightarrow> bool" where
  "decimal_ok U \<longleftrightarrow> (\<forall>v. stringToUint16 U (Some (decimal (unat v))) = Some v)"

lemma decimal_digits: "decimal n \<noteq> [] \<and> list_all is_digit (decimal n) \<and> digits_value (decimal n) = n"
proof (induction n rule: decimal.induct)
  case (1 n)
  then show ?case
    by (subst (1 2 3) decimal.simps) (auto simp: is_digit_def [abs_def] digits_value_def of_char_of)
qed

section \<open>JSON\<close>

record 'j json_api =
  cJSON_CreateObject :: 'j
  cJSON_CreateString :: "string \<Rightarrow> 'j"
  cJSON_CreateNumber :: "int \<Rightarrow> 'j"
  cJSON_CreateBool :: "bool \<Rightarrow> 'j"
  cJSON_AddItemToObject :: "'j \<Rightarrow> string \<Rightarrow> 'j \<Rightarrow> 'j"
  cJSON_AddStringToObject :: "'j \<Rightarrow> string \<Rightarrow> cstr \<Rightarrow> 'j"
  cJSON_AddNumberToObject :: "'j \<Rightarrow> string \<Rightarrow> int \<Rightarrow> 'j"
  cJSON_AddBoolToObject :: "'j \<Rightarrow> string \<Rightarrow> bool \<Rightarrow> 'j"
  cJSON_children :: "'j \<Rightarrow> (string \<times> 'j) list"
  cJSON_valuestring :: "'j \<Rightarrow> cstr"
  cJSON_GetObjectItem :: "'j \<Rightarrow> string \<Rightarrow> 'j option"
  cJSON_GetArraySize :: "'j \<Rightarrow> nat"
  cJSON_GetArrayItem :: "'j \<Rightarrow> nat \<Rightarrow> 'j option"
  cJSON_IsObject :: "'j option \<Rightarrow> bool"
  cJSON_Parse :: "cstr \<Rightarrow> 'j option"
  cJSON_Print :: "'j \<Rightarrow> string"
  getCJSONString :: "'j \<Rightarrow> string \<Rightarrow> cstr"
  getCJSONUInt8 :: "'j \<Rightarrow> string \<Rightarrow> u8 option"
  getCJSONInt :: "'j \<Rightarrow> string \<Rightarrow> int option"
  getCJSONUInt64 :: "'j \<Rightarrow> string \<Rightarrow> u64 option"
  getCJSONBool :: "'j \<Rightarrow> string \<Rightarrow> bool option"

text \<open>
  The documented behaviour the code relies on. Items are added at the end of an object; the typed
  \<^verbatim>\<open>Add\<close> functions create and add (a \<^verbatim>\<open>NULL\<close> string adds nothing); \<^verbatim>\<open>cJSON_GetObjectItem\<close> finds the first
  item whose name is equal up to case; objects are also read as arrays of their items; a number is
  held as a \<^verbatim>\<open>double\<close>, so an integer is read back exactly up to \<open>2 ^ 53\<close>. \<open>cJSON_children\<close> is the
  list of items with their names that cJSON links through \<^verbatim>\<open>next\<close>, and \<open>cJSON_valuestring\<close> the string of an
  item of type string.
\<close>

definition ci_lookup :: "(string \<times> 'v) list \<Rightarrow> string \<Rightarrow> 'v option" where
  "ci_lookup fs k = map_option snd (find (\<lambda>(n, _). lower n = lower k) fs)"

definition cjson_build_ok :: "'j json_api \<Rightarrow> bool" where
  "cjson_build_ok J \<longleftrightarrow>
     cJSON_children J (cJSON_CreateObject J) = [] \<and>
     (\<forall>j k v. cJSON_children J (cJSON_AddItemToObject J j k v) = cJSON_children J j @ [(k, v)]) \<and>
     (\<forall>j k s. cJSON_AddStringToObject J j k (Some s) =
        cJSON_AddItemToObject J j k (cJSON_CreateString J s)) \<and>
     (\<forall>j k. cJSON_AddStringToObject J j k None = j) \<and>
     (\<forall>j k n. cJSON_AddNumberToObject J j k n =
        cJSON_AddItemToObject J j k (cJSON_CreateNumber J n)) \<and>
     (\<forall>j k b. cJSON_AddBoolToObject J j k b =
        cJSON_AddItemToObject J j k (cJSON_CreateBool J b))"

definition cjson_read_ok :: "'j json_api \<Rightarrow> bool" where
  "cjson_read_ok J \<longleftrightarrow>
     (\<forall>j k. cJSON_GetObjectItem J j k = ci_lookup (cJSON_children J j) k) \<and>
     (\<forall>j. cJSON_GetArraySize J j = length (cJSON_children J j)) \<and>
     (\<forall>j i. i < length (cJSON_children J j) \<longrightarrow>
        cJSON_GetArrayItem J j i = Some (snd (cJSON_children J j ! i))) \<and>
     (\<forall>s. \<not> cJSON_IsObject J (Some (cJSON_CreateString J s))) \<and>
     (\<forall>s. cJSON_valuestring J (cJSON_CreateString J s) = Some s) \<and>
     \<not> cJSON_IsObject J None"

definition cjson_typed_ok :: "'j json_api \<Rightarrow> bool" where
  "cjson_typed_ok J \<longleftrightarrow>
     (\<forall>j k s. cJSON_GetObjectItem J j k = Some (cJSON_CreateString J s) \<longrightarrow>
        getCJSONString J j k = Some s) \<and>
     (\<forall>j k. cJSON_GetObjectItem J j k = None \<longrightarrow> getCJSONString J j k = None) \<and>
     (\<forall>j k n. cJSON_GetObjectItem J j k = Some (cJSON_CreateNumber J n) \<longrightarrow> 0 \<le> n \<longrightarrow> n < 2 ^ 8 \<longrightarrow>
        getCJSONUInt8 J j k = Some (word_of_int n)) \<and>
     (\<forall>j k n. cJSON_GetObjectItem J j k = Some (cJSON_CreateNumber J n) \<longrightarrow> - (2 ^ 31) \<le> n \<longrightarrow> n < 2 ^ 31 \<longrightarrow>
        getCJSONInt J j k = Some n) \<and>
     (\<forall>j k n. cJSON_GetObjectItem J j k = Some (cJSON_CreateNumber J n) \<longrightarrow> 0 \<le> n \<longrightarrow> n \<le> 2 ^ 53 \<longrightarrow>
        getCJSONUInt64 J j k = Some (word_of_int n)) \<and>
     (\<forall>j k b. cJSON_GetObjectItem J j k = Some (cJSON_CreateBool J b) \<longrightarrow>
        getCJSONBool J j k = Some b)"

definition cjson_ok :: "'j json_api \<Rightarrow> bool" where
  "cjson_ok J \<longleftrightarrow> cjson_build_ok J \<and> cjson_read_ok J \<and> cjson_typed_ok J"

section \<open>Instances for evaluation\<close>

definition example_util :: util_api where
  "example_util = \<lparr>
     stringIsEmpty = (\<lambda>s. s = None \<or> s = Some []),
     stringCompare = (\<lambda>a b ic. if (if ic then map_option lower a = map_option lower b else a = b)
                               then 0 else 1),
     stringIsPrintable = (\<lambda>s _. case s of None \<Rightarrow> False
        | Some t \<Rightarrow> t \<noteq> [] \<and> list_all (\<lambda>c. 32 \<le> (of_char c :: nat) \<and> (of_char c :: nat) \<le> 126) t),
     stringToUint16 = (\<lambda>s. case s of None \<Rightarrow> None
        | Some t \<Rightarrow> if t \<noteq> [] \<and> list_all is_digit t \<and> digits_value t < 2 ^ 16
            then Some (word_of_nat (digits_value t)) else None),
     stringToUint64 = (\<lambda>s. case s of None \<Rightarrow> None
        | Some t \<Rightarrow> if t \<noteq> [] \<and> list_all (\<lambda>c. 48 \<le> (of_char c :: nat) \<and> (of_char c :: nat) \<le> 57) t
            then Some (word_of_nat (foldl (\<lambda>n c. 10 * n + (of_char c - 48)) 0 t)) else None),
     simpleProtectConfigData = (\<lambda>ns s. map_option (\<lambda>t. ns @ rev t) s),
     simpleUnprotectConfigData = (\<lambda>ns s. Some (rev (drop (length ns) s)))\<rparr>"

datatype json = JObject "(string \<times> json) list" | JString string | JNumber int | JBool bool

fun json_fields :: "json \<Rightarrow> (string \<times> json) list" where
  "json_fields (JObject fs) = fs"
| "json_fields _ = []"

definition json_item :: "json \<Rightarrow> string \<Rightarrow> json option" where
  "json_item j k = ci_lookup (json_fields j) k"

definition example_json :: "json json_api" where
  "example_json = \<lparr>
     cJSON_CreateObject = JObject [],
     cJSON_CreateString = JString, cJSON_CreateNumber = JNumber, cJSON_CreateBool = JBool,
     cJSON_AddItemToObject = (\<lambda>j k v. JObject (json_fields j @ [(k, v)])),
     cJSON_AddStringToObject = (\<lambda>j k s. case s of None \<Rightarrow> j
        | Some t \<Rightarrow> JObject (json_fields j @ [(k, JString t)])),
     cJSON_AddNumberToObject = (\<lambda>j k n. JObject (json_fields j @ [(k, JNumber n)])),
     cJSON_AddBoolToObject = (\<lambda>j k b. JObject (json_fields j @ [(k, JBool b)])),
     cJSON_children = json_fields,
     cJSON_valuestring = (\<lambda>j. case j of JString s \<Rightarrow> Some s | _ \<Rightarrow> None),
     cJSON_GetObjectItem = json_item,
     cJSON_GetArraySize = (\<lambda>j. length (json_fields j)),
     cJSON_GetArrayItem = (\<lambda>j i. if i < length (json_fields j) then Some (snd (json_fields j ! i)) else None),
     cJSON_IsObject = (\<lambda>j. case j of Some (JObject _) \<Rightarrow> True | _ \<Rightarrow> False),
     cJSON_Parse = (\<lambda>_. None),
     cJSON_Print = (\<lambda>_. ''''),
     getCJSONString = (\<lambda>j k. case json_item j k of Some (JString s) \<Rightarrow> Some s | _ \<Rightarrow> None),
     getCJSONUInt8 = (\<lambda>j k. case json_item j k of Some (JNumber n) \<Rightarrow>
        if 0 \<le> n \<and> n < 2 ^ 8 then Some (word_of_int n) else None | _ \<Rightarrow> None),
     getCJSONInt = (\<lambda>j k. case json_item j k of Some (JNumber n) \<Rightarrow> Some n | _ \<Rightarrow> None),
     getCJSONUInt64 = (\<lambda>j k. case json_item j k of Some (JNumber n) \<Rightarrow> Some (word_of_int n) | _ \<Rightarrow> None),
     getCJSONBool = (\<lambda>j k. case json_item j k of Some (JBool b) \<Rightarrow> Some b | _ \<Rightarrow> None)\<rparr>"

lemma util_ok_example: "util_ok example_util"
  by (simp add: util_ok_def example_util_def)

lemma decimal_ok_example: "decimal_ok example_util"
proof -
  have "unat v < 2 ^ 16" for v :: u16 using unsigned_less [of v, where 'a = nat] by simp
  with decimal_digits show ?thesis by (simp add: decimal_ok_def example_util_def)
qed

lemma cjson_ok_example: "cjson_ok example_json"
  by (auto simp: cjson_ok_def cjson_build_ok_def cjson_read_ok_def cjson_typed_ok_def
      example_json_def json_item_def)

section \<open>Reading back what was written\<close>

text \<open>The items of an object built by a sequence of \<^verbatim>\<open>Add\<close> calls, in order.\<close>

lemma cjson_children_simps:
  assumes "cjson_ok J"
  shows "cJSON_children J (cJSON_CreateObject J) = []"
    and "cJSON_children J (cJSON_AddItemToObject J j k v) = cJSON_children J j @ [(k, v)]"
    and "cJSON_children J (cJSON_AddNumberToObject J j k n) =
           cJSON_children J j @ [(k, cJSON_CreateNumber J n)]"
    and "cJSON_children J (cJSON_AddBoolToObject J j k b) =
           cJSON_children J j @ [(k, cJSON_CreateBool J b)]"
    and "cJSON_children J (cJSON_AddStringToObject J j k s) =
           cJSON_children J j @ (case s of None \<Rightarrow> [] | Some t \<Rightarrow> [(k, cJSON_CreateString J t)])"
  using assms by (auto simp: cjson_ok_def cjson_build_ok_def split: option.splits)

lemma cjson_item:
  assumes "cjson_ok J"
  shows "cJSON_GetObjectItem J j k = ci_lookup (cJSON_children J j) k"
  using assms by (simp add: cjson_ok_def cjson_read_ok_def)

lemma ci_lookup_append [simp]:
  "ci_lookup (fs @ gs) k = (case ci_lookup fs k of None \<Rightarrow> ci_lookup gs k | Some v \<Rightarrow> Some v)"
  by (induction fs) (auto simp: ci_lookup_def split: if_splits)

lemma ci_lookup_simps [simp]:
  "ci_lookup [] k = None"
  "ci_lookup ((n, v) # fs) k = (if lower n = lower k then Some v else ci_lookup fs k)"
  by (auto simp: ci_lookup_def)

lemma cjson_typed:
  assumes "cjson_ok J"
  shows "cJSON_GetObjectItem J j k = Some (cJSON_CreateString J s) \<Longrightarrow> getCJSONString J j k = Some s"
    and "cJSON_GetObjectItem J j k = None \<Longrightarrow> getCJSONString J j k = None"
    and "cJSON_GetObjectItem J j k = Some (cJSON_CreateNumber J n) \<Longrightarrow> 0 \<le> n \<Longrightarrow> n < 2 ^ 8 \<Longrightarrow>
           getCJSONUInt8 J j k = Some (word_of_int n)"
    and "cJSON_GetObjectItem J j k = Some (cJSON_CreateNumber J n) \<Longrightarrow> - (2 ^ 31) \<le> n \<Longrightarrow> n < 2 ^ 31 \<Longrightarrow>
           getCJSONInt J j k = Some n"
    and "cJSON_GetObjectItem J j k = Some (cJSON_CreateNumber J n) \<Longrightarrow> 0 \<le> n \<Longrightarrow> n \<le> 2 ^ 53 \<Longrightarrow>
           getCJSONUInt64 J j k = Some (word_of_int n)"
    and "cJSON_GetObjectItem J j k = Some (cJSON_CreateBool J b) \<Longrightarrow> getCJSONBool J j k = Some b"
  using assms by (auto simp: cjson_ok_def cjson_typed_ok_def)

end
