(* ===== verification/Version_Utils.thy ===== *)
theory Version_Utils
  imports Barton_Prelude
begin

text \<open>
  The version helpers of the device descriptor library,
  \<^verbatim>\<open>libs/device/descriptors/c/src/versionUtils.c\<close>: parsing a version string into an array of
  32-bit numbers, and comparing two such arrays. The parser works in two fixed-size buffers; a write
  past one of them is an error value of the model. The comparison is shown to be the
  lexicographic comparison of the arrays padded with zeros, hence a total preorder.
\<close>

section \<open>Parsing\<close>

datatype version_error = BufferOverflow | ArrayOverflow | UninitialisedValue

definition DEFAULT_ARRAY_LEN :: nat where "DEFAULT_ARRAY_LEN = 16"
definition DEFAULT_BUFF_LEN :: nat where "DEFAULT_BUFF_LEN = 32"

text \<open>Character classes and conversions of the C library, on bytes.\<close>

definition isdigit :: "char \<Rightarrow> bool" where
  "isdigit c \<longleftrightarrow> 48 \<le> (of_char c :: nat) \<and> (of_char c :: nat) \<le> 57"

definition hexval :: "char \<Rightarrow> nat option" where
  "hexval c = (let n = (of_char c :: nat) in
     if 48 \<le> n \<and> n \<le> 57 then Some (n - 48)
     else if 97 \<le> n \<and> n \<le> 102 then Some (n - 87)
     else if 65 \<le> n \<and> n \<le> 70 then Some (n - 55)
     else None)"

definition dec_value :: "string \<Rightarrow> nat" where
  "dec_value s = foldl (\<lambda>n c. 10 * n + (of_char c - 48)) 0 s"

text \<open>
  \<^verbatim>\<open>(uint32_t) atoi(buffer)\<close> on a buffer of digits: \<^verbatim>\<open>strtol\<close> saturates at \<^verbatim>\<open>LONG_MAX\<close>, and the
  conversions to \<^verbatim>\<open>int\<close> and \<^verbatim>\<open>uint32_t\<close> keep the low 32 bits.
\<close>

definition atoi_u32 :: "string \<Rightarrow> u32" where
  "atoi_u32 s = word_of_nat (min (dec_value s) (2 ^ 63 - 1))"

text \<open>
  \<^verbatim>\<open>sscanf("%x")\<close> on the part after \<^verbatim>\<open>0x\<close>: the longest prefix of hexadecimal digits; without any
  digit there is a matching failure and the target is not written.
\<close>

fun hex_prefix :: "string \<Rightarrow> nat list" where
  "hex_prefix [] = []"
| "hex_prefix (c # cs) = (case hexval c of None \<Rightarrow> [] | Some d \<Rightarrow> d # hex_prefix cs)"

definition sscanf_hex :: "string \<Rightarrow> u32 option" where
  "sscanf_hex s =
     (if hex_prefix s = [] then None
      else Some (word_of_nat (foldl (\<lambda>n d. 16 * n + d) 0 (hex_prefix s))))"

text \<open>
  The scanning loop: the rest of the input, the digits in \<open>buffer\<close>, the numbers stored so far. A
  digit is stored at \<^verbatim>\<open>buffer[bufferLen]\<close> and the terminator after it.
\<close>

fun version_loop :: "string \<Rightarrow> string \<Rightarrow> u32 list \<Rightarrow> version_error + string \<times> u32 list" where
  "version_loop [] buf arr = Inr (buf, arr)"
| "version_loop (c # cs) buf arr =
     (if length arr < DEFAULT_ARRAY_LEN then
        if isdigit c then
          if length buf + 1 < DEFAULT_BUFF_LEN then version_loop cs (buf @ [c]) arr
          else Inl BufferOverflow
        else if buf \<noteq> [] then version_loop cs [] (arr @ [atoi_u32 buf])
        else version_loop cs buf arr
      else Inr (buf, arr))"

definition version_tail :: "string \<times> u32 list \<Rightarrow> version_error + u32 list" where
  "version_tail ba = (case ba of (buf, arr) \<Rightarrow>
     if buf \<noteq> [] then
       if length arr < DEFAULT_ARRAY_LEN then Inr (arr @ [atoi_u32 buf]) else Inl ArrayOverflow
     else Inr arr)"

definition is_zigbee_version :: "string \<Rightarrow> bool" where
  "is_zigbee_version s \<longleftrightarrow>
     length s = 10 \<and> s ! 0 = CHR ''0'' \<and> (s ! 1 = CHR ''x'' \<or> s ! 1 = CHR ''X'')"

definition versionStringToInt :: "string \<Rightarrow> version_error + u32 list" where
  "versionStringToInt s =
     (if is_zigbee_version s then
        (case sscanf_hex (drop 2 s) of None \<Rightarrow> Inl UninitialisedValue | Some v \<Rightarrow> Inr [v])
      else case version_loop s [] [] of Inl e \<Rightarrow> Inl e | Inr ba \<Rightarrow> version_tail ba)"

section \<open>Comparing\<close>

text \<open>The trailing \<^verbatim>\<open>while\<close> over the rest of \<open>right\<close>, and the \<^verbatim>\<open>for\<close> loop over \<open>left\<close>.\<close>

fun cmp_right_rest :: "u32 list \<Rightarrow> int" where
  "cmp_right_rest [] = 0"
| "cmp_right_rest (r # rs) = (if r \<noteq> 0 then 1 else cmp_right_rest rs)"

fun compareVersionArrays :: "u32 list \<Rightarrow> u32 list \<Rightarrow> int" where
  "compareVersionArrays [] right = cmp_right_rest right"
| "compareVersionArrays (l # left) [] = (if l \<noteq> 0 then -1 else compareVersionArrays left [])"
| "compareVersionArrays (l # left) (r # right) =
     (if l > r then -1 else if l < r then 1 else compareVersionArrays left right)"

definition compareVersionStrings :: "string \<Rightarrow> string \<Rightarrow> version_error + int" where
  "compareVersionStrings leftVersion rightVersion =
     (case versionStringToInt leftVersion of Inl e \<Rightarrow> Inl e | Inr l \<Rightarrow>
      case versionStringToInt rightVersion of Inl e \<Rightarrow> Inl e | Inr r \<Rightarrow>
        Inr (compareVersionArrays l r))"

section \<open>Reference notions\<close>

text \<open>The maximal runs of digits of a string, from left to right.\<close>

function digit_runs :: "string \<Rightarrow> string list" where
  "digit_runs s =
     (let t = dropWhile (\<lambda>c. \<not> isdigit c) s in
      if t = [] then [] else takeWhile isdigit t # digit_runs (dropWhile isdigit t))"
  by pat_completeness auto
termination
proof (relation "measure length", simp)
  fix s t :: string
  assume t: "t = dropWhile (\<lambda>c. \<not> isdigit c) s" and ne: "t \<noteq> []"
  then have "isdigit (hd t)" using hd_dropWhile [of "\<lambda>c. \<not> isdigit c" s] by simp
  with ne have "length (dropWhile isdigit t) < length t"
    by (cases t) (auto simp: le_imp_less_Suc length_dropWhile_le)
  moreover have "length t \<le> length s" by (simp add: t length_dropWhile_le)
  ultimately show "(dropWhile isdigit t, s) \<in> measure length" by simp
qed

declare digit_runs.simps [simp del]

text \<open>A version array read at any index, with zeros past its end.\<close>

definition version_at :: "u32 list \<Rightarrow> nat \<Rightarrow> u32" where
  "version_at xs i = (if i < length xs then xs ! i else 0)"

definition first_diff_less :: "(nat \<Rightarrow> u32) \<Rightarrow> (nat \<Rightarrow> u32) \<Rightarrow> bool" where
  "first_diff_less f g \<longleftrightarrow> (\<exists>i. (\<forall>j < i. f j = g j) \<and> f i < g i)"

section \<open>The parser\<close>

lemma digit_runs_skip: "\<not> isdigit c \<Longrightarrow> digit_runs (c # cs) = digit_runs cs"
  by (subst (1 2) digit_runs.simps) simp

lemma digit_runs_Nil [simp]: "digit_runs [] = []"
  by (simp add: digit_runs.simps)

lemma digit_runs_all_digits:
  assumes "buf \<noteq> []" "list_all isdigit buf"
  shows "digit_runs buf = [buf]"
proof -
  have skip: "dropWhile (\<lambda>c. \<not> isdigit c) buf = buf" using assms by (cases buf) auto
  have run: "takeWhile isdigit buf = buf" and rest: "dropWhile isdigit buf = []"
    using assms by (auto simp: list_all_iff takeWhile_eq_all_conv dropWhile_eq_Nil_conv)
  show ?thesis using assms(1) by (subst digit_runs.simps) (simp add: skip run rest)
qed

lemma takeWhile_run: "list_all p buf \<Longrightarrow> \<not> p c \<Longrightarrow> takeWhile p (buf @ c # cs) = buf"
  by (induction buf) auto

lemma dropWhile_run: "list_all p buf \<Longrightarrow> \<not> p c \<Longrightarrow> dropWhile p (buf @ c # cs) = c # cs"
  by (induction buf) auto

lemma digit_runs_run:
  assumes "buf \<noteq> []" "list_all isdigit buf" "\<not> isdigit c"
  shows "digit_runs (buf @ c # cs) = buf # digit_runs cs"
proof -
  have "dropWhile (\<lambda>c. \<not> isdigit c) (buf @ c # cs) = buf @ c # cs"
    using assms by (cases buf) auto
  then show ?thesis
    using assms
    by (subst digit_runs.simps) (simp add: Let_def takeWhile_run dropWhile_run digit_runs_skip)
qed

text \<open>A run that is still growing is at least as long as the digits read so far.\<close>

lemma digit_runs_prefix:
  assumes "list_all isdigit buf" "isdigit c"
  shows "\<exists>r \<in> set (digit_runs (buf @ c # cs)). length buf < length r"
proof -
  let ?s = "buf @ c # cs"
  have d: "dropWhile (\<lambda>c. \<not> isdigit c) ?s = ?s" using assms by (cases buf) auto
  have "takeWhile isdigit ?s = buf @ c # takeWhile isdigit cs"
    using assms by (induction buf) auto
  then show ?thesis by (subst digit_runs.simps) (simp add: d Let_def)
qed

lemma version_loop_runs:
  assumes "list_all isdigit buf" "length arr \<le> DEFAULT_ARRAY_LEN"
    and "buf \<noteq> [] \<longrightarrow> length arr < DEFAULT_ARRAY_LEN"
    and "\<forall>r \<in> set (digit_runs (buf @ cs)). length r < DEFAULT_BUFF_LEN"
  shows "\<exists>ba. version_loop cs buf arr = Inr ba \<and> version_tail ba =
           Inr (arr @ map atoi_u32
             (take (DEFAULT_ARRAY_LEN - length arr) (digit_runs (buf @ cs))))"
  using assms
proof (induction cs buf arr rule: version_loop.induct)
  case (1 buf arr)
  then show ?case by (cases "buf = []") (auto simp: version_tail_def digit_runs_all_digits)
next
  case (2 c cs buf arr)
  show ?case
  proof (cases "length arr < DEFAULT_ARRAY_LEN")
    case full: False
    then show ?thesis using 2 by (auto simp: version_tail_def)
  next
    case room: True
    show ?thesis
    proof (cases "isdigit c")
      case True
      obtain r where "r \<in> set (digit_runs (buf @ c # cs))" "length buf < length r"
        using digit_runs_prefix [of buf c cs] 2(4) True by blast
      moreover from this 2(7) have "length r < DEFAULT_BUFF_LEN" by blast
      ultimately have fits: "length buf + 1 < DEFAULT_BUFF_LEN" by simp
      from 2 True room fits show ?thesis by simp
    next
      case nodigit: False
      show ?thesis
      proof (cases "buf = []")
        case True
        with 2 nodigit room show ?thesis by (simp add: digit_runs_skip)
      next
        case False
        with 2 nodigit room have r: "digit_runs (buf @ c # cs) = buf # digit_runs cs"
          by (simp add: digit_runs_run)
        have "take (DEFAULT_ARRAY_LEN - length arr) (buf # digit_runs cs) =
            buf # take (DEFAULT_ARRAY_LEN - Suc (length arr)) (digit_runs cs)"
          using room by (simp add: Suc_diff_Suc [symmetric])
        moreover from 2 False nodigit room r
        have "\<exists>ba. version_loop cs [] (arr @ [atoi_u32 buf]) = Inr ba \<and> version_tail ba =
            Inr ((arr @ [atoi_u32 buf]) @ map atoi_u32
               (take (DEFAULT_ARRAY_LEN - length (arr @ [atoi_u32 buf])) (digit_runs cs)))"
          by simp
        ultimately show ?thesis using False nodigit room r by simp
      qed
    qed
  qed
qed

text \<open>Whatever the input, the number array is not overrun.\<close>

lemma version_loop_array:
  "length arr \<le> DEFAULT_ARRAY_LEN \<Longrightarrow> (buf \<noteq> [] \<longrightarrow> length arr < DEFAULT_ARRAY_LEN) \<Longrightarrow>
   version_loop cs buf arr = Inr (buf', arr') \<Longrightarrow>
   length arr' \<le> DEFAULT_ARRAY_LEN \<and> (buf' \<noteq> [] \<longrightarrow> length arr' < DEFAULT_ARRAY_LEN)"
  by (induction cs buf arr rule: version_loop.induct) (auto split: if_splits)

lemma version_loop_error: "version_loop cs buf arr = Inl e \<Longrightarrow> e = BufferOverflow"
  by (induction cs buf arr rule: version_loop.induct) (auto split: if_splits)

text \<open>
  whatever version string is parsed, the array of numbers (16 entries) is never written past its
  end, and a successful parse returns at most 16 numbers.
\<close>

theorem versionStringToInt_array_safe:
  "versionStringToInt s \<noteq> Inl ArrayOverflow \<and>
   (\<forall>xs. versionStringToInt s = Inr xs \<longrightarrow> length xs \<le> 16)"
proof (cases "is_zigbee_version s")
  case True
  then show ?thesis by (auto simp: versionStringToInt_def split: option.splits)
next
  case False
  show ?thesis
  proof (cases "version_loop s [] []")
    case (Inl e)
    then show ?thesis using False version_loop_error by (auto simp: versionStringToInt_def)
  next
    case (Inr ba)
    then obtain buf arr where ba: "ba = (buf, arr)" by (cases ba)
    have "length arr \<le> DEFAULT_ARRAY_LEN \<and> (buf \<noteq> [] \<longrightarrow> length arr < DEFAULT_ARRAY_LEN)"
      using version_loop_array [of "[]" "[]" s buf arr] Inr ba by (simp add: DEFAULT_ARRAY_LEN_def)
    then show ?thesis
      using False Inr ba
      by (auto simp: versionStringToInt_def version_tail_def DEFAULT_ARRAY_LEN_def)
  qed
qed

text \<open>A witness for C1: twenty numbers in the string, sixteen in the result.\<close>

theorem versionStringToInt_array_safe_witness:
  "length (projr (versionStringToInt ''1.2.3.4.5.6.7.8.9.1.2.3.4.5.6.7.8.9.1.2'')) \<le> 16"
proof -
  obtain xs where "versionStringToInt ''1.2.3.4.5.6.7.8.9.1.2.3.4.5.6.7.8.9.1.2'' = Inr xs"
    by (simp add: versionStringToInt_def is_zigbee_version_def version_tail_def isdigit_def
        DEFAULT_ARRAY_LEN_def DEFAULT_BUFF_LEN_def)
  then show ?thesis
    using versionStringToInt_array_safe [of "''1.2.3.4.5.6.7.8.9.1.2.3.4.5.6.7.8.9.1.2''"] by auto
qed

text \<open>
  a version string in dotted form, none of whose digit runs is longer than 31 digits, is parsed
  into the numbers of its first sixteen digit runs, in order.
\<close>

theorem versionStringToInt_runs:
  assumes "\<not> is_zigbee_version s" and "\<forall>r \<in> set (digit_runs s). length r \<le> 31"
  shows "versionStringToInt s = Inr (map atoi_u32 (take 16 (digit_runs s)))"
proof -
  have "\<forall>r \<in> set (digit_runs ([] @ s)). length r < DEFAULT_BUFF_LEN"
    using assms(2) by (auto simp: DEFAULT_BUFF_LEN_def)
  then show ?thesis
    using version_loop_runs [of "[]" "[]" s] assms(1)
    by (auto simp: versionStringToInt_def DEFAULT_ARRAY_LEN_def split: sum.splits)
qed

theorem versionStringToInt_runs_witness:
  "versionStringToInt ''1.0.3.R13'' = Inr [1, 0, 3, 13]"
proof -
  have runs: "digit_runs ''1.0.3.R13'' = [''1'', ''0'', ''3'', ''13'']"
    by (simp add: digit_runs.simps isdigit_def Let_def)
  then have "\<forall>r \<in> set (digit_runs ''1.0.3.R13''). length r \<le> 31" by simp
  moreover have "\<not> is_zigbee_version ''1.0.3.R13''" by (simp add: is_zigbee_version_def)
  ultimately show ?thesis
    using versionStringToInt_runs [of "''1.0.3.R13''"] runs
    by (simp add: atoi_u32_def dec_value_def)
qed

text \<open>
  a run of 32 digits makes the parser write past its 32-byte digit buffer (the terminator goes
  to index 32).
\<close>

theorem versionStringToInt_digit_buffer_overflow:
  "versionStringToInt (replicate 32 CHR ''1'') = Inl BufferOverflow"
  by code_simp

section \<open>The comparison\<close>

lemma first_diff_less_unfold:
  "first_diff_less f g \<longleftrightarrow> f 0 < g 0 \<or> (f 0 = g 0 \<and> first_diff_less (f \<circ> Suc) (g \<circ> Suc))"
proof -
  have "(\<exists>i. (\<forall>j < i. f j = g j) \<and> f i < g i) \<longleftrightarrow>
      f 0 < g 0 \<or> (\<exists>i. (\<forall>j < Suc i. f j = g j) \<and> f (Suc i) < g (Suc i))"
    by (metis not0_implies_Suc not_less_zero)
  also have "\<dots> \<longleftrightarrow> f 0 < g 0 \<or> (f 0 = g 0 \<and> first_diff_less (f \<circ> Suc) (g \<circ> Suc))"
    by (simp add: first_diff_less_def All_less_Suc2)
  finally show ?thesis by (simp add: first_diff_less_def)
qed

lemma version_at_simps [simp]:
  "version_at [] = (\<lambda>_. 0)" "version_at (x # xs) 0 = x" "version_at (x # xs) \<circ> Suc = version_at xs"
  by (auto simp: version_at_def fun_eq_iff)

lemma zero_not_less_zero [simp]: "\<not> first_diff_less f (\<lambda>_. 0)"
  by (simp add: first_diff_less_def)

lemma first_diff_less_zero_Cons [simp]:
  "first_diff_less (\<lambda>_. 0) (version_at (x # xs)) \<longleftrightarrow>
     x \<noteq> 0 \<or> first_diff_less (\<lambda>_. 0) (version_at xs)"
proof -
  have "(\<lambda>_. 0 :: u32) \<circ> Suc = (\<lambda>_. 0)" by (simp add: comp_def)
  then show ?thesis
    using first_diff_less_unfold [of "\<lambda>_. 0" "version_at (x # xs)"] by (auto simp: word_neq_0_conv)
qed

lemma cmp_right_rest_spec:
  "cmp_right_rest r = (if first_diff_less (\<lambda>_. 0) (version_at r) then 1 else 0)"
  by (induction r) simp_all

lemma compareVersionArrays_spec:
  "compareVersionArrays l r =
     (if first_diff_less (version_at r) (version_at l) then -1
      else if first_diff_less (version_at l) (version_at r) then 1 else 0)"
proof (induction l r rule: compareVersionArrays.induct)
  case (1 right)
  then show ?case by (simp add: cmp_right_rest_spec)
next
  case (2 l left)
  then show ?case by simp
next
  case (3 l left r right)
  then show ?case
    by (subst (1 2) first_diff_less_unfold) auto
qed

lemma first_diff_less_asym: "first_diff_less f g \<Longrightarrow> \<not> first_diff_less g f"
  unfolding first_diff_less_def
  by (metis linorder_neqE_nat order_less_asym order_less_irrefl)

lemma first_diff_less_trans:
  assumes "first_diff_less f g" "first_diff_less g h"
  shows "first_diff_less f h"
proof -
  obtain i j where "\<forall>k < i. f k = g k" "f i < g i" "\<forall>k < j. g k = h k" "g j < h j"
    using assms by (auto simp: first_diff_less_def)
  then have "(\<forall>k < min i j. f k = h k) \<and> f (min i j) < h (min i j)"
    by (cases i j rule: linorder_cases) (auto simp: min_def dest: order_less_trans)
  then show ?thesis unfolding first_diff_less_def by blast
qed

lemma first_diff_less_total: "f \<noteq> g \<Longrightarrow> first_diff_less f g \<or> first_diff_less g f"
proof -
  assume "f \<noteq> g"
  then have ex: "\<exists>i. f i \<noteq> g i" by auto
  define i where "i = (LEAST i. f i \<noteq> g i)"
  have "f i \<noteq> g i" and "\<forall>j < i. f j = g j"
    using LeastI_ex [OF ex] not_less_Least unfolding i_def by blast+
  then show ?thesis unfolding first_diff_less_def by (metis linorder_neqE)
qed

text \<open>
  The contract of a three-way version comparison, as its callers use it (a negative result: the
  left version is newer). From the agreement with the padded keys follow the order laws.
\<close>

locale version_comparison =
  fixes cmp :: "'v \<Rightarrow> 'v \<Rightarrow> int"
    and key :: "'v \<Rightarrow> nat \<Rightarrow> u32"
  assumes cmp_key: "cmp l r =
     (if first_diff_less (key r) (key l) then -1
      else if first_diff_less (key l) (key r) then 1 else 0)"
begin

lemma cmp_antisym: "cmp r l = - cmp l r"
  using first_diff_less_asym [of "key l" "key r"] by (auto simp: cmp_key)

lemma cmp_equal_iff: "cmp l r = 0 \<longleftrightarrow> key l = key r"
proof
  show "key l = key r" if "cmp l r = 0"
    using that first_diff_less_total [of "key l" "key r"] by (auto simp: cmp_key split: if_splits)
  show "cmp l r = 0" if "key l = key r"
    using that by (auto simp: cmp_key first_diff_less_def)
qed

lemma cmp_newer_trans: "cmp a b = -1 \<Longrightarrow> cmp b c = -1 \<Longrightarrow> cmp a c = -1"
  using first_diff_less_trans [of "key c" "key b" "key a"] by (auto simp: cmp_key split: if_splits)

lemma cmp_newer_equal_trans: "cmp a b = -1 \<Longrightarrow> cmp b c = 0 \<Longrightarrow> cmp a c = -1"
  by (metis cmp_equal_iff cmp_key)

lemma cmp_range: "cmp l r \<in> {-1, 0, 1}"
  by (simp add: cmp_key)

end

interpretation va: version_comparison compareVersionArrays version_at
  by unfold_locales (rule compareVersionArrays_spec)

text \<open>
  C38. comparing two version arrays is comparing them, padded with zeros, at the first index where
  they differ: -1 when the left is the greater there, 1 when the right is, 0 when no index differs.
\<close>

theorem compareVersionArrays_lexicographic:
  "compareVersionArrays l r =
     (if first_diff_less (version_at r) (version_at l) then -1
      else if first_diff_less (version_at l) (version_at r) then 1 else 0)"
  by (rule va.cmp_key)

text \<open>
  The comparison is a total preorder on version arrays: exchanging the arguments flips the sign,
  "newer" is transitive, and two arrays compare equal exactly when they differ in trailing zeros only.
\<close>

lemma compareVersionArrays_order:
  "compareVersionArrays r l = - compareVersionArrays l r \<and>
   (compareVersionArrays a b = -1 \<and> compareVersionArrays b c = -1 \<longrightarrow>
      compareVersionArrays a c = -1) \<and>
   (compareVersionArrays l r = 0 \<longleftrightarrow> version_at l = version_at r)"
  using va.cmp_antisym va.cmp_newer_trans va.cmp_equal_iff by blast

end
