(* ===== verification/Device_Descriptors.thy ===== *)
theory Device_Descriptors
  imports Barton_Externals Version_Utils "HOL-Library.Monad_Syntax"
begin

text \<open>
  The device descriptor library, \<^verbatim>\<open>libs/device/descriptors/c/src/deviceDescriptors.c\<close> and
  \<^verbatim>\<open>deviceDescriptor.c\<close>: the descriptor structure and its deep copy, the version tests, the list of
  descriptors loaded once from the allow and deny lists, and the search that decides whether a device
  is allowed. The parser (\<^verbatim>\<open>parser.c\<close>, theory \<open>Descriptor_Parser\<close>) is the argument \<open>parse\<close>. A lookup is
  \<open>None\<close> where the code reads through a \<^verbatim>\<open>NULL\<close> pointer: a descriptor need not have a manufacturer or a model.
\<close>

section \<open>Data\<close>

datatype DeviceDescriptorType = DEVICE_DESCRIPTOR_TYPE_UNKNOWN
  | DEVICE_DESCRIPTOR_TYPE_LEGACY_ZIGBEE | DEVICE_DESCRIPTOR_TYPE_ZIGBEE
  | DEVICE_DESCRIPTOR_TYPE_CAMERA

datatype CameraProtocol = CAMERA_PROTOCOL_UNKNOWN | CAMERA_PROTOCOL_LEGACY | CAMERA_PROTOCOL_OPENHOME

datatype DeviceFirmwareType = DEVICE_FIRMWARE_TYPE_UNKNOWN | DEVICE_FIRMWARE_TYPE_ZIGBEE_OTA
  | DEVICE_FIRMWARE_TYPE_ZIGBEE_LEGACY | DEVICE_FIRMWARE_TYPE_CAMERA

datatype PostUpgradeAction = POST_UPGRADE_ACTION_NONE | POST_UPGRADE_ACTION_RECONFIGURE

record DeviceFirmwareFileInfo =
  fileName :: cstr
  checksum :: cstr

record DeviceFirmware =
  fw_version :: cstr
  fileInfos :: "DeviceFirmwareFileInfo list option"
  fw_type :: DeviceFirmwareType
  upgradeAction :: PostUpgradeAction

datatype DeviceVersionListType = DEVICE_VERSION_LIST_TYPE_UNKNOWN | DEVICE_VERSION_LIST_TYPE_LIST
  | DEVICE_VERSION_LIST_TYPE_WILDCARD | DEVICE_VERSION_LIST_TYPE_RANGE
  | DEVICE_VERSION_LIST_TYPE_LIST_AND_RANGE

record DeviceVersionList =
  listType :: DeviceVersionListType
  format :: cstr
  versionList :: "cstr list option"
  versionIsWildcarded :: bool
  range_from :: cstr
  range_to :: cstr

datatype CategoryType = CATEGORY_TYPE_UNKNOWN | CATEGORY_TYPE_ZIGBEE | CATEGORY_TYPE_CAMERA
  | CATEGORY_TYPE_PHILIPS_HUE | CATEGORY_TYPE_MATTER

record MatterTechnology =
  vendorId :: u16
  productId :: u16

record CameraMotionSettings =
  motion_enabled :: bool
  sensitivity :: "int \<times> int \<times> int"
  detectionThreshold :: "int \<times> int \<times> int"
  regionOfInterest :: "int list"

text \<open>
  \<^verbatim>\<open>CameraDeviceDescriptor\<close> extends the base structure; its two fields are present exactly for the
  camera type, here as an optional pair.
\<close>

record DeviceDescriptor =
  deviceDescriptorType :: DeviceDescriptorType
  dd_uuid :: cstr
  description :: cstr
  manufacturer :: cstr
  model :: cstr
  hardwareVersions :: "DeviceVersionList option"
  firmwareVersions :: "DeviceVersionList option"
  minSupportedFirmwareVersion :: cstr
  dd_metadata :: "(string, string) hmap option"
  latestFirmware :: "DeviceFirmware option"
  cascadeAddDeleteEndpoints :: bool
  category :: CategoryType
  matter :: "MatterTechnology option"
  camera :: "(CameraProtocol \<times> CameraMotionSettings) option"

section \<open>Copying a descriptor\<close>

definition cloneDeviceFirmwareFileInfo :: "DeviceFirmwareFileInfo \<Rightarrow> DeviceFirmwareFileInfo" where
  "cloneDeviceFirmwareFileInfo i = \<lparr>fileName = fileName i, checksum = checksum i\<rparr>"

text \<open>The copy starts from zeroed memory, and every field not assigned keeps that value.\<close>

definition cloneDeviceVersionList :: "DeviceVersionList option \<Rightarrow> DeviceVersionList option" where
  "cloneDeviceVersionList vl = (case vl of None \<Rightarrow> None | Some l \<Rightarrow>
     Some \<lparr>listType = listType l, format = format l,
       versionList = map_option (map (\<lambda>s. s)) (versionList l),
       versionIsWildcarded = False, range_from = range_from l, range_to = range_to l\<rparr>)"

definition deviceDescriptorClone :: "DeviceDescriptor option \<Rightarrow> DeviceDescriptor option" where
  "deviceDescriptorClone d = (case d of None \<Rightarrow> None | Some dd \<Rightarrow>
     Some \<lparr>deviceDescriptorType = deviceDescriptorType dd, dd_uuid = dd_uuid dd,
       description = description dd, manufacturer = manufacturer dd, model = model dd,
       hardwareVersions = cloneDeviceVersionList (hardwareVersions dd),
       firmwareVersions = cloneDeviceVersionList (firmwareVersions dd),
       minSupportedFirmwareVersion = minSupportedFirmwareVersion dd,
       dd_metadata = dd_metadata dd,
       latestFirmware = map_option (\<lambda>f. \<lparr>fw_version = fw_version f,
         fileInfos = map_option (map cloneDeviceFirmwareFileInfo) (fileInfos f),
         fw_type = fw_type f, upgradeAction = upgradeAction f\<rparr>) (latestFirmware dd),
       cascadeAddDeleteEndpoints = cascadeAddDeleteEndpoints dd, category = category dd,
       matter = map_option (\<lambda>m. \<lparr>vendorId = vendorId m, productId = productId m\<rparr>) (matter dd),
       camera = (if deviceDescriptorType dd = DEVICE_DESCRIPTOR_TYPE_CAMERA then camera dd else None)\<rparr>)"

definition deviceDescriptorGetMetadataValue :: "DeviceDescriptor option \<Rightarrow> string \<Rightarrow> cstr" where
  "deviceDescriptorGetMetadataValue d key = (case d of None \<Rightarrow> None | Some dd \<Rightarrow>
     (case dd_metadata dd of None \<Rightarrow> None | Some m \<Rightarrow> hashMapGet m key))"

section \<open>Version tests\<close>

fun versionInAllowedList :: "util_api \<Rightarrow> string \<Rightarrow> cstr list option \<Rightarrow> bool" where
  "versionInAllowedList U versionInput None = False"
| "versionInAllowedList U versionInput (Some []) = False"
| "versionInAllowedList U versionInput (Some (allowed # rest)) =
     (if stringCompare U allowed (Some versionInput) True = 0 then True
      else versionInAllowedList U versionInput (Some rest))"

text \<open>
  One bound of a range: an empty bound keeps the default, a bound that is not a number makes the
  range invalid (\<open>None\<close>).
\<close>

definition range_bound :: "util_api \<Rightarrow> string \<Rightarrow> u64 \<Rightarrow> u64 option" where
  "range_bound U s dflt = (if stringIsEmpty U (Some s) then Some dflt else stringToUint64 U (Some s))"

definition versionInAllowedRange :: "util_api \<Rightarrow> string \<Rightarrow> cstr \<Rightarrow> cstr \<Rightarrow> bool" where
  "versionInAllowedRange U versionInput minVersionValue maxVersionValue =
     (case stringToUint64 U (Some versionInput) of None \<Rightarrow> False | Some input \<Rightarrow>
        (case (minVersionValue, maxVersionValue) of
           (Some mn, Some mx) \<Rightarrow>
             (case (range_bound U mn 0, range_bound U mx (- 1)) of
                (Some minValue, Some maxValue) \<Rightarrow> minValue \<le> input \<and> input \<le> maxValue
              | _ \<Rightarrow> False)
         | _ \<Rightarrow> False))"

definition versionInRange :: "util_api \<Rightarrow> cstr \<Rightarrow> DeviceVersionList option \<Rightarrow> bool" where
  "versionInRange U versionInput allowedVersions =
     (case (versionInput, allowedVersions) of
        (Some v, Some a) \<Rightarrow>
          (if listType a = DEVICE_VERSION_LIST_TYPE_WILDCARD then True
           else if versionInAllowedList U v (versionList a) then True
           else versionInAllowedRange U v (range_from a) (range_to a))
      | _ \<Rightarrow> False)"

section \<open>The descriptor store\<close>

record dd_state =
  allowListPath :: string
  denyListPath :: string
  deviceDescriptors :: "DeviceDescriptor list option"

text \<open>\<^verbatim>\<open>PATH_MAX - 1\<close> bytes are copied; the rest of the static buffer stays zero.\<close>

definition PATH_MAX :: nat where "PATH_MAX = 4096"

definition deviceDescriptorsInit :: "cstr \<Rightarrow> cstr \<Rightarrow> dd_state \<Rightarrow> dd_state" where
  "deviceDescriptorsInit wlPath blPath st =
     (let st1 = (case wlPath of None \<Rightarrow> st | Some p \<Rightarrow> st\<lparr>allowListPath := take (PATH_MAX - 1) p\<rparr>)
      in (case blPath of None \<Rightarrow> st1 | Some p \<Rightarrow> st1\<lparr>denyListPath := take (PATH_MAX - 1) p\<rparr>))"

definition deviceDescriptorsCleanup :: "dd_state \<Rightarrow> dd_state" where
  "deviceDescriptorsCleanup st = st\<lparr>deviceDescriptors := None\<rparr>"

definition getAllowListPath :: "dd_state \<Rightarrow> cstr" where
  "getAllowListPath st = (if length (allowListPath st) > 0 then Some (allowListPath st) else None)"

definition getDenyListPath :: "dd_state \<Rightarrow> cstr" where
  "getDenyListPath st = (if length (denyListPath st) > 0 then Some (denyListPath st) else None)"

type_synonym dd_parser = "string \<Rightarrow> string \<Rightarrow> DeviceDescriptor list option option"

definition parseFiles :: "dd_parser \<Rightarrow> dd_state \<Rightarrow> (bool \<times> dd_state) option" where
  "parseFiles parse st =
     (if allowListPath st = [] then Some (False, st)
      else do { dds \<leftarrow> parse (allowListPath st) (denyListPath st); Some (True, st\<lparr>deviceDescriptors := dds\<rparr>) })"

fun dd_search ::
  "util_api \<Rightarrow> string \<Rightarrow> string \<Rightarrow> cstr \<Rightarrow> cstr \<Rightarrow> DeviceDescriptor list \<Rightarrow> DeviceDescriptor option option"
where
  "dd_search U man mdl hw fw [] = Some None"
| "dd_search U man mdl hw fw (dd # rest) = do {
     m \<leftarrow> manufacturer dd;
     if man \<noteq> m then dd_search U man mdl hw fw rest
     else do {
       n \<leftarrow> model dd;
       if mdl \<noteq> n then dd_search U man mdl hw fw rest
       else if \<not> versionInRange U hw (hardwareVersions dd) then dd_search U man mdl hw fw rest
       else if \<not> versionInRange U fw (firmwareVersions dd) then dd_search U man mdl hw fw rest
       else Some (deviceDescriptorClone (Some dd)) } }"

definition deviceDescriptorsGet ::
  "util_api \<Rightarrow> dd_parser \<Rightarrow> cstr \<Rightarrow> cstr \<Rightarrow> cstr \<Rightarrow> cstr \<Rightarrow> dd_state \<Rightarrow>
   (DeviceDescriptor option \<times> dd_state) option"
where
  "deviceDescriptorsGet U parse man mdl hw fw st =
     (case (man, mdl) of
        (Some manufacturer', Some model') \<Rightarrow> do {
          (_, st') \<leftarrow> (if deviceDescriptors st = None then parseFiles parse st else Some (True, st));
          case deviceDescriptors st' of
            Some dds \<Rightarrow>
              if length dds > 0 then map_option (\<lambda>r. (r, st')) (dd_search U manufacturer' model' hw fw dds)
              else Some (None, st')
          | None \<Rightarrow> Some (None, st') }
      | _ \<Rightarrow> Some (None, st))"

section \<open>Reference notions\<close>

text \<open>Numeric range test of a version against optional bounds.\<close>

definition in_numeric_range :: "util_api \<Rightarrow> string \<Rightarrow> string \<Rightarrow> string \<Rightarrow> bool" where
  "in_numeric_range U v lo hi \<longleftrightarrow> (\<exists>n. stringToUint64 U (Some v) = Some n \<and>
     (lo = [] \<or> (\<exists>l. stringToUint64 U (Some lo) = Some l \<and> l \<le> n)) \<and>
     (hi = [] \<or> (\<exists>h. stringToUint64 U (Some hi) = Some h \<and> n \<le> h)))"

definition version_admitted :: "util_api \<Rightarrow> string \<Rightarrow> DeviceVersionList \<Rightarrow> bool" where
  "version_admitted U v a \<longleftrightarrow>
     listType a = DEVICE_VERSION_LIST_TYPE_WILDCARD \<or>
     (\<exists>vs w. versionList a = Some vs \<and> Some w \<in> set vs \<and> lower w = lower v) \<or>
     (\<exists>lo hi. range_from a = Some lo \<and> range_to a = Some hi \<and> in_numeric_range U v lo hi)"

definition dd_admits :: "util_api \<Rightarrow> string \<Rightarrow> string \<Rightarrow> string \<Rightarrow> string \<Rightarrow> DeviceDescriptor \<Rightarrow> bool" where
  "dd_admits U man mdl hw fw dd \<longleftrightarrow> manufacturer dd = Some man \<and> model dd = Some mdl \<and>
     (\<exists>h. hardwareVersions dd = Some h \<and> version_admitted U hw h) \<and>
     (\<exists>f. firmwareVersions dd = Some f \<and> version_admitted U fw f)"

definition dd_matches :: "util_api \<Rightarrow> string \<Rightarrow> string \<Rightarrow> cstr \<Rightarrow> cstr \<Rightarrow> DeviceDescriptor \<Rightarrow> bool" where
  "dd_matches U man mdl hw fw dd \<longleftrightarrow> manufacturer dd = Some man \<and> model dd = Some mdl \<and>
     versionInRange U hw (hardwareVersions dd) \<and> versionInRange U fw (firmwareVersions dd)"

definition dd_named :: "DeviceDescriptor \<Rightarrow> bool" where
  "dd_named dd \<longleftrightarrow> manufacturer dd \<noteq> None \<and> model dd \<noteq> None"

section \<open>Lemmas\<close>

lemma versionInAllowedList_iff:
  assumes "util_ok U"
  shows "versionInAllowedList U v (Some vs) \<longleftrightarrow> (\<exists>w. Some w \<in> set vs \<and> lower w = lower v)"
proof (induction vs)
  case (Cons a vs)
  then show ?case by (cases a) (auto simp: util_okD [OF assms])
qed simp

lemma u64_le_max: "(x :: u64) \<le> - 1"
  by simp

lemma versionInAllowedRange_iff:
  assumes "util_ok U"
  shows "versionInAllowedRange U v (Some lo) (Some hi) \<longleftrightarrow> in_numeric_range U v lo hi"
  by (auto simp: versionInAllowedRange_def in_numeric_range_def range_bound_def util_okD [OF assms]
      split: option.splits)

lemma versionInRange_iff:
  assumes "util_ok U"
  shows "versionInRange U (Some v) (Some a) \<longleftrightarrow> version_admitted U v a"
proof -
  have "versionInAllowedRange U v (range_from a) (range_to a) \<longleftrightarrow>
      (\<exists>lo hi. range_from a = Some lo \<and> range_to a = Some hi \<and> in_numeric_range U v lo hi)"
    using versionInAllowedRange_iff [OF assms]
    by (cases "range_from a"; cases "range_to a") (auto simp: versionInAllowedRange_def split: option.splits)
  moreover have "versionInAllowedList U v (versionList a) \<longleftrightarrow>
      (\<exists>vs w. versionList a = Some vs \<and> Some w \<in> set vs \<and> lower w = lower v)"
    using versionInAllowedList_iff [OF assms] by (cases "versionList a") auto
  ultimately show ?thesis by (auto simp: versionInRange_def version_admitted_def)
qed

lemma versionInRange_None [simp]:
  "\<not> versionInRange U None a" "\<not> versionInRange U v None"
  by (auto simp: versionInRange_def split: option.splits)

lemma dd_search_find:
  "list_all dd_named dds \<Longrightarrow> dd_search U man mdl hw fw dds = Some (deviceDescriptorClone (find (dd_matches U man mdl hw fw) dds))"
  by (induction dds) (auto simp: dd_matches_def dd_named_def deviceDescriptorClone_def)

lemma dd_matches_admits:
  assumes "util_ok U"
  shows "dd_matches U man mdl (Some hw) (Some fw) dd \<longleftrightarrow> dd_admits U man mdl hw fw dd"
  using versionInRange_iff [OF assms]
  by (cases "hardwareVersions dd"; cases "firmwareVersions dd") (auto simp: dd_admits_def dd_matches_def)

text \<open>
  What a descriptor search promises its caller, on complete descriptors: a descriptor is returned
  exactly when one of the loaded descriptors admits the device, and it is a copy of the first that does.
\<close>

locale descriptor_search =
  fixes search :: "'d list \<Rightarrow> 'd option option"
    and admits :: "'d \<Rightarrow> bool"
    and complete :: "'d \<Rightarrow> bool"
    and copy :: "'d option \<Rightarrow> 'd option"
  assumes search_first: "list_all complete ds \<Longrightarrow> search ds = Some (copy (find admits ds))"
    and copy_total: "copy d = None \<longleftrightarrow> d = None"
begin

lemma search_Some_iff:
  assumes "list_all complete ds"
  shows "(\<exists>d. search ds = Some (Some d)) \<longleftrightarrow> (\<exists>d \<in> set ds. admits d)"
proof -
  have "(\<exists>d. search ds = Some (Some d)) \<longleftrightarrow> find admits ds \<noteq> None"
    using search_first [OF assms] copy_total [of "find admits ds"] by (cases "copy (find admits ds)") auto
  then show ?thesis by (simp add: find_None_iff Bex_def)
qed

lemma search_append_miss:
  "list_all complete ds \<Longrightarrow> list_all complete es \<Longrightarrow> (\<forall>d \<in> set ds. \<not> admits d) \<Longrightarrow> search (ds @ es) = search es"
  by (induction ds) (auto simp: search_first)

end

lemma deviceDescriptorClone_None [simp]: "deviceDescriptorClone d = None \<longleftrightarrow> d = None"
  by (simp add: deviceDescriptorClone_def split: option.splits)

interpretation dds: descriptor_search
  "dd_search U man mdl hw fw" "dd_matches U man mdl hw fw" dd_named deviceDescriptorClone
  for U man mdl hw fw
  by unfold_locales (simp_all add: dd_search_find)

lemma dd_search_Some_iff:
  assumes "util_ok U" "list_all dd_named ds"
  shows "(\<exists>d. dd_search U man mdl (Some hw) (Some fw) ds = Some (Some d)) \<longleftrightarrow>
           (\<exists>d \<in> set ds. dd_admits U man mdl hw fw d)"
  by (simp add: dds.search_Some_iff [OF assms(2)] dd_matches_admits [OF assms(1)])

text \<open>
  a device version is accepted by a version list exactly when the list is a wildcard, or names the
  version (ignoring case), or has both range bounds and the version is a number between them, where an
  empty bound is open and a bound that is no number admits nothing.
\<close>

theorem versionInRange_exact:
  assumes "util_ok U"
  shows "versionInRange U (Some v) (Some a) \<longleftrightarrow> version_admitted U v a"
  by (rule versionInRange_iff [OF assms])

theorem versionInRange_exact_witness:
  "versionInRange example_util (Some ''12'')
     (Some \<lparr>listType = DEVICE_VERSION_LIST_TYPE_RANGE, format = None, versionList = None,
        versionIsWildcarded = False, range_from = Some ''7'', range_to = Some ''''\<rparr>)"
proof -
  let ?a = "\<lparr>listType = DEVICE_VERSION_LIST_TYPE_RANGE, format = None, versionList = None,
        versionIsWildcarded = False, range_from = Some ''7'', range_to = Some ''''\<rparr>"
  have "version_admitted example_util ''12'' ?a"
    by (simp add: version_admitted_def in_numeric_range_def example_util_def)
  then show ?thesis using versionInRange_exact [OF util_ok_example, of "''12''" ?a] by simp
qed

text \<open>
  C39. Looking a device up with its four identification strings gives a copy of the first loaded
  descriptor that admits it, and nothing exactly when none does: no device is allowed that no descriptor
  lists, none that one lists is rejected, and the order of the list decides between two that do. The
  descriptors must have a manufacturer and a model, which the search compares.
\<close>

theorem deviceDescriptorsGet_allows_exactly:
  assumes "util_ok U" and "deviceDescriptors st = Some ds" "\<forall>d \<in> set ds. manufacturer d \<noteq> None \<and> model d \<noteq> None"
  shows "\<exists>r. deviceDescriptorsGet U parse (Some man) (Some mdl) (Some hw) (Some fw) st = Some (r, st) \<and>
         (r \<noteq> None \<longleftrightarrow> (\<exists>d \<in> set ds. dd_admits U man mdl hw fw d)) \<and>
         r = deviceDescriptorClone (find (dd_admits U man mdl hw fw) ds) \<and>
         map_option dd_uuid r = map_option dd_uuid (find (dd_admits U man mdl hw fw) ds)"
proof -
  have "list_all dd_named ds" using assms(3) by (simp add: list_all_iff dd_named_def)
  moreover have "dd_matches U man mdl (Some hw) (Some fw) = dd_admits U man mdl hw fw"
    using dd_matches_admits [OF assms(1)] by (intro ext)
  ultimately have "dd_search U man mdl (Some hw) (Some fw) ds = Some (deviceDescriptorClone (find (dd_admits U man mdl hw fw) ds))"
    using dd_search_find [of ds U man mdl "Some hw" "Some fw"] by simp
  moreover have "find P [] = None" for P :: "DeviceDescriptor \<Rightarrow> bool" by simp
  ultimately show ?thesis
    using assms(2) find_None_iff [of "dd_admits U man mdl hw fw" ds]
    by (cases "find (dd_admits U man mdl hw fw) ds") (auto simp: deviceDescriptorsGet_def deviceDescriptorClone_def)
qed

definition example_dd :: DeviceDescriptor where
  "example_dd = \<lparr>deviceDescriptorType = DEVICE_DESCRIPTOR_TYPE_ZIGBEE, dd_uuid = Some ''u1'',
     description = None, manufacturer = Some ''Bosch'', model = Some ''RFPR-ZB-MS'',
     hardwareVersions = Some \<lparr>listType = DEVICE_VERSION_LIST_TYPE_WILDCARD, format = None,
       versionList = None, versionIsWildcarded = True, range_from = None, range_to = None\<rparr>,
     firmwareVersions = Some \<lparr>listType = DEVICE_VERSION_LIST_TYPE_LIST, format = None,
       versionList = Some [Some ''0x21115401'', Some ''0x2311540A''], versionIsWildcarded = False,
       range_from = None, range_to = None\<rparr>,
     minSupportedFirmwareVersion = None, dd_metadata = None, latestFirmware = None,
     cascadeAddDeleteEndpoints = False, category = CATEGORY_TYPE_ZIGBEE, matter = None, camera = None\<rparr>"

definition example_dd_state :: dd_state where
  "example_dd_state = \<lparr>allowListPath = ''/w'', denyListPath = '''',
     deviceDescriptors = Some [example_dd, example_dd\<lparr>dd_uuid := Some ''u2''\<rparr>]\<rparr>"

theorem deviceDescriptorsGet_allows_exactly_witness:
  "\<exists>d. deviceDescriptorsGet example_util (\<lambda>_ _. Some None) (Some ''Bosch'') (Some ''RFPR-ZB-MS'')
      (Some ''19'') (Some ''0x2311540a'') example_dd_state = Some (Some d, example_dd_state) \<and> dd_uuid d = Some ''u1''"
proof -
  have same_ci: "lower ''0x2311540A'' = lower ''0x2311540a''" by code_simp
  have "dd_admits example_util ''Bosch'' ''RFPR-ZB-MS'' ''19'' ''0x2311540a'' example_dd"
    using same_ci by (auto simp: dd_admits_def version_admitted_def example_dd_def)
  moreover have "\<forall>d \<in> set [example_dd, example_dd\<lparr>dd_uuid := Some ''u2''\<rparr>]. manufacturer d \<noteq> None \<and> model d \<noteq> None"
    by (simp add: example_dd_def)
  moreover have "dd_uuid example_dd = Some ''u1''" by (simp add: example_dd_def)
  ultimately show ?thesis
    using deviceDescriptorsGet_allows_exactly [OF util_ok_example, of example_dd_state _ "\<lambda>_ _. Some None"
      "''Bosch''" "''RFPR-ZB-MS''" "''19''" "''0x2311540a''"] by (auto simp: example_dd_state_def)
qed

text \<open>
  the files are parsed at most once: once descriptors are loaded, lookups give the same answers whatever
  a second parse would return, and do not change the store.
\<close>

theorem deviceDescriptorsGet_loads_once:
  assumes "deviceDescriptors st' \<noteq> None"
  shows "deviceDescriptorsGet U parse' m2 n2 h2 f2 st' = deviceDescriptorsGet U parse m2 n2 h2 f2 st' \<and>
         (\<forall>r st''. deviceDescriptorsGet U parse m2 n2 h2 f2 st' = Some (r, st'') \<longrightarrow> st'' = st')"
  using assms by (auto simp: deviceDescriptorsGet_def split: option.splits if_splits)

text \<open>
  A descriptor without a manufacturer makes every lookup that reaches it fault, since its name is
  compared before anything else; one without a model does so for the devices of its manufacturer.
\<close>

theorem nameless_descriptor_faults:
  assumes "deviceDescriptors st = Some (ds @ dd # es)" "\<forall>d \<in> set ds. manufacturer d \<noteq> None \<and> manufacturer d \<noteq> Some man"
    and "manufacturer dd = None \<or> manufacturer dd = Some man \<and> model dd = None"
  shows "deviceDescriptorsGet U parse (Some man) (Some mdl) hw fw st = None"
proof -
  have "dd_search U man mdl hw fw (ds @ dd # es) = dd_search U man mdl hw fw (dd # es)"
    using assms(2) by (induction ds) auto
  then show ?thesis using assms(1,3) by (auto simp: deviceDescriptorsGet_def)
qed

theorem nameless_descriptor_faults_witness:
  "deviceDescriptorsGet example_util (\<lambda>_ _. None) (Some ''Acme'') (Some ''X'') (Some ''1'') (Some ''1'')
     (example_dd_state\<lparr>deviceDescriptors := Some [example_dd, example_dd\<lparr>manufacturer := None\<rparr>]\<rparr>) = None"
  by (rule nameless_descriptor_faults [where ds = "[example_dd]" and dd = "example_dd\<lparr>manufacturer := None\<rparr>" and es = "[]"])
    (simp_all add: example_dd_def)

text \<open>
  The copy handed to the caller agrees with the stored descriptor in every field, except that the
  wildcard flag inside its two version lists is not copied and reads false.
\<close>

lemma deviceDescriptorClone_fields:
  assumes "camera dd \<noteq> None \<longrightarrow> deviceDescriptorType dd = DEVICE_DESCRIPTOR_TYPE_CAMERA"
  shows "deviceDescriptorClone (Some dd) = Some (dd\<lparr>
     hardwareVersions := map_option (\<lambda>v. v\<lparr>versionIsWildcarded := False\<rparr>) (hardwareVersions dd),
     firmwareVersions := map_option (\<lambda>v. v\<lparr>versionIsWildcarded := False\<rparr>) (firmwareVersions dd)\<rparr>)"
proof -
  have "map_option (\<lambda>f. \<lparr>fw_version = fw_version f,
         fileInfos = map_option (map cloneDeviceFirmwareFileInfo) (fileInfos f),
         fw_type = fw_type f, upgradeAction = upgradeAction f\<rparr>) l = l" for l :: "DeviceFirmware option"
    by (cases l) (auto simp: cloneDeviceFirmwareFileInfo_def map_idI option.map_ident_strong)
  moreover have "cloneDeviceVersionList vl = map_option (\<lambda>v. v\<lparr>versionIsWildcarded := False\<rparr>) vl" for vl
    by (cases vl) (auto simp: cloneDeviceVersionList_def option.map_ident)
  moreover have "map_option (\<lambda>m. \<lparr>vendorId = vendorId m, productId = productId m\<rparr>) m = m"
    for m :: "MatterTechnology option"
    by (cases m) simp_all
  ultimately show ?thesis using assms by (cases "camera dd") (auto simp: deviceDescriptorClone_def)
qed

lemma deviceDescriptorClone_fields_example:
  "map_option (\<lambda>d. map_option versionIsWildcarded (hardwareVersions d))
     (deviceDescriptorClone (Some example_dd)) = Some (Some False)"
proof -
  have "camera example_dd \<noteq> None \<longrightarrow> deviceDescriptorType example_dd = DEVICE_DESCRIPTOR_TYPE_CAMERA"
    by (simp add: example_dd_def)
  from deviceDescriptorClone_fields [OF this] show ?thesis by (simp add: example_dd_def)
qed

end
