(* ===== verification/Zigbee_IO.thy ===== *)
theory Zigbee_IO
  imports Barton_Prelude
begin

unbundle bit_operations_syntax

text \<open>
  The payload reader and writer of the Zigbee subsystem, \<^verbatim>\<open>core/src/subsystems/zigbee/zigbeeIO.c\<close>:
  a cursor over a byte buffer, little-endian integers, strings with a length byte, and errors
  reported through \<^verbatim>\<open>errno\<close>. The cursor is an offset into the buffer, \<open>None\<close> for the null pointer the
  code sets on an error; \<^verbatim>\<open>end\<close> is the length of the buffer. \<^verbatim>\<open>errno\<close> is part of the state; only these
  functions change it here. The value switch of \<^verbatim>\<open>readVal\<close> and \<^verbatim>\<open>writeVal\<close> is called with the sizes 1, 2
  and 4 only, so its default branch has no counterpart.
\<close>

section \<open>The context\<close>

datatype ZigbeeIOMode = ZIO_READ | ZIO_WRITE

datatype errno = NoError | ESPIPE | EPERM | EINVAL

record ZigbeeIOContext =
  payload :: "u8 list"
  cur :: "nat option"
  mode :: ZigbeeIOMode
  errno :: errno

text \<open>Faults of C that the string writer can run into.\<close>

datatype zio_fault = NullWrite | BufferOverrun

definition checkEnd :: "ZigbeeIOContext \<Rightarrow> nat \<Rightarrow> ZigbeeIOContext" where
  "checkEnd ctx sz = (case cur ctx of
     None \<Rightarrow> ctx\<lparr>cur := None, errno := ESPIPE\<rparr>
   | Some c \<Rightarrow> if c + sz > length (payload ctx) then ctx\<lparr>cur := None, errno := ESPIPE\<rparr> else ctx)"

definition canPerformOperation :: "ZigbeeIOContext \<Rightarrow> nat \<Rightarrow> ZigbeeIOMode \<Rightarrow> ZigbeeIOContext \<times> bool" where
  "canPerformOperation ctx sz m =
     (let ctx' = (if mode ctx \<noteq> m then ctx\<lparr>cur := None, errno := EPERM\<rparr>
                  else if errno ctx = NoError then checkEnd ctx sz else ctx)
      in (ctx', errno ctx' = NoError))"

text \<open>Little-endian values.\<close>

definition le8 :: "u8 \<Rightarrow> u8 list" where "le8 v = [v]"
definition le16 :: "u16 \<Rightarrow> u8 list" where "le16 v = [ucast v, ucast (drop_bit 8 v)]"
definition le32 :: "u32 \<Rightarrow> u8 list" where
  "le32 v = [ucast v, ucast (drop_bit 8 v), ucast (drop_bit 16 v), ucast (drop_bit 24 v)]"

fun le8toh :: "u8 list \<Rightarrow> u8" where
  "le8toh [a] = a"
| "le8toh _ = 0"

fun le16toh :: "u8 list \<Rightarrow> u16" where
  "le16toh [a, b] = ucast a OR push_bit 8 (ucast b)"
| "le16toh _ = 0"

fun le32toh :: "u8 list \<Rightarrow> u32" where
  "le32toh [a, b, c, d] =
     ucast a OR push_bit 8 (ucast b) OR push_bit 16 (ucast c) OR push_bit 24 (ucast d)"
| "le32toh _ = 0"

text \<open>\<^verbatim>\<open>memcpy\<close> into and out of the buffer at the cursor.\<close>

definition splice :: "u8 list \<Rightarrow> nat \<Rightarrow> u8 list \<Rightarrow> u8 list" where
  "splice buf c bs = take c buf @ bs @ drop (c + length bs) buf"

definition advance :: "nat \<Rightarrow> ZigbeeIOContext \<Rightarrow> ZigbeeIOContext" where
  "advance n ctx = ctx\<lparr>cur := map_option (\<lambda>c. c + n) (cur ctx)\<rparr>"

definition readVal :: "ZigbeeIOContext \<Rightarrow> nat \<Rightarrow> ZigbeeIOContext \<times> u8 list option" where
  "readVal ctx sz =
     (case canPerformOperation ctx sz ZIO_READ of (ctx', ok) \<Rightarrow>
        if ok then (advance sz ctx', map_option (\<lambda>c. take sz (drop c (payload ctx'))) (cur ctx'))
        else (ctx', None))"

definition writeVal :: "ZigbeeIOContext \<Rightarrow> u8 list \<Rightarrow> ZigbeeIOContext" where
  "writeVal ctx bs =
     (case canPerformOperation ctx (length bs) ZIO_WRITE of (ctx', ok) \<Rightarrow>
        if ok then
          (case cur ctx' of None \<Rightarrow> ctx'
           | Some c \<Rightarrow> advance (length bs) (ctx'\<lparr>payload := splice (payload ctx') c bs\<rparr>))
        else ctx')"

section \<open>Public functions\<close>

definition zigbeeIOInit :: "u8 list \<Rightarrow> ZigbeeIOMode \<Rightarrow> ZigbeeIOContext" where
  "zigbeeIOInit buf m = \<lparr>payload = (if m = ZIO_WRITE then replicate (length buf) 0 else buf),
     cur = Some 0, mode = m, errno = NoError\<rparr>"

text \<open>A value that was not read keeps its initial 0.\<close>

definition zigbeeIOGetUint8 :: "ZigbeeIOContext \<Rightarrow> ZigbeeIOContext \<times> u8" where
  "zigbeeIOGetUint8 ctx = (case readVal ctx 1 of (ctx', bs) \<Rightarrow>
     (ctx', case bs of None \<Rightarrow> 0 | Some b \<Rightarrow> le8toh b))"

definition zigbeeIOPutUint8 :: "ZigbeeIOContext \<Rightarrow> u8 \<Rightarrow> ZigbeeIOContext" where
  "zigbeeIOPutUint8 ctx v = writeVal ctx (le8 v)"

text \<open>The signed readers return the same bits; \<^verbatim>\<open>int8_t\<close>, \<^verbatim>\<open>int16_t\<close> and \<^verbatim>\<open>int32_t\<close> read them with \<^const>\<open>sint\<close>.\<close>

definition zigbeeIOGetInt8 :: "ZigbeeIOContext \<Rightarrow> ZigbeeIOContext \<times> int" where
  "zigbeeIOGetInt8 ctx = (case readVal ctx 1 of (ctx', bs) \<Rightarrow>
     (ctx', sint (case bs of None \<Rightarrow> 0 | Some b \<Rightarrow> le8toh b)))"

definition zigbeeIOPutInt8 :: "ZigbeeIOContext \<Rightarrow> int \<Rightarrow> ZigbeeIOContext" where
  "zigbeeIOPutInt8 ctx v = writeVal ctx (le8 (word_of_int v))"

definition zigbeeIOGetUint16 :: "ZigbeeIOContext \<Rightarrow> ZigbeeIOContext \<times> u16" where
  "zigbeeIOGetUint16 ctx = (case readVal ctx 2 of (ctx', bs) \<Rightarrow>
     (ctx', case bs of None \<Rightarrow> 0 | Some b \<Rightarrow> le16toh b))"

definition zigbeeIOPutUint16 :: "ZigbeeIOContext \<Rightarrow> u16 \<Rightarrow> ZigbeeIOContext" where
  "zigbeeIOPutUint16 ctx v = writeVal ctx (le16 v)"

definition zigbeeIOGetInt16 :: "ZigbeeIOContext \<Rightarrow> ZigbeeIOContext \<times> int" where
  "zigbeeIOGetInt16 ctx = (case readVal ctx 2 of (ctx', bs) \<Rightarrow>
     (ctx', sint (case bs of None \<Rightarrow> 0 | Some b \<Rightarrow> le16toh b)))"

definition zigbeeIOPutInt16 :: "ZigbeeIOContext \<Rightarrow> int \<Rightarrow> ZigbeeIOContext" where
  "zigbeeIOPutInt16 ctx v = writeVal ctx (le16 (word_of_int v))"

definition zigbeeIOGetUint32 :: "ZigbeeIOContext \<Rightarrow> ZigbeeIOContext \<times> u32" where
  "zigbeeIOGetUint32 ctx = (case readVal ctx 4 of (ctx', bs) \<Rightarrow>
     (ctx', case bs of None \<Rightarrow> 0 | Some b \<Rightarrow> le32toh b))"

definition zigbeeIOPutUint32 :: "ZigbeeIOContext \<Rightarrow> u32 \<Rightarrow> ZigbeeIOContext" where
  "zigbeeIOPutUint32 ctx v = writeVal ctx (le32 v)"

definition zigbeeIOGetInt32 :: "ZigbeeIOContext \<Rightarrow> ZigbeeIOContext \<times> int" where
  "zigbeeIOGetInt32 ctx = (case readVal ctx 4 of (ctx', bs) \<Rightarrow>
     (ctx', sint (case bs of None \<Rightarrow> 0 | Some b \<Rightarrow> le32toh b)))"

definition zigbeeIOPutInt32 :: "ZigbeeIOContext \<Rightarrow> int \<Rightarrow> ZigbeeIOContext" where
  "zigbeeIOPutInt32 ctx v = writeVal ctx (le32 (word_of_int v))"

text \<open>Bytes of known length; the destination is left alone when the read is refused.\<close>

definition zigbeeIOGetBytes :: "ZigbeeIOContext \<Rightarrow> u8 \<Rightarrow> ZigbeeIOContext \<times> u8 list option" where
  "zigbeeIOGetBytes ctx len = readVal ctx (unat len)"

definition zigbeeIOPutBytes :: "ZigbeeIOContext \<Rightarrow> u8 list \<Rightarrow> u8 \<Rightarrow> ZigbeeIOContext" where
  "zigbeeIOPutBytes ctx buf len = writeVal ctx (take (unat len) buf)"

text \<open>
  A C string has no zero byte. \<^verbatim>\<open>strncpy\<close> out of the payload stops at one; the result is \<open>None\<close> for
  \<^verbatim>\<open>NULL\<close>.
\<close>

definition zigbeeIOGetString :: "ZigbeeIOContext \<Rightarrow> ZigbeeIOContext \<times> u8 list option" where
  "zigbeeIOGetString ctx =
     (case zigbeeIOGetUint8 ctx of (ctx1, len) \<Rightarrow>
      case canPerformOperation ctx1 (unat len) ZIO_READ of (ctx2, ok) \<Rightarrow>
        if ok then (advance (unat len) ctx2,
          map_option (\<lambda>c. takeWhile (\<lambda>b. b \<noteq> 0) (take (unat len) (drop c (payload ctx2)))) (cur ctx2))
        else (ctx2, None))"

text \<open>The writer checks room for the length byte only, and leaves the cursor after it.\<close>

definition zigbeeIOPutString :: "ZigbeeIOContext \<Rightarrow> u8 list \<Rightarrow> zio_fault + ZigbeeIOContext" where
  "zigbeeIOPutString ctx str =
     (if length str > 255 then Inr (ctx\<lparr>cur := None, errno := EINVAL\<rparr>)
      else let ctx' = writeVal ctx [word_of_nat (length str)] in
        (case cur ctx' of
           None \<Rightarrow> if str = [] then Inr ctx' else Inl NullWrite
         | Some c \<Rightarrow> if c + length str > length (payload ctx') then Inl BufferOverrun
                     else Inr (ctx'\<lparr>payload := splice (payload ctx') c str\<rparr>)))"

definition zigbeeIOGetRemainingSize :: "ZigbeeIOContext \<Rightarrow> ZigbeeIOContext \<times> nat" where
  "zigbeeIOGetRemainingSize ctx = (case cur ctx of
     Some c \<Rightarrow> if c \<le> length (payload ctx) then (ctx, length (payload ctx) - c)
               else (ctx\<lparr>errno := EINVAL\<rparr>, 0)
   | None \<Rightarrow> (ctx\<lparr>errno := EINVAL\<rparr>, 0))"

section \<open>Sequences of operations\<close>

text \<open>The calls a driver makes when it builds or takes apart a payload.\<close>

datatype zval = U8 u8 | I8 int | U16 u16 | I16 int | U32 u32 | I32 int | Bytes "u8 list"

fun put_val :: "ZigbeeIOContext \<Rightarrow> zval \<Rightarrow> ZigbeeIOContext" where
  "put_val ctx (U8 v) = zigbeeIOPutUint8 ctx v"
| "put_val ctx (I8 v) = zigbeeIOPutInt8 ctx v"
| "put_val ctx (U16 v) = zigbeeIOPutUint16 ctx v"
| "put_val ctx (I16 v) = zigbeeIOPutInt16 ctx v"
| "put_val ctx (U32 v) = zigbeeIOPutUint32 ctx v"
| "put_val ctx (I32 v) = zigbeeIOPutInt32 ctx v"
| "put_val ctx (Bytes b) = zigbeeIOPutBytes ctx b (word_of_nat (length b))"

text \<open>Reading a value of the shape of the given one.\<close>

fun get_val :: "ZigbeeIOContext \<Rightarrow> zval \<Rightarrow> ZigbeeIOContext \<times> zval" where
  "get_val ctx (U8 _) = map_prod id U8 (zigbeeIOGetUint8 ctx)"
| "get_val ctx (I8 _) = map_prod id I8 (zigbeeIOGetInt8 ctx)"
| "get_val ctx (U16 _) = map_prod id U16 (zigbeeIOGetUint16 ctx)"
| "get_val ctx (I16 _) = map_prod id I16 (zigbeeIOGetInt16 ctx)"
| "get_val ctx (U32 _) = map_prod id U32 (zigbeeIOGetUint32 ctx)"
| "get_val ctx (I32 _) = map_prod id I32 (zigbeeIOGetInt32 ctx)"
| "get_val ctx (Bytes b) = map_prod id (\<lambda>r. Bytes (case r of None \<Rightarrow> [] | Some x \<Rightarrow> x))
     (zigbeeIOGetBytes ctx (word_of_nat (length b)))"

fun get_vals :: "ZigbeeIOContext \<Rightarrow> zval list \<Rightarrow> ZigbeeIOContext \<times> zval list" where
  "get_vals ctx [] = (ctx, [])"
| "get_vals ctx (v # vs) =
     (case get_val ctx v of (ctx1, x) \<Rightarrow> case get_vals ctx1 vs of (ctx2, xs) \<Rightarrow> (ctx2, x # xs))"

definition put_vals :: "ZigbeeIOContext \<Rightarrow> zval list \<Rightarrow> ZigbeeIOContext" where
  "put_vals = foldl put_val"

fun val_bytes :: "zval \<Rightarrow> u8 list" where
  "val_bytes (U8 v) = le8 v"
| "val_bytes (I8 v) = le8 (word_of_int v)"
| "val_bytes (U16 v) = le16 v"
| "val_bytes (I16 v) = le16 (word_of_int v)"
| "val_bytes (U32 v) = le32 v"
| "val_bytes (I32 v) = le32 (word_of_int v)"
| "val_bytes (Bytes b) = b"

text \<open>Values of the C types: signed values in range, byte strings with a length of one byte.\<close>

fun val_ok :: "zval \<Rightarrow> bool" where
  "val_ok (I8 v) = (- (2 ^ 7) \<le> v \<and> v < 2 ^ 7)"
| "val_ok (I16 v) = (- (2 ^ 15) \<le> v \<and> v < 2 ^ 15)"
| "val_ok (I32 v) = (- (2 ^ 31) \<le> v \<and> v < 2 ^ 31)"
| "val_ok (Bytes b) = (length b \<le> 255)"
| "val_ok _ = True"

section \<open>Invariant\<close>

text \<open>The cursor is null exactly after an error, and never past the end.\<close>

definition zio_inv :: "ZigbeeIOContext \<Rightarrow> bool" where
  "zio_inv ctx \<longleftrightarrow> (cur ctx = None \<longleftrightarrow> errno ctx \<noteq> NoError) \<and>
     (\<forall>c. cur ctx = Some c \<longrightarrow> c \<le> length (payload ctx))"

lemmas zio_defs = checkEnd_def canPerformOperation_def readVal_def writeVal_def advance_def

lemma splice_length [simp]: "c + length bs \<le> length buf \<Longrightarrow> length (splice buf c bs) = length buf"
  by (simp add: splice_def)

lemma writeVal_inv [keeps_inv]: "zio_inv ctx \<Longrightarrow> zio_inv (writeVal ctx bs)"
  by (auto simp: zio_defs zio_inv_def Let_def split: option.splits)

lemma readVal_inv [keeps_inv]: "zio_inv ctx \<Longrightarrow> zio_inv (fst (readVal ctx n))"
  by (auto simp: zio_defs zio_inv_def Let_def split: option.splits)

lemma readVal_payload [frame_simps]: "payload (fst (readVal ctx n)) = payload ctx"
  by (auto simp: zio_defs Let_def split: option.splits)

lemma writeVal_length [frame_simps]: "length (payload (writeVal ctx bs)) = length (payload ctx)"
  by (auto simp: zio_defs Let_def split: option.splits)

lemma unat_byte_count [simp]: "n \<le> 255 \<Longrightarrow> unat (word_of_nat n :: u8) = n"
  by (simp add: unat_of_nat)

lemma put_val_writeVal: "val_ok v \<Longrightarrow> put_val ctx v = writeVal ctx (val_bytes v)"
  by (cases v) (simp_all add: zigbeeIOPutUint8_def zigbeeIOPutInt8_def zigbeeIOPutUint16_def
      zigbeeIOPutInt16_def zigbeeIOPutUint32_def zigbeeIOPutInt32_def zigbeeIOPutBytes_def)

section \<open>Codecs\<close>

text \<open>
  A value of fixed width: encoding and decoding are inverse and the width is constant. The reader
  then returns the value that the bytes under its cursor encode.
\<close>

locale byte_codec =
  fixes enc :: "'v \<Rightarrow> u8 list"
    and dec :: "u8 list \<Rightarrow> 'v"
    and width :: nat
  assumes dec_enc: "dec (enc v) = v"
    and enc_width: "length (enc v) = width"
begin

lemma read_back:
  assumes "mode ctx = ZIO_READ" "errno ctx = NoError"
    and "payload ctx = pre @ enc v @ post" "cur ctx = Some (length pre)"
  shows "readVal ctx width = (ctx\<lparr>cur := Some (length pre + width)\<rparr>, Some (enc v))"
    and "map_option dec (snd (readVal ctx width)) = Some v"
  using assms by (auto simp: zio_defs enc_width dec_enc)

lemma write_enc:
  assumes "mode ctx = ZIO_WRITE" "errno ctx = NoError" "cur ctx = Some c"
    and "c + width \<le> length (payload ctx)"
  shows "writeVal ctx (enc v) =
    ctx\<lparr>cur := Some (c + width), payload := splice (payload ctx) c (enc v)\<rparr>"
  using assms by (simp add: zio_defs enc_width)

end

interpretation c8: byte_codec le8 le8toh 1
  by unfold_locales (simp_all add: le8_def)

interpretation c16: byte_codec le16 le16toh 2
proof
  show "le16toh (le16 v) = v" for v
    by (rule bit_word_eqI) (auto simp: le16_def bit_simps)
qed (simp add: le16_def)

interpretation c32: byte_codec le32 le32toh 4
proof
  show "le32toh (le32 v) = v" for v
  proof (rule bit_word_eqI)
    fix n assume "n < LENGTH(32)"
    then show "bit (le32toh (le32 v)) n = bit v n"
      by (cases "24 \<le> n"; cases "16 \<le> n"; cases "8 \<le> n") (auto simp: le32_def bit_simps)
  qed
qed (simp add: le32_def)

lemmas codec_widths [simp] = c8.enc_width c16.enc_width c32.enc_width
lemmas codec_inverses [simp] = c8.dec_enc c16.dec_enc c32.dec_enc

lemma sint_in_range:
  "- (2 ^ 7) \<le> v \<Longrightarrow> v < 2 ^ 7 \<Longrightarrow> sint (word_of_int v :: u8) = v"
  "- (2 ^ 15) \<le> v \<Longrightarrow> v < 2 ^ 15 \<Longrightarrow> sint (word_of_int v :: u16) = v"
  "- (2 ^ 31) \<le> v \<Longrightarrow> v < 2 ^ 31 \<Longrightarrow> sint (word_of_int v :: u32) = v"
  by (simp_all add: sint_sbintrunc' signed_take_bit_int_eq_self)

lemmas get_defs = zigbeeIOGetUint8_def zigbeeIOGetInt8_def zigbeeIOGetUint16_def
  zigbeeIOGetInt16_def zigbeeIOGetUint32_def zigbeeIOGetInt32_def zigbeeIOGetBytes_def

section \<open>Sequences\<close>

lemma get_val_readVal:
  "val_ok v \<Longrightarrow> fst (get_val ctx v) = fst (readVal ctx (length (val_bytes v)))"
  by (cases v) (auto simp: get_defs split: prod.splits)

lemma readVal_at:
  assumes "mode ctx = ZIO_READ" "errno ctx = NoError"
    and "payload ctx = pre @ bs @ post" "cur ctx = Some (length pre)"
  shows "readVal ctx (length bs) = (ctx\<lparr>cur := Some (length pre + length bs)\<rparr>, Some bs)"
  using assms by (simp add: zio_defs)

lemma get_val_at:
  assumes "mode ctx = ZIO_READ" "errno ctx = NoError" "val_ok v"
    and "payload ctx = pre @ val_bytes v @ post" "cur ctx = Some (length pre)"
  shows "get_val ctx v = (ctx\<lparr>cur := Some (length pre + length (val_bytes v))\<rparr>, v)"
  using readVal_at [OF assms(1,2,4,5)] assms(3)
  by (cases v) (auto simp: get_defs sint_in_range)

lemma get_vals_at:
  assumes "mode ctx = ZIO_READ" "errno ctx = NoError" "\<forall>v \<in> set vs. val_ok v"
    and "payload ctx = pre @ concat (map val_bytes vs) @ post" "cur ctx = Some (length pre)"
  shows "get_vals ctx vs =
    (ctx\<lparr>cur := Some (length pre + length (concat (map val_bytes vs)))\<rparr>, vs)"
  using assms
proof (induction vs arbitrary: ctx pre)
  case (Cons v vs)
  let ?ctx1 = "ctx\<lparr>cur := Some (length pre + length (val_bytes v))\<rparr>"
  have "get_val ctx v = (?ctx1, v)"
    using Cons.prems by (intro get_val_at [where post = "concat (map val_bytes vs) @ post"]) auto
  moreover have "get_vals ?ctx1 vs =
      (?ctx1\<lparr>cur := Some (length (pre @ val_bytes v) + length (concat (map val_bytes vs)))\<rparr>, vs)"
    using Cons.prems by (intro Cons.IH) auto
  ultimately show ?case by (simp add: add.assoc)
qed simp

lemma writeVal_at:
  assumes "mode ctx = ZIO_WRITE" "errno ctx = NoError"
    and "payload ctx = pre @ rest" "cur ctx = Some (length pre)" "length bs \<le> length rest"
  shows "writeVal ctx bs =
    ctx\<lparr>cur := Some (length pre + length bs), payload := pre @ bs @ drop (length bs) rest\<rparr>"
  using assms by (simp add: zio_defs splice_def)

lemma put_vals_at:
  assumes "mode ctx = ZIO_WRITE" "errno ctx = NoError"
    and "payload ctx = pre @ rest" "cur ctx = Some (length pre)"
    and "length (concat (map val_bytes vs)) \<le> length rest" "list_all val_ok vs"
  shows "put_vals ctx vs = ctx\<lparr>cur := Some (length pre + length (concat (map val_bytes vs))),
     payload := pre @ concat (map val_bytes vs) @ drop (length (concat (map val_bytes vs))) rest\<rparr>"
  using assms
proof (induction vs arbitrary: ctx pre rest)
  case (Cons v vs)
  let ?ctx1 = "ctx\<lparr>cur := Some (length pre + length (val_bytes v)),
     payload := pre @ val_bytes v @ drop (length (val_bytes v)) rest\<rparr>"
  have one: "put_val ctx v = ?ctx1"
    using Cons.prems by (simp add: put_val_writeVal writeVal_at)
  have "put_vals ?ctx1 vs = ?ctx1\<lparr>
     cur := Some (length (pre @ val_bytes v) + length (concat (map val_bytes vs))),
     payload := (pre @ val_bytes v) @ concat (map val_bytes vs) @
       drop (length (concat (map val_bytes vs))) (drop (length (val_bytes v)) rest)\<rparr>"
    using Cons.prems by (intro Cons.IH) auto
  with one show ?case by (simp add: put_vals_def add.assoc add.commute)
qed (simp add: put_vals_def)

text \<open>An operation after an error does nothing.\<close>

lemma put_val_error: "mode ctx = ZIO_WRITE \<Longrightarrow> errno ctx \<noteq> NoError \<Longrightarrow> val_ok v \<Longrightarrow> put_val ctx v = ctx"
  by (simp add: put_val_writeVal zio_defs Let_def)

lemma put_vals_error: "mode ctx = ZIO_WRITE \<Longrightarrow> errno ctx \<noteq> NoError \<Longrightarrow> list_all val_ok vs \<Longrightarrow> put_vals ctx vs = ctx"
  by (induction vs) (simp_all add: put_vals_def put_val_error)

text \<open>The values before the first that finds too little room.\<close>

fun fitting :: "nat \<Rightarrow> zval list \<Rightarrow> zval list" where
  "fitting room [] = []"
| "fitting room (v # vs) =
     (if length (val_bytes v) \<le> room then v # fitting (room - length (val_bytes v)) vs else [])"

lemma fitting_fits: "length (concat (map val_bytes (fitting room vs))) \<le> room"
  by (induction room vs rule: fitting.induct) auto

lemma fitting_all: "fitting room vs = vs \<longleftrightarrow> length (concat (map val_bytes vs)) \<le> room"
  by (induction room vs rule: fitting.induct) auto

lemma put_vals_fitting:
  assumes "mode ctx = ZIO_WRITE" "errno ctx = NoError" "list_all val_ok vs"
    and "payload ctx = pre @ rest" "cur ctx = Some (length pre)"
  shows "errno (put_vals ctx vs) = (if fitting (length rest) vs = vs then NoError else ESPIPE) \<and>
    payload (put_vals ctx vs) = (let bs = concat (map val_bytes (fitting (length rest) vs)) in pre @ bs @ drop (length bs) rest)"
  using assms
proof (induction vs arbitrary: ctx pre rest)
  case (Cons v vs)
  let ?bs = "val_bytes v"
  show ?case
  proof (cases "length ?bs \<le> length rest")
    case True
    have one: "put_val ctx v = ctx\<lparr>cur := Some (length pre + length ?bs), payload := pre @ ?bs @ drop (length ?bs) rest\<rparr>"
      using True Cons.prems by (simp add: put_val_writeVal writeVal_at)
    have "errno (put_vals (put_val ctx v) vs) = (if fitting (length (drop (length ?bs) rest)) vs = vs then NoError else ESPIPE) \<and>
      payload (put_vals (put_val ctx v) vs) = (let bs = concat (map val_bytes (fitting (length (drop (length ?bs) rest)) vs))
        in (pre @ ?bs) @ bs @ drop (length bs) (drop (length ?bs) rest))"
      using Cons.prems by (intro Cons.IH) (simp_all add: one)
    with True show ?thesis by (simp add: put_vals_def Let_def add.commute)
  next
    case False
    then have "put_val ctx v = ctx\<lparr>cur := None, errno := ESPIPE\<rparr>"
      using Cons.prems by (simp add: put_val_writeVal zio_defs)
    then show ?thesis
      using False Cons.prems put_vals_error [of "put_val ctx v" vs] by (simp add: put_vals_def)
  qed
qed (simp add: put_vals_def)

section \<open>Properties\<close>

text \<open>
  values written one after the other into a large enough buffer are read back unchanged by the
  same sequence of reads over the written payload, without an error on either side.
\<close>

theorem zigbeeIO_roundtrip:
  assumes "\<forall>v \<in> set vs. val_ok v" and "length (concat (map val_bytes vs)) \<le> length buf"
  shows "let w = put_vals (zigbeeIOInit buf ZIO_WRITE) vs;
             r = get_vals (zigbeeIOInit (payload w) ZIO_READ) vs
         in errno w = NoError \<and> snd r = vs \<and> errno (fst r) = NoError"
proof -
  let ?bs = "concat (map val_bytes vs)"
  let ?w = "put_vals (zigbeeIOInit buf ZIO_WRITE) vs"
  have w: "payload ?w = ?bs @ replicate (length buf - length ?bs) 0" and ew: "errno ?w = NoError"
    using put_vals_at [of "zigbeeIOInit buf ZIO_WRITE" "[]" "replicate (length buf) 0" vs] assms
    by (simp_all add: zigbeeIOInit_def list_all_iff)
  have "get_vals (zigbeeIOInit (payload ?w) ZIO_READ) vs =
      ((zigbeeIOInit (payload ?w) ZIO_READ)\<lparr>cur := Some (length ?bs)\<rparr>, vs)"
    using get_vals_at [of "zigbeeIOInit (payload ?w) ZIO_READ" vs "[]"] assms(1) w
    by (simp add: zigbeeIOInit_def)
  with ew show ?thesis by (simp add: Let_def zigbeeIOInit_def)
qed

theorem zigbeeIO_roundtrip_witness:
  "snd (get_vals (zigbeeIOInit (payload (put_vals (zigbeeIOInit (replicate 9 7) ZIO_WRITE)
       [U8 1, I16 (-300), U32 305419896, Bytes [9]])) ZIO_READ)
     [U8 1, I16 (-300), U32 305419896, Bytes [9]]) = [U8 1, I16 (-300), U32 305419896, Bytes [9]]"
  using zigbeeIO_roundtrip [of "[U8 1, I16 (-300), U32 305419896, Bytes [9]]" "replicate 9 7"]
  by (simp add: Let_def)

text \<open>
  C40. Writing integers and byte strings reports an overflow exactly when they do not all fit: \<^verbatim>\<open>errno\<close> is
  then \<^verbatim>\<open>ESPIPE\<close>, and the payload has the bytes of the values before the first that did not fit,
  followed by the zeros of a new buffer. Neither that value nor any after it changes a byte, inside the
  buffer or outside.
\<close>

theorem zigbeeIO_overflow_detected:
  assumes "list_all val_ok vs"
  shows "errno (put_vals (zigbeeIOInit buf ZIO_WRITE) vs) =
     (if length (concat (map val_bytes vs)) \<le> length buf then NoError else ESPIPE) \<and>
   payload (put_vals (zigbeeIOInit buf ZIO_WRITE) vs) =
     (let bs = concat (map val_bytes (fitting (length buf) vs)) in bs @ replicate (length buf - length bs) 0) \<and>
   length (payload (put_vals (zigbeeIOInit buf ZIO_WRITE) vs)) = length buf"
proof -
  note put = put_vals_fitting [of "zigbeeIOInit buf ZIO_WRITE" vs "[]" "replicate (length buf) 0"]
  with assms fitting_fits [of "length buf" vs] show ?thesis by (simp add: zigbeeIOInit_def Let_def fitting_all)
qed

theorem zigbeeIO_overflow_detected_witness:
  "errno (put_vals (zigbeeIOInit [9, 9, 9] ZIO_WRITE) [U8 5, U32 7, U8 6]) = ESPIPE \<and>
   payload (put_vals (zigbeeIOInit [9, 9, 9] ZIO_WRITE) [U8 5, U32 7, U8 6]) = [5, 0, 0]"
  using zigbeeIO_overflow_detected [of "[U8 5, U32 7, U8 6]" "[9, 9, 9]"]
  by (simp add: le8_def le32_def numeral_3_eq_3)

text \<open>
  every typed read keeps the context invariant (null cursor exactly after an error, cursor never
  past the end), leaves the payload alone, and after an error reads nothing: the result is the
  default value and the context is unchanged.
\<close>

theorem zigbeeIO_reads_safe:
  assumes "zio_inv ctx" and "mode ctx = ZIO_READ" and "val_ok v"
  shows "zio_inv (fst (get_val ctx v)) \<and> payload (fst (get_val ctx v)) = payload ctx \<and>
         (errno ctx \<noteq> NoError \<longrightarrow> get_val ctx v = (ctx, snd (get_val ctx v)) \<and>
            snd (get_val ctx v) \<in> {U8 0, I8 0, U16 0, I16 0, U32 0, I32 0, Bytes []})"
proof -
  have "zio_inv (fst (get_val ctx v)) \<and> payload (fst (get_val ctx v)) = payload ctx"
    using assms by (simp add: get_val_readVal readVal_inv readVal_payload)
  moreover have "get_val ctx v = (ctx, snd (get_val ctx v)) \<and>
      snd (get_val ctx v) \<in> {U8 0, I8 0, U16 0, I16 0, U32 0, I32 0, Bytes []}"
    if "errno ctx \<noteq> NoError"
    using that assms(2) by (cases v) (auto simp: get_defs zio_defs Let_def)
  ultimately show ?thesis by blast
qed

theorem zigbeeIO_reads_safe_witness:
  "snd (get_val (fst (get_val (zigbeeIOInit [5] ZIO_READ) (U16 0))) (U8 0)) = U8 0 \<and>
   zio_inv (fst (get_val (zigbeeIOInit [5] ZIO_READ) (U16 0)))"
proof -
  have inv: "zio_inv (zigbeeIOInit [5] ZIO_READ)" by (simp add: zio_inv_def zigbeeIOInit_def)
  have e: "fst (get_val (zigbeeIOInit [5] ZIO_READ) (U16 0)) =
      \<lparr>payload = [5], cur = None, mode = ZIO_READ, errno = ESPIPE\<rparr>"
    by (simp add: get_defs zio_defs zigbeeIOInit_def)
  have i1: "zio_inv (fst (get_val (zigbeeIOInit [5] ZIO_READ) (U16 0)))"
    using zigbeeIO_reads_safe [OF inv, of "U16 0"] by (simp add: zigbeeIOInit_def)
  moreover have "snd (get_val (fst (get_val (zigbeeIOInit [5] ZIO_READ) (U16 0))) (U8 0)) = U8 0"
    unfolding e by (simp add: get_defs zio_defs Let_def)
  ultimately show ?thesis by blast
qed

text \<open>
  a string that fits is written with its length byte and read back unchanged, but the writer
  leaves the cursor behind the length byte, whatever the length of the string: the value put next
  overwrites the characters.
\<close>

theorem zigbeeIOPutString_roundtrip_cursor:
  assumes "length str \<le> 255" and "1 + length str \<le> length buf" and "0 \<notin> set str"
  shows "\<exists>w. zigbeeIOPutString (zigbeeIOInit buf ZIO_WRITE) str = Inr w \<and>
           snd (zigbeeIOGetString (zigbeeIOInit (payload w) ZIO_READ)) = Some str \<and>
           cur w = Some 1"
proof -
  define n where "n = length buf - 1 - length str"
  have buf: "length buf = Suc (length str + n)" using assms(2) by (simp add: n_def)
  let ?w = "\<lparr>payload = word_of_nat (length str) # str @ replicate n 0, cur = Some 1,
    mode = ZIO_WRITE, errno = NoError\<rparr>"
  have "zigbeeIOPutString (zigbeeIOInit buf ZIO_WRITE) str = Inr ?w"
    using assms by (simp add: zigbeeIOPutString_def zigbeeIOInit_def zio_defs splice_def Let_def buf)
  moreover have "takeWhile (\<lambda>b. b \<noteq> 0) str = str"
    using assms(3) by (auto simp: takeWhile_eq_all_conv)
  then have "snd (zigbeeIOGetString (zigbeeIOInit (payload ?w) ZIO_READ)) = Some str"
    using assms(1) by (simp add: zigbeeIOGetString_def get_defs zigbeeIOInit_def zio_defs Let_def)
  ultimately show ?thesis by force
qed

theorem zigbeeIOPutString_roundtrip_cursor_witness:
  "\<exists>w. zigbeeIOPutString (zigbeeIOInit (replicate 4 0) ZIO_WRITE) [97, 98] = Inr w \<and>
     snd (zigbeeIOGetString (zigbeeIOInit (payload w) ZIO_READ)) = Some [97, 98] \<and> cur w = Some 1"
  using zigbeeIOPutString_roundtrip_cursor [of "[97, 98]" "replicate 4 0"] by simp

text \<open>
  the string writer checks that the length byte fits but not the characters: it writes past the
  buffer whenever the length byte is accepted and the characters do not fit behind it, and with no
  room for the length byte it writes through the null pointer.
\<close>

theorem zigbeeIOPutString_overrun:
  assumes "mode ctx = ZIO_WRITE" and "errno ctx = NoError" and "cur ctx = Some c"
    and "c \<le> length (payload ctx)" and "0 < length str" and "length str \<le> 255"
  shows "(zigbeeIOPutString ctx str = Inl BufferOverrun \<longleftrightarrow>
            c < length (payload ctx) \<and> length (payload ctx) < c + 1 + length str) \<and>
         (zigbeeIOPutString ctx str = Inl NullWrite \<longleftrightarrow> c = length (payload ctx))"
  using assms by (auto simp: zigbeeIOPutString_def zio_defs Let_def)

theorem zigbeeIOPutString_overrun_witness:
  "zigbeeIOPutString (zigbeeIOInit [0, 0] ZIO_WRITE) [97, 98] = Inl BufferOverrun"
  using zigbeeIOPutString_overrun [of "zigbeeIOInit [0, 0] ZIO_WRITE" 0 "[97, 98]"]
  by (simp add: zigbeeIOInit_def)

end
