(* ===== verification/Comm_Watchdog.thy ===== *)
theory Comm_Watchdog
  imports Barton_Prelude "HOL-Library.Multiset"
begin

text \<open>
  The communication watchdog, \<^verbatim>\<open>core/src/deviceCommunicationWatchdog.c\<close>: the table of monitored
  devices, the countdown of each device kept in 32-bit milliseconds against a 64-bit monotonic clock,
  the monitor thread that scans the table, and the callbacks. The clock reading of
  \<^verbatim>\<open>getMonotonicMillis\<close> is the argument \<open>now\<close>. An entry of the table is a pointer: \<open>Freed\<close> stands for
  one whose structure was freed while the table still holds it, and using it is a fault.

  The two critical sections of a function are separate definitions (\<open>pet_locked\<close> and the
  notification that follows); \<open>wd_step\<close> interleaves them the way the threads do.
\<close>

section \<open>State\<close>

record MonitoredDeviceInfo =
  info_uuid :: string
  commFailTimeoutSeconds :: u32
  commFailTimeRemainingMillis :: u32
  commFailRemainingLastSyncMillis :: u64
  inCommFail :: bool

datatype slot = Live MonitoredDeviceInfo | Freed

datatype wd_fault = UseAfterFree | DoubleFree

datatype wd_effect = UpdateDateLastContacted string | CommFailed string | CommRestored string

record watchdog =
  failedCallback :: bool
  restoredCallback :: bool
  running :: bool
  monitoredDevices :: "(string, slot) hmap option"
  fastCommFailTimer :: bool
  monitorThreadSleepSeconds :: u32

definition MIN_UPDATE_INTERVAL_MILLIS :: u64 where "MIN_UPDATE_INTERVAL_MILLIS = 5000"
definition MONITOR_THREAD_SLEEP_SECS :: u32 where "MONITOR_THREAD_SLEEP_SECS = 60"

text \<open>The static data before initialisation.\<close>

definition watchdog_static :: watchdog where
  "watchdog_static = \<lparr>failedCallback = False, restoredCallback = False, running = False,
     monitoredDevices = None, fastCommFailTimer = False,
     monitorThreadSleepSeconds = MONITOR_THREAD_SLEEP_SECS\<rparr>"

definition wd_lookup :: "watchdog \<Rightarrow> string \<Rightarrow> slot option" where
  "wd_lookup wd u = (case monitoredDevices wd of None \<Rightarrow> None | Some m \<Rightarrow> hashMapGet m u)"

definition wd_store :: "string \<Rightarrow> MonitoredDeviceInfo \<Rightarrow> watchdog \<Rightarrow> watchdog" where
  "wd_store u info wd =
     wd\<lparr>monitoredDevices := map_option (\<lambda>m. hashMapUpdate m u (\<lambda>_. Live info)) (monitoredDevices wd)\<rparr>"

section \<open>The countdown\<close>

definition getMillisUntilCommFail :: "u64 \<Rightarrow> MonitoredDeviceInfo \<Rightarrow> u32" where
  "getMillisUntilCommFail now info =
     (let millisSinceLastCheck = now - commFailRemainingLastSyncMillis info in
      if ucast (commFailTimeRemainingMillis info) > millisSinceLastCheck
      then ucast (ucast (commFailTimeRemainingMillis info) - millisSinceLastCheck) else 0)"

definition setMillisUntilCommFail ::
  "u64 \<Rightarrow> u32 \<Rightarrow> MonitoredDeviceInfo \<Rightarrow> u64 \<times> MonitoredDeviceInfo" where
  "setMillisUntilCommFail now millisUntilCommFail info =
     (now - commFailRemainingLastSyncMillis info,
      info\<lparr>commFailRemainingLastSyncMillis := now,
           commFailTimeRemainingMillis := millisUntilCommFail\<rparr>)"

section \<open>Operations\<close>

text \<open>\<open>fast\<close> is the property read from the property provider.\<close>

definition deviceCommunicationWatchdogInit :: "bool \<Rightarrow> bool \<Rightarrow> bool \<Rightarrow> watchdog \<Rightarrow> watchdog" where
  "deviceCommunicationWatchdogInit failedcb restoredcb fast wd =
     (if \<not> failedcb \<or> \<not> restoredcb then wd
      else if failedCallback wd \<or> restoredCallback wd then wd
      else wd\<lparr>running := True, monitoredDevices := Some [], failedCallback := True,
              restoredCallback := True, fastCommFailTimer := fast\<rparr>)"

definition deviceCommunicationWatchdogSetMonitorInterval :: "u32 \<Rightarrow> watchdog \<Rightarrow> watchdog" where
  "deviceCommunicationWatchdogSetMonitorInterval seconds wd = wd\<lparr>monitorThreadSleepSeconds := seconds\<rparr>"

text \<open>
  Termination has two critical sections: the flags and callbacks under the control lock, then, once
  the monitor thread has been joined, the table under its own lock. Destroying it frees every entry.
\<close>

definition term_flags :: "watchdog \<Rightarrow> watchdog" where
  "term_flags wd = wd\<lparr>running := False, failedCallback := False, restoredCallback := False\<rparr>"

definition term_table :: "watchdog \<Rightarrow> wd_fault + watchdog" where
  "term_table wd =
     (if (case monitoredDevices wd of None \<Rightarrow> False | Some m \<Rightarrow> list_ex (\<lambda>e. snd e = Freed) m) then Inl DoubleFree
      else Inr (wd\<lparr>monitoredDevices := None\<rparr>))"

definition deviceCommunicationWatchdogTerm :: "watchdog \<Rightarrow> wd_fault + watchdog" where
  "deviceCommunicationWatchdogTerm wd = (if \<not> running wd then Inr wd else term_table (term_flags wd))"

definition new_info :: "u64 \<Rightarrow> string \<Rightarrow> u32 \<Rightarrow> bool \<Rightarrow> MonitoredDeviceInfo" where
  "new_info now u timeout inFail =
     snd (setMillisUntilCommFail now (timeout * 1000)
       \<lparr>info_uuid = u, commFailTimeoutSeconds = timeout, commFailTimeRemainingMillis = 0,
        commFailRemainingLastSyncMillis = 0, inCommFail = inFail\<rparr>)"

text \<open>
  \<^verbatim>\<open>g_hash_table_insert\<close> frees the old value of a present key, stores the new one and returns false;
  the code then frees the structure it has just stored.
\<close>

definition deviceCommunicationWatchdogMonitorDevice ::
  "u64 \<Rightarrow> cstr \<Rightarrow> u32 \<Rightarrow> bool \<Rightarrow> watchdog \<Rightarrow> wd_fault + watchdog" where
  "deviceCommunicationWatchdogMonitorDevice now uuid timeout inFail wd =
     (case uuid of None \<Rightarrow> Inr wd | Some u \<Rightarrow>
        if timeout = 0 then Inr wd
        else if running wd then
          (case monitoredDevices wd of None \<Rightarrow> Inr wd | Some m \<Rightarrow>
             if hashMapGet m u = Some Freed then Inl DoubleFree
             else (case hashTableInsert m u (Live (new_info now u timeout inFail)) of (fresh, m') \<Rightarrow>
               Inr (wd\<lparr>monitoredDevices :=
                 Some (if fresh then m' else hashMapUpdate m' u (\<lambda>_. Freed))\<rparr>)))
        else Inr wd)"

definition deviceCommunicationWatchdogStopMonitoringDevice ::
  "string \<Rightarrow> watchdog \<Rightarrow> wd_fault + watchdog" where
  "deviceCommunicationWatchdogStopMonitoringDevice u wd =
     (case monitoredDevices wd of None \<Rightarrow> Inr wd | Some m \<Rightarrow>
        if hashMapGet m u = Some Freed then Inl DoubleFree
        else Inr (wd\<lparr>monitoredDevices := Some (snd (hashMapDelete m u))\<rparr>))"

text \<open>The part of the pet under the table lock: whether to update the contact date, whether to notify.\<close>

definition pet_locked :: "u64 \<Rightarrow> string \<Rightarrow> watchdog \<Rightarrow> wd_fault + (watchdog \<times> bool \<times> bool)" where
  "pet_locked now u wd =
     (case wd_lookup wd u of
        None \<Rightarrow> Inr (wd, False, False)
      | Some Freed \<Rightarrow> Inl UseAfterFree
      | Some (Live info) \<Rightarrow>
          (case setMillisUntilCommFail now (commFailTimeoutSeconds info * 1000) info of (diff, info1) \<Rightarrow>
             Inr (wd_store u (info1\<lparr>inCommFail := False\<rparr>) wd,
                  diff \<ge> MIN_UPDATE_INTERVAL_MILLIS, inCommFail info)))"

definition deviceCommunicationWatchdogPetDevice ::
  "u64 \<Rightarrow> cstr \<Rightarrow> watchdog \<Rightarrow> wd_fault + (watchdog \<times> wd_effect list)" where
  "deviceCommunicationWatchdogPetDevice now uuid wd =
     (case uuid of None \<Rightarrow> Inr (wd, []) | Some u \<Rightarrow>
        (case pet_locked now u wd of Inl f \<Rightarrow> Inl f | Inr (wd', contact, doNotify) \<Rightarrow>
           Inr (wd', (if contact then [UpdateDateLastContacted u] else []) @
                     (if doNotify \<and> restoredCallback wd' then [CommRestored u] else []))))"

definition force_locked :: "string \<Rightarrow> watchdog \<Rightarrow> wd_fault + (watchdog \<times> bool)" where
  "force_locked u wd =
     (case wd_lookup wd u of
        None \<Rightarrow> Inr (wd, False)
      | Some Freed \<Rightarrow> Inl UseAfterFree
      | Some (Live info) \<Rightarrow>
          if \<not> inCommFail info then Inr (wd_store u (info\<lparr>inCommFail := True\<rparr>) wd, True)
          else Inr (wd, False))"

definition deviceCommunicationWatchdogForceDeviceInCommFail ::
  "cstr \<Rightarrow> watchdog \<Rightarrow> wd_fault + (watchdog \<times> wd_effect list)" where
  "deviceCommunicationWatchdogForceDeviceInCommFail uuid wd =
     (case uuid of None \<Rightarrow> Inr (wd, []) | Some u \<Rightarrow>
        (case force_locked u wd of Inl f \<Rightarrow> Inl f | Inr (wd', doNotify) \<Rightarrow>
           Inr (wd', if doNotify \<and> failedCallback wd' then [CommFailed u] else [])))"

text \<open>32-bit signed arithmetic; the result is read with \<^const>\<open>sint\<close>.\<close>

definition deviceCommunicationWatchdogGetRemainingCommFailTimeoutForLPM ::
  "u64 \<Rightarrow> cstr \<Rightarrow> u32 \<Rightarrow> watchdog \<Rightarrow> wd_fault + int" where
  "deviceCommunicationWatchdogGetRemainingCommFailTimeoutForLPM now uuid commFailDelaySeconds wd =
     (case uuid of None \<Rightarrow> Inr (- 1) | Some u \<Rightarrow>
        (case wd_lookup wd u of
           None \<Rightarrow> Inr (- 1)
         | Some Freed \<Rightarrow> Inl UseAfterFree
         | Some (Live info) \<Rightarrow>
             if inCommFail info then Inr (- 1)
             else let secsUntilCommFail = getMillisUntilCommFail now info div 1000;
                      secsDelayDiff = commFailDelaySeconds - commFailTimeoutSeconds info
                  in Inr (sint (if sint secsDelayDiff \<ge> 0 then secsUntilCommFail + secsDelayDiff
                                else secsUntilCommFail))))"

definition deviceCommunicationWatchdogSetTimeRemainingForDeviceFromLPM ::
  "u64 \<Rightarrow> cstr \<Rightarrow> int \<Rightarrow> watchdog \<Rightarrow> wd_fault + watchdog" where
  "deviceCommunicationWatchdogSetTimeRemainingForDeviceFromLPM now uuid secs wd =
     (case uuid of None \<Rightarrow> Inr wd | Some u \<Rightarrow>
        if secs < 0 then Inr wd
        else (case wd_lookup wd u of
           None \<Rightarrow> Inr wd
         | Some Freed \<Rightarrow> Inl UseAfterFree
         | Some (Live info) \<Rightarrow>
             if \<not> inCommFail info
             then Inr (wd_store u (snd (setMillisUntilCommFail now (word_of_int (secs * 1000)) info)) wd)
             else Inr wd))"

text \<open>
  One pass of the monitor thread over the table: the check of one device, then the loop, which
  collects the devices newly in comm fail.
\<close>

definition check_info :: "u64 \<Rightarrow> bool \<Rightarrow> MonitoredDeviceInfo \<Rightarrow> MonitoredDeviceInfo \<times> bool" where
  "check_info now isCommfailFast info =
     (let m0 = getMillisUntilCommFail now info;
          millisUntilCommFail = (if isCommfailFast then m0 div 100 else m0);
          newly = (millisUntilCommFail = 0 \<and> \<not> inCommFail info);
          info1 = (if newly then info\<lparr>inCommFail := True\<rparr> else info)
      in (snd (setMillisUntilCommFail now millisUntilCommFail info1), newly))"

fun scan_table :: "u64 \<Rightarrow> bool \<Rightarrow> (string, slot) hmap \<Rightarrow> wd_fault + ((string, slot) hmap \<times> string list)" where
  "scan_table now fast [] = Inr ([], [])"
| "scan_table now fast ((u, Freed) # m) = Inl UseAfterFree"
| "scan_table now fast ((u, Live info) # m) =
     (case check_info now fast info of (info', newly) \<Rightarrow>
      case scan_table now fast m of Inl f \<Rightarrow> Inl f | Inr (m', us) \<Rightarrow>
        Inr ((u, Live info') # m', (if newly then u # us else us)))"

definition scan_locked :: "u64 \<Rightarrow> watchdog \<Rightarrow> wd_fault + (watchdog \<times> string list)" where
  "scan_locked now wd =
     (case monitoredDevices wd of None \<Rightarrow> Inr (wd, []) | Some m \<Rightarrow>
        (case scan_table now (fastCommFailTimer wd) m of Inl f \<Rightarrow> Inl f | Inr (m', us) \<Rightarrow>
           Inr (wd\<lparr>monitoredDevices := Some m'\<rparr>, us)))"

text \<open>One iteration of the thread after its wait; \<open>None\<close> when the thread exits.\<close>

definition commFailWatchdogThreadIteration ::
  "u64 \<Rightarrow> watchdog \<Rightarrow> (wd_fault + (watchdog \<times> wd_effect list)) option" where
  "commFailWatchdogThreadIteration now wd =
     (if \<not> running wd then None
      else Some (case scan_locked now wd of Inl f \<Rightarrow> Inl f | Inr (wd', us) \<Rightarrow>
        Inr (wd', if failedCallback wd' then map CommFailed us else [])))"

definition deviceCommunicationWatchdogSetFastCommfail :: "bool \<Rightarrow> watchdog \<Rightarrow> watchdog" where
  "deviceCommunicationWatchdogSetFastCommfail inFastCommfail wd = wd\<lparr>fastCommFailTimer := inFastCommfail\<rparr>"

definition deviceCommunicationWatchdogIsDeviceMonitored :: "cstr \<Rightarrow> watchdog \<Rightarrow> bool" where
  "deviceCommunicationWatchdogIsDeviceMonitored uuid wd =
     (case uuid of None \<Rightarrow> False | Some u \<Rightarrow>
        (case monitoredDevices wd of None \<Rightarrow> False | Some m \<Rightarrow> hashMapContains m u))"

section \<open>Interleaving\<close>

text \<open>
  What happens to a device under the table lock, in order. \<open>Started\<close> and \<open>Stopped\<close> bound the time it
  is monitored; \<open>Failed\<close> and \<open>Restored\<close> each cause one notification.
\<close>

datatype wd_note = Started bool | Stopped | Failed | Restored

record wd_sys =
  wd :: watchdog
  history :: "(string \<times> wd_note) list"
  pending :: "(string \<times> wd_note) list"
  delivered :: "(string \<times> wd_note) list"

definition produce :: "(string \<times> wd_note) list \<Rightarrow> watchdog \<Rightarrow> wd_sys \<Rightarrow> wd_sys" where
  "produce ns w s = s\<lparr>wd := w, history := history s @ ns,
     pending := pending s @ filter (\<lambda>n. snd n \<in> {Failed, Restored}) ns\<rparr>"

definition wd_sys_init :: "bool \<Rightarrow> wd_sys" where
  "wd_sys_init fast = \<lparr>wd = deviceCommunicationWatchdogInit True True fast watchdog_static,
     history = [], pending = [], delivered = []\<rparr>"

text \<open>A notification is a call of the callback that is set when it is made; after termination none is.\<close>

definition callback_set_for :: "wd_note \<Rightarrow> watchdog \<Rightarrow> bool" where
  "callback_set_for n w = (case n of Failed \<Rightarrow> failedCallback w | Restored \<Rightarrow> restoredCallback w | _ \<Rightarrow> False)"

text \<open>
  Each critical section that ends is a step, with any arguments and at any time. A section that
  would use or free a dangling entry has no result and so no step.
\<close>

inductive wd_step :: "wd_sys \<Rightarrow> wd_sys \<Rightarrow> bool" where
  monitor: "deviceCommunicationWatchdogMonitorDevice now (Some u) timeout b (wd s) = Inr w \<Longrightarrow>
     wd_step s (produce (if timeout \<noteq> 0 \<and> running (wd s) \<and> monitoredDevices (wd s) \<noteq> None then [(u, Started b)] else []) w s)"
| stop: "deviceCommunicationWatchdogStopMonitoringDevice u (wd s) = Inr w \<Longrightarrow>
     wd_step s (produce (if deviceCommunicationWatchdogIsDeviceMonitored (Some u) (wd s) then [(u, Stopped)] else []) w s)"
| pet: "pet_locked now u (wd s) = Inr (w, contact, doNotify) \<Longrightarrow>
     wd_step s (produce (if doNotify then [(u, Restored)] else []) w s)"
| force: "force_locked u (wd s) = Inr (w, doNotify) \<Longrightarrow>
     wd_step s (produce (if doNotify then [(u, Failed)] else []) w s)"
| scan: "scan_locked now (wd s) = Inr (w, us) \<Longrightarrow>
     wd_step s (produce (map (\<lambda>u. (u, Failed)) us) w s)"
| lpm: "deviceCommunicationWatchdogSetTimeRemainingForDeviceFromLPM now uuid secs (wd s) = Inr w \<Longrightarrow>
     wd_step s (produce [] w s)"
| interval: "wd_step s (produce [] (deviceCommunicationWatchdogSetMonitorInterval secs (wd s)) s)"
| fast: "wd_step s (produce [] (deviceCommunicationWatchdogSetFastCommfail b (wd s)) s)"
| term_flags: "running (wd s) \<Longrightarrow> wd_step s (produce [] (term_flags (wd s)) s)"
| term_table: "\<not> running (wd s) \<Longrightarrow> monitoredDevices (wd s) = Some m \<Longrightarrow> term_table (wd s) = Inr w \<Longrightarrow>
     wd_step s (produce (map (\<lambda>u. (u, Stopped)) (map fst m)) w s)"
| deliver: "pending s = ps @ n # qs \<Longrightarrow>
     wd_step s (s\<lparr>pending := ps @ qs, delivered := delivered s @ (if callback_set_for (snd n) (wd s) then [n] else [])\<rparr>)"

inductive wd_reach :: "wd_sys \<Rightarrow> bool" where
  init: "wd_reach (wd_sys_init fast)"
| step: "wd_reach s \<Longrightarrow> wd_step s t \<Longrightarrow> wd_reach t"

text \<open>
  The life of one device: not monitored, monitored and in comm fail or not, or a dangling entry, which
  is what monitoring it a second time leaves and for which nothing can follow.
\<close>

datatype wd_status = Idle | Watched bool | Dangling

fun life :: "wd_status \<Rightarrow> wd_note list \<Rightarrow> wd_status option" where
  "life st [] = Some st"
| "life Idle (Started b # ns) = life (Watched b) ns"
| "life (Watched _) (Started _ # ns) = life Dangling ns"
| "life (Watched b) (Stopped # ns) = life Idle ns"
| "life (Watched False) (Failed # ns) = life (Watched True) ns"
| "life (Watched True) (Restored # ns) = life (Watched False) ns"
| "life _ _ = None"

definition notes_of :: "string \<Rightarrow> (string \<times> wd_note) list \<Rightarrow> wd_note list" where
  "notes_of u h = map snd (filter (\<lambda>n. fst n = u) h)"

definition status_of :: "watchdog \<Rightarrow> string \<Rightarrow> wd_status" where
  "status_of w u = (case wd_lookup w u of None \<Rightarrow> Idle | Some Freed \<Rightarrow> Dangling | Some (Live info) \<Rightarrow> Watched (inCommFail info))"

section \<open>Reference notions\<close>



text \<open>A table without dangling entries.\<close>

definition table_ok :: "watchdog \<Rightarrow> bool" where
  "table_ok w \<longleftrightarrow> (\<forall>m. monitoredDevices w = Some m \<longrightarrow> hmap_ok m \<and> Freed \<notin> snd ` set m)"

definition keys_ok :: "watchdog \<Rightarrow> bool" where
  "keys_ok w \<longleftrightarrow> (\<forall>m. monitoredDevices w = Some m \<longrightarrow> hmap_ok m)"

definition notices :: "(string \<times> wd_note) list \<Rightarrow> (string \<times> wd_note) list" where
  "notices = filter (\<lambda>n. snd n \<in> {Failed, Restored})"

definition wd_inv :: "wd_sys \<Rightarrow> bool" where
  "wd_inv s \<longleftrightarrow> keys_ok (wd s) \<and> (\<forall>u. life Idle (notes_of u (history s)) = Some (status_of (wd s) u)) \<and>
     mset (pending s) + mset (delivered s) \<subseteq># mset (notices (history s))"

section \<open>Lemmas on the table\<close>

lemma life_append: "life st (ns @ ms) = Option.bind (life st ns) (\<lambda>s. life s ms)"
  by (induction st ns rule: life.induct) auto

lemma notes_of_append [simp]: "notes_of u (h @ k) = notes_of u h @ notes_of u k"
  by (simp add: notes_of_def)

lemma notes_of_simps [simp]:
  "notes_of u [] = []" "notes_of u ((v, n) # h) = (if v = u then n # notes_of u h else notes_of u h)"
  by (auto simp: notes_of_def)

lemma notes_of_same:
  "distinct us \<Longrightarrow> notes_of u (map (\<lambda>u. (u, n)) us) = (if u \<in> set us then [n] else [])"
  by (induction us) auto


lemma wd_lookup_wd_store:
  "wd_lookup (wd_store u i w) v =
     (if v = u \<and> wd_lookup w u \<noteq> None then Some (Live i) else wd_lookup w v)"
  by (auto simp: wd_lookup_def wd_store_def hmap_simps split: option.splits)


lemma keys_ok_wd_store: "keys_ok w \<Longrightarrow> keys_ok (wd_store u i w)"
  by (auto simp: keys_ok_def wd_store_def)

lemma status_wd_store:
  "wd_lookup w u = Some sl \<Longrightarrow>
   status_of (wd_store u i w) v = (if v = u then Watched (inCommFail i) else status_of w v)"
  by (simp add: status_of_def wd_lookup_wd_store)

lemma scan_table_spec:
  assumes "hmap_ok m" "Freed \<notin> snd ` set m"
  shows "\<exists>m' us. scan_table now fast m = Inr (m', us) \<and> map fst m' = map fst m \<and>
    Freed \<notin> snd ` set m' \<and> distinct us \<and>
    (\<forall>u. hashMapGet m' u = (case hashMapGet m u of
        Some (Live i) \<Rightarrow> Some (Live (fst (check_info now fast i))) | _ \<Rightarrow> None)) \<and>
    (\<forall>u. u \<in> set us \<longleftrightarrow> (\<exists>i. hashMapGet m u = Some (Live i) \<and> snd (check_info now fast i)))"
  using assms
proof (induction m)
  case (Cons e m)
  obtain u i where e: "e = (u, Live i)" using Cons.prems by (cases e; cases "snd e") auto
  have ok: "hmap_ok m" "Freed \<notin> snd ` set m" and u: "hashMapGet m u = None"
    using Cons.prems e by (auto simp: hmap_ok_def hashMapGet_def map_of_eq_None_iff)
  obtain m' us where r: "scan_table now fast m = Inr (m', us)" "map fst m' = map fst m"
      "Freed \<notin> snd ` set m'" "distinct us"
      "\<And>v. hashMapGet m' v = (case hashMapGet m v of
          Some (Live i) \<Rightarrow> Some (Live (fst (check_info now fast i))) | _ \<Rightarrow> None)"
      "\<And>v. v \<in> set us \<longleftrightarrow> (\<exists>i. hashMapGet m v = Some (Live i) \<and> snd (check_info now fast i))"
    using Cons.IH [OF ok] by blast
  have "u \<notin> set us" using r(6) u by simp
  then show ?case
    using r u e by (cases "check_info now fast i") (auto simp: hashMapGet_def)
qed simp

lemma scan_table_Freed: "(u, Freed) \<in> set m \<Longrightarrow> scan_table now fast m = Inl UseAfterFree"
  by (induction now fast m rule: scan_table.induct) (auto split: prod.splits sum.splits)

lemma scan_locked_spec:
  assumes "table_ok w"
  shows "\<exists>w' us. scan_locked now w = Inr (w', us) \<and> table_ok w' \<and> distinct us \<and>
    fastCommFailTimer w' = fastCommFailTimer w \<and>
    (\<forall>u. wd_lookup w' u = (case wd_lookup w u of
        Some (Live i) \<Rightarrow> Some (Live (fst (check_info now (fastCommFailTimer w) i))) | _ \<Rightarrow> None)) \<and>
    (\<forall>u. u \<in> set us \<longleftrightarrow>
       (\<exists>i. wd_lookup w u = Some (Live i) \<and> snd (check_info now (fastCommFailTimer w) i)))"
proof (cases "monitoredDevices w")
  case None
  then show ?thesis using assms by (auto simp: scan_locked_def wd_lookup_def)
next
  case (Some m)
  with assms have "hmap_ok m" "Freed \<notin> snd ` set m" by (auto simp: table_ok_def)
  from scan_table_spec [OF this, of now "fastCommFailTimer w"] obtain m' us
    where "scan_table now (fastCommFailTimer w) m = Inr (m', us)" "map fst m' = map fst m"
      "Freed \<notin> snd ` set m'" "distinct us"
      "\<And>u. hashMapGet m' u = (case hashMapGet m u of
          Some (Live i) \<Rightarrow> Some (Live (fst (check_info now (fastCommFailTimer w) i))) | _ \<Rightarrow> None)"
      "\<And>u. u \<in> set us \<longleftrightarrow>
         (\<exists>i. hashMapGet m u = Some (Live i) \<and> snd (check_info now (fastCommFailTimer w) i))"
    by blast
  then show ?thesis
    using Some \<open>hmap_ok m\<close> by (auto simp: scan_locked_def wd_lookup_def table_ok_def hmap_ok_def)
qed

lemma check_info_flag:
  "inCommFail (fst (check_info now fast i)) = (inCommFail i \<or> snd (check_info now fast i))"
  "snd (check_info now fast i) \<Longrightarrow> \<not> inCommFail i"
  by (auto simp: check_info_def setMillisUntilCommFail_def Let_def)

section \<open>The countdown in natural numbers\<close>

lemma unat_ucast_u32_u64 [simp]: "unat (ucast (x :: u32) :: u64) = unat x"
proof -
  have "unat x < 2 ^ 64" using unsigned_less [of x, where ?'a = nat] by simp
  then show ?thesis by (simp add: unsigned_ucast_eq take_bit_nat_eq_self_iff)
qed






section \<open>The invariant of the threads\<close>

lemma wd_inv_produce:
  assumes "wd_inv s" "keys_ok w"
    and "\<And>u. life (status_of (wd s) u) (notes_of u ns) = Some (status_of w u)"
  shows "wd_inv (produce ns w s)"
  using assms by (simp add: wd_inv_def produce_def life_append notices_def)

text \<open>Monitoring a new device and stopping, on a table without dangling entries.\<close>

lemma monitor_fresh:
  assumes "table_ok w" "\<not> deviceCommunicationWatchdogIsDeviceMonitored (Some u) w" "timeout \<noteq> 0"
    and "running w" "monitoredDevices w = Some m"
  shows "\<exists>w'. deviceCommunicationWatchdogMonitorDevice now (Some u) timeout b w = Inr w' \<and>
    table_ok w' \<and> fastCommFailTimer w' = fastCommFailTimer w \<and>
    (\<forall>v. wd_lookup w' v = (if v = u then Some (Live (new_info now u timeout b)) else wd_lookup w v))"
proof -
  have none: "hashMapGet m u = None" and ok: "hmap_ok m" "Freed \<notin> snd ` set m"
    using assms by (auto simp: deviceCommunicationWatchdogIsDeviceMonitored_def hmap_simps table_ok_def)
  obtain m2 where ins: "hashTableInsert m u (Live (new_info now u timeout b)) = (True, m2)"
    using none by (simp add: hashTableInsert_def hmap_simps)
  have "Freed \<notin> snd ` set m2" "hmap_ok m2"
    "\<And>v. hashMapGet m2 v = (if v = u then Some (Live (new_info now u timeout b)) else hashMapGet m v)"
    using ok none ins hmap_ok_hashTableInsert [OF ok(1), of u "Live (new_info now u timeout b)"]
      hashMapGet_hashTableInsert [of m u "Live (new_info now u timeout b)"]
    by (auto simp: hashTableInsert_def hmap_simps)
  then show ?thesis
    using assms(3-) none ins
    by (simp add: deviceCommunicationWatchdogMonitorDevice_def table_ok_def wd_lookup_def)
qed

lemma Freed_in_hashMapDelete: "Freed \<notin> snd ` set m \<Longrightarrow> Freed \<notin> snd ` set (snd (hashMapDelete m u))"
  by (auto simp: hashMapDelete_def)

lemma stop_lookup:
  assumes "table_ok w" "deviceCommunicationWatchdogStopMonitoringDevice u w = Inr w'"
  shows "table_ok w' \<and> (\<forall>v. wd_lookup w' v = (if v = u then None else wd_lookup w v))"
proof (cases "monitoredDevices w")
  case None
  then show ?thesis using assms
    by (auto simp: deviceCommunicationWatchdogStopMonitoringDevice_def wd_lookup_def)
next
  case (Some m)
  then have "hmap_ok m" "Freed \<notin> snd ` set m" using assms(1) by (simp_all add: table_ok_def)
  then show ?thesis
    using Some assms(2) hm.ok_del [of m u] Freed_in_hashMapDelete [of m u]
    by (simp add: deviceCommunicationWatchdogStopMonitoringDevice_def table_ok_def wd_lookup_def
        split: if_splits) (drule sym, simp add: hmap_simps)
qed

lemma monitor_status:
  assumes "keys_ok w" "deviceCommunicationWatchdogMonitorDevice now (Some u) timeout b w = Inr w'"
  shows "keys_ok w' \<and> status_of w' v =
    (if v = u \<and> timeout \<noteq> 0 \<and> running w \<and> monitoredDevices w \<noteq> None
     then (if status_of w u = Idle then Watched b else Dangling) else status_of w v) \<and>
    (timeout \<noteq> 0 \<and> running w \<and> monitoredDevices w \<noteq> None \<longrightarrow> status_of w u \<noteq> Dangling)"
proof (cases "timeout \<noteq> 0 \<and> running w \<and> monitoredDevices w \<noteq> None")
  case True
  then obtain m where m: "monitoredDevices w = Some m" "hashMapGet m u \<noteq> Some Freed" "hmap_ok m"
    using assms by (auto simp: deviceCommunicationWatchdogMonitorDevice_def keys_ok_def split: if_splits)
  let ?new = "Live (new_info now u timeout b)"
  obtain fresh m2 where ins: "hashTableInsert m u ?new = (fresh, m2)" by fastforce
  then have fresh: "fresh = (hashMapGet m u = None)" "hmap_ok m2"
    using hmap_ok_hashTableInsert [OF m(3), of u ?new] by (auto simp: hashTableInsert_def hmap_simps split: if_splits)
  have look: "hashMapGet m2 v = (if v = u then Some ?new else hashMapGet m v)" for v
    using hashMapGet_hashTableInsert [of m u ?new] ins by simp
  have w': "w' = w\<lparr>monitoredDevices := Some (if fresh then m2 else hashMapUpdate m2 u (\<lambda>_. Freed))\<rparr>"
    using assms(2) True m ins by (simp add: deviceCommunicationWatchdogMonitorDevice_def)
  show ?thesis
    using True m fresh look w'
    by (auto simp: keys_ok_def status_of_def wd_lookup_def hmap_simps new_info_def setMillisUntilCommFail_def
        split: option.splits slot.splits)
next
  case False
  with assms show ?thesis
    by (auto simp: deviceCommunicationWatchdogMonitorDevice_def split: option.splits if_splits)
qed

lemma stop_status:
  assumes "keys_ok w" "deviceCommunicationWatchdogStopMonitoringDevice u w = Inr w'"
  shows "keys_ok w' \<and> status_of w' v = (if v = u then Idle else status_of w v) \<and> status_of w u \<noteq> Dangling \<and>
    deviceCommunicationWatchdogIsDeviceMonitored (Some u) w = (status_of w u \<noteq> Idle)"
proof (cases "monitoredDevices w")
  case None
  then show ?thesis using assms
    by (auto simp: deviceCommunicationWatchdogStopMonitoringDevice_def status_of_def wd_lookup_def
        deviceCommunicationWatchdogIsDeviceMonitored_def)
next
  case (Some m)
  then have ok: "hmap_ok m" "hashMapGet m u \<noteq> Some Freed"
    and w': "w' = w\<lparr>monitoredDevices := Some (snd (hashMapDelete m u))\<rparr>"
    using assms by (auto simp: keys_ok_def deviceCommunicationWatchdogStopMonitoringDevice_def split: if_splits)
  show ?thesis
    using Some ok hm.ok_del [of m u] unfolding w'
    by (auto simp: keys_ok_def status_of_def wd_lookup_def hmap_simps deviceCommunicationWatchdogIsDeviceMonitored_def
        split: option.splits slot.splits)
qed

text \<open>Storing a structure over a live one, and the states an entry can be in.\<close>

lemma status_lookup:
  "wd_lookup w u = None \<Longrightarrow> status_of w u = Idle"
  "wd_lookup w u = Some (Live i) \<Longrightarrow> status_of w u = Watched (inCommFail i)"
  by (simp_all add: status_of_def)

lemma pet_locked_spec:
  assumes "keys_ok w" "pet_locked now u w = Inr (w', contact, doNotify)"
  shows "keys_ok w' \<and> doNotify = (status_of w u = Watched True) \<and>
    status_of w' v = (if v = u \<and> doNotify then Watched False else status_of w v)"
  using assms
  by (cases "wd_lookup w u")
    (auto simp: pet_locked_def setMillisUntilCommFail_def keys_ok_wd_store status_wd_store status_lookup
      split: slot.splits)

lemma force_locked_spec:
  assumes "keys_ok w" "force_locked u w = Inr (w', doNotify)"
  shows "keys_ok w' \<and> doNotify = (status_of w u = Watched False) \<and>
    status_of w' v = (if v = u \<and> doNotify then Watched True else status_of w v)"
  using assms
  by (cases "wd_lookup w u")
    (auto simp: force_locked_def keys_ok_wd_store status_wd_store status_lookup split: slot.splits if_splits)

lemma lpm_spec:
  assumes "keys_ok w" "deviceCommunicationWatchdogSetTimeRemainingForDeviceFromLPM now uuid secs w = Inr w'"
  shows "keys_ok w' \<and> status_of w' v = status_of w v"
  using assms
  by (auto simp: deviceCommunicationWatchdogSetTimeRemainingForDeviceFromLPM_def setMillisUntilCommFail_def
      keys_ok_wd_store status_wd_store split: option.splits slot.splits if_splits) (simp add: status_of_def)

lemma table_ok_lookup:
  assumes "table_ok w"
  shows "wd_lookup w u \<noteq> Some Freed"
proof
  assume "wd_lookup w u = Some Freed"
  then obtain m where m: "monitoredDevices w = Some m" "map_of m u = Some Freed"
    by (auto simp: wd_lookup_def hashMapGet_def split: option.splits)
  then have "Freed \<in> snd ` set m" by (metis map_of_SomeD image_eqI snd_conv)
  with assms m(1) show False by (simp add: table_ok_def)
qed

lemma scan_locked_no_Freed:
  assumes "keys_ok w" "scan_locked now w = Inr r"
  shows "table_ok w"
  using assms scan_table_Freed
  by (fastforce simp: table_ok_def keys_ok_def scan_locked_def split: sum.splits)

lemma scan_locked_status:
  assumes "keys_ok w" "scan_locked now w = Inr (w', us)"
  shows "keys_ok w' \<and> distinct us \<and> (\<forall>u \<in> set us. status_of w u = Watched False) \<and>
    (\<forall>v. status_of w' v = (if v \<in> set us then Watched True else status_of w v))"
proof -
  have ok: "table_ok w" by (rule scan_locked_no_Freed [OF assms])
  from scan_locked_spec [OF ok, of now] assms(2)
  have tab: "table_ok w'" "distinct us"
    and lk: "\<And>u. wd_lookup w' u = (case wd_lookup w u of
        Some (Live i) \<Rightarrow> Some (Live (fst (check_info now (fastCommFailTimer w) i))) | _ \<Rightarrow> None)"
    and us: "\<And>u. u \<in> set us \<longleftrightarrow>
       (\<exists>i. wd_lookup w u = Some (Live i) \<and> snd (check_info now (fastCommFailTimer w) i))"
    by auto
  have "status_of w u = Watched False" if "u \<in> set us" for u
    using that us check_info_flag(2) by (fastforce simp: status_of_def)
  moreover note free = table_ok_lookup [OF ok]
  have "status_of w' v = (if v \<in> set us then Watched True else status_of w v)" for v
    using free [of v] by (auto simp: status_of_def lk us check_info_flag split: option.splits slot.splits)
  moreover have "keys_ok w'" using tab(1) by (simp add: table_ok_def keys_ok_def)
  ultimately show ?thesis using tab by blast
qed

lemma term_table_status:
  assumes "keys_ok w" "monitoredDevices w = Some m" "term_table w = Inr w'"
  shows "keys_ok w' \<and> status_of w' v = Idle \<and> distinct (map fst m) \<and>
    (if v \<in> set (map fst m) then \<exists>b. status_of w v = Watched b else status_of w v = Idle)"
proof -
  have ok: "hmap_ok m" and live: "\<not> list_ex (\<lambda>e. snd e = Freed) m" and w': "w' = w\<lparr>monitoredDevices := None\<rparr>"
    using assms by (auto simp: keys_ok_def term_table_def split: if_splits)
  have "hashMapGet m v \<noteq> Some Freed" using live map_of_SomeD [of m v Freed] by (force simp: hashMapGet_def list_ex_iff)
  moreover have "hashMapGet m v = None \<longleftrightarrow> v \<notin> set (map fst m)" by (simp add: hashMapGet_def map_of_eq_None_iff)
  ultimately show ?thesis
    using ok assms(2) unfolding w'
    by (auto simp: keys_ok_def status_of_def wd_lookup_def hmap_ok_def split: option.splits slot.splits)
qed

lemma wd_inv_init: "wd_inv (wd_sys_init fast)"
  by (simp add: wd_inv_def wd_sys_init_def keys_ok_def deviceCommunicationWatchdogInit_def
      watchdog_static_def status_of_def wd_lookup_def)

lemma wd_inv_step:
  assumes "wd_inv s" "wd_step s t"
  shows "wd_inv t"
proof -
  have ok: "keys_ok (wd s)" using assms(1) by (simp add: wd_inv_def)
  note intro = wd_inv_produce [OF assms(1)]
  from assms(2) show ?thesis
  proof (cases rule: wd_step.cases)
    case (monitor now u timeout b w)
    have "status_of (wd s) u = Idle \<or> status_of (wd s) u = Dangling \<or> (\<exists>b. status_of (wd s) u = Watched b)"
      by (cases "status_of (wd s) u") auto
    then show ?thesis
      using monitor_status [OF ok monitor(2)] unfolding monitor(1) by (intro intro) (auto split: if_splits)
  next
    case (stop u w)
    then show ?thesis
      using stop_status [OF ok stop(2)] by (cases "status_of (wd s) u") (auto intro!: intro split: if_splits)
  next
    case (pet now u w contact doNotify)
    then show ?thesis using pet_locked_spec [OF ok pet(2)] by (auto intro!: intro)
  next
    case (force u w doNotify)
    then show ?thesis using force_locked_spec [OF ok force(2)] by (auto intro!: intro)
  next
    case (scan now w us)
    then show ?thesis using scan_locked_status [OF ok scan(2)] by (auto intro!: intro simp: notes_of_same)
  next
    case (lpm now uuid secs w)
    then show ?thesis using lpm_spec [OF ok lpm(2)] by (auto intro!: intro)
  next
    case (term_table m w)
    have *: "keys_ok w" "distinct (map fst m)" and st: "status_of w v = Idle" for v
      using term_table_status [OF ok term_table(3,4)] by blast+
    have "life (status_of (wd s) v) (notes_of v (map (\<lambda>u. (u, Stopped)) (map fst m))) = Some (status_of w v)" for v
      unfolding notes_of_same [OF *(2)] using term_table_status [OF ok term_table(3,4), of v]
      by (auto split: if_splits)
    with *(1) show ?thesis unfolding term_table(1) by (intro intro)
  next
    case (deliver ps n qs)
    have "mset (ps @ qs) + mset (delivered s @ (if callback_set_for (snd n) (wd s) then [n] else [])) \<subseteq>#
        mset (pending s) + mset (delivered s)" using deliver(2) by simp
    moreover have "mset (pending s) + mset (delivered s) \<subseteq># mset (notices (history s))"
      using assms(1) by (simp add: wd_inv_def)
    ultimately have "mset (ps @ qs) + mset (delivered s @ (if callback_set_for (snd n) (wd s) then [n] else [])) \<subseteq>#
        mset (notices (history s))" by (rule subset_mset.order_trans)
    with assms(1) show ?thesis unfolding deliver(1) wd_inv_def by simp
  qed (use ok in \<open>auto intro!: intro simp: keys_ok_def status_of_def wd_lookup_def term_flags_def
      deviceCommunicationWatchdogSetMonitorInterval_def deviceCommunicationWatchdogSetFastCommfail_def\<close>)
qed

lemma wd_reach_inv: "wd_reach s \<Longrightarrow> wd_inv s"
  by (induction rule: wd_reach.induct) (auto intro: wd_inv_init wd_inv_step)

text \<open>Where no entry dangles, no critical section faults.\<close>

lemma no_dangling_table_ok:
  assumes "keys_ok w" "\<And>u. status_of w u \<noteq> Dangling"
  shows "table_ok w"
proof -
  have "(v, Freed) \<notin> set m" if "monitoredDevices w = Some m" for m v
    using assms(2) [of v] assms(1) that map_of_is_SomeI [of m v Freed]
    by (auto simp: keys_ok_def hmap_ok_def status_of_def wd_lookup_def hashMapGet_def)
  with assms(1) show ?thesis by (fastforce simp: table_ok_def keys_ok_def)
qed

lemma table_ok_no_fault:
  assumes "table_ok w"
  shows "pet_locked now u w \<noteq> Inl f" "force_locked u w \<noteq> Inl f" "scan_locked now w \<noteq> Inl f"
    "deviceCommunicationWatchdogMonitorDevice now uuid timeout b w \<noteq> Inl f"
    "deviceCommunicationWatchdogStopMonitoringDevice u w \<noteq> Inl f"
    "deviceCommunicationWatchdogSetTimeRemainingForDeviceFromLPM now uuid secs w \<noteq> Inl f"
    "deviceCommunicationWatchdogTerm w \<noteq> Inl f"
proof -
  note free = table_ok_lookup [OF assms]
  have get: "hashMapGet m v \<noteq> Some Freed" if "monitoredDevices w = Some m" for m v
    using free [of v] that by (simp add: wd_lookup_def)
  show "pet_locked now u w \<noteq> Inl f" "force_locked u w \<noteq> Inl f"
    "deviceCommunicationWatchdogSetTimeRemainingForDeviceFromLPM now uuid secs w \<noteq> Inl f"
    using free by (auto simp: pet_locked_def force_locked_def setMillisUntilCommFail_def
      deviceCommunicationWatchdogSetTimeRemainingForDeviceFromLPM_def split: option.splits slot.splits)
  show "scan_locked now w \<noteq> Inl f" using scan_locked_spec [OF assms, of now] by auto
  show "deviceCommunicationWatchdogMonitorDevice now uuid timeout b w \<noteq> Inl f"
    "deviceCommunicationWatchdogStopMonitoringDevice u w \<noteq> Inl f"
    using get by (auto simp: deviceCommunicationWatchdogMonitorDevice_def
        deviceCommunicationWatchdogStopMonitoringDevice_def split: option.splits prod.splits)
  show "deviceCommunicationWatchdogTerm w \<noteq> Inl f"
    using assms
    by (auto simp: deviceCommunicationWatchdogTerm_def term_table_def term_flags_def table_ok_def list_ex_iff
        split: option.splits) (metis image_eqI snd_conv)
qed

section \<open>A trace\<close>

text \<open>A watchdog with one monitored device, \<open>d1\<close>, timeout 60 seconds, monitored since time 0.\<close>

definition one_device :: "bool \<Rightarrow> watchdog" where
  "one_device b = watchdog_static\<lparr>running := True, failedCallback := True, restoredCallback := True,
     monitoredDevices := Some [(''d1'', Live (new_info 0 ''d1'' 60 b))]\<rparr>"

lemmas one_device_simps = one_device_def watchdog_static_def new_info_def setMillisUntilCommFail_def
  wd_lookup_def hashMapGet_def table_ok_def hmap_ok_def wd_store_def

text \<open>A device fails by timeout and is petted before the failure is announced.\<close>

definition fail_then_pet :: wd_sys where
  "fail_then_pet = \<lparr>wd = wd_store ''d1'' \<lparr>info_uuid = ''d1'', commFailTimeoutSeconds = 60,
        commFailTimeRemainingMillis = 60000, commFailRemainingLastSyncMillis = 60001,
        inCommFail = False\<rparr> (one_device False),
     history = [(''d1'', Started False), (''d1'', Failed), (''d1'', Restored)],
     pending = [(''d1'', Failed), (''d1'', Restored)], delivered = []\<rparr>"

lemma fail_then_pet_reachable: "wd_reach fail_then_pet"
proof -
  let ?s0 = "wd_sys_init False"
  let ?s1 = "produce [(''d1'', Started False)] (one_device False) ?s0"
  let ?w2 = "wd_store ''d1'' \<lparr>info_uuid = ''d1'', commFailTimeoutSeconds = 60,
      commFailTimeRemainingMillis = 0, commFailRemainingLastSyncMillis = 60000, inCommFail = True\<rparr>
      (one_device False)"
  let ?s2 = "produce (map (\<lambda>u. (u, Failed)) [''d1'']) ?w2 ?s1"
  have "wd_step ?s0 ?s1"
    using wd_step.monitor [of 0 "''d1''" 60 False ?s0 "one_device False"]
    by (simp add: wd_sys_init_def deviceCommunicationWatchdogInit_def one_device_simps
        deviceCommunicationWatchdogIsDeviceMonitored_def deviceCommunicationWatchdogMonitorDevice_def
        hashTableInsert_def hashMapContains_def)
  moreover have "scan_locked 60000 (wd ?s1) = Inr (?w2, [''d1''])"
    by (simp add: produce_def scan_locked_def check_info_def getMillisUntilCommFail_def
        one_device_simps Let_def)
  then have "wd_step ?s1 ?s2" by (rule wd_step.scan)
  moreover have "pet_locked 60001 ''d1'' (wd ?s2) = Inr (wd fail_then_pet, False, True)"
    by (simp add: produce_def pet_locked_def one_device_simps fail_then_pet_def
        MIN_UPDATE_INTERVAL_MILLIS_def word_le_nat_alt)
  then have "wd_step ?s2 (produce (if True then [(''d1'', Restored)] else []) (wd fail_then_pet) ?s2)"
    by (rule wd_step.pet)
  moreover have "produce (if True then [(''d1'', Restored)] else []) (wd fail_then_pet) ?s2 = fail_then_pet"
    by (simp add: produce_def fail_then_pet_def wd_sys_init_def)
  ultimately show ?thesis
    by (metis wd_reach.init wd_reach.step)
qed

section \<open>Properties\<close>



text \<open>
  C31. In every reachable interleaving of monitoring, stopping, petting, forcing, scanning, the power
  manager's countdown, the settings, termination and the notifications, the changes of a device's
  state are those of a life: fail and restore in turn, only while it is monitored, the last one
  agreeing with the table, and every notification is that of one change. The one way out of that
  alternation is to monitor a device that is monitored already, which leaves its entry dangling; as
  long as the history has no such repeat, no operation faults.
\<close>

theorem reachable_notes_alternate:
  assumes "wd_reach s"
  shows "life Idle (notes_of u (history s)) = Some (status_of (wd s) u) \<and>
    mset (pending s) + mset (delivered s) \<subseteq># mset (filter (\<lambda>n. snd n \<in> {Failed, Restored}) (history s)) \<and>
    ((\<forall>v. life Idle (notes_of v (history s)) \<noteq> Some Dangling) \<longrightarrow> table_ok (wd s) \<and>
      (\<forall>f now v uuid timeout b secs. pet_locked now v (wd s) \<noteq> Inl f \<and> force_locked v (wd s) \<noteq> Inl f \<and>
        scan_locked now (wd s) \<noteq> Inl f \<and>
        deviceCommunicationWatchdogMonitorDevice now uuid timeout b (wd s) \<noteq> Inl f \<and>
        deviceCommunicationWatchdogStopMonitoringDevice v (wd s) \<noteq> Inl f \<and>
        deviceCommunicationWatchdogSetTimeRemainingForDeviceFromLPM now uuid secs (wd s) \<noteq> Inl f \<and>
        deviceCommunicationWatchdogTerm (wd s) \<noteq> Inl f))"
proof -
  have inv: "keys_ok (wd s)" "\<And>v. life Idle (notes_of v (history s)) = Some (status_of (wd s) v)"
    "mset (pending s) + mset (delivered s) \<subseteq># mset (filter (\<lambda>n. snd n \<in> {Failed, Restored}) (history s))"
    using wd_reach_inv [OF assms] by (simp_all add: wd_inv_def notices_def)
  have "table_ok (wd s)" if "\<forall>v. life Idle (notes_of v (history s)) \<noteq> Some Dangling"
    using that inv(2) by (intro no_dangling_table_ok [OF inv(1)]) auto
  then show ?thesis using inv(2,3) by (simp add: table_ok_no_fault)
qed

theorem reachable_notes_alternate_witness:
  "life Idle (notes_of ''d1'' (history fail_then_pet)) = Some (status_of (wd fail_then_pet) ''d1'') \<and>
   status_of (wd fail_then_pet) ''d1'' = Watched False \<and> table_ok (wd fail_then_pet) \<and>
   deviceCommunicationWatchdogTerm (wd fail_then_pet) \<noteq> Inl DoubleFree"
proof -
  have "life Idle (notes_of v (history fail_then_pet)) = Some (if v = ''d1'' then Watched False else Idle)" for v
    by (simp add: fail_then_pet_def)
  then have "\<forall>v. life Idle (notes_of v (history fail_then_pet)) \<noteq> Some Dangling" by simp
  moreover have "status_of (wd fail_then_pet) ''d1'' = Watched False"
    by (simp add: fail_then_pet_def one_device_simps status_of_def)
  ultimately show ?thesis using reachable_notes_alternate [OF fail_then_pet_reachable, of "''d1''"] by blast
qed

text \<open>
  Notifications are delivered after the table lock is released, so their order is not the order
  of the changes: a state is reachable in which every notification has been delivered, the device is
  not in comm fail, and the last word its listeners heard is that it failed.
\<close>

theorem notifications_can_be_reordered:
  "\<exists>s. wd_reach s \<and> pending s = [] \<and> status_of (wd s) ''d1'' = Watched False \<and>
     last (delivered s) = (''d1'', Failed)"
proof -
  let ?s1 = "fail_then_pet\<lparr>pending := [(''d1'', Failed)] @ [],
      delivered := delivered fail_then_pet @ [(''d1'', Restored)]\<rparr>"
  let ?s2 = "?s1\<lparr>pending := [] @ [], delivered := delivered ?s1 @ [(''d1'', Failed)]\<rparr>"
  have set: "callback_set_for Failed (wd fail_then_pet)" "callback_set_for Restored (wd fail_then_pet)"
    by (simp_all add: callback_set_for_def fail_then_pet_def one_device_simps)
  have "wd_step fail_then_pet ?s1"
    using wd_step.deliver [of fail_then_pet "[(''d1'', Failed)]" "(''d1'', Restored)" "[]"] set by (simp add: fail_then_pet_def)
  moreover have "wd_step ?s1 ?s2" using wd_step.deliver [of ?s1 "[]" "(''d1'', Failed)" "[]"] set by simp
  ultimately have "wd_reach ?s2" using fail_then_pet_reachable by (metis wd_reach.step)
  moreover have "status_of (wd ?s2) ''d1'' = Watched False"
    by (simp add: fail_then_pet_def one_device_simps status_of_def)
  ultimately show ?thesis by (intro exI [of _ ?s2]) simp
qed

text \<open>
  Monitoring a device that is monitored already leaves a freed structure in the table: the next
  pet, forced comm fail or scan uses it after free, and stopping or terminating frees it twice.
\<close>

theorem monitor_again_leaves_freed_entry:
  assumes "running w" "timeout \<noteq> 0" "wd_lookup w u = Some (Live i)" "table_ok w"
  shows "\<exists>w'. deviceCommunicationWatchdogMonitorDevice now (Some u) timeout b w = Inr w' \<and>
    deviceCommunicationWatchdogPetDevice t (Some u) w' = Inl UseAfterFree \<and>
    deviceCommunicationWatchdogForceDeviceInCommFail (Some u) w' = Inl UseAfterFree \<and>
    commFailWatchdogThreadIteration t w' = Some (Inl UseAfterFree) \<and>
    deviceCommunicationWatchdogStopMonitoringDevice u w' = Inl DoubleFree \<and>
    deviceCommunicationWatchdogTerm w' = Inl DoubleFree"
proof -
  obtain m where m: "monitoredDevices w = Some m" "hashMapGet m u = Some (Live i)"
    using assms(3) by (auto simp: wd_lookup_def split: option.splits)
  let ?v = "Live (new_info now u timeout b)"
  let ?m = "hashMapUpdate (hashMapUpdate m u (\<lambda>_. ?v)) u (\<lambda>_. Freed)"
  let ?w = "w\<lparr>monitoredDevices := Some ?m\<rparr>"
  have "hashTableInsert m u ?v = (False, hashMapUpdate m u (\<lambda>_. ?v))"
    using m(2) by (simp add: hashTableInsert_def hmap_simps)
  then have r: "deviceCommunicationWatchdogMonitorDevice now (Some u) timeout b w = Inr ?w"
    using assms m by (simp add: deviceCommunicationWatchdogMonitorDevice_def)
  have g: "hashMapGet ?m u = Some Freed" using m(2) by (simp add: hmap_simps)
  then have mem: "(u, Freed) \<in> set ?m" by (simp add: hashMapGet_def map_of_Some_mem)
  then have "scan_table t fast ?m = Inl UseAfterFree" for fast by (rule scan_table_Freed)
  then show ?thesis
    using r g mem assms(1)
    by (intro exI [of _ ?w])
      (auto simp: deviceCommunicationWatchdogPetDevice_def pet_locked_def wd_lookup_def
        deviceCommunicationWatchdogForceDeviceInCommFail_def force_locked_def scan_locked_def
        commFailWatchdogThreadIteration_def deviceCommunicationWatchdogStopMonitoringDevice_def
        deviceCommunicationWatchdogTerm_def term_table_def term_flags_def list_ex_iff intro!: bexI [of _ "(u, Freed)"])
qed

theorem monitor_again_leaves_freed_entry_witness:
  "\<exists>w'. deviceCommunicationWatchdogMonitorDevice 1000 (Some ''d1'') 60 False (one_device False) = Inr w' \<and>
    deviceCommunicationWatchdogPetDevice 2000 (Some ''d1'') w' = Inl UseAfterFree"
  using monitor_again_leaves_freed_entry
      [of "one_device False" 60 "''d1''" "new_info 0 ''d1'' 60 False" 1000 False 2000]
  by (fastforce simp: one_device_simps)

end
