(* ===== verification/Device_Model.thy ===== *)
theory Device_Model
  imports Barton_Externals
begin

text \<open>
  The device model of \<^verbatim>\<open>core/src/device\<close> (\<^verbatim>\<open>icDevice.c\<close>, \<^verbatim>\<open>icDeviceEndpoint.c\<close>, \<^verbatim>\<open>icDeviceResource.c\<close>,
  \<^verbatim>\<open>icDeviceMetadata.c\<close>) and its serialization context (\<^verbatim>\<open>core/src/serial/icSerDesContext.c\<close>): the
  structures, their clones, their URIs, and the conversion to and from JSON in the strict and the
  permissive mode. A field that the C code may leave \<^verbatim>\<open>NULL\<close> is an option. cJSON and the string
  helpers are the parameters \<open>J\<close> and \<open>U\<close>.
\<close>

section \<open>Structures\<close>

record icDeviceMetadata =
  m_id :: cstr
  m_uri :: cstr
  m_endpointId :: cstr
  m_deviceUuid :: cstr
  m_value :: cstr

record icDeviceResource =
  r_id :: cstr
  r_uri :: cstr
  r_endpointId :: cstr
  r_deviceUuid :: cstr
  r_value :: cstr
  r_type :: cstr
  r_mode :: u8
  r_cachingPolicy :: int
  r_dateOfLastSyncMillis :: u64

record icDeviceEndpoint =
  e_id :: cstr
  e_uri :: cstr
  e_profile :: cstr
  e_profileVersion :: u8
  e_deviceUuid :: cstr
  e_enabled :: bool
  e_resources :: "icDeviceResource list option"
  e_metadata :: "icDeviceMetadata list option"

record icDevice =
  d_uuid :: cstr
  d_deviceClass :: cstr
  d_deviceClassVersion :: u8
  d_uri :: cstr
  d_managingDeviceDriver :: cstr
  d_endpoints :: "icDeviceEndpoint list option"
  d_resources :: "icDeviceResource list option"
  d_metadata :: "icDeviceMetadata list option"

text \<open>The enumeration is an \<^verbatim>\<open>int\<close> in C, and JSON stores it as a number.\<close>

definition CACHING_POLICY_NEVER :: int where "CACHING_POLICY_NEVER = 0"
definition CACHING_POLICY_ALWAYS :: int where "CACHING_POLICY_ALWAYS = 1"

definition RESOURCE_MODE_READABLE :: u8 where "RESOURCE_MODE_READABLE = push_bit 0 1"
definition RESOURCE_MODE_WRITEABLE :: u8 where "RESOURCE_MODE_WRITEABLE = push_bit 1 1"
definition RESOURCE_MODE_EXECUTABLE :: u8 where "RESOURCE_MODE_EXECUTABLE = push_bit 2 1"
definition RESOURCE_MODE_LAZY_SAVE_NEXT :: u8 where "RESOURCE_MODE_LAZY_SAVE_NEXT = push_bit 6 1"
definition RESOURCE_MODE_SENSITIVE :: u8 where "RESOURCE_MODE_SENSITIVE = push_bit 7 1"

definition mode_has :: "u8 \<Rightarrow> u8 \<Rightarrow> bool" where
  "mode_has md flag = (and md flag \<noteq> 0)"

section \<open>Serialization context\<close>

type_synonym icSerDesContext = "(string, string) hmap option"

definition serDesCreateContext :: icSerDesContext where "serDesCreateContext = Some []"

definition serDesSetContextValue :: "icSerDesContext \<Rightarrow> string \<Rightarrow> string \<Rightarrow> bool \<times> icSerDesContext" where
  "serDesSetContextValue ctx k v =
     (case ctx of None \<Rightarrow> (False, None) | Some m \<Rightarrow> map_prod id Some (hashMapPut m k v))"

definition serDesHasContextValue :: "icSerDesContext \<Rightarrow> string \<Rightarrow> bool" where
  "serDesHasContextValue ctx k = (case ctx of None \<Rightarrow> False | Some m \<Rightarrow> hashMapContains m k)"

definition serDesGetContextValue :: "icSerDesContext \<Rightarrow> string \<Rightarrow> cstr" where
  "serDesGetContextValue ctx k = (case ctx of None \<Rightarrow> None | Some m \<Rightarrow> hashMapGet m k)"

section \<open>URIs\<close>

definition endpointUriCreate :: "string \<Rightarrow> string \<Rightarrow> string" where
  "endpointUriCreate deviceUuid endpointId = ''/'' @ deviceUuid @ ''/ep/'' @ endpointId"

definition metadataUriCreate :: "string \<Rightarrow> cstr \<Rightarrow> string \<Rightarrow> string" where
  "metadataUriCreate deviceUuid endpointId name =
     (case endpointId of None \<Rightarrow> ''/'' @ deviceUuid @ ''/m/'' @ name
      | Some e \<Rightarrow> endpointUriCreate deviceUuid e @ ''/m/'' @ name)"

definition resourceUriCreate :: "util_api \<Rightarrow> string \<Rightarrow> cstr \<Rightarrow> string \<Rightarrow> string" where
  "resourceUriCreate U deviceUuid endpointId resourceId =
     (if stringIsEmpty U endpointId then ''/'' @ deviceUuid @ ''/r/'' @ resourceId
      else endpointUriCreate deviceUuid (the endpointId) @ ''/r/'' @ resourceId)"

definition deviceUriIsValid :: "util_api \<Rightarrow> cstr \<Rightarrow> cstr \<Rightarrow> bool" where
  "deviceUriIsValid U deviceUri deviceUuid =
     (\<not> stringIsEmpty U deviceUri \<and> \<not> stringIsEmpty U deviceUuid \<and>
      stringCompare U deviceUri (Some (''/'' @ the deviceUuid)) True = 0)"

definition endpointUriIsValid :: "util_api \<Rightarrow> cstr \<Rightarrow> cstr \<Rightarrow> cstr \<Rightarrow> bool" where
  "endpointUriIsValid U deviceEndpointUri deviceUuid endpointId =
     (\<not> stringIsEmpty U deviceEndpointUri \<and> \<not> stringIsEmpty U deviceUuid \<and> \<not> stringIsEmpty U endpointId \<and>
      stringCompare U deviceEndpointUri (Some (endpointUriCreate (the deviceUuid) (the endpointId))) True = 0)"

definition metadataUriIsValid :: "util_api \<Rightarrow> cstr \<Rightarrow> cstr \<Rightarrow> cstr \<Rightarrow> cstr \<Rightarrow> bool" where
  "metadataUriIsValid U deviceMetadataUri deviceUuid endpointId metadataId =
     (\<not> stringIsEmpty U deviceMetadataUri \<and> \<not> stringIsEmpty U deviceUuid \<and> \<not> stringIsEmpty U metadataId \<and>
      stringCompare U deviceMetadataUri
        (Some (metadataUriCreate (the deviceUuid) endpointId (the metadataId))) True = 0)"

definition resourceUriIsValid :: "util_api \<Rightarrow> cstr \<Rightarrow> cstr \<Rightarrow> cstr \<Rightarrow> cstr \<Rightarrow> bool" where
  "resourceUriIsValid U deviceResourceUri deviceUuid endpointId resourceId =
     (\<not> stringIsEmpty U deviceResourceUri \<and> \<not> stringIsEmpty U deviceUuid \<and> \<not> stringIsEmpty U resourceId \<and>
      stringCompare U deviceResourceUri
        (Some (resourceUriCreate U (the deviceUuid) endpointId (the resourceId))) True = 0)"

section \<open>Clones\<close>

definition metadataClone :: "icDeviceMetadata option \<Rightarrow> icDeviceMetadata option" where
  "metadataClone md = (case md of None \<Rightarrow> None | Some m \<Rightarrow> Some
     \<lparr>m_id = m_id m, m_uri = m_uri m, m_endpointId = m_endpointId m, m_deviceUuid = m_deviceUuid m,
      m_value = m_value m\<rparr>)"

definition resourceClone :: "icDeviceResource option \<Rightarrow> icDeviceResource option" where
  "resourceClone res = (case res of None \<Rightarrow> None | Some r \<Rightarrow> Some
     \<lparr>r_id = r_id r, r_uri = r_uri r, r_endpointId = r_endpointId r, r_deviceUuid = r_deviceUuid r,
      r_value = r_value r, r_type = r_type r, r_mode = r_mode r, r_cachingPolicy = r_cachingPolicy r,
      r_dateOfLastSyncMillis = r_dateOfLastSyncMillis r\<rparr>)"

text \<open>\<^verbatim>\<open>linkedListDeepClone\<close> with a clone function for the items.\<close>

definition deepClone :: "('a option \<Rightarrow> 'a option) \<Rightarrow> 'a list option \<Rightarrow> 'a list option" where
  "deepClone f xs = map_option (List.map_filter (\<lambda>x. f (Some x))) xs"

definition endpointClone :: "icDeviceEndpoint option \<Rightarrow> icDeviceEndpoint option" where
  "endpointClone ep = (case ep of None \<Rightarrow> None | Some e \<Rightarrow> Some
     \<lparr>e_id = e_id e, e_uri = e_uri e, e_profile = e_profile e, e_profileVersion = e_profileVersion e,
      e_deviceUuid = e_deviceUuid e, e_enabled = e_enabled e,
      e_resources = deepClone resourceClone (e_resources e),
      e_metadata = deepClone metadataClone (e_metadata e)\<rparr>)"

definition deviceClone :: "icDevice option \<Rightarrow> icDevice option" where
  "deviceClone dev = (case dev of None \<Rightarrow> None | Some d \<Rightarrow> Some
     \<lparr>d_uuid = d_uuid d, d_deviceClass = d_deviceClass d, d_deviceClassVersion = d_deviceClassVersion d,
      d_uri = d_uri d, d_managingDeviceDriver = d_managingDeviceDriver d,
      d_endpoints = deepClone endpointClone (d_endpoints d),
      d_resources = deepClone resourceClone (d_resources d),
      d_metadata = deepClone metadataClone (d_metadata d)\<rparr>)"

section \<open>To JSON\<close>

text \<open>\<^verbatim>\<open>cJSON_AddItemToObject\<close> with the name taken from a structure: a \<^verbatim>\<open>NULL\<close> name adds nothing.\<close>

definition add_item :: "'j json_api \<Rightarrow> 'j \<Rightarrow> cstr \<Rightarrow> 'j \<Rightarrow> 'j" where
  "add_item J j k v = (case k of None \<Rightarrow> j | Some n \<Rightarrow> cJSON_AddItemToObject J j n v)"

definition metadataToJSON :: "'j json_api \<Rightarrow> icDeviceMetadata \<Rightarrow> 'j" where
  "metadataToJSON J m =
     (let json = cJSON_CreateObject J;
          json = cJSON_AddStringToObject J json ''id'' (m_id m);
          json = cJSON_AddStringToObject J json ''uri'' (m_uri m)
      in case cJSON_Parse J (m_value m) of
           Some v \<Rightarrow> if cJSON_IsObject J (Some v) then cJSON_AddItemToObject J json ''value'' v
                     else cJSON_AddStringToObject J json ''value'' (m_value m)
         | None \<Rightarrow> cJSON_AddStringToObject J json ''value'' (m_value m))"

definition metadatasToJSON :: "'j json_api \<Rightarrow> icDeviceMetadata list \<Rightarrow> 'j" where
  "metadatasToJSON J ms = foldl (\<lambda>j m. add_item J j (m_id m) (metadataToJSON J m)) (cJSON_CreateObject J) ms"

text \<open>The value a resource stores, and whether it is stored as encrypted.\<close>

definition resource_stored_value :: "util_api \<Rightarrow> icSerDesContext \<Rightarrow> icDeviceResource \<Rightarrow> cstr \<times> bool" where
  "resource_stored_value U ctx r =
     (let (v, enc) = (if mode_has (r_mode r) RESOURCE_MODE_SENSITIVE
                         \<and> serDesHasContextValue ctx ''namespace''
                      then (simpleProtectConfigData U (the (serDesGetContextValue ctx ''namespace'')) (r_value r), True)
                      else (None, False))
      in (if v = None then r_value r else v, enc))"

definition resourceToJSON :: "'j json_api \<Rightarrow> util_api \<Rightarrow> icSerDesContext \<Rightarrow> icDeviceResource \<Rightarrow> 'j" where
  "resourceToJSON J U ctx r =
     (let (v, enc) = resource_stored_value U ctx r;
          json = cJSON_CreateObject J;
          json = cJSON_AddStringToObject J json ''id'' (r_id r);
          json = cJSON_AddStringToObject J json ''uri'' (r_uri r);
          json = cJSON_AddNumberToObject J json ''mode'' (uint (r_mode r));
          json = cJSON_AddNumberToObject J json ''cachingPolicy'' (r_cachingPolicy r);
          json = cJSON_AddNumberToObject J json ''dateOfLastSyncMillis'' (uint (r_dateOfLastSyncMillis r));
          json = cJSON_AddStringToObject J json (if enc then ''value_enc'' else ''value'') v
      in cJSON_AddStringToObject J json ''type'' (r_type r))"

definition resourcesToJSON :: "'j json_api \<Rightarrow> util_api \<Rightarrow> icSerDesContext \<Rightarrow> icDeviceResource list \<Rightarrow> 'j" where
  "resourcesToJSON J U ctx rs =
     foldl (\<lambda>j r. add_item J j (r_id r) (resourceToJSON J U ctx r)) (cJSON_CreateObject J) rs"

text \<open>Iterating over a list that is \<^verbatim>\<open>NULL\<close> visits nothing.\<close>

fun items :: "'a list option \<Rightarrow> 'a list" where
  "items None = []"
| "items (Some l) = l"

definition endpointToJSON :: "'j json_api \<Rightarrow> util_api \<Rightarrow> icSerDesContext \<Rightarrow> icDeviceEndpoint \<Rightarrow> 'j" where
  "endpointToJSON J U ctx e =
     (let json = cJSON_CreateObject J;
          json = cJSON_AddStringToObject J json ''uri'' (e_uri e);
          json = cJSON_AddStringToObject J json ''id'' (e_id e);
          json = cJSON_AddStringToObject J json ''profile'' (e_profile e);
          json = cJSON_AddBoolToObject J json ''enabled'' (e_enabled e);
          json = cJSON_AddNumberToObject J json ''profileVersion'' (uint (e_profileVersion e));
          json = cJSON_AddItemToObject J json ''resources'' (resourcesToJSON J U ctx (items (e_resources e)))
      in cJSON_AddItemToObject J json ''metadatas'' (metadatasToJSON J (items (e_metadata e))))"

definition endpointsToJSON :: "'j json_api \<Rightarrow> util_api \<Rightarrow> icSerDesContext \<Rightarrow> icDeviceEndpoint list \<Rightarrow> 'j" where
  "endpointsToJSON J U ctx es =
     foldl (\<lambda>j e. add_item J j (e_id e) (endpointToJSON J U ctx e)) (cJSON_CreateObject J) es"

definition deviceToJSON :: "'j json_api \<Rightarrow> util_api \<Rightarrow> icSerDesContext \<Rightarrow> icDevice \<Rightarrow> 'j" where
  "deviceToJSON J U ctx d =
     (let json = cJSON_CreateObject J;
          json = cJSON_AddStringToObject J json ''deviceDriver'' (d_managingDeviceDriver d);
          json = cJSON_AddStringToObject J json ''deviceClass'' (d_deviceClass d);
          json = cJSON_AddNumberToObject J json ''deviceClassVersion'' (uint (d_deviceClassVersion d));
          json = cJSON_AddStringToObject J json ''uri'' (d_uri d);
          json = cJSON_AddStringToObject J json ''uuid'' (d_uuid d);
          json = cJSON_AddItemToObject J json ''deviceEndpoints'' (endpointsToJSON J U ctx (items (d_endpoints d)));
          json = cJSON_AddItemToObject J json ''deviceResources'' (resourcesToJSON J U ctx (items (d_resources d)))
      in cJSON_AddItemToObject J json ''metadatas'' (metadatasToJSON J (items (d_metadata d))))"

section \<open>From JSON\<close>

definition metadataFromJSON ::
  "'j json_api \<Rightarrow> util_api \<Rightarrow> cstr \<Rightarrow> cstr \<Rightarrow> 'j option \<Rightarrow> icDeviceMetadata option" where
  "metadataFromJSON J U deviceUUID endpointId metadataJSON =
     (case metadataJSON of None \<Rightarrow> None | Some j \<Rightarrow>
      if deviceUUID = None then None
      else
        let uri = getCJSONString J j ''uri''; id' = getCJSONString J j ''id'' in
        if \<not> stringIsPrintable U id' False then None
        else if \<not> metadataUriIsValid U uri deviceUUID endpointId id' then None
        else
          let valueJSON = cJSON_GetObjectItem J j ''value'';
              value = (if cJSON_IsObject J valueJSON then Some (cJSON_Print J (the valueJSON))
                       else getCJSONString J j ''value'')
          in if stringIsEmpty U value then None
             else if stringIsEmpty U deviceUUID then None
             else Some \<lparr>m_id = id', m_uri = uri, m_endpointId = endpointId, m_deviceUuid = deviceUUID,
                        m_value = value\<rparr>)"

text \<open>
  The loops over the items of an object: item by index, append on success, and on failure either
  skip the item (permissive) or give up.
\<close>

fun load_loop :: "(nat \<Rightarrow> 'j option) \<Rightarrow> ('j option \<Rightarrow> 'a option) \<Rightarrow> bool \<Rightarrow> nat \<Rightarrow> nat \<Rightarrow> 'a list \<Rightarrow> 'a list option" where
  "load_loop item load permissive i 0 acc = Some acc"
| "load_loop item load permissive i (Suc n) acc =
     (case load (item i) of
        Some x \<Rightarrow> load_loop item load permissive (Suc i) n (acc @ [x])
      | None \<Rightarrow> if permissive then load_loop item load permissive (Suc i) n acc else None)"

definition load_items :: "'j json_api \<Rightarrow> ('j option \<Rightarrow> 'a option) \<Rightarrow> bool \<Rightarrow> 'j option \<Rightarrow> 'a list option" where
  "load_items J load permissive json =
     (case json of None \<Rightarrow> None
      | Some j \<Rightarrow> load_loop (cJSON_GetArrayItem J j) load permissive 0 (cJSON_GetArraySize J j) [])"

definition metadatasFromJSON ::
  "'j json_api \<Rightarrow> util_api \<Rightarrow> cstr \<Rightarrow> cstr \<Rightarrow> 'j option \<Rightarrow> bool \<Rightarrow> icDeviceMetadata list option" where
  "metadatasFromJSON J U deviceUUID endpointId metadatasJSON permissive =
     load_items J (metadataFromJSON J U deviceUUID endpointId) permissive metadatasJSON"

text \<open>The value a resource is loaded with.\<close>

definition resource_loaded_value :: "'j json_api \<Rightarrow> util_api \<Rightarrow> icSerDesContext \<Rightarrow> u8 \<Rightarrow> 'j \<Rightarrow> cstr" where
  "resource_loaded_value J U ctx md j =
     (let v = (if mode_has md RESOURCE_MODE_SENSITIVE then
                 (case getCJSONString J j ''value_enc'' of
                    Some c \<Rightarrow> if serDesHasContextValue ctx ''namespace''
                              then simpleUnprotectConfigData U (the (serDesGetContextValue ctx ''namespace'')) c
                              else None
                  | None \<Rightarrow> None)
               else None)
      in if v \<noteq> None then v else getCJSONString J j ''value'')"

definition resourceFromJSON ::
  "'j json_api \<Rightarrow> util_api \<Rightarrow> icSerDesContext \<Rightarrow> cstr \<Rightarrow> cstr \<Rightarrow> 'j option \<Rightarrow> icDeviceResource option" where
  "resourceFromJSON J U ctx deviceUUID endpointId resourceJSON =
     (case resourceJSON of None \<Rightarrow> None | Some j \<Rightarrow>
      if deviceUUID = None then None
      else if stringIsEmpty U deviceUUID then None
      else
        let uri = getCJSONString J j ''uri''; id' = getCJSONString J j ''id'' in
        if \<not> stringIsPrintable U id' False then None
        else if \<not> resourceUriIsValid U uri deviceUUID endpointId id' then None
        else
          let md = (case getCJSONUInt8 J j ''mode'' of Some m \<Rightarrow> m | None \<Rightarrow> RESOURCE_MODE_READABLE);
              value = resource_loaded_value J U ctx md j;
              type' = getCJSONString J j ''type''
          in if stringIsEmpty U type' then None
             else Some \<lparr>r_id = id', r_uri = uri, r_endpointId = endpointId, r_deviceUuid = deviceUUID,
                r_value = value, r_type = type', r_mode = md,
                r_cachingPolicy = (case getCJSONInt J j ''cachingPolicy'' of Some p \<Rightarrow> p | None \<Rightarrow> CACHING_POLICY_NEVER),
                r_dateOfLastSyncMillis = (case getCJSONUInt64 J j ''dateOfLastSyncMillis'' of Some t \<Rightarrow> t | None \<Rightarrow> 0)\<rparr>)"

definition resourcesFromJSON ::
  "'j json_api \<Rightarrow> util_api \<Rightarrow> icSerDesContext \<Rightarrow> cstr \<Rightarrow> cstr \<Rightarrow> 'j option \<Rightarrow> bool \<Rightarrow> icDeviceResource list option" where
  "resourcesFromJSON J U ctx deviceUUID endpointId resourcesJSON permissive =
     load_items J (resourceFromJSON J U ctx deviceUUID endpointId) permissive resourcesJSON"

definition endpointFromJSON ::
  "'j json_api \<Rightarrow> util_api \<Rightarrow> icSerDesContext \<Rightarrow> cstr \<Rightarrow> 'j option \<Rightarrow> icDeviceEndpoint option" where
  "endpointFromJSON J U ctx deviceUUID endpointJSON =
     (case endpointJSON of None \<Rightarrow> None | Some j \<Rightarrow>
      if deviceUUID = None then None
      else if stringIsEmpty U deviceUUID then None
      else
        let uri = getCJSONString J j ''uri''; id' = getCJSONString J j ''id'' in
        if \<not> stringIsPrintable U id' False then None
        else if \<not> endpointUriIsValid U uri deviceUUID id' then None
        else (case getCJSONBool J j ''enabled'' of None \<Rightarrow> None | Some enabled \<Rightarrow>
          let profile = getCJSONString J j ''profile'' in
          if stringIsEmpty U profile then None
          else
            let version = (case getCJSONUInt8 J j ''profileVersion'' of Some v \<Rightarrow> v | None \<Rightarrow> 1) in
            case resourcesFromJSON J U ctx deviceUUID id' (cJSON_GetObjectItem J j ''resources'') False of
              None \<Rightarrow> None | Some rs \<Rightarrow>
            (case metadatasFromJSON J U deviceUUID id' (cJSON_GetObjectItem J j ''metadatas'') False of
              None \<Rightarrow> None | Some ms \<Rightarrow>
                Some \<lparr>e_id = id', e_uri = uri, e_profile = profile, e_profileVersion = version,
                      e_deviceUuid = deviceUUID, e_enabled = enabled, e_resources = Some rs,
                      e_metadata = Some ms\<rparr>)))"

definition endpointsFromJSON ::
  "'j json_api \<Rightarrow> util_api \<Rightarrow> icSerDesContext \<Rightarrow> cstr \<Rightarrow> 'j option \<Rightarrow> bool \<Rightarrow> icDeviceEndpoint list option" where
  "endpointsFromJSON J U ctx deviceUUID endpointsJSON permissive =
     load_items J (endpointFromJSON J U ctx deviceUUID) permissive endpointsJSON"

text \<open>\<^verbatim>\<open>linkedListCount\<close> is 0 for \<^verbatim>\<open>NULL\<close> and for the empty list.\<close>

definition deviceFromJSON :: "'j json_api \<Rightarrow> util_api \<Rightarrow> icSerDesContext \<Rightarrow> bool \<Rightarrow> 'j \<Rightarrow> icDevice option" where
  "deviceFromJSON J U ctx permissive j =
     (let uri = getCJSONString J j ''uri''; uuid = getCJSONString J j ''uuid'' in
      if \<not> stringIsPrintable U uuid False then None
      else if \<not> deviceUriIsValid U uri uuid then None
      else
        let driver = getCJSONString J j ''deviceDriver''; cls = getCJSONString J j ''deviceClass'' in
        if stringIsEmpty U driver then None
        else if stringIsEmpty U cls then None
        else
          let version = (case getCJSONUInt8 J j ''deviceClassVersion'' of Some v \<Rightarrow> v | None \<Rightarrow> 1);
              es = endpointsFromJSON J U ctx uuid (cJSON_GetObjectItem J j ''deviceEndpoints'') permissive;
              rs = resourcesFromJSON J U ctx uuid None (cJSON_GetObjectItem J j ''deviceResources'') permissive;
              ms = metadatasFromJSON J U uuid None (cJSON_GetObjectItem J j ''metadatas'') permissive
          in if items es = [] then None
             else if items rs = [] then None
             else if ms = None then None
             else Some \<lparr>d_uuid = uuid, d_deviceClass = cls, d_deviceClassVersion = version, d_uri = uri,
                        d_managingDeviceDriver = driver, d_endpoints = es, d_resources = rs,
                        d_metadata = ms\<rparr>)"

section \<open>Accessors\<close>

fun icDeviceResourceGetValueById :: "util_api \<Rightarrow> icDeviceResource list \<Rightarrow> cstr \<Rightarrow> cstr" where
  "icDeviceResourceGetValueById U [] resourceId = None"
| "icDeviceResourceGetValueById U (r # rs) resourceId =
     (if resourceId = None then None
      else if stringCompare U (r_id r) resourceId False = 0 then r_value r
      else icDeviceResourceGetValueById U rs resourceId)"

definition deviceGetResourceValueById :: "util_api \<Rightarrow> icDevice option \<Rightarrow> cstr \<Rightarrow> cstr" where
  "deviceGetResourceValueById U device resourceId =
     (case device of None \<Rightarrow> None
      | Some d \<Rightarrow> icDeviceResourceGetValueById U (items (d_resources d)) resourceId)"

definition deviceGetMetadata :: "icDevice option \<Rightarrow> string \<Rightarrow> cstr" where
  "deviceGetMetadata device key =
     (case device of None \<Rightarrow> None
      | Some d \<Rightarrow> (case find (\<lambda>m. m_id m = Some key) (items (d_metadata d)) of
           None \<Rightarrow> None | Some m \<Rightarrow> m_value m))"

definition endpointsSetProfileVersion ::
  "icDeviceEndpoint list option \<Rightarrow> u8 \<Rightarrow> bool \<times> icDeviceEndpoint list option" where
  "endpointsSetProfileVersion endpoints profileVersion =
     (case endpoints of None \<Rightarrow> (False, None)
      | Some es \<Rightarrow> (True, Some (map (\<lambda>e. e\<lparr>e_profileVersion := profileVersion\<rparr>) es)))"

section \<open>Valid and storable devices\<close>

text \<open>
  What loading establishes: identifiers printable, URIs built from the identifiers (up to case),
  back references to the device and the endpoint, the mandatory strings present.
\<close>

definition valid_metadata :: "util_api \<Rightarrow> cstr \<Rightarrow> cstr \<Rightarrow> icDeviceMetadata \<Rightarrow> bool" where
  "valid_metadata U uuid ep m \<longleftrightarrow> m_deviceUuid m = uuid \<and> m_endpointId m = ep \<and>
     stringIsPrintable U (m_id m) False \<and> metadataUriIsValid U (m_uri m) uuid ep (m_id m) \<and>
     \<not> stringIsEmpty U (m_value m)"

definition valid_resource :: "util_api \<Rightarrow> cstr \<Rightarrow> cstr \<Rightarrow> icDeviceResource \<Rightarrow> bool" where
  "valid_resource U uuid ep r \<longleftrightarrow> r_deviceUuid r = uuid \<and> r_endpointId r = ep \<and>
     stringIsPrintable U (r_id r) False \<and> resourceUriIsValid U (r_uri r) uuid ep (r_id r) \<and>
     \<not> stringIsEmpty U (r_type r)"

definition valid_endpoint :: "util_api \<Rightarrow> cstr \<Rightarrow> icDeviceEndpoint \<Rightarrow> bool" where
  "valid_endpoint U uuid e \<longleftrightarrow> e_deviceUuid e = uuid \<and> stringIsPrintable U (e_id e) False \<and>
     endpointUriIsValid U (e_uri e) uuid (e_id e) \<and> \<not> stringIsEmpty U (e_profile e) \<and>
     e_resources e \<noteq> None \<and> list_all (valid_resource U uuid (e_id e)) (items (e_resources e)) \<and>
     e_metadata e \<noteq> None \<and> list_all (valid_metadata U uuid (e_id e)) (items (e_metadata e))"

definition valid_device :: "util_api \<Rightarrow> icDevice \<Rightarrow> bool" where
  "valid_device U d \<longleftrightarrow> stringIsPrintable U (d_uuid d) False \<and> deviceUriIsValid U (d_uri d) (d_uuid d) \<and>
     \<not> stringIsEmpty U (d_managingDeviceDriver d) \<and> \<not> stringIsEmpty U (d_deviceClass d) \<and>
     items (d_endpoints d) \<noteq> [] \<and> list_all (valid_endpoint U (d_uuid d)) (items (d_endpoints d)) \<and>
     items (d_resources d) \<noteq> [] \<and> list_all (valid_resource U (d_uuid d) None) (items (d_resources d)) \<and>
     d_metadata d \<noteq> None \<and> list_all (valid_metadata U (d_uuid d) None) (items (d_metadata d))"

text \<open>
  What JSON can hold without loss: 32-bit caching policies, dates up to \<open>2 ^ 53\<close>, secrets with a value,
  and metadata whose value, when it reads as a JSON object, is how cJSON prints that object.
\<close>

definition storable_metadata :: "'j json_api \<Rightarrow> icDeviceMetadata \<Rightarrow> bool" where
  "storable_metadata J m \<longleftrightarrow> (case cJSON_Parse J (m_value m) of None \<Rightarrow> True
     | Some v \<Rightarrow> cJSON_IsObject J (Some v) \<longrightarrow> Some (cJSON_Print J v) = m_value m)"

definition storable_resource :: "icDeviceResource \<Rightarrow> bool" where
  "storable_resource r \<longleftrightarrow> - (2 ^ 31) \<le> r_cachingPolicy r \<and> r_cachingPolicy r < 2 ^ 31 \<and>
     uint (r_dateOfLastSyncMillis r) \<le> 2 ^ 53 \<and>
     (mode_has (r_mode r) RESOURCE_MODE_SENSITIVE \<longrightarrow> r_value r \<noteq> None)"

definition storable_endpoint :: "'j json_api \<Rightarrow> icDeviceEndpoint \<Rightarrow> bool" where
  "storable_endpoint J e \<longleftrightarrow> list_all storable_resource (items (e_resources e)) \<and>
     list_all (storable_metadata J) (items (e_metadata e))"

definition storable_device :: "'j json_api \<Rightarrow> icDevice \<Rightarrow> bool" where
  "storable_device J d \<longleftrightarrow> list_all (storable_endpoint J) (items (d_endpoints d)) \<and>
     list_all storable_resource (items (d_resources d)) \<and>
     list_all (storable_metadata J) (items (d_metadata d))"

text \<open>What the code relies on of the protection of secrets: it succeeds and can be undone.\<close>

definition protect_ok :: "util_api \<Rightarrow> icSerDesContext \<Rightarrow> bool" where
  "protect_ok U ctx \<longleftrightarrow> (\<forall>ns v. serDesGetContextValue ctx ''namespace'' = Some ns \<longrightarrow>
     (\<exists>c. simpleProtectConfigData U ns (Some v) = Some c \<and> simpleUnprotectConfigData U ns c = Some v))"

section \<open>Lemmas on loading\<close>

lemma items_Nil: "items xs = [] \<longleftrightarrow> xs = None \<or> xs = Some []"
  by (cases xs) auto

lemma load_loop_spec:
  "load_loop item (load :: 'j option \<Rightarrow> 'b option) p i n acc =
     (if p then Some (acc @ List.map_filter (\<lambda>k. load (item k)) [i..<i + n])
      else map_option ((@) acc) (those (map (\<lambda>k. load (item k)) [i..<i + n])))"
proof (induction n arbitrary: i acc)
  case (Suc n)
  have "[i..<i + Suc n] = i # [Suc i..<Suc i + n]" by (simp add: upt_conv_Cons)
  moreover have "(@) (xs @ [x]) = (\<lambda>ys. xs @ x # ys)" for xs and x :: 'b by auto
  ultimately show ?case
    using Suc.IH [of "Suc i"]
    by (auto simp: map_filter_simps option.map_comp comp_def simp del: upt_Suc split: option.splits)
qed (simp add: map_filter_simps)

lemma load_items_spec:
  assumes "cjson_ok J"
  shows "load_items J (load :: 'j option \<Rightarrow> 'a option) p (Some j) =
     (if p then Some (List.map_filter (\<lambda>c. load (Some (snd c))) (cJSON_children J j))
      else those (map (\<lambda>c. load (Some (snd c))) (cJSON_children J j)))"
proof -
  let ?cs = "cJSON_children J j"
  have sz: "cJSON_GetArraySize J j = length ?cs"
    and it: "\<And>i. i < length ?cs \<Longrightarrow> cJSON_GetArrayItem J j i = Some (snd (?cs ! i))"
    using assms by (auto simp: cjson_ok_def cjson_read_ok_def)
  have "map (\<lambda>k. load (cJSON_GetArrayItem J j k)) [0..<length ?cs] = map (\<lambda>c. load (Some (snd c))) ?cs"
    by (rule nth_equalityI) (auto simp: it)
  moreover from arg_cong [OF this, of "List.map_filter (\<lambda>x. x)"]
  have "List.map_filter (\<lambda>k. load (cJSON_GetArrayItem J j k)) [0..<length ?cs] =
      List.map_filter (\<lambda>c. load (Some (snd c))) ?cs"
    by (simp add: map_filter_def filter_map comp_def)
  moreover have "map_option ((@) []) xs = xs" for xs :: "'a list option" by (cases xs) simp_all
  ultimately show ?thesis by (simp add: load_items_def load_loop_spec sz)
qed

lemma those_Some: "(\<And>x. x \<in> set xs \<Longrightarrow> f x = Some (g x)) \<Longrightarrow> those (map f xs) = Some (map g xs)"
  by (induction xs) auto

lemma map_filter_all: "(\<And>x. x \<in> set xs \<Longrightarrow> f x = Some (g x)) \<Longrightarrow> List.map_filter f xs = map g xs"
  by (induction xs) (auto simp: map_filter_simps)

lemma those_map_filter: "those (map f xs) = Some ys \<Longrightarrow> List.map_filter f xs = ys"
  by (induction xs arbitrary: ys) (auto simp: map_filter_simps split: option.splits)

lemma load_items_all:
  assumes "load_items J load p json = Some xs" "\<And>j x. load j = Some x \<Longrightarrow> P x"
  shows "list_all P xs"
proof -
  have "list_all P ys" if "load_loop item load p i n acc = Some ys" "list_all P acc" for item i n acc ys
    using that by (induction n arbitrary: i acc) (auto split: option.splits if_splits dest: assms(2))
  then show ?thesis
    using assms(1) by (auto simp: load_items_def split: option.splits)
qed

text \<open>A strict load that succeeds is what the permissive load gives.\<close>

lemma load_items_permissive:
  assumes "cjson_ok J" "load_items J load False json = Some xs"
  shows "load_items J load p json = Some xs"
proof (cases json)
  case (Some j)
  then show ?thesis
    using assms load_items_spec [OF assms(1), of load] by (simp add: those_map_filter)
qed (use assms in \<open>simp add: load_items_def\<close>)

text \<open>The items of an object built from a list, and reading the list back in either mode.\<close>

lemma children_add_items:
  assumes "cjson_ok J" "list_all (\<lambda>x. nm x \<noteq> None) xs"
  shows "cJSON_children J (foldl (\<lambda>j x. add_item J j (nm x) (f x)) j0 xs) =
    cJSON_children J j0 @ map (\<lambda>x. (the (nm x), f x)) xs"
  using assms(2)
  by (induction xs arbitrary: j0) (auto simp: add_item_def cjson_children_simps [OF assms(1)])

lemma load_items_built:
  assumes "cjson_ok J" "list_all (\<lambda>x. nm x \<noteq> None \<and> load (Some (f x)) = Some x) xs"
  shows "load_items J load p
    (Some (foldl (\<lambda>j x. add_item J j (nm x) (f x)) (cJSON_CreateObject J) xs)) = Some xs"
proof -
  have "list_all (\<lambda>x. nm x \<noteq> None) xs" using assms(2) by (simp add: list_all_iff)
  from children_add_items [OF assms(1) this, of f "cJSON_CreateObject J"]
  have c: "cJSON_children J (foldl (\<lambda>j x. add_item J j (nm x) (f x)) (cJSON_CreateObject J) xs) =
      map (\<lambda>x. (the (nm x), f x)) xs"
    by (simp add: cjson_children_simps [OF assms(1)])
  have l: "\<And>x. x \<in> set xs \<Longrightarrow> load (Some (f x)) = Some x" using assms(2) by (simp add: list_all_iff)
  have "those (map (\<lambda>x. load (Some (f x))) xs) = Some xs"
    "List.map_filter (\<lambda>x. load (Some (f x))) xs = xs"
    using those_Some [of xs "\<lambda>x. load (Some (f x))" id] map_filter_all [of xs "\<lambda>x. load (Some (f x))" id] l
    by auto
  then show ?thesis
    by (simp add: load_items_spec [OF assms(1)] c comp_def map_filter_def filter_map)
qed

section \<open>Reading back each structure\<close>

lemma lower_keys:
  "lower ''id'' = ''id''" "lower ''uri'' = ''uri''" "lower ''value'' = ''value''"
  "lower ''mode'' = ''mode''" "lower ''cachingPolicy'' = ''cachingpolicy''"
  "lower ''dateOfLastSyncMillis'' = ''dateoflastsyncmillis''" "lower ''value_enc'' = ''value_enc''"
  "lower ''type'' = ''type''" "lower ''profile'' = ''profile''" "lower ''enabled'' = ''enabled''"
  "lower ''profileVersion'' = ''profileversion''" "lower ''resources'' = ''resources''"
  "lower ''metadatas'' = ''metadatas''" "lower ''deviceDriver'' = ''devicedriver''"
  "lower ''deviceClass'' = ''deviceclass''" "lower ''deviceClassVersion'' = ''deviceclassversion''"
  "lower ''uuid'' = ''uuid''" "lower ''deviceEndpoints'' = ''deviceendpoints''"
  "lower ''deviceResources'' = ''deviceresources''"
  by code_simp+

lemma get_string:
  assumes "cjson_ok J" "ci_lookup (cJSON_children J j) k = map_option (cJSON_CreateString J) s"
  shows "getCJSONString J j k = s"
  using assms cjson_typed(1,2) [OF assms(1)] by (cases s) (auto simp: cjson_item)

lemma get_number8:
  assumes "cjson_ok J" "ci_lookup (cJSON_children J j) k = Some (cJSON_CreateNumber J (uint (w :: u8)))"
  shows "getCJSONUInt8 J j k = Some w"
proof -
  have "uint w < 2 ^ 8" using uint_lt2p [of w] by simp
  then show ?thesis using cjson_typed(3) [OF assms(1), of j k "uint w"] assms by (simp add: cjson_item)
qed

lemma metadata_roundtrip:
  assumes J: "cjson_ok J" and U: "util_ok U"
    and m: "valid_metadata U (Some uuid) ep m" "storable_metadata J m"
  shows "metadataFromJSON J U (Some uuid) ep (Some (metadataToJSON J m)) = Some m"
proof -
  let ?j = "metadataToJSON J m"
  obtain i u v where f: "m_id m = Some i" "m_uri m = Some u" "m_value m = Some v" "v \<noteq> []" "uuid \<noteq> []"
    using m(1) by (auto simp: valid_metadata_def metadataUriIsValid_def util_okD(1) [OF U])
  have "\<exists>x. cJSON_children J ?j = [(''id'', cJSON_CreateString J i), (''uri'', cJSON_CreateString J u),
      (''value'', x)] \<and> (if cJSON_IsObject J (Some x) then cJSON_Print J x = v else x = cJSON_CreateString J v)"
    using m(2) f J
    by (auto simp: metadataToJSON_def Let_def cjson_children_simps [OF J] storable_metadata_def
        cjson_ok_def cjson_read_ok_def split: option.splits)
  then obtain x where c: "cJSON_children J ?j = [(''id'', cJSON_CreateString J i),
      (''uri'', cJSON_CreateString J u), (''value'', x)]"
    and x: "if cJSON_IsObject J (Some x) then cJSON_Print J x = v else x = cJSON_CreateString J v"
    by blast
  have s: "getCJSONString J ?j ''id'' = Some i" "getCJSONString J ?j ''uri'' = Some u"
    "\<not> cJSON_IsObject J (Some x) \<Longrightarrow> getCJSONString J ?j ''value'' = Some v"
    using x by (auto intro!: get_string [OF J] simp: c lower_keys)
  have "cJSON_GetObjectItem J ?j ''value'' = Some x" by (simp add: cjson_item [OF J] c lower_keys)
  then show ?thesis
    using m(1) f s x
    by (auto simp: metadataFromJSON_def Let_def valid_metadata_def util_okD(1) [OF U])
qed

text \<open>The stored value is read back, whichever key it is stored under.\<close>

lemma resource_value_roundtrip:
  assumes J: "cjson_ok J" and P: "protect_ok U ctx" and r: "storable_resource r"
    and st: "resource_stored_value U ctx r = (v, enc)"
    and c: "ci_lookup (cJSON_children J j) ''value_enc'' =
              (if enc then map_option (cJSON_CreateString J) v else None)"
           "ci_lookup (cJSON_children J j) ''value'' =
              (if enc then None else map_option (cJSON_CreateString J) v)"
  shows "resource_loaded_value J U ctx (r_mode r) j = r_value r"
proof -
  have g: "getCJSONString J j ''value_enc'' = (if enc then v else None)"
    "getCJSONString J j ''value'' = (if enc then None else v)"
    by (rule get_string [OF J], simp add: c)+
  show ?thesis
  proof (cases enc)
    case False
    then show ?thesis
      using st g by (auto simp: resource_stored_value_def resource_loaded_value_def Let_def split: if_splits)
  next
    case True
    then have sens: "mode_has (r_mode r) RESOURCE_MODE_SENSITIVE" "serDesHasContextValue ctx ''namespace''"
      and v: "v = (let w = simpleProtectConfigData U (the (serDesGetContextValue ctx ''namespace'')) (r_value r)
                   in if w = None then r_value r else w)"
      using st by (auto simp: resource_stored_value_def Let_def split: if_splits)
    obtain ns where ns: "serDesGetContextValue ctx ''namespace'' = Some ns"
      using sens(2) by (auto simp: serDesHasContextValue_def serDesGetContextValue_def hmap_simps
          split: option.splits)
    obtain x where x: "r_value r = Some x" using r sens(1) by (auto simp: storable_resource_def)
    obtain d where d: "simpleProtectConfigData U ns (Some x) = Some d" "simpleUnprotectConfigData U ns d = Some x"
      using P ns by (auto simp: protect_ok_def)
    show ?thesis
      using True sens g v ns x d by (simp add: resource_loaded_value_def)
  qed
qed

lemma resource_roundtrip:
  assumes J: "cjson_ok J" and U: "util_ok U" and P: "protect_ok U ctx"
    and r: "valid_resource U (Some uuid) ep r" "storable_resource r"
  shows "resourceFromJSON J U ctx (Some uuid) ep (Some (resourceToJSON J U ctx r)) = Some r"
proof -
  let ?j = "resourceToJSON J U ctx r"
  obtain i u t where f: "r_id r = Some i" "r_uri r = Some u" "r_type r = Some t" "t \<noteq> []" "uuid \<noteq> []"
    using r(1) by (auto simp: valid_resource_def resourceUriIsValid_def util_okD(1) [OF U])
  obtain v enc where st: "resource_stored_value U ctx r = (v, enc)" by fastforce
  have c: "cJSON_children J ?j = [(''id'', cJSON_CreateString J i), (''uri'', cJSON_CreateString J u),
      (''mode'', cJSON_CreateNumber J (uint (r_mode r))),
      (''cachingPolicy'', cJSON_CreateNumber J (r_cachingPolicy r)),
      (''dateOfLastSyncMillis'', cJSON_CreateNumber J (uint (r_dateOfLastSyncMillis r)))]
      @ (case v of None \<Rightarrow> [] | Some w \<Rightarrow> [(if enc then ''value_enc'' else ''value'', cJSON_CreateString J w)])
      @ [(''type'', cJSON_CreateString J t)]"
    using f by (simp add: resourceToJSON_def Let_def st cjson_children_simps [OF J])
  have s: "getCJSONString J ?j ''id'' = Some i" "getCJSONString J ?j ''uri'' = Some u"
      "getCJSONString J ?j ''type'' = Some t"
    by (rule get_string [OF J], simp add: c lower_keys split: option.splits)+
  have md: "getCJSONUInt8 J ?j ''mode'' = Some (r_mode r)"
    by (rule get_number8 [OF J]) (simp add: c lower_keys)
  have n: "getCJSONInt J ?j ''cachingPolicy'' = Some (r_cachingPolicy r)"
    "getCJSONUInt64 J ?j ''dateOfLastSyncMillis'' = Some (r_dateOfLastSyncMillis r)"
    using cjson_typed(4) [OF J, of ?j _ "r_cachingPolicy r"]
      cjson_typed(5) [OF J, of ?j _ "uint (r_dateOfLastSyncMillis r)"] r(2)
    by (simp_all add: cjson_item [OF J] c lower_keys storable_resource_def)
  have "resource_loaded_value J U ctx (r_mode r) ?j = r_value r"
    by (rule resource_value_roundtrip [OF J P r(2) st]) (simp_all add: c lower_keys split: option.splits)
  then show ?thesis
    using r(1) f s md n
    by (simp add: resourceFromJSON_def Let_def valid_resource_def util_okD(1) [OF U])
qed

text \<open>The same for the lists.\<close>

lemma lists_roundtrip:
  assumes J: "cjson_ok J" and U: "util_ok U" and P: "protect_ok U ctx"
  shows "list_all (\<lambda>m. valid_metadata U (Some uuid) ep m \<and> storable_metadata J m) ms \<Longrightarrow>
      metadatasFromJSON J U (Some uuid) ep (Some (metadatasToJSON J ms)) p = Some ms"
    and "list_all (\<lambda>r. valid_resource U (Some uuid) ep r \<and> storable_resource r) rs \<Longrightarrow>
      resourcesFromJSON J U ctx (Some uuid) ep (Some (resourcesToJSON J U ctx rs)) p = Some rs"
proof -
  assume "list_all (\<lambda>m. valid_metadata U (Some uuid) ep m \<and> storable_metadata J m) ms"
  then show "metadatasFromJSON J U (Some uuid) ep (Some (metadatasToJSON J ms)) p = Some ms"
    unfolding metadatasFromJSON_def metadatasToJSON_def
    by (intro load_items_built [OF J])
      (auto simp: list_all_iff metadata_roundtrip [OF J U] valid_metadata_def metadataUriIsValid_def
        util_okD(1) [OF U])
next
  assume "list_all (\<lambda>r. valid_resource U (Some uuid) ep r \<and> storable_resource r) rs"
  then show "resourcesFromJSON J U ctx (Some uuid) ep (Some (resourcesToJSON J U ctx rs)) p = Some rs"
    unfolding resourcesFromJSON_def resourcesToJSON_def
    by (intro load_items_built [OF J])
      (auto simp: list_all_iff resource_roundtrip [OF J U P] valid_resource_def resourceUriIsValid_def
        util_okD(1) [OF U])
qed

lemma endpoint_roundtrip:
  assumes J: "cjson_ok J" and U: "util_ok U" and P: "protect_ok U ctx"
    and e: "valid_endpoint U (Some uuid) e" "storable_endpoint J e"
  shows "endpointFromJSON J U ctx (Some uuid) (Some (endpointToJSON J U ctx e)) = Some e"
proof -
  let ?j = "endpointToJSON J U ctx e"
  obtain i u pr rs ms where f: "e_id e = Some i" "e_uri e = Some u" "e_profile e = Some pr" "pr \<noteq> []"
      "uuid \<noteq> []" "e_resources e = Some rs" "e_metadata e = Some ms"
    using e(1) by (auto simp: valid_endpoint_def endpointUriIsValid_def util_okD(1) [OF U])
  have c: "cJSON_children J ?j = [(''uri'', cJSON_CreateString J u), (''id'', cJSON_CreateString J i),
      (''profile'', cJSON_CreateString J pr), (''enabled'', cJSON_CreateBool J (e_enabled e)),
      (''profileVersion'', cJSON_CreateNumber J (uint (e_profileVersion e))),
      (''resources'', resourcesToJSON J U ctx rs), (''metadatas'', metadatasToJSON J ms)]"
    using f by (simp add: endpointToJSON_def Let_def cjson_children_simps [OF J])
  have s: "getCJSONString J ?j ''id'' = Some i" "getCJSONString J ?j ''uri'' = Some u"
      "getCJSONString J ?j ''profile'' = Some pr"
    by (rule get_string [OF J], simp add: c lower_keys)+
  have n: "getCJSONUInt8 J ?j ''profileVersion'' = Some (e_profileVersion e)"
    by (rule get_number8 [OF J]) (simp add: c lower_keys)
  have b: "getCJSONBool J ?j ''enabled'' = Some (e_enabled e)"
    by (rule cjson_typed(6) [OF J]) (simp add: cjson_item [OF J] c lower_keys)
  have it: "cJSON_GetObjectItem J ?j ''resources'' = Some (resourcesToJSON J U ctx rs)"
    "cJSON_GetObjectItem J ?j ''metadatas'' = Some (metadatasToJSON J ms)"
    by (simp_all add: cjson_item [OF J] c lower_keys)
  have "resourcesFromJSON J U ctx (Some uuid) (Some i) (Some (resourcesToJSON J U ctx rs)) False = Some rs"
    "metadatasFromJSON J U (Some uuid) (Some i) (Some (metadatasToJSON J ms)) False = Some ms"
    using e f by (auto intro!: lists_roundtrip [OF J U P]
        simp: valid_endpoint_def storable_endpoint_def list_all_iff)
  then show ?thesis
    using e(1) f s n b it
    by (simp add: endpointFromJSON_def Let_def valid_endpoint_def util_okD(1) [OF U])
qed

lemma endpoints_roundtrip:
  assumes J: "cjson_ok J" and U: "util_ok U" and P: "protect_ok U ctx"
    and "list_all (\<lambda>e. valid_endpoint U (Some uuid) e \<and> storable_endpoint J e) es"
  shows "endpointsFromJSON J U ctx (Some uuid) (Some (endpointsToJSON J U ctx es)) p = Some es"
  unfolding endpointsFromJSON_def endpointsToJSON_def
  using assms(4)
  by (intro load_items_built [OF J])
    (auto simp: list_all_iff endpoint_roundtrip [OF J U P] valid_endpoint_def endpointUriIsValid_def
      util_okD(1) [OF U])

section \<open>Loaded devices are valid\<close>

lemma metadataFromJSON_valid:
  "metadataFromJSON J U uuid ep j = Some m \<Longrightarrow> valid_metadata U uuid ep m"
  by (auto simp: metadataFromJSON_def valid_metadata_def Let_def split: option.splits if_splits)

lemma resourceFromJSON_valid:
  "resourceFromJSON J U ctx uuid ep j = Some r \<Longrightarrow> valid_resource U uuid ep r"
  by (auto simp: resourceFromJSON_def valid_resource_def Let_def split: option.splits if_splits)

lemma lists_valid:
  "metadatasFromJSON J U uuid ep j p = Some ms \<Longrightarrow> list_all (valid_metadata U uuid ep) ms"
  "resourcesFromJSON J U ctx uuid ep j p = Some rs \<Longrightarrow> list_all (valid_resource U uuid ep) rs"
  unfolding metadatasFromJSON_def resourcesFromJSON_def
  by (erule load_items_all, erule metadataFromJSON_valid resourceFromJSON_valid)+

lemma endpointFromJSON_valid:
  "endpointFromJSON J U ctx uuid j = Some e \<Longrightarrow> valid_endpoint U uuid e"
  by (auto simp: endpointFromJSON_def valid_endpoint_def Let_def split: option.splits if_splits
      dest: lists_valid)

lemma endpoints_valid: "endpointsFromJSON J U ctx uuid j p = Some es \<Longrightarrow> list_all (valid_endpoint U uuid) es"
  unfolding endpointsFromJSON_def by (erule load_items_all, erule endpointFromJSON_valid)

section \<open>URIs are unambiguous\<close>

text \<open>The addressable parts of a device, and their URIs.\<close>

datatype address = DeviceAddr string | EndpointAddr string string
  | ResourceAddr string cstr string | MetadataAddr string cstr string

fun address_uri :: "util_api \<Rightarrow> address \<Rightarrow> string" where
  "address_uri U (DeviceAddr u) = ''/'' @ u"
| "address_uri U (EndpointAddr u e) = endpointUriCreate u e"
| "address_uri U (ResourceAddr u e r) = resourceUriCreate U u e r"
| "address_uri U (MetadataAddr u e m) = metadataUriCreate u e m"

definition segment :: "string \<Rightarrow> bool" where
  "segment s \<longleftrightarrow> s \<noteq> [] \<and> CHR ''/'' \<notin> set s"

fun address_ok :: "address \<Rightarrow> bool" where
  "address_ok (DeviceAddr u) = segment u"
| "address_ok (EndpointAddr u e) = (segment u \<and> segment e)"
| "address_ok (ResourceAddr u e r) = (segment u \<and> (case e of None \<Rightarrow> True | Some x \<Rightarrow> segment x) \<and> segment r)"
| "address_ok (MetadataAddr u e m) = (segment u \<and> (case e of None \<Rightarrow> True | Some x \<Rightarrow> segment x) \<and> segment m)"

text \<open>Cutting a string at the slashes.\<close>

fun segments :: "string \<Rightarrow> string list" where
  "segments [] = [[]]"
| "segments (c # cs) = (if c = CHR ''/'' then [] # segments cs
     else (c # hd (segments cs)) # tl (segments cs))"

lemma segments_segment: "CHR ''/'' \<notin> set s \<Longrightarrow> segments s = [s]"
  by (induction s) auto

lemma segments_append:
  "CHR ''/'' \<notin> set s \<Longrightarrow> segments (s @ CHR ''/'' # t) = s # segments t"
  by (induction s) auto

fun address_segments :: "address \<Rightarrow> string list" where
  "address_segments (DeviceAddr u) = [[], u]"
| "address_segments (EndpointAddr u e) = [[], u, ''ep'', e]"
| "address_segments (ResourceAddr u None r) = [[], u, ''r'', r]"
| "address_segments (ResourceAddr u (Some e) r) = [[], u, ''ep'', e, ''r'', r]"
| "address_segments (MetadataAddr u None m) = [[], u, ''m'', m]"
| "address_segments (MetadataAddr u (Some e) m) = [[], u, ''ep'', e, ''m'', m]"

lemma segments_address:
  assumes "util_ok U" "address_ok a"
  shows "segments (address_uri U a) = address_segments a"
  using assms
  by (cases a rule: address_segments.cases)
    (auto simp: segment_def endpointUriCreate_def resourceUriCreate_def metadataUriCreate_def
      util_okD(1) segments_append segments_segment)

lemma address_segments_inj: "address_segments a = address_segments b \<Longrightarrow> a = b"
  by (cases a rule: address_segments.cases; cases b rule: address_segments.cases) auto

section \<open>Lemmas on clones\<close>

lemma deepClone_same: "(\<And>x. f (Some x) = Some x) \<Longrightarrow> deepClone f xs = xs"
  by (cases xs) (simp_all add: deepClone_def map_filter_all [where g = id])

lemma clone_same [simp]:
  "metadataClone (Some m) = Some m" "resourceClone (Some r) = Some r" "endpointClone (Some e) = Some e"
  "deviceClone (Some d) = Some d"
  by (simp_all add: metadataClone_def resourceClone_def endpointClone_def deviceClone_def deepClone_same)

section \<open>An example device\<close>

definition example_context :: icSerDesContext where
  "example_context = snd (serDesSetContextValue serDesCreateContext ''namespace'' ''ns'')"

definition example_resource :: "cstr \<Rightarrow> string \<Rightarrow> string \<Rightarrow> u8 \<Rightarrow> icDeviceResource" where
  "example_resource ep rid v md = \<lparr>r_id = Some rid,
     r_uri = Some (resourceUriCreate example_util ''d1'' ep rid), r_endpointId = ep,
     r_deviceUuid = Some ''d1'', r_value = Some v, r_type = Some ''string'', r_mode = md,
     r_cachingPolicy = CACHING_POLICY_ALWAYS, r_dateOfLastSyncMillis = 1700000000000\<rparr>"

definition example_metadata :: "cstr \<Rightarrow> string \<Rightarrow> string \<Rightarrow> icDeviceMetadata" where
  "example_metadata ep mid v = \<lparr>m_id = Some mid, m_uri = Some (metadataUriCreate ''d1'' ep mid),
     m_endpointId = ep, m_deviceUuid = Some ''d1'', m_value = Some v\<rparr>"

definition example_device :: icDevice where
  "example_device = \<lparr>d_uuid = Some ''d1'', d_deviceClass = Some ''lock'', d_deviceClassVersion = 2,
     d_uri = Some ''/d1'', d_managingDeviceDriver = Some ''ZigbeeDoorLock'',
     d_endpoints = Some [\<lparr>e_id = Some ''1'', e_uri = Some ''/d1/ep/1'', e_profile = Some ''doorLock'',
        e_profileVersion = 3, e_deviceUuid = Some ''d1'', e_enabled = True,
        e_resources = Some [example_resource (Some ''1'') ''pin'' ''1234'' 131],
        e_metadata = Some [example_metadata (Some ''1'') ''note'' ''x'']\<rparr>],
     d_resources = Some [example_resource None ''model'' ''m9'' 1],
     d_metadata = Some [example_metadata None ''commFailOverrideSeconds'' ''60'']\<rparr>"

lemma example_device_ok:
  "valid_device example_util example_device" "storable_device example_json example_device"
  by code_simp+

lemma protect_ok_example: "protect_ok example_util ctx"
  by (simp add: protect_ok_def example_util_def)

lemma device_roundtrip:
  assumes J: "cjson_ok J" and U: "util_ok U" and P: "protect_ok U ctx"
    and d: "valid_device U d" "storable_device J d"
  shows "deviceFromJSON J U ctx permissive (deviceToJSON J U ctx d) = Some d"
proof -
  let ?j = "deviceToJSON J U ctx d"
  obtain u uri drv cls es rs ms where f: "d_uuid d = Some u" "d_uri d = Some uri"
      "d_managingDeviceDriver d = Some drv" "d_deviceClass d = Some cls" "drv \<noteq> []" "cls \<noteq> []"
      "d_endpoints d = Some es" "d_resources d = Some rs" "d_metadata d = Some ms" "es \<noteq> []" "rs \<noteq> []"
    using d(1) by (auto simp: valid_device_def deviceUriIsValid_def util_okD(1) [OF U] items_Nil split: option.splits)
  have c: "cJSON_children J ?j = [(''deviceDriver'', cJSON_CreateString J drv),
      (''deviceClass'', cJSON_CreateString J cls),
      (''deviceClassVersion'', cJSON_CreateNumber J (uint (d_deviceClassVersion d))),
      (''uri'', cJSON_CreateString J uri), (''uuid'', cJSON_CreateString J u),
      (''deviceEndpoints'', endpointsToJSON J U ctx es), (''deviceResources'', resourcesToJSON J U ctx rs),
      (''metadatas'', metadatasToJSON J ms)]"
    using f by (simp add: deviceToJSON_def Let_def cjson_children_simps [OF J])
  have s: "getCJSONString J ?j ''uri'' = Some uri" "getCJSONString J ?j ''uuid'' = Some u"
      "getCJSONString J ?j ''deviceDriver'' = Some drv" "getCJSONString J ?j ''deviceClass'' = Some cls"
    by (rule get_string [OF J], simp add: c lower_keys)+
  have n: "getCJSONUInt8 J ?j ''deviceClassVersion'' = Some (d_deviceClassVersion d)"
    by (rule get_number8 [OF J]) (simp add: c lower_keys)
  have it: "cJSON_GetObjectItem J ?j ''deviceEndpoints'' = Some (endpointsToJSON J U ctx es)"
    "cJSON_GetObjectItem J ?j ''deviceResources'' = Some (resourcesToJSON J U ctx rs)"
    "cJSON_GetObjectItem J ?j ''metadatas'' = Some (metadatasToJSON J ms)"
    by (simp_all add: cjson_item [OF J] c lower_keys)
  have l: "endpointsFromJSON J U ctx (Some u) (Some (endpointsToJSON J U ctx es)) permissive = Some es"
    "resourcesFromJSON J U ctx (Some u) None (Some (resourcesToJSON J U ctx rs)) permissive = Some rs"
    "metadatasFromJSON J U (Some u) None (Some (metadatasToJSON J ms)) permissive = Some ms"
    using d f by (auto intro!: lists_roundtrip [OF J U P] endpoints_roundtrip [OF J U P]
        simp: valid_device_def storable_device_def list_all_iff)
  show ?thesis
    using d(1) f s n it l by (simp add: deviceFromJSON_def Let_def valid_device_def util_okD(1) [OF U])
qed

section \<open>Properties\<close>

text \<open>
  C16. Round trip: a valid device whose values fit JSON is read back exactly as it was stored, in the
  strict and in the permissive mode, secrets included.
\<close>

theorem deviceFromJSON_deviceToJSON:
  assumes "cjson_ok J" "util_ok U" "protect_ok U ctx" "valid_device U d" "storable_device J d"
  shows "deviceFromJSON J U ctx permissive (deviceToJSON J U ctx d) = Some d"
  using assms by (rule device_roundtrip)

theorem deviceFromJSON_deviceToJSON_witness:
  "deviceFromJSON example_json example_util example_context False
     (deviceToJSON example_json example_util example_context example_device) = Some example_device"
  by (rule deviceFromJSON_deviceToJSON [OF cjson_ok_example util_ok_example protect_ok_example
        example_device_ok])

text \<open>
  Whatever JSON is loaded, the device that results is valid: printable identifiers, every URI
  built from the identifiers of its owner, back references set, mandatory strings and lists present.
\<close>

theorem deviceFromJSON_valid:
  assumes "deviceFromJSON J U ctx permissive j = Some d"
  shows "valid_device U d"
  using assms
  by (auto simp: deviceFromJSON_def valid_device_def Let_def items_Nil split: if_splits option.splits
      dest: endpoints_valid lists_valid)

theorem deviceFromJSON_valid_witness: "valid_device example_util example_device"
  by (rule deviceFromJSON_valid [of example_json example_util example_context True
        "deviceToJSON example_json example_util example_context example_device"],
      rule device_roundtrip [OF cjson_ok_example util_ok_example protect_ok_example example_device_ok])

text \<open>
  The permissive mode extends the strict one: what the strict mode accepts, the permissive mode
  loads to the same device.
\<close>

theorem deviceFromJSON_permissive_extends:
  assumes "cjson_ok J" "deviceFromJSON J U ctx False j = Some d"
  shows "deviceFromJSON J U ctx True j = Some d"
proof -
  note perm = load_items_permissive [OF assms(1), where p = True]
  have "endpointsFromJSON J U ctx u x False = Some es \<Longrightarrow> endpointsFromJSON J U ctx u x True = Some es"
    "resourcesFromJSON J U ctx u e x False = Some rs \<Longrightarrow> resourcesFromJSON J U ctx u e x True = Some rs"
    "metadatasFromJSON J U u e x False = Some ms \<Longrightarrow> metadatasFromJSON J U u e x True = Some ms"
    for u e x es rs ms
    by (simp_all add: endpointsFromJSON_def resourcesFromJSON_def metadatasFromJSON_def perm)
  then show ?thesis
    using assms(2) by (auto simp: deviceFromJSON_def Let_def items_Nil split: if_splits option.splits)
qed

theorem deviceFromJSON_permissive_extends_witness:
  "deviceFromJSON example_json example_util example_context True
     (deviceToJSON example_json example_util example_context example_device) = Some example_device"
  by (rule deviceFromJSON_permissive_extends [OF cjson_ok_example],
      rule device_roundtrip [OF cjson_ok_example util_ok_example protect_ok_example example_device_ok])

text \<open>
  URIs identify what they address: devices, endpoints, resources and metadata items whose
  identifiers are non-empty and contain no slash have equal URIs only when they are the same item.
\<close>

theorem address_uri_injective:
  assumes "util_ok U" "address_ok a" "address_ok b" "address_uri U a = address_uri U b"
  shows "a = b"
  using assms segments_address [of U] by (metis address_segments_inj)

theorem address_uri_injective_witness:
  "address_uri example_util (ResourceAddr ''d1'' None ''r'') \<noteq>
   address_uri example_util (MetadataAddr ''d1'' None ''r'')"
  using address_uri_injective [OF util_ok_example, of "ResourceAddr ''d1'' None ''r''"
      "MetadataAddr ''d1'' None ''r''"]
  by (auto simp: segment_def)

text \<open>
  When protecting a secret fails, the value is written in clear under the key of encrypted
  values, and loading gives it back only if the clear text happens to decrypt to itself: where it
  does not decrypt the resource loses its value.
\<close>

theorem failed_protection_stores_clear_text:
  assumes "cjson_ok J" "mode_has (r_mode r) RESOURCE_MODE_SENSITIVE"
    and "serDesGetContextValue ctx ''namespace'' = Some ns"
    and "r_value r = Some secret" "simpleProtectConfigData U ns (Some secret) = None"
  shows "getCJSONString J (resourceToJSON J U ctx r) ''value_enc'' = Some secret \<and>
    resource_loaded_value J U ctx (r_mode r) (resourceToJSON J U ctx r) =
      simpleUnprotectConfigData U ns secret"
proof -
  have ns: "serDesHasContextValue ctx ''namespace''"
    using assms(3) by (auto simp: serDesHasContextValue_def serDesGetContextValue_def hmap_simps
        split: option.splits)
  have st: "resource_stored_value U ctx r = (Some secret, True)"
    using assms(2-) ns by (simp add: resource_stored_value_def)
  have "getCJSONString J (resourceToJSON J U ctx r) ''value_enc'' = Some secret"
    "getCJSONString J (resourceToJSON J U ctx r) ''value'' = None"
    by (rule get_string [OF assms(1)],
        simp add: resourceToJSON_def Let_def st cjson_children_simps [OF assms(1)] lower_keys
          split: option.splits)+
  then show ?thesis using assms(2,3) ns by (auto simp: resource_loaded_value_def Let_def)
qed

theorem failed_protection_stores_clear_text_witness:
  "getCJSONString example_json (resourceToJSON example_json
      (example_util\<lparr>simpleProtectConfigData := \<lambda>_ _. None\<rparr>) example_context
      (example_resource None ''pin'' ''1234'' 129)) ''value_enc'' = Some ''1234''"
  using failed_protection_stores_clear_text [OF cjson_ok_example, of "example_resource None ''pin'' ''1234'' 129"
      example_context "''ns''" "''1234''" "example_util\<lparr>simpleProtectConfigData := \<lambda>_ _. None\<rparr>"]
  by (simp add: example_resource_def example_context_def serDesSetContextValue_def serDesCreateContext_def
      serDesGetContextValue_def hashMapPut_def hashMapContains_def hashMapGet_def mode_has_def
      RESOURCE_MODE_SENSITIVE_def)

end
