(* ===== verification/Device_Builder.thy ===== *)
theory Device_Builder
  imports Device_Model Device_Descriptors
begin

text \<open>
  Building new devices: the initial resource values a driver hands over
  (\<^verbatim>\<open>core/src/device/icInitialResourceValues.c\<close>), one string map for device and endpoint values with
  the key \<^verbatim>\<open>endpoint/resource\<close> for the latter, and the helpers that create devices, endpoints,
  resources and metadata (\<^verbatim>\<open>core/src/deviceModelHelper.c\<close>). A helper that appends to a list and returns
  the new item returns the updated owner and the item; \<^verbatim>\<open>NULL\<close> dereferences are the fault \<open>None\<close> of
  the outer option.
\<close>

section \<open>Initial resource values\<close>

type_synonym icInitialResourceValues = "(string, cstr) hmap option"

definition initialResourceValuesCreate :: icInitialResourceValues where
  "initialResourceValuesCreate = Some []"

definition internalDeviceValuePut ::
  "icInitialResourceValues \<Rightarrow> cstr \<Rightarrow> cstr \<Rightarrow> bool \<Rightarrow> bool \<times> icInitialResourceValues" where
  "internalDeviceValuePut vs resourceId value allowReplace =
     (case (vs, resourceId) of
        (Some m, Some key) \<Rightarrow>
          let m1 = (if allowReplace then snd (hashMapDelete m key) else m) in
          map_prod id Some (hashMapPut m1 key value)
      | _ \<Rightarrow> (False, vs))"

definition initialResourceValuesPutDeviceValue ::
  "icInitialResourceValues \<Rightarrow> cstr \<Rightarrow> cstr \<Rightarrow> bool \<times> icInitialResourceValues" where
  "initialResourceValuesPutDeviceValue vs resourceId value = internalDeviceValuePut vs resourceId value True"

definition initialResourceValuesPutDeviceValueIfNotExists ::
  "icInitialResourceValues \<Rightarrow> cstr \<Rightarrow> cstr \<Rightarrow> bool \<times> icInitialResourceValues" where
  "initialResourceValuesPutDeviceValueIfNotExists vs resourceId value =
     internalDeviceValuePut vs resourceId value False"

definition ENDPOINT_FORMAT :: "string \<Rightarrow> string \<Rightarrow> string" where
  "ENDPOINT_FORMAT endpointId resourceId = endpointId @ ''/'' @ resourceId"

definition internalEndpointValuePut ::
  "icInitialResourceValues \<Rightarrow> cstr \<Rightarrow> cstr \<Rightarrow> cstr \<Rightarrow> bool \<Rightarrow> bool \<times> icInitialResourceValues" where
  "internalEndpointValuePut vs endpointId resourceId value allowReplace =
     (case (vs, endpointId, resourceId) of
        (Some m, Some e, Some r) \<Rightarrow>
          let key = ENDPOINT_FORMAT e r;
              m1 = (if allowReplace then snd (hashMapDelete m key) else m) in
          map_prod id Some (hashMapPut m1 key value)
      | _ \<Rightarrow> (False, vs))"

definition initialResourceValuesPutEndpointValue ::
  "icInitialResourceValues \<Rightarrow> cstr \<Rightarrow> cstr \<Rightarrow> cstr \<Rightarrow> bool \<times> icInitialResourceValues" where
  "initialResourceValuesPutEndpointValue vs endpointId resourceId value =
     internalEndpointValuePut vs endpointId resourceId value True"

definition initialResourceValuesPutEndpointValueIfNotExists ::
  "icInitialResourceValues \<Rightarrow> cstr \<Rightarrow> cstr \<Rightarrow> cstr \<Rightarrow> bool \<times> icInitialResourceValues" where
  "initialResourceValuesPutEndpointValueIfNotExists vs endpointId resourceId value =
     internalEndpointValuePut vs endpointId resourceId value False"

definition initialResourceValuesHasDeviceValue :: "icInitialResourceValues \<Rightarrow> cstr \<Rightarrow> bool" where
  "initialResourceValuesHasDeviceValue vs resourceId =
     (case (vs, resourceId) of (Some m, Some r) \<Rightarrow> hashMapContains m r | _ \<Rightarrow> False)"

definition initialResourceValuesHasEndpointValue :: "icInitialResourceValues \<Rightarrow> cstr \<Rightarrow> cstr \<Rightarrow> bool" where
  "initialResourceValuesHasEndpointValue vs endpointId resourceId =
     (case (vs, endpointId, resourceId) of
        (Some m, Some e, Some r) \<Rightarrow> hashMapContains m (ENDPOINT_FORMAT e r) | _ \<Rightarrow> False)"

text \<open>\<^verbatim>\<open>stringHashMapGet\<close> returns \<^verbatim>\<open>NULL\<close> for a missing key and for a stored \<^verbatim>\<open>NULL\<close>.\<close>

definition initialResourceValuesGetDeviceValue :: "icInitialResourceValues \<Rightarrow> cstr \<Rightarrow> cstr" where
  "initialResourceValuesGetDeviceValue vs resourceId =
     (case (vs, resourceId) of (Some m, Some r) \<Rightarrow> Option.bind (hashMapGet m r) id | _ \<Rightarrow> None)"

definition initialResourceValuesGetEndpointValue :: "icInitialResourceValues \<Rightarrow> cstr \<Rightarrow> cstr \<Rightarrow> cstr" where
  "initialResourceValuesGetEndpointValue vs endpointId resourceId =
     (case (vs, endpointId, resourceId) of
        (Some m, Some e, Some r) \<Rightarrow> Option.bind (hashMapGet m (ENDPOINT_FORMAT e r)) id | _ \<Rightarrow> None)"

section \<open>Creating the parts of a device\<close>

definition RESOURCE_MODE_DYNAMIC_CAPABLE :: u8 where "RESOURCE_MODE_DYNAMIC_CAPABLE = push_bit 3 1"
definition RESOURCE_MODE_DYNAMIC :: u8 where "RESOURCE_MODE_DYNAMIC = push_bit 4 1"

definition createDeviceMetadataOnList ::
  "icDeviceMetadata list option \<Rightarrow> cstr \<Rightarrow> cstr \<Rightarrow> cstr \<Rightarrow> cstr \<Rightarrow>
   icDeviceMetadata list option \<times> icDeviceMetadata option" where
  "createDeviceMetadataOnList metadataList endpointId metadataId deviceUuid value =
     (case (metadataList, metadataId) of
        (Some l, Some i) \<Rightarrow>
          let m = \<lparr>m_id = Some i, m_uri = None, m_endpointId = endpointId, m_deviceUuid = deviceUuid,
                   m_value = value\<rparr>
          in (Some (l @ [m]), Some m)
      | _ \<Rightarrow> (metadataList, None))"

text \<open>Setting a field of the item just appended.\<close>

definition update_last :: "('a \<Rightarrow> 'a) \<Rightarrow> 'a list option \<Rightarrow> 'a list option" where
  "update_last f l = map_option (\<lambda>xs. butlast xs @ [f (last xs)]) l"

definition createDeviceMetadata ::
  "icDevice \<Rightarrow> cstr \<Rightarrow> cstr \<Rightarrow> (icDevice \<times> icDeviceMetadata) option" where
  "createDeviceMetadata device metadataId value =
     (case createDeviceMetadataOnList (d_metadata device) None metadataId (d_uuid device) value of
        (_, None) \<Rightarrow> None
      | (l, Some m) \<Rightarrow>
          let uri = Some (metadataUriCreate (the (d_uuid device)) None (the metadataId)) in
          Some (device\<lparr>d_metadata := update_last (\<lambda>x. x\<lparr>m_uri := uri\<rparr>) l\<rparr>, m\<lparr>m_uri := uri\<rparr>))"

definition createEndpointMetadata ::
  "icDeviceEndpoint \<Rightarrow> cstr \<Rightarrow> cstr \<Rightarrow> (icDeviceEndpoint \<times> icDeviceMetadata) option" where
  "createEndpointMetadata endpoint metadataId value =
     (case createDeviceMetadataOnList (e_metadata endpoint) (e_id endpoint) metadataId (e_deviceUuid endpoint) value of
        (_, None) \<Rightarrow> None
      | (l, Some m) \<Rightarrow>
          let uri = Some (metadataUriCreate (the (e_deviceUuid endpoint)) (e_id endpoint) (the metadataId)) in
          Some (endpoint\<lparr>e_metadata := update_last (\<lambda>x. x\<lparr>m_uri := uri\<rparr>) l\<rparr>, m\<lparr>m_uri := uri\<rparr>))"

definition add_descriptor_metadata :: "(string \<times> string) list \<Rightarrow> icDevice \<Rightarrow> icDevice option" where
  "add_descriptor_metadata entries device =
     fold (\<lambda>(k, v) d. Option.bind d (\<lambda>d'. map_option fst (createDeviceMetadata d' (Some k) (Some v))))
       entries (Some device)"

text \<open>\<open>Some None\<close>: the helper returned \<^verbatim>\<open>NULL\<close>.\<close>

definition createDevice ::
  "cstr \<Rightarrow> cstr \<Rightarrow> u8 \<Rightarrow> cstr \<Rightarrow> DeviceDescriptor option \<Rightarrow> icDevice option option" where
  "createDevice uuid deviceClass deviceClassVersion deviceDriverName dd =
     (if uuid = None \<or> deviceClass = None \<or> deviceDriverName = None then Some None
      else
        let result = \<lparr>d_uuid = uuid, d_deviceClass = deviceClass, d_deviceClassVersion = deviceClassVersion,
              d_uri = None, d_managingDeviceDriver = deviceDriverName, d_endpoints = Some [],
              d_resources = Some [], d_metadata = Some []\<rparr>
        in map_option Some (case dd of
             Some descr \<Rightarrow> (case dd_metadata descr of
                 Some entries \<Rightarrow> add_descriptor_metadata entries result
               | None \<Rightarrow> Some result)
           | None \<Rightarrow> Some result))"

definition createEndpoint ::
  "icDevice option \<Rightarrow> cstr \<Rightarrow> cstr \<Rightarrow> bool \<Rightarrow> icDevice option \<times> icDeviceEndpoint option" where
  "createEndpoint device id' profile enabled =
     (case device of None \<Rightarrow> (device, None) | Some d \<Rightarrow>
        if profile = None \<or> id' = None then (device, None)
        else let e = \<lparr>e_id = id', e_uri = None, e_profile = profile, e_profileVersion = 0,
                e_deviceUuid = d_uuid d, e_enabled = enabled, e_resources = Some [], e_metadata = Some []\<rparr>
             in (Some (d\<lparr>d_endpoints := map_option (\<lambda>l. l @ [e]) (d_endpoints d)\<rparr>), Some e))"

definition createDeviceResourceOnList ::
  "icDeviceResource list option \<Rightarrow> cstr \<Rightarrow> cstr \<Rightarrow> cstr \<Rightarrow> cstr \<Rightarrow> cstr \<Rightarrow> u8 \<Rightarrow> int \<Rightarrow>
   icDeviceResource list option \<times> icDeviceResource option" where
  "createDeviceResourceOnList resourceList endpointId resourceId deviceUuid value type' md cachingPolicy =
     (case resourceList of None \<Rightarrow> (resourceList, None) | Some l \<Rightarrow>
        if resourceId = None \<or> type' = None \<or> md = 0 then (resourceList, None)
        else let r = \<lparr>r_id = resourceId, r_uri = None, r_endpointId = endpointId, r_deviceUuid = deviceUuid,
                r_value = value, r_type = type',
                r_mode = (if mode_has md RESOURCE_MODE_DYNAMIC then or md RESOURCE_MODE_DYNAMIC_CAPABLE else md),
                r_cachingPolicy = cachingPolicy, r_dateOfLastSyncMillis = 0\<rparr>
             in (Some (l @ [r]), Some r))"

definition createDeviceResource ::
  "icDevice \<Rightarrow> cstr \<Rightarrow> cstr \<Rightarrow> cstr \<Rightarrow> u8 \<Rightarrow> int \<Rightarrow> icDevice \<times> icDeviceResource option" where
  "createDeviceResource device resourceId value type' md cachingPolicy =
     (case createDeviceResourceOnList (d_resources device) None resourceId (d_uuid device) value type' md cachingPolicy
      of (l, r) \<Rightarrow> (device\<lparr>d_resources := l\<rparr>, r))"

definition createDeviceResourceIfAvailable ::
  "icDevice \<Rightarrow> cstr \<Rightarrow> icInitialResourceValues \<Rightarrow> cstr \<Rightarrow> u8 \<Rightarrow> int \<Rightarrow> icDevice \<times> icDeviceResource option" where
  "createDeviceResourceIfAvailable device resourceId vs type' md cachingPolicy =
     (if initialResourceValuesHasDeviceValue vs resourceId
      then (case createDeviceResourceOnList (d_resources device) None resourceId (d_uuid device)
                   (initialResourceValuesGetDeviceValue vs resourceId) type' md cachingPolicy
            of (l, r) \<Rightarrow> (device\<lparr>d_resources := l\<rparr>, r))
      else (device, None))"

definition createEndpointResource ::
  "icDeviceEndpoint \<Rightarrow> cstr \<Rightarrow> cstr \<Rightarrow> cstr \<Rightarrow> u8 \<Rightarrow> int \<Rightarrow> icDeviceEndpoint \<times> icDeviceResource option" where
  "createEndpointResource endpoint resourceId value type' md cachingPolicy =
     (case createDeviceResourceOnList (e_resources endpoint) (e_id endpoint) resourceId (e_deviceUuid endpoint)
             value type' md cachingPolicy
      of (l, r) \<Rightarrow> (endpoint\<lparr>e_resources := l\<rparr>, r))"

definition createEndpointResourceIfAvailable ::
  "icDeviceEndpoint \<Rightarrow> cstr \<Rightarrow> icInitialResourceValues \<Rightarrow> cstr \<Rightarrow> u8 \<Rightarrow> int \<Rightarrow>
   icDeviceEndpoint \<times> icDeviceResource option" where
  "createEndpointResourceIfAvailable endpoint resourceId vs type' md cachingPolicy =
     (if initialResourceValuesHasEndpointValue vs (e_id endpoint) resourceId
      then (case createDeviceResourceOnList (e_resources endpoint) (e_id endpoint) resourceId (e_deviceUuid endpoint)
                   (initialResourceValuesGetEndpointValue vs (e_id endpoint) resourceId) type' md cachingPolicy
            of (l, r) \<Rightarrow> (endpoint\<lparr>e_resources := l\<rparr>, r))
      else (endpoint, None))"

section \<open>Initial values as a map on typed keys\<close>

text \<open>
  What the values stand for: a partial map on the device's resources and on the resources of its
  endpoints. The two kinds of keys share one string map, which is faithful as long as the part before
  the first slash has none: device resource ids and endpoint ids without a slash.
\<close>

datatype value_key = DeviceKey string | EndpointKey string string

fun key_string :: "value_key \<Rightarrow> string" where
  "key_string (DeviceKey r) = r"
| "key_string (EndpointKey e r) = ENDPOINT_FORMAT e r"

fun key_ok :: "value_key \<Rightarrow> bool" where
  "key_ok (DeviceKey r) = (CHR ''/'' \<notin> set r)"
| "key_ok (EndpointKey e r) = (CHR ''/'' \<notin> set e)"

fun put_value :: "(string, cstr) hmap \<Rightarrow> value_key \<Rightarrow> cstr \<Rightarrow> bool \<Rightarrow> bool \<times> icInitialResourceValues" where
  "put_value m (DeviceKey r) v True = initialResourceValuesPutDeviceValue (Some m) (Some r) v"
| "put_value m (DeviceKey r) v False = initialResourceValuesPutDeviceValueIfNotExists (Some m) (Some r) v"
| "put_value m (EndpointKey e r) v True = initialResourceValuesPutEndpointValue (Some m) (Some e) (Some r) v"
| "put_value m (EndpointKey e r) v False =
     initialResourceValuesPutEndpointValueIfNotExists (Some m) (Some e) (Some r) v"

fun has_value :: "icInitialResourceValues \<Rightarrow> value_key \<Rightarrow> bool" where
  "has_value vs (DeviceKey r) = initialResourceValuesHasDeviceValue vs (Some r)"
| "has_value vs (EndpointKey e r) = initialResourceValuesHasEndpointValue vs (Some e) (Some r)"

fun get_value :: "icInitialResourceValues \<Rightarrow> value_key \<Rightarrow> cstr" where
  "get_value vs (DeviceKey r) = initialResourceValuesGetDeviceValue vs (Some r)"
| "get_value vs (EndpointKey e r) = initialResourceValuesGetEndpointValue vs (Some e) (Some r)"

definition abs_values :: "icInitialResourceValues \<Rightarrow> value_key \<Rightarrow> cstr option" where
  "abs_values vs k = (if has_value vs k then Some (get_value vs k) else None)"

lemma first_slash:
  assumes "CHR ''/'' \<notin> set a" "CHR ''/'' \<notin> set c" "a @ CHR ''/'' # b = c @ CHR ''/'' # d"
  shows "a = c \<and> b = d"
  using assms
proof (induction a arbitrary: c)
  case Nil
  then show ?case by (cases c) auto
next
  case (Cons x a)
  then show ?case by (cases c) auto
qed

lemma key_string_inj: "key_ok k \<Longrightarrow> key_ok l \<Longrightarrow> key_string k = key_string l \<longleftrightarrow> k = l"
proof (cases k; cases l)
  fix e r e' r'
  assume "key_ok k" "key_ok l" "k = EndpointKey e r" "l = EndpointKey e' r'"
  then show ?thesis using first_slash [of e e' r r'] by (auto simp: ENDPOINT_FORMAT_def)
qed (auto simp: ENDPOINT_FORMAT_def)

lemma put_value_eq:
  "put_value m k v replace =
     map_prod id Some (hashMapPut (if replace then snd (hashMapDelete m (key_string k)) else m) (key_string k) v)"
  by (cases k; cases replace)
    (simp_all add: initialResourceValuesPutDeviceValue_def initialResourceValuesPutDeviceValueIfNotExists_def
      initialResourceValuesPutEndpointValue_def initialResourceValuesPutEndpointValueIfNotExists_def
      internalDeviceValuePut_def internalEndpointValuePut_def Let_def)

lemma abs_values_eq: "abs_values (Some m) k = hashMapGet m (key_string k)"
  by (cases k; cases "hashMapGet m (key_string k)")
    (auto simp: abs_values_def initialResourceValuesHasDeviceValue_def initialResourceValuesHasEndpointValue_def
      initialResourceValuesGetDeviceValue_def initialResourceValuesGetEndpointValue_def hmap_simps)

section \<open>Lemmas on the helpers\<close>

lemma createDeviceMetadata_step:
  assumes "d_metadata d = Some l" "d_uuid d = Some u"
  shows "\<exists>m. createDeviceMetadata d (Some k) (Some v) = Some (d\<lparr>d_metadata := Some (l @ [m])\<rparr>, m) \<and>
    m = \<lparr>m_id = Some k, m_uri = Some (metadataUriCreate u None k), m_endpointId = None,
         m_deviceUuid = Some u, m_value = Some v\<rparr>"
  using assms by (simp add: createDeviceMetadata_def createDeviceMetadataOnList_def update_last_def Let_def)

lemma add_descriptor_metadata_spec:
  assumes "d_metadata d = Some l" "d_uuid d = Some u"
  shows "add_descriptor_metadata es d = Some (d\<lparr>d_metadata := Some (l @ map (\<lambda>(k, v).
      \<lparr>m_id = Some k, m_uri = Some (metadataUriCreate u None k), m_endpointId = None,
       m_deviceUuid = Some u, m_value = Some v\<rparr>) es)\<rparr>)"
  using assms
proof (induction es arbitrary: d l)
  case Nil
  then show ?case by (simp add: add_descriptor_metadata_def)
next
  case (Cons e es)
  obtain k v where e: "e = (k, v)" by force
  from createDeviceMetadata_step [OF Cons.prems, of k v] obtain m where
    m: "createDeviceMetadata d (Some k) (Some v) = Some (d\<lparr>d_metadata := Some (l @ [m])\<rparr>, m)"
    "m = \<lparr>m_id = Some k, m_uri = Some (metadataUriCreate u None k), m_endpointId = None,
         m_deviceUuid = Some u, m_value = Some v\<rparr>" by blast
  have "add_descriptor_metadata (e # es) d =
      add_descriptor_metadata es (d\<lparr>d_metadata := Some (l @ [m])\<rparr>)"
    by (simp add: add_descriptor_metadata_def e m(1))
  then show ?case
    using Cons.IH [of "d\<lparr>d_metadata := Some (l @ [m])\<rparr>" "l @ [m]"] Cons.prems(2) e m(2) by simp
qed

section \<open>Properties\<close>

text \<open>
  The initial values refine a partial map on typed keys: a put stores the value when it may
  replace or nothing is stored, says so, and changes no other device or endpoint value.
\<close>

theorem initialResourceValues_refine:
  assumes "hmap_ok m" "key_ok k" "put_value m k v replace = (b, vs)"
  shows "b = (replace \<or> abs_values (Some m) k = None) \<and>
    (\<forall>l. key_ok l \<longrightarrow> abs_values vs l =
       (if l = k \<and> (replace \<or> abs_values (Some m) k = None) then Some v else abs_values (Some m) l))"
proof -
  obtain m' where vs: "vs = Some m'"
    and p: "hashMapPut (if replace then snd (hashMapDelete m (key_string k)) else m) (key_string k) v = (b, m')"
    using assms(3) by (cases "hashMapPut (if replace then snd (hashMapDelete m (key_string k)) else m) (key_string k) v")
      (auto simp: put_value_eq)
  have b: "b = (replace \<or> hashMapGet m (key_string k) = None)"
    using arg_cong [OF p, of fst] by (simp add: hmap_simps split: if_splits)
  have "hashMapGet m' s = (if s = key_string k \<and> (replace \<or> hashMapGet m (key_string k) = None)
      then Some v else hashMapGet m s)" for s
    using arg_cong [OF p, of "\<lambda>r. hashMapGet (snd r) s"] by (auto simp: hmap_simps split: if_splits)
  then show ?thesis using b vs assms(2) by (auto simp: abs_values_eq key_string_inj)
qed

theorem initialResourceValues_refine_witness:
  "fst (put_value [] (EndpointKey ''1'' ''label'') (Some ''x'') False) \<and>
   abs_values (snd (put_value [] (EndpointKey ''1'' ''label'') (Some ''x'') False)) (DeviceKey ''label'') = None"
  using initialResourceValues_refine [of "[]" "EndpointKey ''1'' ''label''" "Some ''x''" False,
      OF _ _ prod.collapse [symmetric]]
  by (simp add: abs_values_eq)

text \<open>
  A created device carries exactly the metadata of its descriptor, each entry with the URI of
  device metadata, so that every entry passes the validation of the loader.
\<close>

theorem createDevice_metadata:
  assumes "dd_metadata dd = Some es"
  shows "\<exists>d. createDevice (Some u) (Some cls) ver (Some drv) (Some dd) = Some (Some d) \<and>
    d_uuid d = Some u \<and> d_endpoints d = Some [] \<and> d_resources d = Some [] \<and>
    map (\<lambda>m. (m_id m, m_value m)) (items (d_metadata d)) = map (\<lambda>(k, v). (Some k, Some v)) es \<and>
    (\<forall>m \<in> set (items (d_metadata d)). m_uri m = Some (metadataUriCreate u None (the (m_id m))) \<and>
       m_deviceUuid m = Some u \<and> m_endpointId m = None)"
  using assms
  by (auto simp: createDevice_def add_descriptor_metadata_spec comp_def case_prod_unfold)

theorem createDevice_metadata_witness:
  "\<exists>d. createDevice (Some ''d1'') (Some ''lock'') 1 (Some ''drv'')
      (Some (example_dd\<lparr>dd_metadata := Some [(''a'', ''1'')]\<rparr>)) = Some (Some d) \<and>
    map (\<lambda>m. (m_id m, m_value m)) (items (d_metadata d)) = [(Some ''a'', Some ''1'')]"
  using createDevice_metadata [of "example_dd\<lparr>dd_metadata := Some [(''a'', ''1'')]\<rparr>" "[(''a'', ''1'')]"
      "''d1''" "''lock''" 1 "''drv''"] by auto

end
