(* ===== verification/Json_Database.thy ===== *)
theory Json_Database
  imports Device_Model "HOL-Library.Monad_Syntax"
begin

text \<open>
  The device database, \<^verbatim>\<open>core/src/database/jsonDatabase.c\<close>: the cache of devices by uuid, the index of
  every device, endpoint, resource and metadata item by URI, the system properties, and their
  persistence. This theory holds the definitions; the theorems are in \<open>Json_Database_Props\<close>.

  A pointer of the index into a device is represented by the uuid of the cache entry and the URIs of
  the endpoint and the item pointed to. Following it finds the first such item in the device; the
  pointer dangles when there is none. An operation returns \<open>None\<close> when the code would read through a
  \<^verbatim>\<open>NULL\<close> or dangling pointer, and its result otherwise. The mutex makes every operation atomic. The
  persistent storage library is part of the environment \<open>E\<close>, with cJSON and the string helpers; the maps that are
  \<^verbatim>\<open>NULL\<close> before initialisation and after cleanup are empty maps here.
\<close>

section \<open>Environment\<close>

datatype StorageRestoreErrorCode = STORAGE_RESTORE_ERROR_NONE | STORAGE_RESTORE_ERROR_NEW_DIR_MISSING
  | STORAGE_RESTORE_ERROR_OLD_CONFIG_DELETE | STORAGE_RESTORE_ERROR_FAILED_COPY

text \<open>
  Storage: \<open>storageParse\<close> and \<open>storageParseBad\<close> hand texts to a callback until it accepts one; here
  they give the texts in that order.
\<close>

record ('j, 's) db_env =
  env_json :: "'j json_api"
  env_util :: util_api
  storageSave :: "string \<Rightarrow> string \<Rightarrow> string \<Rightarrow> 's \<Rightarrow> bool \<times> 's"
  storageDelete :: "string \<Rightarrow> string \<Rightarrow> 's \<Rightarrow> bool \<times> 's"
  storageLoadJSON :: "string \<Rightarrow> string \<Rightarrow> 's \<Rightarrow> 'j option"
  storageGetKeys :: "string \<Rightarrow> 's \<Rightarrow> string list"
  storageParse :: "string \<Rightarrow> string \<Rightarrow> 's \<Rightarrow> string list"
  storageParseBad :: "string \<Rightarrow> string \<Rightarrow> 's \<Rightarrow> string list"
  storageRestoreNamespace :: "string \<Rightarrow> string \<Rightarrow> 's \<Rightarrow> StorageRestoreErrorCode \<times> 's"

definition STORAGE_NAMESPACE :: string where "STORAGE_NAMESPACE = ''devicedb''"
definition SYSTEM_PROPERTIES_KEY :: string where "SYSTEM_PROPERTIES_KEY = ''systemProperties''"
definition JSON_DATABASE_CURRENT_SCHEMA_VERSION :: string where "JSON_DATABASE_CURRENT_SCHEMA_VERSION = ''2''"
definition JSON_DATABASE_SCHEMA_VERSION_KEY :: string where "JSON_DATABASE_SCHEMA_VERSION_KEY = ''schemaVersion''"
definition JSON_DATABASE_METADATA_MARKER :: string where "JSON_DATABASE_METADATA_MARKER = ''/m/''"
definition JSON_DATABASE_ENDPOINT_MARKER :: string where "JSON_DATABASE_ENDPOINT_MARKER = ''/ep/''"
definition CURRENT_DENYLIST_URL :: string where "CURRENT_DENYLIST_URL = ''currentDenylistUrl''"
definition CURRENT_DENYLIST_MD5 :: string where "CURRENT_DENYLIST_MD5 = ''currentDenylistMd5''"

section \<open>State\<close>

record DeviceCacheEntry =
  ce_device :: icDevice
  ce_dirty :: bool

datatype Locator = DeviceLocator string | EndpointLocator string string
  | ResourceLocator string cstr string | MetadataLocator string cstr string

datatype LocatorType = LOCATOR_TYPE_DEVICE | LOCATOR_TYPE_ENDPOINT | LOCATOR_TYPE_RESOURCE
  | LOCATOR_TYPE_METADATA

fun locatorType :: "Locator \<Rightarrow> LocatorType" where
  "locatorType (DeviceLocator _) = LOCATOR_TYPE_DEVICE"
| "locatorType (EndpointLocator _ _) = LOCATOR_TYPE_ENDPOINT"
| "locatorType (ResourceLocator _ _ _) = LOCATOR_TYPE_RESOURCE"
| "locatorType (MetadataLocator _ _ _) = LOCATOR_TYPE_METADATA"

type_synonym uri_index = "(string, Locator) hmap"

record 's json_db =
  devices :: "(string, DeviceCacheEntry) hmap"
  resourcesByUri :: uri_index
  systemProperties :: "(string, string) hmap"
  store :: 's
  failureEvents :: "string list"

definition createCacheEntry :: "icDevice \<Rightarrow> DeviceCacheEntry" where
  "createCacheEntry d = \<lparr>ce_device = d, ce_dirty = False\<rparr>"

section \<open>Removing URI entries\<close>

definition removeMetadataURIEntry :: "icDeviceMetadata \<Rightarrow> uri_index \<Rightarrow> uri_index option" where
  "removeMetadataURIEntry m idx = map_option (\<lambda>u. snd (hashMapDelete idx u)) (m_uri m)"

definition removeDeviceResourceURIEntry :: "icDeviceResource \<Rightarrow> uri_index \<Rightarrow> uri_index" where
  "removeDeviceResourceURIEntry r idx =
     (case r_uri r of None \<Rightarrow> idx | Some u \<Rightarrow> snd (hashMapDelete idx u))"

fun remove_metadatas :: "icDeviceMetadata list \<Rightarrow> uri_index \<Rightarrow> uri_index option" where
  "remove_metadatas [] idx = Some idx"
| "remove_metadatas (m # ms) idx = do { idx' \<leftarrow> removeMetadataURIEntry m idx; remove_metadatas ms idx' }"

definition removeEndpointURIEntries :: "icDeviceEndpoint \<Rightarrow> uri_index \<Rightarrow> uri_index option" where
  "removeEndpointURIEntries e idx =
     (case e_uri e of None \<Rightarrow> Some idx
      | Some u \<Rightarrow> remove_metadatas (items (e_metadata e))
          (fold removeDeviceResourceURIEntry (items (e_resources e)) (snd (hashMapDelete idx u))))"

fun remove_endpoints :: "icDeviceEndpoint list \<Rightarrow> uri_index \<Rightarrow> uri_index option" where
  "remove_endpoints [] idx = Some idx"
| "remove_endpoints (e # es) idx = do { idx' \<leftarrow> removeEndpointURIEntries e idx; remove_endpoints es idx' }"

definition removeDeviceURIEntries :: "icDevice \<Rightarrow> uri_index \<Rightarrow> uri_index option" where
  "removeDeviceURIEntries d idx =
     (case d_uri d of None \<Rightarrow> Some idx
      | Some u \<Rightarrow> do {
          idx1 \<leftarrow> remove_endpoints (items (d_endpoints d)) (snd (hashMapDelete idx u));
          remove_metadatas (items (d_metadata d)) (fold removeDeviceResourceURIEntry (items (d_resources d)) idx1) })"

section \<open>Adding URI entries\<close>

definition addDeviceMetadataURIEntry ::
  "util_api \<Rightarrow> string \<Rightarrow> cstr \<Rightarrow> icDeviceMetadata \<Rightarrow> uri_index \<Rightarrow> bool \<times> uri_index" where
  "addDeviceMetadataURIEntry u uuid ep m idx =
     (case m_uri m of
        Some uri \<Rightarrow> if metadataUriIsValid u (m_uri m) (m_deviceUuid m) (m_endpointId m) (m_id m)
          then hashMapPut idx uri (MetadataLocator uuid ep uri) else (False, idx)
      | None \<Rightarrow> (False, idx))"

definition addDeviceResourceURIEntry ::
  "util_api \<Rightarrow> string \<Rightarrow> cstr \<Rightarrow> icDeviceResource \<Rightarrow> uri_index \<Rightarrow> bool \<times> uri_index" where
  "addDeviceResourceURIEntry u uuid ep r idx =
     (case r_uri r of
        Some uri \<Rightarrow> if resourceUriIsValid u (r_uri r) (r_deviceUuid r) (r_endpointId r) (r_id r)
          then hashMapPut idx uri (ResourceLocator uuid ep uri) else (False, idx)
      | None \<Rightarrow> (False, idx))"

text \<open>The loops stop at the first item that cannot be added.\<close>

fun add_each :: "('a \<Rightarrow> uri_index \<Rightarrow> bool \<times> uri_index) \<Rightarrow> 'a list \<Rightarrow> uri_index \<Rightarrow> bool \<times> uri_index" where
  "add_each add [] idx = (True, idx)"
| "add_each add (x # xs) idx = (case add x idx of (True, idx') \<Rightarrow> add_each add xs idx' | (False, idx') \<Rightarrow> (False, idx'))"

definition addEndpointURIEntries ::
  "util_api \<Rightarrow> string \<Rightarrow> icDeviceEndpoint \<Rightarrow> uri_index \<Rightarrow> bool \<times> uri_index" where
  "addEndpointURIEntries u uuid e idx =
     (case e_uri e of
        Some uri \<Rightarrow>
          if endpointUriIsValid u (e_uri e) (e_deviceUuid e) (e_id e)
          then (case hashMapPut idx uri (EndpointLocator uuid uri) of
              (True, idx1) \<Rightarrow>
                (case add_each (addDeviceResourceURIEntry u uuid (Some uri)) (items (e_resources e)) idx1 of
                   (True, idx2) \<Rightarrow> add_each (addDeviceMetadataURIEntry u uuid (Some uri)) (items (e_metadata e)) idx2
                 | (False, idx2) \<Rightarrow> (False, idx2))
            | (False, _) \<Rightarrow> (False, idx))
          else (False, idx)
      | None \<Rightarrow> (False, idx))"

definition add_device_entries :: "util_api \<Rightarrow> string \<Rightarrow> icDevice \<Rightarrow> uri_index \<Rightarrow> bool \<times> uri_index" where
  "add_device_entries u uuid d idx =
     (case d_uri d of
        Some uri \<Rightarrow>
          if deviceUriIsValid u (d_uri d) (d_uuid d)
          then (case hashMapPut idx uri (DeviceLocator uuid) of
              (True, idx1) \<Rightarrow>
                (case add_each (addEndpointURIEntries u uuid) (items (d_endpoints d)) idx1 of
                   (True, idx2) \<Rightarrow>
                     (case add_each (addDeviceResourceURIEntry u uuid None) (items (d_resources d)) idx2 of
                        (True, idx3) \<Rightarrow> add_each (addDeviceMetadataURIEntry u uuid None) (items (d_metadata d)) idx3
                      | (False, idx3) \<Rightarrow> (False, idx3))
                 | (False, idx2) \<Rightarrow> (False, idx2))
            | (False, _) \<Rightarrow> (False, idx))
          else (False, idx)
      | None \<Rightarrow> (False, idx))"

definition addDeviceURIEntries :: "util_api \<Rightarrow> string \<Rightarrow> icDevice \<Rightarrow> uri_index \<Rightarrow> (bool \<times> uri_index) option" where
  "addDeviceURIEntries u uuid d idx =
     (case add_device_entries u uuid d idx of
        (True, idx') \<Rightarrow> Some (True, idx')
      | (False, idx') \<Rightarrow> map_option (Pair False) (removeDeviceURIEntries d idx'))"

section \<open>System properties\<close>

definition stringHashMapToJson :: "'j json_api \<Rightarrow> (string, string) hmap \<Rightarrow> 'j" where
  "stringHashMapToJson j m =
     foldl (\<lambda>body (k, v). cJSON_AddStringToObject j body k (Some v)) (cJSON_CreateObject j) m"

definition saveSystemProperties :: "('j, 's) db_env \<Rightarrow> 's json_db \<Rightarrow> bool \<times> 's json_db" where
  "saveSystemProperties E db =
     (case storageSave E STORAGE_NAMESPACE SYSTEM_PROPERTIES_KEY
             (cJSON_Print (env_json E) (stringHashMapToJson (env_json E) (systemProperties db))) (store db)
      of (ok, st) \<Rightarrow> (ok, db\<lparr>store := st\<rparr>))"

definition jsonDatabaseGetSystemProperty :: "string \<Rightarrow> 's json_db \<Rightarrow> cstr" where
  "jsonDatabaseGetSystemProperty key db = hashMapGet (systemProperties db) key"

definition jsonDatabaseGetAllSystemProperties :: "(string, string) hmap option \<Rightarrow> 's json_db \<Rightarrow> bool \<times> (string, string) hmap option" where
  "jsonDatabaseGetAllSystemProperties out db =
     (case out of None \<Rightarrow> (False, None)
      | Some m \<Rightarrow> (True, Some (foldl (\<lambda>m' (k, v). snd (hashMapPut m' k v)) m (systemProperties db))))"

definition jsonDatabaseSetSystemProperty :: "('j, 's) db_env \<Rightarrow> string \<Rightarrow> string \<Rightarrow> 's json_db \<Rightarrow> bool \<times> 's json_db" where
  "jsonDatabaseSetSystemProperty E key value db =
     (case hashMapPut (snd (hashMapDelete (systemProperties db) key)) key value of
        (True, m) \<Rightarrow> saveSystemProperties E (db\<lparr>systemProperties := m\<rparr>)
      | (False, m) \<Rightarrow> (False, db\<lparr>systemProperties := m\<rparr>))"

definition rename_property :: "string \<Rightarrow> string \<Rightarrow> 's json_db \<Rightarrow> 's json_db" where
  "rename_property old new db =
     (case jsonDatabaseGetSystemProperty old db of None \<Rightarrow> db
      | Some v \<Rightarrow> db\<lparr>systemProperties :=
          snd (hashMapDelete (snd (hashMapPut (systemProperties db) new v)) old)\<rparr>)"

definition migrateSysPropFile :: "('j, 's) db_env \<Rightarrow> 's json_db \<Rightarrow> bool \<times> 's json_db" where
  "migrateSysPropFile E db =
     (if stringCompare (env_util E) (hashMapGet (systemProperties db) JSON_DATABASE_SCHEMA_VERSION_KEY)
           (Some JSON_DATABASE_CURRENT_SCHEMA_VERSION) False \<noteq> 0
      then
        let db1 = rename_property ''currentBlacklistMd5'' CURRENT_DENYLIST_MD5 db;
            db2 = rename_property ''currentBlacklistUrl'' CURRENT_DENYLIST_URL db1
        in (True, snd (jsonDatabaseSetSystemProperty E JSON_DATABASE_SCHEMA_VERSION_KEY
                         JSON_DATABASE_CURRENT_SCHEMA_VERSION db2))
      else (False, db))"

definition loadSystemProperties :: "('j, 's) db_env \<Rightarrow> 's json_db \<Rightarrow> bool \<times> 's json_db" where
  "loadSystemProperties E db =
     (case storageLoadJSON E STORAGE_NAMESPACE SYSTEM_PROPERTIES_KEY (store db) of
        None \<Rightarrow> (False, db)
      | Some body \<Rightarrow>
          let props = foldl (\<lambda>m (k, item). case cJSON_valuestring (env_json E) item of
                 Some v \<Rightarrow> snd (hashMapPut m k v) | None \<Rightarrow> m) (systemProperties db) (cJSON_children (env_json E) body)
          in (True, snd (migrateSysPropFile E (db\<lparr>systemProperties := props\<rparr>))))"

section \<open>Loading and saving devices\<close>

definition db_context :: icSerDesContext where
  "db_context = snd (serDesSetContextValue serDesCreateContext ''namespace'' STORAGE_NAMESPACE)"

definition saveDevice :: "('j, 's) db_env \<Rightarrow> icDevice \<Rightarrow> 's json_db \<Rightarrow> bool \<times> 's json_db" where
  "saveDevice E d db =
     (case storageSave E STORAGE_NAMESPACE (the (d_uuid d))
             (cJSON_Print (env_json E) (deviceToJSON (env_json E) (env_util E) db_context d)) (store db)
      of (ok, st) \<Rightarrow> (ok, db\<lparr>store := st\<rparr>))"

text \<open>Deleting from the device map with \<^verbatim>\<open>freeDevicesItem\<close>, which destroys the cache entry.\<close>

definition destroyCacheEntry :: "string \<Rightarrow> icDevice \<Rightarrow> 's json_db \<Rightarrow> 's json_db option" where
  "destroyCacheEntry uuid d db = do {
     idx \<leftarrow> removeDeviceURIEntries d (resourcesByUri db);
     Some (db\<lparr>devices := snd (hashMapDelete (devices db) uuid), resourcesByUri := idx\<rparr>) }"

definition loadDeviceIntoCache :: "('j, 's) db_env \<Rightarrow> icDevice option \<Rightarrow> 's json_db \<Rightarrow> (bool \<times> 's json_db) option" where
  "loadDeviceIntoCache E newDevice db =
     (case newDevice of None \<Rightarrow> Some (False, db) | Some d \<Rightarrow>
      (case d_uuid d of None \<Rightarrow> Some (False, db) | Some uuid \<Rightarrow>
        (case hashMapPut (devices db) uuid (createCacheEntry d) of
           (True, devs) \<Rightarrow> do {
             (ok, idx) \<leftarrow> addDeviceURIEntries (env_util E) uuid d (resourcesByUri db);
             let db' = db\<lparr>devices := devs, resourcesByUri := idx\<rparr>;
             if ok then Some (True, db') else map_option (Pair False) (destroyCacheEntry uuid d db') }
         | (False, _) \<Rightarrow> do {
             idx \<leftarrow> removeDeviceURIEntries d (resourcesByUri db);
             Some (False, db\<lparr>resourcesByUri := idx\<rparr>) })))"

definition loadDevice :: "('j, 's) db_env \<Rightarrow> bool \<Rightarrow> string \<Rightarrow> 's json_db \<Rightarrow> (bool \<times> 's json_db) option" where
  "loadDevice E permissive jsonData db =
     (case cJSON_Parse (env_json E) (Some jsonData) of None \<Rightarrow> Some (False, db)
      | Some json \<Rightarrow> loadDeviceIntoCache E (deviceFromJSON (env_json E) (env_util E) db_context permissive json) db)"

text \<open>Texts are offered to the callback until it accepts one.\<close>

fun offer_texts :: "(string \<Rightarrow> 's json_db \<Rightarrow> (bool \<times> 's json_db) option) \<Rightarrow> string list \<Rightarrow> 's json_db \<Rightarrow> (bool \<times> 's json_db) option" where
  "offer_texts cb [] db = Some (False, db)"
| "offer_texts cb (t # ts) db = do { (ok, db') \<leftarrow> cb t db; if ok then Some (True, db') else offer_texts cb ts db' }"

definition load_key :: "('j, 's) db_env \<Rightarrow> string \<Rightarrow> 's json_db \<Rightarrow> 's json_db option" where
  "load_key E key db =
     (if key = SYSTEM_PROPERTIES_KEY then Some db
      else do {
        (ok, db1) \<leftarrow> offer_texts (loadDevice E False) (storageParse E STORAGE_NAMESPACE key (store db)) db;
        if ok then Some db1
        else do {
          let db2 = db1\<lparr>failureEvents := failureEvents db1 @ [key]\<rparr>;
          (_, db3) \<leftarrow> offer_texts (loadDevice E True) (storageParseBad E STORAGE_NAMESPACE key (store db2)) db2;
          Some db3 } })"

fun load_keys :: "('j, 's) db_env \<Rightarrow> string list \<Rightarrow> 's json_db \<Rightarrow> 's json_db option" where
  "load_keys E [] db = Some db"
| "load_keys E (k # ks) db = do { db' \<leftarrow> load_key E k db; load_keys E ks db' }"

definition loadDevices :: "('j, 's) db_env \<Rightarrow> 's json_db \<Rightarrow> (bool \<times> 's json_db) option" where
  "loadDevices E db = map_option (Pair True) (load_keys E (storageGetKeys E STORAGE_NAMESPACE (store db)) db)"

definition jsonDatabaseInitialize :: "('j, 's) db_env \<Rightarrow> 's json_db \<Rightarrow> (bool \<times> 's json_db) option" where
  "jsonDatabaseInitialize E db =
     (case loadSystemProperties E db of
        (True, db1) \<Rightarrow> loadDevices E db1
      | (False, db1) \<Rightarrow> Some (True, snd (jsonDatabaseSetSystemProperty E JSON_DATABASE_SCHEMA_VERSION_KEY
            JSON_DATABASE_CURRENT_SCHEMA_VERSION (db1\<lparr>devices := [], resourcesByUri := []\<rparr>))))"

definition save_dirty :: "('j, 's) db_env \<Rightarrow> 's json_db \<Rightarrow> 's json_db" where
  "save_dirty E db = foldl (\<lambda>db' (uuid, ce). if ce_dirty ce then snd (saveDevice E (ce_device ce) db') else db')
     db (devices db)"

fun remove_all :: "(string \<times> DeviceCacheEntry) list \<Rightarrow> uri_index \<Rightarrow> uri_index option" where
  "remove_all [] idx = Some idx"
| "remove_all ((_, ce) # es) idx = do { idx' \<leftarrow> removeDeviceURIEntries (ce_device ce) idx; remove_all es idx' }"

definition jsonDatabaseCleanup :: "('j, 's) db_env \<Rightarrow> bool \<Rightarrow> 's json_db \<Rightarrow> 's json_db option" where
  "jsonDatabaseCleanup E persist db =
     (let db1 = (if persist then snd (saveSystemProperties E db) else db);
          db2 = (if persist then save_dirty E db1 else db1)
      in do {
        _ \<leftarrow> remove_all (devices db2) (resourcesByUri db2);
        Some (db2\<lparr>systemProperties := [], devices := [], resourcesByUri := []\<rparr>) })"

definition jsonDatabaseReload :: "('j, 's) db_env \<Rightarrow> 's json_db \<Rightarrow> (bool \<times> 's json_db) option" where
  "jsonDatabaseReload E db = do { db' \<leftarrow> jsonDatabaseCleanup E False db; jsonDatabaseInitialize E db' }"

definition jsonDatabaseRestore :: "('j, 's) db_env \<Rightarrow> string \<Rightarrow> 's json_db \<Rightarrow> (bool \<times> 's json_db) option" where
  "jsonDatabaseRestore E tempRestoreDir db = do {
     db' \<leftarrow> jsonDatabaseCleanup E False db;
     let (err, st) = storageRestoreNamespace E STORAGE_NAMESPACE tempRestoreDir (store db');
     let db'' = db'\<lparr>store := st\<rparr>;
     if err \<in> {STORAGE_RESTORE_ERROR_NONE, STORAGE_RESTORE_ERROR_NEW_DIR_MISSING}
     then jsonDatabaseInitialize E db'' else Some (False, db'') }"

section \<open>Devices\<close>

definition jsonDatabaseAddDevice :: "('j, 's) db_env \<Rightarrow> icDevice option \<Rightarrow> 's json_db \<Rightarrow> (bool \<times> 's json_db) option" where
  "jsonDatabaseAddDevice E device db =
     (case deviceClone device of None \<Rightarrow> Some (False, db) | Some d \<Rightarrow>
      (case d_uuid d of None \<Rightarrow> Some (False, db) | Some uuid \<Rightarrow> do {
         (ok, db1) \<leftarrow> loadDeviceIntoCache E (Some d) db;
         if \<not> ok then Some (False, db1)
         else (case saveDevice E d db1 of
             (True, db2) \<Rightarrow> Some (True, db2)
           | (False, db2) \<Rightarrow> map_option (Pair False) (destroyCacheEntry uuid d db2)) }))"

definition upd_entry :: "string \<Rightarrow> (DeviceCacheEntry \<Rightarrow> DeviceCacheEntry) \<Rightarrow> 's json_db \<Rightarrow> 's json_db" where
  "upd_entry uuid f db = db\<lparr>devices := hashMapUpdate (devices db) uuid f\<rparr>"

definition upd_device :: "(icDevice \<Rightarrow> icDevice) \<Rightarrow> DeviceCacheEntry \<Rightarrow> DeviceCacheEntry" where
  "upd_device f ce = ce\<lparr>ce_device := f (ce_device ce)\<rparr>"

definition jsonDatabaseAddEndpoint :: "('j, 's) db_env \<Rightarrow> icDeviceEndpoint option \<Rightarrow> 's json_db \<Rightarrow> bool \<times> 's json_db" where
  "jsonDatabaseAddEndpoint E endpoint db =
     (case endpointClone endpoint of None \<Rightarrow> (False, db) | Some e \<Rightarrow>
      (case (e_deviceUuid e, e_id e) of
         (Some uuid, Some _) \<Rightarrow>
           (case hashMapGet (devices db) uuid of None \<Rightarrow> (False, db) | Some ce \<Rightarrow>
              (case addEndpointURIEntries (env_util E) uuid e (resourcesByUri db) of
                 (True, idx) \<Rightarrow>
                   let d = (ce_device ce)\<lparr>d_endpoints := map_option (\<lambda>l. l @ [e]) (d_endpoints (ce_device ce))\<rparr>
                   in saveDevice E d (upd_entry uuid (upd_device (\<lambda>_. d)) (db\<lparr>resourcesByUri := idx\<rparr>))
               | (False, idx) \<Rightarrow> (False, db\<lparr>resourcesByUri := idx\<rparr>)))
       | _ \<Rightarrow> (False, db)))"

definition jsonDatabaseGetDevices :: "'s json_db \<Rightarrow> icDevice list" where
  "jsonDatabaseGetDevices db = List.map_filter (\<lambda>(_, ce). deviceClone (Some (ce_device ce))) (devices db)"

definition jsonDatabaseGetDevicesByEndpointProfile :: "cstr \<Rightarrow> 's json_db \<Rightarrow> icDevice list" where
  "jsonDatabaseGetDevicesByEndpointProfile profileId db =
     (if profileId = None then []
      else List.map_filter (\<lambda>(_, ce). if list_ex (\<lambda>e. e_profile e = profileId) (items (d_endpoints (ce_device ce)))
             then deviceClone (Some (ce_device ce)) else None) (devices db))"

definition jsonDatabaseGetDevicesByDeviceClass :: "cstr \<Rightarrow> 's json_db \<Rightarrow> icDevice list" where
  "jsonDatabaseGetDevicesByDeviceClass deviceClass db =
     (if deviceClass = None then []
      else List.map_filter (\<lambda>(_, ce). if d_deviceClass (ce_device ce) = deviceClass
             then deviceClone (Some (ce_device ce)) else None) (devices db))"

definition jsonDatabaseGetDevicesByDeviceDriver :: "cstr \<Rightarrow> 's json_db \<Rightarrow> icDevice list" where
  "jsonDatabaseGetDevicesByDeviceDriver driver db =
     (if driver = None then []
      else List.map_filter (\<lambda>(_, ce). if d_managingDeviceDriver (ce_device ce) = driver
             then deviceClone (Some (ce_device ce)) else None) (devices db))"

definition jsonDatabaseGetDeviceById :: "cstr \<Rightarrow> 's json_db \<Rightarrow> icDevice option" where
  "jsonDatabaseGetDeviceById uuid db =
     (case uuid of None \<Rightarrow> None
      | Some u \<Rightarrow> (case hashMapGet (devices db) u of None \<Rightarrow> None | Some ce \<Rightarrow> deviceClone (Some (ce_device ce))))"

definition jsonDatabaseIsDeviceKnown :: "cstr \<Rightarrow> 's json_db \<Rightarrow> bool" where
  "jsonDatabaseIsDeviceKnown uuid db = (case uuid of None \<Rightarrow> False | Some u \<Rightarrow> hashMapContains (devices db) u)"

definition jsonDatabaseRemoveDeviceById :: "('j, 's) db_env \<Rightarrow> cstr \<Rightarrow> 's json_db \<Rightarrow> (bool \<times> 's json_db) option" where
  "jsonDatabaseRemoveDeviceById E uuid db =
     (case uuid of None \<Rightarrow> Some (False, db) | Some u \<Rightarrow>
      (case hashMapGet (devices db) u of None \<Rightarrow> Some (False, db) | Some ce \<Rightarrow>
        (case storageDelete E STORAGE_NAMESPACE u (store db) of
           (True, st) \<Rightarrow> map_option (Pair True) (destroyCacheEntry u (ce_device ce) (db\<lparr>store := st\<rparr>))
         | (False, st) \<Rightarrow> Some (False, db\<lparr>store := st\<rparr>))))"

section \<open>Following the index\<close>

fun locator_uuid :: "Locator \<Rightarrow> string" where
  "locator_uuid (DeviceLocator u) = u"
| "locator_uuid (EndpointLocator u _) = u"
| "locator_uuid (ResourceLocator u _ _) = u"
| "locator_uuid (MetadataLocator u _ _) = u"

definition deref_entry :: "'s json_db \<Rightarrow> Locator \<Rightarrow> DeviceCacheEntry option" where
  "deref_entry db loc = hashMapGet (devices db) (locator_uuid loc)"

definition find_endpoint :: "icDevice \<Rightarrow> string \<Rightarrow> icDeviceEndpoint option" where
  "find_endpoint d eu = find (\<lambda>e. e_uri e = Some eu) (items (d_endpoints d))"

definition deref_endpoint :: "'s json_db \<Rightarrow> string \<Rightarrow> string \<Rightarrow> icDeviceEndpoint option" where
  "deref_endpoint db uuid eu = do { ce \<leftarrow> hashMapGet (devices db) uuid; find_endpoint (ce_device ce) eu }"

definition owner_resources :: "icDevice \<Rightarrow> cstr \<Rightarrow> icDeviceResource list option" where
  "owner_resources d ep = (case ep of None \<Rightarrow> Some (items (d_resources d))
     | Some eu \<Rightarrow> map_option (\<lambda>e. items (e_resources e)) (find_endpoint d eu))"

definition owner_metadata :: "icDevice \<Rightarrow> cstr \<Rightarrow> icDeviceMetadata list option" where
  "owner_metadata d ep = (case ep of None \<Rightarrow> Some (items (d_metadata d))
     | Some eu \<Rightarrow> map_option (\<lambda>e. items (e_metadata e)) (find_endpoint d eu))"

definition deref_resource :: "'s json_db \<Rightarrow> string \<Rightarrow> cstr \<Rightarrow> string \<Rightarrow> icDeviceResource option" where
  "deref_resource db uuid ep uri = do {
     ce \<leftarrow> hashMapGet (devices db) uuid;
     rs \<leftarrow> owner_resources (ce_device ce) ep;
     find (\<lambda>r. r_uri r = Some uri) rs }"

definition deref_metadata :: "'s json_db \<Rightarrow> string \<Rightarrow> cstr \<Rightarrow> string \<Rightarrow> icDeviceMetadata option" where
  "deref_metadata db uuid ep uri = do {
     ce \<leftarrow> hashMapGet (devices db) uuid;
     ms \<leftarrow> owner_metadata (ce_device ce) ep;
     find (\<lambda>m. m_uri m = Some uri) ms }"

text \<open>Writing through such a pointer.\<close>

fun update_first :: "('a \<Rightarrow> bool) \<Rightarrow> ('a \<Rightarrow> 'a) \<Rightarrow> 'a list \<Rightarrow> 'a list" where
  "update_first p f [] = []"
| "update_first p f (x # xs) = (if p x then f x # xs else x # update_first p f xs)"

definition upd_endpoint :: "string \<Rightarrow> (icDeviceEndpoint \<Rightarrow> icDeviceEndpoint) \<Rightarrow> icDevice \<Rightarrow> icDevice" where
  "upd_endpoint eu f d = d\<lparr>d_endpoints := map_option (update_first (\<lambda>e. e_uri e = Some eu) f) (d_endpoints d)\<rparr>"

definition upd_resources :: "cstr \<Rightarrow> (icDeviceResource list \<Rightarrow> icDeviceResource list) \<Rightarrow> icDevice \<Rightarrow> icDevice" where
  "upd_resources ep f d = (case ep of None \<Rightarrow> d\<lparr>d_resources := map_option f (d_resources d)\<rparr>
     | Some eu \<Rightarrow> upd_endpoint eu (\<lambda>e. e\<lparr>e_resources := map_option f (e_resources e)\<rparr>) d)"

definition upd_metadata :: "cstr \<Rightarrow> (icDeviceMetadata list \<Rightarrow> icDeviceMetadata list) \<Rightarrow> icDevice \<Rightarrow> icDevice" where
  "upd_metadata ep f d = (case ep of None \<Rightarrow> d\<lparr>d_metadata := map_option f (d_metadata d)\<rparr>
     | Some eu \<Rightarrow> upd_endpoint eu (\<lambda>e. e\<lparr>e_metadata := map_option f (e_metadata e)\<rparr>) d)"

text \<open>Marking an entry dirty, saving its device, and clearing the mark when that worked.\<close>

definition flush_entry :: "('j, 's) db_env \<Rightarrow> string \<Rightarrow> 's json_db \<Rightarrow> (bool \<times> 's json_db) option" where
  "flush_entry E uuid db = do {
     let db1 = upd_entry uuid (\<lambda>ce. ce\<lparr>ce_dirty := True\<rparr>) db;
     ce \<leftarrow> hashMapGet (devices db1) uuid;
     case saveDevice E (ce_device ce) db1 of
       (True, db2) \<Rightarrow> Some (True, upd_entry uuid (\<lambda>ce. ce\<lparr>ce_dirty := False\<rparr>) db2)
     | (False, db2) \<Rightarrow> Some (False, db2) }"

section \<open>Lookups by URI and by endpoint\<close>

text \<open>\<open>Some None\<close>: nothing found.\<close>

definition jsonDatabaseGetDeviceByUri :: "cstr \<Rightarrow> 's json_db \<Rightarrow> icDevice option option" where
  "jsonDatabaseGetDeviceByUri uri db =
     (case uri of None \<Rightarrow> Some None | Some u \<Rightarrow>
      (case hashMapGet (resourcesByUri db) u of None \<Rightarrow> Some None
       | Some loc \<Rightarrow> map_option (\<lambda>ce. deviceClone (Some (ce_device ce))) (deref_entry db loc)))"

definition jsonDatabaseGetEndpointsByProfile :: "cstr \<Rightarrow> 's json_db \<Rightarrow> icDeviceEndpoint list" where
  "jsonDatabaseGetEndpointsByProfile profileId db =
     (if profileId = None then []
      else concat (map (\<lambda>(_, ce). List.map_filter (\<lambda>e. if e_profile e = profileId then endpointClone (Some e) else None)
             (items (d_endpoints (ce_device ce)))) (devices db)))"

definition jsonDatabaseGetEndpointById :: "string \<Rightarrow> cstr \<Rightarrow> 's json_db \<Rightarrow> icDeviceEndpoint option" where
  "jsonDatabaseGetEndpointById deviceUuid endpointId db =
     (if endpointId = None then None
      else (case hashMapGet (devices db) deviceUuid of None \<Rightarrow> None
            | Some ce \<Rightarrow> endpointClone (find (\<lambda>e. e_id e = endpointId) (items (d_endpoints (ce_device ce))))))"

definition jsonDatabaseGetEndpointByUri :: "cstr \<Rightarrow> 's json_db \<Rightarrow> icDeviceEndpoint option option" where
  "jsonDatabaseGetEndpointByUri uri db =
     (case uri of None \<Rightarrow> Some None | Some u \<Rightarrow>
      (case hashMapGet (resourcesByUri db) u of
         Some (EndpointLocator uuid eu) \<Rightarrow> map_option (\<lambda>e. endpointClone (Some e)) (deref_endpoint db uuid eu)
       | Some (ResourceLocator uuid (Some eu) _) \<Rightarrow> map_option (\<lambda>e. endpointClone (Some e)) (deref_endpoint db uuid eu)
       | Some (MetadataLocator uuid (Some eu) _) \<Rightarrow> map_option (\<lambda>e. endpointClone (Some e)) (deref_endpoint db uuid eu)
       | _ \<Rightarrow> Some None))"

definition jsonDatabaseGetResourceByUri :: "cstr \<Rightarrow> 's json_db \<Rightarrow> icDeviceResource option option" where
  "jsonDatabaseGetResourceByUri uri db =
     (case uri of None \<Rightarrow> Some None | Some u \<Rightarrow>
      (case hashMapGet (resourcesByUri db) u of
         Some (ResourceLocator uuid ep ru) \<Rightarrow> map_option (\<lambda>r. resourceClone (Some r)) (deref_resource db uuid ep ru)
       | _ \<Rightarrow> Some None))"

definition jsonDatabaseGetMetadataByUri :: "cstr \<Rightarrow> 's json_db \<Rightarrow> icDeviceMetadata option option" where
  "jsonDatabaseGetMetadataByUri uri db =
     (case uri of None \<Rightarrow> Some None | Some u \<Rightarrow>
      (case hashMapGet (resourcesByUri db) u of
         Some (MetadataLocator uuid ep mu) \<Rightarrow> map_option (\<lambda>m. metadataClone (Some m)) (deref_metadata db uuid ep mu)
       | _ \<Rightarrow> Some None))"

text \<open>
  The regular expression functions of the C library: \<open>regcomp\<close> gives the matcher of a pattern, or
  nothing for an invalid one. The items of one type whose URI matches, in the order of the index.
\<close>

fun collect :: "('a \<Rightarrow> 'b option) \<Rightarrow> 'a list \<Rightarrow> 'b list option" where
  "collect f [] = Some []"
| "collect f (x # xs) = do { y \<leftarrow> f x; ys \<leftarrow> collect f xs; Some (y # ys) }"

definition jsonDatabaseGetResourcesByUriRegex ::
  "(string \<Rightarrow> (string \<Rightarrow> bool) option) \<Rightarrow> cstr \<Rightarrow> 's json_db \<Rightarrow> icDeviceResource list option" where
  "jsonDatabaseGetResourcesByUriRegex regcomp uriRegex db =
     (case uriRegex of None \<Rightarrow> Some [] | Some pat \<Rightarrow>
      (case regcomp pat of None \<Rightarrow> Some [] | Some regexec \<Rightarrow>
        collect (\<lambda>(_, loc). case loc of ResourceLocator uuid ep ru \<Rightarrow> deref_resource db uuid ep ru | _ \<Rightarrow> None)
          (filter (\<lambda>(key, loc). locatorType loc = LOCATOR_TYPE_RESOURCE \<and> regexec key) (resourcesByUri db))))"

definition jsonDatabaseGetMetadataByUriRegex ::
  "(string \<Rightarrow> (string \<Rightarrow> bool) option) \<Rightarrow> cstr \<Rightarrow> 's json_db \<Rightarrow> icDeviceMetadata list option" where
  "jsonDatabaseGetMetadataByUriRegex regcomp uriRegex db =
     (case uriRegex of None \<Rightarrow> Some [] | Some pat \<Rightarrow>
      (case regcomp pat of None \<Rightarrow> Some [] | Some regexec \<Rightarrow>
        collect (\<lambda>(_, loc). case loc of MetadataLocator uuid ep mu \<Rightarrow> deref_metadata db uuid ep mu | _ \<Rightarrow> None)
          (filter (\<lambda>(key, loc). locatorType loc = LOCATOR_TYPE_METADATA \<and> regexec key) (resourcesByUri db))))"

section \<open>Saving endpoints and resources\<close>

definition replaceEndpointResources ::
  "util_api \<Rightarrow> string \<Rightarrow> string \<Rightarrow> icDeviceEndpoint \<Rightarrow> icDeviceEndpoint \<Rightarrow> uri_index \<Rightarrow> icDeviceEndpoint \<times> uri_index" where
  "replaceEndpointResources u uuid eu dst src idx =
     (let idx1 = fold removeDeviceResourceURIEntry (items (e_resources dst)) idx in
      foldl (\<lambda>(e, i) r. (e\<lparr>e_resources := map_option (\<lambda>l. l @ [r]) (e_resources e)\<rparr>,
                         snd (addDeviceResourceURIEntry u uuid (Some eu) r i)))
        (dst\<lparr>e_resources := Some []\<rparr>, idx1) (List.map_filter (\<lambda>r. resourceClone (Some r)) (items (e_resources src))))"

definition jsonDatabaseSaveEndpoint ::
  "('j, 's) db_env \<Rightarrow> icDeviceEndpoint option \<Rightarrow> 's json_db \<Rightarrow> (bool \<times> 's json_db) option" where
  "jsonDatabaseSaveEndpoint E endpoint db =
     (case endpoint of None \<Rightarrow> Some (False, db) | Some src \<Rightarrow>
      (case e_uri src of None \<Rightarrow> Some (False, db) | Some uri \<Rightarrow>
       (case hashMapGet (resourcesByUri db) uri of
          Some (EndpointLocator uuid eu) \<Rightarrow> do {
            dbEndpoint \<leftarrow> deref_endpoint db uuid eu;
            let e1 = dbEndpoint\<lparr>e_enabled := e_enabled src\<rparr>;
            let (e2, idx) = (if e_profileVersion e1 \<noteq> e_profileVersion src
               then map_prod (\<lambda>e. e\<lparr>e_profileVersion := e_profileVersion src\<rparr>) id
                      (replaceEndpointResources (env_util E) uuid eu e1 src (resourcesByUri db))
               else (e1, resourcesByUri db));
            flush_entry E uuid (upd_entry uuid (upd_device (upd_endpoint eu (\<lambda>_. e2))) (db\<lparr>resourcesByUri := idx\<rparr>)) }
        | _ \<Rightarrow> Some (False, db))))"

definition jsonDatabaseSaveResource ::
  "('j, 's) db_env \<Rightarrow> icDeviceResource option \<Rightarrow> 's json_db \<Rightarrow> (bool \<times> 's json_db) option" where
  "jsonDatabaseSaveResource E resource db =
     (case resource of None \<Rightarrow> Some (False, db) | Some src \<Rightarrow>
      (case r_uri src of None \<Rightarrow> Some (False, db) | Some uri \<Rightarrow>
       (case hashMapGet (resourcesByUri db) uri of
          Some (ResourceLocator uuid ep ru) \<Rightarrow> do {
            _ \<leftarrow> deref_resource db uuid ep ru;
            let upd = (\<lambda>r. r\<lparr>r_value := r_value src, r_cachingPolicy := r_cachingPolicy src,
                           r_mode := r_mode src, r_dateOfLastSyncMillis := r_dateOfLastSyncMillis src\<rparr>);
            let db1 = upd_entry uuid (upd_device (upd_resources ep (update_first (\<lambda>r. r_uri r = Some ru) upd))) db;
            if \<not> mode_has (r_mode src) RESOURCE_MODE_LAZY_SAVE_NEXT then flush_entry E uuid db1
            else Some (True, upd_entry uuid (\<lambda>ce. ce\<lparr>ce_dirty := True\<rparr>) db1) }
        | _ \<Rightarrow> Some (False, db))))"

definition jsonDatabaseUpdateDateOfLastSyncMillis ::
  "u64 \<Rightarrow> icDeviceResource option \<Rightarrow> 's json_db \<Rightarrow> (bool \<times> 's json_db) option" where
  "jsonDatabaseUpdateDateOfLastSyncMillis now resource db =
     (case resource of None \<Rightarrow> Some (False, db) | Some src \<Rightarrow>
      (case r_uri src of None \<Rightarrow> Some (False, db) | Some uri \<Rightarrow>
       (case hashMapGet (resourcesByUri db) uri of
          Some (ResourceLocator uuid ep ru) \<Rightarrow> do {
            _ \<leftarrow> deref_resource db uuid ep ru;
            Some (True, upd_entry uuid (\<lambda>ce. (upd_device (upd_resources ep (update_first (\<lambda>r. r_uri r = Some ru)
              (\<lambda>r. r\<lparr>r_dateOfLastSyncMillis := now\<rparr>))) ce)\<lparr>ce_dirty := True\<rparr>) db) }
        | _ \<Rightarrow> Some (False, db))))"

text \<open>
  A new resource is appended to the list of its owner first; it is taken off again, and its URI entry
  with it, when it cannot be indexed or saved.
\<close>

definition jsonDatabaseAddResource ::
  "('j, 's) db_env \<Rightarrow> cstr \<Rightarrow> icDeviceResource option \<Rightarrow> 's json_db \<Rightarrow> (bool \<times> 's json_db) option" where
  "jsonDatabaseAddResource E ownerUri resource db =
     (case (ownerUri, resourceClone resource) of
        (Some owner, Some r) \<Rightarrow>
          if r_id r = None \<or> r_uri r = None then Some (False, db)
          else
            let add = (\<lambda>uuid ep. do {
                  ce \<leftarrow> hashMapGet (devices db) uuid;
                  resourceList \<leftarrow> (case ep of None \<Rightarrow> Some (d_resources (ce_device ce))
                    | Some eu \<Rightarrow> map_option e_resources (find_endpoint (ce_device ce) eu));
                  if resourceList = None then Some (False, db) else do {
                  let db1 = upd_entry uuid (upd_device (upd_resources ep (\<lambda>l. l @ [r]))) db;
                  let takeOff = upd_entry uuid (upd_device (upd_resources ep butlast));
                  case addDeviceResourceURIEntry (env_util E) uuid ep r (resourcesByUri db1) of
                    (True, idx) \<Rightarrow> do {
                      ce1 \<leftarrow> hashMapGet (devices db1) uuid;
                      (case saveDevice E (ce_device ce1) (db1\<lparr>resourcesByUri := idx\<rparr>) of
                         (True, db2) \<Rightarrow> Some (True, db2)
                       | (False, db2) \<Rightarrow> Some (False, takeOff (db2\<lparr>resourcesByUri :=
                            removeDeviceResourceURIEntry r (resourcesByUri db2)\<rparr>))) }
                  | (False, idx) \<Rightarrow> Some (False, takeOff (db1\<lparr>resourcesByUri := idx\<rparr>)) } })
            in (case hashMapGet (resourcesByUri db) owner of
                  Some (DeviceLocator uuid) \<Rightarrow> add uuid None
                | Some (EndpointLocator uuid eu) \<Rightarrow> add uuid (Some eu)
                | _ \<Rightarrow> Some (False, db))
      | _ \<Rightarrow> Some (False, db))"

section \<open>Metadata\<close>

text \<open>The search for the endpoint of new metadata compares ids with \<^verbatim>\<open>strcmp\<close>.\<close>

fun seek_endpoint :: "string \<Rightarrow> icDeviceEndpoint list \<Rightarrow> icDeviceEndpoint option option" where
  "seek_endpoint eid [] = Some None"
| "seek_endpoint eid (e # es) =
     (case e_id e of None \<Rightarrow> None | Some i \<Rightarrow> if i = eid then Some (Some e) else seek_endpoint eid es)"

definition append_metadata ::
  "('j, 's) db_env \<Rightarrow> string \<Rightarrow> cstr \<Rightarrow> icDeviceMetadata \<Rightarrow> 's json_db \<Rightarrow> bool \<times> 's json_db" where
  "append_metadata E uuid ep m db =
     (let db1 = upd_entry uuid (upd_device (upd_metadata ep (\<lambda>l. l @ [m]))) db in
      case addDeviceMetadataURIEntry (env_util E) uuid ep m (resourcesByUri db1) of
        (ok, idx) \<Rightarrow> (ok, db1\<lparr>resourcesByUri := idx\<rparr>))"

definition jsonDatabaseSaveMetadata ::
  "('j, 's) db_env \<Rightarrow> icDeviceMetadata option \<Rightarrow> 's json_db \<Rightarrow> (bool \<times> 's json_db) option" where
  "jsonDatabaseSaveMetadata E metadata db =
     (case metadata of None \<Rightarrow> Some (False, db) | Some m \<Rightarrow>
      (case m_uri m of None \<Rightarrow> Some (False, db) | Some uri \<Rightarrow>
       (case hashMapGet (resourcesByUri db) uri of
          Some (MetadataLocator uuid ep mu) \<Rightarrow> do {
            _ \<leftarrow> deref_metadata db uuid ep mu;
            v \<leftarrow> m_value m;
            flush_entry E uuid (upd_entry uuid (upd_device (upd_metadata ep
              (update_first (\<lambda>x. m_uri x = Some mu) (\<lambda>x. x\<lparr>m_value := Some v\<rparr>)))) db) }
        | Some _ \<Rightarrow> Some (False, db)
        | None \<Rightarrow> do {
            uuid \<leftarrow> m_deviceUuid m;
            case hashMapGet (devices db) uuid of
              None \<Rightarrow> Some (False, db)
            | Some ce \<Rightarrow>
                (case m_endpointId m of
                   Some eid \<Rightarrow> do {
                     found \<leftarrow> seek_endpoint eid (items (d_endpoints (ce_device ce)));
                     case found of
                       None \<Rightarrow> flush_entry E uuid db
                     | Some e \<Rightarrow> (case append_metadata E uuid (e_uri e) m db of
                           (True, db1) \<Rightarrow> flush_entry E uuid db1 | (False, db1) \<Rightarrow> Some (False, db1)) }
                 | None \<Rightarrow> (case append_metadata E uuid None m db of
                       (True, db1) \<Rightarrow> flush_entry E uuid db1 | (False, db1) \<Rightarrow> Some (False, db1))) })))"

definition jsonDatabaseRemoveMetadataByUri ::
  "('j, 's) db_env \<Rightarrow> cstr \<Rightarrow> 's json_db \<Rightarrow> (bool \<times> 's json_db) option" where
  "jsonDatabaseRemoveMetadataByUri E uri db =
     (case uri of None \<Rightarrow> Some (False, db) | Some u \<Rightarrow>
      (case hashMapGet (resourcesByUri db) u of
         Some (MetadataLocator uuid ep mu) \<Rightarrow> do {
           let db1 = db\<lparr>resourcesByUri := snd (hashMapDelete (resourcesByUri db) u)\<rparr>;
           ce \<leftarrow> hashMapGet (devices db1) uuid;
           ms \<leftarrow> owner_metadata (ce_device ce) ep;
           if list_ex (\<lambda>m. m_uri m = Some mu) ms
           then flush_entry E uuid (upd_entry uuid (upd_device (upd_metadata ep
                  (\<lambda>l. snd (linkedListDelete (\<lambda>m. m_uri m = Some mu) l)))) db1)
           else Some (False, db1) }
       | _ \<Rightarrow> Some (False, db)))"

section \<open>Accessibility\<close>

definition isEndpointEnabled :: "icDeviceEndpoint option \<Rightarrow> bool" where
  "isEndpointEnabled endpoint = (case endpoint of None \<Rightarrow> False | Some e \<Rightarrow> e_enabled e)"

text \<open>\<^verbatim>\<open>strstr\<close>, and the two scan formats: a leading slash, a segment, a literal, a token.\<close>

definition strstr :: "string \<Rightarrow> string \<Rightarrow> bool" where
  "strstr s t = list_ex (\<lambda>i. take (length t) (drop i s) = t) [0..<length s + 1]"

definition scan_segment :: "string \<Rightarrow> (string \<times> string) option" where
  "scan_segment s = (case takeWhile (\<lambda>c. c \<noteq> CHR ''/'') s of [] \<Rightarrow> None
     | t \<Rightarrow> Some (t, dropWhile (\<lambda>c. c \<noteq> CHR ''/'') s))"

definition scan_literal :: "string \<Rightarrow> string \<Rightarrow> string option" where
  "scan_literal lit s = (if take (length lit) s = lit then Some (drop (length lit) s) else None)"

definition scan_token :: "string \<Rightarrow> string option" where
  "scan_token s = (case takeWhile (\<lambda>c. \<not> is_space c) (dropWhile is_space s) of [] \<Rightarrow> None | t \<Rightarrow> Some t)"

text \<open>The device id, the endpoint id (for endpoint metadata) and the name.\<close>

definition parseMetadataUri :: "string \<Rightarrow> (string \<times> cstr \<times> string) option" where
  "parseMetadataUri uri =
     (if \<not> strstr uri JSON_DATABASE_ENDPOINT_MARKER
      then do {
        s1 \<leftarrow> scan_literal ''/'' uri; (dev, s2) \<leftarrow> scan_segment s1;
        s3 \<leftarrow> scan_literal ''/m/'' s2; name \<leftarrow> scan_token s3; Some (dev, None, name) }
      else do {
        s1 \<leftarrow> scan_literal ''/'' uri; (dev, s2) \<leftarrow> scan_segment s1;
        s3 \<leftarrow> scan_literal ''/ep/'' s2; (ep, s4) \<leftarrow> scan_segment s3;
        s5 \<leftarrow> scan_literal ''/m/'' s4; name \<leftarrow> scan_token s5; Some (dev, Some ep, name) })"

definition isMetadataAccessible :: "string \<Rightarrow> 's json_db \<Rightarrow> bool" where
  "isMetadataAccessible uri db =
     (if strstr uri JSON_DATABASE_METADATA_MARKER
      then (case parseMetadataUri uri of
          None \<Rightarrow> False
        | Some (dev, ep, name) \<Rightarrow>
            if \<not> strstr uri JSON_DATABASE_ENDPOINT_MARKER then True
            else isEndpointEnabled (jsonDatabaseGetEndpointById dev ep db))
      else False)"

definition jsonDatabaseIsUriAccessible :: "cstr \<Rightarrow> 's json_db \<Rightarrow> bool option" where
  "jsonDatabaseIsUriAccessible uri db =
     (case uri of None \<Rightarrow> Some False | Some u \<Rightarrow>
      (case hashMapGet (resourcesByUri db) u of
         Some (DeviceLocator _) \<Rightarrow> Some True
       | Some (EndpointLocator uuid eu) \<Rightarrow> map_option (\<lambda>e. isEndpointEnabled (Some e)) (deref_endpoint db uuid eu)
       | Some (ResourceLocator uuid ep ru) \<Rightarrow> do {
           r \<leftarrow> deref_resource db uuid ep ru;
           if r_endpointId r \<noteq> None
           then (case ep of None \<Rightarrow> Some False
                 | Some eu \<Rightarrow> map_option (\<lambda>e. isEndpointEnabled (Some e)) (deref_endpoint db uuid eu))
           else Some True }
       | Some (MetadataLocator uuid ep mu) \<Rightarrow> do {
           m \<leftarrow> deref_metadata db uuid ep mu;
           if m_endpointId m \<noteq> None
           then (case ep of None \<Rightarrow> Some False
                 | Some eu \<Rightarrow> map_option (\<lambda>e. isEndpointEnabled (Some e)) (deref_endpoint db uuid eu))
           else Some True }
       | None \<Rightarrow> Some (isMetadataAccessible u db)))"

end
