(* ===== verification/Json_Database_Props.thy ===== *)
theory Json_Database_Props
  imports Json_Database
begin

text \<open>
  The theorems on the device database. The index is described by the entries a device contributes
  (\<open>device_entries\<close>); adding and removing entries are shown to append and to filter out exactly these.
  The invariant \<open>db_inv\<close> says that the index holds the entries of the cached devices and nothing else,
  from which every lookup by URI follows.
\<close>

section \<open>The entries of a device\<close>

definition resource_entries :: "string \<Rightarrow> cstr \<Rightarrow> icDeviceResource list \<Rightarrow> (string \<times> Locator) list" where
  "resource_entries uuid ep rs =
     List.map_filter (\<lambda>r. map_option (\<lambda>u. (u, ResourceLocator uuid ep u)) (r_uri r)) rs"

definition metadata_entries :: "string \<Rightarrow> cstr \<Rightarrow> icDeviceMetadata list \<Rightarrow> (string \<times> Locator) list" where
  "metadata_entries uuid ep ms =
     List.map_filter (\<lambda>m. map_option (\<lambda>u. (u, MetadataLocator uuid ep u)) (m_uri m)) ms"

definition endpoint_entries :: "string \<Rightarrow> icDeviceEndpoint \<Rightarrow> (string \<times> Locator) list" where
  "endpoint_entries uuid e = (case e_uri e of None \<Rightarrow> []
     | Some u \<Rightarrow> (u, EndpointLocator uuid u) # resource_entries uuid (Some u) (items (e_resources e))
         @ metadata_entries uuid (Some u) (items (e_metadata e)))"

definition device_entries :: "string \<Rightarrow> icDevice \<Rightarrow> (string \<times> Locator) list" where
  "device_entries uuid d = (case d_uri d of None \<Rightarrow> []
     | Some u \<Rightarrow> (u, DeviceLocator uuid) # concat (map (endpoint_entries uuid) (items (d_endpoints d)))
         @ resource_entries uuid None (items (d_resources d)) @ metadata_entries uuid None (items (d_metadata d)))"

text \<open>Whether an item passes the checks of the functions that add it.\<close>

definition metadata_addable :: "util_api \<Rightarrow> icDeviceMetadata \<Rightarrow> bool" where
  "metadata_addable u m \<longleftrightarrow> m_uri m \<noteq> None \<and>
     metadataUriIsValid u (m_uri m) (m_deviceUuid m) (m_endpointId m) (m_id m)"

definition resource_addable :: "util_api \<Rightarrow> icDeviceResource \<Rightarrow> bool" where
  "resource_addable u r \<longleftrightarrow> r_uri r \<noteq> None \<and>
     resourceUriIsValid u (r_uri r) (r_deviceUuid r) (r_endpointId r) (r_id r)"

definition endpoint_addable :: "util_api \<Rightarrow> icDeviceEndpoint \<Rightarrow> bool" where
  "endpoint_addable u e \<longleftrightarrow> e_uri e \<noteq> None \<and> endpointUriIsValid u (e_uri e) (e_deviceUuid e) (e_id e) \<and>
     list_all (resource_addable u) (items (e_resources e)) \<and> list_all (metadata_addable u) (items (e_metadata e))"

definition device_addable :: "util_api \<Rightarrow> icDevice \<Rightarrow> bool" where
  "device_addable u d \<longleftrightarrow> d_uri d \<noteq> None \<and> deviceUriIsValid u (d_uri d) (d_uuid d) \<and>
     list_all (endpoint_addable u) (items (d_endpoints d)) \<and>
     list_all (resource_addable u) (items (d_resources d)) \<and> list_all (metadata_addable u) (items (d_metadata d))"

text \<open>The only \<^verbatim>\<open>NULL\<close> URIs the removal does not tolerate are those of metadata.\<close>

definition metadata_uris_present :: "icDevice \<Rightarrow> bool" where
  "metadata_uris_present d \<longleftrightarrow> list_all (\<lambda>m. m_uri m \<noteq> None) (items (d_metadata d)) \<and>
     list_all (\<lambda>e. e_uri e \<noteq> None \<longrightarrow> list_all (\<lambda>m. m_uri m \<noteq> None) (items (e_metadata e))) (items (d_endpoints d))"

section \<open>Removing entries is filtering\<close>

abbreviation keys_of :: "('k \<times> 'v) list \<Rightarrow> 'k set" where "keys_of es \<equiv> fst ` set es"

definition without :: "'k set \<Rightarrow> ('k \<times> 'v) list \<Rightarrow> ('k \<times> 'v) list" where
  "without ks idx = filter (\<lambda>e. fst e \<notin> ks) idx"

lemma without_without [simp]: "without A (without B idx) = without (A \<union> B) idx"
  by (auto simp: without_def intro: filter_cong)

lemma without_empty [simp]: "without {} idx = idx"
  by (simp add: without_def)

lemma delete_without: "snd (hashMapDelete idx k) = without {k} idx"
  by (simp add: hashMapDelete_def without_def)

lemma without_disjoint: "keys_of idx \<inter> ks = {} \<Longrightarrow> without ks idx = idx"
  unfolding without_def by (rule filter_True) auto

lemma without_append [simp]: "without ks (a @ b) = without ks a @ without ks b"
  by (simp add: without_def)

lemma without_all: "keys_of a \<subseteq> ks \<Longrightarrow> without ks a = []"
  by (auto simp: without_def filter_empty_conv)

lemma set_without: "set (without ks idx) = {e \<in> set idx. fst e \<notin> ks}"
  by (auto simp: without_def)

lemma hmap_ok_without: "hmap_ok idx \<Longrightarrow> hmap_ok (without ks idx)"
  by (auto simp: hmap_ok_def without_def distinct_map_filter)

lemma hashMapGet_without: "hashMapGet (without ks m) k = (if k \<in> ks then None else hashMapGet m k)"
  by (induction m) (auto simp: without_def hashMapGet_def)

lemma remove_resources_without:
  "fold removeDeviceResourceURIEntry rs idx = without (keys_of (resource_entries uuid ep rs)) idx"
  by (induction rs arbitrary: idx)
    (auto simp: resource_entries_def removeDeviceResourceURIEntry_def delete_without map_filter_simps
      split: option.splits)

lemma remove_metadatas_without:
  "list_all (\<lambda>m. m_uri m \<noteq> None) ms \<Longrightarrow>
   remove_metadatas ms idx = Some (without (keys_of (metadata_entries uuid ep ms)) idx)"
  by (induction ms arbitrary: idx)
    (auto simp: metadata_entries_def removeMetadataURIEntry_def delete_without map_filter_simps)

lemma removeEndpointURIEntries_without:
  "(e_uri e \<noteq> None \<longrightarrow> list_all (\<lambda>m. m_uri m \<noteq> None) (items (e_metadata e))) \<Longrightarrow>
   removeEndpointURIEntries e idx = Some (without (keys_of (endpoint_entries uuid e)) idx)"
  by (cases "e_uri e")
    (auto simp: removeEndpointURIEntries_def endpoint_entries_def delete_without image_Un Un_ac
      remove_metadatas_without [where uuid = uuid and ep = "e_uri e"]
      remove_resources_without [where uuid = uuid and ep = "e_uri e"])

lemma remove_endpoints_without:
  "list_all (\<lambda>e. e_uri e \<noteq> None \<longrightarrow> list_all (\<lambda>m. m_uri m \<noteq> None) (items (e_metadata e))) es \<Longrightarrow>
   remove_endpoints es idx = Some (without (keys_of (concat (map (endpoint_entries uuid) es))) idx)"
  by (induction es arbitrary: idx)
    (auto simp: removeEndpointURIEntries_without [where uuid = uuid] image_Un Un_ac)

lemma removeDeviceURIEntries_without:
  assumes "metadata_uris_present d"
  shows "removeDeviceURIEntries d idx = Some (without (keys_of (device_entries uuid d)) idx)"
  using assms
  by (cases "d_uri d")
    (auto simp: removeDeviceURIEntries_def device_entries_def metadata_uris_present_def delete_without
      image_Un Un_ac remove_endpoints_without [where uuid = uuid]
      remove_metadatas_without [where uuid = uuid and ep = None]
      remove_resources_without [where uuid = uuid and ep = None])

section \<open>Adding entries is appending\<close>

text \<open>
  All entries are appended when the items pass their checks and the keys are new and distinct;
  otherwise the result is false and some of the entries may have been appended.
\<close>

definition add_spec :: "bool \<Rightarrow> (string \<times> Locator) list \<Rightarrow> uri_index \<Rightarrow> bool \<times> uri_index \<Rightarrow> bool" where
  "add_spec ok es idx res \<longleftrightarrow>
     (if ok \<and> distinct (map fst es) \<and> keys_of es \<inter> keys_of idx = {} then res = (True, idx @ es)
      else \<exists>pre. res = (False, idx @ pre) \<and> set pre \<subseteq> set es)"

lemma add_spec_put: "add_spec ok [(k, v)] idx (if ok then hashMapPut idx k v else (False, idx))"
  by (auto simp: add_spec_def hashMapPut_def hashMapContains_def map_of_eq_None_iff)

lemma put_false: "hashMapPut idx k v = (False, idx') \<Longrightarrow> idx' = idx"
  by (auto simp: hashMapPut_def split: if_splits)

lemma add_spec_nil: "add_spec True [] idx (True, idx)"
  by (simp add: add_spec_def)

lemma add_spec_none: "add_spec False es idx (False, idx)"
  by (auto simp: add_spec_def intro: exI [of _ "[]"])

lemma add_spec_seq:
  assumes "add_spec ok1 es1 idx r1" "\<And>i. add_spec ok2 es2 i (f i)"
  shows "add_spec (ok1 \<and> ok2) (es1 @ es2) idx (case r1 of (True, i) \<Rightarrow> f i | (False, i) \<Rightarrow> (False, i))"
proof (cases "ok1 \<and> distinct (map fst es1) \<and> keys_of es1 \<inter> keys_of idx = {}")
  case True
  then have r1: "r1 = (True, idx @ es1)" using assms(1) by (simp add: add_spec_def)
  show ?thesis
  proof (cases "ok2 \<and> distinct (map fst es2) \<and> keys_of es2 \<inter> keys_of (idx @ es1) = {}")
    case t2: True
    then have "f (idx @ es1) = (True, (idx @ es1) @ es2)" using assms(2) [of "idx @ es1"] by (simp add: add_spec_def)
    with True t2 r1 show ?thesis by (auto simp: add_spec_def)
  next
    case f2: False
    then obtain pre where "f (idx @ es1) = (False, (idx @ es1) @ pre)" "set pre \<subseteq> set es2"
      using assms(2) [of "idx @ es1", unfolded add_spec_def if_not_P [OF f2]] by blast
    moreover have "\<not> (ok2 \<and> distinct (map fst (es1 @ es2)) \<and> keys_of (es1 @ es2) \<inter> keys_of idx = {})"
      using f2 by auto
    ultimately show ?thesis using r1 by (auto simp: add_spec_def intro!: exI [of _ "es1 @ pre"])
  qed
next
  case False
  then obtain pre where r1: "r1 = (False, idx @ pre)" "set pre \<subseteq> set es1"
    using assms(1) [unfolded add_spec_def if_not_P [OF False]] by blast
  have "\<not> (ok1 \<and> distinct (map fst (es1 @ es2)) \<and> keys_of (es1 @ es2) \<inter> keys_of idx = {})"
    using False by auto
  with r1 show ?thesis by (auto simp: add_spec_def intro!: exI [of _ pre])
qed

lemma add_spec_each:
  assumes "\<And>x i. add_spec (ok x) (en x) i (add x i)"
  shows "add_spec (list_all ok xs) (concat (map en xs)) idx (add_each add xs idx)"
proof (induction xs arbitrary: idx)
  case (Cons x xs)
  have "add_each add (x # xs) idx = (case add x idx of (True, i) \<Rightarrow> add_each add xs i | (False, i) \<Rightarrow> (False, i))"
    by (simp split: prod.splits bool.splits)
  then show ?case using add_spec_seq [OF assms Cons.IH, of x idx] by simp
qed (simp add: add_spec_nil)

lemma resource_entries_concat: "resource_entries uuid ep rs = concat (map (\<lambda>r. resource_entries uuid ep [r]) rs)"
  by (induction rs) (auto simp: resource_entries_def map_filter_simps split: option.splits)

lemma metadata_entries_concat: "metadata_entries uuid ep ms = concat (map (\<lambda>m. metadata_entries uuid ep [m]) ms)"
  by (induction ms) (auto simp: metadata_entries_def map_filter_simps split: option.splits)

lemma add_resources_spec:
  "add_spec (list_all (resource_addable u) rs) (resource_entries uuid ep rs) idx
     (add_each (addDeviceResourceURIEntry u uuid ep) rs idx)"
proof (subst resource_entries_concat, rule add_spec_each)
  fix r i
  show "add_spec (resource_addable u r) (resource_entries uuid ep [r]) i (addDeviceResourceURIEntry u uuid ep r i)"
    using add_spec_put [of "resource_addable u r" "the (r_uri r)" _ i] add_spec_none [of "[]" i]
    by (cases "r_uri r")
      (auto simp: addDeviceResourceURIEntry_def resource_addable_def resource_entries_def map_filter_simps)
qed

lemma add_metadatas_spec:
  "add_spec (list_all (metadata_addable u) ms) (metadata_entries uuid ep ms) idx
     (add_each (addDeviceMetadataURIEntry u uuid ep) ms idx)"
proof (subst metadata_entries_concat, rule add_spec_each)
  fix m i
  show "add_spec (metadata_addable u m) (metadata_entries uuid ep [m]) i (addDeviceMetadataURIEntry u uuid ep m i)"
    using add_spec_put [of "metadata_addable u m" "the (m_uri m)" _ i] add_spec_none [of "[]" i]
    by (cases "m_uri m")
      (auto simp: addDeviceMetadataURIEntry_def metadata_addable_def metadata_entries_def map_filter_simps)
qed

text \<open>The shape in which the code nests the steps.\<close>

lemma case_put:
  "(case hashMapPut idx k v of (True, i) \<Rightarrow> f i | (False, _) \<Rightarrow> (False, idx)) =
   (case hashMapPut idx k v of (True, i) \<Rightarrow> f i | (False, i) \<Rightarrow> (False, i))"
  by (auto split: prod.splits bool.splits dest: put_false)

lemma add_spec_guarded:
  assumes "\<And>i. add_spec ok2 es2 i (f i)"
  shows "add_spec (ok \<and> ok2) ((k, v) # es2) idx
    (if ok then (case hashMapPut idx k v of (True, i) \<Rightarrow> f i | (False, _) \<Rightarrow> (False, idx)) else (False, idx))"
proof (cases ok)
  case True
  then show ?thesis
    using add_spec_seq [OF add_spec_put [of True k v idx], of ok2 es2 f] assms by (simp add: case_put)
next
  case False
  then show ?thesis using add_spec_none [of "(k, v) # es2" idx] by simp
qed

lemma addEndpointURIEntries_spec:
  "add_spec (endpoint_addable u e) (endpoint_entries uuid e) idx (addEndpointURIEntries u uuid e idx)"
proof (cases "e_uri e")
  case None
  then show ?thesis
    by (simp add: addEndpointURIEntries_def endpoint_entries_def endpoint_addable_def add_spec_none)
next
  case (Some uri)
  show ?thesis
    using add_spec_guarded [OF add_spec_seq [OF add_resources_spec add_metadatas_spec],
        of "endpointUriIsValid u (e_uri e) (e_deviceUuid e) (e_id e)" u "items (e_resources e)" u
        "items (e_metadata e)" uri "EndpointLocator uuid uri" uuid "Some uri" uuid "Some uri" idx]
    by (simp add: Some addEndpointURIEntries_def endpoint_entries_def endpoint_addable_def conj_assoc)
qed

lemma add_device_entries_spec:
  "add_spec (device_addable u d) (device_entries uuid d) idx (add_device_entries u uuid d idx)"
proof (cases "d_uri d")
  case None
  then show ?thesis
    by (simp add: add_device_entries_def device_entries_def device_addable_def add_spec_none)
next
  case (Some uri)
  have eps: "add_spec (list_all (endpoint_addable u) (items (d_endpoints d)))
      (concat (map (endpoint_entries uuid) (items (d_endpoints d)))) i
      (add_each (addEndpointURIEntries u uuid) (items (d_endpoints d)) i)" for i
    by (rule add_spec_each) (rule addEndpointURIEntries_spec)
  note rest = add_spec_seq [OF add_resources_spec [where u = u and uuid = uuid and ep = None and rs = "items (d_resources d)"]
      add_metadatas_spec [where u = u and uuid = uuid and ep = None and ms = "items (d_metadata d)"]]
  show ?thesis
    using add_spec_guarded [OF add_spec_seq [OF eps rest], of "deviceUriIsValid u (d_uri d) (d_uuid d)" uri
        "DeviceLocator uuid" idx]
    by (simp add: Some add_device_entries_def device_entries_def device_addable_def conj_assoc)
qed

section \<open>The invariant\<close>

definition device_inv :: "string \<Rightarrow> icDevice \<Rightarrow> bool" where
  "device_inv uuid d \<longleftrightarrow> d_uuid d = Some uuid \<and> d_uri d \<noteq> None \<and> metadata_uris_present d \<and>
     list_all (\<lambda>e. e_uri e \<noteq> None) (items (d_endpoints d)) \<and> distinct (map e_uri (items (d_endpoints d)))"

definition entries_of :: "(string, DeviceCacheEntry) hmap \<Rightarrow> (string \<times> Locator) set" where
  "entries_of devs = (\<Union>(uuid, ce) \<in> set devs. set (device_entries uuid (ce_device ce)))"

definition db_inv :: "'s json_db \<Rightarrow> bool" where
  "db_inv db \<longleftrightarrow> hmap_ok (devices db) \<and> hmap_ok (resourcesByUri db) \<and>
     (\<forall>(uuid, ce) \<in> set (devices db). device_inv uuid (ce_device ce)) \<and>
     set (resourcesByUri db) = entries_of (devices db)"

lemma hashMapGet_mem: "hmap_ok m \<Longrightarrow> hashMapGet m k = Some v \<longleftrightarrow> (k, v) \<in> set m"
  by (simp add: hashMapGet_def hmap_ok_def)

lemma hashMapGet_none: "hashMapGet m k = None \<longleftrightarrow> k \<notin> keys_of m"
  by (simp add: hashMapGet_def map_of_eq_None_iff)

lemma db_inv_index:
  assumes "db_inv db"
  shows "hashMapGet (resourcesByUri db) k = Some loc \<longleftrightarrow>
    (\<exists>uuid ce. hashMapGet (devices db) uuid = Some ce \<and> (k, loc) \<in> set (device_entries uuid (ce_device ce)))"
  using assms hashMapGet_mem [of "resourcesByUri db"] hashMapGet_mem [of "devices db"]
  by (auto simp: db_inv_def entries_of_def)

lemma db_inv_device: "db_inv db \<Longrightarrow> hashMapGet (devices db) uuid = Some ce \<Longrightarrow> device_inv uuid (ce_device ce)"
  using hashMapGet_mem [of "devices db" uuid ce] by (auto simp: db_inv_def)

lemma mem_resource_entries:
  "(k, loc) \<in> set (resource_entries uuid ep rs) \<longleftrightarrow> loc = ResourceLocator uuid ep k \<and> (\<exists>r \<in> set rs. r_uri r = Some k)"
  by (induction rs) (auto simp: resource_entries_def map_filter_simps split: option.splits)

lemma mem_metadata_entries:
  "(k, loc) \<in> set (metadata_entries uuid ep ms) \<longleftrightarrow> loc = MetadataLocator uuid ep k \<and> (\<exists>m \<in> set ms. m_uri m = Some k)"
  by (induction ms) (auto simp: metadata_entries_def map_filter_simps split: option.splits)

lemma mem_endpoint_entries:
  "(k, loc) \<in> set (endpoint_entries uuid e) \<longleftrightarrow> (\<exists>eu. e_uri e = Some eu \<and>
     (loc = EndpointLocator uuid eu \<and> k = eu \<or>
      loc = ResourceLocator uuid (Some eu) k \<and> (\<exists>r \<in> set (items (e_resources e)). r_uri r = Some k) \<or>
      loc = MetadataLocator uuid (Some eu) k \<and> (\<exists>m \<in> set (items (e_metadata e)). m_uri m = Some k)))"
  by (cases "e_uri e") (auto simp: endpoint_entries_def mem_resource_entries mem_metadata_entries)

lemma mem_device_entries:
  assumes "device_inv uuid d"
  shows "(k, loc) \<in> set (device_entries uuid d) \<longleftrightarrow>
     loc = DeviceLocator uuid \<and> d_uri d = Some k \<or>
     (\<exists>e \<in> set (items (d_endpoints d)). (k, loc) \<in> set (endpoint_entries uuid e)) \<or>
     loc = ResourceLocator uuid None k \<and> (\<exists>r \<in> set (items (d_resources d)). r_uri r = Some k) \<or>
     loc = MetadataLocator uuid None k \<and> (\<exists>m \<in> set (items (d_metadata d)). m_uri m = Some k)"
  using assms by (auto simp: device_entries_def device_inv_def mem_resource_entries mem_metadata_entries)

lemma find_endpoint_unique:
  assumes "device_inv uuid d" "e \<in> set (items (d_endpoints d))" "e_uri e = Some eu"
  shows "find_endpoint d eu = Some e"
proof -
  have "find (\<lambda>e. e_uri e = Some eu) es = Some e" if "distinct (map e_uri es)" "e \<in> set es" for es
    using that assms(3) by (induction es) (auto simp: rev_image_eqI)
  then show ?thesis using assms by (simp add: find_endpoint_def device_inv_def)
qed

lemma find_endpoint_mem: "find_endpoint d eu = Some e \<Longrightarrow> e \<in> set (items (d_endpoints d)) \<and> e_uri e = Some eu"
  by (auto simp: find_endpoint_def dest: find_Some_mem)

text \<open>The resources of a device with their owners, and following a resource entry.\<close>

lemma endpoint_by_uri:
  assumes "device_inv uuid d"
  shows "(\<exists>e \<in> set (items (d_endpoints d)). e_uri e = Some eu \<and> P e) \<longleftrightarrow>
    (\<exists>e. find_endpoint d eu = Some e \<and> P e)"
  using find_endpoint_unique [OF assms] find_endpoint_mem by blast

lemma resource_entry_owner:
  assumes "device_inv uuid d"
  shows "(k, ResourceLocator v ep ru) \<in> set (device_entries uuid d) \<longleftrightarrow>
    v = uuid \<and> ru = k \<and> (\<exists>rs. owner_resources d ep = Some rs \<and> (\<exists>r \<in> set rs. r_uri r = Some k))"
proof (cases ep)
  case None
  then show ?thesis by (auto simp: mem_device_entries [OF assms] mem_endpoint_entries owner_resources_def)
next
  case (Some eu)
  have "(k, ResourceLocator v ep ru) \<in> set (device_entries uuid d) \<longleftrightarrow> v = uuid \<and> ru = k \<and>
      (\<exists>e \<in> set (items (d_endpoints d)). e_uri e = Some eu \<and> (\<exists>r \<in> set (items (e_resources e)). r_uri r = Some k))"
    using Some by (auto simp: mem_device_entries [OF assms] mem_endpoint_entries)
  then show ?thesis using Some by (auto simp: endpoint_by_uri [OF assms] owner_resources_def)
qed

lemma metadata_entry_owner:
  assumes "device_inv uuid d"
  shows "(k, MetadataLocator v ep mu) \<in> set (device_entries uuid d) \<longleftrightarrow>
    v = uuid \<and> mu = k \<and> (\<exists>ms. owner_metadata d ep = Some ms \<and> (\<exists>m \<in> set ms. m_uri m = Some k))"
proof (cases ep)
  case None
  then show ?thesis by (auto simp: mem_device_entries [OF assms] mem_endpoint_entries owner_metadata_def)
next
  case (Some eu)
  have "(k, MetadataLocator v ep mu) \<in> set (device_entries uuid d) \<longleftrightarrow> v = uuid \<and> mu = k \<and>
      (\<exists>e \<in> set (items (d_endpoints d)). e_uri e = Some eu \<and> (\<exists>m \<in> set (items (e_metadata e)). m_uri m = Some k))"
    using Some by (auto simp: mem_device_entries [OF assms] mem_endpoint_entries)
  then show ?thesis using Some by (auto simp: endpoint_by_uri [OF assms] owner_metadata_def)
qed

lemma find_exists: "(\<exists>x \<in> set xs. p x) \<longleftrightarrow> (\<exists>y. find p xs = Some y)"
  using find_None_iff [of p xs] by (cases "find p xs") (auto dest: find_Some_mem)

section \<open>Adding and removing devices\<close>

text \<open>What makes a device enter the cache: its items pass the checks and their URIs differ.\<close>

definition loads :: "util_api \<Rightarrow> string \<Rightarrow> icDevice \<Rightarrow> bool" where
  "loads u uuid d \<longleftrightarrow> device_addable u d \<and> distinct (map fst (device_entries uuid d))"

lemma endpoint_uris_distinct:
  assumes "distinct (map fst (concat (map (endpoint_entries uuid) es)))" "list_all (\<lambda>e. e_uri e \<noteq> None) es"
  shows "distinct (map e_uri es)"
  using assms
proof (induction es)
  case (Cons e es)
  obtain eu where eu: "e_uri e = Some eu" using Cons.prems(2) by auto
  have key: "eu \<in> keys_of (endpoint_entries uuid x)" if "e_uri x = Some eu" for x
    using that by (simp add: endpoint_entries_def)
  have disj: "keys_of (endpoint_entries uuid e) \<inter> keys_of (concat (map (endpoint_entries uuid) es)) = {}"
    using Cons.prems(1) by auto
  have "e_uri x \<noteq> Some eu" if x: "x \<in> set es" for x
  proof
    assume "e_uri x = Some eu"
    then have "eu \<in> keys_of (concat (map (endpoint_entries uuid) es))" using key x by force
    then show False using disj key [OF eu] by blast
  qed
  moreover have "distinct (map e_uri es)" using Cons.IH Cons.prems by simp
  ultimately show ?case using eu by force
qed simp

lemma loads_device_inv:
  assumes "loads u uuid d" "d_uuid d = Some uuid"
  shows "device_inv uuid d"
proof -
  have "list_all (\<lambda>e. e_uri e \<noteq> None) (items (d_endpoints d))" "d_uri d \<noteq> None" "metadata_uris_present d"
    using assms(1)
    by (auto simp: loads_def device_addable_def endpoint_addable_def metadata_addable_def list_all_iff
        metadata_uris_present_def)
  moreover have "distinct (map e_uri (items (d_endpoints d)))"
    using assms(1) calculation(1,2)
    by (auto simp: loads_def device_entries_def intro!: endpoint_uris_distinct [where uuid = uuid])
  ultimately show ?thesis using assms(2) by (simp add: device_inv_def)
qed

lemma entries_of_append: "entries_of (devs @ [(uuid, ce)]) = entries_of devs \<union> set (device_entries uuid (ce_device ce))"
  by (auto simp: entries_of_def)

lemma addDeviceURIEntries_fresh:
  assumes "metadata_uris_present d" "keys_of (device_entries uuid d) \<inter> keys_of idx = {}"
  shows "addDeviceURIEntries u uuid d idx =
    Some (if loads u uuid d then (True, idx @ device_entries uuid d) else (False, idx))"
proof (cases "loads u uuid d")
  case True
  then show ?thesis
    using add_device_entries_spec [of u d uuid idx] assms(2)
    by (simp add: add_spec_def addDeviceURIEntries_def loads_def)
next
  case False
  then have "\<not> (device_addable u d \<and> distinct (map fst (device_entries uuid d)) \<and>
      keys_of (device_entries uuid d) \<inter> keys_of idx = {})" by (auto simp: loads_def)
  from add_device_entries_spec [of u d uuid idx, unfolded add_spec_def if_not_P [OF this]]
  obtain pre where "add_device_entries u uuid d idx = (False, idx @ pre)" "set pre \<subseteq> set (device_entries uuid d)"
    by blast
  moreover have "without (keys_of (device_entries uuid d)) idx = idx"
    by (rule without_disjoint) (use assms(2) in blast)
  moreover have "keys_of pre \<subseteq> keys_of (device_entries uuid d)" using calculation(2) by blast
  ultimately show ?thesis
    using False by (simp add: addDeviceURIEntries_def removeDeviceURIEntries_without [OF assms(1), where uuid = uuid] without_all)
qed

lemma loadDeviceIntoCache_fresh:
  assumes "db_inv db" "d_uuid d = Some uuid" "hashMapGet (devices db) uuid = None"
    and "metadata_uris_present d" "keys_of (device_entries uuid d) \<inter> keys_of (resourcesByUri db) = {}"
  shows "loadDeviceIntoCache E (Some d) db = Some (if loads (env_util E) uuid d
    then (True, db\<lparr>devices := devices db @ [(uuid, createCacheEntry d)],
                   resourcesByUri := resourcesByUri db @ device_entries uuid d\<rparr>)
    else (False, db))"
proof -
  have new: "uuid \<notin> keys_of (devices db)" using assms(3) by (simp add: hashMapGet_none)
  have put: "hashMapPut (devices db) uuid (createCacheEntry d) = (True, devices db @ [(uuid, createCacheEntry d)])"
    using assms(3) by (simp add: hashMapPut_def hmap_simps)
  have del: "without {uuid} (devices db @ [(uuid, createCacheEntry d)]) = devices db"
    using new by (simp add: without_disjoint without_all)
  have wo: "without (keys_of (device_entries uuid d)) (resourcesByUri db) = resourcesByUri db"
    by (rule without_disjoint) (use assms(5) in blast)
  show ?thesis
    using del
    by (simp add: loadDeviceIntoCache_def assms(2) put addDeviceURIEntries_fresh [OF assms(4,5)]
        destroyCacheEntry_def removeDeviceURIEntries_without [OF assms(4), where uuid = uuid] wo delete_without)
qed

lemma db_inv_append:
  assumes "db_inv db" "device_inv uuid d" "hashMapGet (devices db) uuid = None"
    and "keys_of es \<inter> keys_of (resourcesByUri db) = {}" "distinct (map fst es)"
    and "set es = set (device_entries uuid d)"
  shows "db_inv (db\<lparr>devices := devices db @ [(uuid, \<lparr>ce_device = d, ce_dirty = b\<rparr>)],
    resourcesByUri := resourcesByUri db @ es\<rparr>)"
  using assms hashMapGet_none [of "devices db" uuid]
  by (auto simp: db_inv_def hmap_ok_def entries_of_append)

text \<open>Taking a cache entry out, with everything it contributed to the index.\<close>

lemma entries_disjoint:
  assumes "db_inv db" "hashMapGet (devices db) u = Some a" "hashMapGet (devices db) v = Some b" "u \<noteq> v"
  shows "keys_of (device_entries u (ce_device a)) \<inter> keys_of (device_entries v (ce_device b)) = {}"
proof -
  have uuid: "locator_uuid l = u" if "(k, l) \<in> set (device_entries u (ce_device a))" for k l
    using that db_inv_device [OF assms(1,2)]
    by (auto simp: mem_device_entries mem_endpoint_entries)
  have vuid: "locator_uuid l = v" if "(k, l) \<in> set (device_entries v (ce_device b))" for k l
    using that db_inv_device [OF assms(1,3)]
    by (auto simp: mem_device_entries mem_endpoint_entries)
  have "l = l'" if "(k, l) \<in> set (device_entries u (ce_device a))" "(k, l') \<in> set (device_entries v (ce_device b))" for k l l'
    using that db_inv_index [OF assms(1), of k] assms(2,3) by (metis option.inject)
  then show ?thesis using uuid vuid assms(4) by fastforce
qed

lemma destroyCacheEntry_inv:
  assumes "db_inv db" "hashMapGet (devices db) uuid = Some ce"
  shows "\<exists>db'. destroyCacheEntry uuid (ce_device ce) db = Some db' \<and> db_inv db' \<and>
    devices db' = without {uuid} (devices db) \<and> store db' = store db \<and>
    resourcesByUri db' = without (keys_of (device_entries uuid (ce_device ce))) (resourcesByUri db)"
proof -
  have d: "device_inv uuid (ce_device ce)" by (rule db_inv_device [OF assms])
  then have mp: "metadata_uris_present (ce_device ce)" by (simp add: device_inv_def)
  let ?db = "db\<lparr>devices := without {uuid} (devices db),
    resourcesByUri := without (keys_of (device_entries uuid (ce_device ce))) (resourcesByUri db)\<rparr>"
  have r: "destroyCacheEntry uuid (ce_device ce) db = Some ?db"
    by (simp add: destroyCacheEntry_def removeDeviceURIEntries_without [OF mp, where uuid = uuid] delete_without)
  have "set (resourcesByUri ?db) = entries_of (devices ?db)"
  proof -
    have get: "hashMapGet (devices db) v = Some b \<longleftrightarrow> (v, b) \<in> set (devices db)" for v b
      using assms(1) by (simp add: db_inv_def hashMapGet_mem)
    have idx: "set (resourcesByUri db) = entries_of (devices db)" using assms(1) by (simp add: db_inv_def)
    have disj: "keys_of (device_entries uuid (ce_device ce)) \<inter> keys_of (device_entries v (ce_device b)) = {}"
      if "(v, b) \<in> set (devices db)" "v \<noteq> uuid" for v b
      using entries_disjoint [OF assms(1,2)] that get by metis
    have same: "b = ce" if "(uuid, b) \<in> set (devices db)" for b
      using that get [of uuid b] assms(2) by simp
    have "x \<in> set (resourcesByUri ?db) \<longleftrightarrow> x \<in> entries_of (devices ?db)" for x
    proof
      assume "x \<in> set (resourcesByUri ?db)"
      then obtain v b where x: "(v, b) \<in> set (devices db)" "x \<in> set (device_entries v (ce_device b))"
          "fst x \<notin> keys_of (device_entries uuid (ce_device ce))"
        using idx by (auto simp: set_without entries_of_def)
      then have "v \<noteq> uuid" using same by auto
      then show "x \<in> entries_of (devices ?db)" using x(1,2) by (force simp: set_without entries_of_def)
    next
      assume "x \<in> entries_of (devices ?db)"
      then obtain v b where x: "(v, b) \<in> set (devices db)" "v \<noteq> uuid" "x \<in> set (device_entries v (ce_device b))"
        by (auto simp: set_without entries_of_def)
      then have "fst x \<notin> keys_of (device_entries uuid (ce_device ce))" using disj [OF x(1,2)] by blast
      moreover have "x \<in> set (resourcesByUri db)" using x idx by (auto simp: entries_of_def)
      ultimately show "x \<in> set (resourcesByUri ?db)" by (simp add: set_without)
    qed
    then show ?thesis by blast
  qed
  moreover have "hmap_ok (devices ?db)" "hmap_ok (resourcesByUri ?db)"
    using assms(1) by (simp_all add: db_inv_def hmap_ok_without)
  moreover have "\<forall>(v, b) \<in> set (devices ?db). device_inv v (ce_device b)"
    using assms(1) by (auto simp: db_inv_def set_without)
  ultimately show ?thesis using r by (simp add: db_inv_def)
qed

lemma db_inv_frame [simp]:
  "db_inv (db\<lparr>store := st\<rparr>) = db_inv db" "db_inv (db\<lparr>systemProperties := sp\<rparr>) = db_inv db"
  "db_inv (db\<lparr>failureEvents := ev\<rparr>) = db_inv db"
  by (simp_all add: db_inv_def)

lemma saveDevice_frame:
  "snd (saveDevice E d db) = db\<lparr>store := store (snd (saveDevice E d db))\<rparr>"
  "store db = store db' \<Longrightarrow> fst (saveDevice E d db) = fst (saveDevice E d db')"
  by (simp_all add: saveDevice_def split: prod.splits)

lemma getDeviceByUri_entry:
  assumes "db_inv db" "hashMapGet (devices db) uuid = Some ce" "k \<in> keys_of (device_entries uuid (ce_device ce))"
  shows "jsonDatabaseGetDeviceByUri (Some k) db = Some (Some (ce_device ce))"
proof -
  obtain loc where loc: "(k, loc) \<in> set (device_entries uuid (ce_device ce))" using assms(3) by force
  then have "locator_uuid loc = uuid"
    using db_inv_device [OF assms(1,2)] by (auto simp: mem_device_entries mem_endpoint_entries)
  moreover have "hashMapGet (resourcesByUri db) k = Some loc"
    using loc assms(1,2) by (auto simp: db_inv_index)
  ultimately show ?thesis using assms(2) by (simp add: jsonDatabaseGetDeviceByUri_def deref_entry_def)
qed

section \<open>Properties: devices\<close>

lemma addDevice_atomic:
  assumes "db_inv db" "d_uuid d = Some uuid" "\<not> jsonDatabaseIsDeviceKnown (Some uuid) db"
    and "metadata_uris_present d" "keys_of (device_entries uuid d) \<inter> keys_of (resourcesByUri db) = {}"
  shows "\<exists>ok db'. jsonDatabaseAddDevice E (Some d) db = Some (ok, db') \<and> db_inv db' \<and>
    ok = (loads (env_util E) uuid d \<and> fst (saveDevice E d db)) \<and>
    (if ok then jsonDatabaseGetDevices db' = jsonDatabaseGetDevices db @ [d] \<and>
        (\<forall>k \<in> keys_of (device_entries uuid d). jsonDatabaseGetDeviceByUri (Some k) db' = Some (Some d))
     else devices db' = devices db \<and> resourcesByUri db' = resourcesByUri db)"
proof -
  have new: "hashMapGet (devices db) uuid = None"
    using assms(3) by (simp add: jsonDatabaseIsDeviceKnown_def hmap_simps)
  note load = loadDeviceIntoCache_fresh [OF assms(1,2) new assms(4,5), where E = E]
  show ?thesis
  proof (cases "loads (env_util E) uuid d")
    case False
    then show ?thesis
      using load assms(1,2) by (intro exI [of _ False] exI [of _ db]) (simp add: jsonDatabaseAddDevice_def)
  next
    case True
    let ?db1 = "db\<lparr>devices := devices db @ [(uuid, createCacheEntry d)],
        resourcesByUri := resourcesByUri db @ device_entries uuid d\<rparr>"
    have inv1: "db_inv ?db1"
      using db_inv_append [OF assms(1) loads_device_inv [OF True assms(2)] new assms(5)] True
      by (simp add: loads_def createCacheEntry_def)
    have get1: "hashMapGet (devices ?db1) uuid = Some (createCacheEntry d)"
      using new by (simp add: hashMapGet_def map_of_append_new del: map_of_append)
    obtain ok db2 where sv: "saveDevice E d ?db1 = (ok, db2)" by fastforce
    then have db2: "db2 = ?db1\<lparr>store := store db2\<rparr>" and ok: "ok = fst (saveDevice E d db)"
      using saveDevice_frame(1) [of E d ?db1] saveDevice_frame(2) [of ?db1 db E d] by simp_all
    have inv2: "db_inv db2" using inv1 by (subst db2) simp
    have get2: "hashMapGet (devices db2) uuid = Some (createCacheEntry d)" by (subst db2) (use get1 in simp)
    show ?thesis
    proof (cases ok)
      case t: True
      have add: "jsonDatabaseAddDevice E (Some d) db = Some (True, db2)"
        using load True assms(2) sv t by (simp add: jsonDatabaseAddDevice_def)
      have "jsonDatabaseGetDevices db2 = jsonDatabaseGetDevices db @ [d]"
        by (subst db2) (simp add: jsonDatabaseGetDevices_def map_filter_def createCacheEntry_def)
      then show ?thesis
        using add inv2 True ok t getDeviceByUri_entry [OF inv2 get2]
        by (intro exI [of _ True] exI [of _ db2]) (simp add: createCacheEntry_def)
    next
      case f: False
      obtain db3 where d3: "destroyCacheEntry uuid d db2 = Some db3" "db_inv db3"
          "devices db3 = without {uuid} (devices db2)"
          "resourcesByUri db3 = without (keys_of (device_entries uuid d)) (resourcesByUri db2)"
        using destroyCacheEntry_inv [OF inv2 get2] by (auto simp: createCacheEntry_def)
      have add: "jsonDatabaseAddDevice E (Some d) db = Some (False, db3)"
        using load True assms(2) sv f d3(1) by (simp add: jsonDatabaseAddDevice_def)
      have "devices db3 = devices db"
        using new unfolding d3(3) by (subst db2) (simp add: hashMapGet_none without_disjoint without_all)
      moreover have "resourcesByUri db3 = resourcesByUri db"
        using assms(5) unfolding d3(4)
        by (subst db2) (simp add: without_all without_disjoint Int_commute)
      ultimately show ?thesis using add d3(2) f ok by (intro exI [of _ False] exI [of _ db3]) simp
    qed
  qed
qed

text \<open>
  C15. Adding a new device is atomic: it succeeds exactly when every item of the device has a valid
  URI, the URIs differ, and storage accepts the device; then every URI of the device leads to it.
  Otherwise the cache and the index are what they were. The invariant holds in both cases.
\<close>

theorem jsonDatabaseAddDevice_atomic:
  assumes "db_inv db" "d_uuid d = Some uuid" "\<not> jsonDatabaseIsDeviceKnown (Some uuid) db"
    and "metadata_uris_present d" "keys_of (device_entries uuid d) \<inter> keys_of (resourcesByUri db) = {}"
  shows "\<exists>ok db'. jsonDatabaseAddDevice E (Some d) db = Some (ok, db') \<and> db_inv db' \<and>
    ok = (loads (env_util E) uuid d \<and> fst (saveDevice E d db)) \<and>
    (if ok then jsonDatabaseGetDevices db' = jsonDatabaseGetDevices db @ [d] \<and>
        (\<forall>k \<in> keys_of (device_entries uuid d). jsonDatabaseGetDeviceByUri (Some k) db' = Some (Some d))
     else devices db' = devices db \<and> resourcesByUri db' = resourcesByUri db)"
  by (rule addDevice_atomic [OF assms])

text \<open>An environment whose storage is a list of saved texts and never fails, and the empty database.\<close>

definition example_env :: "(json, (string \<times> string) list) db_env" where
  "example_env = \<lparr>env_json = example_json, env_util = example_util,
     storageSave = (\<lambda>ns k t st. (True, (k, t) # st)), storageDelete = (\<lambda>ns k st. (True, filter (\<lambda>e. fst e \<noteq> k) st)),
     storageLoadJSON = (\<lambda>_ _ _. None), storageGetKeys = (\<lambda>ns st. map fst st),
     storageParse = (\<lambda>ns k st. case map_of st k of None \<Rightarrow> [] | Some t \<Rightarrow> [t]), storageParseBad = (\<lambda>_ _ _. []),
     storageRestoreNamespace = (\<lambda>_ _ st. (STORAGE_RESTORE_ERROR_NONE, st))\<rparr>"

definition empty_db :: "'s \<Rightarrow> 's json_db" where
  "empty_db st = \<lparr>devices = [], resourcesByUri = [], systemProperties = [], store = st, failureEvents = []\<rparr>"

lemma db_inv_empty: "db_inv (empty_db st)"
  by (simp add: db_inv_def empty_db_def entries_of_def)

lemma example_device_loads:
  "loads example_util ''d1'' example_device" "metadata_uris_present example_device"
  "d_uuid example_device = Some ''d1''"
  by code_simp+

definition one_db :: "(string \<times> string) list json_db" where
  "one_db = (empty_db [])\<lparr>devices := [(''d1'', \<lparr>ce_device = example_device, ce_dirty = False\<rparr>)],
     resourcesByUri := device_entries ''d1'' example_device\<rparr>"

lemma db_inv_one_db: "db_inv one_db"
  using db_inv_append [OF db_inv_empty loads_device_inv [OF example_device_loads(1,3)], of _ "device_entries ''d1'' example_device"]
    example_device_loads(1)
  by (simp add: one_db_def empty_db_def loads_def)

theorem jsonDatabaseAddDevice_atomic_witness:
  "\<exists>ok db'. jsonDatabaseAddDevice example_env (Some example_device) (empty_db []) = Some (ok, db') \<and> db_inv db' \<and> ok \<and>
    jsonDatabaseGetDeviceByUri (Some ''/d1/ep/1/r/pin'') db' = Some (Some example_device)"
proof -
  let ?db = "empty_db [] :: (string \<times> string) list json_db"
  have new: "\<not> jsonDatabaseIsDeviceKnown (Some ''d1'') ?db"
    "keys_of (device_entries ''d1'' example_device) \<inter> keys_of (resourcesByUri ?db) = {}"
    by (simp_all add: jsonDatabaseIsDeviceKnown_def empty_db_def hashMapContains_def)
  obtain ok db' where r: "jsonDatabaseAddDevice example_env (Some example_device) ?db = Some (ok, db')"
      "db_inv db'" "ok = (loads (env_util example_env) ''d1'' example_device \<and>
         fst (saveDevice example_env example_device ?db))"
      "if ok then jsonDatabaseGetDevices db' = jsonDatabaseGetDevices ?db @ [example_device] \<and>
         (\<forall>k \<in> keys_of (device_entries ''d1'' example_device).
            jsonDatabaseGetDeviceByUri (Some k) db' = Some (Some example_device))
       else devices db' = devices ?db \<and> resourcesByUri db' = resourcesByUri ?db"
    using jsonDatabaseAddDevice_atomic [OF db_inv_empty [of "[]"] example_device_loads(3) new(1) example_device_loads(2) new(2),
        of example_env] by blast
  have "ok" using r(3) example_device_loads(1) by (simp add: example_env_def saveDevice_def)
  moreover have "''/d1/ep/1/r/pin'' \<in> keys_of (device_entries ''d1'' example_device)" by code_simp
  ultimately show ?thesis using r(1,2,4) by (intro exI [of _ True] exI [of _ db']) auto
qed

text \<open>
  C29. Removing a known device: when storage deletes it, the device is no longer known, none of its
  URIs leads anywhere, and every other URI leads where it did; when storage refuses, cache and index
  stay. The invariant holds in both cases.
\<close>

theorem jsonDatabaseRemoveDeviceById_exact:
  assumes "db_inv db" "hashMapGet (devices db) uuid = Some ce"
  shows "\<exists>ok db'. jsonDatabaseRemoveDeviceById E (Some uuid) db = Some (ok, db') \<and> db_inv db' \<and>
    ok = fst (storageDelete E STORAGE_NAMESPACE uuid (store db)) \<and>
    (if ok then \<not> jsonDatabaseIsDeviceKnown (Some uuid) db' \<and>
       (\<forall>k. jsonDatabaseGetDeviceByUri (Some k) db' =
          (if k \<in> keys_of (device_entries uuid (ce_device ce)) then Some None
           else jsonDatabaseGetDeviceByUri (Some k) db))
     else devices db' = devices db \<and> resourcesByUri db' = resourcesByUri db)"
proof -
  obtain ok st where del: "storageDelete E STORAGE_NAMESPACE uuid (store db) = (ok, st)" by fastforce
  show ?thesis
  proof (cases ok)
    case False
    then show ?thesis
      using assms del by (intro exI [of _ False] exI [of _ "db\<lparr>store := st\<rparr>"])
        (simp add: jsonDatabaseRemoveDeviceById_def)
  next
    case True
    from destroyCacheEntry_inv [of "db\<lparr>store := st\<rparr>" uuid ce] assms obtain db' where
      d: "destroyCacheEntry uuid (ce_device ce) (db\<lparr>store := st\<rparr>) = Some db'" "db_inv db'"
        "devices db' = without {uuid} (devices db)"
        "resourcesByUri db' = without (keys_of (device_entries uuid (ce_device ce))) (resourcesByUri db)"
      by auto
    have gone: "hashMapGet (devices db') v = (if v = uuid then None else hashMapGet (devices db) v)" for v
      unfolding d(3) delete_without [symmetric] by (simp add: hmap_simps)
    have idx: "hashMapGet (resourcesByUri db') k = (if k \<in> keys_of (device_entries uuid (ce_device ce)) then None
        else hashMapGet (resourcesByUri db) k)" for k
      unfolding d(4) by (rule hashMapGet_without)
    have "locator_uuid loc \<noteq> uuid"
      if k: "k \<notin> keys_of (device_entries uuid (ce_device ce))" "hashMapGet (resourcesByUri db) k = Some loc" for k loc
    proof -
      obtain v b where v: "hashMapGet (devices db) v = Some b" "(k, loc) \<in> set (device_entries v (ce_device b))"
        using db_inv_index [OF assms(1)] k(2) by blast
      then have "locator_uuid loc = v"
        using db_inv_device [OF assms(1)] by (auto simp: mem_device_entries mem_endpoint_entries)
      moreover have "v \<noteq> uuid" using v k(1) assms(2) by force
      ultimately show ?thesis by simp
    qed
    then have "jsonDatabaseGetDeviceByUri (Some k) db' =
          (if k \<in> keys_of (device_entries uuid (ce_device ce)) then Some None
           else jsonDatabaseGetDeviceByUri (Some k) db)" for k
      by (auto simp: jsonDatabaseGetDeviceByUri_def idx deref_entry_def gone split: option.splits)
    then show ?thesis
      using True assms del d gone
      by (intro exI [of _ True] exI [of _ db'])
        (simp add: jsonDatabaseRemoveDeviceById_def jsonDatabaseIsDeviceKnown_def hmap_simps)
  qed
qed

theorem jsonDatabaseRemoveDeviceById_exact_witness:
  "\<exists>ok db'. jsonDatabaseRemoveDeviceById example_env (Some ''d1'') one_db = Some (ok, db') \<and> ok \<and>
    \<not> jsonDatabaseIsDeviceKnown (Some ''d1'') db'"
  using jsonDatabaseRemoveDeviceById_exact [OF db_inv_one_db, of "''d1''" "\<lparr>ce_device = example_device, ce_dirty = False\<rparr>" example_env]
  by (auto simp: one_db_def empty_db_def hashMapGet_def example_env_def)

section \<open>Lookups and updates in place\<close>

lemma resource_locator:
  assumes "db_inv db"
  shows "hashMapGet (resourcesByUri db) u = Some (ResourceLocator uuid ep ru) \<longleftrightarrow> ru = u \<and>
    (\<exists>ce rs. hashMapGet (devices db) uuid = Some ce \<and> owner_resources (ce_device ce) ep = Some rs \<and>
       (\<exists>r \<in> set rs. r_uri r = Some u))"
  using resource_entry_owner [OF db_inv_device [OF assms]]
  by (auto simp: db_inv_index [OF assms] cong: conj_cong)

lemma metadata_locator:
  assumes "db_inv db"
  shows "hashMapGet (resourcesByUri db) u = Some (MetadataLocator uuid ep mu) \<longleftrightarrow> mu = u \<and>
    (\<exists>ce ms. hashMapGet (devices db) uuid = Some ce \<and> owner_metadata (ce_device ce) ep = Some ms \<and>
       (\<exists>m \<in> set ms. m_uri m = Some u))"
  using metadata_entry_owner [OF db_inv_device [OF assms]]
  by (auto simp: db_inv_index [OF assms] cong: conj_cong)

lemma find_update_first:
  "(\<And>x. p x \<Longrightarrow> p (f x)) \<Longrightarrow> find p (update_first p f xs) = map_option f (find p xs)"
  by (induction xs) auto

lemma find_update_first_other:
  "(\<And>x. p x \<Longrightarrow> \<not> q x \<and> \<not> q (f x)) \<Longrightarrow> find q (update_first p f xs) = find q xs"
  by (induction xs) auto

lemma map_update_first: "(\<And>x. p x \<Longrightarrow> g (f x) = g x) \<Longrightarrow> map g (update_first p f xs) = map g xs"
  by (induction xs) auto

lemma list_all_update_first:
  "(\<And>x. p x \<Longrightarrow> q x \<Longrightarrow> q (f x)) \<Longrightarrow> list_all q xs \<Longrightarrow> list_all q (update_first p f xs)"
  by (induction xs) auto

lemma items_map_option: "g [] = [] \<Longrightarrow> items (map_option g xs) = g (items xs)"
  by (cases xs) auto

lemma resource_entries_uris: "map r_uri rs = map r_uri ss \<Longrightarrow> resource_entries uuid ep rs = resource_entries uuid ep ss"
proof (induction rs arbitrary: ss)
  case (Cons r rs)
  then obtain s ss' where "ss = s # ss'" "r_uri r = r_uri s" "map r_uri rs = map r_uri ss'" by (cases ss) auto
  then show ?case using Cons.IH [of ss'] by (cases "r_uri s") (simp_all add: resource_entries_def map_filter_simps)
qed simp

text \<open>An update of the resources of one owner that keeps their URIs.\<close>

lemma upd_endpoint_find:
  assumes "\<And>e. e_uri (f e) = e_uri e"
  shows "find_endpoint (upd_endpoint eu f d) v =
    (if v = eu then map_option f (find_endpoint d v) else find_endpoint d v)"
proof -
  let ?p = "\<lambda>e. e_uri e = Some eu"
  have "find ?p (update_first ?p f es) = map_option f (find ?p es)" for es
    by (rule find_update_first) (simp add: assms)
  moreover have "find (\<lambda>e. e_uri e = Some v) (update_first ?p f es) = find (\<lambda>e. e_uri e = Some v) es" if "v \<noteq> eu" for es
    by (rule find_update_first_other) (use that in \<open>simp add: assms\<close>)
  ultimately show ?thesis by (auto simp: find_endpoint_def upd_endpoint_def items_map_option)
qed

lemma device_frame [frame_simps]:
  "find_endpoint (d\<lparr>d_resources := rs\<rparr>) v = find_endpoint d v"
  "find_endpoint (d\<lparr>d_metadata := ms\<rparr>) v = find_endpoint d v"
  "d_resources (upd_endpoint eu f d) = d_resources d" "d_metadata (upd_endpoint eu f d) = d_metadata d"
  by (simp_all add: find_endpoint_def upd_endpoint_def)

lemma upd_endpoint_inv:
  assumes "\<And>e. e_uri (f e) = e_uri e" "\<And>e. e_metadata (f e) = e_metadata e" "device_inv uuid d"
    and "\<And>e. endpoint_entries uuid (f e) = endpoint_entries uuid e"
  shows "device_inv uuid (upd_endpoint eu f d) \<and> device_entries uuid (upd_endpoint eu f d) = device_entries uuid d"
  using assms
  by (cases "d_uri d") (simp_all add: device_inv_def upd_endpoint_def device_entries_def items_map_option
      map_update_first metadata_uris_present_def list_all_update_first)

lemma upd_resources_inv:
  assumes "\<And>rs. map r_uri (g rs) = map r_uri rs" "device_inv uuid d"
  shows "device_inv uuid (upd_resources ep g d) \<and> device_entries uuid (upd_resources ep g d) = device_entries uuid d"
proof -
  have g0: "g [] = []" using assms(1) [of "[]"] by simp
  have same: "resource_entries uuid o' (g rs) = resource_entries uuid o' rs" for o' rs
    by (rule resource_entries_uris) (rule assms(1))
  show ?thesis
  proof (cases ep)
    case None
    then show ?thesis using assms(2)
      by (cases "d_uri d") (simp_all add: upd_resources_def device_inv_def device_entries_def
          items_map_option [of g, OF g0] same metadata_uris_present_def)
  next
    case (Some eu)
    have en: "endpoint_entries uuid (e\<lparr>e_resources := map_option g (e_resources e)\<rparr>) = endpoint_entries uuid e" for e
      by (cases "e_uri e") (simp_all add: endpoint_entries_def items_map_option [of g, OF g0] same)
    show ?thesis
      using upd_endpoint_inv [of "\<lambda>e. e\<lparr>e_resources := map_option g (e_resources e)\<rparr>", OF _ _ assms(2) en]
      by (simp add: upd_resources_def Some)
  qed
qed

lemma owner_upd_resources:
  assumes "g [] = []"
  shows "owner_resources (upd_resources ep g d) ep' =
    (if ep' = ep then map_option g (owner_resources d ep) else owner_resources d ep')"
  by (cases ep; cases ep')
    (auto simp: owner_resources_def upd_resources_def items_map_option [of g, OF assms] upd_endpoint_find
      option.map_comp comp_def device_frame)

text \<open>Updating one cache entry, and flushing it.\<close>

lemma get_upd_entry [hmap_simps]:
  "hashMapGet (devices (upd_entry uuid f db)) v =
     (if v = uuid then map_option f (hashMapGet (devices db) uuid) else hashMapGet (devices db) v)"
  by (simp add: upd_entry_def hashMapGet_hashMapUpdate)

lemma upd_entry_frame [simp]:
  "resourcesByUri (upd_entry uuid f db) = resourcesByUri db" "store (upd_entry uuid f db) = store db"
  "systemProperties (upd_entry uuid f db) = systemProperties db"
  by (simp_all add: upd_entry_def)

lemma entries_of_get:
  "hmap_ok devs \<Longrightarrow> x \<in> entries_of devs \<longleftrightarrow>
    (\<exists>v b. hashMapGet devs v = Some b \<and> x \<in> set (device_entries v (ce_device b)))"
  by (auto simp: entries_of_def hashMapGet_mem)

lemma db_inv_upd_entry [keeps_inv]:
  assumes "db_inv db"
    and "\<And>ce. hashMapGet (devices db) uuid = Some ce \<Longrightarrow> device_inv uuid (ce_device (f ce)) \<and>
      set (device_entries uuid (ce_device (f ce))) = set (device_entries uuid (ce_device ce))"
  shows "db_inv (upd_entry uuid f db)"
proof -
  let ?devs = "devices (upd_entry uuid f db)"
  have ok: "hmap_ok (devices db)" "hmap_ok ?devs"
    using assms(1) by (simp_all add: db_inv_def upd_entry_def)
  have "entries_of ?devs = entries_of (devices db)"
  proof (rule set_eqI)
    fix x
    have "(\<exists>b. hashMapGet ?devs v = Some b \<and> x \<in> set (device_entries v (ce_device b))) \<longleftrightarrow>
        (\<exists>b. hashMapGet (devices db) v = Some b \<and> x \<in> set (device_entries v (ce_device b)))" for v
      using assms(2) by (auto simp: get_upd_entry)
    then show "x \<in> entries_of ?devs \<longleftrightarrow> x \<in> entries_of (devices db)" by (simp add: entries_of_get ok)
  qed
  moreover have "device_inv v (ce_device b)" if "(v, b) \<in> set ?devs" for v b
  proof -
    have "hashMapGet ?devs v = Some b" using that by (simp add: hashMapGet_mem [OF ok(2)])
    then show ?thesis using assms(2) db_inv_device [OF assms(1)] by (auto simp: get_upd_entry split: if_splits)
  qed
  ultimately show ?thesis using assms(1) ok by (auto simp: db_inv_def)
qed

lemma flush_entry_spec:
  assumes "hashMapGet (devices db) uuid = Some ce"
  shows "\<exists>ok db'. flush_entry E uuid db = Some (ok, db') \<and> ok = fst (saveDevice E (ce_device ce) db) \<and>
    (\<forall>v. hashMapGet (devices db') v =
       (if v = uuid then Some (ce\<lparr>ce_dirty := \<not> ok\<rparr>) else hashMapGet (devices db) v)) \<and>
    resourcesByUri db' = resourcesByUri db \<and> (db_inv db \<longrightarrow> db_inv db') \<and>
    store db' = store (snd (saveDevice E (ce_device ce) db))"
proof -
  let ?db1 = "upd_entry uuid (\<lambda>ce. ce\<lparr>ce_dirty := True\<rparr>) db"
  obtain ok db2 where sv: "saveDevice E (ce_device ce) ?db1 = (ok, db2)" by fastforce
  then have db2: "db2 = ?db1\<lparr>store := store db2\<rparr>" and ok: "ok = fst (saveDevice E (ce_device ce) db)"
    using saveDevice_frame(1) [of E "ce_device ce" ?db1] saveDevice_frame(2) [of ?db1 db E "ce_device ce"]
    by simp_all
  let ?db3 = "if ok then upd_entry uuid (\<lambda>ce. ce\<lparr>ce_dirty := False\<rparr>) db2 else db2"
  have "flush_entry E uuid db = Some (ok, ?db3)"
    using assms sv by (simp add: flush_entry_def get_upd_entry split: bool.splits)
  moreover have "hashMapGet (devices ?db3) v =
      (if v = uuid then Some (ce\<lparr>ce_dirty := \<not> ok\<rparr>) else hashMapGet (devices db) v)" for v
    using assms by (subst (1 2) db2) (simp add: get_upd_entry)
  moreover have "resourcesByUri ?db3 = resourcesByUri db" by (subst (1 2) db2) simp
  moreover have "store ?db3 = store (snd (saveDevice E (ce_device ce) db))"
    using sv by (auto simp: saveDevice_def upd_entry_def split: prod.splits)
  moreover have "db_inv ?db3" if inv: "db_inv db"
  proof -
    have "db_inv ?db1"
      by (rule db_inv_upd_entry [OF inv]) (use db_inv_device [OF inv] in simp)
    then have i2: "db_inv db2" by (subst db2) simp
    moreover have "db_inv (upd_entry uuid (\<lambda>ce. ce\<lparr>ce_dirty := False\<rparr>) db2)"
      by (rule db_inv_upd_entry [OF i2]) (use db_inv_device [OF i2] in simp)
    ultimately show ?thesis by simp
  qed
  ultimately show ?thesis using ok by blast
qed

text \<open>What resource lookups see after an update of one resource in place.\<close>

lemma deref_resource_alt:
  "deref_resource db x e v = do { d \<leftarrow> map_option ce_device (hashMapGet (devices db) x);
     rs \<leftarrow> owner_resources d e; find (\<lambda>r. r_uri r = Some v) rs }"
  by (cases "hashMapGet (devices db) x") (simp_all add: deref_resource_def)

lemma deref_after_update:
  assumes "hashMapGet (devices db) uuid = Some ce" "\<And>r. r_uri (f r) = r_uri r"
    and "\<And>v. map_option ce_device (hashMapGet (devices db') v) = (if v = uuid
      then Some (upd_resources ep (update_first (\<lambda>r. r_uri r = Some u) f) (ce_device ce))
      else map_option ce_device (hashMapGet (devices db) v))"
  shows "deref_resource db' x e v = (if x = uuid \<and> e = ep \<and> v = u then map_option f (deref_resource db x e v)
    else deref_resource db x e v)"
proof -
  let ?g = "update_first (\<lambda>r. r_uri r = Some u) f"
  have "find (\<lambda>r. r_uri r = Some v) (?g rs) = (if v = u then map_option f (find (\<lambda>r. r_uri r = Some v) rs)
      else find (\<lambda>r. r_uri r = Some v) rs)" for rs
    using find_update_first [of "\<lambda>r. r_uri r = Some u" f rs]
      find_update_first_other [of "\<lambda>r. r_uri r = Some u" "\<lambda>r. r_uri r = Some v" f rs] assms(2) by auto
  moreover have "owner_resources (upd_resources ep ?g (ce_device ce)) e =
      (if e = ep then map_option ?g (owner_resources (ce_device ce) ep) else owner_resources (ce_device ce) e)"
    by (rule owner_upd_resources) simp
  ultimately show ?thesis
    using assms(1) by (cases "x = uuid"; cases "owner_resources (ce_device ce) e")
      (auto simp: deref_resource_alt assms(3))
qed

lemma getResource_after_update:
  assumes "db_inv db" "hashMapGet (resourcesByUri db) u = Some (ResourceLocator uuid ep u)"
    and "hashMapGet (devices db) uuid = Some ce" "\<And>r. r_uri (f r) = r_uri r"
    and "\<And>v. map_option ce_device (hashMapGet (devices db') v) = (if v = uuid
      then Some (upd_resources ep (update_first (\<lambda>r. r_uri r = Some u) f) (ce_device ce))
      else map_option ce_device (hashMapGet (devices db) v))"
    and "resourcesByUri db' = resourcesByUri db"
  shows "jsonDatabaseGetResourceByUri (Some v) db' = (if v = u
    then map_option (map_option f) (jsonDatabaseGetResourceByUri (Some v) db)
    else jsonDatabaseGetResourceByUri (Some v) db)"
proof (cases "\<exists>x e ru. hashMapGet (resourcesByUri db) v = Some (ResourceLocator x e ru)")
  case True
  then obtain x e ru where v: "hashMapGet (resourcesByUri db) v = Some (ResourceLocator x e ru)" by blast
  then have "ru = v" using resource_locator [OF assms(1)] by blast
  with v assms(2) show ?thesis
    by (auto simp: jsonDatabaseGetResourceByUri_def assms(6) deref_after_update [OF assms(3-5)] option.map_comp comp_def)
next
  case False
  then show ?thesis using assms(2)
    by (auto simp: jsonDatabaseGetResourceByUri_def assms(6) split: option.splits Locator.splits)
qed

section \<open>Properties: resources\<close>

definition cached_resources :: "'s json_db \<Rightarrow> icDeviceResource set" where
  "cached_resources db = {r. \<exists>uuid ce ep rs. hashMapGet (devices db) uuid = Some ce \<and>
     owner_resources (ce_device ce) ep = Some rs \<and> r \<in> set rs}"

lemma getResource_locator:
  assumes "db_inv db" "hashMapGet (resourcesByUri db) u = Some (ResourceLocator uuid ep ru)"
  shows "ru = u \<and> (\<exists>ce rs r. hashMapGet (devices db) uuid = Some ce \<and> owner_resources (ce_device ce) ep = Some rs \<and>
    find (\<lambda>r. r_uri r = Some u) rs = Some r \<and> deref_resource db uuid ep u = Some r)"
  using assms by (auto simp: resource_locator find_exists deref_resource_def)

lemma getResource_exact:
  assumes "db_inv db"
  shows "\<exists>res. jsonDatabaseGetResourceByUri (Some u) db = Some res \<and>
    (res = None \<longleftrightarrow> \<not> (\<exists>r \<in> cached_resources db. r_uri r = Some u)) \<and>
    (\<forall>r. res = Some r \<longrightarrow> r \<in> cached_resources db \<and> r_uri r = Some u)"
proof (cases "\<exists>uuid ep ru. hashMapGet (resourcesByUri db) u = Some (ResourceLocator uuid ep ru)")
  case True
  then obtain uuid ep ru where l: "hashMapGet (resourcesByUri db) u = Some (ResourceLocator uuid ep ru)" by blast
  from getResource_locator [OF assms l] obtain ce rs r where r: "ru = u" "hashMapGet (devices db) uuid = Some ce"
      "owner_resources (ce_device ce) ep = Some rs" "find (\<lambda>r. r_uri r = Some u) rs = Some r"
      "deref_resource db uuid ep u = Some r" by blast
  have "r \<in> cached_resources db \<and> r_uri r = Some u"
    using r(2,3) find_Some_mem [OF r(4)] by (auto simp: cached_resources_def)
  then show ?thesis using l r by (auto simp: jsonDatabaseGetResourceByUri_def)
next
  case False
  then have "jsonDatabaseGetResourceByUri (Some u) db = Some None"
    by (auto simp: jsonDatabaseGetResourceByUri_def split: option.splits Locator.splits)
  moreover have "\<not> (\<exists>r \<in> cached_resources db. r_uri r = Some u)"
    using False by (auto simp: cached_resources_def resource_locator [OF assms])
  ultimately show ?thesis by simp
qed

text \<open>
  Looking up a resource by URI never follows a dangling pointer, and finds a resource exactly when
  some cached device or endpoint has one with this URI.
\<close>

theorem jsonDatabaseGetResourceByUri_exact:
  assumes "db_inv db"
  shows "\<exists>res. jsonDatabaseGetResourceByUri (Some u) db = Some res \<and>
    (res = None \<longleftrightarrow> \<not> (\<exists>r \<in> cached_resources db. r_uri r = Some u)) \<and>
    (\<forall>r. res = Some r \<longrightarrow> r \<in> cached_resources db \<and> r_uri r = Some u)"
  by (rule getResource_exact [OF assms])

theorem jsonDatabaseGetResourceByUri_exact_witness:
  "\<exists>res. jsonDatabaseGetResourceByUri (Some ''/d1/r/model'') one_db = Some res \<and>
    (res = None \<longleftrightarrow> \<not> (\<exists>r \<in> cached_resources one_db. r_uri r = Some ''/d1/r/model''))"
  using jsonDatabaseGetResourceByUri_exact [OF db_inv_one_db, of "''/d1/r/model''"] by blast

lemma saveResource_effect:
  assumes "db_inv db" "r_uri src = Some u" "jsonDatabaseGetResourceByUri (Some u) db = Some (Some r)"
  shows "\<exists>ok db' uuid ce. jsonDatabaseSaveResource E (Some src) db = Some (ok, db') \<and> db_inv db' \<and>
    jsonDatabaseGetResourceByUri (Some u) db' = Some (Some (r\<lparr>r_value := r_value src,
      r_cachingPolicy := r_cachingPolicy src, r_mode := r_mode src,
      r_dateOfLastSyncMillis := r_dateOfLastSyncMillis src\<rparr>)) \<and>
    (\<forall>v. v \<noteq> u \<longrightarrow> jsonDatabaseGetResourceByUri (Some v) db' = jsonDatabaseGetResourceByUri (Some v) db) \<and>
    hashMapGet (devices db') uuid = Some ce \<and> (\<exists>d. jsonDatabaseGetDeviceByUri (Some u) db = Some (Some d) \<and> d_uuid d = Some uuid) \<and>
    (if mode_has (r_mode src) RESOURCE_MODE_LAZY_SAVE_NEXT then ok \<and> store db' = store db \<and> ce_dirty ce
     else ce_dirty ce = (\<not> ok) \<and> (ok, store db') = storageSave E STORAGE_NAMESPACE uuid
       (cJSON_Print (env_json E) (deviceToJSON (env_json E) (env_util E) db_context (ce_device ce))) (store db))"
proof -
  obtain uuid ep where l: "hashMapGet (resourcesByUri db) u = Some (ResourceLocator uuid ep u)"
    using assms(3) resource_locator [OF assms(1)]
    by (auto simp: jsonDatabaseGetResourceByUri_def split: option.splits Locator.splits)
  from getResource_locator [OF assms(1) l] obtain ce rs where ce: "hashMapGet (devices db) uuid = Some ce"
      "owner_resources (ce_device ce) ep = Some rs" "find (\<lambda>r. r_uri r = Some u) rs = Some r"
      "deref_resource db uuid ep u = Some r"
    using assms(3) l by (auto simp: jsonDatabaseGetResourceByUri_def)
  let ?f = "\<lambda>r. r\<lparr>r_value := r_value src, r_cachingPolicy := r_cachingPolicy src, r_mode := r_mode src,
      r_dateOfLastSyncMillis := r_dateOfLastSyncMillis src\<rparr>"
  let ?g = "update_first (\<lambda>r. r_uri r = Some u) ?f"
  let ?db1 = "upd_entry uuid (upd_device (upd_resources ep ?g)) db"
  have g: "map r_uri (?g xs) = map r_uri xs" for xs by (rule map_update_first) simp
  have inv1: "db_inv ?db1"
    using upd_resources_inv [of ?g, OF g db_inv_device [OF assms(1)]]
    by (intro db_inv_upd_entry [OF assms(1)]) (simp add: upd_device_def)
  have ce1: "hashMapGet (devices ?db1) uuid = Some (upd_device (upd_resources ep ?g) ce)"
    using ce(1) by (simp add: get_upd_entry)
  have look: "jsonDatabaseGetResourceByUri (Some v) db' =
      (if v = u then Some (Some (?f r)) else jsonDatabaseGetResourceByUri (Some v) db)"
    if "resourcesByUri db' = resourcesByUri db" "\<And>v. map_option ce_device (hashMapGet (devices db') v) =
        map_option ce_device (hashMapGet (devices ?db1) v)" for db' :: "'a json_db" and v
    using getResource_after_update [OF assms(1) l ce(1), of ?f db' v] that assms(3) ce(1)
    by (simp add: get_upd_entry upd_device_def)
  have dev: "\<exists>d. jsonDatabaseGetDeviceByUri (Some u) db = Some (Some d) \<and> d_uuid d = Some uuid"
    using l ce(1) db_inv_device [OF assms(1) ce(1)]
    by (auto simp: jsonDatabaseGetDeviceByUri_def deref_entry_def device_inv_def)
  show ?thesis
  proof (cases "mode_has (r_mode src) RESOURCE_MODE_LAZY_SAVE_NEXT")
    case True
    let ?db2 = "upd_entry uuid (\<lambda>ce. ce\<lparr>ce_dirty := True\<rparr>) ?db1"
    have "db_inv ?db2"
      by (rule db_inv_upd_entry [OF inv1]) (use db_inv_device [OF inv1] in simp)
    moreover have "jsonDatabaseSaveResource E (Some src) db = Some (True, ?db2)"
      using True assms(2) l ce(4) by (simp add: jsonDatabaseSaveResource_def)
    ultimately show ?thesis
      using True look [of ?db2] ce1 dev
      by (intro exI [of _ True] exI [of _ ?db2] exI [of _ uuid]) (auto simp: get_upd_entry option.map_comp comp_def)
  next
    case False
    from flush_entry_spec [OF ce1, of E] obtain ok db' where fl: "flush_entry E uuid ?db1 = Some (ok, db')"
        "\<And>v. hashMapGet (devices db') v = (if v = uuid then Some ((upd_device (upd_resources ep ?g) ce)\<lparr>ce_dirty := \<not> ok\<rparr>)
           else hashMapGet (devices ?db1) v)"
        "resourcesByUri db' = resourcesByUri ?db1" "db_inv db'"
        "ok = fst (saveDevice E (ce_device (upd_device (upd_resources ep ?g) ce)) ?db1)"
        "store db' = store (snd (saveDevice E (ce_device (upd_device (upd_resources ep ?g) ce)) ?db1))"
      using inv1 by blast
    have res: "jsonDatabaseSaveResource E (Some src) db = Some (ok, db')"
      using False assms(2) l ce(4) fl(1) by (simp add: jsonDatabaseSaveResource_def)
    let ?ce = "(upd_device (upd_resources ep ?g) ce)\<lparr>ce_dirty := \<not> ok\<rparr>"
    have "d_uuid (ce_device ?ce) = Some uuid" using db_inv_device [OF inv1 ce1] by (simp add: device_inv_def)
    then have "(ok, store db') = storageSave E STORAGE_NAMESPACE uuid
        (cJSON_Print (env_json E) (deviceToJSON (env_json E) (env_util E) db_context (ce_device ?ce))) (store db)"
      using fl(5,6) by (simp add: saveDevice_def upd_entry_def split: prod.splits)
    moreover have "jsonDatabaseGetResourceByUri (Some v) db' =
        (if v = u then Some (Some (?f r)) else jsonDatabaseGetResourceByUri (Some v) db)" for v
      by (rule look) (use fl(2,3) ce1 in auto)
    ultimately show ?thesis
      using False dev res fl(2,4)
      by (intro exI [of _ ok] exI [of _ db'] exI [of _ uuid] exI [of _ ?ce]) simp
  qed
qed

text \<open>
  C28. Saving a resource that is in the database updates its value, caching policy, mode and date, and
  nothing else that can be looked up. Unless the mode asks for a lazy save, the result is that of one
  write of the changed device's JSON, under its uuid, to storage, and the device stays marked dirty
  exactly when that write failed; a lazy save leaves storage alone and marks the device dirty.
\<close>

theorem jsonDatabaseSaveResource_updates:
  assumes "db_inv db" "r_uri src = Some u" "jsonDatabaseGetResourceByUri (Some u) db = Some (Some r)"
  shows "\<exists>ok db' uuid ce. jsonDatabaseSaveResource E (Some src) db = Some (ok, db') \<and> db_inv db' \<and>
    jsonDatabaseGetResourceByUri (Some u) db' = Some (Some (r\<lparr>r_value := r_value src,
      r_cachingPolicy := r_cachingPolicy src, r_mode := r_mode src,
      r_dateOfLastSyncMillis := r_dateOfLastSyncMillis src\<rparr>)) \<and>
    (\<forall>v. v \<noteq> u \<longrightarrow> jsonDatabaseGetResourceByUri (Some v) db' = jsonDatabaseGetResourceByUri (Some v) db) \<and>
    hashMapGet (devices db') uuid = Some ce \<and> (\<exists>d. jsonDatabaseGetDeviceByUri (Some u) db = Some (Some d) \<and> d_uuid d = Some uuid) \<and>
    (if mode_has (r_mode src) RESOURCE_MODE_LAZY_SAVE_NEXT then ok \<and> store db' = store db \<and> ce_dirty ce
     else ce_dirty ce = (\<not> ok) \<and> (ok, store db') = storageSave E STORAGE_NAMESPACE uuid
       (cJSON_Print (env_json E) (deviceToJSON (env_json E) (env_util E) db_context (ce_device ce))) (store db))"
  by (rule saveResource_effect [OF assms])

theorem jsonDatabaseSaveResource_updates_witness:
  "\<exists>ok db'. jsonDatabaseSaveResource example_env (Some (example_resource None ''model'' ''m10'' 1)) one_db = Some (ok, db') \<and>
    (\<exists>r. jsonDatabaseGetResourceByUri (Some ''/d1/r/model'') db' = Some (Some r) \<and> r_value r = Some ''m10'') \<and>
    ok \<and> (\<exists>uuid json. store db' = (uuid, json) # store one_db)"
proof -
  define src old where "src = example_resource None ''model'' ''m10'' 1" and "old = example_resource None ''model'' ''m9'' 1"
  have src: "r_uri src = Some ''/d1/r/model''" "\<not> mode_has (r_mode src) RESOURCE_MODE_LAZY_SAVE_NEXT" "r_value src = Some ''m10''"
    "jsonDatabaseGetResourceByUri (Some ''/d1/r/model'') one_db = Some (Some old)"
    unfolding src_def old_def by code_simp+
  have save: "storageSave example_env ns k j st = (True, (k, j) # st)" for ns k j st by (simp add: example_env_def)
  show ?thesis
    using jsonDatabaseSaveResource_updates [OF db_inv_one_db src(1,4), of example_env]
    unfolding src_def [symmetric] save
    by (elim exE conjE, intro exI conjI) (assumption | simp add: src)+
qed

lemma updateDate_effect:
  assumes "db_inv db" "r_uri src = Some u" "jsonDatabaseGetResourceByUri (Some u) db = Some (Some r)"
  obtains db' where "jsonDatabaseUpdateDateOfLastSyncMillis now (Some src) db = Some (True, db')" "db_inv db'"
    "jsonDatabaseGetResourceByUri (Some u) db' = Some (Some (r\<lparr>r_dateOfLastSyncMillis := now\<rparr>))"
    "\<And>v. v \<noteq> u \<Longrightarrow> jsonDatabaseGetResourceByUri (Some v) db' = jsonDatabaseGetResourceByUri (Some v) db"
    "resourcesByUri db' = resourcesByUri db" "store db' = store db"
proof -
  obtain uuid ep where l: "hashMapGet (resourcesByUri db) u = Some (ResourceLocator uuid ep u)"
    using assms(3) resource_locator [OF assms(1)]
    by (auto simp: jsonDatabaseGetResourceByUri_def split: option.splits Locator.splits)
  from getResource_locator [OF assms(1) l] obtain ce where ce: "hashMapGet (devices db) uuid = Some ce"
      "deref_resource db uuid ep u = Some r"
    using assms(3) l by (auto simp: jsonDatabaseGetResourceByUri_def)
  let ?f = "\<lambda>r. r\<lparr>r_dateOfLastSyncMillis := now\<rparr>"
  let ?g = "update_first (\<lambda>r. r_uri r = Some u) ?f"
  let ?db = "upd_entry uuid (\<lambda>ce. (upd_device (upd_resources ep ?g) ce)\<lparr>ce_dirty := True\<rparr>) db"
  have "map r_uri (?g xs) = map r_uri xs" for xs by (rule map_update_first) simp
  from upd_resources_inv [of ?g, OF this db_inv_device [OF assms(1)]]
  have "db_inv ?db" by (intro db_inv_upd_entry [OF assms(1)]) (simp add: upd_device_def)
  moreover have "jsonDatabaseGetResourceByUri (Some v) ?db =
      (if v = u then Some (Some (?f r)) else jsonDatabaseGetResourceByUri (Some v) db)" for v
    using getResource_after_update [OF assms(1) l ce(1), of ?f ?db v] assms(3) ce(1)
    by (simp add: get_upd_entry upd_device_def)
  moreover have "jsonDatabaseUpdateDateOfLastSyncMillis now (Some src) db = Some (True, ?db)"
    using assms(2) l ce(2) by (simp add: jsonDatabaseUpdateDateOfLastSyncMillis_def)
  ultimately show ?thesis using that [of ?db] by simp
qed

section \<open>Properties: what failures leave behind\<close>

text \<open>
  Adding a device whose uuid is known is refused, but the clean-up of the refused copy removes the
  URI entries of the device in the database: every URI the copy shares with it leads nowhere
  afterwards, although the device is still cached.
\<close>

theorem jsonDatabaseAddDevice_known_unindexes:
  assumes "d_uuid d = Some uuid" "jsonDatabaseIsDeviceKnown (Some uuid) db" "metadata_uris_present d"
  shows "\<exists>db'. jsonDatabaseAddDevice E (Some d) db = Some (False, db') \<and> devices db' = devices db \<and>
    (\<forall>k \<in> keys_of (device_entries uuid d). jsonDatabaseGetDeviceByUri (Some k) db' = Some None)"
proof -
  have "hashMapPut (devices db) uuid (createCacheEntry d) = (False, devices db)"
    using assms(2) by (simp add: jsonDatabaseIsDeviceKnown_def hashMapPut_def)
  then have "jsonDatabaseAddDevice E (Some d) db = Some (False, db\<lparr>resourcesByUri :=
      without (keys_of (device_entries uuid d)) (resourcesByUri db)\<rparr>)"
    by (simp add: jsonDatabaseAddDevice_def loadDeviceIntoCache_def assms(1)
        removeDeviceURIEntries_without [OF assms(3), where uuid = uuid])
  then show ?thesis by (simp add: jsonDatabaseGetDeviceByUri_def hashMapGet_without)
qed

theorem jsonDatabaseAddDevice_known_unindexes_witness:
  "jsonDatabaseGetDeviceByUri (Some ''/d1'') one_db = Some (Some example_device) \<and>
   (\<exists>db'. jsonDatabaseAddDevice example_env (Some example_device) one_db = Some (False, db') \<and>
     jsonDatabaseGetDeviceById (Some ''d1'') db' = Some example_device \<and>
     jsonDatabaseGetDeviceByUri (Some ''/d1'') db' = Some None)"
proof -
  have "jsonDatabaseIsDeviceKnown (Some ''d1'') one_db" "''/d1'' \<in> keys_of (device_entries ''d1'' example_device)"
    "jsonDatabaseGetDeviceByUri (Some ''/d1'') one_db = Some (Some example_device)"
    "jsonDatabaseGetDeviceById (Some ''d1'') one_db = Some example_device"
    by code_simp+
  then show ?thesis
    using jsonDatabaseAddDevice_known_unindexes [OF example_device_loads(3), of one_db example_env] example_device_loads(2)
    by (fastforce simp: jsonDatabaseGetDeviceById_def)
qed

text \<open>
  Adding an endpoint that fails at one of its resources leaves the URI entry of the endpoint in
  the index although the endpoint is destroyed: the next lookup of that URI follows a dangling pointer.
\<close>

theorem jsonDatabaseAddEndpoint_failure_dangles:
  assumes "db_inv db" "hashMapGet (devices db) uuid = Some ce" "e_deviceUuid e = Some uuid" "e_id e \<noteq> None"
    and "e_uri e = Some eu" "endpointUriIsValid (env_util E) (e_uri e) (e_deviceUuid e) (e_id e)"
    and "eu \<notin> keys_of (resourcesByUri db)" "\<not> list_all (resource_addable (env_util E)) (items (e_resources e))"
  shows "\<exists>db'. jsonDatabaseAddEndpoint E (Some e) db = (False, db') \<and> devices db' = devices db \<and>
    jsonDatabaseGetEndpointByUri (Some eu) db' = None"
proof -
  let ?idx = "resourcesByUri db @ [(eu, EndpointLocator uuid eu)]"
  have put: "hashMapPut (resourcesByUri db) eu (EndpointLocator uuid eu) = (True, ?idx)"
    using assms(7) by (simp add: hashMapPut_def hmap_simps hashMapGet_none)
  from add_resources_spec [of "env_util E" "items (e_resources e)" uuid "Some eu" ?idx] assms(8)
  obtain pre where "add_each (addDeviceResourceURIEntry (env_util E) uuid (Some eu)) (items (e_resources e)) ?idx =
      (False, ?idx @ pre)"
    by (auto simp: add_spec_def)
  then have add: "jsonDatabaseAddEndpoint E (Some e) db = (False, db\<lparr>resourcesByUri := ?idx @ pre\<rparr>)"
    using assms(2-6) put by (auto simp: jsonDatabaseAddEndpoint_def addEndpointURIEntries_def)
  have "hashMapGet (?idx @ pre) eu = Some (EndpointLocator uuid eu)"
    using assms(7) by (auto simp: hashMapGet_def map_add_Some_iff map_of_eq_None_iff dom_map_of_conv_image_fst)
  moreover have "find_endpoint (ce_device ce) eu = None"
  proof (rule ccontr)
    assume "find_endpoint (ce_device ce) eu \<noteq> None"
    then obtain x where "x \<in> set (items (d_endpoints (ce_device ce)))" "e_uri x = Some eu"
      by (auto dest: find_endpoint_mem)
    then have "(eu, EndpointLocator uuid eu) \<in> set (device_entries uuid (ce_device ce))"
      using mem_device_entries [OF db_inv_device [OF assms(1,2)]] by (auto simp: mem_endpoint_entries)
    then have "hashMapGet (resourcesByUri db) eu = Some (EndpointLocator uuid eu)"
      using db_inv_index [OF assms(1)] assms(2) by blast
    then show False using assms(7) by (simp add: hashMapGet_none [symmetric])
  qed
  ultimately show ?thesis
    using add assms(2) by (simp add: jsonDatabaseGetEndpointByUri_def deref_endpoint_def)
qed

definition bad_endpoint :: icDeviceEndpoint where
  "bad_endpoint = \<lparr>e_id = Some ''2'', e_uri = Some ''/d1/ep/2'', e_profile = Some ''p'', e_profileVersion = 1,
     e_deviceUuid = Some ''d1'', e_enabled = True,
     e_resources = Some [(example_resource (Some ''2'') ''x'' ''1'' 1)\<lparr>r_uri := None\<rparr>], e_metadata = Some []\<rparr>"

theorem jsonDatabaseAddEndpoint_failure_dangles_witness:
  "\<exists>db'. jsonDatabaseAddEndpoint example_env (Some bad_endpoint) one_db = (False, db') \<and>
    jsonDatabaseGetEndpointByUri (Some ''/d1/ep/2'') db' = None"
proof -
  have "hashMapGet (devices one_db) ''d1'' = Some \<lparr>ce_device = example_device, ce_dirty = False\<rparr>"
    "e_deviceUuid bad_endpoint = Some ''d1''" "e_id bad_endpoint \<noteq> None" "e_uri bad_endpoint = Some ''/d1/ep/2''"
    "endpointUriIsValid example_util (e_uri bad_endpoint) (e_deviceUuid bad_endpoint) (e_id bad_endpoint)"
    "''/d1/ep/2'' \<notin> keys_of (resourcesByUri one_db)"
    "\<not> list_all (resource_addable example_util) (items (e_resources bad_endpoint))"
    by code_simp+
  then show ?thesis
    using jsonDatabaseAddEndpoint_failure_dangles [OF db_inv_one_db, of "''d1''" _ bad_endpoint "''/d1/ep/2''" example_env]
    by (auto simp: example_env_def)
qed

lemma seek_endpoint_missing:
  "(\<forall>e \<in> set es. e_id e \<noteq> None \<and> e_id e \<noteq> Some eid) \<Longrightarrow> seek_endpoint eid es = Some None"
  by (induction es) auto

text \<open>
  Saving metadata for an endpoint the device does not have reports what the save of the unchanged
  device reports, success included, and stores no metadata.
\<close>

theorem jsonDatabaseSaveMetadata_missing_endpoint:
  assumes "hashMapGet (devices db) uuid = Some ce" "m_uri m = Some u" "m_deviceUuid m = Some uuid"
    and "m_endpointId m = Some eid" "hashMapGet (resourcesByUri db) u = None"
    and "\<forall>e \<in> set (items (d_endpoints (ce_device ce))). e_id e \<noteq> None \<and> e_id e \<noteq> Some eid"
  shows "\<exists>db'. jsonDatabaseSaveMetadata E (Some m) db = Some (fst (saveDevice E (ce_device ce) db), db') \<and>
    jsonDatabaseGetMetadataByUri (Some u) db' = Some None"
proof -
  obtain ok db' where fl: "flush_entry E uuid db = Some (ok, db')" "ok = fst (saveDevice E (ce_device ce) db)"
      "resourcesByUri db' = resourcesByUri db"
    using flush_entry_spec [OF assms(1), of E] by blast
  have "jsonDatabaseSaveMetadata E (Some m) db = Some (ok, db')"
    using assms(1-5) fl(1) seek_endpoint_missing [OF assms(6)] by (simp add: jsonDatabaseSaveMetadata_def)
  moreover have "jsonDatabaseGetMetadataByUri (Some u) db' = Some None"
    using assms(5) fl(3) by (simp add: jsonDatabaseGetMetadataByUri_def)
  ultimately show ?thesis using fl(2) by blast
qed

theorem jsonDatabaseSaveMetadata_missing_endpoint_witness:
  "\<exists>db'. jsonDatabaseSaveMetadata example_env (Some (example_metadata (Some ''9'') ''a'' ''v'')) one_db = Some (True, db') \<and>
    jsonDatabaseGetMetadataByUri (Some ''/d1/ep/9/m/a'') db' = Some None"
proof -
  have "hashMapGet (devices one_db) ''d1'' = Some \<lparr>ce_device = example_device, ce_dirty = False\<rparr>"
    "m_uri (example_metadata (Some ''9'') ''a'' ''v'') = Some ''/d1/ep/9/m/a''"
    "hashMapGet (resourcesByUri one_db) ''/d1/ep/9/m/a'' = None"
    "\<forall>e \<in> set (items (d_endpoints example_device)). e_id e \<noteq> None \<and> e_id e \<noteq> Some ''9''"
    by code_simp+
  then show ?thesis
    using jsonDatabaseSaveMetadata_missing_endpoint [of one_db "''d1''" _ "example_metadata (Some ''9'') ''a'' ''v''"
        "''/d1/ep/9/m/a''" "''9''" example_env]
    by (auto simp: example_metadata_def example_env_def saveDevice_def)
qed

lemma remove_metadatas_null: "\<exists>m \<in> set ms. m_uri m = None \<Longrightarrow> remove_metadatas ms idx = None"
  by (induction ms arbitrary: idx)
    (auto simp: removeMetadataURIEntry_def split: option.splits bind_splits)

lemma removeDeviceURIEntries_null:
  "d_uri d \<noteq> None \<Longrightarrow> \<exists>m \<in> set (items (d_metadata d)). m_uri m = None \<Longrightarrow> removeDeviceURIEntries d idx = None"
  by (auto simp: removeDeviceURIEntries_def remove_metadatas_null split: option.splits bind_splits)

text \<open>
  A device with a metadata item whose URI is \<^verbatim>\<open>NULL\<close> is not refused: cleaning up after the failed
  validation takes the length of the missing URI.
\<close>

theorem jsonDatabaseAddDevice_null_metadata_uri:
  assumes "d_uuid d \<noteq> None" "d_uri d \<noteq> None" "m \<in> set (items (d_metadata d))" "m_uri m = None"
  shows "jsonDatabaseAddDevice E (Some d) db = None"
proof -
  obtain uuid where uuid: "d_uuid d = Some uuid" using assms(1) by blast
  have rm: "removeDeviceURIEntries d idx = None" for idx
    using removeDeviceURIEntries_null assms(2-4) by blast
  have "\<not> device_addable (env_util E) d"
    using assms(3,4) by (auto simp: device_addable_def metadata_addable_def list_all_iff)
  then have "addDeviceURIEntries (env_util E) uuid d (resourcesByUri db) = None"
    using add_device_entries_spec [of "env_util E" d uuid "resourcesByUri db"]
    by (auto simp: add_spec_def addDeviceURIEntries_def rm)
  then show ?thesis
    by (simp add: jsonDatabaseAddDevice_def loadDeviceIntoCache_def uuid rm split: prod.splits bool.splits)
qed

theorem jsonDatabaseAddDevice_null_metadata_uri_witness:
  "jsonDatabaseAddDevice example_env
     (Some (example_device\<lparr>d_metadata := Some [(example_metadata None ''a'' ''v'')\<lparr>m_uri := None\<rparr>]\<rparr>)) (empty_db []) = None"
  by (rule jsonDatabaseAddDevice_null_metadata_uri
      [where m = "(example_metadata None ''a'' ''v'')\<lparr>m_uri := None\<rparr>"]) (simp_all add: example_device_def)

end
