(* ===== verification/Json_Database_Reload.thy ===== *)
theory Json_Database_Reload
  imports Json_Database_Props
begin

text \<open>
  Persistence across a reload: the devices in the cache, saved as JSON, are the devices the database
  holds after \<^verbatim>\<open>jsonDatabaseReload\<close>. The proof follows \<^verbatim>\<open>loadDevices\<close> key by key; each step is the round
  trip of the device model followed by the atomic insertion into cache and index.
\<close>

section \<open>What storage holds\<close>

text \<open>
  A device is persisted when storage offers one text under its uuid, and the text reads as the
  document that saving the device writes.
\<close>

definition persisted :: "('j, 's) db_env \<Rightarrow> 's \<Rightarrow> string \<Rightarrow> icDevice \<Rightarrow> bool" where
  "persisted E st uuid d \<longleftrightarrow> (\<exists>t. storageParse E STORAGE_NAMESPACE uuid st = [t] \<and>
     cJSON_Parse (env_json E) (Some t) =
       Some (deviceToJSON (env_json E) (env_util E) db_context d))"

definition reloadable :: "('j, 's) db_env \<Rightarrow> string \<Rightarrow> icDevice \<Rightarrow> bool" where
  "reloadable E uuid d \<longleftrightarrow> d_uuid d = Some uuid \<and> loads (env_util E) uuid d \<and>
     valid_device (env_util E) d \<and> storable_device (env_json E) d"

definition env_ok :: "('j, 's) db_env \<Rightarrow> bool" where
  "env_ok E \<longleftrightarrow> cjson_ok (env_json E) \<and> util_ok (env_util E) \<and> protect_ok (env_util E) db_context"

section \<open>Loading key by key\<close>

lemma load_key_persisted:
  assumes "env_ok E" "db_inv db" "reloadable E k d" "persisted E (store db) k d" "k \<noteq> SYSTEM_PROPERTIES_KEY"
    and "hashMapGet (devices db) k = None" "keys_of (device_entries k d) \<inter> keys_of (resourcesByUri db) = {}"
  shows "load_key E k db = Some (db\<lparr>devices := devices db @ [(k, createCacheEntry d)],
      resourcesByUri := resourcesByUri db @ device_entries k d\<rparr>)"
proof -
  obtain t where t: "storageParse E STORAGE_NAMESPACE k (store db) = [t]"
      "cJSON_Parse (env_json E) (Some t) = Some (deviceToJSON (env_json E) (env_util E) db_context d)"
    using assms(4) by (auto simp: persisted_def)
  have d: "d_uuid d = Some k" "loads (env_util E) k d" using assms(3) by (auto simp: reloadable_def)
  have "metadata_uris_present d" using loads_device_inv [OF d(2,1)] by (simp add: device_inv_def)
  note load = loadDeviceIntoCache_fresh [OF assms(2) d(1) assms(6) this assms(7), where E = E]
  have "deviceFromJSON (env_json E) (env_util E) db_context False
      (deviceToJSON (env_json E) (env_util E) db_context d) = Some d"
    using assms(1,3) by (auto simp: env_ok_def reloadable_def intro: device_roundtrip)
  then show ?thesis using t load d(2) assms(5) by (simp add: load_key_def loadDevice_def)
qed

text \<open>\<open>D\<close> gives the device of each uuid; their entries do not overlap.\<close>

lemma load_keys_persisted:
  assumes env: "env_ok E"
    and D: "\<And>k d. D k = Some d \<Longrightarrow> reloadable E k d \<and> persisted E st k d"
    and disj: "\<And>k l d e. D k = Some d \<Longrightarrow> D l = Some e \<Longrightarrow> k \<noteq> l \<Longrightarrow>
      keys_of (device_entries k d) \<inter> keys_of (device_entries l e) = {}"
  shows "db_inv db \<Longrightarrow> store db = st \<Longrightarrow> distinct ks \<Longrightarrow> (\<And>k. k \<in> set ks \<Longrightarrow> k \<noteq> SYSTEM_PROPERTIES_KEY \<Longrightarrow> D k \<noteq> None) \<Longrightarrow>
    (\<And>v b. hashMapGet (devices db) v = Some b \<Longrightarrow> D v = Some (ce_device b) \<and> v \<notin> set ks) \<Longrightarrow>
    \<exists>db'. load_keys E ks db = Some db' \<and> db_inv db' \<and> failureEvents db' = failureEvents db \<and>
      (\<forall>v. map_option ce_device (hashMapGet (devices db') v) =
        (if v \<in> set ks - {SYSTEM_PROPERTIES_KEY} then D v else map_option ce_device (hashMapGet (devices db) v)))"
proof (induction ks arbitrary: db)
  case (Cons k ks)
  show ?case
  proof (cases "k = SYSTEM_PROPERTIES_KEY")
    case True
    then have "load_key E k db = Some db" by (simp add: load_key_def)
    moreover have "set (k # ks) - {SYSTEM_PROPERTIES_KEY} = set ks - {SYSTEM_PROPERTIES_KEY}" using True by auto
    ultimately show ?thesis using Cons.IH [of db] Cons.prems by simp
  next
    case False
    then obtain d where d: "D k = Some d" using Cons.prems(4) [of k] by auto
    have new: "hashMapGet (devices db) k = None" using Cons.prems(5) [of k] by (cases "hashMapGet (devices db) k") auto
    have dis: "keys_of (device_entries k d) \<inter> keys_of (resourcesByUri db) = {}"
    proof (rule ccontr)
      assume "keys_of (device_entries k d) \<inter> keys_of (resourcesByUri db) \<noteq> {}"
      then obtain u where u: "u \<in> keys_of (device_entries k d)" "u \<in> keys_of (resourcesByUri db)" by blast
      then obtain loc where "hashMapGet (resourcesByUri db) u = Some loc"
        by (cases "hashMapGet (resourcesByUri db) u") (auto simp: hashMapGet_none)
      then obtain v b where v: "hashMapGet (devices db) v = Some b" "(u, loc) \<in> set (device_entries v (ce_device b))"
        using db_inv_index [OF Cons.prems(1)] by blast
      then have "D v = Some (ce_device b)" "v \<noteq> k" using Cons.prems(5) [of v b] by auto
      then show False using disj [OF d, of v "ce_device b"] u(1) v(2) by force
    qed
    let ?db = "db\<lparr>devices := devices db @ [(k, createCacheEntry d)],
        resourcesByUri := resourcesByUri db @ device_entries k d\<rparr>"
    have rd: "reloadable E k d" "persisted E (store db) k d" using D [OF d] Cons.prems(2) by auto
    have step: "load_key E k db = Some ?db"
      by (rule load_key_persisted [OF env Cons.prems(1) rd False new dis])
    have lk: "loads (env_util E) k d" "d_uuid d = Some k" using rd(1) by (auto simp: reloadable_def)
    have inv: "db_inv ?db"
      using db_inv_append [OF Cons.prems(1) loads_device_inv [OF lk] new dis] lk(1)
      by (simp add: loads_def createCacheEntry_def)
    have ced: "ce_device (createCacheEntry d) = d" by (simp add: createCacheEntry_def)
    have get: "hashMapGet (devices db @ [(k, createCacheEntry d)]) v =
        (if v = k then Some (createCacheEntry d) else hashMapGet (devices db) v)" for v
      using new by (simp add: hashMapGet_def map_of_append_new del: map_of_append)
    obtain db' where db': "load_keys E ks ?db = Some db'" "db_inv db'" "failureEvents db' = failureEvents ?db"
        "\<And>v. map_option ce_device (hashMapGet (devices db') v) =
          (if v \<in> set ks - {SYSTEM_PROPERTIES_KEY} then D v else map_option ce_device (hashMapGet (devices ?db) v))"
    proof -
      have "D v = Some (ce_device b) \<and> v \<notin> set ks" if "hashMapGet (devices ?db) v = Some b" for v b
        using that d Cons.prems(3,5) by (auto simp: get ced split: if_splits)
      then show ?thesis using Cons.IH [of ?db] inv Cons.prems(2,3,4) that by auto
    qed
    have "map_option ce_device (hashMapGet (devices db') v) = (if v \<in> set (k # ks) - {SYSTEM_PROPERTIES_KEY} then D v
        else map_option ce_device (hashMapGet (devices db) v))" for v
      using db'(4) [of v] d False by (auto simp: get ced)
    then show ?thesis using step db' by simp
  qed
qed simp

lemma getDeviceById_alt: "jsonDatabaseGetDeviceById (Some u) db = map_option ce_device (hashMapGet (devices db) u)"
  by (simp add: jsonDatabaseGetDeviceById_def split: option.splits)

lemma remove_all_ok:
  "\<forall>(u, ce) \<in> set es. device_inv u (ce_device ce) \<Longrightarrow> \<exists>idx'. remove_all es idx = Some idx'"
proof (induction es arbitrary: idx)
  case (Cons e es)
  obtain u ce where e: "e = (u, ce)" by force
  then have "metadata_uris_present (ce_device ce)" using Cons.prems by (auto simp: device_inv_def)
  then show ?case using e Cons by (auto simp: removeDeviceURIEntries_without [where uuid = u])
qed simp

section \<open>Property\<close>

text \<open>
  C14. Reloading the database brings back every device: when each cached device is valid, fits JSON and
  is persisted, and the keys of storage are the uuids and the key of the system properties, then after
  \<^verbatim>\<open>jsonDatabaseReload\<close> every uuid has the same device as before, the index is consistent, and no load
  failure is reported.
\<close>

theorem jsonDatabaseReload_same_devices:
  assumes "env_ok E" "db_inv db"
    and "\<forall>(uuid, ce) \<in> set (devices db). reloadable E uuid (ce_device ce) \<and> persisted E (store db) uuid (ce_device ce)"
    and "loadSystemProperties E (db\<lparr>systemProperties := [], devices := [], resourcesByUri := []\<rparr>) =
      (True, db\<lparr>systemProperties := sp, devices := [], resourcesByUri := []\<rparr>)"
    and "distinct (storageGetKeys E STORAGE_NAMESPACE (store db))"
    and "set (storageGetKeys E STORAGE_NAMESPACE (store db)) - {SYSTEM_PROPERTIES_KEY} = keys_of (devices db)"
  shows "\<exists>db'. jsonDatabaseReload E db = Some (True, db') \<and> db_inv db' \<and> failureEvents db' = failureEvents db \<and>
    (\<forall>uuid. jsonDatabaseGetDeviceById uuid db' = jsonDatabaseGetDeviceById uuid db)"
proof -
  let ?db1 = "db\<lparr>systemProperties := sp, devices := [], resourcesByUri := []\<rparr>"
  let ?D = "\<lambda>v. map_option ce_device (hashMapGet (devices db) v)"
  let ?ks = "storageGetKeys E STORAGE_NAMESPACE (store db)"
  have get: "hashMapGet (devices db) v = Some b \<longleftrightarrow> (v, b) \<in> set (devices db)" for v b
    using assms(2) by (simp add: db_inv_def hashMapGet_mem)
  have "\<forall>(u, ce) \<in> set (devices db). device_inv u (ce_device ce)" using assms(2) by (simp add: db_inv_def)
  then obtain idx' where "remove_all (devices db) (resourcesByUri db) = Some idx'" using remove_all_ok by blast
  then have clean: "jsonDatabaseCleanup E False db = Some (db\<lparr>systemProperties := [], devices := [], resourcesByUri := []\<rparr>)"
    by (simp add: jsonDatabaseCleanup_def)
  have inv1: "db_inv ?db1" by (simp add: db_inv_def entries_of_def)
  have "reloadable E k d \<and> persisted E (store db) k d" if "?D k = Some d" for k d
    using that assms(3) get by auto
  moreover have "keys_of (device_entries k d) \<inter> keys_of (device_entries l e) = {}"
    if kl: "?D k = Some d" "?D l = Some e" "k \<noteq> l" for k l d e
  proof -
    obtain a b where "hashMapGet (devices db) k = Some a" "ce_device a = d" "hashMapGet (devices db) l = Some b" "ce_device b = e"
      using kl(1,2) by auto
    then show ?thesis using entries_disjoint [OF assms(2), of k a l b] kl(3) by simp
  qed
  moreover have "?D k \<noteq> None" if "k \<in> set ?ks" "k \<noteq> SYSTEM_PROPERTIES_KEY" for k
    using that assms(6) hashMapGet_none [of "devices db" k] by auto
  ultimately obtain db' where db': "load_keys E ?ks ?db1 = Some db'" "db_inv db'" "failureEvents db' = failureEvents ?db1"
      "\<And>v. map_option ce_device (hashMapGet (devices db') v) =
        (if v \<in> set ?ks - {SYSTEM_PROPERTIES_KEY} then ?D v else map_option ce_device (hashMapGet (devices ?db1) v))"
    using load_keys_persisted [OF assms(1), of ?D "store db" ?db1 ?ks] inv1 assms(5) by auto
  have "map_option ce_device (hashMapGet (devices db') v) = ?D v" for v
    using db'(4) [of v] hashMapGet_none [of "devices db" v] unfolding assms(6) by auto
  then have "jsonDatabaseGetDeviceById uuid db' = jsonDatabaseGetDeviceById uuid db" for uuid
    by (cases uuid) (simp_all add: getDeviceById_alt, simp add: jsonDatabaseGetDeviceById_def)
  moreover have "jsonDatabaseReload E db = Some (True, db')"
    using db'(1) by (simp add: jsonDatabaseReload_def clean jsonDatabaseInitialize_def assms(4) loadDevices_def)
  ultimately show ?thesis using db'(2,3) by auto
qed

text \<open>The example environment with a storage that keeps the document of the example device.\<close>

definition reload_env :: "(json, (string \<times> string) list) db_env" where
  "reload_env = example_env\<lparr>
     env_json := example_json\<lparr>cJSON_Parse := \<lambda>t. if t = Some ''T'' then Some (deviceToJSON example_json example_util db_context example_device) else None,
       cJSON_Print := \<lambda>_. ''T''\<rparr>,
     storageLoadJSON := \<lambda>_ _ _. Some (JObject [(''schemaVersion'', JString ''2'')])\<rparr>"

definition reload_db :: "(string \<times> string) list json_db" where
  "reload_db = one_db\<lparr>store := [(''d1'', ''T''), (SYSTEM_PROPERTIES_KEY, ''T'')]\<rparr>"

lemma reload_env_ok: "env_ok reload_env"
proof -
  have "cjson_ok (env_json reload_env)"
    using cjson_ok_example
    by (simp add: reload_env_def example_env_def cjson_ok_def cjson_build_ok_def cjson_read_ok_def cjson_typed_ok_def)
  then show ?thesis
    using util_ok_example protect_ok_example by (simp add: env_ok_def reload_env_def example_env_def)
qed

theorem jsonDatabaseReload_same_devices_witness:
  "\<exists>db'. jsonDatabaseReload reload_env reload_db = Some (True, db') \<and> db_inv db' \<and>
    jsonDatabaseGetDeviceById (Some ''d1'') db' = Some example_device"
proof -
  have doc: "deviceToJSON (env_json reload_env) (env_util reload_env) db_context example_device =
      deviceToJSON example_json example_util db_context example_device" by code_simp
  have "storable_device (env_json reload_env) example_device" by code_simp
  then have "reloadable reload_env ''d1'' example_device"
    using example_device_loads example_device_ok by (simp add: reloadable_def reload_env_def example_env_def)
  moreover have "persisted reload_env (store reload_db) ''d1'' example_device"
    unfolding persisted_def doc by (simp add: reload_env_def example_env_def reload_db_def)
  ultimately have dev: "\<forall>(uuid, ce) \<in> set (devices reload_db). reloadable reload_env uuid (ce_device ce) \<and>
      persisted reload_env (store reload_db) uuid (ce_device ce)"
    by (simp add: reload_db_def one_db_def)
  have sp: "loadSystemProperties reload_env (reload_db\<lparr>systemProperties := [], devices := [], resourcesByUri := []\<rparr>) =
      (True, reload_db\<lparr>systemProperties := [(''schemaVersion'', ''2'')], devices := [], resourcesByUri := []\<rparr>)"
    by code_simp
  have keys: "distinct (storageGetKeys reload_env STORAGE_NAMESPACE (store reload_db))"
    "set (storageGetKeys reload_env STORAGE_NAMESPACE (store reload_db)) - {SYSTEM_PROPERTIES_KEY} = keys_of (devices reload_db)"
    by code_simp+
  have "db_inv reload_db" using db_inv_one_db by (simp add: reload_db_def)
  from jsonDatabaseReload_same_devices [OF reload_env_ok this dev sp keys]
  obtain db' where "jsonDatabaseReload reload_env reload_db = Some (True, db')" "db_inv db'"
      "jsonDatabaseGetDeviceById (Some ''d1'') db' = jsonDatabaseGetDeviceById (Some ''d1'') reload_db" by blast
  moreover have "jsonDatabaseGetDeviceById (Some ''d1'') reload_db = Some example_device" by code_simp
  ultimately show ?thesis by auto
qed

end
