(* ===== verification/Driver_Manager.thy ===== *)
theory Driver_Manager
  imports Barton_Externals
begin

text \<open>
  The device driver manager, \<^verbatim>\<open>core/src/deviceDriverManager.c\<close>: the map of drivers by name, the list of
  drivers in the order they were registered, and the lookups by name, device class and subsystem.

  Of a driver (\<^verbatim>\<open>device-driver.h\<close>) the record keeps the fields the core reads; a function pointer whose
  result the callers ignore is represented by whether it is set, and a call of it by an event. A
  \<^verbatim>\<open>NULL\<close> map or list is \<open>None\<close>; iterating a \<^verbatim>\<open>NULL\<close> list visits nothing.
\<close>

section \<open>State\<close>

record DeviceDriver =
  driverName :: cstr
  subsystemName :: cstr
  supportedDeviceClasses :: "string list option"
  customCommFail :: bool
  drv_subsystemInitialized :: bool
  communicationFailed :: bool
  communicationRestored :: bool
  commFailTimeoutSecsChanged :: bool
  drv_destroy :: bool

datatype driver_event = DriverStartup cstr | DriverShutdown cstr | DriverDestroy cstr | DriverFree cstr

record driver_manager =
  deviceDrivers :: "(string, DeviceDriver) hmap option"
  orderedDeviceDrivers :: "DeviceDriver list option"

definition driver_manager_static :: driver_manager where
  "driver_manager_static = \<lparr>deviceDrivers = None, orderedDeviceDrivers = None\<rparr>"

definition drivers_of :: "driver_manager \<Rightarrow> DeviceDriver list" where
  "drivers_of dm = (case deviceDrivers dm of None \<Rightarrow> [] | Some m \<Rightarrow> map snd m)"

definition ordered_of :: "driver_manager \<Rightarrow> DeviceDriver list" where
  "ordered_of dm = (case orderedDeviceDrivers dm of None \<Rightarrow> [] | Some ds \<Rightarrow> ds)"

section \<open>Operations\<close>

definition deviceDriverManagerStartDeviceDrivers :: "driver_manager \<Rightarrow> bool \<times> driver_event list" where
  "deviceDriverManagerStartDeviceDrivers dm = (True, map (\<lambda>d. DriverStartup (driverName d)) (ordered_of dm))"

definition deviceDriverManagerShutdown :: "driver_manager \<Rightarrow> bool \<times> driver_event list" where
  "deviceDriverManagerShutdown dm = (True, map (\<lambda>d. DriverShutdown (driverName d)) (drivers_of dm))"

definition destroyDeviceDriverMapEntry :: "DeviceDriver \<Rightarrow> driver_event" where
  "destroyDeviceDriverMapEntry d =
     (if drv_destroy d then DriverDestroy (driverName d) else DriverFree (driverName d))"

definition deviceDriverManagerExit :: "driver_manager \<Rightarrow> driver_manager \<times> driver_event list" where
  "deviceDriverManagerExit dm =
     (dm\<lparr>deviceDrivers := None, orderedDeviceDrivers := None\<rparr>, map destroyDeviceDriverMapEntry (drivers_of dm))"

text \<open>The result of \<^verbatim>\<open>hashMapPut\<close> is ignored: the list grows also when the name is taken.\<close>

definition deviceDriverManagerRegisterDriver :: "DeviceDriver option \<Rightarrow> driver_manager \<Rightarrow> bool \<times> driver_manager" where
  "deviceDriverManagerRegisterDriver driver dm =
     (let dm1 = (if deviceDrivers dm = None
                 then dm\<lparr>deviceDrivers := Some [], orderedDeviceDrivers := Some []\<rparr> else dm)
      in case driver of None \<Rightarrow> (False, dm1)
         | Some d \<Rightarrow>
             (case driverName d of None \<Rightarrow> (False, dm1)
              | Some n \<Rightarrow> (True, dm1\<lparr>deviceDrivers := map_option (\<lambda>m. snd (hashMapPut m n d)) (deviceDrivers dm1),
                                     orderedDeviceDrivers := map_option (\<lambda>ds. ds @ [d]) (orderedDeviceDrivers dm1)\<rparr>)))"

definition driverSupportsDeviceClass :: "DeviceDriver option \<Rightarrow> string \<Rightarrow> bool" where
  "driverSupportsDeviceClass driver deviceClass =
     (case driver of None \<Rightarrow> False | Some d \<Rightarrow>
      (case supportedDeviceClasses d of None \<Rightarrow> False
       | Some cs \<Rightarrow> list_ex (\<lambda>c. deviceClass = c) cs))"

definition deviceDriverManagerGetDeviceDriversByDeviceClass ::
  "cstr \<Rightarrow> driver_manager \<Rightarrow> DeviceDriver list option" where
  "deviceDriverManagerGetDeviceDriversByDeviceClass deviceClass dm =
     (case (deviceDrivers dm, deviceClass) of
        (Some m, Some c) \<Rightarrow> Some (filter (\<lambda>d. driverSupportsDeviceClass (Some d) c) (map snd m))
      | _ \<Rightarrow> None)"

definition deviceDriverManagerGetDeviceDriversBySubsystem ::
  "util_api \<Rightarrow> cstr \<Rightarrow> driver_manager \<Rightarrow> DeviceDriver list option" where
  "deviceDriverManagerGetDeviceDriversBySubsystem U subsystem dm =
     (case (deviceDrivers dm, subsystem) of
        (Some m, Some s) \<Rightarrow> Some (filter (\<lambda>d. stringCompare U (subsystemName d) (Some s) False = 0) (map snd m))
      | _ \<Rightarrow> None)"

text \<open>The code takes the length of the name, so the name must not be \<^verbatim>\<open>NULL\<close> once a driver is registered.\<close>

definition deviceDriverManagerGetDeviceDriver :: "string \<Rightarrow> driver_manager \<Rightarrow> DeviceDriver option" where
  "deviceDriverManagerGetDeviceDriver name dm =
     (case deviceDrivers dm of None \<Rightarrow> None | Some m \<Rightarrow> hashMapGet m name)"

definition deviceDriverManagerGetDeviceDrivers :: "driver_manager \<Rightarrow> DeviceDriver list option" where
  "deviceDriverManagerGetDeviceDrivers dm = orderedDeviceDrivers dm"

section \<open>Invariant\<close>

text \<open>
  The map and the list exist together; a driver is in the map under its own name, once; the map holds
  the first driver of each name of the list.
\<close>

definition dm_inv :: "driver_manager \<Rightarrow> bool" where
  "dm_inv dm \<longleftrightarrow>
     (case (deviceDrivers dm, orderedDeviceDrivers dm) of
        (None, None) \<Rightarrow> True
      | (Some m, Some ds) \<Rightarrow> hmap_ok m \<and> (\<forall>(n, d) \<in> set m. driverName d = Some n) \<and>
          (\<forall>d \<in> set ds. driverName d \<noteq> None) \<and>
          (\<forall>n. hashMapGet m n = find (\<lambda>d. driverName d = Some n) ds)
      | _ \<Rightarrow> False)"

fun register_all :: "DeviceDriver option list \<Rightarrow> driver_manager \<Rightarrow> driver_manager" where
  "register_all [] dm = dm"
| "register_all (d # ds) dm = register_all ds (snd (deviceDriverManagerRegisterDriver d dm))"

lemma dm_inv_static: "dm_inv driver_manager_static"
  by (simp add: dm_inv_def driver_manager_static_def)

lemma find_append: "find p (xs @ ys) = (case find p xs of None \<Rightarrow> find p ys | Some x \<Rightarrow> Some x)"
  by (induction xs) auto

lemma dm_invE:
  assumes "dm_inv dm" "deviceDrivers dm = Some m"
  obtains ds where "orderedDeviceDrivers dm = Some ds" "hmap_ok m"
    "\<forall>(n, d) \<in> set m. driverName d = Some n" "\<forall>d \<in> set ds. driverName d \<noteq> None"
    "\<forall>n. hashMapGet m n = find (\<lambda>d. driverName d = Some n) ds"
  using assms by (auto simp: dm_inv_def split: option.splits prod.splits)

lemma put_keeps_names:
  assumes "\<forall>(n, d) \<in> set m. driverName d = Some n" "driverName d = Some n"
  shows "\<forall>(n, d) \<in> set (snd (hashMapPut m n d)). driverName d = Some n"
  using assms by (auto simp: hashMapPut_def)

lemma dm_inv_put:
  assumes "hmap_ok m" "\<forall>(n, d) \<in> set m. driverName d = Some n" "\<forall>d \<in> set ds. driverName d \<noteq> None"
    "\<forall>n. hashMapGet m n = find (\<lambda>d. driverName d = Some n) ds" "driverName d = Some n"
  shows "dm_inv (dm\<lparr>deviceDrivers := Some (snd (hashMapPut m n d)), orderedDeviceDrivers := Some (ds @ [d])\<rparr>)"
  using assms hm.ok_put [of m n d] put_keeps_names [of m d n]
  by (auto simp: dm_inv_def find_append hmap_simps split: option.splits)

lemma dm_inv_register [keeps_inv]:
  assumes "dm_inv dm"
  shows "dm_inv (snd (deviceDriverManagerRegisterDriver d dm))"
proof -
  define dm1 where "dm1 = (if deviceDrivers dm = None
    then dm\<lparr>deviceDrivers := Some [], orderedDeviceDrivers := Some []\<rparr> else dm)"
  have inv: "dm_inv dm1" using assms by (auto simp: dm1_def dm_inv_def)
  obtain m where m: "deviceDrivers dm1 = Some m" by (cases "deviceDrivers dm") (auto simp: dm1_def)
  from inv m obtain ds where ds: "orderedDeviceDrivers dm1 = Some ds" "hmap_ok m"
    "\<forall>(n, d) \<in> set m. driverName d = Some n" "\<forall>d \<in> set ds. driverName d \<noteq> None"
    "\<forall>n. hashMapGet m n = find (\<lambda>d. driverName d = Some n) ds" by (rule dm_invE)
  show ?thesis
  proof (cases d)
    case None
    with inv show ?thesis by (simp add: deviceDriverManagerRegisterDriver_def dm1_def Let_def)
  next
    case (Some drv)
    show ?thesis
    proof (cases "driverName drv")
      case None
      with Some inv show ?thesis by (simp add: deviceDriverManagerRegisterDriver_def dm1_def Let_def)
    next
      case (Some n)
      have "snd (deviceDriverManagerRegisterDriver d dm) =
        dm1\<lparr>deviceDrivers := Some (snd (hashMapPut m n drv)), orderedDeviceDrivers := Some (ds @ [drv])\<rparr>"
        using Some \<open>d = Some drv\<close> m ds(1)
        by (simp only: deviceDriverManagerRegisterDriver_def dm1_def [symmetric] Let_def) simp
      with dm_inv_put [OF ds(2-5) Some, of dm1] show ?thesis by simp
    qed
  qed
qed

lemma dm_inv_register_all: "dm_inv dm \<Longrightarrow> dm_inv (register_all ds dm)"
  by (induction ds dm rule: register_all.induct) (auto simp: dm_inv_register)

section \<open>Lookups\<close>

text \<open>The drivers that can be registered, in order, and the first one of a given name.\<close>

definition named_drivers :: "DeviceDriver option list \<Rightarrow> DeviceDriver list" where
  "named_drivers ds = filter (\<lambda>d. driverName d \<noteq> None) (concat (map (\<lambda>x. case x of None \<Rightarrow> [] | Some d \<Rightarrow> [d]) ds))"

definition first_of_name :: "DeviceDriver list \<Rightarrow> DeviceDriver \<Rightarrow> bool" where
  "first_of_name ds d \<longleftrightarrow> find (\<lambda>e. driverName e = driverName d) ds = Some d"

lemma ordered_of_register:
  assumes "dm_inv dm"
  shows "ordered_of (snd (deviceDriverManagerRegisterDriver d dm)) = ordered_of dm @ named_drivers [d]"
  using assms
  by (cases "deviceDrivers dm"; cases "orderedDeviceDrivers dm"; cases d)
    (auto simp: deviceDriverManagerRegisterDriver_def ordered_of_def named_drivers_def dm_inv_def Let_def split: option.splits)

lemma ordered_of_register_all:
  "dm_inv dm \<Longrightarrow> ordered_of (register_all ds dm) = ordered_of dm @ named_drivers ds"
proof (induction ds dm rule: register_all.induct)
  case (2 d ds dm)
  then show ?case
    using ordered_of_register [of dm d] dm_inv_register [of dm d]
    by (auto simp: named_drivers_def split: option.splits)
qed (simp add: named_drivers_def)

lemma get_driver_first:
  assumes "dm_inv dm"
  shows "deviceDriverManagerGetDeviceDriver n dm = find (\<lambda>d. driverName d = Some n) (ordered_of dm)"
  using assms by (auto simp: dm_inv_def deviceDriverManagerGetDeviceDriver_def ordered_of_def split: option.splits)

lemma drivers_of_first:
  assumes "dm_inv dm"
  shows "set (drivers_of dm) = {d \<in> set (ordered_of dm). first_of_name (ordered_of dm) d}"
proof (cases "deviceDrivers dm")
  case None
  then show ?thesis using assms
    by (auto simp: dm_inv_def drivers_of_def ordered_of_def first_of_name_def split: option.splits)
next
  case (Some m)
  then obtain ds where ds: "orderedDeviceDrivers dm = Some ds" "hmap_ok m"
    "\<forall>(n, d) \<in> set m. driverName d = Some n" "\<forall>d \<in> set ds. driverName d \<noteq> None"
    "\<forall>n. hashMapGet m n = find (\<lambda>d. driverName d = Some n) ds" using assms by (metis dm_invE)
  have "d \<in> set (map snd m) \<longleftrightarrow> d \<in> set ds \<and> first_of_name ds d" for d
  proof
    assume "d \<in> set (map snd m)"
    then obtain n where nd: "(n, d) \<in> set m" by auto
    then have "hashMapGet m n = Some d" using ds(2) by (simp add: hashMapGet_def hmap_ok_def)
    moreover have "driverName d = Some n" using ds(3) nd by auto
    ultimately show "d \<in> set ds \<and> first_of_name ds d"
      using ds(5) find_Some_mem by (fastforce simp: first_of_name_def)
  next
    assume d: "d \<in> set ds \<and> first_of_name ds d"
    then obtain n where "driverName d = Some n" using ds(4) by auto
    with d ds(5) have "hashMapGet m n = Some d" by (simp add: first_of_name_def)
    then show "d \<in> set (map snd m)" by (force simp: hashMapGet_def dest: map_of_SomeD)
  qed
  with ds(1) Some show ?thesis by (auto simp: drivers_of_def ordered_of_def)
qed

lemma distinct_drivers_of:
  assumes "dm_inv dm"
  shows "distinct (map driverName (drivers_of dm))"
proof (cases "deviceDrivers dm")
  case (Some m)
  with assms have ok: "distinct (map fst m)" "\<forall>(n, d) \<in> set m. driverName d = Some n"
    by (auto elim!: dm_invE simp: hmap_ok_def)
  have "map driverName (map snd m) = map Some (map fst m)" using ok(2) by (induction m) auto
  then have "distinct (map driverName (map snd m))" using ok(1) by (simp add: distinct_map del: map_map)
  with Some show ?thesis by (simp add: drivers_of_def)
qed (simp add: drivers_of_def)

lemma drivers_named: "dm_inv dm \<Longrightarrow> d \<in> set (drivers_of dm) \<Longrightarrow> driverName d \<noteq> None"
  by (auto simp: dm_inv_def drivers_of_def split: option.splits)

section \<open>Properties\<close>

text \<open>
  C37. After any sequence of registrations the manager behaves as the list of the named drivers:
  every one of them is started, in order; a lookup by name gives the first driver of that name; and
  the drivers that are shut down, and among which the lookups by device class and by subsystem choose
  those that match, are the first ones of each name, each exactly once. A second driver with a name
  that is taken is therefore started, but never found and never shut down.
\<close>

theorem registered_drivers:
  fixes U :: util_api
  assumes "util_ok U" "named_drivers regs \<noteq> []"
  defines "ds \<equiv> named_drivers regs"
  defines "dm \<equiv> register_all regs driver_manager_static"
  shows "snd (deviceDriverManagerStartDeviceDrivers dm) = map (\<lambda>d. DriverStartup (driverName d)) ds \<and>
     deviceDriverManagerGetDeviceDriver n dm = find (\<lambda>d. driverName d = Some n) ds \<and>
     (\<exists>firsts. set firsts = {d \<in> set ds. first_of_name ds d} \<and> distinct (map driverName firsts) \<and>
        snd (deviceDriverManagerShutdown dm) = map (\<lambda>d. DriverShutdown (driverName d)) firsts \<and>
        deviceDriverManagerGetDeviceDriversByDeviceClass (Some c) dm =
          Some (filter (\<lambda>d. \<exists>cs. supportedDeviceClasses d = Some cs \<and> c \<in> set cs) firsts) \<and>
        deviceDriverManagerGetDeviceDriversBySubsystem U (Some s) dm =
          Some (filter (\<lambda>d. subsystemName d = Some s) firsts))"
proof -
  have inv: "dm_inv dm" unfolding dm_def by (intro dm_inv_register_all dm_inv_static)
  have ord: "ordered_of dm = ds"
    using ordered_of_register_all [OF dm_inv_static] unfolding dm_def ds_def
    by (simp add: ordered_of_def driver_manager_static_def)
  with assms(2) inv obtain m where m: "deviceDrivers dm = Some m"
    by (auto simp: dm_inv_def ds_def [symmetric] ordered_of_def split: option.splits)
  have cmp: "stringCompare U (subsystemName d) (Some s) False = 0 \<longleftrightarrow> subsystemName d = Some s" for d
    using util_okD [OF assms(1)] by (cases "subsystemName d") auto
  have cls: "driverSupportsDeviceClass (Some d) c \<longleftrightarrow> (\<exists>cs. supportedDeviceClasses d = Some cs \<and> c \<in> set cs)" for d
    by (auto simp: driverSupportsDeviceClass_def list_ex_iff split: option.splits)
  have "snd (deviceDriverManagerStartDeviceDrivers dm) = map (\<lambda>d. DriverStartup (driverName d)) ds"
    by (simp add: deviceDriverManagerStartDeviceDrivers_def ord)
  moreover have "deviceDriverManagerGetDeviceDriver n dm = find (\<lambda>d. driverName d = Some n) ds"
    by (simp add: get_driver_first [OF inv] ord)
  moreover have "set (drivers_of dm) = {d \<in> set ds. first_of_name ds d}"
    by (simp add: drivers_of_first [OF inv] ord)
  moreover have "drivers_of dm = map snd m" by (simp add: drivers_of_def m)
  ultimately show ?thesis using distinct_drivers_of [OF inv]
    by (intro conjI exI [of _ "drivers_of dm"])
      (simp_all add: deviceDriverManagerShutdown_def deviceDriverManagerGetDeviceDriversByDeviceClass_def
        deviceDriverManagerGetDeviceDriversBySubsystem_def m cmp cls)
qed

definition example_driver :: "string \<Rightarrow> string \<Rightarrow> DeviceDriver" where
  "example_driver n s = \<lparr>driverName = Some n, subsystemName = Some s, supportedDeviceClasses = Some [''light''],
     customCommFail = False, drv_subsystemInitialized = True, communicationFailed = True,
     communicationRestored = True, commFailTimeoutSecsChanged = True, drv_destroy = False\<rparr>"

theorem registered_drivers_witness:
  "deviceDriverManagerGetDeviceDriver ''a''
     (register_all [Some (example_driver ''a'' ''zigbee''), None, Some (example_driver ''a'' ''matter'')]
        driver_manager_static) = Some (example_driver ''a'' ''zigbee'')"
  using registered_drivers [of example_util
      "[Some (example_driver ''a'' ''zigbee''), None, Some (example_driver ''a'' ''matter'')]" "''a''"]
  by (simp add: util_ok_example named_drivers_def example_driver_def)

end
