(* ===== verification/Subsystem_Manager.thy ===== *)
theory Subsystem_Manager
  imports Driver_Manager Json_Database
begin

text \<open>
  The subsystem manager, \<^verbatim>\<open>core/src/subsystemManager.c\<close>: registration of subsystems before and after
  initialisation, disabling by configuration, migration between versions recorded in the system
  properties of the database, readiness, and the callbacks.

  A subsystem is what its structure of function pointers makes of it: \<open>None\<close> is a \<^verbatim>\<open>NULL\<close> pointer. \<open>initialize\<close> and
  \<open>shutdown\<close> are given by the signals they send before they return (the code passes them
  \<^verbatim>\<open>onSubsystemInitialized\<close> and \<^verbatim>\<open>onSubsystemDeinitialized\<close>); later signals are operations of their own.
  Every call the manager makes is recorded in \<open>sm_trace\<close>. A registration whose mutex was destroyed
  while the table holds it is marked, and an operation returns \<open>None\<close> when it uses such a mutex or
  when an assertion fails (\<open>assertsEnabled\<close>). The locks make the parts of
  \<^verbatim>\<open>subsystemManagerInitialize\<close> between them atomic; they are separate definitions.
\<close>

section \<open>Data\<close>

datatype subsystem_signal = SignalInitialized cstr | SignalDeinitialized cstr

record Subsystem =
  migrate :: "(u16 \<Rightarrow> u16 \<Rightarrow> bool) option"
  initialize :: "subsystem_signal list option"
  shutdown :: "subsystem_signal list option"
  onAllDriversStarted :: bool
  onAllServicesAvailable :: bool
  onRestoreConfig :: "(string \<Rightarrow> string \<Rightarrow> bool) option"
  onPostRestoreConfig :: bool
  onLPMStart :: bool
  onLPMEnd :: bool
  setOtaUpgradeDelay :: bool
  getStatusJson :: "cstr option"
  sub_name :: cstr
  version :: u16

record SubsystemRegistration =
  subsystem :: Subsystem
  mtx_destroyed :: bool
  ready :: bool

datatype sm_event =
    Migrate string u16 u16 | Initialize string | Shutdown string | AllDriversStarted string
  | AllServicesAvailable string | RestoreConfig string | PostRestoreConfig string | LPMStart string
  | LPMEnd string | OtaUpgradeDelay string u32 | DriverSubsystemInitialized cstr | StatusEvent | ReadyForDevices

record 's subsystem_manager =
  subsystems :: "(string, SubsystemRegistration) hmap option"
  allDriversStarted :: bool
  readyForDevicesCB :: bool
  subsystemManagerInitialized :: bool
  preRegisteredSubsystems :: "Subsystem option list"
  sm_db :: "'s json_db"
  sm_trace :: "sm_event list"

text \<open>The components the manager calls, and the property \<^verbatim>\<open>device.subsystem.disable\<close>.\<close>

record ('j, 's) sm_env =
  sm_db_env :: "('j, 's) db_env"
  sm_util :: util_api
  sm_drivers :: driver_manager
  assertsEnabled :: bool
  disabledSubsystems :: cstr

definition emit :: "sm_event list \<Rightarrow> 's subsystem_manager \<Rightarrow> 's subsystem_manager" where
  "emit es s = s\<lparr>sm_trace := sm_trace s @ es\<rparr>"

text \<open>\<^verbatim>\<open>strstr\<close>.\<close>

definition strstr :: "string \<Rightarrow> string \<Rightarrow> bool" where
  "strstr haystack needle = list_ex (\<lambda>i. take (length needle) (drop i haystack) = needle) [0..<length haystack + 1]"

definition the_name :: "Subsystem \<Rightarrow> string" where
  "the_name sub = (case sub_name sub of None \<Rightarrow> [] | Some n \<Rightarrow> n)"

section \<open>Readiness\<close>

definition createSubsystemRegistration :: "Subsystem \<Rightarrow> SubsystemRegistration" where
  "createSubsystemRegistration sub = \<lparr>subsystem = sub, mtx_destroyed = False, ready = False\<rparr>"

definition sm_lookup :: "'s subsystem_manager \<Rightarrow> string \<Rightarrow> SubsystemRegistration option" where
  "sm_lookup s n = (case subsystems s of None \<Rightarrow> None | Some t \<Rightarrow> hashMapGet t n)"

definition set_ready :: "string \<Rightarrow> bool \<Rightarrow> 's subsystem_manager \<Rightarrow> 's subsystem_manager" where
  "set_ready n b s = s\<lparr>subsystems := map_option (\<lambda>t. hashMapUpdate t n (\<lambda>r. r\<lparr>ready := b\<rparr>)) (subsystems s)\<rparr>"

definition setSubsystemReadyLocked :: "cstr \<Rightarrow> bool \<Rightarrow> 's subsystem_manager \<Rightarrow> 's subsystem_manager option" where
  "setSubsystemReadyLocked sub isReady s =
     (case sub of None \<Rightarrow> Some s | Some n \<Rightarrow>
      (case sm_lookup s n of None \<Rightarrow> Some s
       | Some reg \<Rightarrow> if mtx_destroyed reg then None else Some (set_ready n isReady s)))"

text \<open>The loop stops at the first registration that is not ready.\<close>

fun all_ready :: "SubsystemRegistration list \<Rightarrow> bool option" where
  "all_ready [] = Some True"
| "all_ready (r # rs) = (if mtx_destroyed r then None else if ready r then all_ready rs else Some False)"

definition subsystemManagerIsReadyForDevices :: "'s subsystem_manager \<Rightarrow> bool option" where
  "subsystemManagerIsReadyForDevices s =
     (case subsystems s of None \<Rightarrow> Some False
      | Some t \<Rightarrow> map_option (\<lambda>allReady. allReady \<and> allDriversStarted s) (all_ready (map snd t)))"

definition subsystemManagerIsSubsystemReady :: "string \<Rightarrow> 's subsystem_manager \<Rightarrow> bool option" where
  "subsystemManagerIsSubsystemReady n s =
     (case sm_lookup s n of None \<Rightarrow> Some False
      | Some reg \<Rightarrow> if mtx_destroyed reg then None else Some (ready reg))"

definition notify_ready :: "'s subsystem_manager \<Rightarrow> 's subsystem_manager option" where
  "notify_ready s = do {
     r \<leftarrow> subsystemManagerIsReadyForDevices s;
     Some (if r \<and> readyForDevicesCB s then emit [ReadyForDevices] s else s) }"

definition onSubsystemInitialized :: "('j, 's) sm_env \<Rightarrow> cstr \<Rightarrow> 's subsystem_manager \<Rightarrow> 's subsystem_manager option" where
  "onSubsystemInitialized E sub s = do {
     s1 \<leftarrow> setSubsystemReadyLocked sub True s;
     let drivers = (case deviceDriverManagerGetDeviceDriversBySubsystem (sm_util E) sub (sm_drivers E) of
                      None \<Rightarrow> [] | Some ds \<Rightarrow> ds);
     let s2 = emit (map (\<lambda>d. DriverSubsystemInitialized (driverName d)) (filter drv_subsystemInitialized drivers)) s1;
     notify_ready (emit [StatusEvent] s2) }"

definition onSubsystemDeinitialized :: "cstr \<Rightarrow> 's subsystem_manager \<Rightarrow> 's subsystem_manager option" where
  "onSubsystemDeinitialized sub s = do {
     s1 \<leftarrow> setSubsystemReadyLocked sub False s;
     Some (emit [StatusEvent] s1) }"

fun run_signals :: "('j, 's) sm_env \<Rightarrow> subsystem_signal list \<Rightarrow> 's subsystem_manager \<Rightarrow> 's subsystem_manager option" where
  "run_signals E [] s = Some s"
| "run_signals E (SignalInitialized n # gs) s = do { s1 \<leftarrow> onSubsystemInitialized E n s; run_signals E gs s1 }"
| "run_signals E (SignalDeinitialized n # gs) s = do { s1 \<leftarrow> onSubsystemDeinitialized n s; run_signals E gs s1 }"

section \<open>Registration\<close>

text \<open>
  \<^verbatim>\<open>g_hash_table_insert\<close> on a present name releases the old registration, stores the new one and
  returns false; the code then destroys the registration it has just stored.
\<close>

fun registration_destroyed :: "SubsystemRegistration option \<Rightarrow> bool" where
  "registration_destroyed None = False"
| "registration_destroyed (Some reg) = mtx_destroyed reg"

definition subsystemManagerRegisterToTable ::
  "Subsystem option \<Rightarrow> (string, SubsystemRegistration) hmap \<Rightarrow> (string, SubsystemRegistration) hmap option" where
  "subsystemManagerRegisterToTable sub table =
     (case sub of None \<Rightarrow> Some table | Some d \<Rightarrow>
      (case (initialize d, sub_name d) of
         (Some _, Some n) \<Rightarrow>
           if registration_destroyed (hashMapGet table n) then None
           else (case hashTableInsert table n (createSubsystemRegistration d) of (fresh, t') \<Rightarrow>
             Some (if fresh then t' else hashMapUpdate t' n (\<lambda>r. r\<lparr>mtx_destroyed := True\<rparr>)))
       | _ \<Rightarrow> Some table))"

definition subsystemManagerRegister :: "Subsystem option \<Rightarrow> 's subsystem_manager \<Rightarrow> 's subsystem_manager option" where
  "subsystemManagerRegister sub s =
     (if \<not> subsystemManagerInitialized s
      then Some (s\<lparr>preRegisteredSubsystems := preRegisteredSubsystems s @ [sub]\<rparr>)
      else (case subsystems s of None \<Rightarrow> Some s
            | Some t \<Rightarrow> map_option (\<lambda>t'. s\<lparr>subsystems := Some t'\<rparr>) (subsystemManagerRegisterToTable sub t)))"

definition subsystemPreRegistrationDestroy :: "'s subsystem_manager \<Rightarrow> 's subsystem_manager" where
  "subsystemPreRegistrationDestroy s = s\<lparr>preRegisteredSubsystems := []\<rparr>"

definition subsystemManagerGetRegisteredSubsystems :: "'s subsystem_manager \<Rightarrow> string list" where
  "subsystemManagerGetRegisteredSubsystems s =
     (case subsystems s of None \<Rightarrow> [] | Some t \<Rightarrow> map (\<lambda>e. the_name (subsystem (snd e))) t)"

definition subsystemManagerGetSubsystemStatusJson :: "string \<Rightarrow> 's subsystem_manager \<Rightarrow> cstr option" where
  "subsystemManagerGetSubsystemStatusJson n s =
     (case sm_lookup s n of None \<Rightarrow> Some None
      | Some reg \<Rightarrow> if mtx_destroyed reg then None
          else Some (case getStatusJson (subsystem reg) of None \<Rightarrow> None | Some j \<Rightarrow> j))"

section \<open>Migration\<close>

definition deviceServiceGetSystemProperty :: "string \<Rightarrow> 's json_db \<Rightarrow> cstr" where
  "deviceServiceGetSystemProperty key db = jsonDatabaseGetSystemProperty key db"

definition deviceServiceSetSystemProperty :: "('j, 's) db_env \<Rightarrow> string \<Rightarrow> string \<Rightarrow> 's json_db \<Rightarrow> bool \<times> 's json_db" where
  "deviceServiceSetSystemProperty E key value db = jsonDatabaseSetSystemProperty E key value db"

definition version_key :: "string \<Rightarrow> string" where
  "version_key n = n @ ''SubsystemVersion''"

text \<open>The recorded version: 0 when there is none, and \<open>None\<close> when the text is not a number.\<close>

definition recorded_version :: "util_api \<Rightarrow> string \<Rightarrow> 's json_db \<Rightarrow> u16 option" where
  "recorded_version U n db =
     (case deviceServiceGetSystemProperty (version_key n) db of None \<Rightarrow> Some 0 | Some t \<Rightarrow> stringToUint16 U (Some t))"

definition checkSubsystemForMigration ::
  "('j, 's) sm_env \<Rightarrow> Subsystem \<Rightarrow> 's json_db \<Rightarrow> ('s json_db \<times> sm_event list) option" where
  "checkSubsystemForMigration E sub db =
     (case recorded_version (sm_util E) (the_name sub) db of
        None \<Rightarrow> Some (db, [])
      | Some old \<Rightarrow> do {
          (saveNewVersion, es) \<leftarrow>
            (if old < version sub then
               (case migrate sub of
                  None \<Rightarrow> if assertsEnabled E then None else Some (False, [])
                | Some f \<Rightarrow> Some (f old (version sub), [Migrate (the_name sub) old (version sub)]))
             else Some (\<not> old > version sub, []));
          Some (if saveNewVersion
                then snd (deviceServiceSetSystemProperty (sm_db_env E) (version_key (the_name sub))
                            (decimal (unat (version sub))) db)
                else db, es) })"

fun migrate_each :: "('j, 's) sm_env \<Rightarrow> Subsystem list \<Rightarrow> 's json_db \<Rightarrow> ('s json_db \<times> sm_event list) option" where
  "migrate_each E [] db = Some (db, [])"
| "migrate_each E (sub # subs) db = do {
     (db1, es1) \<leftarrow> checkSubsystemForMigration E sub db;
     (db2, es2) \<leftarrow> migrate_each E subs db1;
     Some (db2, es1 @ es2) }"

section \<open>Initialisation\<close>

definition removeDisabledSubsystemPredicate :: "string \<Rightarrow> SubsystemRegistration \<Rightarrow> bool" where
  "removeDisabledSubsystemPredicate disabled reg = strstr disabled (the_name (subsystem reg))"

text \<open>\<^verbatim>\<open>g_hash_table_foreach_remove\<close> destroys the registrations it removes.\<close>

definition remove_disabled ::
  "string \<Rightarrow> (string, SubsystemRegistration) hmap \<Rightarrow> (string, SubsystemRegistration) hmap option" where
  "remove_disabled disabled t =
     (if list_ex (\<lambda>e. removeDisabledSubsystemPredicate disabled (snd e) \<and> mtx_destroyed (snd e)) t then None
      else Some (filter (\<lambda>e. \<not> removeDisabledSubsystemPredicate disabled (snd e)) t))"

definition initializeSubsystemCallback ::
  "('j, 's) sm_env \<Rightarrow> string \<Rightarrow> 's subsystem_manager \<Rightarrow> 's subsystem_manager option" where
  "initializeSubsystemCallback E n s =
     (case sm_lookup s n of None \<Rightarrow> Some s
      | Some reg \<Rightarrow>
          if mtx_destroyed reg then None
          else let s1 = set_ready n False s
               in (case initialize (subsystem reg) of None \<Rightarrow> Some s1
                   | Some gs \<Rightarrow> run_signals E gs (emit [Initialize n] s1)))"

fun initialize_each :: "('j, 's) sm_env \<Rightarrow> string list \<Rightarrow> 's subsystem_manager \<Rightarrow> 's subsystem_manager option" where
  "initialize_each E [] s = Some s"
| "initialize_each E (n # ns) s = do { s1 \<leftarrow> initializeSubsystemCallback E n s; initialize_each E ns s1 }"

fun register_each ::
  "Subsystem option list \<Rightarrow> (string, SubsystemRegistration) hmap \<Rightarrow> (string, SubsystemRegistration) hmap option" where
  "register_each [] t = Some t"
| "register_each (d # ds) t = do { t1 \<leftarrow> subsystemManagerRegisterToTable d t; register_each ds t1 }"

text \<open>The first locked part: \<open>None\<close> when the manager is initialised and nothing is done.\<close>

definition init_steal :: "'s subsystem_manager \<Rightarrow> (Subsystem option list \<times> 's subsystem_manager) option" where
  "init_steal s =
     (if subsystemManagerInitialized s then None
      else Some (preRegisteredSubsystems s, s\<lparr>preRegisteredSubsystems := [], subsystems := None\<rparr>))"

text \<open>The part without a lock, on local data and the database.\<close>

definition init_build :: "('j, 's) sm_env \<Rightarrow> Subsystem option list \<Rightarrow> 's subsystem_manager \<Rightarrow>
    ((string, SubsystemRegistration) hmap \<times> 's subsystem_manager) option" where
  "init_build E pre s = do {
     t \<leftarrow> register_each pre [];
     t1 \<leftarrow> (case disabledSubsystems E of None \<Rightarrow> Some t | Some dis \<Rightarrow> remove_disabled dis t);
     (db, es) \<leftarrow> migrate_each E (map (subsystem \<circ> snd) t1) (sm_db s);
     Some (t1, emit es (s\<lparr>sm_db := db\<rparr>)) }"

text \<open>The second locked part and the initialisation of each subsystem under the read lock.\<close>

definition init_publish :: "bool \<Rightarrow> Subsystem option list \<Rightarrow> (string, SubsystemRegistration) hmap \<Rightarrow>
    's subsystem_manager \<Rightarrow> 's subsystem_manager" where
  "init_publish cb pre t s = s\<lparr>readyForDevicesCB := cb, subsystems := Some t, preRegisteredSubsystems := pre,
     subsystemManagerInitialized := True\<rparr>"

definition init_all :: "('j, 's) sm_env \<Rightarrow> 's subsystem_manager \<Rightarrow> 's subsystem_manager option" where
  "init_all E s = (case subsystems s of None \<Rightarrow> Some s | Some t \<Rightarrow> initialize_each E (map fst t) s)"

definition subsystemManagerInitialize ::
  "('j, 's) sm_env \<Rightarrow> bool \<Rightarrow> 's subsystem_manager \<Rightarrow> 's subsystem_manager option" where
  "subsystemManagerInitialize E cb s =
     (case init_steal s of None \<Rightarrow> Some s
      | Some (pre, s1) \<Rightarrow> do {
          (t, s2) \<leftarrow> init_build E pre s1;
          init_all E (init_publish cb pre t s2) })"

section \<open>Shutdown\<close>

text \<open>Destroying the table destroys the mutex of every registration.\<close>

fun shutdown_each :: "('j, 's) sm_env \<Rightarrow> (string, SubsystemRegistration) hmap \<Rightarrow> 's subsystem_manager \<Rightarrow> 's subsystem_manager option" where
  "shutdown_each E [] s = Some s"
| "shutdown_each E ((n, reg) # t) s =
     (if mtx_destroyed reg then None
      else do {
        s1 \<leftarrow> (case shutdown (subsystem reg) of None \<Rightarrow> Some s
               | Some gs \<Rightarrow> run_signals E gs (emit [Shutdown n] s));
        shutdown_each E t s1 })"

definition subsystemManagerShutdown :: "('j, 's) sm_env \<Rightarrow> 's subsystem_manager \<Rightarrow> 's subsystem_manager option" where
  "subsystemManagerShutdown E s =
     (if subsystemManagerInitialized s then
        (case subsystems s of None \<Rightarrow> Some (s\<lparr>subsystemManagerInitialized := False, readyForDevicesCB := False\<rparr>)
         | Some t \<Rightarrow> shutdown_each E t
             (s\<lparr>subsystems := None, subsystemManagerInitialized := False, readyForDevicesCB := False\<rparr>))
      else Some s)"

section \<open>Notifications\<close>

text \<open>\<^verbatim>\<open>g_hash_table_foreach\<close> over the table, with the calls it makes; nothing when there is no table.\<close>

definition notify_each :: "(string \<Rightarrow> Subsystem \<Rightarrow> sm_event list) \<Rightarrow> 's subsystem_manager \<Rightarrow> 's subsystem_manager" where
  "notify_each f s = (case subsystems s of None \<Rightarrow> s
     | Some t \<Rightarrow> emit (concat (map (\<lambda>e. f (the_name (subsystem (snd e))) (subsystem (snd e))) t)) s)"

definition notifyAllDriversStartedCallback :: "string \<Rightarrow> Subsystem \<Rightarrow> sm_event list" where
  "notifyAllDriversStartedCallback n sub = (if onAllDriversStarted sub then [AllDriversStarted n] else [])"

definition notifyAllServicesAvailableCallback :: "string \<Rightarrow> Subsystem \<Rightarrow> sm_event list" where
  "notifyAllServicesAvailableCallback n sub = (if onAllServicesAvailable sub then [AllServicesAvailable n] else [])"

definition notifyPostRestoreConfigCallback :: "string \<Rightarrow> Subsystem \<Rightarrow> sm_event list" where
  "notifyPostRestoreConfigCallback n sub = (if onPostRestoreConfig sub then [PostRestoreConfig n] else [])"

definition notifyLPMStartCallback :: "string \<Rightarrow> Subsystem \<Rightarrow> sm_event list" where
  "notifyLPMStartCallback n sub = (if onLPMStart sub then [LPMStart n] else [])"

definition notifyLPMEndCallback :: "string \<Rightarrow> Subsystem \<Rightarrow> sm_event list" where
  "notifyLPMEndCallback n sub = (if onLPMEnd sub then [LPMEnd n] else [])"

definition setOtaUpgradeDelayCallback :: "u32 \<Rightarrow> string \<Rightarrow> Subsystem \<Rightarrow> sm_event list" where
  "setOtaUpgradeDelayCallback delaySeconds n sub =
     (if setOtaUpgradeDelay sub then [OtaUpgradeDelay n delaySeconds] else [])"

definition subsystemManagerAllDriversStarted :: "'s subsystem_manager \<Rightarrow> 's subsystem_manager option" where
  "subsystemManagerAllDriversStarted s =
     (case subsystems s of None \<Rightarrow> Some s
      | Some _ \<Rightarrow>
          notify_ready ((notify_each notifyAllDriversStartedCallback s)
            \<lparr>allDriversStarted := True\<rparr>))"

definition subsystemManagerAllServicesAvailable :: "'s subsystem_manager \<Rightarrow> 's subsystem_manager" where
  "subsystemManagerAllServicesAvailable =
     notify_each notifyAllServicesAvailableCallback"

definition subsystemManagerPostRestoreConfig :: "'s subsystem_manager \<Rightarrow> 's subsystem_manager" where
  "subsystemManagerPostRestoreConfig =
     notify_each notifyPostRestoreConfigCallback"

definition subsystemManagerSetOtaUpgradeDelay :: "u32 \<Rightarrow> 's subsystem_manager \<Rightarrow> 's subsystem_manager" where
  "subsystemManagerSetOtaUpgradeDelay delaySeconds =
     notify_each (setOtaUpgradeDelayCallback delaySeconds)"

definition subsystemManagerEnterLPM :: "'s subsystem_manager \<Rightarrow> 's subsystem_manager" where
  "subsystemManagerEnterLPM = notify_each notifyLPMStartCallback"

definition subsystemManagerExitLPM :: "'s subsystem_manager \<Rightarrow> 's subsystem_manager" where
  "subsystemManagerExitLPM = notify_each notifyLPMEndCallback"

fun restore_each :: "string \<Rightarrow> string \<Rightarrow> Subsystem list \<Rightarrow> bool \<Rightarrow> bool \<times> sm_event list" where
  "restore_each src cfg [] result = (result, [])"
| "restore_each src cfg (sub # subs) result =
     (case onRestoreConfig sub of None \<Rightarrow> restore_each src cfg subs result
      | Some f \<Rightarrow> (case restore_each src cfg subs (result \<and> f src cfg) of (r, es) \<Rightarrow>
          (r, RestoreConfig (the_name sub) # es)))"

definition subsystemManagerRestoreConfig ::
  "string \<Rightarrow> string \<Rightarrow> 's subsystem_manager \<Rightarrow> bool \<times> 's subsystem_manager" where
  "subsystemManagerRestoreConfig tempRestoreDir dynamicConfigPath s =
     (case subsystems s of None \<Rightarrow> (False, s)
      | Some t \<Rightarrow> (case restore_each tempRestoreDir dynamicConfigPath (map (subsystem \<circ> snd) t) True of
          (r, es) \<Rightarrow> (r, emit es s)))"

end
