(* ===== verification/Subsystem_Manager_Props.thy ===== *)
theory Subsystem_Manager_Props
  imports Subsystem_Manager Json_Database_Props
begin

text \<open>
  Theorems on the subsystem manager of \<open>Subsystem_Manager\<close>. The interface of the property store it
  records versions in is the locale \<open>version_store\<close>, interpreted on the database; a step relation gives
  the states reachable before the first shutdown.
\<close>

section \<open>The property store\<close>

locale property_store =
  fixes getp :: "string \<Rightarrow> 'd \<Rightarrow> cstr"
    and setp :: "string \<Rightarrow> string \<Rightarrow> 'd \<Rightarrow> 'd"
  assumes get_set: "getp k (setp k v d) = Some v"
    and get_set_other: "k' \<noteq> k \<Longrightarrow> getp k' (setp k v d) = getp k' d"
begin

lemma get_set_if: "getp k' (setp k v d) = (if k' = k then Some v else getp k' d)"
  by (simp add: get_set get_set_other)

lemma set_set_get: "getp k (setp k v (setp k' v' d)) = Some v"
  by (simp add: get_set)

end

interpretation dbprops: property_store deviceServiceGetSystemProperty
  "\<lambda>k v db. snd (deviceServiceSetSystemProperty E k v db)" for E :: "('j, 's) db_env"
proof (unfold_locales, goal_cases)
  case (1 k v d)
  have "fst (hashMapPut (snd (hashMapDelete (systemProperties d) k)) k v)"
    by (simp add: hmap_simps)
  then show ?case
    by (auto simp: deviceServiceGetSystemProperty_def deviceServiceSetSystemProperty_def
        jsonDatabaseSetSystemProperty_def jsonDatabaseGetSystemProperty_def saveSystemProperties_def hmap_simps
        split: prod.splits bool.splits)
     (metis hashMapGet_hashMapPut hashMapGet_hashMapDelete snd_conv)+
next
  case (2 k' k v d)
  then show ?case
    by (auto simp: deviceServiceGetSystemProperty_def deviceServiceSetSystemProperty_def
        jsonDatabaseSetSystemProperty_def jsonDatabaseGetSystemProperty_def saveSystemProperties_def hmap_simps
        split: prod.splits bool.splits)
     (metis hashMapGet_hashMapPut hashMapGet_hashMapDelete snd_conv)+
qed

section \<open>Migration\<close>

text \<open>Consecutive starts of the service with the same subsystems.\<close>

fun migrate_starts :: "('j, 's) sm_env \<Rightarrow> Subsystem list \<Rightarrow> nat \<Rightarrow> 's json_db \<Rightarrow> ('s json_db \<times> sm_event list) option" where
  "migrate_starts E subs 0 db = Some (db, [])"
| "migrate_starts E subs (Suc k) db = do {
     (db1, es1) \<leftarrow> migrate_each E subs db;
     (db2, es2) \<leftarrow> migrate_starts E subs k db1;
     Some (db2, es1 @ es2) }"

text \<open>What one start does with a recorded version, and the version it leaves.\<close>

definition migration_of :: "Subsystem \<Rightarrow> u16 option \<Rightarrow> sm_event list" where
  "migration_of sub old = (case old of None \<Rightarrow> []
     | Some v \<Rightarrow> if v < version sub then [Migrate (the_name sub) v (version sub)] else [])"

definition next_version :: "Subsystem \<Rightarrow> u16 \<Rightarrow> u16" where
  "next_version sub old =
     (if old < version sub \<and> (\<exists>f. migrate sub = Some f \<and> f old (version sub)) then version sub else old)"

definition migratable :: "Subsystem \<Rightarrow> bool" where
  "migratable sub \<longleftrightarrow> version sub \<noteq> 0 \<longrightarrow> migrate sub \<noteq> None"

definition inits :: "sm_event list \<Rightarrow> string list" where
  "inits es = concat (map (\<lambda>e. case e of Initialize n \<Rightarrow> [n] | _ \<Rightarrow> []) es)"

definition migrations_of :: "string \<Rightarrow> sm_event list \<Rightarrow> sm_event list" where
  "migrations_of n = filter (\<lambda>e. case e of Migrate m _ _ \<Rightarrow> m = n | _ \<Rightarrow> False)"

lemma version_key_inj [simp]: "version_key n = version_key m \<longleftrightarrow> n = m"
  by (simp add: version_key_def)

lemma recorded_version_set:
  assumes "decimal_ok U"
  shows "recorded_version U m (snd (deviceServiceSetSystemProperty E (version_key n) (decimal (unat v)) db)) =
     (if m = n then Some v else recorded_version U m db)"
  using assms by (simp add: recorded_version_def dbprops.get_set_if decimal_ok_def)

lemma check_spec:
  assumes "decimal_ok (sm_util E)" "migratable sub"
  obtains db' where
    "checkSubsystemForMigration E sub db =
       Some (db', migration_of sub (recorded_version (sm_util E) (the_name sub) db))"
    "\<And>n. recorded_version (sm_util E) n db' =
       (if n = the_name sub then map_option (next_version sub) (recorded_version (sm_util E) n db)
        else recorded_version (sm_util E) n db)"
proof (cases "recorded_version (sm_util E) (the_name sub) db")
  case None
  then show ?thesis
    by (intro that [of db]) (auto simp: checkSubsystemForMigration_def migration_of_def)
next
  case (Some old)
  let ?set = "snd (deviceServiceSetSystemProperty (sm_db_env E) (version_key (the_name sub))
                 (decimal (unat (version sub))) db)"
  consider (low) "old < version sub" | (same) "old = version sub" | (high) "old > version sub"
    by (rule linorder_cases)
  then show ?thesis
  proof cases
    case low
    with assms(2) obtain f where f: "migrate sub = Some f" by (auto simp: migratable_def)
    show ?thesis using Some low f
      by (intro that [of "if f old (version sub) then ?set else db"])
        (auto simp: checkSubsystemForMigration_def migration_of_def next_version_def
          recorded_version_set [OF assms(1)])
  next
    case same
    show ?thesis using Some same
      by (intro that [of ?set]) (auto simp: checkSubsystemForMigration_def migration_of_def next_version_def
          recorded_version_set [OF assms(1)])
  next
    case high
    then show ?thesis using Some
      by (intro that [of db]) (auto simp: checkSubsystemForMigration_def migration_of_def next_version_def)
  qed
qed

lemma migrate_each_spec:
  assumes "decimal_ok (sm_util E)" "list_all migratable subs" "distinct (map the_name subs)"
  shows "\<exists>db'. migrate_each E subs db =
       Some (db', concat (map (\<lambda>sub. migration_of sub (recorded_version (sm_util E) (the_name sub) db)) subs)) \<and>
     (\<forall>sub \<in> set subs. recorded_version (sm_util E) (the_name sub) db' =
        map_option (next_version sub) (recorded_version (sm_util E) (the_name sub) db)) \<and>
     (\<forall>n. n \<notin> the_name ` set subs \<longrightarrow>
        recorded_version (sm_util E) n db' = recorded_version (sm_util E) n db)"
  using assms(2, 3)
proof (induction subs arbitrary: db)
  case (Cons sub subs)
  from Cons.prems have "migratable sub" by simp
  from check_spec [OF assms(1) this] obtain db1 where 1:
    "checkSubsystemForMigration E sub db =
       Some (db1, migration_of sub (recorded_version (sm_util E) (the_name sub) db))"
    "\<And>n. recorded_version (sm_util E) n db1 =
       (if n = the_name sub then map_option (next_version sub) (recorded_version (sm_util E) n db)
        else recorded_version (sm_util E) n db)" by blast
  from Cons.IH [of db1] Cons.prems obtain db2 where 2:
    "migrate_each E subs db1 =
       Some (db2, concat (map (\<lambda>sub. migration_of sub (recorded_version (sm_util E) (the_name sub) db1)) subs))"
    "\<forall>sub \<in> set subs. recorded_version (sm_util E) (the_name sub) db2 =
        map_option (next_version sub) (recorded_version (sm_util E) (the_name sub) db1)"
    "\<forall>n. n \<notin> the_name ` set subs \<longrightarrow>
        recorded_version (sm_util E) n db2 = recorded_version (sm_util E) n db1" by auto
  have fresh: "the_name x \<noteq> the_name sub" if "x \<in> set subs" for x
    using Cons.prems(2) that by (force simp: image_iff)
  have eq: "map (\<lambda>x. migration_of x (recorded_version (sm_util E) (the_name x) db1)) subs =
        map (\<lambda>x. migration_of x (recorded_version (sm_util E) (the_name x) db)) subs"
    by (intro map_cong) (auto simp: 1(2) fresh)
  have "migrate_each E (sub # subs) db =
      Some (db2, concat (map (\<lambda>sub. migration_of sub (recorded_version (sm_util E) (the_name sub) db)) (sub # subs)))"
    using 1(1) 2(1) [unfolded eq] by simp
  moreover have "recorded_version (sm_util E) (the_name sub) db2 = recorded_version (sm_util E) (the_name sub) db1"
    using 2(3) Cons.prems(2) by simp
  ultimately show ?case
    by (intro exI [of _ db2]) (auto simp: 1(2) 2(2, 3) fresh)
qed simp

lemma migrations_of_concat:
  assumes "distinct (map the_name subs)" "sub \<in> set subs"
  shows "migrations_of (the_name sub) (concat (map (\<lambda>x. migration_of x (g x)) subs)) = migration_of sub (g sub)"
  using assms
proof (induction subs)
  case (Cons x subs)
  have none: "migrations_of n (concat (map (\<lambda>x. migration_of x (g x)) xs)) = []"
    if "n \<notin> the_name ` set xs" for n xs
    using that by (induction xs) (auto simp: migrations_of_def migration_of_def split: option.splits)
  have own: "migrations_of (the_name x) (migration_of x y) = migration_of x y"
    and other: "n \<noteq> the_name x \<Longrightarrow> migrations_of n (migration_of x y) = []" for x y n
    by (auto simp: migrations_of_def migration_of_def split: option.splits)
  have app: "migrations_of n (as @ bs) = migrations_of n as @ migrations_of n bs" for n as bs
    by (simp add: migrations_of_def)
  have "sub \<in> set subs \<Longrightarrow> the_name sub \<noteq> the_name x" using Cons.prems(1) by (force simp: image_iff)
  then show ?case using Cons none [of "the_name x" subs] by (auto simp: app own other)
qed simp

lemma migrations_no_inits: "inits (concat (map (\<lambda>x. migration_of x (g x)) subs)) = []"
  by (induction subs) (auto simp: inits_def migration_of_def split: option.splits)

lemma next_version_migration:
  "migration_of sub (Some (next_version sub old)) =
     (if next_version sub old = version sub then [] else migration_of sub (Some old))"
  by (auto simp: next_version_def migration_of_def)

lemma next_version_twice: "next_version sub (next_version sub old) = next_version sub old"
  by (auto simp: next_version_def)

lemma migrate_starts_spec:
  assumes "decimal_ok (sm_util E)" "list_all migratable subs" "distinct (map the_name subs)" "sub \<in> set subs"
    "recorded_version (sm_util E) (the_name sub) db = Some old"
  shows "\<exists>db' es. migrate_starts E subs (Suc k) db = Some (db', es) \<and>
     recorded_version (sm_util E) (the_name sub) db' = Some (next_version sub old) \<and>
     migrations_of (the_name sub) es =
       migration_of sub (Some old) @ concat (replicate k (migration_of sub (Some (next_version sub old))))"
  using assms(5)
proof (induction k arbitrary: db old)
  case 0
  from migrate_each_spec [OF assms(1-3), of db] obtain db1 where
    "migrate_each E subs db =
       Some (db1, concat (map (\<lambda>sub. migration_of sub (recorded_version (sm_util E) (the_name sub) db)) subs))"
    "recorded_version (sm_util E) (the_name sub) db1 = map_option (next_version sub) (Some old)"
    using assms(4) 0 by force
  then show ?case using migrations_of_concat [OF assms(3, 4)] 0 by auto
next
  case (Suc k)
  from migrate_each_spec [OF assms(1-3), of db] obtain db1 where 1:
    "migrate_each E subs db =
       Some (db1, concat (map (\<lambda>sub. migration_of sub (recorded_version (sm_util E) (the_name sub) db)) subs))"
    "recorded_version (sm_util E) (the_name sub) db1 = Some (next_version sub old)"
    using assms(4) Suc.prems by force
  from Suc.IH [OF 1(2)] obtain db2 es where 2: "migrate_starts E subs (Suc k) db1 = Some (db2, es)"
    "recorded_version (sm_util E) (the_name sub) db2 = Some (next_version sub old)"
    "migrations_of (the_name sub) es = migration_of sub (Some (next_version sub old)) @
       concat (replicate k (migration_of sub (Some (next_version sub old))))"
    by (auto simp: next_version_twice)
  have "migrate_starts E subs (Suc (Suc k)) db = Some (db2,
     concat (map (\<lambda>sub. migration_of sub (recorded_version (sm_util E) (the_name sub) db)) subs) @ es)"
    using 1(1) 2(1) migrate_starts.simps(2) [of E subs "Suc k" db] by (simp del: migrate_starts.simps)
  moreover have "migrations_of n (as @ bs) = migrations_of n as @ migrations_of n bs" for n as bs
    by (simp add: migrations_of_def)
  ultimately show ?case using 2 migrations_of_concat [OF assms(3, 4)] Suc.prems by auto
qed

section \<open>Readiness\<close>

text \<open>
  The steps of the manager before the first shutdown, with a callback for readiness. Each is a whole
  function; what happens between the locks a function takes is not split further.
\<close>

inductive sm_step :: "('j, 's) sm_env \<Rightarrow> 's subsystem_manager \<Rightarrow> 's subsystem_manager \<Rightarrow> bool" for E where
  register: "subsystemManagerRegister d s = Some t \<Longrightarrow> sm_step E s t"
| initialize: "subsystemManagerInitialize E True s = Some t \<Longrightarrow> sm_step E s t"
| initialized: "onSubsystemInitialized E n s = Some t \<Longrightarrow> sm_step E s t"
| deinitialized: "onSubsystemDeinitialized n s = Some t \<Longrightarrow> sm_step E s t"
| drivers_started: "subsystemManagerAllDriversStarted s = Some t \<Longrightarrow> sm_step E s t"
| services_available: "sm_step E s (subsystemManagerAllServicesAvailable s)"
| low_power: "t = subsystemManagerEnterLPM s \<or> t = subsystemManagerExitLPM s \<Longrightarrow> sm_step E s t"

definition sm_static :: "'s json_db \<Rightarrow> 's subsystem_manager" where
  "sm_static db = \<lparr>subsystems = None, allDriversStarted = False, readyForDevicesCB = False,
     subsystemManagerInitialized = False, preRegisteredSubsystems = [], sm_db = db, sm_trace = []\<rparr>"

inductive sm_reach :: "('j, 's) sm_env \<Rightarrow> 's json_db \<Rightarrow> 's subsystem_manager \<Rightarrow> bool" for E db where
  start: "sm_reach E db (sm_static db)"
| step: "sm_reach E db s \<Longrightarrow> sm_step E s t \<Longrightarrow> sm_reach E db t"

definition ready_inv :: "'s subsystem_manager \<Rightarrow> bool" where
  "ready_inv s \<longleftrightarrow>
     subsystemManagerInitialized s = (subsystems s \<noteq> None) \<and>
     readyForDevicesCB s = (subsystems s \<noteq> None) \<and>
     (subsystems s = None \<longrightarrow> \<not> allDriversStarted s) \<and>
     (ReadyForDevices \<in> set (sm_trace s) \<longrightarrow> allDriversStarted s) \<and>
     (subsystemManagerIsReadyForDevices s = Some True \<longrightarrow> ReadyForDevices \<in> set (sm_trace s))"

lemma emit_simps [simp]:
  "subsystems (emit es s) = subsystems s" "allDriversStarted (emit es s) = allDriversStarted s"
  "readyForDevicesCB (emit es s) = readyForDevicesCB s" "sm_trace (emit es s) = sm_trace s @ es"
  "subsystemManagerInitialized (emit es s) = subsystemManagerInitialized s"
  "preRegisteredSubsystems (emit es s) = preRegisteredSubsystems s" "sm_db (emit es s) = sm_db s"
  by (simp_all add: emit_def)

lemma set_ready_simps [simp]:
  "allDriversStarted (set_ready n b s) = allDriversStarted s"
  "readyForDevicesCB (set_ready n b s) = readyForDevicesCB s" "sm_trace (set_ready n b s) = sm_trace s"
  "subsystemManagerInitialized (set_ready n b s) = subsystemManagerInitialized s"
  "preRegisteredSubsystems (set_ready n b s) = preRegisteredSubsystems s" "sm_db (set_ready n b s) = sm_db s"
  "subsystems (set_ready n b s) = map_option (\<lambda>t. hashMapUpdate t n (\<lambda>r. r\<lparr>ready := b\<rparr>)) (subsystems s)"
  by (simp_all add: set_ready_def)

lemma all_ready_iff: "all_ready rs = Some True \<longleftrightarrow> (\<forall>r \<in> set rs. ready r \<and> \<not> mtx_destroyed r)"
  by (induction rs) auto

lemma IsReadyForDevices_iff:
  "subsystemManagerIsReadyForDevices s = Some True \<longleftrightarrow>
     allDriversStarted s \<and> (\<exists>t. subsystems s = Some t \<and> (\<forall>r \<in> snd ` set t. ready r \<and> \<not> mtx_destroyed r))"
proof (cases "subsystems s")
  case (Some t)
  have "all_ready (map snd t) = Some True \<longleftrightarrow> (\<forall>r \<in> snd ` set t. ready r \<and> \<not> mtx_destroyed r)"
    by (simp add: all_ready_iff)
  with Some show ?thesis
    by (cases "all_ready (map snd t)") (auto simp: subsystemManagerIsReadyForDevices_def)
qed (simp add: subsystemManagerIsReadyForDevices_def)

text \<open>
  What the callbacks leave of the rest of the state: \<open>phase ns s t\<close> holds of the states they connect
  when the subsystems \<open>ns\<close> are initialised in between.
\<close>

definition phase :: "string list \<Rightarrow> 's subsystem_manager \<Rightarrow> 's subsystem_manager \<Rightarrow> bool" where
  "phase ns s t \<longleftrightarrow>
     subsystemManagerInitialized t = subsystemManagerInitialized s \<and>
     readyForDevicesCB t = readyForDevicesCB s \<and> allDriversStarted t = allDriversStarted s \<and>
     preRegisteredSubsystems t = preRegisteredSubsystems s \<and> sm_db t = sm_db s \<and>
     map_option (map fst) (subsystems t) = map_option (map fst) (subsystems s) \<and>
     map_option (map (subsystem \<circ> snd)) (subsystems t) = map_option (map (subsystem \<circ> snd)) (subsystems s) \<and>
     map_option (map (mtx_destroyed \<circ> snd)) (subsystems t) = map_option (map (mtx_destroyed \<circ> snd)) (subsystems s) \<and>
     (\<exists>es. sm_trace t = sm_trace s @ es \<and> (ReadyForDevices \<in> set es \<longrightarrow> allDriversStarted s) \<and> inits es = ns)"

lemma inits_simps [simp]:
  "inits [] = []" "inits (e # es) = (case e of Initialize n \<Rightarrow> n # inits es | _ \<Rightarrow> inits es)"
  "inits (es @ fs) = inits es @ inits fs"
  by (auto simp: inits_def split: sm_event.splits)

lemma phase_refl [simp]: "phase [] s s"
  by (simp add: phase_def)

lemma phase_table_exists: "phase ns s t \<Longrightarrow> subsystems t = None \<longleftrightarrow> subsystems s = None"
  unfolding phase_def by (metis option.map_disc_iff)

lemma phase_append: "phase ns s t \<Longrightarrow> phase ms t u \<Longrightarrow> phase (ns @ ms) s u"
  by (auto simp: phase_def)

lemma phase_trans [trans]: "phase [] s t \<Longrightarrow> phase [] t u \<Longrightarrow> phase [] s u"
  using phase_append [of "[]" s t "[]" u] by simp

lemma hashMapUpdate_field:
  "(\<And>r. f (g r) = f r) \<Longrightarrow> map (f \<circ> snd) (hashMapUpdate t n g) = map (f \<circ> snd) t"
  by (induction t n g rule: hashMapUpdate.induct) auto

lemma phase_set_ready [simp]: "phase [] s (set_ready n b s)"
  by (cases "subsystems s") (auto simp: phase_def hashMapUpdate_field)

lemma phase_emit: "ReadyForDevices \<notin> set es \<Longrightarrow> phase (inits es) s (emit es s)"
  by (auto simp: phase_def)

lemma phase_notify_ready:
  assumes "notify_ready s = Some t"
  shows "phase [] s t"
  using assms IsReadyForDevices_iff [of s]
  by (auto simp: notify_ready_def phase_def split: Option.bind_splits if_splits)

lemma phase_setReady: "setSubsystemReadyLocked n b s = Some t \<Longrightarrow> phase [] s t"
  by (auto simp: setSubsystemReadyLocked_def split: option.splits if_splits)

text \<open>The trace grows without the callback.\<close>

definition quiet :: "'s subsystem_manager \<Rightarrow> 's subsystem_manager \<Rightarrow> bool" where
  "quiet s t \<longleftrightarrow> (\<exists>es. sm_trace t = sm_trace s @ es \<and> ReadyForDevices \<notin> set es)"

lemma setReady_trace: "setSubsystemReadyLocked n b s = Some t \<Longrightarrow> sm_trace t = sm_trace s"
  by (auto simp: setSubsystemReadyLocked_def split: option.splits if_splits)

lemma onSubsystemInitializedE:
  assumes "onSubsystemInitialized E n s = Some t"
  obtains s3 where "phase [] s s3" "notify_ready s3 = Some t" "quiet s s3"
proof -
  let ?ds = "filter drv_subsystemInitialized
    (case deviceDriverManagerGetDeviceDriversBySubsystem (sm_util E) n (sm_drivers E) of None \<Rightarrow> [] | Some ds \<Rightarrow> ds)"
  let ?es = "map (\<lambda>d. DriverSubsystemInitialized (driverName d)) ?ds"
  from assms obtain s1 where 1: "setSubsystemReadyLocked n True s = Some s1"
    "notify_ready (emit [StatusEvent] (emit ?es s1)) = Some t"
    by (auto simp: onSubsystemInitialized_def Let_def split: Option.bind_splits)
  have "phase [] s1 (emit (map (\<lambda>d. DriverSubsystemInitialized (driverName d)) ds) s1)" for ds
  proof -
    have "inits (map (\<lambda>d. DriverSubsystemInitialized (driverName d)) ds) = []" by (induction ds) auto
    then show ?thesis using phase_emit [of "map (\<lambda>d. DriverSubsystemInitialized (driverName d)) ds" s1] by auto
  qed
  then have "phase [] s (emit ?es s1)" using phase_trans [OF phase_setReady [OF 1(1)]] by blast
  moreover have "phase [] (emit ?es s1) (emit [StatusEvent] (emit ?es s1))"
    using phase_emit [of "[StatusEvent]" "emit ?es s1"] by simp
  ultimately have "phase [] s (emit [StatusEvent] (emit ?es s1))" by (rule phase_trans)
  moreover have "quiet s (emit [StatusEvent] (emit ?es s1))" using setReady_trace [OF 1(1)] by (auto simp: quiet_def)
  ultimately show thesis using 1(2) by (intro that)
qed

lemma phase_initialized: "onSubsystemInitialized E n s = Some t \<Longrightarrow> phase [] s t"
  by (erule onSubsystemInitializedE) (blast intro: phase_trans phase_notify_ready)

lemma onSubsystemDeinitializedE:
  assumes "onSubsystemDeinitialized n s = Some t"
  obtains s1 where "setSubsystemReadyLocked n False s = Some s1" "t = emit [StatusEvent] s1"
  using assms by (auto simp: onSubsystemDeinitialized_def split: Option.bind_splits)

lemma phase_deinitialized: "onSubsystemDeinitialized n s = Some t \<Longrightarrow> phase [] s t"
  using phase_emit [of "[StatusEvent]"]
  by (auto elim!: onSubsystemDeinitializedE intro: phase_trans [OF phase_setReady])

lemma phase_signals: "run_signals E gs s = Some t \<Longrightarrow> phase [] s t"
  by (induction E gs s rule: run_signals.induct)
    (auto split: Option.bind_splits dest!: phase_initialized phase_deinitialized intro: phase_trans)

section \<open>Well-formed tables\<close>

definition reg_ok :: "string \<times> SubsystemRegistration \<Rightarrow> bool" where
  "reg_ok e \<longleftrightarrow> sub_name (subsystem (snd e)) = Some (fst e) \<and> initialize (subsystem (snd e)) \<noteq> None"

text \<open>The names of the table, and what \<open>phase\<close> keeps of it.\<close>

definition table_of :: "'s subsystem_manager \<Rightarrow> (string \<times> Subsystem) list" where
  "table_of s = (case subsystems s of None \<Rightarrow> [] | Some t \<Rightarrow> map (\<lambda>e. (fst e, subsystem (snd e))) t)"

definition no_destroyed :: "'s subsystem_manager \<Rightarrow> bool" where
  "no_destroyed s \<longleftrightarrow> (\<forall>t. subsystems s = Some t \<longrightarrow> (\<forall>r \<in> snd ` set t. \<not> mtx_destroyed r))"

lemma table_zip: "map (\<lambda>e. (fst e, f (snd e))) t = zip (map fst t) (map (f \<circ> snd) t)"
  by (induction t) auto

lemma phase_table: "phase ns s t \<Longrightarrow> table_of t = table_of s"
  by (auto simp: phase_def table_of_def table_zip split: option.splits)

lemma no_destroyed_alt:
  "no_destroyed s \<longleftrightarrow>
     (case map_option (map (mtx_destroyed \<circ> snd)) (subsystems s) of None \<Rightarrow> True | Some bs \<Rightarrow> True \<notin> set bs)"
  by (force simp: no_destroyed_def split: option.splits)

lemma phase_no_destroyed:
  assumes "phase ns s t"
  shows "no_destroyed t = no_destroyed s"
proof -
  have "map_option (map (mtx_destroyed \<circ> snd)) (subsystems t) = map_option (map (mtx_destroyed \<circ> snd)) (subsystems s)"
    using assms by (simp add: phase_def)
  then show ?thesis unfolding no_destroyed_alt by simp
qed

lemma sm_lookup_table:
  "map_option subsystem (sm_lookup s n) = map_of (table_of s) n"
proof -
  have "map_option subsystem (map_of t n) = map_of (map (\<lambda>e. (fst e, subsystem (snd e))) t) n"
    for t :: "(string \<times> SubsystemRegistration) list"
    by (induction t) auto
  then show ?thesis by (simp add: sm_lookup_def table_of_def hashMapGet_def split: option.splits)
qed

lemma sm_lookup_no_destroyed: "no_destroyed s \<Longrightarrow> sm_lookup s n = Some reg \<Longrightarrow> \<not> mtx_destroyed reg"
  by (force simp: sm_lookup_def no_destroyed_def hashMapGet_def dest: map_of_SomeD split: option.splits)

lemma notify_ready_total:
  assumes "no_destroyed s"
  shows "\<exists>t. notify_ready s = Some t"
proof -
  have "\<exists>b. all_ready rs = Some b" if "\<forall>r \<in> set rs. \<not> mtx_destroyed r" for rs
    using that by (induction rs) auto
  then have "\<exists>b. subsystemManagerIsReadyForDevices s = Some b"
    using assms by (cases "subsystems s") (auto simp: no_destroyed_def subsystemManagerIsReadyForDevices_def)
  then show ?thesis by (auto simp: notify_ready_def)
qed

lemma no_destroyed_emit [simp]: "no_destroyed (emit es s) = no_destroyed s"
  by (simp add: no_destroyed_def)

lemma setReady_total: "no_destroyed s \<Longrightarrow> \<exists>t. setSubsystemReadyLocked n b s = Some t"
  using sm_lookup_no_destroyed [of s] by (auto simp: setSubsystemReadyLocked_def split: option.splits)

lemma initialized_total:
  assumes "no_destroyed s"
  shows "\<exists>t. onSubsystemInitialized E n s = Some t"
proof -
  from setReady_total [OF assms] obtain s1 where 1: "setSubsystemReadyLocked n True s = Some s1" by blast
  then have "\<exists>t. notify_ready (emit fs (emit es s1)) = Some t" for es fs
    using phase_no_destroyed [OF phase_setReady [OF 1]] assms by (intro notify_ready_total) simp
  with 1 show ?thesis by (simp add: onSubsystemInitialized_def Let_def)
qed

lemma signals_total: "no_destroyed s \<Longrightarrow> \<exists>t. run_signals E gs s = Some t"
proof (induction E gs s rule: run_signals.induct)
  case (2 E n gs s)
  then show ?case using initialized_total [of s E n] phase_no_destroyed [OF phase_initialized] by fastforce
next
  case (3 E n gs s)
  from setReady_total [OF 3(2), of n False] obtain t where "onSubsystemDeinitialized n s = Some t"
    by (auto simp: onSubsystemDeinitialized_def)
  with 3 show ?case using phase_no_destroyed [OF phase_deinitialized] by fastforce
qed simp

lemma initializeSubsystemCallback_spec:
  assumes "no_destroyed s" "map_of (table_of s) n = Some sub" "initialize sub \<noteq> None"
  shows "\<exists>t. initializeSubsystemCallback E n s = Some t \<and> phase [n] s t"
proof -
  from assms obtain reg where reg: "sm_lookup s n = Some reg" "subsystem reg = sub"
    using sm_lookup_table [of s n] by auto
  from assms(3) obtain gs where gs: "initialize sub = Some gs" by auto
  have s1: "phase [n] s (emit [Initialize n] (set_ready n False s))"
    using phase_append [OF phase_set_ready phase_emit [of "[Initialize n]"]] by simp
  with assms(1) have "no_destroyed (emit [Initialize n] (set_ready n False s))" using phase_no_destroyed by blast
  from signals_total [OF this] obtain t where t: "run_signals E gs (emit [Initialize n] (set_ready n False s)) = Some t"
    by blast
  with phase_append [OF s1 phase_signals [OF t]] reg gs sm_lookup_no_destroyed [OF assms(1) reg(1)]
  show ?thesis by (simp add: initializeSubsystemCallback_def Let_def)
qed

lemma initialize_each_spec:
  assumes "no_destroyed s" "\<forall>n \<in> set ns. \<exists>sub. map_of (table_of s) n = Some sub \<and> initialize sub \<noteq> None"
  shows "\<exists>t. initialize_each E ns s = Some t \<and> phase ns s t"
  using assms
proof (induction ns arbitrary: s)
  case (Cons n ns)
  then obtain s1 where s1: "initializeSubsystemCallback E n s = Some s1" "phase [n] s s1"
    using initializeSubsystemCallback_spec [of s n] by fastforce
  with Cons.prems have "no_destroyed s1" "\<forall>n \<in> set ns. \<exists>sub. map_of (table_of s1) n = Some sub \<and> initialize sub \<noteq> None"
    using phase_no_destroyed [OF s1(2)] phase_table [OF s1(2)] by auto
  from Cons.IH [OF this] obtain t where "initialize_each E ns s1 = Some t" "phase ns s1 t" by blast
  with s1 show ?case using phase_append [OF s1(2)] by fastforce
qed simp

text \<open>Without the assumption on mutexes, for the steps that return.\<close>

lemma initialize_each_phase: "initialize_each E ns s = Some t \<Longrightarrow> \<exists>ms. phase ms s t"
proof (induction ns arbitrary: s)
  case Nil
  then have "phase [] s t" by simp
  then show ?case ..
next
  case (Cons n ns)
  then obtain s1 where s1: "initializeSubsystemCallback E n s = Some s1" "initialize_each E ns s1 = Some t"
    by (auto split: Option.bind_splits)
  have "phase [n] s (emit [Initialize n] (set_ready n False s))"
    using phase_append [OF phase_set_ready phase_emit [of "[Initialize n]"]] by simp
  then have "phase [n] s s1" if "run_signals E gs (emit [Initialize n] (set_ready n False s)) = Some s1" for gs
    using phase_append [OF _ phase_signals [OF that], of "[n]" s] by simp
  moreover have "phase [] s s1" if "s1 = s \<or> s1 = set_ready n False s" using that by auto
  ultimately have "\<exists>ms. phase ms s s1"
    using s1(1) phase_refl [of s1]
    by (auto simp: initializeSubsystemCallback_def Let_def split: option.splits if_splits intro: exI [of _ "[]"])
  with Cons.IH [OF s1(2)] phase_append show ?case by blast
qed

section \<open>Registering before initialisation\<close>

text \<open>The subsystems that can be registered, with their names.\<close>

fun named_subsystem :: "Subsystem option \<Rightarrow> (string \<times> Subsystem) list" where
  "named_subsystem None = []"
| "named_subsystem (Some d) =
     (case (initialize d, sub_name d) of (Some _, Some n) \<Rightarrow> [(n, d)] | _ \<Rightarrow> [])"

definition named_subsystems :: "Subsystem option list \<Rightarrow> (string \<times> Subsystem) list" where
  "named_subsystems ds = concat (map named_subsystem ds)"

lemma named_subsystem_mem: "(n, d) \<in> set (named_subsystem x) \<longleftrightarrow> x = Some d \<and> initialize d \<noteq> None \<and> sub_name d = Some n"
  by (cases x; cases "initialize d"; cases "sub_name d") (auto split: option.splits)

lemma register_named:
  "subsystemManagerRegisterToTable x t =
     (case named_subsystem x of [] \<Rightarrow> Some t
      | (n, d) # _ \<Rightarrow>
          if registration_destroyed (hashMapGet t n) then None
          else if hashMapGet t n = None then Some (t @ [(n, createSubsystemRegistration d)])
          else Some (hashMapUpdate (snd (hashTableInsert t n (createSubsystemRegistration d))) n
                       (\<lambda>r. r\<lparr>mtx_destroyed := True\<rparr>)))"
  by (cases x)
    (auto simp: subsystemManagerRegisterToTable_def hashTableInsert_def hashMapContains_get split: option.splits)

lemma register_table_keys:
  assumes "subsystemManagerRegisterToTable x t = Some t'"
  shows "fst ` set t' \<subseteq> fst ` set t \<union> fst ` set (named_subsystem x)"
proof (cases "named_subsystem x")
  case Nil
  with assms show ?thesis by (simp add: register_named)
next
  case (Cons e es)
  have upd: "fst ` set (hashMapUpdate m k f) = fst ` set m" for m :: "(string, SubsystemRegistration) hmap" and k f
    using keys_hashMapUpdate [of m k f] by (metis list.set_map)
  obtain n d where e: "named_subsystem x = [(n, d)]" using Cons by (cases x) (auto split: option.splits)
  have "t' = t @ [(n, createSubsystemRegistration d)] \<or>
      t' = hashMapUpdate (snd (hashTableInsert t n (createSubsystemRegistration d))) n (\<lambda>r. r\<lparr>mtx_destroyed := True\<rparr>)"
    using assms e by (simp add: register_named split: if_splits)
  moreover have "fst ` set (snd (hashTableInsert t n r)) \<subseteq> fst ` set t \<union> {n}" for r
    by (auto simp: hashTableInsert_def upd)
  ultimately have "fst ` set t' \<subseteq> fst ` set t \<union> {n}" using upd by (elim disjE) (simp, metis)
  then show ?thesis using e by simp
qed

lemma register_each_keys:
  "register_each ds t = Some t' \<Longrightarrow> fst ` set t' \<subseteq> fst ` set t \<union> fst ` set (named_subsystems ds)"
proof (induction ds arbitrary: t)
  case (Cons x ds)
  then obtain t1 where 1: "subsystemManagerRegisterToTable x t = Some t1" "register_each ds t1 = Some t'"
    by (auto split: Option.bind_splits)
  have "fst ` set (named_subsystems (x # ds)) = fst ` set (named_subsystem x) \<union> fst ` set (named_subsystems ds)"
    by (simp add: named_subsystems_def image_Un)
  with Cons.IH [OF 1(2)] register_table_keys [OF 1(1)] show ?case by blast
qed simp

lemma register_each_spec:
  assumes "distinct (map fst t @ map fst (named_subsystems ds))"
  shows "register_each ds t = Some (t @ map (\<lambda>(n, d). (n, createSubsystemRegistration d)) (named_subsystems ds))"
  using assms
proof (induction ds arbitrary: t)
  case (Cons x ds)
  show ?case
  proof (cases "named_subsystem x")
    case Nil
    with Cons show ?thesis by (simp add: register_named named_subsystems_def)
  next
    case (Cons e es)
    obtain n d where e: "named_subsystem x = [(n, d)]" using Cons
      by (cases x) (auto split: option.splits)
    with Cons.prems have "hashMapGet t n = None"
      by (auto simp: hashMapGet_def named_subsystems_def map_of_eq_None_iff)
    then show ?thesis using Cons.IH [of "t @ [(n, createSubsystemRegistration d)]"] Cons.prems e
      by (auto simp: register_named named_subsystems_def)
  qed
qed (simp add: named_subsystems_def)

section \<open>The readiness invariant\<close>

lemma ready_inv_phase:
  assumes "ready_inv s" "phase ns s t"
    "subsystemManagerIsReadyForDevices t = Some True \<Longrightarrow> ReadyForDevices \<in> set (sm_trace t)"
  shows "ready_inv t"
proof -
  show ?thesis using assms phase_table_exists [OF assms(2)] by (auto simp: ready_inv_def phase_def)
qed

lemma notify_ready_reported:
  assumes "notify_ready s = Some t" "subsystemManagerIsReadyForDevices t = Some True" "readyForDevicesCB s"
  shows "ReadyForDevices \<in> set (sm_trace t)"
  using assms by (auto simp: notify_ready_def split: Option.bind_splits if_splits)

lemma ready_inv_initialized:
  assumes "ready_inv s" "onSubsystemInitialized E n s = Some t"
  shows "ready_inv t"
proof (rule ready_inv_phase [OF assms(1) phase_initialized [OF assms(2)]])
  assume r: "subsystemManagerIsReadyForDevices t = Some True"
  from assms(2) obtain s3 where s3: "phase [] s s3" "notify_ready s3 = Some t" by (rule onSubsystemInitializedE)
  have "phase [] s t" using phase_trans [OF s3(1) phase_notify_ready [OF s3(2)]] .
  then have "subsystems s \<noteq> None" using r phase_table_exists by (force simp: IsReadyForDevices_iff)
  then have "readyForDevicesCB s3" using assms(1) s3(1) by (simp add: ready_inv_def phase_def)
  with s3(2) r show "ReadyForDevices \<in> set (sm_trace t)" by (rule notify_ready_reported)
qed

lemma unready_not_ready:
  assumes "setSubsystemReadyLocked n False s = Some t" "subsystemManagerIsReadyForDevices t = Some True"
  shows "t = s"
proof (rule ccontr)
  assume ne: "t \<noteq> s"
  then obtain u reg where u: "n = Some u" "sm_lookup s u = Some reg" "t = set_ready u False s"
    using assms(1) by (auto simp: setSubsystemReadyLocked_def split: option.splits if_splits)
  then obtain tab where tab: "subsystems s = Some tab" "hashMapGet tab u = Some reg"
    by (auto simp: sm_lookup_def split: option.splits)
  then have "hashMapGet (hashMapUpdate tab u (\<lambda>r. r\<lparr>ready := False\<rparr>)) u = Some (reg\<lparr>ready := False\<rparr>)"
    by (simp add: hmap_simps)
  then have "(u, reg\<lparr>ready := False\<rparr>) \<in> set (hashMapUpdate tab u (\<lambda>r. r\<lparr>ready := False\<rparr>))"
    by (simp add: hashMapGet_def map_of_SomeD)
  with assms(2) u(3) tab(1) show False by (fastforce simp: IsReadyForDevices_iff)
qed

lemma ready_inv_deinitialized:
  assumes "ready_inv s" "onSubsystemDeinitialized n s = Some t"
  shows "ready_inv t"
proof (rule ready_inv_phase [OF assms(1) phase_deinitialized [OF assms(2)]])
  assume r: "subsystemManagerIsReadyForDevices t = Some True"
  from assms(2) obtain s1 where s1: "setSubsystemReadyLocked n False s = Some s1" "t = emit [StatusEvent] s1"
    by (rule onSubsystemDeinitializedE)
  from r s1(2) have "subsystemManagerIsReadyForDevices s1 = Some True" by (simp add: IsReadyForDevices_iff)
  with unready_not_ready [OF s1(1)] assms(1) s1(2) show "ReadyForDevices \<in> set (sm_trace t)"
    by (auto simp: ready_inv_def)
qed

lemma ready_inv_notify:
  assumes "ready_inv s" "\<And>n sub. ReadyForDevices \<notin> set (f n sub)"
  shows "ready_inv (notify_each f s)"
proof (cases "subsystems s")
  case None
  with assms(1) show ?thesis by (simp add: notify_each_def)
next
  case (Some t)
  have "subsystemManagerIsReadyForDevices (emit es s) = subsystemManagerIsReadyForDevices s" for es
    by (cases "subsystems s") (simp_all add: subsystemManagerIsReadyForDevices_def)
  with Some assms show ?thesis by (auto simp: ready_inv_def notify_each_def)
qed

lemma ready_inv_drivers_started:
  assumes "ready_inv s" "subsystemManagerAllDriversStarted s = Some t"
  shows "ready_inv t"
proof (cases "subsystems s")
  case None
  with assms show ?thesis by (simp add: subsystemManagerAllDriversStarted_def)
next
  case (Some tab)
  define s1 where "s1 = (notify_each notifyAllDriversStartedCallback s)
    \<lparr>allDriversStarted := True\<rparr>"
  have t: "notify_ready s1 = Some t" using assms(2) Some by (simp add: subsystemManagerAllDriversStarted_def s1_def)
  have cb: "readyForDevicesCB s1" "subsystemManagerInitialized s1" "allDriversStarted s1" "subsystems s1 \<noteq> None"
    using assms(1) Some by (auto simp: s1_def ready_inv_def notify_each_def)
  have "subsystems t \<noteq> None" using phase_table_exists [OF phase_notify_ready [OF t]] cb(4) by simp
  with cb phase_notify_ready [OF t] notify_ready_reported [OF t _ cb(1)] show ?thesis
    by (auto simp: ready_inv_def phase_def)
qed

lemma ready_inv_register:
  assumes "ready_inv s" "subsystemManagerRegister d s = Some t"
  shows "ready_inv t"
proof (cases "subsystems s")
  case None
  with assms show ?thesis
    by (auto simp: ready_inv_def subsystemManagerRegister_def subsystemManagerIsReadyForDevices_def)
next
  case (Some tab)
  then obtain tab' where tab': "subsystemManagerRegisterToTable d tab = Some tab'" "t = s\<lparr>subsystems := Some tab'\<rparr>"
    using assms by (auto simp: ready_inv_def subsystemManagerRegister_def)
  have "tab' = tab \<or> (\<exists>n r. (n, r) \<in> set tab' \<and> (\<not> ready r \<or> mtx_destroyed r))"
  proof (cases "named_subsystem d")
    case (Cons e es)
    then obtain n x where e: "named_subsystem d = [(n, x)]" by (cases d) (auto split: option.splits)
    define tab1 where "tab1 = snd (hashTableInsert tab n (createSubsystemRegistration x))"
    have "hashMapGet (hashMapUpdate tab1 n (\<lambda>r. r\<lparr>mtx_destroyed := True\<rparr>)) n =
        Some ((createSubsystemRegistration x)\<lparr>mtx_destroyed := True\<rparr>)"
      by (simp add: hmap_simps tab1_def)
    then have "(n, (createSubsystemRegistration x)\<lparr>mtx_destroyed := True\<rparr>) \<in>
        set (hashMapUpdate tab1 n (\<lambda>r. r\<lparr>mtx_destroyed := True\<rparr>))"
      by (simp add: hashMapGet_def map_of_SomeD)
    moreover have "tab' = tab @ [(n, createSubsystemRegistration x)] \<or>
        tab' = hashMapUpdate tab1 n (\<lambda>r. r\<lparr>mtx_destroyed := True\<rparr>)"
      using tab'(1) e by (simp add: register_named tab1_def split: if_splits)
    moreover have "\<not> ready (createSubsystemRegistration x)" by (simp add: createSubsystemRegistration_def)
    ultimately have "(n, createSubsystemRegistration x) \<in> set tab' \<and> \<not> ready (createSubsystemRegistration x) \<or>
        (n, (createSubsystemRegistration x)\<lparr>mtx_destroyed := True\<rparr>) \<in> set tab'" by auto
    then show ?thesis by force
  qed (use tab'(1) in \<open>simp add: register_named\<close>)
  then show ?thesis
  proof
    assume "tab' = tab"
    with assms(1) tab'(2) Some have "t = s" by simp
    with assms(1) show ?thesis by simp
  next
    assume "\<exists>n r. (n, r) \<in> set tab' \<and> (\<not> ready r \<or> mtx_destroyed r)"
    then have "subsystemManagerIsReadyForDevices t \<noteq> Some True"
      using tab'(2) by (fastforce simp: IsReadyForDevices_iff)
    with assms(1) tab'(2) Some show ?thesis by (auto simp: ready_inv_def)
  qed
qed

lemma migrate_each_quiet: "migrate_each E subs d = Some (d', es) \<Longrightarrow> ReadyForDevices \<notin> set es"
  by (induction E subs d arbitrary: d' es rule: migrate_each.induct)
    (auto simp: checkSubsystemForMigration_def split: Option.bind_splits prod.splits option.splits if_splits)

lemma ready_inv_initialize:
  assumes "ready_inv s" "subsystemManagerInitialize E True s = Some t"
  shows "ready_inv t"
proof (cases "subsystemManagerInitialized s")
  case True
  with assms show ?thesis by (simp add: subsystemManagerInitialize_def init_steal_def)
next
  case False
  define s1 where "s1 = s\<lparr>preRegisteredSubsystems := [], subsystems := None\<rparr>"
  from False assms(2) obtain tab s2 where
    2: "init_build E (preRegisteredSubsystems s) s1 = Some (tab, s2)"
      "init_all E (init_publish True (preRegisteredSubsystems s) tab s2) = Some t"
    by (auto simp: subsystemManagerInitialize_def init_steal_def s1_def split: Option.bind_splits)
  from 2(1) obtain db es where s2: "s2 = emit es (s1\<lparr>sm_db := db\<rparr>)"
    and es: "\<exists>subs. migrate_each E subs (sm_db s1) = Some (db, es)"
    by (auto simp: init_build_def split: Option.bind_splits prod.splits option.splits)
  from es have noready: "ReadyForDevices \<notin> set es" by (blast dest: migrate_each_quiet)
  have old: "\<not> allDriversStarted s" "ReadyForDevices \<notin> set (sm_trace s)"
    using False assms(1) by (auto simp: ready_inv_def)
  define s3 where "s3 = init_publish True (preRegisteredSubsystems s) tab s2"
  have s3: "subsystems s3 = Some tab" "subsystemManagerInitialized s3" "readyForDevicesCB s3"
    "\<not> allDriversStarted s3" "ReadyForDevices \<notin> set (sm_trace s3)"
    using old noready by (simp_all add: s3_def init_publish_def s2 s1_def)
  then have "ready_inv s3" by (auto simp: ready_inv_def IsReadyForDevices_iff)
  moreover from 2(2) s3(1) obtain ms where ms: "phase ms s3 t"
    using initialize_each_phase by (fastforce simp: init_all_def s3_def [symmetric])
  ultimately show ?thesis
  proof (rule ready_inv_phase)
    assume "subsystemManagerIsReadyForDevices t = Some True"
    with ms s3(4) show "ReadyForDevices \<in> set (sm_trace t)" by (simp add: IsReadyForDevices_iff phase_def)
  qed
qed

text \<open>
  All drivers started and every registration ready, on the manager's data; \<open>reports_ready\<close> says that the
  operation from \<open>s\<close> to \<open>t\<close> calls the callback exactly when it leaves everything ready.
\<close>

definition everything_ready :: "'s subsystem_manager \<Rightarrow> bool" where
  "everything_ready s \<longleftrightarrow>
     allDriversStarted s \<and> (\<exists>t. subsystems s = Some t \<and> list_all (\<lambda>e. ready (snd e) \<and> \<not> mtx_destroyed (snd e)) t)"

definition reports_ready :: "'s subsystem_manager \<Rightarrow> 's subsystem_manager \<Rightarrow> bool" where
  "reports_ready s t \<longleftrightarrow> (\<exists>es. sm_trace t = sm_trace s @ es \<and> (ReadyForDevices \<in> set es \<longleftrightarrow> everything_ready t))"

lemma everything_ready_iff: "everything_ready s \<longleftrightarrow> subsystemManagerIsReadyForDevices s = Some True"
  by (auto simp: everything_ready_def IsReadyForDevices_iff list_all_iff)

lemma notify_ready_reports:
  assumes "notify_ready s1 = Some t" "quiet s s1" "readyForDevicesCB s1"
  shows "reports_ready s t"
proof -
  obtain es where es: "sm_trace s1 = sm_trace s @ es" "ReadyForDevices \<notin> set es" using assms(2) by (auto simp: quiet_def)
  have "everything_ready (emit fs s1) = everything_ready s1" for fs by (simp add: everything_ready_def)
  with assms(1,3) es show ?thesis
    by (auto simp: reports_ready_def notify_ready_def everything_ready_iff split: Option.bind_splits if_splits)
qed

lemma initialized_reports:
  assumes "ready_inv s" "onSubsystemInitialized E n s = Some t"
  shows "reports_ready s t"
proof (cases "subsystems s")
  case None
  from assms(2) obtain s3 where s3: "phase [] s s3" "notify_ready s3 = Some t" "quiet s s3" by (rule onSubsystemInitializedE)
  have "subsystems s3 = None" using None phase_table_exists [OF s3(1)] by simp
  then have "t = s3" "\<not> everything_ready s3"
    using s3(2) by (auto simp: notify_ready_def subsystemManagerIsReadyForDevices_def everything_ready_def)
  with s3(3) show ?thesis by (auto simp: reports_ready_def quiet_def)
next
  case (Some tab)
  from assms(2) obtain s3 where s3: "phase [] s s3" "notify_ready s3 = Some t" "quiet s s3" by (rule onSubsystemInitializedE)
  have "readyForDevicesCB s3" using assms(1) s3(1) Some by (simp add: ready_inv_def phase_def)
  with s3(2,3) show ?thesis by (intro notify_ready_reports)
qed

lemma drivers_started_reports:
  assumes "ready_inv s" "subsystemManagerAllDriversStarted s = Some t"
  shows "reports_ready s t"
proof (cases "subsystems s")
  case None
  with assms show ?thesis by (simp add: subsystemManagerAllDriversStarted_def reports_ready_def everything_ready_def)
next
  case (Some tab)
  let ?s1 = "(notify_each notifyAllDriversStartedCallback s)\<lparr>allDriversStarted := True\<rparr>"
  have "notify_ready ?s1 = Some t" using assms(2) Some by (simp add: subsystemManagerAllDriversStarted_def)
  moreover have "quiet s ?s1"
    using Some by (auto simp: quiet_def notify_each_def notifyAllDriversStartedCallback_def)
  moreover have "readyForDevicesCB ?s1" using assms(1) Some by (simp add: ready_inv_def notify_each_def)
  ultimately show ?thesis by (rule notify_ready_reports)
qed

lemma initialize_quiet:
  assumes "ready_inv s" "subsystemManagerInitialize E True s = Some t"
  shows "quiet s t"
proof (cases "subsystemManagerInitialized s")
  case True
  with assms show ?thesis by (simp add: subsystemManagerInitialize_def init_steal_def quiet_def)
next
  case False
  define s1 where "s1 = s\<lparr>preRegisteredSubsystems := [], subsystems := None\<rparr>"
  from False assms(2) obtain tab s2 where
    2: "init_build E (preRegisteredSubsystems s) s1 = Some (tab, s2)"
      "init_all E (init_publish True (preRegisteredSubsystems s) tab s2) = Some t"
    by (auto simp: subsystemManagerInitialize_def init_steal_def s1_def split: Option.bind_splits)
  from 2(1) obtain db es subs where s2: "s2 = emit es (s1\<lparr>sm_db := db\<rparr>)" "migrate_each E subs (sm_db s1) = Some (db, es)"
    by (auto simp: init_build_def split: Option.bind_splits prod.splits option.splits)
  define s3 where "s3 = init_publish True (preRegisteredSubsystems s) tab s2"
  have s3: "subsystems s3 = Some tab" "\<not> allDriversStarted s3" "sm_trace s3 = sm_trace s @ es"
    using False assms(1) by (auto simp: s3_def init_publish_def s2 s1_def ready_inv_def)
  from 2(2) s3(1) obtain ms where "phase ms s3 t"
    using initialize_each_phase by (fastforce simp: init_all_def s3_def [symmetric])
  with s3 migrate_each_quiet [OF s2(2)] show ?thesis by (auto simp: phase_def quiet_def)
qed

lemma step_ready_at_end:
  assumes "sm_step E s t" "ready_inv s"
  shows "\<exists>es. sm_trace t = sm_trace s @ es \<and> (ReadyForDevices \<in> set es \<longrightarrow> everything_ready t)"
proof -
  have q: "\<exists>es. sm_trace t = sm_trace s @ es \<and> (ReadyForDevices \<in> set es \<longrightarrow> everything_ready t)" if "quiet s t" for t
    using that by (auto simp: quiet_def)
  have r: "\<exists>es. sm_trace t = sm_trace s @ es \<and> (ReadyForDevices \<in> set es \<longrightarrow> everything_ready t)" if "reports_ready s t" for t
    using that by (auto simp: reports_ready_def)
  have n: "quiet s (notify_each f s)" if "\<And>n sub. ReadyForDevices \<notin> set (f n sub)" for f
    using that by (auto simp: quiet_def notify_each_def split: option.splits)
  from assms(1) show ?thesis
  proof (cases rule: sm_step.cases)
    case (register d)
    then show ?thesis by (intro q) (auto simp: quiet_def subsystemManagerRegister_def split: if_splits option.splits)
  next
    case initialize
    then show ?thesis using assms(2) by (intro q initialize_quiet)
  next
    case (initialized n)
    then show ?thesis using assms(2) by (intro r initialized_reports)
  next
    case (deinitialized n)
    then show ?thesis by (intro q) (auto simp: quiet_def setReady_trace elim!: onSubsystemDeinitializedE)
  next
    case drivers_started
    then show ?thesis using assms(2) by (intro r drivers_started_reports)
  next
    case services_available
    then show ?thesis
      by (auto intro!: q n simp: subsystemManagerAllServicesAvailable_def notifyAllServicesAvailableCallback_def)
  next
    case low_power
    then show ?thesis
      by (auto intro!: q n simp: subsystemManagerEnterLPM_def subsystemManagerExitLPM_def
          notifyLPMStartCallback_def notifyLPMEndCallback_def)
  qed
qed

lemma ready_inv_step: "sm_step E s t \<Longrightarrow> ready_inv s \<Longrightarrow> ready_inv t"
proof (induction rule: sm_step.induct)
  case (services_available s)
  then show ?case unfolding subsystemManagerAllServicesAvailable_def by (rule ready_inv_notify) (simp add: notifyAllServicesAvailableCallback_def)
next
  case (low_power t s)
  have "ready_inv (notify_each notifyLPMStartCallback s)"
    "ready_inv (notify_each notifyLPMEndCallback s)"
    using low_power.prems by (auto intro!: ready_inv_notify simp: notifyLPMStartCallback_def notifyLPMEndCallback_def)
  with low_power.hyps show ?case by (auto simp: subsystemManagerEnterLPM_def subsystemManagerExitLPM_def)
qed (blast intro: ready_inv_register ready_inv_initialize ready_inv_initialized ready_inv_deinitialized
      ready_inv_drivers_started)+

lemma ready_inv_reach: "sm_reach E db s \<Longrightarrow> ready_inv s"
proof (induction rule: sm_reach.induct)
  case start
  then show ?case by (simp add: ready_inv_def sm_static_def subsystemManagerIsReadyForDevices_def)
qed (blast intro: ready_inv_step)

section \<open>Properties\<close>

text \<open>An environment and two subsystems for the examples.\<close>

definition example_sm_env :: "cstr \<Rightarrow> (json, (string \<times> string) list) sm_env" where
  "example_sm_env dis = \<lparr>sm_db_env = example_env, sm_util = example_util, sm_drivers = driver_manager_static,
     assertsEnabled = True, disabledSubsystems = dis\<rparr>"

definition example_subsystem :: "string \<Rightarrow> u16 \<Rightarrow> Subsystem" where
  "example_subsystem n v = \<lparr>migrate = Some (\<lambda>old new. True), initialize = Some [], shutdown = Some [],
     onAllDriversStarted = True, onAllServicesAvailable = False, onRestoreConfig = None,
     onPostRestoreConfig = False, onLPMStart = False, onLPMEnd = False, setOtaUpgradeDelay = False,
     getStatusJson = None, sub_name = Some n, version = v\<rparr>"

definition registered_manager :: "(string \<times> string) list subsystem_manager" where
  "registered_manager = (sm_static (empty_db []))\<lparr>preRegisteredSubsystems :=
     [Some (example_subsystem ''zigbee'' 2), Some (example_subsystem ''matter'' 0)]\<rparr>"

text \<open>
  C32. Before the first shutdown the service learns that it may use devices exactly when it may. In
  every reachable state in which the drivers are started and every subsystem is ready, the callback
  given at initialisation has been called; whatever the next operation of the manager is, it calls the
  callback only if it leaves the drivers started and every subsystem ready; and the signal of a
  subsystem and the start of the drivers call it whenever they leave them so.
\<close>

theorem ready_callback_complete:
  assumes "sm_reach E db s"
  shows "(everything_ready s \<longrightarrow> ReadyForDevices \<in> set (sm_trace s)) \<and>
     (ReadyForDevices \<in> set (sm_trace s) \<longrightarrow> allDriversStarted s) \<and>
     (\<forall>t. sm_step E s t \<longrightarrow>
        (\<exists>es. sm_trace t = sm_trace s @ es \<and> (ReadyForDevices \<in> set es \<longrightarrow> everything_ready t))) \<and>
     (\<forall>n t. onSubsystemInitialized E n s = Some t \<or> subsystemManagerAllDriversStarted s = Some t \<longrightarrow>
        (\<exists>es. sm_trace t = sm_trace s @ es \<and> (ReadyForDevices \<in> set es \<longleftrightarrow> everything_ready t)))"
proof -
  have inv: "ready_inv s" using assms by (rule ready_inv_reach)
  moreover have "reports_ready s t"
    if "onSubsystemInitialized E n s = Some t \<or> subsystemManagerAllDriversStarted s = Some t" for n t
    using that initialized_reports [OF inv] drivers_started_reports [OF inv] by blast
  moreover have "everything_ready s \<longrightarrow> ReadyForDevices \<in> set (sm_trace s)" "ReadyForDevices \<in> set (sm_trace s) \<longrightarrow> allDriversStarted s"
    using inv by (simp_all add: ready_inv_def everything_ready_iff)
  moreover note step_ready_at_end [OF _ inv]
  ultimately show ?thesis unfolding reports_ready_def by blast
qed

lemma registered_manager_reach: "sm_reach (example_sm_env dis) (empty_db []) registered_manager"
proof -
  let ?a = "(sm_static (empty_db []))\<lparr>preRegisteredSubsystems := [Some (example_subsystem ''zigbee'' 2)]\<rparr>"
  have "sm_reach (example_sm_env dis) (empty_db []) ?a"
    by (rule sm_reach.step [OF sm_reach.start sm_step.register [of "Some (example_subsystem ''zigbee'' 2)"]])
      (simp add: subsystemManagerRegister_def sm_static_def)
  then show ?thesis
    by (rule sm_reach.step [OF _ sm_step.register [of "Some (example_subsystem ''matter'' 0)"]])
      (simp add: subsystemManagerRegister_def sm_static_def registered_manager_def)
qed

definition run_to_ready :: "(string \<times> string) list subsystem_manager option" where
  "run_to_ready = do {
     s1 \<leftarrow> subsystemManagerInitialize (example_sm_env None) True registered_manager;
     s2 \<leftarrow> onSubsystemInitialized (example_sm_env None) (Some ''zigbee'') s1;
     s3 \<leftarrow> subsystemManagerAllDriversStarted s2;
     onSubsystemInitialized (example_sm_env None) (Some ''matter'') s3 }"

theorem ready_callback_complete_witness:
  "\<exists>s. run_to_ready = Some s \<and> everything_ready s \<and> ReadyForDevices \<in> set (sm_trace s)"
proof -
  have "case run_to_ready of None \<Rightarrow> False | Some s \<Rightarrow> subsystemManagerIsReadyForDevices s = Some True"
    by code_simp
  then obtain s where s: "run_to_ready = Some s" "everything_ready s"
    by (auto simp: everything_ready_iff split: option.splits)
  then have "sm_reach (example_sm_env None) (empty_db []) s"
    by (auto simp: run_to_ready_def split: Option.bind_splits)
      (metis registered_manager_reach sm_reach.step sm_step.initialize sm_step.initialized sm_step.drivers_started)
  from ready_callback_complete [OF this] s show ?thesis by blast
qed

text \<open>
  Migration over any number of starts with the same subsystems: for a subsystem whose recorded
  version is \<open>old\<close> (0 when none is recorded), nothing runs when \<open>old\<close> is not below its version; when it
  is, a successful migration runs in the first start only and the new version is recorded, and a
  failing one runs in every start and \<open>old\<close> stays recorded. The starts never fail when every
  subsystem with a version has a migration routine.
\<close>

theorem migrations_run_until_success:
  assumes "decimal_ok (sm_util E)" "list_all migratable subs" "distinct (map the_name subs)" "sub \<in> set subs"
    "recorded_version (sm_util E) (the_name sub) db = Some old" "migrate sub = Some f"
  shows "\<exists>db' es. migrate_starts E subs (Suc k) db = Some (db', es) \<and>
     recorded_version (sm_util E) (the_name sub) db' =
       Some (if old < version sub \<and> f old (version sub) then version sub else old) \<and>
     migrations_of (the_name sub) es =
       (if \<not> old < version sub then []
        else replicate (if f old (version sub) then 1 else Suc k) (Migrate (the_name sub) old (version sub)))"
proof -
  have rep: "concat (replicate k [x]) = replicate k x" for x :: sm_event by (induction k) auto
  from migrate_starts_spec [OF assms(1-5), of k] obtain db' es where
    "migrate_starts E subs (Suc k) db = Some (db', es)"
    "recorded_version (sm_util E) (the_name sub) db' = Some (next_version sub old)"
    "migrations_of (the_name sub) es =
       migration_of sub (Some old) @ concat (replicate k (migration_of sub (Some (next_version sub old))))" by blast
  then show ?thesis using assms(6) rep by (auto simp: next_version_def migration_of_def)
qed

theorem migrations_run_until_success_witness:
  "\<exists>db' es. migrate_starts (example_sm_env None) [example_subsystem ''zigbee'' 2] 3 (empty_db []) = Some (db', es) \<and>
     migrations_of ''zigbee'' es = [Migrate ''zigbee'' 0 2]"
proof -
  have "the_name (example_subsystem ''zigbee'' 2) = ''zigbee''" "version (example_subsystem ''zigbee'' 2) = 2"
    by (simp_all add: the_name_def example_subsystem_def)
  moreover have "(0 :: u16) < 2" by simp
  ultimately show ?thesis
    using migrations_run_until_success [of "example_sm_env None" "[example_subsystem ''zigbee'' 2]"
        "example_subsystem ''zigbee'' 2" "empty_db []" 0 "\<lambda>old new. True" 2]
    by (auto simp: decimal_ok_example migratable_def recorded_version_def deviceServiceGetSystemProperty_def
        jsonDatabaseGetSystemProperty_def empty_db_def example_sm_env_def numeral_3_eq_3
        example_subsystem_def simp del: migrate_starts.simps)
qed

text \<open>The registrable subsystems the configuration leaves enabled, and the local part of the initialisation.\<close>

definition enabled_subsystems :: "cstr \<Rightarrow> Subsystem option list \<Rightarrow> (string \<times> Subsystem) list" where
  "enabled_subsystems disabled pre =
     filter (\<lambda>(n, d). case disabled of None \<Rightarrow> True | Some dis \<Rightarrow> \<not> strstr dis n) (named_subsystems pre)"

definition fresh_table :: "(string \<times> Subsystem) list \<Rightarrow> (string, SubsystemRegistration) hmap" where
  "fresh_table es = map (\<lambda>(n, d). (n, createSubsystemRegistration d)) es"

lemma fresh_table_simps [simp]:
  "map fst (fresh_table es) = map fst es" "map (subsystem \<circ> snd) (fresh_table es) = map snd es"
  "map (\<lambda>e. (fst e, subsystem (snd e))) (fresh_table es) = es" "e \<in> set (fresh_table es) \<Longrightarrow> \<not> mtx_destroyed (snd e)"
  by (induction es) (auto simp: fresh_table_def createSubsystemRegistration_def split_def)

lemma named_subsystems_mem: "(n, d) \<in> set (named_subsystems pre) \<Longrightarrow> initialize d \<noteq> None \<and> sub_name d = Some n"
  by (auto simp: named_subsystems_def named_subsystem_mem)

lemma remove_disabled_spec:
  "(case dis of None \<Rightarrow> Some (fresh_table (named_subsystems pre))
      | Some dis' \<Rightarrow> remove_disabled dis' (fresh_table (named_subsystems pre))) =
     Some (fresh_table (enabled_subsystems dis pre))"
proof -
  have "filter (\<lambda>e. \<not> removeDisabledSubsystemPredicate dis' (snd e)) (fresh_table es) =
      fresh_table (filter (\<lambda>(n, d). \<not> strstr dis' n) es)"
    if "\<forall>(n, d) \<in> set es. sub_name d = Some n" for dis' es
    using that by (induction es)
      (auto simp: fresh_table_def removeDisabledSubsystemPredicate_def createSubsystemRegistration_def the_name_def)
  then have "filter (\<lambda>e. \<not> removeDisabledSubsystemPredicate dis' (snd e)) (fresh_table (named_subsystems pre)) =
      fresh_table (filter (\<lambda>(n, d). \<not> strstr dis' n) (named_subsystems pre))" for dis'
    using named_subsystems_mem by blast
  moreover have "\<not> list_ex (\<lambda>e. removeDisabledSubsystemPredicate dis' (snd e) \<and> mtx_destroyed (snd e))
      (fresh_table (named_subsystems pre))" for dis'
    by (auto simp: list_ex_iff fresh_table_def createSubsystemRegistration_def)
  ultimately show ?thesis by (cases dis) (simp_all add: enabled_subsystems_def remove_disabled_def)
qed

lemma enabled_names:
  assumes "distinct (map fst (named_subsystems pre))"
  shows "distinct (map fst (enabled_subsystems dis pre))"
    and "map the_name (map snd (enabled_subsystems dis pre)) = map fst (enabled_subsystems dis pre)"
    and "(n, d) \<in> set (enabled_subsystems dis pre) \<Longrightarrow> (n, d) \<in> set (named_subsystems pre)"
  using assms
  by (auto simp: enabled_subsystems_def distinct_map_filter the_name_def dest!: named_subsystems_mem)

lemma init_build_spec:
  assumes "distinct (map fst (named_subsystems pre))" "decimal_ok (sm_util E)"
    "list_all (\<lambda>(n, d). migratable d) (named_subsystems pre)"
  shows "\<exists>db es. init_build E pre s =
     Some (fresh_table (enabled_subsystems (disabledSubsystems E) pre), emit es (s\<lparr>sm_db := db\<rparr>)) \<and> inits es = []"
proof -
  let ?en = "enabled_subsystems (disabledSubsystems E) pre"
  have "register_each pre [] = Some (fresh_table (named_subsystems pre))"
    using register_each_spec [of "[]" pre] assms(1) by (simp add: fresh_table_def)
  moreover have "list_all migratable (map snd ?en)"
    using assms(3) enabled_names(3) [OF assms(1)] by (fastforce simp: list_all_iff)
  moreover have "distinct (map the_name (map snd ?en))" using enabled_names(1, 2) [OF assms(1)] by metis
  ultimately obtain db where reg: "register_each pre [] = Some (fresh_table (named_subsystems pre))"
    and mig: "migrate_each E (map snd ?en) (sm_db s) = Some (db, concat (map (\<lambda>sub. migration_of sub
        (recorded_version (sm_util E) (the_name sub) (sm_db s))) (map snd ?en)))"
    using migrate_each_spec [OF assms(2), of "map snd ?en" "sm_db s"] by blast
  show ?thesis
    using reg mig remove_disabled_spec [where dis = "disabledSubsystems E" and pre = pre]
      migrations_no_inits [of "\<lambda>sub. recorded_version (sm_util E) (the_name sub) (sm_db s)" "map snd ?en"]
    unfolding init_build_def by (auto simp del: map_map)
qed

text \<open>
  Initialising a manager whose registrable subsystems have distinct names never fails when each
  versioned one has a migration routine. Afterwards the table holds exactly the registrable subsystems
  whose name does not occur in the configured string of disabled subsystems, each was initialised
  exactly once, the list of pre-registered subsystems is kept for a later start, and initialising
  again changes nothing.
\<close>

theorem subsystemManagerInitialize_exact:
  assumes "\<not> subsystemManagerInitialized s" "distinct (map fst (named_subsystems (preRegisteredSubsystems s)))"
    "list_all (\<lambda>(n, d). migratable d) (named_subsystems (preRegisteredSubsystems s))" "decimal_ok (sm_util E)"
  defines "enabled \<equiv> enabled_subsystems (disabledSubsystems E) (preRegisteredSubsystems s)"
  shows "\<exists>t es. subsystemManagerInitialize E cb s = Some t \<and> table_of t = enabled \<and>
     sm_trace t = sm_trace s @ es \<and> inits es = map fst enabled \<and> no_destroyed t \<and>
     preRegisteredSubsystems t = preRegisteredSubsystems s \<and> subsystemManagerInitialized t \<and>
     subsystemManagerInitialize E cb' t = Some t"
proof -
  let ?pre = "preRegisteredSubsystems s"
  let ?s1 = "s\<lparr>preRegisteredSubsystems := [], subsystems := None\<rparr>"
  obtain db es where build: "init_build E ?pre ?s1 = Some (fresh_table enabled, emit es (?s1\<lparr>sm_db := db\<rparr>))" "inits es = []"
    using init_build_spec [OF assms(2, 4, 3), of ?s1] by (auto simp: enabled_def)
  define s3 where "s3 = init_publish cb ?pre (fresh_table enabled) (emit es (?s1\<lparr>sm_db := db\<rparr>))"
  have s3: "subsystems s3 = Some (fresh_table enabled)" "sm_trace s3 = sm_trace s @ es" "table_of s3 = enabled"
    "no_destroyed s3" "preRegisteredSubsystems s3 = ?pre" "subsystemManagerInitialized s3"
    by (simp_all add: s3_def init_publish_def table_of_def no_destroyed_def)
  have "\<forall>n \<in> set (map fst enabled). \<exists>d. map_of (table_of s3) n = Some d \<and> initialize d \<noteq> None"
  proof
    fix n assume "n \<in> set (map fst enabled)"
    then obtain d where d: "(n, d) \<in> set enabled" by auto
    then have "map_of enabled n = Some d" using enabled_names(1) [OF assms(2)] by (simp add: enabled_def)
    moreover have "initialize d \<noteq> None" using d enabled_names(3) [OF assms(2)] named_subsystems_mem
      unfolding enabled_def by blast
    ultimately show "\<exists>d. map_of (table_of s3) n = Some d \<and> initialize d \<noteq> None" using s3(3) by auto
  qed
  from initialize_each_spec [OF s3(4) this] obtain t where
    t: "initialize_each E (map fst enabled) s3 = Some t" "phase (map fst enabled) s3 t" by blast
  have "subsystemManagerInitialize E cb s = Some t"
    using assms(1) build(1) t(1) s3(1)
    by (simp add: subsystemManagerInitialize_def init_steal_def init_all_def s3_def [symmetric])
  moreover obtain fs where "sm_trace t = sm_trace s3 @ fs" "inits fs = map fst enabled"
    using t(2) by (auto simp: phase_def)
  moreover have "subsystemManagerInitialized t" "preRegisteredSubsystems t = ?pre"
    using t(2) s3 by (auto simp: phase_def)
  moreover have "no_destroyed t" "table_of t = enabled"
    using s3 phase_no_destroyed [OF t(2)] phase_table [OF t(2)] by auto
  ultimately show ?thesis using s3(2) build(2)
    by (intro exI [of _ t] exI [of _ "es @ fs"]) (simp add: subsystemManagerInitialize_def init_steal_def)
qed

theorem subsystemManagerInitialize_exact_witness:
  "\<exists>t. subsystemManagerInitialize (example_sm_env (Some ''thread,matter'')) True registered_manager = Some t \<and>
     table_of t = [(''zigbee'', example_subsystem ''zigbee'' 2)]"
proof -
  have "named_subsystems (preRegisteredSubsystems registered_manager) =
      [(''zigbee'', example_subsystem ''zigbee'' 2), (''matter'', example_subsystem ''matter'' 0)]"
    by (simp add: named_subsystems_def registered_manager_def example_subsystem_def)
  moreover have "\<not> strstr ''thread,matter'' ''zigbee''" "strstr ''thread,matter'' ''matter''" by code_simp+
  moreover have "disabledSubsystems (example_sm_env (Some ''thread,matter'')) = Some ''thread,matter''"
    "\<not> subsystemManagerInitialized registered_manager" "decimal_ok (sm_util (example_sm_env (Some ''thread,matter'')))"
    by (simp_all add: example_sm_env_def registered_manager_def sm_static_def decimal_ok_example)
  moreover have "migratable (example_subsystem ''zigbee'' 2)" "migratable (example_subsystem ''matter'' 0)"
    by (simp_all add: migratable_def example_subsystem_def)
  ultimately show ?thesis
    using subsystemManagerInitialize_exact [of registered_manager "example_sm_env (Some ''thread,matter'')" True False]
    by (auto simp: enabled_subsystems_def)
qed

text \<open>
  Registering a subsystem under a name that is taken, after initialisation, leaves a registration
  with a destroyed mutex in the table: asking for the status or the readiness of the subsystem, its
  own signal that it is ready, and the shutdown of the manager all use it.
\<close>

theorem register_again_destroys_mutex:
  assumes "subsystemManagerInitialized s" "sm_lookup s n = Some old" "\<not> mtx_destroyed old"
    "sub_name d = Some n" "initialize d \<noteq> None"
  shows "\<exists>t. subsystemManagerRegister (Some d) s = Some t \<and>
     subsystemManagerIsSubsystemReady n t = None \<and> subsystemManagerGetSubsystemStatusJson n t = None \<and>
     onSubsystemInitialized E (Some n) t = None \<and> subsystemManagerShutdown E t = None"
proof -
  from assms(2) obtain tab where tab: "subsystems s = Some tab" "hashMapGet tab n = Some old"
    by (auto simp: sm_lookup_def split: option.splits)
  let ?r = "(createSubsystemRegistration d)\<lparr>mtx_destroyed := True\<rparr>"
  define tab' where "tab' = hashMapUpdate (snd (hashTableInsert tab n (createSubsystemRegistration d))) n
    (\<lambda>r. r\<lparr>mtx_destroyed := True\<rparr>)"
  have "subsystemManagerRegisterToTable (Some d) tab = Some tab'"
    using assms(3-5) tab(2) by (auto simp: register_named tab'_def)
  then have reg: "subsystemManagerRegister (Some d) s = Some (s\<lparr>subsystems := Some tab'\<rparr>)"
    using assms(1) tab(1) by (simp add: subsystemManagerRegister_def)
  have get: "hashMapGet tab' n = Some ?r" by (simp add: tab'_def hmap_simps)
  then have mem: "(n, ?r) \<in> set tab'" by (simp add: hashMapGet_def map_of_SomeD)
  have "shutdown_each E tb u = None" if "(n, ?r) \<in> set tb" for tb u
    using that by (induction E tb u rule: shutdown_each.induct) (auto split: Option.bind_splits)
  with mem get assms(1) show ?thesis unfolding reg
    by (simp add: subsystemManagerIsSubsystemReady_def sm_lookup_def subsystemManagerGetSubsystemStatusJson_def
        onSubsystemInitialized_def setSubsystemReadyLocked_def subsystemManagerShutdown_def)
qed

definition one_subsystem_manager :: "(string \<times> string) list subsystem_manager" where
  "one_subsystem_manager = (sm_static (empty_db []))\<lparr>subsystemManagerInitialized := True,
     subsystems := Some [(''zigbee'', createSubsystemRegistration (example_subsystem ''zigbee'' 2))]\<rparr>"

theorem register_again_destroys_mutex_witness:
  "\<exists>t. subsystemManagerRegister (Some (example_subsystem ''zigbee'' 3)) one_subsystem_manager = Some t \<and>
     subsystemManagerShutdown (example_sm_env None) t = None"
  using register_again_destroys_mutex [of one_subsystem_manager "''zigbee''"
      "createSubsystemRegistration (example_subsystem ''zigbee'' 2)" "example_subsystem ''zigbee'' 3" "example_sm_env None"]
  by (auto simp: one_subsystem_manager_def sm_lookup_def hashMapGet_def createSubsystemRegistration_def
      example_subsystem_def)

text \<open>
  A subsystem that registers while another thread is in \<^verbatim>\<open>subsystemManagerInitialize\<close>, between its
  two locked parts, is lost: it is neither in the table nor in the list of pre-registered subsystems
  afterwards, although registering before or after the initialisation would have kept it.
\<close>

theorem register_during_initialize_lost:
  assumes "init_steal s = Some (pre, s1)" "subsystemManagerRegister (Some d) s1 = Some s2"
    "init_build E pre s2 = Some (t, s3)" "init_all E (init_publish cb pre t s3) = Some s4"
    "sub_name d = Some n" "n \<notin> fst ` set (named_subsystems pre)"
  shows "sm_lookup s4 n = None \<and> preRegisteredSubsystems s4 = preRegisteredSubsystems s \<and>
     subsystemManagerInitialized s4"
proof -
  have pre: "pre = preRegisteredSubsystems s" using assms(1) by (auto simp: init_steal_def split: if_splits)
  from assms(3) obtain tb where tb: "register_each pre [] = Some tb" "set t \<subseteq> set tb"
    by (auto simp: init_build_def remove_disabled_def split: Option.bind_splits option.splits if_splits prod.splits)
  then have "n \<notin> fst ` set t" using register_each_keys [OF tb(1)] assms(6) by auto
  moreover define s3' where "s3' = init_publish cb pre t s3"
  ultimately have "map_of (table_of s3') n = None" "subsystems s3' = Some t"
    by (auto simp: init_publish_def table_of_def map_of_eq_None_iff image_image)
  moreover obtain ms where "phase ms s3' s4"
    using assms(4) initialize_each_phase \<open>subsystems s3' = Some t\<close> unfolding init_all_def s3'_def by fastforce
  ultimately have "map_of (table_of s4) n = None" "preRegisteredSubsystems s4 = pre" "subsystemManagerInitialized s4"
    using phase_table [of ms s3' s4] by (auto simp: phase_def s3'_def init_publish_def)
  then show ?thesis using sm_lookup_table [of s4 n] pre by simp
qed

definition racing_registration :: "(string \<times> string) list subsystem_manager option" where
  "racing_registration = do {
     (pre, s1) \<leftarrow> init_steal registered_manager;
     s2 \<leftarrow> subsystemManagerRegister (Some (example_subsystem ''thread'' 0)) s1;
     (t, s3) \<leftarrow> init_build (example_sm_env None) pre s2;
     init_all (example_sm_env None) (init_publish True pre t s3) }"

theorem register_during_initialize_lost_witness:
  "\<exists>s4. racing_registration = Some s4 \<and> sm_lookup s4 ''thread'' = None"
proof -
  have "case racing_registration of None \<Rightarrow> False | Some s \<Rightarrow> True" by code_simp
  then obtain s4 where s4: "racing_registration = Some s4" by (auto split: option.splits)
  then obtain pre s1 s2 t s3 where run: "init_steal registered_manager = Some (pre, s1)"
    "subsystemManagerRegister (Some (example_subsystem ''thread'' 0)) s1 = Some s2"
    "init_build (example_sm_env None) pre s2 = Some (t, s3)"
    "init_all (example_sm_env None) (init_publish True pre t s3) = Some s4"
    by (auto simp: racing_registration_def split: Option.bind_splits prod.splits)
  have "sub_name (example_subsystem ''thread'' 0) = Some ''thread''" "''thread'' \<notin> fst ` set (named_subsystems pre)"
    using run(1)
    by (auto simp: init_steal_def registered_manager_def sm_static_def named_subsystems_def example_subsystem_def)
  from register_during_initialize_lost [OF run this] s4 show ?thesis by blast
qed

end
