(* ===== verification/Comm_Fail.thy ===== *)
theory Comm_Fail
  imports Comm_Watchdog Driver_Manager Json_Database_Props
begin

text \<open>
  Communication failure of devices, \<^verbatim>\<open>core/src/deviceServiceCommFail.c\<close>: it joins the watchdog, the
  drivers and the device database. The timeout of a device is the default of the service unless its
  metadata overrides it; a driver is told the timeout, and the watchdog monitors the device unless the
  driver has a scheme of its own. What the watchdog promises is the locale \<open>device_monitor\<close>,
  interpreted on \<open>Comm_Watchdog\<close>.

  \<open>asciiToUnsigned\<close> stands for \<^verbatim>\<open>g_ascii_string_to_unsigned\<close> with base 10 and the bounds of a 32-bit
  number; \<open>now\<close> is the reading of the monotonic clock.
\<close>

section \<open>Operations\<close>

definition COMMON_DEVICE_METADATA_COMMFAIL_OVERRIDE_SECS :: string where
  "COMMON_DEVICE_METADATA_COMMFAIL_OVERRIDE_SECS = ''commFailOverrideSeconds''"

definition COMMON_DEVICE_RESOURCE_COMM_FAIL :: string where
  "COMMON_DEVICE_RESOURCE_COMM_FAIL = ''communicationFailure''"

record cf_env =
  cf_util :: util_api
  asciiToUnsigned :: "string \<Rightarrow> u32 option"

datatype cf_fault = NullDriverName | WatchdogFault wd_fault

datatype cf_event = CommunicationFailed cstr icDevice | CommunicationRestored cstr icDevice
  | DateLastContacted string | TimeoutSecsChanged cstr cstr u32

record 's comm_fail =
  cf_db :: "'s json_db"
  cf_drivers :: driver_manager
  cf_watchdog :: watchdog
  defaultCommFailTimeoutSecs :: u32

text \<open>Looking a driver up takes the length of its name.\<close>

definition managing_driver :: "icDevice \<Rightarrow> driver_manager \<Rightarrow> cf_fault + DeviceDriver option" where
  "managing_driver d dm =
     (case d_managingDeviceDriver d of
        None \<Rightarrow> if deviceDrivers dm = None then Inr None else Inl NullDriverName
      | Some n \<Rightarrow> Inr (deviceDriverManagerGetDeviceDriver n dm))"

definition deviceServiceGetDevice :: "cstr \<Rightarrow> 's json_db \<Rightarrow> icDevice option" where
  "deviceServiceGetDevice uuid db = jsonDatabaseGetDeviceById uuid db"

definition deviceServiceGetDevicesByDeviceDriver :: "cstr \<Rightarrow> 's json_db \<Rightarrow> icDevice list" where
  "deviceServiceGetDevicesByDeviceDriver driver db = jsonDatabaseGetDevicesByDeviceDriver driver db"

definition deviceCommFailCallback :: "string \<Rightarrow> 's comm_fail \<Rightarrow> cf_fault + cf_event list" where
  "deviceCommFailCallback uuid s =
     (case deviceServiceGetDevice (Some uuid) (cf_db s) of None \<Rightarrow> Inr []
      | Some d \<Rightarrow> (case managing_driver d (cf_drivers s) of Inl f \<Rightarrow> Inl f
         | Inr (Some drv) \<Rightarrow> Inr (if communicationFailed drv then [CommunicationFailed (driverName drv) d] else [])
         | Inr None \<Rightarrow> Inr []))"

definition deviceCommRestoreCallback :: "string \<Rightarrow> 's comm_fail \<Rightarrow> cf_fault + cf_event list" where
  "deviceCommRestoreCallback uuid s =
     (case deviceServiceGetDevice (Some uuid) (cf_db s) of None \<Rightarrow> Inr []
      | Some d \<Rightarrow> (case managing_driver d (cf_drivers s) of Inl f \<Rightarrow> Inl f
         | Inr (Some drv) \<Rightarrow> Inr ((if communicationRestored drv then [CommunicationRestored (driverName drv) d] else []) @
             [DateLastContacted uuid])
         | Inr None \<Rightarrow> Inr [DateLastContacted uuid]))"

definition deviceServiceCommFailInit :: "bool \<Rightarrow> 's comm_fail \<Rightarrow> 's comm_fail" where
  "deviceServiceCommFailInit fast s = s\<lparr>cf_watchdog := deviceCommunicationWatchdogInit True True fast (cf_watchdog s)\<rparr>"

definition deviceServiceCommFailShutdown :: "'s comm_fail \<Rightarrow> cf_fault + 's comm_fail" where
  "deviceServiceCommFailShutdown s =
     (case deviceCommunicationWatchdogTerm (cf_watchdog s) of Inl f \<Rightarrow> Inl (WatchdogFault f)
      | Inr w \<Rightarrow> Inr (s\<lparr>cf_watchdog := w\<rparr>))"

definition getDeviceCommFailTimeoutSecs :: "cf_env \<Rightarrow> icDevice option \<Rightarrow> u32 \<Rightarrow> u32" where
  "getDeviceCommFailTimeoutSecs E device defaultTimeoutSecs =
     (if device = None then defaultTimeoutSecs
      else (case deviceGetMetadata device COMMON_DEVICE_METADATA_COMMFAIL_OVERRIDE_SECS of
              None \<Rightarrow> defaultTimeoutSecs
            | Some tmp \<Rightarrow> (case asciiToUnsigned E tmp of None \<Rightarrow> defaultTimeoutSecs | Some secs \<Rightarrow> secs)))"

definition deviceServiceCommFailHintDeviceTimeoutSecs ::
  "cf_env \<Rightarrow> icDevice \<Rightarrow> u32 \<Rightarrow> driver_manager \<Rightarrow> cf_fault + cf_event list" where
  "deviceServiceCommFailHintDeviceTimeoutSecs E d defaultTimeoutSecs dm =
     (case managing_driver d dm of Inl f \<Rightarrow> Inl f
      | Inr (Some drv) \<Rightarrow> Inr (if commFailTimeoutSecsChanged drv
          then [TimeoutSecsChanged (driverName drv) (d_uuid d) (getDeviceCommFailTimeoutSecs E (Some d) defaultTimeoutSecs)]
          else [])
      | Inr None \<Rightarrow> Inr [])"

definition in_comm_fail :: "cf_env \<Rightarrow> icDevice \<Rightarrow> bool" where
  "in_comm_fail E d = (deviceGetResourceValueById (cf_util E) (Some d) (Some COMMON_DEVICE_RESOURCE_COMM_FAIL) = Some ''true'')"

text \<open>Monitoring is stopped and started again; a timeout of 0 leaves the device unmonitored.\<close>

definition restart_monitoring :: "u64 \<Rightarrow> cstr \<Rightarrow> u32 \<Rightarrow> bool \<Rightarrow> watchdog \<Rightarrow> wd_fault + watchdog" where
  "restart_monitoring now uuid secs isCommFail w =
     (case (case uuid of
              Some u \<Rightarrow> if deviceCommunicationWatchdogIsDeviceMonitored uuid w
                        then deviceCommunicationWatchdogStopMonitoringDevice u w else Inr w
            | None \<Rightarrow> Inr w)
      of Inl f \<Rightarrow> Inl f
       | Inr w1 \<Rightarrow> if secs \<noteq> 0 then deviceCommunicationWatchdogMonitorDevice now uuid secs isCommFail w1 else Inr w1)"

definition deviceServiceCommFailSetDeviceTimeoutSecs ::
  "cf_env \<Rightarrow> u64 \<Rightarrow> icDevice \<Rightarrow> u32 \<Rightarrow> driver_manager \<Rightarrow> watchdog \<Rightarrow> cf_fault + (watchdog \<times> cf_event list)" where
  "deviceServiceCommFailSetDeviceTimeoutSecs E now d defaultTimeoutSecs dm w =
     (case managing_driver d dm of Inl f \<Rightarrow> Inl f
      | Inr None \<Rightarrow> Inr (w, [])
      | Inr (Some drv) \<Rightarrow>
          let commFailTimeoutSecs = getDeviceCommFailTimeoutSecs E (Some d) defaultTimeoutSecs;
              es = (if commFailTimeoutSecsChanged drv
                    then [TimeoutSecsChanged (driverName drv) (d_uuid d) commFailTimeoutSecs] else [])
          in if customCommFail drv then Inr (w, es)
             else (case restart_monitoring now (d_uuid d) commFailTimeoutSecs (in_comm_fail E d) w of
                     Inl f \<Rightarrow> Inl (WatchdogFault f) | Inr w' \<Rightarrow> Inr (w', es)))"

fun set_devices :: "cf_env \<Rightarrow> u64 \<Rightarrow> icDevice list \<Rightarrow> u32 \<Rightarrow> driver_manager \<Rightarrow> watchdog \<Rightarrow> cf_fault + (watchdog \<times> cf_event list)" where
  "set_devices E now [] secs dm w = Inr (w, [])"
| "set_devices E now (d # ds) secs dm w =
     (case deviceServiceCommFailSetDeviceTimeoutSecs E now d secs dm w of Inl f \<Rightarrow> Inl f
      | Inr (w1, es) \<Rightarrow> (case set_devices E now ds secs dm w1 of Inl f \<Rightarrow> Inl f
          | Inr (w2, fs) \<Rightarrow> Inr (w2, es @ fs)))"

definition setDriverCommFailTimeoutSecs ::
  "cf_env \<Rightarrow> u64 \<Rightarrow> DeviceDriver \<Rightarrow> u32 \<Rightarrow> 's comm_fail \<Rightarrow> watchdog \<Rightarrow> cf_fault + (watchdog \<times> cf_event list)" where
  "setDriverCommFailTimeoutSecs E now drv secs s w =
     set_devices E now (deviceServiceGetDevicesByDeviceDriver (driverName drv) (cf_db s)) secs (cf_drivers s) w"

fun set_drivers :: "cf_env \<Rightarrow> u64 \<Rightarrow> DeviceDriver list \<Rightarrow> u32 \<Rightarrow> 's comm_fail \<Rightarrow> watchdog \<Rightarrow> cf_fault + (watchdog \<times> cf_event list)" where
  "set_drivers E now [] secs s w = Inr (w, [])"
| "set_drivers E now (drv # drvs) secs s w =
     (case setDriverCommFailTimeoutSecs E now drv secs s w of Inl f \<Rightarrow> Inl f
      | Inr (w1, es) \<Rightarrow> (case set_drivers E now drvs secs s w1 of Inl f \<Rightarrow> Inl f
          | Inr (w2, fs) \<Rightarrow> Inr (w2, es @ fs)))"

definition deviceServiceCommFailSetTimeoutSecs ::
  "cf_env \<Rightarrow> u64 \<Rightarrow> u32 \<Rightarrow> 's comm_fail \<Rightarrow> cf_fault + ('s comm_fail \<times> cf_event list)" where
  "deviceServiceCommFailSetTimeoutSecs E now secs s =
     (let drivers = (case deviceDriverManagerGetDeviceDrivers (cf_drivers s) of None \<Rightarrow> [] | Some ds \<Rightarrow> ds);
          s1 = s\<lparr>defaultCommFailTimeoutSecs := secs\<rparr>
      in (case set_drivers E now drivers secs s1 (cf_watchdog s) of Inl f \<Rightarrow> Inl f
          | Inr (w, es) \<Rightarrow> Inr (s1\<lparr>cf_watchdog := w\<rparr>, es)))"

definition deviceServiceCommFailGetTimeoutSecs :: "'s comm_fail \<Rightarrow> u32" where
  "deviceServiceCommFailGetTimeoutSecs s = defaultCommFailTimeoutSecs s"

definition deviceServiceCommFailGetDeviceTimeoutSecs :: "cf_env \<Rightarrow> icDevice option \<Rightarrow> 's comm_fail \<Rightarrow> u32" where
  "deviceServiceCommFailGetDeviceTimeoutSecs E device s =
     getDeviceCommFailTimeoutSecs E device (defaultCommFailTimeoutSecs s)"

section \<open>What the watchdog promises\<close>

text \<open>
  The view of a monitor is the timeout and the state of each device it monitors. Stopping needs a
  monitored device, starting an unmonitored one and a timeout; neither fails then. A client that stops
  before it starts, and starts with a timeout only, never sees a fault.
\<close>

locale device_monitor =
  fixes monitored :: "string \<Rightarrow> 'w \<Rightarrow> bool"
    and stop :: "string \<Rightarrow> 'w \<Rightarrow> 'e + 'w"
    and start :: "string \<Rightarrow> u32 \<Rightarrow> bool \<Rightarrow> 'w \<Rightarrow> 'e + 'w"
    and view :: "'w \<Rightarrow> string \<Rightarrow> (u32 \<times> bool) option"
    and ok :: "'w \<Rightarrow> bool"
  assumes monitored_view: "ok w \<Longrightarrow> monitored u w \<longleftrightarrow> view w u \<noteq> None"
    and stop_law: "ok w \<Longrightarrow> monitored u w \<Longrightarrow>
      \<exists>w'. stop u w = Inr w' \<and> ok w' \<and> (\<forall>v. view w' v = (if v = u then None else view w v))"
    and start_law: "ok w \<Longrightarrow> \<not> monitored u w \<Longrightarrow> t \<noteq> 0 \<Longrightarrow>
      \<exists>w'. start u t b w = Inr w' \<and> ok w' \<and> (\<forall>v. view w' v = (if v = u then Some (t, b) else view w v))"
begin

lemma stop_if_monitored:
  assumes "ok w"
  shows "\<exists>w'. (if monitored u w then stop u w else Inr w) = Inr w' \<and> ok w' \<and>
     (\<forall>v. view w' v = (if v = u then None else view w v))"
  using stop_law [OF assms, of u] monitored_view [OF assms, of u] assms
  by (cases "monitored u w"; cases "view w u") auto

lemma restart:
  assumes "ok w"
  shows "\<exists>w1 w'. (if monitored u w then stop u w else Inr w) = Inr w1 \<and>
     (if t \<noteq> 0 then start u t b w1 else Inr w1) = Inr w' \<and> ok w' \<and>
     (\<forall>v. view w' v = (if v = u then if t = 0 then None else Some (t, b) else view w v))"
proof -
  from stop_if_monitored [OF assms] obtain w1 where
    w1: "(if monitored u w then stop u w else Inr w) = Inr w1" "ok w1"
      "\<forall>v. view w1 v = (if v = u then None else view w v)" by blast
  then have "\<not> monitored u w1" using monitored_view by simp
  show ?thesis
  proof (cases "t = 0")
    case True
    then show ?thesis using w1 by (intro exI [of _ w1]) simp
  next
    case False
    from start_law [OF w1(2) \<open>\<not> monitored u w1\<close> False, of b] obtain w' where
      "start u t b w1 = Inr w'" "ok w'" "\<forall>v. view w' v = (if v = u then Some (t, b) else view w1 v)" by blast
    then show ?thesis using w1 False by (intro exI [of _ w1] exI [of _ w']) simp
  qed
qed

end

definition monitor_ok :: "watchdog \<Rightarrow> bool" where
  "monitor_ok w \<longleftrightarrow> table_ok w \<and> running w \<and> monitoredDevices w \<noteq> None"

definition monitor_view :: "watchdog \<Rightarrow> string \<Rightarrow> (u32 \<times> bool) option" where
  "monitor_view w u = (case wd_lookup w u of
     Some (Live i) \<Rightarrow> Some (commFailTimeoutSeconds i, inCommFail i) | _ \<Rightarrow> None)"

lemma monitor_ok_live: "monitor_ok w \<Longrightarrow> wd_lookup w u \<noteq> Some Freed"
  by (force simp: monitor_ok_def table_ok_def wd_lookup_def hashMapGet_def dest: map_of_SomeD split: option.splits)

interpretation wdm: device_monitor "\<lambda>u. deviceCommunicationWatchdogIsDeviceMonitored (Some u)"
  deviceCommunicationWatchdogStopMonitoringDevice
  "\<lambda>u. deviceCommunicationWatchdogMonitorDevice now (Some u)" monitor_view monitor_ok for now
proof (unfold_locales, goal_cases)
  case (1 w u)
  then show ?case using monitor_ok_live [OF 1, of u]
    by (auto simp: deviceCommunicationWatchdogIsDeviceMonitored_def monitor_view_def wd_lookup_def hmap_simps
        split: option.splits slot.splits)
next
  case (2 w u)
  then obtain w' where w': "deviceCommunicationWatchdogStopMonitoringDevice u w = Inr w'"
    using monitor_ok_live [OF 2(1), of u]
    by (auto simp: deviceCommunicationWatchdogStopMonitoringDevice_def wd_lookup_def split: option.splits)
  moreover have "running w' = running w" "monitoredDevices w' \<noteq> None"
    using w' 2(1) by (auto simp: deviceCommunicationWatchdogStopMonitoringDevice_def monitor_ok_def
        split: option.splits if_splits)
  ultimately show ?case using stop_lookup [OF _ w'] 2(1) by (auto simp: monitor_ok_def monitor_view_def)
next
  case (3 w u t b)
  then obtain m where m: "monitoredDevices w = Some m" "table_ok w" "running w" by (auto simp: monitor_ok_def)
  from monitor_fresh [OF m(2) 3(2, 3) m(3) m(1), of now b] obtain w' where
    w': "deviceCommunicationWatchdogMonitorDevice now (Some u) t b w = Inr w'" "table_ok w'"
      "\<forall>v. wd_lookup w' v = (if v = u then Some (Live (new_info now u t b)) else wd_lookup w v)" by blast
  moreover have "running w' = running w" "monitoredDevices w' \<noteq> None"
    using w'(1) m 3(3) by (auto simp: deviceCommunicationWatchdogMonitorDevice_def split: option.splits if_splits prod.splits)
  ultimately show ?case using m
    by (auto simp: monitor_ok_def monitor_view_def new_info_def setMillisUntilCommFail_def)
qed

section \<open>Setting the timeouts\<close>

text \<open>Whether the service monitors a device, and what the watchdog then shows of it.\<close>

definition service_monitors :: "driver_manager \<Rightarrow> icDevice \<Rightarrow> bool" where
  "service_monitors dm d \<longleftrightarrow>
     (\<exists>n drv. d_managingDeviceDriver d = Some n \<and> deviceDriverManagerGetDeviceDriver n dm = Some drv \<and> \<not> customCommFail drv)"

definition monitoring_target :: "cf_env \<Rightarrow> u32 \<Rightarrow> icDevice \<Rightarrow> (u32 \<times> bool) option" where
  "monitoring_target E secs d =
     (let t = getDeviceCommFailTimeoutSecs E (Some d) secs in if t = 0 then None else Some (t, in_comm_fail E d))"

lemma set_device_spec:
  assumes "monitor_ok w" "d_managingDeviceDriver d \<noteq> None" "d_uuid d = Some u"
  shows "\<exists>w' es. deviceServiceCommFailSetDeviceTimeoutSecs E now d secs dm w = Inr (w', es) \<and> monitor_ok w' \<and>
     (\<forall>v. monitor_view w' v =
        (if v = u \<and> service_monitors dm d then monitoring_target E secs d else monitor_view w v))"
proof -
  let ?t = "getDeviceCommFailTimeoutSecs E (Some d) secs"
  from assms(2) obtain n where n: "d_managingDeviceDriver d = Some n" by auto
  from wdm.restart [OF assms(1), of u ?t now "in_comm_fail E d"] obtain w' where
    w': "restart_monitoring now (Some u) ?t (in_comm_fail E d) w = Inr w'" "monitor_ok w'"
      "\<forall>v. monitor_view w' v = (if v = u then monitoring_target E secs d else monitor_view w v)"
    by (auto simp: restart_monitoring_def monitoring_target_def Let_def)
  consider (none) "deviceDriverManagerGetDeviceDriver n dm = None"
    | (custom) drv where "deviceDriverManagerGetDeviceDriver n dm = Some drv" "customCommFail drv"
    | (standard) drv where "deviceDriverManagerGetDeviceDriver n dm = Some drv" "\<not> customCommFail drv"
    by (cases "deviceDriverManagerGetDeviceDriver n dm") auto
  then show ?thesis
    by cases (use assms n w' in \<open>auto simp: deviceServiceCommFailSetDeviceTimeoutSecs_def managing_driver_def
        service_monitors_def Let_def\<close>)
qed

lemma set_devices_spec:
  assumes "monitor_ok w" "\<forall>d \<in> set ds. d_managingDeviceDriver d \<noteq> None \<and> d_uuid d \<noteq> None"
    "\<forall>d \<in> set ds. \<forall>e \<in> set ds. d_uuid d = d_uuid e \<longrightarrow> d = e"
  shows "\<exists>w' es. set_devices E now ds secs dm w = Inr (w', es) \<and> monitor_ok w' \<and>
     (\<forall>d \<in> set ds. service_monitors dm d \<longrightarrow> monitor_view w' (the (d_uuid d)) = monitoring_target E secs d) \<and>
     (\<forall>v. (\<forall>d \<in> set ds. service_monitors dm d \<longrightarrow> d_uuid d \<noteq> Some v) \<longrightarrow> monitor_view w' v = monitor_view w v)"
  using assms
proof (induction ds arbitrary: w)
  case (Cons d ds)
  then obtain u where u: "d_uuid d = Some u" "d_managingDeviceDriver d \<noteq> None" by auto
  from set_device_spec [OF Cons.prems(1) u(2, 1)] obtain w1 es where
    1: "deviceServiceCommFailSetDeviceTimeoutSecs E now d secs dm w = Inr (w1, es)" "monitor_ok w1"
      "\<forall>v. monitor_view w1 v =
        (if v = u \<and> service_monitors dm d then monitoring_target E secs d else monitor_view w v)" by blast
  from Cons.IH [OF 1(2)] Cons.prems obtain w2 fs where
    2: "set_devices E now ds secs dm w1 = Inr (w2, fs)" "monitor_ok w2"
      "\<forall>d \<in> set ds. service_monitors dm d \<longrightarrow> monitor_view w2 (the (d_uuid d)) = monitoring_target E secs d"
      "\<forall>v. (\<forall>d \<in> set ds. service_monitors dm d \<longrightarrow> d_uuid d \<noteq> Some v) \<longrightarrow> monitor_view w2 v = monitor_view w1 v"
    by auto
  have "monitor_view w2 u = monitoring_target E secs d" if "service_monitors dm d"
  proof (cases "\<exists>e \<in> set ds. d_uuid e = Some u")
    case True
    then have "d \<in> set ds" using Cons.prems(3) u(1) by (metis list.set_intros)
    with 2(3) that u(1) show ?thesis by auto
  next
    case False
    then have "monitor_view w2 u = monitor_view w1 u" using 2(4) by blast
    with 1(3) that show ?thesis by simp
  qed
  with 1 2 u show ?case by auto
qed simp

lemma set_devices_append:
  "set_devices E now (as @ bs) secs dm w =
     (case set_devices E now as secs dm w of Inl f \<Rightarrow> Inl f
      | Inr (w1, es) \<Rightarrow> (case set_devices E now bs secs dm w1 of Inl f \<Rightarrow> Inl f
          | Inr (w2, fs) \<Rightarrow> Inr (w2, es @ fs)))"
  by (induction E now as secs dm w rule: set_devices.induct) (auto split: sum.splits prod.splits)

text \<open>The drivers' devices one after the other.\<close>

lemma set_drivers_devices:
  "set_drivers E now drvs secs s w =
     set_devices E now (concat (map (\<lambda>drv. deviceServiceGetDevicesByDeviceDriver (driverName drv) (cf_db s)) drvs))
       secs (cf_drivers s) w"
  by (induction E now drvs secs s w rule: set_drivers.induct)
    (auto simp: setDriverCommFailTimeoutSecs_def set_devices_append split: sum.splits prod.splits)

lemma devices_by_driver:
  "d \<in> set (deviceServiceGetDevicesByDeviceDriver drv db) \<longleftrightarrow>
     drv \<noteq> None \<and> d_managingDeviceDriver d = drv \<and> d \<in> set (jsonDatabaseGetDevices db)"
  by (force simp: deviceServiceGetDevicesByDeviceDriver_def jsonDatabaseGetDevicesByDeviceDriver_def
      jsonDatabaseGetDevices_def map_filter_def image_iff)

lemma cached_devices:
  assumes "db_inv db"
  shows "d \<in> set (jsonDatabaseGetDevices db) \<Longrightarrow> d_uuid d \<noteq> None"
    and "d \<in> set (jsonDatabaseGetDevices db) \<Longrightarrow> e \<in> set (jsonDatabaseGetDevices db) \<Longrightarrow> d_uuid d = d_uuid e \<Longrightarrow> d = e"
proof -
  have mem: "d \<in> set (jsonDatabaseGetDevices db) \<Longrightarrow>
      \<exists>u ce. hashMapGet (devices db) u = Some ce \<and> d = ce_device ce \<and> d_uuid d = Some u" for d
    using assms hashMapGet_mem [of "devices db"]
    by (force simp: jsonDatabaseGetDevices_def map_filter_def db_inv_def device_inv_def)
  show "d \<in> set (jsonDatabaseGetDevices db) \<Longrightarrow> d_uuid d \<noteq> None" using mem by fastforce
  show "d \<in> set (jsonDatabaseGetDevices db) \<Longrightarrow> e \<in> set (jsonDatabaseGetDevices db) \<Longrightarrow> d_uuid d = d_uuid e \<Longrightarrow> d = e"
    using mem [of d] mem [of e] by auto
qed

lemma service_monitors_listed:
  assumes "dm_inv dm" "service_monitors dm d"
  shows "\<exists>drv \<in> set (ordered_of dm). driverName drv = d_managingDeviceDriver d \<and> driverName drv \<noteq> None"
  using assms get_driver_first [OF assms(1)] find_Some_mem
  by (fastforce simp: service_monitors_def)

section \<open>Properties\<close>

text \<open>
  Setting the timeout of the service never faults, keeps the watchdog free of freed entries and
  remembers the new default. Every cached device whose driver is registered and has no scheme of its
  own is then monitored with its timeout, the override of its metadata if there is one and the new
  default otherwise, and in the failure state of its resource; it is not monitored if that timeout is
  0. Nothing changes for any other device.
\<close>

theorem comm_fail_timeouts_applied:
  assumes "monitor_ok (cf_watchdog s)" "db_inv (cf_db s)" "dm_inv (cf_drivers s)"
    "\<forall>d \<in> set (jsonDatabaseGetDevices (cf_db s)). d_managingDeviceDriver d \<noteq> None"
  shows "\<exists>s' es. deviceServiceCommFailSetTimeoutSecs E now secs s = Inr (s', es) \<and>
     monitor_ok (cf_watchdog s') \<and> deviceServiceCommFailGetTimeoutSecs s' = secs \<and>
     (\<forall>d \<in> set (jsonDatabaseGetDevices (cf_db s)). service_monitors (cf_drivers s) d \<longrightarrow>
        monitor_view (cf_watchdog s') (the (d_uuid d)) = monitoring_target E secs d) \<and>
     (\<forall>v. (\<forall>d \<in> set (jsonDatabaseGetDevices (cf_db s)). service_monitors (cf_drivers s) d \<longrightarrow> d_uuid d \<noteq> Some v) \<longrightarrow>
        monitor_view (cf_watchdog s') v = monitor_view (cf_watchdog s) v)"
proof -
  let ?all = "jsonDatabaseGetDevices (cf_db s)"
  define ds where "ds = concat (map (\<lambda>drv. deviceServiceGetDevicesByDeviceDriver (driverName drv) (cf_db s))
    (ordered_of (cf_drivers s)))"
  have sub: "set ds \<subseteq> set ?all" by (auto simp: ds_def devices_by_driver)
  have covers: "d \<in> set ds" if "d \<in> set ?all" "service_monitors (cf_drivers s) d" for d
    using service_monitors_listed [OF assms(3) that(2)] that(1) by (auto simp: ds_def devices_by_driver)
  obtain w es where w: "set_devices E now ds secs (cf_drivers s) (cf_watchdog s) = Inr (w, es)" "monitor_ok w"
    "\<forall>d \<in> set ds. service_monitors (cf_drivers s) d \<longrightarrow> monitor_view w (the (d_uuid d)) = monitoring_target E secs d"
    "\<forall>v. (\<forall>d \<in> set ds. service_monitors (cf_drivers s) d \<longrightarrow> d_uuid d \<noteq> Some v) \<longrightarrow>
       monitor_view w v = monitor_view (cf_watchdog s) v"
    using set_devices_spec [OF assms(1), of ds E now secs "cf_drivers s"] sub assms(4) cached_devices [OF assms(2)]
    by (auto simp: subset_iff)
  have "deviceServiceCommFailSetTimeoutSecs E now secs s =
      Inr (s\<lparr>defaultCommFailTimeoutSecs := secs, cf_watchdog := w\<rparr>, es)"
    using w(1) by (simp add: deviceServiceCommFailSetTimeoutSecs_def set_drivers_devices ds_def ordered_of_def
        deviceDriverManagerGetDeviceDrivers_def Let_def)
  moreover have "\<forall>v. (\<forall>d \<in> set ?all. service_monitors (cf_drivers s) d \<longrightarrow> d_uuid d \<noteq> Some v) \<longrightarrow>
      monitor_view w v = monitor_view (cf_watchdog s) v" using w(4) sub by blast
  ultimately show ?thesis using w(2, 3) covers
    by (intro exI [of _ "s\<lparr>defaultCommFailTimeoutSecs := secs, cf_watchdog := w\<rparr>"] exI [of _ es])
      (auto simp: deviceServiceCommFailGetTimeoutSecs_def)
qed

definition example_cf_env :: cf_env where
  "example_cf_env = \<lparr>cf_util = example_util,
     asciiToUnsigned = (\<lambda>t. if t \<noteq> [] \<and> list_all is_digit t \<and> digits_value t < 2 ^ 32
        then Some (word_of_nat (digits_value t)) else None)\<rparr>"

definition example_comm_fail :: "(string \<times> string) list comm_fail" where
  "example_comm_fail = \<lparr>cf_db = one_db,
     cf_drivers = register_all [Some (example_driver ''ZigbeeDoorLock'' ''zigbee'')] driver_manager_static,
     cf_watchdog = deviceCommunicationWatchdogInit True True False watchdog_static,
     defaultCommFailTimeoutSecs = 3600\<rparr>"

lemma example_comm_fail_parts:
  "monitor_ok (cf_watchdog example_comm_fail)" "db_inv (cf_db example_comm_fail)" "dm_inv (cf_drivers example_comm_fail)"
  "jsonDatabaseGetDevices (cf_db example_comm_fail) = [example_device]"
  "service_monitors (cf_drivers example_comm_fail) example_device"
proof -
  show "monitor_ok (cf_watchdog example_comm_fail)"
    by (simp add: example_comm_fail_def monitor_ok_def table_ok_def deviceCommunicationWatchdogInit_def watchdog_static_def)
  show "db_inv (cf_db example_comm_fail)" using db_inv_one_db by (simp add: example_comm_fail_def)
  show "dm_inv (cf_drivers example_comm_fail)"
    by (simp add: example_comm_fail_def dm_inv_register dm_inv_static)
  show "jsonDatabaseGetDevices (cf_db example_comm_fail) = [example_device]"
    by (simp add: example_comm_fail_def one_db_def empty_db_def jsonDatabaseGetDevices_def map_filter_def)
  have "deviceDriverManagerGetDeviceDriver ''ZigbeeDoorLock'' (cf_drivers example_comm_fail) =
      Some (example_driver ''ZigbeeDoorLock'' ''zigbee'')" by code_simp
  then show "service_monitors (cf_drivers example_comm_fail) example_device"
    by (simp add: service_monitors_def example_device_def example_driver_def)
qed

theorem comm_fail_timeouts_applied_witness:
  "\<exists>s' es. deviceServiceCommFailSetTimeoutSecs example_cf_env 1000 7200 example_comm_fail = Inr (s', es) \<and>
     monitor_view (cf_watchdog s') ''d1'' = Some (60, False)"
proof -
  have "deviceGetMetadata (Some example_device) COMMON_DEVICE_METADATA_COMMFAIL_OVERRIDE_SECS = Some ''60''"
    by code_simp
  moreover have "asciiToUnsigned example_cf_env ''60'' = Some 60"
    by (simp add: example_cf_env_def digits_value_def is_digit_def)
  moreover have "deviceGetResourceValueById example_util (Some example_device) (Some COMMON_DEVICE_RESOURCE_COMM_FAIL) = None"
    by code_simp
  ultimately have "monitoring_target example_cf_env 7200 example_device = Some (60, False)"
    by (simp add: monitoring_target_def getDeviceCommFailTimeoutSecs_def in_comm_fail_def example_cf_env_def)
  moreover have "the (d_uuid example_device) = ''d1''" "d_managingDeviceDriver example_device \<noteq> None"
    by (simp_all add: example_device_def)
  ultimately show ?thesis
    using comm_fail_timeouts_applied [OF example_comm_fail_parts(1-3), of example_cf_env 1000 7200]
      example_comm_fail_parts(4, 5) by auto
qed

text \<open>
  The countdown of the watchdog is a 32-bit number of milliseconds: a device whose override is
  more than 4294967 seconds is monitored with that timeout, but its countdown starts at the timeout in
  milliseconds modulo \<open>2 ^ 32\<close>, always earlier than the override asks for.
\<close>

theorem comm_fail_override_wraps:
  assumes "monitor_ok w" "d_managingDeviceDriver d \<noteq> None" "d_uuid d = Some u" "service_monitors dm d"
    "deviceGetMetadata (Some d) COMMON_DEVICE_METADATA_COMMFAIL_OVERRIDE_SECS = Some text"
    "asciiToUnsigned E text = Some secs" "4294967 < unat secs"
  shows "\<exists>w' es info. deviceServiceCommFailSetDeviceTimeoutSecs E now d dflt dm w = Inr (w', es) \<and>
     wd_lookup w' u = Some (Live info) \<and> commFailTimeoutSeconds info = secs \<and>
     unat (commFailTimeRemainingMillis info) = unat secs * 1000 mod 2 ^ 32 \<and>
     unat (commFailTimeRemainingMillis info) < unat secs * 1000"
proof -
  have secs: "getDeviceCommFailTimeoutSecs E (Some d) dflt = secs" "secs \<noteq> 0"
    using assms(5-7) by (auto simp: getDeviceCommFailTimeoutSecs_def)
  obtain n drv where drv: "d_managingDeviceDriver d = Some n" "deviceDriverManagerGetDeviceDriver n dm = Some drv"
    "\<not> customCommFail drv" using assms(4) by (auto simp: service_monitors_def)
  obtain w1 where w1: "(if deviceCommunicationWatchdogIsDeviceMonitored (Some u) w
      then deviceCommunicationWatchdogStopMonitoringDevice u w else Inr w) = Inr w1" "monitor_ok w1"
      "\<forall>v. monitor_view w1 v = (if v = u then None else monitor_view w v)"
    using wdm.stop_if_monitored [OF assms(1), of u] by blast
  then have "\<not> deviceCommunicationWatchdogIsDeviceMonitored (Some u) w1" using wdm.monitored_view by simp
  moreover obtain m where "monitoredDevices w1 = Some m" using w1(2) by (auto simp: monitor_ok_def)
  ultimately obtain w' where w': "deviceCommunicationWatchdogMonitorDevice now (Some u) secs (in_comm_fail E d) w1 = Inr w'"
    "wd_lookup w' u = Some (Live (new_info now u secs (in_comm_fail E d)))"
    using monitor_fresh [of w1 u secs m now "in_comm_fail E d"] w1(2) secs(2) by (auto simp: monitor_ok_def)
  have "\<exists>es. deviceServiceCommFailSetDeviceTimeoutSecs E now d dflt dm w = Inr (w', es)"
    using drv assms(3) secs w1(1) w'(1)
    by (simp add: deviceServiceCommFailSetDeviceTimeoutSecs_def managing_driver_def restart_monitoring_def Let_def)
  moreover have "unat (secs * 1000) = unat secs * 1000 mod 2 ^ 32"
    by (simp add: unat_word_ariths)
  moreover have "unat secs * 1000 mod 2 ^ 32 < unat secs * 1000"
  proof -
    have "unat secs * 1000 mod 2 ^ 32 < 2 ^ 32" by simp
    also have "2 ^ 32 \<le> unat secs * 1000" using assms(7) by simp
    finally show ?thesis .
  qed
  ultimately show ?thesis using w'(2) by (auto simp: new_info_def setMillisUntilCommFail_def)
qed

definition long_override_device :: icDevice where
  "long_override_device = example_device
     \<lparr>d_metadata := Some [example_metadata None ''commFailOverrideSeconds'' ''4294968'']\<rparr>"

theorem comm_fail_override_wraps_witness:
  "\<exists>w' es info. deviceServiceCommFailSetDeviceTimeoutSecs example_cf_env 1000 long_override_device 3600
       (cf_drivers example_comm_fail) (cf_watchdog example_comm_fail) = Inr (w', es) \<and>
     wd_lookup w' ''d1'' = Some (Live info) \<and> unat (commFailTimeRemainingMillis info) = 704"
proof -
  have "deviceGetMetadata (Some long_override_device) COMMON_DEVICE_METADATA_COMMFAIL_OVERRIDE_SECS = Some ''4294968''"
    by code_simp
  moreover have "asciiToUnsigned example_cf_env ''4294968'' = Some 4294968"
    by (simp add: example_cf_env_def digits_value_def is_digit_def)
  moreover have "unat (4294968 :: u32) = 4294968" by simp
  moreover have "d_managingDeviceDriver long_override_device \<noteq> None" "d_uuid long_override_device = Some ''d1''"
    "service_monitors (cf_drivers example_comm_fail) long_override_device"
    using example_comm_fail_parts(5) by (simp_all add: long_override_device_def example_device_def service_monitors_def)
  ultimately show ?thesis
    using comm_fail_override_wraps [OF example_comm_fail_parts(1), of long_override_device "''d1''"
        "cf_drivers example_comm_fail" "''4294968''" example_cf_env 4294968 1000 3600] by auto
qed

end
