(* ===== verification/Property_Provider.thy ===== *)
theory Property_Provider
  imports Subsystem_Manager_Props
begin

text \<open>
  The property provider, \<^verbatim>\<open>api/c/src/provider/barton-core-property-provider.c\<close>: the interface a client
  may implement, with the system properties of the device database behind it, and the typed accessors
  on top. \<open>provider_iface\<close> is the virtual table of the client's implementation (a \<^verbatim>\<open>NULL\<close> entry is
  \<open>None\<close>) on the client's state \<open>'w\<close>; the default provider implements nothing
  (\<^verbatim>\<open>barton-core-default-property-provider.c\<close>). A \<^verbatim>\<open>GError\<close> is its code. The signal
  \<^verbatim>\<open>property-changed\<close> is returned with the result. GLib's number parsers are the
  parameter \<open>G\<close>: value, number of characters used, and whether \<^verbatim>\<open>errno\<close> was set.
\<close>

section \<open>Interface\<close>

datatype BCorePropertyProviderError = B_CORE_PROPERTY_PROVIDER_ERROR_GENERIC
  | B_CORE_PROPERTY_PROVIDER_ERROR_ARG | B_CORE_PROPERTY_PROVIDER_ERROR_NOT_FOUND
  | B_CORE_PROPERTY_PROVIDER_ERROR_INTERNAL

record 'w provider_iface =
  iface_get_property :: "('w \<Rightarrow> string \<Rightarrow> cstr \<times> BCorePropertyProviderError option) option"
  iface_get_all_properties :: "('w \<Rightarrow> (string, string) hmap) option"
  iface_set_property :: "('w \<Rightarrow> string \<Rightarrow> cstr \<Rightarrow> bool \<times> BCorePropertyProviderError option \<times> 'w) option"

definition default_provider :: "'w provider_iface" where
  "default_provider = \<lparr>iface_get_property = None, iface_get_all_properties = None, iface_set_property = None\<rparr>"

record glib_api =
  g_ascii_strtoll :: "string \<Rightarrow> nat \<Rightarrow> u64 \<times> nat \<times> bool"
  g_ascii_strtoull :: "string \<Rightarrow> nat \<Rightarrow> u64 \<times> nat \<times> bool"

datatype property_signal = PropertyChanged string cstr cstr

section \<open>Reading\<close>

definition get_internal_property ::
  "cstr \<Rightarrow> 's json_db \<Rightarrow> cstr \<times> BCorePropertyProviderError option" where
  "get_internal_property property_name db =
     (case property_name of None \<Rightarrow> (None, Some B_CORE_PROPERTY_PROVIDER_ERROR_ARG)
      | Some n \<Rightarrow> (case deviceServiceGetSystemProperty n db of
          None \<Rightarrow> (None, Some B_CORE_PROPERTY_PROVIDER_ERROR_NOT_FOUND) | Some v \<Rightarrow> (Some v, None)))"

text \<open>
  The client's value comes first. Its error \<^verbatim>\<open>NOT_FOUND\<close> is cleared, and its value, if it gave one all
  the same, is kept; any other error ends the search.
\<close>

definition get_property ::
  "'w provider_iface \<Rightarrow> cstr \<Rightarrow> 'w \<Rightarrow> 's json_db \<Rightarrow> cstr \<times> BCorePropertyProviderError option" where
  "get_property I property_name w db =
     (case property_name of None \<Rightarrow> (None, Some B_CORE_PROPERTY_PROVIDER_ERROR_ARG)
      | Some n \<Rightarrow>
          (case (case iface_get_property I of None \<Rightarrow> (None, None) | Some get \<Rightarrow> get w n) of
             (value, err) \<Rightarrow>
               if err \<noteq> None \<and> err \<noteq> Some B_CORE_PROPERTY_PROVIDER_ERROR_NOT_FOUND then (None, err)
               else (case value of None \<Rightarrow> get_internal_property property_name db | Some v \<Rightarrow> (Some v, None))))"

definition get_property_as_string :: "'w provider_iface \<Rightarrow> cstr \<Rightarrow> cstr \<Rightarrow> 'w \<Rightarrow> 's json_db \<Rightarrow> cstr" where
  "get_property_as_string I property_name default_value w db =
     (case get_property I property_name w db of (v, None) \<Rightarrow> v | (_, Some _) \<Rightarrow> default_value)"

text \<open>Without an error the value is not \<^verbatim>\<open>NULL\<close> (\<open>get_property_value\<close> below), so it may be compared.\<close>

definition get_property_as_bool :: "'w provider_iface \<Rightarrow> cstr \<Rightarrow> bool \<Rightarrow> 'w \<Rightarrow> 's json_db \<Rightarrow> bool" where
  "get_property_as_bool I property_name default_value w db =
     (case get_property I property_name w db of
        (v, None) \<Rightarrow> map_option lower v = Some ''true'' | (_, Some _) \<Rightarrow> default_value)"

definition get_property_as_int64 :: "glib_api \<Rightarrow> 'w provider_iface \<Rightarrow> cstr \<Rightarrow> u64 \<Rightarrow> 'w \<Rightarrow> 's json_db \<Rightarrow> u64" where
  "get_property_as_int64 G I property_name default_value w db =
     (case get_property I property_name w db of
        (Some v, None) \<Rightarrow> (case g_ascii_strtoll G v 10 of (n, used, errno) \<Rightarrow>
            if errno \<or> n = 0 \<and> used = 0 then default_value else n)
      | _ \<Rightarrow> default_value)"

definition get_property_as_int8 :: "glib_api \<Rightarrow> 'w provider_iface \<Rightarrow> cstr \<Rightarrow> u8 \<Rightarrow> 'w \<Rightarrow> 's json_db \<Rightarrow> u8" where
  "get_property_as_int8 G I property_name default_value w db =
     (let value = sint (get_property_as_int64 G I property_name (word_of_int (sint default_value)) w db)
      in if value < - (2 ^ 7) \<or> value > 2 ^ 7 - 1 then default_value else word_of_int value)"

definition get_property_as_int16 :: "glib_api \<Rightarrow> 'w provider_iface \<Rightarrow> cstr \<Rightarrow> u16 \<Rightarrow> 'w \<Rightarrow> 's json_db \<Rightarrow> u16" where
  "get_property_as_int16 G I property_name default_value w db =
     (let value = sint (get_property_as_int64 G I property_name (word_of_int (sint default_value)) w db)
      in if value < - (2 ^ 15) \<or> value > 2 ^ 15 - 1 then default_value else word_of_int value)"

definition get_property_as_int32 :: "glib_api \<Rightarrow> 'w provider_iface \<Rightarrow> cstr \<Rightarrow> u32 \<Rightarrow> 'w \<Rightarrow> 's json_db \<Rightarrow> u32" where
  "get_property_as_int32 G I property_name default_value w db =
     (let value = sint (get_property_as_int64 G I property_name (word_of_int (sint default_value)) w db)
      in if value < - (2 ^ 31) \<or> value > 2 ^ 31 - 1 then default_value else word_of_int value)"

text \<open>The unsigned parser accepts a sign, so a leading minus is refused first; the base is 0.\<close>

definition get_property_as_uint64 :: "glib_api \<Rightarrow> 'w provider_iface \<Rightarrow> cstr \<Rightarrow> u64 \<Rightarrow> 'w \<Rightarrow> 's json_db \<Rightarrow> u64" where
  "get_property_as_uint64 G I property_name default_value w db =
     (case get_property I property_name w db of
        (Some v, None) \<Rightarrow>
          if v \<noteq> [] \<and> hd v = CHR ''-'' then default_value
          else (case g_ascii_strtoull G v 0 of (n, used, errno) \<Rightarrow>
            if errno \<or> n = 0 \<and> used = 0 then default_value else n)
      | _ \<Rightarrow> default_value)"

definition get_property_as_uint8 :: "glib_api \<Rightarrow> 'w provider_iface \<Rightarrow> cstr \<Rightarrow> u8 \<Rightarrow> 'w \<Rightarrow> 's json_db \<Rightarrow> u8" where
  "get_property_as_uint8 G I property_name default_value w db =
     (let value = uint (get_property_as_uint64 G I property_name (word_of_int (uint default_value)) w db)
      in if value > 2 ^ 8 - 1 then default_value else word_of_int value)"

definition get_property_as_uint16 :: "glib_api \<Rightarrow> 'w provider_iface \<Rightarrow> cstr \<Rightarrow> u16 \<Rightarrow> 'w \<Rightarrow> 's json_db \<Rightarrow> u16" where
  "get_property_as_uint16 G I property_name default_value w db =
     (let value = uint (get_property_as_uint64 G I property_name (word_of_int (uint default_value)) w db)
      in if value > 2 ^ 16 - 1 then default_value else word_of_int value)"

definition get_property_as_uint32 :: "glib_api \<Rightarrow> 'w provider_iface \<Rightarrow> cstr \<Rightarrow> u32 \<Rightarrow> 'w \<Rightarrow> 's json_db \<Rightarrow> u32" where
  "get_property_as_uint32 G I property_name default_value w db =
     (let value = uint (get_property_as_uint64 G I property_name (word_of_int (uint default_value)) w db)
      in if value > 2 ^ 32 - 1 then default_value else word_of_int value)"

definition has_property :: "'w provider_iface \<Rightarrow> cstr \<Rightarrow> 'w \<Rightarrow> 's json_db \<Rightarrow> bool" where
  "has_property I property_name w db =
     (case get_property I property_name w db of (v, err) \<Rightarrow> v \<noteq> None \<and> err = None)"

text \<open>\<^verbatim>\<open>g_hash_table_insert\<close> replaces: a system property hides the client's property of that name.\<close>

definition get_all_properties :: "'w provider_iface \<Rightarrow> 'w \<Rightarrow> 's json_db \<Rightarrow> (string, string) hmap" where
  "get_all_properties I w db =
     (let properties = (case iface_get_all_properties I of None \<Rightarrow> [] | Some f \<Rightarrow> f w);
          internal_properties = (case jsonDatabaseGetAllSystemProperties (Some []) db of
             (_, None) \<Rightarrow> [] | (_, Some m) \<Rightarrow> m)
      in foldl (\<lambda>m (k, v). snd (hashTableInsert m k v)) properties internal_properties)"

section \<open>Writing\<close>

text \<open>\<open>None\<close>: a \<^verbatim>\<open>NULL\<close> value is copied into the database.\<close>

definition set_internal_property ::
  "('j, 's) db_env \<Rightarrow> 'w provider_iface \<Rightarrow> cstr \<Rightarrow> cstr \<Rightarrow> 'w \<Rightarrow> 's json_db \<Rightarrow>
   (bool \<times> BCorePropertyProviderError option \<times> 's json_db \<times> property_signal list) option" where
  "set_internal_property E I property_name property_value w db =
     (case property_name of None \<Rightarrow> Some (False, Some B_CORE_PROPERTY_PROVIDER_ERROR_ARG, db, [])
      | Some n \<Rightarrow>
          (case get_property I property_name w db of
             (old_value, err) \<Rightarrow>
               if err \<noteq> None \<and> err \<noteq> Some B_CORE_PROPERTY_PROVIDER_ERROR_NOT_FOUND then Some (False, err, db, [])
               else (case property_value of None \<Rightarrow> None
                 | Some v \<Rightarrow> (case deviceServiceSetSystemProperty E n v db of
                     (False, db') \<Rightarrow> Some (False, Some B_CORE_PROPERTY_PROVIDER_ERROR_INTERNAL, db', [])
                   | (True, db') \<Rightarrow> Some (True, None, db', [PropertyChanged n old_value property_value])))))"

definition set_property ::
  "('j, 's) db_env \<Rightarrow> 'w provider_iface \<Rightarrow> cstr \<Rightarrow> cstr \<Rightarrow> 'w \<Rightarrow> 's json_db \<Rightarrow>
   (bool \<times> BCorePropertyProviderError option \<times> 'w \<times> 's json_db \<times> property_signal list) option" where
  "set_property E I property_name property_value w db =
     (case property_name of None \<Rightarrow> Some (False, Some B_CORE_PROPERTY_PROVIDER_ERROR_ARG, w, db, [])
      | Some n \<Rightarrow>
          (case iface_set_property I of
             Some put \<Rightarrow> (case put w n property_value of (ok, err, w') \<Rightarrow> Some (ok, err, w', db, []))
           | None \<Rightarrow> (case set_internal_property E I property_name property_value w db of None \<Rightarrow> None
               | Some (ok, err, db', sigs) \<Rightarrow> Some (ok, err, w, db', sigs))))"

text \<open>A failure is logged with its message: a client that fails without an error is a fault.\<close>

definition set_property_string ::
  "('j, 's) db_env \<Rightarrow> 'w provider_iface \<Rightarrow> cstr \<Rightarrow> cstr \<Rightarrow> 'w \<Rightarrow> 's json_db \<Rightarrow>
   (bool \<times> 'w \<times> 's json_db \<times> property_signal list) option" where
  "set_property_string E I property_name property_value w db =
     (case set_property E I property_name property_value w db of None \<Rightarrow> None
      | Some (True, _, r) \<Rightarrow> Some (True, r)
      | Some (False, Some _, r) \<Rightarrow> Some (False, r)
      | Some (False, None, _) \<Rightarrow> None)"

definition signed_decimal :: "int \<Rightarrow> string" where
  "signed_decimal n = (if n < 0 then CHR ''-'' # decimal (nat (- n)) else decimal (nat n))"

definition set_property_bool ::
  "('j, 's) db_env \<Rightarrow> 'w provider_iface \<Rightarrow> cstr \<Rightarrow> bool \<Rightarrow> 'w \<Rightarrow> 's json_db \<Rightarrow>
   (bool \<times> 'w \<times> 's json_db \<times> property_signal list) option" where
  "set_property_bool E I property_name b = set_property_string E I property_name (Some (if b then ''true'' else ''false''))"

definition set_property_int64 ::
  "('j, 's) db_env \<Rightarrow> 'w provider_iface \<Rightarrow> cstr \<Rightarrow> u64 \<Rightarrow> 'w \<Rightarrow> 's json_db \<Rightarrow>
   (bool \<times> 'w \<times> 's json_db \<times> property_signal list) option" where
  "set_property_int64 E I property_name v = set_property_string E I property_name (Some (signed_decimal (sint v)))"

definition set_property_int8 ::
  "('j, 's) db_env \<Rightarrow> 'w provider_iface \<Rightarrow> cstr \<Rightarrow> u8 \<Rightarrow> 'w \<Rightarrow> 's json_db \<Rightarrow>
   (bool \<times> 'w \<times> 's json_db \<times> property_signal list) option" where
  "set_property_int8 E I property_name v = set_property_int64 E I property_name (word_of_int (sint v))"

definition set_property_int16 ::
  "('j, 's) db_env \<Rightarrow> 'w provider_iface \<Rightarrow> cstr \<Rightarrow> u16 \<Rightarrow> 'w \<Rightarrow> 's json_db \<Rightarrow>
   (bool \<times> 'w \<times> 's json_db \<times> property_signal list) option" where
  "set_property_int16 E I property_name v = set_property_int64 E I property_name (word_of_int (sint v))"

definition set_property_int32 ::
  "('j, 's) db_env \<Rightarrow> 'w provider_iface \<Rightarrow> cstr \<Rightarrow> u32 \<Rightarrow> 'w \<Rightarrow> 's json_db \<Rightarrow>
   (bool \<times> 'w \<times> 's json_db \<times> property_signal list) option" where
  "set_property_int32 E I property_name v = set_property_int64 E I property_name (word_of_int (sint v))"

definition set_property_uint64 ::
  "('j, 's) db_env \<Rightarrow> 'w provider_iface \<Rightarrow> cstr \<Rightarrow> u64 \<Rightarrow> 'w \<Rightarrow> 's json_db \<Rightarrow>
   (bool \<times> 'w \<times> 's json_db \<times> property_signal list) option" where
  "set_property_uint64 E I property_name v = set_property_string E I property_name (Some (decimal (unat v)))"

definition set_property_uint8 ::
  "('j, 's) db_env \<Rightarrow> 'w provider_iface \<Rightarrow> cstr \<Rightarrow> u8 \<Rightarrow> 'w \<Rightarrow> 's json_db \<Rightarrow>
   (bool \<times> 'w \<times> 's json_db \<times> property_signal list) option" where
  "set_property_uint8 E I property_name v = set_property_uint64 E I property_name (word_of_int (uint v))"

definition set_property_uint16 ::
  "('j, 's) db_env \<Rightarrow> 'w provider_iface \<Rightarrow> cstr \<Rightarrow> u16 \<Rightarrow> 'w \<Rightarrow> 's json_db \<Rightarrow>
   (bool \<times> 'w \<times> 's json_db \<times> property_signal list) option" where
  "set_property_uint16 E I property_name v = set_property_uint64 E I property_name (word_of_int (uint v))"

definition set_property_uint32 ::
  "('j, 's) db_env \<Rightarrow> 'w provider_iface \<Rightarrow> cstr \<Rightarrow> u32 \<Rightarrow> 'w \<Rightarrow> 's json_db \<Rightarrow>
   (bool \<times> 'w \<times> 's json_db \<times> property_signal list) option" where
  "set_property_uint32 E I property_name v = set_property_uint64 E I property_name (word_of_int (uint v))"

section \<open>Typed values over a property store\<close>

text \<open>
  A store of texts and a number format that can be read back give a store of numbers.
\<close>

locale typed_property = property_store getp setp
  for getp :: "string \<Rightarrow> 'd \<Rightarrow> cstr" and setp :: "string \<Rightarrow> string \<Rightarrow> 'd \<Rightarrow> 'd" +
  fixes print :: "'a \<Rightarrow> string" and parse :: "string \<Rightarrow> 'a option" and parser_ok :: bool
  assumes parse_print: "parser_ok \<Longrightarrow> parse (print v) = Some v"
begin

definition typed_get :: "string \<Rightarrow> 'd \<Rightarrow> 'a option" where
  "typed_get k d = Option.bind (getp k d) parse"

lemma typed_get_set:
  "parser_ok \<Longrightarrow> typed_get k' (setp k (print v) d) = (if k' = k then Some v else typed_get k' d)"
  by (simp add: typed_get_def get_set_if parse_print)

end

definition parse_signed :: "glib_api \<Rightarrow> string \<Rightarrow> u64 option" where
  "parse_signed G v = (case g_ascii_strtoll G v 10 of (n, used, errno) \<Rightarrow>
     if errno \<or> n = 0 \<and> used = 0 then None else Some n)"

definition parse_unsigned :: "glib_api \<Rightarrow> string \<Rightarrow> u64 option" where
  "parse_unsigned G v = (if v \<noteq> [] \<and> hd v = CHR ''-'' then None
     else case g_ascii_strtoull G v 0 of (n, used, errno) \<Rightarrow>
       if errno \<or> n = 0 \<and> used = 0 then None else Some n)"

text \<open>What \<^verbatim>\<open>g_ascii_strtoll\<close> and \<^verbatim>\<open>g_ascii_strtoull\<close> do with the decimal notation of a number in range.\<close>

definition glib_ok :: "glib_api \<Rightarrow> bool" where
  "glib_ok G \<longleftrightarrow>
     (\<forall>v. g_ascii_strtoll G (signed_decimal (sint v)) 10 = (v, length (signed_decimal (sint v)), False)) \<and>
     (\<forall>v. g_ascii_strtoull G (decimal (unat v)) 0 = (v, length (decimal (unat v)), False))"

lemma decimal_first: "decimal n \<noteq> [] \<and> hd (decimal n) \<noteq> CHR ''-''"
  using decimal_digits [of n] by (cases "decimal n") (auto simp: is_digit_def)

lemma parse_signed_print: "glib_ok G \<Longrightarrow> parse_signed G (signed_decimal (sint v)) = Some v"
  using decimal_first by (auto simp: parse_signed_def glib_ok_def signed_decimal_def)

lemma parse_unsigned_print: "glib_ok G \<Longrightarrow> parse_unsigned G (decimal (unat v)) = Some v"
  using decimal_first [of "unat v"] by (auto simp: parse_unsigned_def glib_ok_def)

interpretation signed_props: typed_property deviceServiceGetSystemProperty
  "\<lambda>k v db. snd (deviceServiceSetSystemProperty E k v db)" "\<lambda>v. signed_decimal (sint v)"
  "parse_signed G" "glib_ok G" for E :: "('j, 's) db_env" and G
  by unfold_locales (rule parse_signed_print)

interpretation unsigned_props: typed_property deviceServiceGetSystemProperty
  "\<lambda>k v db. snd (deviceServiceSetSystemProperty E k v db)" "\<lambda>v. decimal (unat v)"
  "parse_unsigned G" "glib_ok G" for E :: "('j, 's) db_env" and G
  by unfold_locales (rule parse_unsigned_print)

section \<open>Properties\<close>

lemma get_property_value: "get_property I n w db = (v, None) \<Longrightarrow> v \<noteq> None"
  by (cases n; cases "deviceServiceGetSystemProperty (the n) db")
    (auto simp: get_property_def get_internal_property_def split: option.splits prod.splits if_splits, metis+)

lemma get_property_default:
  "get_property default_provider (Some n) w db =
     (case deviceServiceGetSystemProperty n db of None \<Rightarrow> (None, Some B_CORE_PROPERTY_PROVIDER_ERROR_NOT_FOUND)
      | Some v \<Rightarrow> (Some v, None))"
  by (simp add: get_property_def default_provider_def get_internal_property_def)

lemma get64_default:
  "get_property_as_int64 G default_provider (Some n) d w db = (case signed_props.typed_get G n db of None \<Rightarrow> d | Some v \<Rightarrow> v)"
  "get_property_as_uint64 G default_provider (Some n) d w db = (case unsigned_props.typed_get G n db of None \<Rightarrow> d | Some v \<Rightarrow> v)"
  by (auto simp: get_property_as_int64_def get_property_as_uint64_def get_property_default
      signed_props.typed_get_def unsigned_props.typed_get_def parse_signed_def parse_unsigned_def
      split: option.splits prod.splits)

text \<open>Setting a text in the default provider: the database has it, and a change is signalled when it was saved.\<close>

lemma set_string_default:
  obtains ok where "set_property_string E default_provider (Some n) (Some v) w db =
    Some (ok, w, snd (deviceServiceSetSystemProperty E n v db),
      if ok then [PropertyChanged n (deviceServiceGetSystemProperty n db) (Some v)] else [])"
proof -
  obtain ok db' where set: "deviceServiceSetSystemProperty E n v db = (ok, db')" by fastforce
  have get: "get_property default_provider (Some n) w db = (deviceServiceGetSystemProperty n db, e) \<Longrightarrow>
    e = None \<or> e = Some B_CORE_PROPERTY_PROVIDER_ERROR_NOT_FOUND \<Longrightarrow> thesis" for e
    using set that [of ok]
    by (cases ok) (auto simp: set_property_string_def set_property_def set_internal_property_def default_provider_def)
  show thesis
    by (cases "deviceServiceGetSystemProperty n db"; rule get) (auto simp: get_property_default)
qed

lemma set_string_saved:
  assumes "fst (deviceServiceSetSystemProperty E n v db)"
  shows "set_property_string E default_provider (Some n) (Some v) w db =
    Some (True, w, snd (deviceServiceSetSystemProperty E n v db), [PropertyChanged n (deviceServiceGetSystemProperty n db) (Some v)])"
  using assms
  by (cases "deviceServiceSetSystemProperty E n v db"; cases "deviceServiceGetSystemProperty n db")
    (simp_all add: set_property_string_def set_property_def set_internal_property_def default_provider_def
      get_property_def get_internal_property_def)

lemma typed_get_default:
  assumes "glib_ok G"
  shows "get_property_as_int64 G default_provider (Some n) d w
      (snd (deviceServiceSetSystemProperty E n (signed_decimal (sint v)) db)) = v"
    and "get_property_as_uint64 G default_provider (Some n) d w
      (snd (deviceServiceSetSystemProperty E n (decimal (unat v)) db)) = v"
  by (simp_all add: get64_default signed_props.typed_get_set [OF assms] unsigned_props.typed_get_set [OF assms])

lemma narrow_signed:
  fixes v8 :: u8 and v16 :: u16 and v32 :: u32
  shows "\<not> sint v8 < - 128" "\<not> 127 < sint v8" "\<not> sint v16 < - 32768" "\<not> 32767 < sint v16"
    "\<not> sint v32 < - 2147483648" "\<not> 2147483647 < sint v32"
  using sint_ge [of v8] sint_lt [of v8] sint_ge [of v16] sint_lt [of v16] sint_ge [of v32] sint_lt [of v32]
  by simp_all

lemma narrow_unsigned:
  fixes v8 :: u8 and v16 :: u16 and v32 :: u32
  shows "\<not> 255 < uint v8" "\<not> 65535 < uint v16" "\<not> 4294967295 < uint v32"
  using uint_lt2p [of v8] uint_lt2p [of v16] uint_lt2p [of v32] by simp_all

text \<open>A value written with a setter is read back with the getter of the same type.\<close>

definition reads_back ::
  "(bool \<times> 'w \<times> 's json_db \<times> property_signal list) option \<Rightarrow> ('w \<Rightarrow> 's json_db \<Rightarrow> 'a) \<Rightarrow> 'a \<Rightarrow> bool" where
  "reads_back r get v = (case r of None \<Rightarrow> False | Some (_, w, db, _) \<Rightarrow> get w db = v)"

lemma reads_back_string:
  "get w (snd (deviceServiceSetSystemProperty E n t db)) = v \<Longrightarrow>
   reads_back (set_property_string E default_provider (Some n) (Some t) w db) get v"
  by (rule set_string_default [of E n t w db]) (simp add: reads_back_def)

text \<open>
  With the default provider every typed property is read back as it was written: the text a
  setter stores for a boolean or for a signed or unsigned number of 8, 16, 32 or 64 bits is accepted by
  the getter of that width, whatever its default, for every value of the type.
\<close>

theorem typed_property_roundtrip:
  assumes "glib_ok G"
  shows "reads_back (set_property_bool E default_provider (Some n) b w db)
      (get_property_as_bool default_provider (Some n) d) b \<and>
    reads_back (set_property_int8 E default_provider (Some n) v8 w db)
      (get_property_as_int8 G default_provider (Some n) d8) v8 \<and>
    reads_back (set_property_int16 E default_provider (Some n) v16 w db)
      (get_property_as_int16 G default_provider (Some n) d16) v16 \<and>
    reads_back (set_property_int32 E default_provider (Some n) v32 w db)
      (get_property_as_int32 G default_provider (Some n) d32) v32 \<and>
    reads_back (set_property_int64 E default_provider (Some n) v64 w db)
      (get_property_as_int64 G default_provider (Some n) d64) v64 \<and>
    reads_back (set_property_uint8 E default_provider (Some n) v8 w db)
      (get_property_as_uint8 G default_provider (Some n) d8) v8 \<and>
    reads_back (set_property_uint16 E default_provider (Some n) v16 w db)
      (get_property_as_uint16 G default_provider (Some n) d16) v16 \<and>
    reads_back (set_property_uint32 E default_provider (Some n) v32 w db)
      (get_property_as_uint32 G default_provider (Some n) d32) v32 \<and>
    reads_back (set_property_uint64 E default_provider (Some n) v64 w db)
      (get_property_as_uint64 G default_provider (Some n) d64) v64"
proof (intro conjI)
  show "reads_back (set_property_bool E default_provider (Some n) b w db)
      (get_property_as_bool default_provider (Some n) d) b"
    unfolding set_property_bool_def
    by (rule reads_back_string)
      (cases b; simp add: get_property_as_bool_def get_property_default dbprops.get_set lower_def to_lower_def)
qed (unfold set_property_int8_def set_property_int16_def set_property_int32_def set_property_int64_def
      set_property_uint8_def set_property_uint16_def set_property_uint32_def set_property_uint64_def,
    (rule reads_back_string,
     simp only: get_property_as_int8_def get_property_as_int16_def get_property_as_int32_def
       get_property_as_uint8_def get_property_as_uint16_def get_property_as_uint32_def
       typed_get_default [OF assms] Let_def,
     (simp add: sint_up_scast uint_up_ucast is_up narrow_signed narrow_unsigned)?)+)

text \<open>
  Number parsing for evaluation: an optional sign and the digits of the text.
\<close>

definition example_glib :: glib_api where
  "example_glib = \<lparr>
     g_ascii_strtoll = (\<lambda>t _. (case t of [] \<Rightarrow> 0 | c # cs \<Rightarrow>
         if c = CHR ''-'' then word_of_int (- int (digits_value cs)) else word_of_int (int (digits_value t)),
       length t, False)),
     g_ascii_strtoull = (\<lambda>t _. (word_of_nat (digits_value t), length t, False))\<rparr>"

lemma glib_ok_example: "glib_ok example_glib"
proof -
  have "g_ascii_strtoll example_glib (signed_decimal i) 10 = (word_of_int i, length (signed_decimal i), False)" for i
    using decimal_digits [of "nat i"] decimal_digits [of "nat (- i)"] decimal_first [of "nat i"]
    by (cases "decimal (nat i)") (auto simp: example_glib_def signed_decimal_def)
  moreover have "g_ascii_strtoull example_glib (decimal (unat v)) 0 = (v, length (decimal (unat v)), False)" for v
    using decimal_digits [of "unat v"] by (simp add: example_glib_def)
  ultimately show ?thesis by (simp add: glib_ok_def)
qed

theorem typed_property_roundtrip_witness:
  "reads_back (set_property_int8 example_env default_provider (Some ''n'') (- 128) () (empty_db []))
     (get_property_as_int8 example_glib default_provider (Some ''n'') 5) (- 128)"
  using typed_property_roundtrip [OF glib_ok_example, of example_env "''n''" True "()" "empty_db []" False
      "- 128" 5 0 0 0 0 0 0] by blast

text \<open>
  The two ways to read a property disagree about precedence: a lookup prefers the value of the
  client, while the table of all properties shows the system property of that name, in spite of the
  client's value in it.
\<close>

theorem get_all_properties_prefers_internal:
  assumes "iface_get_property I = Some get" "get w n = (Some v, None)"
    and "deviceServiceGetSystemProperty n db = Some v'"
  shows "get_property I (Some n) w db = (Some v, None) \<and> hashMapGet (get_all_properties I w db) n = Some v'"
proof -
  have "hashMapGet (get_all_properties I w db) n = Some v'"
    using assms(3)
    by (simp add: get_all_properties_def jsonDatabaseGetAllSystemProperties_def get_put_all ok_put_all
        get_insert_all deviceServiceGetSystemProperty_def jsonDatabaseGetSystemProperty_def)
  with assms(1,2) show ?thesis by (simp add: get_property_def)
qed

definition example_get :: "unit \<Rightarrow> string \<Rightarrow> cstr \<times> BCorePropertyProviderError option" where
  "example_get w n = (if n = ''tz'' then (Some ''UTC'', None) else (None, Some B_CORE_PROPERTY_PROVIDER_ERROR_NOT_FOUND))"

definition example_provider :: "unit provider_iface" where
  "example_provider = \<lparr>iface_get_property = Some example_get,
     iface_get_all_properties = Some (\<lambda>_. [(''tz'', ''UTC'')]), iface_set_property = None\<rparr>"

definition tz_db :: "(string \<times> string) list json_db" where
  "tz_db = (empty_db [])\<lparr>systemProperties := [(''tz'', ''EST'')]\<rparr>"

theorem get_all_properties_prefers_internal_witness:
  "get_property example_provider (Some ''tz'') () tz_db = (Some ''UTC'', None) \<and>
   hashMapGet (get_all_properties example_provider () tz_db) ''tz'' = Some ''EST''"
  by (rule get_all_properties_prefers_internal [where get = example_get])
    (simp_all add: example_provider_def example_get_def tz_db_def deviceServiceGetSystemProperty_def
      jsonDatabaseGetSystemProperty_def hashMapGet_def)

end
