(* ===== verification/Device_Service.thy ===== *)
theory Device_Service
  imports Comm_Fail Property_Provider Device_Builder
begin

text \<open>
  The device service, \<^verbatim>\<open>core/src/deviceService.c\<close>: access to resources, metadata and endpoints of the
  devices in the database, with the events and driver calls each operation makes. This theory holds
  the state of the service and the operations on paired devices; pairing, discovery and reconfiguration
  are in theories of their own, the theorems on this one in \<open>Device_Service_Props\<close>.

  The state \<open>device_service\<close> joins the database, the driver manager and the watchdog
  (\<open>'s comm_fail\<close>), the loaded descriptors, the subsystem manager and the static variables of the file.
  \<open>svc_log\<close> lists the events sent and the driver functions called, in order. \<open>'w\<close> is the state of
  everything outside: the client's property provider, the drivers, the task scheduler. Drivers
  are parameters: \<open>driver_ops\<close> gives the functions behind the pointers of a \<open>DeviceDriver\<close>, each a
  function of the whole state, since a driver calls back into the service. The successive
  readings of the clocks are \<open>svc_clock 0\<close>, \<open>svc_clock 1\<close>, and so on.

  An operation returns \<open>None\<close> when the code reads through a \<^verbatim>\<open>NULL\<close> or dangling pointer or, where it
  recurses, does not return.
\<close>

section \<open>State\<close>

record discoveryFilter =
  uriPattern :: string
  valuePattern :: string

text \<open>\<open>ctx_id\<close> is the address of the context.\<close>

record discoverDeviceClassContext =
  ctx_id :: nat
  ctx_deviceClass :: string
  ctx_timeoutSeconds :: u16
  ctx_findOrphanedDevices :: bool
  ctx_filters :: "discoveryFilter list option"
  ctx_startedDrivers :: "DeviceDriver list option"

text \<open>
  The callback of a reconfiguration: the one of the service, or another function of the caller.
\<close>

datatype reconfigurationCompleteCallback = ServiceCallback | ClientCallback nat

record ReconfigureDeviceContext =
  rc_deviceUuid :: string
  rc_taskHandle :: u32
  rc_isSignaled :: bool
  rc_isAllowedAsap :: bool
  rc_shouldTerminate :: bool
  rc_timeoutSeconds :: u32
  rc_reconfigurationCompleted :: "reconfigurationCompleteCallback option"

datatype DeviceServiceSystemPowerEventType = POWER_EVENT_AC_LOST | POWER_EVENT_AC_RESTORED
  | POWER_EVENT_LPM_ENTER | POWER_EVENT_LPM_EXIT

text \<open>What a driver reports about a device it has found (\<^verbatim>\<open>DeviceFoundDetails\<close>); a migrator is set or not.\<close>

record DeviceFoundDetails =
  fd_deviceDriver :: DeviceDriver
  fd_deviceMigrator :: bool
  fd_deviceClass :: string
  fd_deviceClassVersion :: u8
  fd_deviceUuid :: string
  fd_manufacturer :: cstr
  fd_model :: cstr
  fd_hardwareVersion :: cstr
  fd_firmwareVersion :: cstr

datatype driver_call =
    ReadResource icDeviceResource | WriteResource icDeviceResource cstr cstr | ExecuteResource icDeviceResource cstr
  | DeviceRemoved icDevice | EndpointDisabled icDeviceEndpoint | MetadataUpdated icDevice cstr cstr
  | ProcessDeviceDescriptor icDevice DeviceDescriptor | ConfigureDevice icDevice "DeviceDescriptor option"
  | FetchInitialResourceValues icDevice | RegisterResources icDevice | DevicePersisted icDevice
  | DiscoverDevices string | RecoverDevices string | StopDiscoveringDevices string
  | SynchronizeDevice icDevice | SystemPowerEvent DeviceServiceSystemPowerEventType
  | PropertyChange cstr cstr | ServiceStatusChanged
  | PreRestoreConfig | DriverRestoreConfig string string | DriverPostRestoreConfig

datatype 'j svc_event =
    EvResourceUpdated icDeviceResource "'j option" | EvMetadataUpdated icDeviceMetadata
  | EvEndpointAdded icDeviceEndpoint cstr | EvEndpointRemoved icDeviceEndpoint cstr bool
  | EvDeviceAdded cstr | EvDeviceRecovered cstr | EvDeviceRemoved cstr cstr
  | EvDeviceDiscovered string bool | EvDeviceRejected string bool | EvDiscoveryFailed string bool
  | EvDiscoveryCompleted icDevice bool
  | EvConfigureStarted string string bool | EvConfigureCompleted string string bool | EvConfigureFailed string string bool
  | EvDiscoveryStarted "string list" u16 bool | EvDiscoveryStopped string | EvRecoveryStopped string
  | EvReadyForPairing | EvReadyForDeviceOperation
  | EvCommFail cf_event | EvPropertyChanged property_signal
  | Called cstr driver_call
  | AllowlistUpdate cstr | DenylistUpdate cstr | ZigbeePropertyChange cstr cstr | TrackerPropertyChange cstr cstr
  | DescriptorProcessingScheduled | ReconfigurationScheduled string u32 | ReconfigurationCompleted nat bool string

record ('j, 's, 'w) device_service =
  svc_fail :: "'s comm_fail"
  svc_descriptors :: dd_state
  svc_subsystems :: "'s subsystem_manager"
  isDeviceServiceInLPM :: bool
  subsystemsReadyForDevices :: bool
  isDeviceDescriptorsListReady :: bool
  shuttingDown :: bool
  deviceDescriptorProcessorTask :: bool
  discoveryTimeoutSeconds :: u16
  activeDiscoveries :: "(string, discoverDeviceClassContext) hmap"
  pendingReconfiguration :: "(string, ReconfigureDeviceContext) hmap option"
  markedForRemoval :: "(string, unit) hmap"
  rejected :: "(string, unit) hmap"
  failedToPair :: "(string, unit) hmap"
  svc_clock :: "nat \<Rightarrow> u64"
  svc_ticks :: nat
  svc_log :: "'j svc_event list"
  svc_world :: 'w

section \<open>Environment\<close>

text \<open>The functions of a driver. \<open>None\<close> is a \<^verbatim>\<open>NULL\<close> pointer; a read that fails has no value.\<close>

record ('j, 's, 'w) driver_ops =
  readResource :: "(icDeviceResource \<Rightarrow> ('j, 's, 'w) device_service \<Rightarrow> cstr option \<times> ('j, 's, 'w) device_service) option"
  writeResource :: "(icDeviceResource \<Rightarrow> cstr \<Rightarrow> cstr \<Rightarrow> ('j, 's, 'w) device_service \<Rightarrow> bool \<times> ('j, 's, 'w) device_service) option"
  executeResource :: "(icDeviceResource \<Rightarrow> cstr \<Rightarrow> ('j, 's, 'w) device_service \<Rightarrow> (bool \<times> cstr) \<times> ('j, 's, 'w) device_service) option"
  deviceRemoved :: "(icDevice \<Rightarrow> ('j, 's, 'w) device_service \<Rightarrow> ('j, 's, 'w) device_service) option"
  endpointDisabled :: "(icDeviceEndpoint \<Rightarrow> ('j, 's, 'w) device_service \<Rightarrow> ('j, 's, 'w) device_service) option"
  metadataUpdated :: "(icDevice \<Rightarrow> cstr \<Rightarrow> cstr \<Rightarrow> ('j, 's, 'w) device_service \<Rightarrow> ('j, 's, 'w) device_service) option"
  processDeviceDescriptor :: "(icDevice \<Rightarrow> DeviceDescriptor \<Rightarrow> ('j, 's, 'w) device_service \<Rightarrow> (bool \<times> icDevice) \<times> ('j, 's, 'w) device_service) option"
  configureDevice :: "(icDevice \<Rightarrow> DeviceDescriptor option \<Rightarrow> ('j, 's, 'w) device_service \<Rightarrow> (bool \<times> icDevice) \<times> ('j, 's, 'w) device_service) option"
  fetchInitialResourceValues :: "(icDevice \<Rightarrow> icInitialResourceValues \<Rightarrow> ('j, 's, 'w) device_service \<Rightarrow> (bool \<times> icDevice \<times> icInitialResourceValues) \<times> ('j, 's, 'w) device_service) option"
  registerResources :: "(icDevice \<Rightarrow> icInitialResourceValues \<Rightarrow> ('j, 's, 'w) device_service \<Rightarrow> (bool \<times> icDevice) \<times> ('j, 's, 'w) device_service) option"
  devicePersisted :: "(icDevice \<Rightarrow> ('j, 's, 'w) device_service \<Rightarrow> ('j, 's, 'w) device_service) option"
  discoverDevices :: "(string \<Rightarrow> ('j, 's, 'w) device_service \<Rightarrow> bool \<times> ('j, 's, 'w) device_service) option"
  recoverDevices :: "(string \<Rightarrow> ('j, 's, 'w) device_service \<Rightarrow> bool \<times> ('j, 's, 'w) device_service) option"
  stopDiscoveringDevices :: "(string \<Rightarrow> ('j, 's, 'w) device_service \<Rightarrow> ('j, 's, 'w) device_service) option"
  getDeviceClassVersion :: "(cstr \<Rightarrow> ('j, 's, 'w) device_service \<Rightarrow> u8 option) option"
  synchronizeDevice :: "(icDevice \<Rightarrow> ('j, 's, 'w) device_service \<Rightarrow> ('j, 's, 'w) device_service) option"
  systemPowerEvent :: "(DeviceServiceSystemPowerEventType \<Rightarrow> ('j, 's, 'w) device_service \<Rightarrow> ('j, 's, 'w) device_service) option"
  propertyChanged :: "(cstr \<Rightarrow> cstr \<Rightarrow> ('j, 's, 'w) device_service \<Rightarrow> ('j, 's, 'w) device_service) option"
  serviceStatusChanged :: "(('j, 's, 'w) device_service \<Rightarrow> ('j, 's, 'w) device_service) option"
  endpointProfileVersions :: "(string, u8) hmap option"
  preRestoreConfig :: "(('j, 's, 'w) device_service \<Rightarrow> ('j, 's, 'w) device_service) option"
  restoreConfig :: "(string \<Rightarrow> string \<Rightarrow> ('j, 's, 'w) device_service \<Rightarrow> bool \<times> ('j, 's, 'w) device_service) option"
  postRestoreConfig :: "(('j, 's, 'w) device_service \<Rightarrow> ('j, 's, 'w) device_service) option"
  neverReject :: bool

text \<open>
  \<open>isDelayTaskWaiting\<close> and \<open>scheduleDelayTask\<close> are the task scheduler; \<open>awaitReconfiguration\<close> is the
  state at the end of the wait of \<^verbatim>\<open>waitForOrCancelPendingReconfiguration\<close>, in which other threads ran.
  The functions after it are cJSON's for arrays, the number parsers of the support library and of GLib, and the
  storage directory of the configuration.
\<close>

record ('j, 's, 'w) svc_env =
  svc_db_env :: "('j, 's) db_env"
  svc_cf_env :: cf_env
  svc_provider :: "'w provider_iface"
  svc_regcomp :: "string \<Rightarrow> (string \<Rightarrow> bool) option"
  svc_parse :: dd_parser
  stringToBool :: "cstr \<Rightarrow> bool"
  createDeviceMetadataUri :: "cstr \<Rightarrow> string \<Rightarrow> cstr"
  driverOps :: "DeviceDriver \<Rightarrow> ('j, 's, 'w) driver_ops"
  migratorOps :: "('j, 's, 'w) driver_ops"
  clientCallback :: "nat \<Rightarrow> bool \<Rightarrow> string \<Rightarrow> ('j, 's, 'w) device_service \<Rightarrow> ('j, 's, 'w) device_service"
  isDelayTaskWaiting :: "u32 \<Rightarrow> 'w \<Rightarrow> bool"
  cancelDelayTask :: "u32 \<Rightarrow> 'w \<Rightarrow> 'w"
  scheduleDelayTask :: "u32 \<Rightarrow> 'w \<Rightarrow> u32 \<times> 'w"
  awaitReconfiguration :: "string \<Rightarrow> ('j, 's, 'w) device_service \<Rightarrow> ('j, 's, 'w) device_service"
  cJSON_IsArray :: "'j option \<Rightarrow> bool"
  cJSON_CreateArray :: 'j
  cJSON_AddItemToArray :: "'j \<Rightarrow> 'j \<Rightarrow> 'j"
  cJSON_PrintUnformatted :: "'j \<Rightarrow> string"
  stringToUint32 :: "cstr \<Rightarrow> u32 option"
  svc_glib :: glib_api
  storageDir :: string

abbreviation svc_json :: "('j, 's, 'w) svc_env \<Rightarrow> 'j json_api" where
  "svc_json E \<equiv> env_json (svc_db_env E)"

abbreviation svc_util :: "('j, 's, 'w) svc_env \<Rightarrow> util_api" where
  "svc_util E \<equiv> env_util (svc_db_env E)"

definition svc_db :: "('j, 's, 'w) device_service \<Rightarrow> 's json_db" where
  "svc_db s = cf_db (svc_fail s)"

definition set_db :: "'s json_db \<Rightarrow> ('j, 's, 'w) device_service \<Rightarrow> ('j, 's, 'w) device_service" where
  "set_db db s = s\<lparr>svc_fail := (svc_fail s)\<lparr>cf_db := db\<rparr>\<rparr>"

definition svc_drivers :: "('j, 's, 'w) device_service \<Rightarrow> driver_manager" where
  "svc_drivers s = cf_drivers (svc_fail s)"

text \<open>A database operation that reports success, on the database of the service.\<close>

definition in_db :: "('s json_db \<Rightarrow> (bool \<times> 's json_db) option) \<Rightarrow> ('j, 's, 'w) device_service \<Rightarrow>
    (bool \<times> ('j, 's, 'w) device_service) option" where
  "in_db f s = map_option (\<lambda>(ok, db). (ok, set_db db s)) (f (svc_db s))"

definition publish :: "'j svc_event list \<Rightarrow> ('j, 's, 'w) device_service \<Rightarrow> ('j, 's, 'w) device_service" where
  "publish es s = s\<lparr>svc_log := svc_log s @ es\<rparr>"

definition getCurrentUnixTimeMillis :: "('j, 's, 'w) device_service \<Rightarrow> u64 \<times> ('j, 's, 'w) device_service" where
  "getCurrentUnixTimeMillis s = (svc_clock s (svc_ticks s), s\<lparr>svc_ticks := Suc (svc_ticks s)\<rparr>)"

definition getCurrentTimestampString :: "('j, 's, 'w) device_service \<Rightarrow> string \<times> ('j, 's, 'w) device_service" where
  "getCurrentTimestampString s = map_prod (\<lambda>t. decimal (unat t)) id (getCurrentUnixTimeMillis s)"

text \<open>A call of a driver function that returns nothing, when the driver has it.\<close>

definition notify_driver ::
  "DeviceDriver \<Rightarrow> driver_call \<Rightarrow> (('j, 's, 'w) device_service \<Rightarrow> ('j, 's, 'w) device_service) option \<Rightarrow>
   ('j, 's, 'w) device_service \<Rightarrow> ('j, 's, 'w) device_service" where
  "notify_driver drv c f s = (case f of None \<Rightarrow> s | Some g \<Rightarrow> g (publish [Called (driverName drv) c] s))"

text \<open>\<open>Some None\<close>: no driver of that name.\<close>

definition driver_of :: "icDevice \<Rightarrow> ('j, 's, 'w) device_service \<Rightarrow> DeviceDriver option option" where
  "driver_of d s = (case managing_driver d (svc_drivers s) of Inl _ \<Rightarrow> None | Inr r \<Rightarrow> Some r)"

section \<open>Names\<close>

definition RESOURCE_MODE_EMIT_EVENTS :: u8 where "RESOURCE_MODE_EMIT_EVENTS = push_bit 5 1"
definition COMMON_DEVICE_RESOURCE_MANUFACTURER :: string where "COMMON_DEVICE_RESOURCE_MANUFACTURER = ''manufacturer''"
definition COMMON_DEVICE_RESOURCE_MODEL :: string where "COMMON_DEVICE_RESOURCE_MODEL = ''model''"
definition COMMON_DEVICE_RESOURCE_HARDWARE_VERSION :: string where "COMMON_DEVICE_RESOURCE_HARDWARE_VERSION = ''hardwareVersion''"
definition COMMON_DEVICE_RESOURCE_FIRMWARE_VERSION :: string where "COMMON_DEVICE_RESOURCE_FIRMWARE_VERSION = ''firmwareVersion''"
definition COMMON_DEVICE_RESOURCE_DATE_LAST_CONTACTED :: string where "COMMON_DEVICE_RESOURCE_DATE_LAST_CONTACTED = ''dateLastContacted''"
definition COMMON_DEVICE_RESOURCE_TIMEZONE :: string where "COMMON_DEVICE_RESOURCE_TIMEZONE = ''timezone''"
definition DEVICE_DESCRIPTOR_BYPASS_SYSTEM_PROP :: string where "DEVICE_DESCRIPTOR_BYPASS_SYSTEM_PROP = ''deviceDescriptorBypass''"

section \<open>Lookups\<close>

definition deviceServiceIsUriAccessible :: "cstr \<Rightarrow> ('j, 's, 'w) device_service \<Rightarrow> bool option" where
  "deviceServiceIsUriAccessible uri s =
     (case uri of None \<Rightarrow> Some False | Some _ \<Rightarrow> jsonDatabaseIsUriAccessible uri (svc_db s))"

definition deviceServiceGetDeviceByUri :: "cstr \<Rightarrow> ('j, 's, 'w) device_service \<Rightarrow> icDevice option option" where
  "deviceServiceGetDeviceByUri uri s =
     (if uri = None then Some None
      else do {
        accessible \<leftarrow> deviceServiceIsUriAccessible uri s;
        if \<not> accessible then Some None else jsonDatabaseGetDeviceByUri uri (svc_db s) })"

definition getDeviceDriverForUri :: "cstr \<Rightarrow> ('j, 's, 'w) device_service \<Rightarrow> DeviceDriver option option" where
  "getDeviceDriverForUri uri s = do {
     device \<leftarrow> deviceServiceGetDeviceByUri uri s;
     case device of None \<Rightarrow> Some None | Some d \<Rightarrow> driver_of d s }"

definition deviceServiceGetResourceByIdInternal ::
  "util_api \<Rightarrow> cstr \<Rightarrow> cstr \<Rightarrow> cstr \<Rightarrow> 's json_db \<Rightarrow> icDeviceResource option option" where
  "deviceServiceGetResourceByIdInternal U deviceUuid endpointId resourceId db =
     (case (deviceUuid, resourceId) of
        (Some u, Some r) \<Rightarrow> jsonDatabaseGetResourceByUri (Some (resourceUriCreate U u endpointId r)) db
      | _ \<Rightarrow> Some None)"

definition deviceServiceGetResourceById ::
  "util_api \<Rightarrow> cstr \<Rightarrow> cstr \<Rightarrow> cstr \<Rightarrow> 's json_db \<Rightarrow> icDeviceResource option option" where
  "deviceServiceGetResourceById = deviceServiceGetResourceByIdInternal"

text \<open>\<^verbatim>\<open>strcmp\<close> on the ids of the resources, up to the one found.\<close>

fun seek_resource :: "string \<Rightarrow> icDeviceResource list \<Rightarrow> icDeviceResource option option" where
  "seek_resource i [] = Some None"
| "seek_resource i (r # rs) =
     (case r_id r of None \<Rightarrow> None | Some j \<Rightarrow> if j = i then Some (Some r) else seek_resource i rs)"

definition deviceServiceFindDeviceResourceById :: "icDevice option \<Rightarrow> string \<Rightarrow> icDeviceResource option option" where
  "deviceServiceFindDeviceResourceById device resourceId =
     (case device of None \<Rightarrow> Some None | Some d \<Rightarrow> seek_resource resourceId (items (d_resources d)))"

text \<open>
  A resource, or else the resource of the device with the part of the URI that follows the
  endpoint's, for an endpoint found at that URI.
\<close>

definition find_or_inherit :: "string \<Rightarrow> 's json_db \<Rightarrow> icDeviceResource option option" where
  "find_or_inherit uri db = do {
     result \<leftarrow> jsonDatabaseGetResourceByUri (Some uri) db;
     case result of Some r \<Rightarrow> Some (Some r)
     | None \<Rightarrow> do {
         endpoint \<leftarrow> jsonDatabaseGetEndpointByUri (Some uri) db;
         case endpoint of None \<Rightarrow> Some None
         | Some e \<Rightarrow>
             (case jsonDatabaseGetDeviceById (e_deviceUuid e) db of None \<Rightarrow> Some None
              | Some d \<Rightarrow> do {
                  endpointUri \<leftarrow> e_uri e;
                  deviceUri \<leftarrow> d_uri d;
                  if length endpointUri > length uri then None
                  else jsonDatabaseGetResourceByUri (Some (deviceUri @ drop (length endpointUri) uri)) db }) } }"

definition deviceServiceGetEndpoint :: "cstr \<Rightarrow> cstr \<Rightarrow> 's json_db \<Rightarrow> icDeviceEndpoint option" where
  "deviceServiceGetEndpoint deviceUuid endpointId db =
     (case deviceUuid of None \<Rightarrow> None
      | Some u \<Rightarrow> (case jsonDatabaseGetEndpointById u endpointId db of None \<Rightarrow> None
          | Some e \<Rightarrow> if e_enabled e then Some e else None))"

definition deviceServiceGetEndpointByUri :: "cstr \<Rightarrow> ('j, 's, 'w) device_service \<Rightarrow> icDeviceEndpoint option option" where
  "deviceServiceGetEndpointByUri uri s = do {
     accessible \<leftarrow> deviceServiceIsUriAccessible uri s;
     if accessible then jsonDatabaseGetEndpointByUri uri (svc_db s) else Some None }"

definition deviceServiceGetEndpointById :: "cstr \<Rightarrow> cstr \<Rightarrow> ('j, 's, 'w) device_service \<Rightarrow> icDeviceEndpoint option option" where
  "deviceServiceGetEndpointById deviceUuid endpointId s =
     (case deviceUuid of None \<Rightarrow> Some None
      | Some u \<Rightarrow> (case jsonDatabaseGetEndpointById u endpointId (svc_db s) of None \<Rightarrow> Some None
          | Some e \<Rightarrow> do {
              accessible \<leftarrow> deviceServiceIsUriAccessible (e_uri e) s;
              Some (if accessible then Some e else None) }))"

text \<open>The items of a list whose URI is accessible.\<close>

fun accessible_items :: "('a \<Rightarrow> cstr) \<Rightarrow> ('j, 's, 'w) device_service \<Rightarrow> 'a list \<Rightarrow> 'a list option" where
  "accessible_items u s [] = Some []"
| "accessible_items u s (x # xs) = do {
     accessible \<leftarrow> deviceServiceIsUriAccessible (u x) s;
     ys \<leftarrow> accessible_items u s xs;
     Some (if accessible then x # ys else ys) }"

definition deviceServiceGetEndpointsByProfile :: "cstr \<Rightarrow> ('j, 's, 'w) device_service \<Rightarrow> icDeviceEndpoint list option" where
  "deviceServiceGetEndpointsByProfile profileId s =
     accessible_items e_uri s (jsonDatabaseGetEndpointsByProfile profileId (svc_db s))"

definition isUriPattern :: "string \<Rightarrow> bool" where
  "isUriPattern uri = (CHR ''*'' \<in> set uri)"

text \<open>
  The two loops over the pattern: the first counts, the second writes into a buffer of the size
  computed, and a write outside it is a fault.
\<close>

fun write_regex :: "string \<Rightarrow> nat \<Rightarrow> string \<Rightarrow> string option" where
  "write_regex [] sz out = (if length out < sz then Some out else None)"
| "write_regex (c # cs) sz out =
     (let out1 = (if c = CHR ''*'' then out @ ''.'' else out)
      in if length out1 < sz then write_regex cs sz (out1 @ [c]) else None)"

definition createRegexFromPattern :: "string \<Rightarrow> string option" where
  "createRegexFromPattern uri =
     (let wildcardChars = length (filter (\<lambda>c. c = CHR ''*'') uri)
      in write_regex uri (length uri + wildcardChars + 1) [])"

definition deviceServiceGetResourcesByUriPatternInternal ::
  "('j, 's, 'w) svc_env \<Rightarrow> cstr \<Rightarrow> 's json_db \<Rightarrow> icDeviceResource list option option" where
  "deviceServiceGetResourcesByUriPatternInternal E pat db =
     (case pat of None \<Rightarrow> Some None
      | Some p \<Rightarrow>
          if isUriPattern p
          then do { regex \<leftarrow> createRegexFromPattern p;
                    rs \<leftarrow> jsonDatabaseGetResourcesByUriRegex (svc_regcomp E) (Some regex) db; Some (Some rs) }
          else do { r \<leftarrow> jsonDatabaseGetResourceByUri pat db;
                    Some (Some (case r of None \<Rightarrow> [] | Some x \<Rightarrow> [x])) })"

definition deviceServiceGetResourcesByUriPattern ::
  "('j, 's, 'w) svc_env \<Rightarrow> cstr \<Rightarrow> ('j, 's, 'w) device_service \<Rightarrow> icDeviceResource list option option" where
  "deviceServiceGetResourcesByUriPattern E pat s =
     (if pat = None then Some None
      else do {
        rs \<leftarrow> deviceServiceGetResourcesByUriPatternInternal E pat (svc_db s);
        case rs of None \<Rightarrow> Some None | Some l \<Rightarrow> map_option Some (accessible_items r_uri s l) })"

definition deviceServiceGetMetadataByUriPattern ::
  "('j, 's, 'w) svc_env \<Rightarrow> cstr \<Rightarrow> ('j, 's, 'w) device_service \<Rightarrow> icDeviceMetadata list option option" where
  "deviceServiceGetMetadataByUriPattern E pat s =
     (case pat of None \<Rightarrow> Some None
      | Some p \<Rightarrow> do {
          ms \<leftarrow> (if isUriPattern p
            then do { regex \<leftarrow> createRegexFromPattern p;
                      jsonDatabaseGetMetadataByUriRegex (svc_regcomp E) (Some regex) (svc_db s) }
            else do { m \<leftarrow> jsonDatabaseGetMetadataByUri pat (svc_db s);
                      Some (case m of None \<Rightarrow> [] | Some x \<Rightarrow> [x]) });
          map_option Some (accessible_items m_uri s ms) })"

section \<open>Resources\<close>

text \<open>
  A change of a resource. One that is never cached and emits events is reported as it comes, and the
  date of last contact, a resource itself, is brought up to date by a recursive call.
\<close>

partial_function (option) updateResource ::
  "('j, 's, 'w) svc_env \<Rightarrow> cstr \<Rightarrow> cstr \<Rightarrow> cstr \<Rightarrow> cstr \<Rightarrow> 'j option \<Rightarrow> ('j, 's, 'w) device_service \<Rightarrow>
   ('j, 's, 'w) device_service option" where
  "updateResource E deviceUuid endpointId resourceId newValue metadata s = do {
     found \<leftarrow> deviceServiceGetResourceByIdInternal (svc_util E) deviceUuid endpointId resourceId (svc_db s);
     case found of None \<Rightarrow> Some s
     | Some resource \<Rightarrow>
         if r_cachingPolicy resource = CACHING_POLICY_NEVER \<and> mode_has (r_mode resource) RESOURCE_MODE_EMIT_EVENTS
         then do {
           s1 \<leftarrow> updateResource E deviceUuid None (Some COMMON_DEVICE_RESOURCE_DATE_LAST_CONTACTED)
             (Some (fst (getCurrentTimestampString s))) None (snd (getCurrentTimestampString s));
           Some (publish [EvResourceUpdated (resource\<lparr>r_value := newValue\<rparr>) metadata] s1) }
         else if r_value resource \<noteq> newValue
         then do {
           let resource1 = resource\<lparr>r_value := newValue,
             r_dateOfLastSyncMillis := fst (getCurrentUnixTimeMillis s)\<rparr>;
           (_, s1) \<leftarrow> in_db (jsonDatabaseSaveResource (svc_db_env E) (Some resource1)) (snd (getCurrentUnixTimeMillis s));
           Some (if mode_has (r_mode resource) RESOURCE_MODE_EMIT_EVENTS
                 then publish [EvResourceUpdated resource1 metadata] s1 else s1) }
         else do {
           (_, s1) \<leftarrow> in_db (jsonDatabaseUpdateDateOfLastSyncMillis (fst (getCurrentUnixTimeMillis s)) (Some resource))
             (snd (getCurrentUnixTimeMillis s));
           Some s1 } }"

definition updateDeviceDateLastContacted ::
  "('j, 's, 'w) svc_env \<Rightarrow> cstr \<Rightarrow> ('j, 's, 'w) device_service \<Rightarrow> ('j, 's, 'w) device_service option" where
  "updateDeviceDateLastContacted E deviceUuid s =
     (case getCurrentTimestampString s of (dateBuf, s1) \<Rightarrow>
        updateResource E deviceUuid None (Some COMMON_DEVICE_RESOURCE_DATE_LAST_CONTACTED) (Some dateBuf) None s1)"

definition deviceServiceGetResourceByUri ::
  "('j, 's, 'w) svc_env \<Rightarrow> cstr \<Rightarrow> ('j, 's, 'w) device_service \<Rightarrow>
   (icDeviceResource option \<times> ('j, 's, 'w) device_service) option" where
  "deviceServiceGetResourceByUri E uri s =
     (case uri of None \<Rightarrow> Some (None, s)
      | Some u \<Rightarrow> do {
          accessible \<leftarrow> deviceServiceIsUriAccessible uri s;
          if \<not> accessible then Some (None, s)
          else do {
            found \<leftarrow> find_or_inherit u (svc_db s);
            case found of None \<Rightarrow> Some (None, s)
            | Some r \<Rightarrow>
                if r_cachingPolicy r = CACHING_POLICY_NEVER \<and> mode_has (r_mode r) RESOURCE_MODE_READABLE
                then do {
                  driver \<leftarrow> getDeviceDriverForUri uri s;
                  case driver of None \<Rightarrow> Some (None, s)
                  | Some drv \<Rightarrow>
                      (case readResource (driverOps E drv) of None \<Rightarrow> Some (None, s)
                       | Some read \<Rightarrow>
                           (case read r (publish [Called (driverName drv) (ReadResource r)] s) of
                              (Some value, s1) \<Rightarrow> Some (Some (r\<lparr>r_value := value\<rparr>), s1)
                            | (None, s1) \<Rightarrow> Some (None, s1))) }
                else Some (Some r, s) } })"

definition deviceServiceWriteResourceNoPattern ::
  "('j, 's, 'w) svc_env \<Rightarrow> string \<Rightarrow> cstr \<Rightarrow> ('j, 's, 'w) device_service \<Rightarrow> (bool \<times> ('j, 's, 'w) device_service) option" where
  "deviceServiceWriteResourceNoPattern E uri value s = do {
     found \<leftarrow> find_or_inherit uri (svc_db s);
     case found of None \<Rightarrow> Some (False, s)
     | Some r \<Rightarrow>
         if \<not> mode_has (r_mode r) RESOURCE_MODE_WRITEABLE then Some (False, s)
         else do {
           driver \<leftarrow> getDeviceDriverForUri (Some uri) s;
           case driver of None \<Rightarrow> Some (False, s)
           | Some drv \<Rightarrow>
               (case writeResource (driverOps E drv) of None \<Rightarrow> Some (False, s)
                | Some write \<Rightarrow>
                    Some (write r (r_value r) value
                      (publish [Called (driverName drv) (WriteResource r (r_value r) value)] s))) } }"

fun write_each ::
  "('j, 's, 'w) svc_env \<Rightarrow> icDeviceResource list \<Rightarrow> cstr \<Rightarrow> bool \<Rightarrow> ('j, 's, 'w) device_service \<Rightarrow>
   (bool \<times> ('j, 's, 'w) device_service) option" where
  "write_each E [] value result s = Some (result, s)"
| "write_each E (item # rest) value result s = do {
     accessible \<leftarrow> deviceServiceIsUriAccessible (r_uri item) s;
     if accessible
     then do {
       uri \<leftarrow> r_uri item;
       (ok, s1) \<leftarrow> deviceServiceWriteResourceNoPattern E uri value s;
       write_each E rest value (result \<and> ok) s1 }
     else write_each E rest value False s }"

definition deviceServiceWriteResource ::
  "('j, 's, 'w) svc_env \<Rightarrow> cstr \<Rightarrow> cstr \<Rightarrow> ('j, 's, 'w) device_service \<Rightarrow> (bool \<times> ('j, 's, 'w) device_service) option" where
  "deviceServiceWriteResource E uri value s =
     (if uri = None then Some (False, s)
      else do {
        resources \<leftarrow> deviceServiceGetResourcesByUriPatternInternal E uri (svc_db s);
        case resources of None \<Rightarrow> Some (False, s) | Some l \<Rightarrow> write_each E l value True s })"

definition deviceServiceExecuteResource ::
  "('j, 's, 'w) svc_env \<Rightarrow> cstr \<Rightarrow> cstr \<Rightarrow> ('j, 's, 'w) device_service \<Rightarrow>
   ((bool \<times> cstr) \<times> ('j, 's, 'w) device_service) option" where
  "deviceServiceExecuteResource E uri arg s =
     (case uri of None \<Rightarrow> Some ((False, None), s)
      | Some u \<Rightarrow> do {
          accessible \<leftarrow> deviceServiceIsUriAccessible uri s;
          if \<not> accessible then Some ((False, None), s)
          else do {
            found \<leftarrow> find_or_inherit u (svc_db s);
            case found of None \<Rightarrow> Some ((False, None), s)
            | Some r \<Rightarrow>
                if \<not> mode_has (r_mode r) RESOURCE_MODE_EXECUTABLE then Some ((False, None), s)
                else do {
                  driver \<leftarrow> getDeviceDriverForUri uri s;
                  case driver of None \<Rightarrow> Some ((False, None), s)
                  | Some drv \<Rightarrow>
                      (case executeResource (driverOps E drv) of None \<Rightarrow> Some ((False, None), s)
                       | Some exec \<Rightarrow>
                           (case exec r arg (publish [Called (driverName drv) (ExecuteResource r arg)] s) of
                              ((ok, response), s1) \<Rightarrow>
                                if subsystemName drv = None \<and> ok
                                then map_option (Pair (ok, response)) (updateDeviceDateLastContacted E (r_deviceUuid r) s1)
                                else Some ((ok, response), s1))) } } })"

definition deviceServiceChangeResourceMode ::
  "('j, 's, 'w) svc_env \<Rightarrow> cstr \<Rightarrow> u8 \<Rightarrow> ('j, 's, 'w) device_service \<Rightarrow> (bool \<times> ('j, 's, 'w) device_service) option" where
  "deviceServiceChangeResourceMode E uri newMode s =
     (case uri of None \<Rightarrow> Some (False, s)
      | Some u \<Rightarrow> do {
          accessible \<leftarrow> deviceServiceIsUriAccessible uri s;
          if \<not> accessible then Some (False, s)
          else do {
            found \<leftarrow> find_or_inherit u (svc_db s);
            case found of None \<Rightarrow> Some (False, s)
            | Some r \<Rightarrow> do {
                let r1 = r\<lparr>r_mode := (if mode_has (r_mode r) RESOURCE_MODE_SENSITIVE \<and> \<not> mode_has newMode RESOURCE_MODE_SENSITIVE
                               then or newMode RESOURCE_MODE_SENSITIVE else newMode)\<rparr>;
                (_, s1) \<leftarrow> in_db (jsonDatabaseSaveResource (svc_db_env E) (Some r1)) s;
                Some (True, publish [EvResourceUpdated r1 None] s1) } } })"

definition deviceServiceGetResourceAgeMillis ::
  "('j, 's, 'w) svc_env \<Rightarrow> cstr \<Rightarrow> cstr \<Rightarrow> cstr \<Rightarrow> ('j, 's, 'w) device_service \<Rightarrow>
   ((bool \<times> u64) \<times> ('j, 's, 'w) device_service) option" where
  "deviceServiceGetResourceAgeMillis E deviceUuid endpointId resourceId s =
     (if deviceUuid = None \<or> resourceId = None then Some ((False, 0), s)
      else do {
        found \<leftarrow> deviceServiceGetResourceByIdInternal (svc_util E) deviceUuid endpointId resourceId (svc_db s);
        case found of None \<Rightarrow> Some ((False, 0), s)
        | Some r \<Rightarrow> (case getCurrentUnixTimeMillis s of (now, s1) \<Rightarrow>
            Some ((True, now - r_dateOfLastSyncMillis r), s1)) })"

text \<open>
  \<^verbatim>\<open>strtoull\<close> with base 10: spaces, a sign, digits; the largest value on overflow, and a minus negates.
  It reads a \<^verbatim>\<open>NULL\<close> value through the pointer.
\<close>

definition strtoull10 :: "string \<Rightarrow> u64" where
  "strtoull10 t =
     (let t1 = dropWhile is_space t;
          neg = (t1 \<noteq> [] \<and> hd t1 = CHR ''-'');
          t2 = (if t1 \<noteq> [] \<and> (hd t1 = CHR ''-'' \<or> hd t1 = CHR ''+'') then tl t1 else t1);
          n = digits_value (takeWhile is_digit t2);
          v = (if n < 2 ^ 64 then word_of_nat n else - 1)
      in if n < 2 ^ 64 \<and> neg then - v else v)"

definition getDeviceDateLastContacted :: "util_api \<Rightarrow> cstr \<Rightarrow> 's json_db \<Rightarrow> u64 option" where
  "getDeviceDateLastContacted U deviceUuid db = do {
     found \<leftarrow> deviceServiceGetResourceById U deviceUuid None (Some COMMON_DEVICE_RESOURCE_DATE_LAST_CONTACTED) db;
     case found of None \<Rightarrow> Some 0
     | Some r \<Rightarrow> (case r_value r of None \<Rightarrow> None | Some v \<Rightarrow> Some (strtoull10 v)) }"

definition setUriOnResource :: "cstr \<Rightarrow> icDeviceResource \<Rightarrow> icDeviceResource option" where
  "setUriOnResource baseUri r =
     (case (baseUri, r_id r) of (Some b, Some i) \<Rightarrow> Some (r\<lparr>r_uri := Some (b @ ''/r/'' @ i)\<rparr>) | _ \<Rightarrow> None)"

definition setUrisOnResources :: "cstr \<Rightarrow> icDeviceResource list option \<Rightarrow> icDeviceResource list option option" where
  "setUrisOnResources baseUri rs =
     (case rs of None \<Rightarrow> Some None | Some l \<Rightarrow> map_option Some (collect (setUriOnResource baseUri) l))"

definition addNewResource ::
  "('j, 's, 'w) svc_env \<Rightarrow> cstr \<Rightarrow> icDeviceResource \<Rightarrow> ('j, 's, 'w) device_service \<Rightarrow> (bool \<times> ('j, 's, 'w) device_service) option" where
  "addNewResource E ownerUri r s = do {
     r1 \<leftarrow> setUriOnResource ownerUri r;
     in_db (jsonDatabaseAddResource (svc_db_env E) ownerUri (Some r1)) s }"

section \<open>Metadata\<close>

definition set_device_timeout ::
  "('j, 's, 'w) svc_env \<Rightarrow> icDevice \<Rightarrow> ('j, 's, 'w) device_service \<Rightarrow> ('j, 's, 'w) device_service option" where
  "set_device_timeout E d s =
     (case getCurrentUnixTimeMillis s of (now, s1) \<Rightarrow>
      (case deviceServiceCommFailSetDeviceTimeoutSecs (svc_cf_env E) now d (deviceServiceCommFailGetTimeoutSecs (svc_fail s1))
              (svc_drivers s1) (cf_watchdog (svc_fail s1)) of
         Inl _ \<Rightarrow> None
       | Inr (w, es) \<Rightarrow> Some (publish (map EvCommFail es) (s1\<lparr>svc_fail := (svc_fail s1)\<lparr>cf_watchdog := w\<rparr>\<rparr>))))"

text \<open>What follows a change of metadata: the event, the driver of the device, its timeout.\<close>

definition metadata_saved ::
  "('j, 's, 'w) svc_env \<Rightarrow> icDeviceMetadata \<Rightarrow> ('j, 's, 'w) device_service \<Rightarrow> ('j, 's, 'w) device_service option" where
  "metadata_saved E m s = do {
     let s1 = publish [EvMetadataUpdated m] s;
     case jsonDatabaseGetDeviceById (m_deviceUuid m) (svc_db s1) of None \<Rightarrow> Some s1
     | Some d \<Rightarrow> do {
         driver \<leftarrow> driver_of d s1;
         let s2 = (case driver of None \<Rightarrow> s1
           | Some drv \<Rightarrow> notify_driver drv (MetadataUpdated d (m_id m) (m_value m))
               (map_option (\<lambda>f. f d (m_id m) (m_value m)) (metadataUpdated (driverOps E drv))) s1);
         if m_id m = Some COMMON_DEVICE_METADATA_COMMFAIL_OVERRIDE_SECS then set_device_timeout E d s2 else Some s2 } }"

definition setMetadata ::
  "('j, 's, 'w) svc_env \<Rightarrow> cstr \<Rightarrow> cstr \<Rightarrow> cstr \<Rightarrow> cstr \<Rightarrow> ('j, 's, 'w) device_service \<Rightarrow> ('j, 's, 'w) device_service option" where
  "setMetadata E deviceUuid endpointId name value s =
     (case (deviceUuid, name, value) of
        (Some u, Some n, Some v) \<Rightarrow> do {
          let uri = metadataUriCreate u endpointId n;
          found \<leftarrow> jsonDatabaseGetMetadataByUri (Some uri) (svc_db s);
          case found of
            Some m \<Rightarrow> do {
              old \<leftarrow> m_value m;
              if old = v then Some s
              else do {
                (_, s1) \<leftarrow> in_db (jsonDatabaseSaveMetadata (svc_db_env E) (Some (m\<lparr>m_value := value\<rparr>))) s;
                metadata_saved E (m\<lparr>m_value := value\<rparr>) s1 } }
          | None \<Rightarrow> do {
              let m = \<lparr>m_id = name, m_uri = Some uri, m_endpointId = endpointId, m_deviceUuid = deviceUuid, m_value = value\<rparr>;
              (_, s1) \<leftarrow> in_db (jsonDatabaseSaveMetadata (svc_db_env E) (Some m)) s;
              metadata_saved E m s1 } }
      | _ \<Rightarrow> Some s)"

definition getMetadata :: "cstr \<Rightarrow> cstr \<Rightarrow> cstr \<Rightarrow> 's json_db \<Rightarrow> cstr option" where
  "getMetadata deviceUuid endpointId name db =
     (case (deviceUuid, name) of
        (Some u, Some n) \<Rightarrow> do {
          m \<leftarrow> jsonDatabaseGetMetadataByUri (Some (metadataUriCreate u endpointId n)) db;
          Some (case m of None \<Rightarrow> None | Some x \<Rightarrow> m_value x) }
      | _ \<Rightarrow> Some None)"

text \<open>The check of the arguments only logs: a \<^verbatim>\<open>NULL\<close> argument is printed into the URI.\<close>

definition deviceServiceRemoveMetadata ::
  "('j, 's, 'w) svc_env \<Rightarrow> cstr \<Rightarrow> cstr \<Rightarrow> cstr \<Rightarrow> ('j, 's, 'w) device_service \<Rightarrow> (bool \<times> ('j, 's, 'w) device_service) option" where
  "deviceServiceRemoveMetadata E deviceUuid endpointId name s =
     (case (deviceUuid, name) of
        (Some u, Some n) \<Rightarrow> in_db (jsonDatabaseRemoveMetadataByUri (svc_db_env E) (Some (metadataUriCreate u endpointId n))) s
      | _ \<Rightarrow> None)"

definition setBooleanMetadata ::
  "('j, 's, 'w) svc_env \<Rightarrow> cstr \<Rightarrow> cstr \<Rightarrow> cstr \<Rightarrow> bool \<Rightarrow> ('j, 's, 'w) device_service \<Rightarrow> ('j, 's, 'w) device_service option" where
  "setBooleanMetadata E deviceUuid endpointId name value =
     setMetadata E deviceUuid endpointId name (Some (if value then ''true'' else ''false''))"

definition getBooleanMetadata :: "cstr \<Rightarrow> cstr \<Rightarrow> cstr \<Rightarrow> 's json_db \<Rightarrow> bool option" where
  "getBooleanMetadata deviceUuid endpointId name db = map_option (\<lambda>v. v = Some ''true'') (getMetadata deviceUuid endpointId name db)"

definition setJsonMetadata ::
  "('j, 's, 'w) svc_env \<Rightarrow> cstr \<Rightarrow> cstr \<Rightarrow> cstr \<Rightarrow> 'j \<Rightarrow> ('j, 's, 'w) device_service \<Rightarrow> ('j, 's, 'w) device_service option" where
  "setJsonMetadata E deviceUuid endpointId name value =
     setMetadata E deviceUuid endpointId name (Some (cJSON_Print (svc_json E) value))"

definition getJsonMetadata :: "('j, 's, 'w) svc_env \<Rightarrow> cstr \<Rightarrow> cstr \<Rightarrow> cstr \<Rightarrow> 's json_db \<Rightarrow> 'j option option" where
  "getJsonMetadata E deviceUuid endpointId name db = do {
     value \<leftarrow> getMetadata deviceUuid endpointId name db;
     Some (case value of None \<Rightarrow> None | Some v \<Rightarrow> cJSON_Parse (svc_json E) (Some v)) }"

definition deviceServiceGetMetadata :: "cstr \<Rightarrow> ('j, 's, 'w) device_service \<Rightarrow> (bool \<times> cstr) option" where
  "deviceServiceGetMetadata uri s =
     (if uri = None then Some (False, None)
      else do {
        accessible \<leftarrow> deviceServiceIsUriAccessible uri s;
        if \<not> accessible then Some (False, None)
        else do {
          m \<leftarrow> jsonDatabaseGetMetadataByUri uri (svc_db s);
          Some (True, case m of None \<Rightarrow> None | Some x \<Rightarrow> m_value x) } })"

text \<open>
  The buffers for the parts of the URI have the length of the URI, and the parts are shorter.
\<close>

definition deviceServiceSetMetadata ::
  "('j, 's, 'w) svc_env \<Rightarrow> cstr \<Rightarrow> cstr \<Rightarrow> ('j, 's, 'w) device_service \<Rightarrow> (bool \<times> ('j, 's, 'w) device_service) option" where
  "deviceServiceSetMetadata E uri value s =
     (case uri of None \<Rightarrow> Some (False, s)
      | Some u \<Rightarrow> do {
          accessible \<leftarrow> deviceServiceIsUriAccessible uri s;
          if \<not> accessible then Some (False, s)
          else (case parseMetadataUri u of None \<Rightarrow> Some (False, s)
            | Some (deviceId, endpointId, name) \<Rightarrow> do {
                s1 \<leftarrow> setMetadata E (Some deviceId) (if stringIsEmpty (svc_util E) endpointId then None else endpointId) (Some name) value s;
                Some (True, s1) }) })"

fun devices_with_metadata ::
  "('j, 's, 'w) svc_env \<Rightarrow> string \<Rightarrow> cstr \<Rightarrow> ('j, 's, 'w) device_service \<Rightarrow> icDevice list \<Rightarrow> icDevice list option" where
  "devices_with_metadata E metadataId valueToCompare s [] = Some []"
| "devices_with_metadata E metadataId valueToCompare s (d # ds) = do {
     (ok, value) \<leftarrow> (case createDeviceMetadataUri E (d_uuid d) metadataId of None \<Rightarrow> Some (False, None)
        | Some uri \<Rightarrow> deviceServiceGetMetadata (Some uri) s);
     rest \<leftarrow> devices_with_metadata E metadataId valueToCompare s ds;
     Some (case value of
        Some v \<Rightarrow> if ok \<and> (case valueToCompare of None \<Rightarrow> True | Some c \<Rightarrow> lower v = lower c) then d # rest else rest
      | None \<Rightarrow> rest) }"

definition deviceServiceGetDevicesByMetadata ::
  "('j, 's, 'w) svc_env \<Rightarrow> cstr \<Rightarrow> cstr \<Rightarrow> ('j, 's, 'w) device_service \<Rightarrow> icDevice list option option" where
  "deviceServiceGetDevicesByMetadata E metadataId valueToCompare s =
     (case metadataId of None \<Rightarrow> Some None
      | Some i \<Rightarrow> map_option Some (devices_with_metadata E i valueToCompare s (jsonDatabaseGetDevices (svc_db s))))"

section \<open>Pending reconfigurations\<close>

definition deviceServiceGetReconfigureDeviceContext ::
  "cstr \<Rightarrow> ('j, 's, 'w) device_service \<Rightarrow> ReconfigureDeviceContext option" where
  "deviceServiceGetReconfigureDeviceContext deviceUuid s =
     (case (deviceUuid, pendingReconfiguration s) of (Some u, Some m) \<Rightarrow> hashMapGet m u | _ \<Rightarrow> None)"

definition deviceServiceRemoveReconfigureDeviceContext ::
  "ReconfigureDeviceContext option \<Rightarrow> ('j, 's, 'w) device_service \<Rightarrow> bool \<times> ('j, 's, 'w) device_service" where
  "deviceServiceRemoveReconfigureDeviceContext ctx s =
     (case (ctx, pendingReconfiguration s) of
        (Some c, Some m) \<Rightarrow> (case hashMapDelete m (rc_deviceUuid c) of (ok, m') \<Rightarrow> (ok, s\<lparr>pendingReconfiguration := Some m'\<rparr>))
      | _ \<Rightarrow> (False, s))"

text \<open>The context is shared with the map: the signal is seen by whoever waits on it.\<close>

definition sendReconfigurationSignal ::
  "ReconfigureDeviceContext option \<Rightarrow> bool \<Rightarrow> ('j, 's, 'w) device_service \<Rightarrow> bool \<times> ('j, 's, 'w) device_service" where
  "sendReconfigurationSignal ctx terminate s =
     (case ctx of None \<Rightarrow> (False, s)
      | Some c \<Rightarrow> (True, s\<lparr>pendingReconfiguration := map_option (\<lambda>m. hashMapUpdate m (rc_deviceUuid c)
          (\<lambda>x. x\<lparr>rc_isSignaled := True, rc_shouldTerminate := terminate\<rparr>)) (pendingReconfiguration s)\<rparr>))"

definition deviceServiceSendReconfigurationSignal ::
  "cstr \<Rightarrow> bool \<Rightarrow> ('j, 's, 'w) device_service \<Rightarrow> bool \<times> ('j, 's, 'w) device_service" where
  "deviceServiceSendReconfigurationSignal deviceUuid terminate s =
     sendReconfigurationSignal (deviceServiceGetReconfigureDeviceContext deviceUuid s) terminate s"

definition deviceServiceIsReconfigurationPending :: "cstr \<Rightarrow> ('j, 's, 'w) device_service \<Rightarrow> bool" where
  "deviceServiceIsReconfigurationPending deviceUuid s = (deviceServiceGetReconfigureDeviceContext deviceUuid s \<noteq> None)"

definition deviceServiceIsReconfigurationAllowedAsap :: "cstr \<Rightarrow> ('j, 's, 'w) device_service \<Rightarrow> bool" where
  "deviceServiceIsReconfigurationAllowedAsap deviceUuid s =
     (case deviceServiceGetReconfigureDeviceContext deviceUuid s of None \<Rightarrow> False | Some c \<Rightarrow> rc_isAllowedAsap c)"

definition waitForOrCancelPendingReconfiguration ::
  "('j, 's, 'w) svc_env \<Rightarrow> cstr \<Rightarrow> ('j, 's, 'w) device_service \<Rightarrow> ('j, 's, 'w) device_service" where
  "waitForOrCancelPendingReconfiguration E uuid s =
     (case deviceServiceGetReconfigureDeviceContext uuid s of None \<Rightarrow> s
      | Some c \<Rightarrow>
          if isDelayTaskWaiting E (rc_taskHandle c) (svc_world s)
          then snd (deviceServiceRemoveReconfigureDeviceContext (Some c)
                 (s\<lparr>svc_world := cancelDelayTask E (rc_taskHandle c) (svc_world s)\<rparr>))
          else awaitReconfiguration E (rc_deviceUuid c) (snd (sendReconfigurationSignal (Some c) True s)))"

section \<open>Devices and endpoints\<close>

text \<open>
  An unknown device is marked, so that its pairing, if it is in progress, fails at the end.
\<close>

definition deviceServiceRemoveDevice ::
  "('j, 's, 'w) svc_env \<Rightarrow> cstr \<Rightarrow> ('j, 's, 'w) device_service \<Rightarrow> (bool \<times> ('j, 's, 'w) device_service) option" where
  "deviceServiceRemoveDevice E uuid s =
     (case jsonDatabaseGetDeviceById uuid (svc_db s) of
        Some d \<Rightarrow> do {
          (ok, s1) \<leftarrow> in_db (jsonDatabaseRemoveDeviceById (svc_db_env E) uuid) (waitForOrCancelPendingReconfiguration E uuid s);
          if \<not> ok then Some (False, s1)
          else do {
            let s2 = publish (map (\<lambda>e. EvEndpointRemoved e (d_deviceClass d) True) (filter e_enabled (items (d_endpoints d)))) s1;
            driver \<leftarrow> driver_of d s2;
            let s3 = (case driver of None \<Rightarrow> s2
              | Some drv \<Rightarrow> notify_driver drv (DeviceRemoved d) (map_option (\<lambda>f. f d) (deviceRemoved (driverOps E drv))) s2);
            Some (True, publish [EvDeviceRemoved (d_uuid d) (d_deviceClass d)] s3) } }
      | None \<Rightarrow> Some (case uuid of None \<Rightarrow> (False, s)
          | Some u \<Rightarrow> (True, s\<lparr>markedForRemoval := snd (hashMapPut (markedForRemoval s) u ())\<rparr>)))"

definition deviceServiceGetDeviceDescriptorForDevice ::
  "('j, 's, 'w) svc_env \<Rightarrow> icDevice option \<Rightarrow> ('j, 's, 'w) device_service \<Rightarrow>
   (DeviceDescriptor option \<times> ('j, 's, 'w) device_service) option" where
  "deviceServiceGetDeviceDescriptorForDevice E device s = do {
     man \<leftarrow> deviceServiceFindDeviceResourceById device COMMON_DEVICE_RESOURCE_MANUFACTURER;
     mdl \<leftarrow> deviceServiceFindDeviceResourceById device COMMON_DEVICE_RESOURCE_MODEL;
     hw \<leftarrow> deviceServiceFindDeviceResourceById device COMMON_DEVICE_RESOURCE_HARDWARE_VERSION;
     fw \<leftarrow> deviceServiceFindDeviceResourceById device COMMON_DEVICE_RESOURCE_FIRMWARE_VERSION;
     case (man, mdl, hw, fw) of
       (Some a, Some b, Some c, Some d) \<Rightarrow> do {
         (dd, st) \<leftarrow> deviceDescriptorsGet (svc_util E) (svc_parse E) (r_value a) (r_value b) (r_value c) (r_value d) (svc_descriptors s);
         Some (dd, s\<lparr>svc_descriptors := st\<rparr>) }
     | _ \<Rightarrow> Some (None, s) }"

definition getDeviceDescriptorCascadeAddDeleteEndpoints ::
  "('j, 's, 'w) svc_env \<Rightarrow> icDevice option \<Rightarrow> ('j, 's, 'w) device_service \<Rightarrow> (bool \<times> ('j, 's, 'w) device_service) option" where
  "getDeviceDescriptorCascadeAddDeleteEndpoints E device s =
     (if device = None then Some (False, s)
      else do {
        (dd, s1) \<leftarrow> deviceServiceGetDeviceDescriptorForDevice E device s;
        Some (case dd of None \<Rightarrow> False | Some x \<Rightarrow> cascadeAddDeleteEndpoints x, s1) })"

text \<open>\<^verbatim>\<open>strcmp\<close> with the id of the disabled endpoint, for the enabled ones up to one that differs.\<close>

fun other_enabled :: "string \<Rightarrow> icDeviceEndpoint list \<Rightarrow> bool option" where
  "other_enabled i [] = Some False"
| "other_enabled i (e # es) =
     (if e_enabled e then (case e_id e of None \<Rightarrow> None | Some j \<Rightarrow> if j \<noteq> i then Some True else other_enabled i es)
      else other_enabled i es)"

definition deviceServiceRemoveEndpointById ::
  "('j, 's, 'w) svc_env \<Rightarrow> string \<Rightarrow> cstr \<Rightarrow> ('j, 's, 'w) device_service \<Rightarrow> (bool \<times> ('j, 's, 'w) device_service) option" where
  "deviceServiceRemoveEndpointById E uuid endpointId s =
     (case (jsonDatabaseGetDeviceById (Some uuid) (svc_db s), jsonDatabaseGetEndpointById uuid endpointId (svc_db s)) of
        (Some d, Some e) \<Rightarrow>
          if \<not> e_enabled e then Some (False, s)
          else do {
            (cascade, s1) \<leftarrow> getDeviceDescriptorCascadeAddDeleteEndpoints E (Some d) s;
            if cascade
            then do { (_, s2) \<leftarrow> deviceServiceRemoveDevice E (e_deviceUuid e) s1; Some (True, s2) }
            else do {
              let e1 = e\<lparr>e_enabled := False\<rparr>;
              (_, s2) \<leftarrow> in_db (jsonDatabaseSaveEndpoint (svc_db_env E) (Some e1)) s1;
              eid \<leftarrow> e_id e1;
              atLeastOneActiveEndpoint \<leftarrow> other_enabled eid (items (d_endpoints d));
              if \<not> atLeastOneActiveEndpoint
              then do {
                (_, s3) \<leftarrow> deviceServiceRemoveDevice E (e_deviceUuid e1) (publish [EvEndpointRemoved e1 (d_deviceClass d) True] s2);
                Some (True, s3) }
              else do {
                driver \<leftarrow> driver_of d s2;
                let s3 = (case driver of None \<Rightarrow> s2
                  | Some drv \<Rightarrow> notify_driver drv (EndpointDisabled e1) (map_option (\<lambda>f. f e1) (endpointDisabled (driverOps E drv))) s2);
                Some (True, publish [EvEndpointRemoved e1 (d_deviceClass d) False] s3) } } }
      | _ \<Rightarrow> Some (False, s))"

definition deviceServiceAddEndpoint ::
  "('j, 's, 'w) svc_env \<Rightarrow> icDevice option \<Rightarrow> icDeviceEndpoint option \<Rightarrow> ('j, 's, 'w) device_service \<Rightarrow>
   ('j, 's, 'w) device_service option" where
  "deviceServiceAddEndpoint E device endpoint s =
     (case (device, endpoint) of
        (Some d, Some e) \<Rightarrow> do {
          u \<leftarrow> d_uuid d;
          i \<leftarrow> e_id e;
          let e1 = e\<lparr>e_uri := Some (endpointUriCreate u i)\<rparr>;
          rs \<leftarrow> setUrisOnResources (e_uri e1) (e_resources e1);
          let e2 = e1\<lparr>e_resources := rs\<rparr>;
          (ok, s1) \<leftarrow> in_db (\<lambda>db. Some (jsonDatabaseAddEndpoint (svc_db_env E) (Some e2) db)) s;
          Some (if ok \<and> e_enabled e2 then publish [EvEndpointAdded e2 (d_deviceClass d)] s1 else s1) }
      | _ \<Rightarrow> Some s)"

definition deviceServiceUpdateEndpoint ::
  "('j, 's, 'w) svc_env \<Rightarrow> icDevice option \<Rightarrow> icDeviceEndpoint option \<Rightarrow> ('j, 's, 'w) device_service \<Rightarrow>
   ('j, 's, 'w) device_service option" where
  "deviceServiceUpdateEndpoint E device endpoint s =
     (case (device, endpoint) of
        (Some d, Some e) \<Rightarrow> do {
          u \<leftarrow> d_uuid d;
          v \<leftarrow> e_deviceUuid e;
          if u \<noteq> v then Some s
          else do {
            currentEp \<leftarrow> jsonDatabaseGetEndpointByUri (e_uri e) (svc_db s);
            case currentEp of None \<Rightarrow> Some s
            | Some c \<Rightarrow> do {
                rs \<leftarrow> setUrisOnResources (e_uri e) (e_resources e);
                let e1 = e\<lparr>e_resources := rs\<rparr>;
                (_, s1) \<leftarrow> in_db (jsonDatabaseSaveEndpoint (svc_db_env E) (Some e1)) s;
                Some (if \<not> e_enabled c \<and> e_enabled e1 then publish [EvEndpointAdded e1 (d_deviceClass d)] s1 else s1) } } }
      | _ \<Rightarrow> Some s)"

definition deviceServiceGetPostUpgradeAction ::
  "('j, 's, 'w) svc_env \<Rightarrow> cstr \<Rightarrow> ('j, 's, 'w) device_service \<Rightarrow> (PostUpgradeAction \<times> ('j, 's, 'w) device_service) option" where
  "deviceServiceGetPostUpgradeAction E deviceUuid s =
     (if deviceUuid = None then Some (POST_UPGRADE_ACTION_NONE, s)
      else do {
        (dd, s1) \<leftarrow> deviceServiceGetDeviceDescriptorForDevice E (deviceServiceGetDevice deviceUuid (svc_db s)) s;
        Some (case dd of None \<Rightarrow> POST_UPGRADE_ACTION_NONE
          | Some x \<Rightarrow> (case latestFirmware x of None \<Rightarrow> POST_UPGRADE_ACTION_NONE | Some fw \<Rightarrow> upgradeAction fw), s1) })"

text \<open>Devices all of whose endpoints are disabled are dropped from the database, without further notice.\<close>

fun drop_each :: "('j, 's, 'w) svc_env \<Rightarrow> icDevice list \<Rightarrow> ('j, 's, 'w) device_service \<Rightarrow> ('j, 's, 'w) device_service option" where
  "drop_each E [] s = Some s"
| "drop_each E (d # ds) s =
     (if list_ex e_enabled (items (d_endpoints d)) then drop_each E ds s
      else do { (_, s1) \<leftarrow> in_db (jsonDatabaseRemoveDeviceById (svc_db_env E) (d_uuid d)) s; drop_each E ds s1 })"

definition deviceServiceScrubDevices ::
  "('j, 's, 'w) svc_env \<Rightarrow> ('j, 's, 'w) device_service \<Rightarrow> ('j, 's, 'w) device_service option" where
  "deviceServiceScrubDevices E s = drop_each E (jsonDatabaseGetDevices (svc_db s)) s"

fun subsystem_devices :: "string \<Rightarrow> ('j, 's, 'w) device_service \<Rightarrow> icDevice list \<Rightarrow> icDevice list option" where
  "subsystem_devices sub s [] = Some []"
| "subsystem_devices sub s (d # ds) = do {
     driver \<leftarrow> getDeviceDriverForUri (d_uri d) s;
     rest \<leftarrow> subsystem_devices sub s ds;
     Some (case driver of None \<Rightarrow> rest | Some drv \<Rightarrow> if subsystemName drv = Some sub then d # rest else rest) }"

definition deviceServiceGetDevicesBySubsystem :: "string \<Rightarrow> ('j, 's, 'w) device_service \<Rightarrow> icDevice list option" where
  "deviceServiceGetDevicesBySubsystem sub s = subsystem_devices sub s (jsonDatabaseGetDevices (svc_db s))"

definition deviceServiceGetDevicesByProfile :: "cstr \<Rightarrow> 's json_db \<Rightarrow> icDevice list" where
  "deviceServiceGetDevicesByProfile = jsonDatabaseGetDevicesByEndpointProfile"

definition deviceServiceGetDevicesByDeviceClass :: "cstr \<Rightarrow> 's json_db \<Rightarrow> icDevice list" where
  "deviceServiceGetDevicesByDeviceClass = jsonDatabaseGetDevicesByDeviceClass"

definition deviceServiceGetAllDevices :: "'s json_db \<Rightarrow> icDevice list" where
  "deviceServiceGetAllDevices = jsonDatabaseGetDevices"

definition deviceServiceIsDeviceKnown :: "cstr \<Rightarrow> 's json_db \<Rightarrow> bool" where
  "deviceServiceIsDeviceKnown = jsonDatabaseIsDeviceKnown"

definition deviceServiceIsDeviceInCommFail :: "('j, 's, 'w) svc_env \<Rightarrow> cstr \<Rightarrow> 's json_db \<Rightarrow> bool option" where
  "deviceServiceIsDeviceInCommFail E deviceUuid db =
     (if deviceUuid = None then Some False
      else do {
        r \<leftarrow> deviceServiceGetResourceById (svc_util E) deviceUuid None (Some COMMON_DEVICE_RESOURCE_COMM_FAIL) db;
        Some (case r of None \<Rightarrow> False | Some x \<Rightarrow> stringToBool E (r_value x)) })"

definition deviceServiceGetDeviceFirmwareVersion :: "util_api \<Rightarrow> cstr \<Rightarrow> 's json_db \<Rightarrow> cstr option" where
  "deviceServiceGetDeviceFirmwareVersion U deviceUuid db =
     (if deviceUuid = None then Some None
      else do {
        r \<leftarrow> deviceServiceGetResourceById U deviceUuid None (Some COMMON_DEVICE_RESOURCE_FIRMWARE_VERSION) db;
        Some (case r of None \<Rightarrow> None | Some x \<Rightarrow> r_value x) })"

text \<open>A URI up to, and without, the slash with the given number of slashes before it.\<close>

fun cut_at_slash :: "nat \<Rightarrow> string \<Rightarrow> string" where
  "cut_at_slash n [] = []"
| "cut_at_slash n (c # cs) =
     (if c = CHR ''/'' then (case n of 0 \<Rightarrow> [] | Suc m \<Rightarrow> c # cut_at_slash m cs) else c # cut_at_slash n cs)"

definition getPartialUri :: "cstr \<Rightarrow> nat \<Rightarrow> cstr" where
  "getPartialUri uri numSlashes = map_option (cut_at_slash numSlashes) uri"

section \<open>Rejected and failed devices\<close>

definition markDeviceRejected :: "string \<Rightarrow> ('j, 's, 'w) device_service \<Rightarrow> ('j, 's, 'w) device_service" where
  "markDeviceRejected u s = s\<lparr>rejected := snd (hashMapPut (snd (hashMapDelete (rejected s) u)) u ())\<rparr>"

definition deviceServiceWasDeviceRejected :: "string \<Rightarrow> ('j, 's, 'w) device_service \<Rightarrow> bool" where
  "deviceServiceWasDeviceRejected u s = hashMapContains (rejected s) u"

definition clearRejectedDevices :: "('j, 's, 'w) device_service \<Rightarrow> ('j, 's, 'w) device_service" where
  "clearRejectedDevices s = s\<lparr>rejected := []\<rparr>"

definition markDevicePairingFailed :: "string \<Rightarrow> ('j, 's, 'w) device_service \<Rightarrow> ('j, 's, 'w) device_service" where
  "markDevicePairingFailed u s = s\<lparr>failedToPair := snd (hashMapPut (snd (hashMapDelete (failedToPair s) u)) u ())\<rparr>"

definition deviceServiceDidDeviceFailToPair :: "string \<Rightarrow> ('j, 's, 'w) device_service \<Rightarrow> bool" where
  "deviceServiceDidDeviceFailToPair u s = hashMapContains (failedToPair s) u"

definition clearPairingFailedDevices :: "('j, 's, 'w) device_service \<Rightarrow> ('j, 's, 'w) device_service" where
  "clearPairingFailedDevices s = s\<lparr>failedToPair := []\<rparr>"

section \<open>Drivers, descriptors and subsystems\<close>

text \<open>Every driver of the list is told, in the order of registration.\<close>

fun tell_each :: "(DeviceDriver \<Rightarrow> ('j, 's, 'w) device_service \<Rightarrow> ('j, 's, 'w) device_service) \<Rightarrow> DeviceDriver list \<Rightarrow>
    ('j, 's, 'w) device_service \<Rightarrow> ('j, 's, 'w) device_service" where
  "tell_each f [] s = s"
| "tell_each f (d # ds) s = tell_each f ds (f d s)"

definition all_drivers :: "('j, 's, 'w) device_service \<Rightarrow> DeviceDriver list" where
  "all_drivers s = (case deviceDriverManagerGetDeviceDrivers (svc_drivers s) of None \<Rightarrow> [] | Some ds \<Rightarrow> ds)"

definition deviceServiceNotifySystemPowerEvent ::
  "('j, 's, 'w) svc_env \<Rightarrow> DeviceServiceSystemPowerEventType \<Rightarrow> ('j, 's, 'w) device_service \<Rightarrow> ('j, 's, 'w) device_service" where
  "deviceServiceNotifySystemPowerEvent E ev s =
     tell_each (\<lambda>drv. notify_driver drv (SystemPowerEvent ev) (map_option (\<lambda>f. f ev) (systemPowerEvent (driverOps E drv))))
       (all_drivers s) s"

definition deviceServiceNotifyPropertyChange ::
  "('j, 's, 'w) svc_env \<Rightarrow> cstr \<Rightarrow> cstr \<Rightarrow> ('j, 's, 'w) device_service \<Rightarrow> ('j, 's, 'w) device_service" where
  "deviceServiceNotifyPropertyChange E propKey propValue s =
     tell_each (\<lambda>drv. notify_driver drv (PropertyChange propKey propValue)
         (map_option (\<lambda>f. f propKey propValue) (propertyChanged (driverOps E drv))))
       (all_drivers s) s"

definition notifyDriversForServiceStatusChange ::
  "('j, 's, 'w) svc_env \<Rightarrow> ('j, 's, 'w) device_service \<Rightarrow> ('j, 's, 'w) device_service" where
  "notifyDriversForServiceStatusChange E s =
     tell_each (\<lambda>drv. notify_driver drv ServiceStatusChanged (serviceStatusChanged (driverOps E drv))) (all_drivers s) s"

definition getSupportedDeviceClasses :: "('j, 's, 'w) device_service \<Rightarrow> string list" where
  "getSupportedDeviceClasses s =
     foldl (\<lambda>result deviceClass. if deviceClass \<in> set result then result else result @ [deviceClass]) []
       (concat (map (\<lambda>drv. items (supportedDeviceClasses drv)) (all_drivers s)))"

text \<open>An operation of the subsystem manager, on its part of the state and the common database.\<close>

definition in_subsystems ::
  "('s subsystem_manager \<Rightarrow> 's subsystem_manager) \<Rightarrow> ('j, 's, 'w) device_service \<Rightarrow> ('j, 's, 'w) device_service" where
  "in_subsystems f s =
     (let m = f ((svc_subsystems s)\<lparr>sm_db := svc_db s\<rparr>) in set_db (sm_db m) (s\<lparr>svc_subsystems := m\<rparr>))"

definition deviceServiceEnterLowPowerMode ::
  "('j, 's, 'w) svc_env \<Rightarrow> ('j, 's, 'w) device_service \<Rightarrow> ('j, 's, 'w) device_service" where
  "deviceServiceEnterLowPowerMode E s =
     (if isDeviceServiceInLPM s then s
      else deviceServiceNotifySystemPowerEvent E POWER_EVENT_LPM_ENTER
        (in_subsystems subsystemManagerEnterLPM (s\<lparr>isDeviceServiceInLPM := True\<rparr>)))"

definition deviceServiceExitLowPowerMode ::
  "('j, 's, 'w) svc_env \<Rightarrow> ('j, 's, 'w) device_service \<Rightarrow> ('j, 's, 'w) device_service" where
  "deviceServiceExitLowPowerMode E s =
     (if \<not> isDeviceServiceInLPM s then s
      else deviceServiceNotifySystemPowerEvent E POWER_EVENT_LPM_EXIT
        (in_subsystems subsystemManagerExitLPM (s\<lparr>isDeviceServiceInLPM := False\<rparr>)))"

definition deviceServiceIsInLowPowerMode :: "('j, 's, 'w) device_service \<Rightarrow> bool" where
  "deviceServiceIsInLowPowerMode s = isDeviceServiceInLPM s"

definition deviceServiceSetOtaUpgradeDelay :: "u32 \<Rightarrow> ('j, 's, 'w) device_service \<Rightarrow> ('j, 's, 'w) device_service" where
  "deviceServiceSetOtaUpgradeDelay delaySeconds s = in_subsystems (subsystemManagerSetOtaUpgradeDelay delaySeconds) s"

definition deviceServiceIsDiscoveryActive :: "('j, 's, 'w) device_service \<Rightarrow> bool" where
  "deviceServiceIsDiscoveryActive s = (length (activeDiscoveries s) > 0)"

definition deviceServiceIsInRecoveryMode :: "('j, 's, 'w) device_service \<Rightarrow> bool" where
  "deviceServiceIsInRecoveryMode s = list_ex (\<lambda>(_, ctx). ctx_findOrphanedDevices ctx) (activeDiscoveries s)"

fun process_each :: "('j, 's, 'w) svc_env \<Rightarrow> icDevice list \<Rightarrow> ('j, 's, 'w) device_service \<Rightarrow> ('j, 's, 'w) device_service option" where
  "process_each E [] s = Some s"
| "process_each E (d # ds) s = do {
     driver \<leftarrow> getDeviceDriverForUri (d_uri d) s;
     case driver of None \<Rightarrow> process_each E ds s
     | Some drv \<Rightarrow>
         (case processDeviceDescriptor (driverOps E drv) of None \<Rightarrow> process_each E ds s
          | Some process \<Rightarrow> do {
              (dd, s1) \<leftarrow> deviceServiceGetDeviceDescriptorForDevice E (Some d) s;
              case dd of None \<Rightarrow> process_each E ds s1
              | Some x \<Rightarrow> process_each E ds
                  (snd (process d x (publish [Called (driverName drv) (ProcessDeviceDescriptor d x)] s1))) }) }"

text \<open>The timeout of the service is set and what happens then is reported. \<open>None\<close>: a fault.\<close>

definition set_service_timeout :: "('j, 's, 'w) svc_env \<Rightarrow> u32 \<Rightarrow> ('j, 's, 'w) device_service \<Rightarrow> ('j, 's, 'w) device_service option" where
  "set_service_timeout E secs s =
     (case getCurrentUnixTimeMillis s of (now, s1) \<Rightarrow>
        (case deviceServiceCommFailSetTimeoutSecs (svc_cf_env E) now secs (svc_fail s1) of
           Inl _ \<Rightarrow> None
         | Inr (cf, es) \<Rightarrow> Some (publish (map EvCommFail es) (s1\<lparr>svc_fail := cf\<rparr>))))"

definition deviceServiceProcessDeviceDescriptors ::
  "('j, 's, 'w) svc_env \<Rightarrow> ('j, 's, 'w) device_service \<Rightarrow> ('j, 's, 'w) device_service option" where
  "deviceServiceProcessDeviceDescriptors E s = do {
     let s1 = s\<lparr>svc_descriptors := deviceDescriptorsCleanup (svc_descriptors s)\<rparr>;
     let s2 = (if \<not> deviceServiceIsDiscoveryActive s1 then clearPairingFailedDevices (clearRejectedDevices s1) else s1);
     s3 \<leftarrow> process_each E (jsonDatabaseGetDevices (svc_db s2)) s2;
     set_service_timeout E (deviceServiceCommFailGetTimeoutSecs (svc_fail s3)) s3 }"

definition isDeviceDescriptorBypassed :: "('j, 's, 'w) device_service \<Rightarrow> bool" where
  "isDeviceDescriptorBypassed s =
     (case deviceServiceGetSystemProperty DEVICE_DESCRIPTOR_BYPASS_SYSTEM_PROP (svc_db s) of
        None \<Rightarrow> False | Some flag \<Rightarrow> lower flag = ''true'')"

definition deviceDescriptorsListIsReady :: "('j, 's, 'w) device_service \<Rightarrow> bool" where
  "deviceDescriptorsListIsReady s = (isDeviceDescriptorBypassed s \<or> isDeviceDescriptorsListReady s)"

definition deviceServiceIsReadyForPairing :: "('j, 's, 'w) device_service \<Rightarrow> bool" where
  "deviceServiceIsReadyForPairing s = deviceDescriptorsListIsReady s"

definition deviceServiceIsReadyForDeviceOperation :: "('j, 's, 'w) device_service \<Rightarrow> bool" where
  "deviceServiceIsReadyForDeviceOperation s = subsystemsReadyForDevices s"

text \<open>The task is scheduled once until it starts.\<close>

definition scheduleDeviceDescriptorsProcessingTask :: "('j, 's, 'w) device_service \<Rightarrow> ('j, 's, 'w) device_service" where
  "scheduleDeviceDescriptorsProcessingTask s =
     (if deviceDescriptorProcessorTask s then s
      else publish [DescriptorProcessingScheduled] (s\<lparr>deviceDescriptorProcessorTask := True\<rparr>))"

definition processDeviceDescriptorsBackgroundTask ::
  "('j, 's, 'w) svc_env \<Rightarrow> ('j, 's, 'w) device_service \<Rightarrow> ('j, 's, 'w) device_service option" where
  "processDeviceDescriptorsBackgroundTask E s =
     deviceServiceProcessDeviceDescriptors E (s\<lparr>deviceDescriptorProcessorTask := False\<rparr>)"

definition deviceDescriptorsReadyForPairingCallback ::
  "('j, 's, 'w) svc_env \<Rightarrow> ('j, 's, 'w) device_service \<Rightarrow> ('j, 's, 'w) device_service" where
  "deviceDescriptorsReadyForPairingCallback E s =
     scheduleDeviceDescriptorsProcessingTask (publish [EvReadyForPairing]
       (notifyDriversForServiceStatusChange E (s\<lparr>isDeviceDescriptorsListReady := True\<rparr>)))"

definition descriptorsUpdatedCallback :: "('j, 's, 'w) device_service \<Rightarrow> ('j, 's, 'w) device_service" where
  "descriptorsUpdatedCallback s = scheduleDeviceDescriptorsProcessingTask s"

record DeviceServiceStatus =
  st_supportedDeviceClasses :: "string list"
  st_discoveryRunning :: bool
  st_discoveringDeviceClasses :: "string list"
  st_findingOrphanedDevices :: bool
  st_isReadyForDeviceOperation :: bool
  st_isReadyForPairing :: bool
  st_discoveryTimeoutSeconds :: u16
  st_subsystemsJsonStatus :: "(string, cstr) hmap"

text \<open>A subsystem without a status function, or not in the table, has no status.\<close>

definition deviceServiceGetStatus :: "('j, 's, 'w) device_service \<Rightarrow> DeviceServiceStatus" where
  "deviceServiceGetStatus s =
     (let running = deviceServiceIsDiscoveryActive s;
          names = subsystemManagerGetRegisteredSubsystems (svc_subsystems s)
      in \<lparr>st_supportedDeviceClasses = getSupportedDeviceClasses s,
          st_discoveryRunning = running,
          st_discoveringDeviceClasses = (if running then remdups (map fst (activeDiscoveries s)) else []),
          st_findingOrphanedDevices = (running \<and> list_ex (\<lambda>(_, ctx). ctx_findOrphanedDevices ctx) (activeDiscoveries s)),
          st_isReadyForDeviceOperation = deviceServiceIsReadyForDeviceOperation s,
          st_isReadyForPairing = (deviceDescriptorsListIsReady s \<and> deviceServiceIsReadyForDeviceOperation s),
          st_discoveryTimeoutSeconds = (if running then discoveryTimeoutSeconds s else 0),
          st_subsystemsJsonStatus = foldl (\<lambda>m n. snd (hashMapPut m n
            (case subsystemManagerGetSubsystemStatusJson n (svc_subsystems s) of None \<Rightarrow> None | Some j \<Rightarrow> j))) [] names\<rparr>)"

end
