(* ===== verification/Device_Service_Props.thy ===== *)
theory Device_Service_Props
  imports Device_Service
begin

text \<open>
  Theorems on the operations of \<open>Device_Service\<close>: what a change of a resource does and that it
  returns, which accesses reach a driver, the modes of resources, removing endpoints and devices,
  metadata, and the URI patterns.
\<close>

section \<open>Frame\<close>

lemma svc_frame [simp]:
  "svc_db (set_db db s) = db" "svc_db (publish es s) = svc_db s" "set_db db (set_db db' s) = set_db db s"
  "svc_log (set_db db s) = svc_log s" "svc_log (publish es s) = svc_log s @ es"
  "svc_drivers (set_db db s) = svc_drivers s" "svc_drivers (publish es s) = svc_drivers s"
  "svc_clock (set_db db s) = svc_clock s" "svc_clock (publish es s) = svc_clock s"
  "svc_ticks (set_db db s) = svc_ticks s" "svc_ticks (publish es s) = svc_ticks s"
  "set_db (svc_db s) s = s" "publish [] s = s"
  by (simp_all add: svc_db_def set_db_def publish_def svc_drivers_def)

lemma clock_frame [simp]:
  "fst (getCurrentUnixTimeMillis s) = svc_clock s (svc_ticks s)"
  "svc_db (snd (getCurrentUnixTimeMillis s)) = svc_db s" "svc_log (snd (getCurrentUnixTimeMillis s)) = svc_log s"
  "svc_drivers (snd (getCurrentUnixTimeMillis s)) = svc_drivers s"
  "fst (getCurrentTimestampString s) = decimal (unat (svc_clock s (svc_ticks s)))"
  "svc_db (snd (getCurrentTimestampString s)) = svc_db s" "svc_log (snd (getCurrentTimestampString s)) = svc_log s"
  "svc_clock (snd (getCurrentTimestampString s)) = svc_clock s"
  "svc_ticks (snd (getCurrentTimestampString s)) = Suc (svc_ticks s)"
  by (simp_all add: getCurrentUnixTimeMillis_def getCurrentTimestampString_def svc_db_def svc_drivers_def)

lemma in_db_result: "f (svc_db s) = Some (ok, db) \<Longrightarrow> in_db f s = Some (ok, set_db db s)"
  by (simp add: in_db_def)

section \<open>Changes of resources\<close>

abbreviation by_id :: "('j, 's, 'w) svc_env \<Rightarrow> cstr \<Rightarrow> cstr \<Rightarrow> cstr \<Rightarrow> ('j, 's, 'w) device_service \<Rightarrow> icDeviceResource option option" where
  "by_id E u ep i s \<equiv> deviceServiceGetResourceByIdInternal (svc_util E) u ep i (svc_db s)"

definition passes_through :: "icDeviceResource \<Rightarrow> bool" where
  "passes_through r \<longleftrightarrow> r_cachingPolicy r = CACHING_POLICY_NEVER \<and> mode_has (r_mode r) RESOURCE_MODE_EMIT_EVENTS"

lemmas updateResource_step = updateResource.simps [folded passes_through_def]

lemma by_id_total:
  assumes "db_inv (svc_db s)"
  obtains "by_id E u ep i s = Some None"
  | v r where "by_id E u ep i s = Some (Some r)" "r_uri r = Some v"
      "jsonDatabaseGetResourceByUri (Some v) (svc_db s) = Some (Some r)"
      "\<exists>a b. u = Some a \<and> i = Some b \<and> v = resourceUriCreate (svc_util E) a ep b"
proof (cases "u = None \<or> i = None")
  case True
  then show ?thesis using that(1) by (auto simp: deviceServiceGetResourceByIdInternal_def split: option.splits)
next
  case False
  then obtain a b where ab: "u = Some a" "i = Some b" by auto
  from getResource_exact [OF assms, of "resourceUriCreate (svc_util E) a ep b"]
  show ?thesis using that ab by (auto simp: deviceServiceGetResourceByIdInternal_def)
qed

text \<open>
  What a change leaves behind: the resource with its new value and date, every other lookup the same.
\<close>

definition changed_to :: "icDeviceResource \<Rightarrow> icDeviceResource \<Rightarrow> 's json_db \<Rightarrow> 's json_db \<Rightarrow> bool" where
  "changed_to r r' db db' \<longleftrightarrow> db_inv db' \<and> (\<forall>w. jsonDatabaseGetResourceByUri (Some w) db' =
     (if Some w = r_uri r then Some (Some r') else jsonDatabaseGetResourceByUri (Some w) db))"

lemma saveResource_changed:
  assumes "db_inv db" "r_uri r = Some u" "jsonDatabaseGetResourceByUri (Some u) db = Some (Some r)"
    and "r' = r\<lparr>r_value := r_value r', r_cachingPolicy := r_cachingPolicy r', r_mode := r_mode r',
      r_dateOfLastSyncMillis := r_dateOfLastSyncMillis r'\<rparr>"
  obtains ok db' where "jsonDatabaseSaveResource E (Some r') db = Some (ok, db')" "changed_to r r' db db'"
proof -
  have "r_uri r' = Some u" using assms(2) by (subst assms(4)) simp
  from saveResource_effect [OF assms(1) this assms(3), of E] obtain ok db' where
    "jsonDatabaseSaveResource E (Some r') db = Some (ok, db')" "db_inv db'"
    "jsonDatabaseGetResourceByUri (Some u) db' = Some (Some r')"
    "\<forall>v. v \<noteq> u \<longrightarrow> jsonDatabaseGetResourceByUri (Some v) db' = jsonDatabaseGetResourceByUri (Some v) db"
    using assms(4) by auto
  then show ?thesis using that assms(2) by (simp add: changed_to_def)
qed

abbreviation updated :: "icDeviceResource \<Rightarrow> cstr \<Rightarrow> u64 \<Rightarrow> icDeviceResource" where
  "updated r v t \<equiv> r\<lparr>r_value := v, r_dateOfLastSyncMillis := t\<rparr>"

text \<open>A resource that is cached, or that emits no events.\<close>

lemma updateResource_cached:
  assumes inv: "db_inv (svc_db s)" and r: "by_id E u ep i s = Some (Some r)" "\<not> passes_through r"
  obtains db' where "updateResource E u ep i v md s = Some (publish
      (if r_value r \<noteq> v \<and> mode_has (r_mode r) RESOURCE_MODE_EMIT_EVENTS
       then [EvResourceUpdated (updated r v (svc_clock s (svc_ticks s))) md] else [])
      (set_db db' (snd (getCurrentUnixTimeMillis s))))"
    "changed_to r (updated r v (svc_clock s (svc_ticks s))) (svc_db s) db'"
proof -
  let ?now = "svc_clock s (svc_ticks s)" and ?s = "snd (getCurrentUnixTimeMillis s)"
  obtain w where w: "r_uri r = Some w" "jsonDatabaseGetResourceByUri (Some w) (svc_db s) = Some (Some r)"
    using r(1) by (rule_tac by_id_total [OF inv, of E u ep i]) auto
  show ?thesis
  proof (cases "r_value r = v")
    case False
    obtain ok db' where db': "jsonDatabaseSaveResource (svc_db_env E) (Some (updated r v ?now)) (svc_db s) = Some (ok, db')"
      "changed_to r (updated r v ?now) (svc_db s) db'"
      by (rule saveResource_changed [OF inv w, of "updated r v ?now" "svc_db_env E"]) simp_all
    show ?thesis
      by (rule that [OF _ db'(2)], subst updateResource_step)
        (use False r db'(1) in \<open>simp add: in_db_def Let_def\<close>)
  next
    case True
    obtain db' where db': "jsonDatabaseUpdateDateOfLastSyncMillis ?now (Some r) (svc_db s) = Some (True, db')"
      "changed_to r (updated r v ?now) (svc_db s) db'"
      by (rule updateDate_effect [OF inv w(1) w(2), of ?now]) (use True w in \<open>auto simp: changed_to_def\<close>)
    show ?thesis
      by (rule that [OF _ db'(2)], subst updateResource_step)
        (use True r db'(1) in \<open>simp add: in_db_def Let_def\<close>)
  qed
qed

text \<open>A service with one device and its driver, for evaluation.\<close>

definition example_ops :: "('j, 's, 'w) driver_ops" where
  "example_ops = \<lparr>readResource = Some (\<lambda>r s. (Some (Some ''live''), s)), writeResource = Some (\<lambda>r old v s. (True, s)),
     executeResource = Some (\<lambda>r arg s. ((True, None), s)), deviceRemoved = None, endpointDisabled = None,
     metadataUpdated = None, processDeviceDescriptor = None, configureDevice = Some (\<lambda>d dd s. ((True, d), s)),
     fetchInitialResourceValues = Some (\<lambda>d vs s. ((True, d, vs), s)), registerResources = Some (\<lambda>d vs s. ((True, d), s)),
     devicePersisted = None, discoverDevices = Some (\<lambda>c s. (True, s)), recoverDevices = Some (\<lambda>c s. (True, s)),
     stopDiscoveringDevices = Some (\<lambda>c s. s), getDeviceClassVersion = Some (\<lambda>c s. Some 2), synchronizeDevice = None,
     systemPowerEvent = None, propertyChanged = None, serviceStatusChanged = None, endpointProfileVersions = None,
     preRestoreConfig = None, restoreConfig = None, postRestoreConfig = None, neverReject = False\<rparr>"

definition example_svc_env :: "(json, (string \<times> string) list, unit) svc_env" where
  "example_svc_env = \<lparr>svc_db_env = example_env, svc_cf_env = example_cf_env, svc_provider = default_provider,
     svc_regcomp = (\<lambda>_. None), svc_parse = (\<lambda>_ _. Some None), stringToBool = (\<lambda>t. t = Some ''true''),
     createDeviceMetadataUri = (\<lambda>u i. map_option (\<lambda>v. metadataUriCreate v None i) u), driverOps = (\<lambda>_. example_ops),
     migratorOps = example_ops, clientCallback = (\<lambda>_ _ _ s. s), isDelayTaskWaiting = (\<lambda>_ _. False),
     cancelDelayTask = (\<lambda>_ w. w), scheduleDelayTask = (\<lambda>_ w. (1, w)), awaitReconfiguration = (\<lambda>_ s. s),
     cJSON_IsArray = (\<lambda>j. case j of Some (JObject _) \<Rightarrow> True | _ \<Rightarrow> False), cJSON_CreateArray = JObject [],
     cJSON_AddItemToArray = (\<lambda>j x. JObject (json_fields j @ [([], x)])), cJSON_PrintUnformatted = (\<lambda>_. []),
     stringToUint32 = (\<lambda>t. map_option ucast (stringToUint16 example_util t)), svc_glib = example_glib, storageDir = ''/storage''\<rparr>"

definition example_service :: "(json, (string \<times> string) list, unit) device_service" where
  "example_service = \<lparr>svc_fail = example_comm_fail,
     svc_descriptors = \<lparr>allowListPath = [], denyListPath = [], deviceDescriptors = None\<rparr>,
     svc_subsystems = \<lparr>subsystems = None, allDriversStarted = False, readyForDevicesCB = False,
       subsystemManagerInitialized = False, preRegisteredSubsystems = [], sm_db = one_db, sm_trace = []\<rparr>,
     isDeviceServiceInLPM = False, subsystemsReadyForDevices = True, isDeviceDescriptorsListReady = True,
     shuttingDown = False, deviceDescriptorProcessorTask = False, discoveryTimeoutSeconds = 0,
     activeDiscoveries = [], pendingReconfiguration = Some [], markedForRemoval = [], rejected = [], failedToPair = [],
     svc_clock = (\<lambda>n. 1700000000000 + of_nat n), svc_ticks = 0, svc_log = [], svc_world = ()\<rparr>"

lemma example_service_db [simp]: "svc_db example_service = one_db"
  by (simp add: svc_db_def example_service_def example_comm_fail_def)

definition change_events :: "icDeviceResource \<Rightarrow> cstr \<Rightarrow> u64 \<Rightarrow> 'j option \<Rightarrow> 'j svc_event list" where
  "change_events r v t md =
     (if r_value r \<noteq> v \<and> mode_has (r_mode r) RESOURCE_MODE_EMIT_EVENTS then [EvResourceUpdated (updated r v t) md] else [])"

text \<open>
  C17. A change of a resource returns and leaves the database consistent. One that is cached, or that emits
  no events, has the new value and the time of the call as its date, every other lookup gives what it
  gave, and the event is sent exactly when the value differs and the resource emits events. One that is never
  cached and emits events keeps its stored value; its event is sent always, after the date of last contact,
  where the device has that resource, has been set to the time of the call, with the event of that change.
\<close>

theorem updateResource_effect:
  assumes "db_inv (svc_db s)" "deviceServiceGetResourceByIdInternal (svc_util E) u ep i (svc_db s) = Some (Some r)"
    and "\<And>d. passes_through r \<Longrightarrow> deviceServiceGetResourceByIdInternal (svc_util E) u None
      (Some COMMON_DEVICE_RESOURCE_DATE_LAST_CONTACTED) (svc_db s) = Some (Some d) \<Longrightarrow> r_cachingPolicy d = CACHING_POLICY_ALWAYS"
  shows "\<exists>s'. updateResource E u ep i v md s = Some s' \<and>
    (let now = svc_clock s (svc_ticks s); later = svc_clock s (Suc (svc_ticks s));
         contact = deviceServiceGetResourceByIdInternal (svc_util E) u None (Some COMMON_DEVICE_RESOURCE_DATE_LAST_CONTACTED) (svc_db s)
     in if r_cachingPolicy r = CACHING_POLICY_NEVER \<and> mode_has (r_mode r) RESOURCE_MODE_EMIT_EVENTS
        then (case contact of
            Some (Some d) \<Rightarrow> changed_to d (updated d (Some (decimal (unat now))) later) (svc_db s) (svc_db s') \<and>
              svc_log s' = svc_log s @ change_events d (Some (decimal (unat now))) later None @ [EvResourceUpdated (r\<lparr>r_value := v\<rparr>) md]
          | _ \<Rightarrow> svc_db s' = svc_db s \<and> svc_log s' = svc_log s @ [EvResourceUpdated (r\<lparr>r_value := v\<rparr>) md])
        else changed_to r (updated r v now) (svc_db s) (svc_db s') \<and> svc_log s' = svc_log s @ change_events r v now md)"
proof (cases "passes_through r")
  case False
  show ?thesis
    by (rule updateResource_cached [OF assms(1,2) False, of v md]) (use False in \<open>simp add: Let_def passes_through_def [symmetric] change_events_def\<close>)
next
  case True
  let ?s = "snd (getCurrentTimestampString s)" and ?i = "Some COMMON_DEVICE_RESOURCE_DATE_LAST_CONTACTED"
    and ?t = "Some (decimal (unat (svc_clock s (svc_ticks s))))"
  have inv: "db_inv (svc_db ?s)" using assms(1) by simp
  show ?thesis
  proof (rule by_id_total [OF inv, of E u None ?i])
    assume none: "by_id E u None ?i ?s = Some None"
    then have "updateResource E u None ?i ?t None ?s = Some ?s" by (subst updateResource_step) simp
    then have "updateResource E u ep i v md s = Some (publish [EvResourceUpdated (r\<lparr>r_value := v\<rparr>) md] ?s)"
      using True assms(2) by (subst updateResource_step) simp
    then show ?thesis using True none by (simp add: Let_def passes_through_def [symmetric])
  next
    fix d assume d: "by_id E u None ?i ?s = Some (Some d)"
    then have "\<not> passes_through d"
      using assms(3) [OF True, of d] by (simp add: passes_through_def CACHING_POLICY_ALWAYS_def CACHING_POLICY_NEVER_def)
    note plain = this
    obtain db' where "updateResource E u None ?i ?t None ?s = Some (publish
        (if r_value d \<noteq> ?t \<and> mode_has (r_mode d) RESOURCE_MODE_EMIT_EVENTS then [EvResourceUpdated (updated d ?t (svc_clock ?s (svc_ticks ?s))) None] else [])
        (set_db db' (snd (getCurrentUnixTimeMillis ?s))))" "changed_to d (updated d ?t (svc_clock ?s (svc_ticks ?s))) (svc_db ?s) db'"
      by (rule updateResource_cached [OF inv d plain])
    then have db': "updateResource E u None ?i ?t None ?s = Some (publish (change_events d ?t (svc_clock s (Suc (svc_ticks s))) None)
        (set_db db' (snd (getCurrentUnixTimeMillis ?s))))" "changed_to d (updated d ?t (svc_clock s (Suc (svc_ticks s)))) (svc_db s) db'"
      by (simp_all only: change_events_def clock_frame)
    have "updateResource E u ep i v md s = Some (publish [EvResourceUpdated (r\<lparr>r_value := v\<rparr>) md]
        (publish (change_events d ?t (svc_clock s (Suc (svc_ticks s))) None) (set_db db' (snd (getCurrentUnixTimeMillis ?s)))))"
      using True assms(2) db'(1) by (subst updateResource_step) simp
    then show ?thesis using True d db'(2) by (simp add: Let_def passes_through_def [symmetric])
  qed
qed

theorem updateResource_effect_witness:
  "case updateResource example_svc_env (Some ''d1'') None (Some ''model'') (Some ''m10'') None example_service of
     None \<Rightarrow> False | Some s' \<Rightarrow> svc_log s' = []"
proof -
  let ?r = "example_resource None ''model'' ''m9'' 1"
  have "by_id example_svc_env (Some ''d1'') None (Some ''model'') example_service = Some (Some ?r)"
    "\<not> mode_has (r_mode ?r) RESOURCE_MODE_EMIT_EVENTS" "svc_log example_service = []" by code_simp+
  then show ?thesis
    using updateResource_effect [of example_service example_svc_env "Some ''d1''" None "Some ''model''" ?r "Some ''m10''" None]
      db_inv_one_db by (auto simp: Let_def passes_through_def change_events_def)
qed

text \<open>
  C36. A change of a resource returns, and keeps the database consistent, whenever the date of last
  contact of the device, where it has one, is cached: the only recursion of the code is the update of
  that resource, and its own update does not recurse.
\<close>

theorem updateResource_returns:
  fixes s :: "('j, 's, 'w) device_service"
  assumes "db_inv (svc_db s)"
    and "\<And>r. deviceServiceGetResourceByIdInternal (svc_util E) u None
      (Some COMMON_DEVICE_RESOURCE_DATE_LAST_CONTACTED) (svc_db s) = Some (Some r) \<Longrightarrow>
      r_cachingPolicy r = CACHING_POLICY_ALWAYS"
  shows "\<exists>s'. updateResource E u ep i v md s = Some s' \<and> db_inv (svc_db s')"
proof -
  have direct: "\<exists>s'. updateResource E u ep i v md s = Some s' \<and> db_inv (svc_db s')"
    if "db_inv (svc_db s)" "by_id E u ep i s = Some None \<or> (\<exists>r. by_id E u ep i s = Some (Some r) \<and> \<not> passes_through r)"
    for ep i v md and s :: "('j, 's, 'w) device_service"
    using that(2)
  proof (elim disjE exE conjE)
    assume "by_id E u ep i s = Some None"
    then show ?thesis using that(1) by (subst updateResource_step) simp
  next
    fix r assume "by_id E u ep i s = Some (Some r)" "\<not> passes_through r"
    then show ?thesis by (rule updateResource_cached [OF that(1), of _ _ _ _ _ v md]) (simp add: changed_to_def)
  qed
  show ?thesis
  proof (cases "\<exists>r. by_id E u ep i s = Some (Some r) \<and> passes_through r")
    case False
    then show ?thesis using by_id_total [OF assms(1), of E u ep i] direct [OF assms(1), of ep i v md] by metis
  next
    case True
    then obtain r where r: "by_id E u ep i s = Some (Some r)" "passes_through r" by blast
    let ?s = "snd (getCurrentTimestampString s)" and ?i = "Some COMMON_DEVICE_RESOURCE_DATE_LAST_CONTACTED"
    have date: "by_id E u None ?i ?s = Some None \<or> (\<exists>r. by_id E u None ?i ?s = Some (Some r) \<and> \<not> passes_through r)"
      using by_id_total [OF assms(1), of E u None ?i] assms(2)
      by (metis CACHING_POLICY_ALWAYS_def CACHING_POLICY_NEVER_def clock_frame(6) passes_through_def zero_neq_one)
    from direct [OF _ date, of "Some (fst (getCurrentTimestampString s))" None] assms(1) obtain s' where
      "updateResource E u None ?i (Some (fst (getCurrentTimestampString s))) None ?s = Some s'" "db_inv (svc_db s')" by auto
    then show ?thesis using r by (subst updateResource_step) simp
  qed
qed

theorem updateResource_returns_witness:
  "\<exists>s'. updateResource example_svc_env (Some ''d1'') (Some ''1'') (Some ''pin'') (Some ''99'') None example_service = Some s' \<and>
     db_inv (svc_db s')"
proof (rule updateResource_returns)
  show "db_inv (svc_db example_service)" by (simp add: db_inv_one_db)
  have "by_id example_svc_env (Some ''d1'') None (Some COMMON_DEVICE_RESOURCE_DATE_LAST_CONTACTED) example_service = Some None"
    by code_simp
  then show "r_cachingPolicy r = CACHING_POLICY_ALWAYS"
    if "by_id example_svc_env (Some ''d1'') None (Some COMMON_DEVICE_RESOURCE_DATE_LAST_CONTACTED) example_service = Some (Some r)" for r
    using that by simp
qed

section \<open>URI patterns\<close>

lemma write_regex_concat:
  "length out + length cs + length (filter (\<lambda>c. c = CHR ''*'') cs) < sz \<Longrightarrow>
   write_regex cs sz out = Some (out @ concat (map (\<lambda>c. if c = CHR ''*'' then ''.*'' else [c]) cs))"
  by (induction cs sz out rule: write_regex.induct) auto

text \<open>
  The buffer for the regular expression of a pattern is large enough for every pattern, and the
  expression is the pattern with each star replaced by a dot and a star.
\<close>

theorem createRegexFromPattern_fits:
  "createRegexFromPattern uri = Some (concat (map (\<lambda>c. if c = CHR ''*'' then ''.*'' else [c]) uri))"
  by (simp add: createRegexFromPattern_def Let_def write_regex_concat)

section \<open>Lookups by URI\<close>

lemma endpoint_locator:
  assumes "db_inv db" "hashMapGet (resourcesByUri db) u = Some (EndpointLocator uuid eu)"
  obtains e where "eu = u" "deref_endpoint db uuid u = Some e" "e_uri e = Some u"
proof -
  from assms obtain v ce where ce: "hashMapGet (devices db) v = Some ce" "(u, EndpointLocator uuid eu) \<in> set (device_entries v (ce_device ce))"
    by (auto simp: db_inv_index)
  note inv = db_inv_device [OF assms(1) ce(1)]
  from ce(2) have "\<exists>e \<in> set (items (d_endpoints (ce_device ce))). e_uri e = Some u \<and> uuid = v \<and> eu = u"
    unfolding mem_device_entries [OF inv] mem_endpoint_entries by blast
  then obtain e where e: "e \<in> set (items (d_endpoints (ce_device ce)))" "e_uri e = Some u" "uuid = v" "eu = u" by blast
  then show ?thesis using that ce(1) find_endpoint_unique [OF inv e(1,2)] by (simp add: deref_endpoint_def)
qed

lemma owner_endpoint:
  assumes "db_inv db" "hashMapGet (resourcesByUri db) u = Some loc"
    and "loc = ResourceLocator uuid (Some eu) x \<or> loc = MetadataLocator uuid (Some eu) x"
  obtains e where "deref_endpoint db uuid eu = Some e" "e_uri e = Some eu"
  using assms find_endpoint_mem
  by (auto simp: resource_locator metadata_locator owner_resources_def owner_metadata_def deref_endpoint_def)

lemma deref_locator:
  assumes "db_inv db"
  shows "hashMapGet (resourcesByUri db) u = Some (ResourceLocator uuid ep x) \<Longrightarrow> deref_resource db uuid ep x \<noteq> None"
    and "hashMapGet (resourcesByUri db) u = Some (MetadataLocator uuid ep x) \<Longrightarrow> deref_metadata db uuid ep x \<noteq> None"
  using assms by (auto simp: resource_locator metadata_locator deref_resource_def deref_metadata_def find_exists)

lemma accessible_total:
  assumes "db_inv db"
  shows "jsonDatabaseIsUriAccessible (Some u) db \<noteq> None"
proof (cases "hashMapGet (resourcesByUri db) u")
  case None
  then show ?thesis by (simp add: jsonDatabaseIsUriAccessible_def)
next
  case (Some loc)
  have own: "\<exists>e. deref_endpoint db uuid eu = Some e"
    if "loc = ResourceLocator uuid (Some eu) x \<or> loc = MetadataLocator uuid (Some eu) x" for uuid eu x
    using owner_endpoint [OF assms Some that] by blast
  show ?thesis
  proof (cases loc)
    case (DeviceLocator x1)
    then show ?thesis using Some by (simp add: jsonDatabaseIsUriAccessible_def)
  next
    case (EndpointLocator uuid eu)
    with Some assms show ?thesis by (auto simp: jsonDatabaseIsUriAccessible_def elim!: endpoint_locator)
  next
    case (ResourceLocator uuid ep x)
    then obtain r where "deref_resource db uuid ep x = Some r" using Some deref_locator(1) [OF assms] by blast
    with Some own ResourceLocator show ?thesis by (cases ep) (auto simp: jsonDatabaseIsUriAccessible_def)
  next
    case (MetadataLocator uuid ep x)
    then obtain m where "deref_metadata db uuid ep x = Some m" using Some deref_locator(2) [OF assms] by blast
    with Some own MetadataLocator show ?thesis by (cases ep) (auto simp: jsonDatabaseIsUriAccessible_def)
  qed
qed

lemma device_by_uri:
  assumes "db_inv db" "jsonDatabaseGetResourceByUri (Some u) db = Some (Some r)"
  obtains d where "jsonDatabaseGetDeviceByUri (Some u) db = Some (Some d)"
proof -
  from assms(2) obtain uuid ep x where l: "hashMapGet (resourcesByUri db) u = Some (ResourceLocator uuid ep x)"
    by (auto simp: jsonDatabaseGetResourceByUri_def split: option.splits Locator.splits)
  then obtain ce where "hashMapGet (devices db) uuid = Some ce" using assms(1) by (auto simp: resource_locator)
  then show ?thesis using that l by (auto simp: jsonDatabaseGetDeviceByUri_def deref_entry_def)
qed

lemma find_direct: "jsonDatabaseGetResourceByUri (Some u) db = Some (Some r) \<Longrightarrow> find_or_inherit u db = Some (Some r)"
  by (simp add: find_or_inherit_def)

lemma inheritance_lookup:
  assumes "db_inv db" "\<And>uuid ep x. hashMapGet (resourcesByUri db) u \<noteq> Some (MetadataLocator uuid ep x)"
  shows "find_or_inherit u db = jsonDatabaseGetResourceByUri (Some u) db"
proof -
  from getResource_exact [OF assms(1), of u] obtain res where
    res: "jsonDatabaseGetResourceByUri (Some u) db = Some res" by blast
  show ?thesis
  proof (cases res)
    case (Some r)
    then show ?thesis using res by (simp add: find_direct)
  next
    case None
    show ?thesis
    proof (cases "\<exists>uuid eu. hashMapGet (resourcesByUri db) u = Some (EndpointLocator uuid eu)")
      case False
      then have "jsonDatabaseGetEndpointByUri (Some u) db = Some None"
        using assms(2) res None deref_locator(1) [OF assms(1)]
        by (auto simp: jsonDatabaseGetEndpointByUri_def jsonDatabaseGetResourceByUri_def
            split: option.splits Locator.splits)
      then show ?thesis using res None by (simp add: find_or_inherit_def)
    next
      case True
      then obtain uuid eu where l: "hashMapGet (resourcesByUri db) u = Some (EndpointLocator uuid eu)" by blast
      from endpoint_locator [OF assms(1) l] obtain e where
        e: "eu = u" "deref_endpoint db uuid u = Some e" "e_uri e = Some u" .
      have dev: "\<exists>du. d_uri d = Some du \<and> jsonDatabaseGetResourceByUri (Some du) db = Some None"
        if "jsonDatabaseGetDeviceById x db = Some d" for x d
      proof -
        from that obtain v ce where ce: "x = Some v" "hashMapGet (devices db) v = Some ce" "d = ce_device ce"
          by (auto simp: jsonDatabaseGetDeviceById_def split: option.splits)
        note inv = db_inv_device [OF assms(1) ce(2)]
        obtain du where du: "d_uri d = Some du" using inv ce(3) by (auto simp: device_inv_def)
        then have "(du, DeviceLocator v) \<in> set (device_entries v d)" using mem_device_entries inv ce(3) by blast
        then have "hashMapGet (resourcesByUri db) du = Some (DeviceLocator v)"
          using ce db_inv_index [OF assms(1)] by blast
        then show ?thesis using du by (simp add: jsonDatabaseGetResourceByUri_def)
      qed
      have "jsonDatabaseGetEndpointByUri (Some u) db = Some (Some e)"
        using l e by (simp add: jsonDatabaseGetEndpointByUri_def)
      then show ?thesis using res None e(3)
        by (auto simp: find_or_inherit_def split: option.splits dest!: dev)
    qed
  qed
qed

text \<open>
  The inheritance of device resources has no effect: for a URI that is not that of a metadata
  item, the lookup that falls back from an endpoint to its device finds what the plain lookup finds.
  The endpoint is sought under the URI of the resource, which is indexed only when the resource itself is
  found; for the URI of the endpoint itself the fallback looks for a resource at the URI of the device.
\<close>

theorem inheritance_without_effect:
  assumes "db_inv db" "\<And>uuid ep x. hashMapGet (resourcesByUri db) u \<noteq> Some (MetadataLocator uuid ep x)"
  shows "find_or_inherit u db = jsonDatabaseGetResourceByUri (Some u) db"
  by (rule inheritance_lookup [OF assms])

theorem inheritance_without_effect_witness:
  "find_or_inherit ''/d1/ep/1/r/model'' one_db = Some None \<and> find_or_inherit ''/d1/r/model'' one_db \<noteq> Some None"
proof -
  have "hashMapGet (resourcesByUri one_db) ''/d1/ep/1/r/model'' = None"
    "jsonDatabaseGetResourceByUri (Some ''/d1/ep/1/r/model'') one_db = Some None"
    "find_or_inherit ''/d1/r/model'' one_db = Some (Some (example_resource None ''model'' ''m9'' 1))" by code_simp+
  then show ?thesis using inheritance_without_effect [OF db_inv_one_db, of "''/d1/ep/1/r/model''"] by simp
qed

section \<open>Access\<close>

lemma endpoint_resource_locator:
  assumes "db_inv db" "hashMapGet (devices db) uuid = Some ce" "e \<in> set (items (d_endpoints (ce_device ce)))"
    and "r \<in> set (items (e_resources e))" "r_uri r = Some u"
  obtains eu x where "e_uri e = Some eu" "hashMapGet (resourcesByUri db) u = Some (ResourceLocator uuid (Some eu) u)"
    "deref_endpoint db uuid eu = Some e" "deref_resource db uuid (Some eu) u = Some x" "x \<in> set (items (e_resources e))"
proof -
  note inv = db_inv_device [OF assms(1,2)]
  obtain eu where eu: "e_uri e = Some eu" using inv assms(3) by (auto simp: device_inv_def list_all_iff)
  note fe = find_endpoint_unique [OF inv assms(3) eu]
  have l: "hashMapGet (resourcesByUri db) u = Some (ResourceLocator uuid (Some eu) u)"
    using assms fe by (auto simp: resource_locator owner_resources_def)
  from assms(4,5) obtain x where x: "find (\<lambda>r. r_uri r = Some u) (items (e_resources e)) = Some x"
    using find_exists [of "items (e_resources e)"] by blast
  then have "x \<in> set (items (e_resources e))" using find_Some_mem by fastforce
  moreover have "deref_resource db uuid (Some eu) u = Some x" "deref_endpoint db uuid eu = Some e"
    using assms(2) fe x by (simp_all add: deref_resource_def deref_endpoint_def owner_resources_def)
  ultimately show ?thesis using that eu l by blast
qed

text \<open>
  C27. A disabled endpoint is out of reach: none of the four operations on a resource of it succeeds, and
  none changes the state, sends an event or calls a driver.
\<close>

theorem disabled_endpoint_unreachable:
  assumes "db_inv (svc_db s)" "hashMapGet (devices (svc_db s)) uuid = Some ce"
    and "e \<in> set (items (d_endpoints (ce_device ce)))" "\<not> e_enabled e"
    and "\<forall>x \<in> set (items (e_resources e)). r_endpointId x \<noteq> None"
    and "r \<in> set (items (e_resources e))" "r_uri r = Some u" "\<not> isUriPattern u"
  shows "deviceServiceGetResourceByUri E (Some u) s = Some (None, s) \<and>
    deviceServiceWriteResource E (Some u) v s = Some (False, s) \<and>
    deviceServiceExecuteResource E (Some u) v s = Some ((False, None), s) \<and>
    deviceServiceChangeResourceMode E (Some u) md s = Some (False, s)"
proof -
  obtain eu x where l: "hashMapGet (resourcesByUri (svc_db s)) u = Some (ResourceLocator uuid (Some eu) u)"
    "deref_endpoint (svc_db s) uuid eu = Some e" "deref_resource (svc_db s) uuid (Some eu) u = Some x"
    "x \<in> set (items (e_resources e))"
    by (rule endpoint_resource_locator [OF assms(1-3,6,7)])
  then have acc: "deviceServiceIsUriAccessible (Some u) s = Some False"
    using assms(4,5) by (auto simp: deviceServiceIsUriAccessible_def jsonDatabaseIsUriAccessible_def isEndpointEnabled_def)
  have get: "jsonDatabaseGetResourceByUri (Some u) (svc_db s) = Some (Some x)"
    using l by (simp add: jsonDatabaseGetResourceByUri_def)
  have "r_uri x = Some u"
    using get getResource_exact [OF assms(1), of u] by auto
  then have "deviceServiceWriteResource E (Some u) v s = Some (False, s)"
    using get acc assms(8)
    by (simp add: deviceServiceWriteResource_def deviceServiceGetResourcesByUriPatternInternal_def)
  then show ?thesis using acc
    by (simp add: deviceServiceGetResourceByUri_def deviceServiceExecuteResource_def deviceServiceChangeResourceMode_def)
qed

definition example_endpoint :: icDeviceEndpoint where
  "example_endpoint = (hd (items (d_endpoints example_device)))\<lparr>e_enabled := False\<rparr>"

definition disabled_service :: "(json, (string \<times> string) list, unit) device_service" where
  "disabled_service = set_db (upd_entry ''d1'' (upd_device (upd_endpoint ''/d1/ep/1'' (\<lambda>_. example_endpoint))) one_db) example_service"

lemma db_inv_disabled: "db_inv (svc_db disabled_service)"
proof -
  have "device_inv ''d1'' (upd_endpoint ''/d1/ep/1'' (\<lambda>_. example_endpoint) example_device)"
    "device_entries ''d1'' (upd_endpoint ''/d1/ep/1'' (\<lambda>_. example_endpoint) example_device) = device_entries ''d1'' example_device"
    by code_simp+
  moreover have "ce_device ce = example_device" if "hashMapGet (devices one_db) ''d1'' = Some ce" for ce
    using that by (auto simp: one_db_def hashMapGet_def)
  ultimately show ?thesis
    unfolding disabled_service_def svc_frame
    by (intro db_inv_upd_entry [OF db_inv_one_db]) (auto simp: upd_device_def)
qed

theorem disabled_endpoint_unreachable_witness:
  "deviceServiceWriteResource example_svc_env (Some ''/d1/ep/1/r/pin'') (Some ''0'') disabled_service = Some (False, disabled_service)"
proof -
  let ?d = "upd_endpoint ''/d1/ep/1'' (\<lambda>_. example_endpoint) example_device"
  have "hashMapGet (devices one_db) ''d1'' = Some \<lparr>ce_device = example_device, ce_dirty = False\<rparr>"
    by (simp add: one_db_def hashMapGet_def)
  then have "hashMapGet (devices (svc_db disabled_service)) ''d1'' = Some \<lparr>ce_device = ?d, ce_dirty = False\<rparr>"
    by (simp add: disabled_service_def get_upd_entry upd_device_def)
  moreover have "items (d_endpoints ?d) = [example_endpoint]"
    "items (e_resources example_endpoint) = [example_resource (Some ''1'') ''pin'' ''1234'' 131]" by code_simp+
  moreover have "\<not> e_enabled example_endpoint" "\<not> isUriPattern ''/d1/ep/1/r/pin''"
    "r_uri (example_resource (Some ''1'') ''pin'' ''1234'' 131) = Some ''/d1/ep/1/r/pin''"
    "r_endpointId (example_resource (Some ''1'') ''pin'' ''1234'' 131) \<noteq> None" by code_simp+
  ultimately show ?thesis
    using disabled_endpoint_unreachable [OF db_inv_disabled, of "''d1''" "\<lparr>ce_device = ?d, ce_dirty = False\<rparr>" example_endpoint
        "example_resource (Some ''1'') ''pin'' ''1234'' 131" "''/d1/ep/1/r/pin''" example_svc_env "Some ''0''" 0] by simp
qed

text \<open>
  The outcome of writing to a resource by its URI. A URI that no resource has is accepted: the
  operation reports success and does nothing. For an accessible and writeable resource whose driver can
  write, the driver's function decides, with the resource, its cached value and the new value; in every
  other case the write fails and nothing happens.
\<close>

theorem write_resource_outcome:
  assumes "db_inv (svc_db s)" "\<not> isUriPattern u" "jsonDatabaseGetResourceByUri (Some u) (svc_db s) = Some res"
    and "deviceServiceIsUriAccessible (Some u) s = Some accessible" "getDeviceDriverForUri (Some u) s = Some driver"
  shows "deviceServiceWriteResource E (Some u) v s =
    (case res of None \<Rightarrow> Some (True, s)
     | Some r \<Rightarrow>
         if \<not> accessible \<or> \<not> mode_has (r_mode r) RESOURCE_MODE_WRITEABLE then Some (False, s)
         else (case driver of None \<Rightarrow> Some (False, s)
           | Some drv \<Rightarrow> (case writeResource (driverOps E drv) of None \<Rightarrow> Some (False, s)
               | Some write \<Rightarrow> Some (write r (r_value r) v
                   (publish [Called (driverName drv) (WriteResource r (r_value r) v)] s)))))"
proof (cases res)
  case None
  then show ?thesis using assms(2,3)
    by (simp add: deviceServiceWriteResource_def deviceServiceGetResourcesByUriPatternInternal_def)
next
  case (Some r)
  then have uri: "r_uri r = Some u" using assms(3) getResource_exact [OF assms(1), of u] by auto
  have res: "deviceServiceGetResourcesByUriPatternInternal E (Some u) (svc_db s) = Some (Some [r])"
    using Some assms(2,3) by (simp add: deviceServiceGetResourcesByUriPatternInternal_def)
  have outcome: "deviceServiceWriteResource E (Some u) v s =
      (if accessible then deviceServiceWriteResourceNoPattern E u v s else Some (False, s))"
  proof (cases "deviceServiceWriteResourceNoPattern E u v s")
    case None
    then show ?thesis using res uri assms(4) by (simp add: deviceServiceWriteResource_def)
  next
    case (Some p)
    then show ?thesis using res uri assms(4) by (cases p) (simp add: deviceServiceWriteResource_def)
  qed
  then show ?thesis
    using Some assms(3,5) find_direct [of u "svc_db s" r]
    by (auto simp: deviceServiceWriteResourceNoPattern_def split: option.splits)
qed

theorem write_resource_outcome_witness:
  "deviceServiceWriteResource example_svc_env (Some ''/d1/r/unknown'') (Some ''0'') example_service = Some (True, example_service)"
proof -
  have "jsonDatabaseGetResourceByUri (Some ''/d1/r/unknown'') (svc_db example_service) = Some None"
    "deviceServiceIsUriAccessible (Some ''/d1/r/unknown'') example_service = Some False"
    "getDeviceDriverForUri (Some ''/d1/r/unknown'') example_service = Some None"
    "\<not> isUriPattern ''/d1/r/unknown''" by code_simp+
  then show ?thesis
    using write_resource_outcome [of example_service "''/d1/r/unknown''" None False None example_svc_env "Some ''0''"]
      db_inv_one_db by simp
qed

section \<open>Modes\<close>

text \<open>
  A resource that is sensitive stays so: whatever mode is asked for, every resource that had the
  sensitive bit has it afterwards, so its value goes on being encrypted in storage. The change of mode
  returns, and a resource that can be reached gets the mode asked for, but for that bit.
\<close>

theorem sensitive_resources_stay_sensitive:
  assumes "db_inv (svc_db s)"
    and "\<And>uuid ep x. hashMapGet (resourcesByUri (svc_db s)) u \<noteq> Some (MetadataLocator uuid ep x)"
  shows "\<exists>ok s'. deviceServiceChangeResourceMode E (Some u) newMode s = Some (ok, s') \<and> db_inv (svc_db s') \<and>
    (\<forall>w r. jsonDatabaseGetResourceByUri (Some w) (svc_db s) = Some (Some r) \<longrightarrow>
       mode_has (r_mode r) RESOURCE_MODE_SENSITIVE \<longrightarrow>
       (\<exists>r'. jsonDatabaseGetResourceByUri (Some w) (svc_db s') = Some (Some r') \<and>
          mode_has (r_mode r') RESOURCE_MODE_SENSITIVE)) \<and>
    (ok \<longrightarrow> (\<exists>r'. jsonDatabaseGetResourceByUri (Some u) (svc_db s') = Some (Some r') \<and>
       or (r_mode r') RESOURCE_MODE_SENSITIVE = or newMode RESOURCE_MODE_SENSITIVE))"
proof -
  from accessible_total [OF assms(1), of u] obtain acc where
    acc: "deviceServiceIsUriAccessible (Some u) s = Some acc" by (auto simp: deviceServiceIsUriAccessible_def)
  from getResource_exact [OF assms(1), of u] obtain res where
    res: "jsonDatabaseGetResourceByUri (Some u) (svc_db s) = Some res" "\<forall>r. res = Some r \<longrightarrow> r_uri r = Some u" by blast
  have find: "find_or_inherit u (svc_db s) = Some res" using inheritance_lookup [OF assms] res by simp
  show ?thesis
  proof (cases "acc \<and> res \<noteq> None")
    case False
    then have "deviceServiceChangeResourceMode E (Some u) newMode s = Some (False, s)"
      using acc find by (auto simp: deviceServiceChangeResourceMode_def)
    then show ?thesis using assms(1) by auto
  next
    case True
    then obtain r where r: "res = Some r" "r_uri r = Some u" using res by auto
    let ?m = "if mode_has (r_mode r) RESOURCE_MODE_SENSITIVE \<and> \<not> mode_has newMode RESOURCE_MODE_SENSITIVE
      then or newMode RESOURCE_MODE_SENSITIVE else newMode"
    have keeps: "mode_has (r_mode r) RESOURCE_MODE_SENSITIVE \<longrightarrow> mode_has ?m RESOURCE_MODE_SENSITIVE"
      "or ?m RESOURCE_MODE_SENSITIVE = or newMode RESOURCE_MODE_SENSITIVE"
      by (auto simp: mode_has_def RESOURCE_MODE_SENSITIVE_def bit_eq_iff bit_simps)
    obtain ok db' where db': "jsonDatabaseSaveResource (svc_db_env E) (Some (r\<lparr>r_mode := ?m\<rparr>)) (svc_db s) = Some (ok, db')"
      "changed_to r (r\<lparr>r_mode := ?m\<rparr>) (svc_db s) db'"
      by (rule saveResource_changed [OF assms(1) r(2), of "r\<lparr>r_mode := ?m\<rparr>" "svc_db_env E"]) (use res r in simp_all)
    have "deviceServiceChangeResourceMode E (Some u) newMode s =
        Some (True, publish [EvResourceUpdated (r\<lparr>r_mode := ?m\<rparr>) None] (set_db db' s))"
      using acc find True r(1) db'(1) by (simp add: deviceServiceChangeResourceMode_def in_db_def Let_def)
    moreover have "\<exists>r'. jsonDatabaseGetResourceByUri (Some w) db' = Some (Some r') \<and> mode_has (r_mode r') RESOURCE_MODE_SENSITIVE"
      if "jsonDatabaseGetResourceByUri (Some w) (svc_db s) = Some (Some q)" "mode_has (r_mode q) RESOURCE_MODE_SENSITIVE" for w q
      using that db'(2) r res(1) keeps(1) by (cases "w = u") (auto simp: changed_to_def)
    ultimately show ?thesis
      using db'(2) r(2) keeps(2) by (auto simp: changed_to_def)
  qed
qed

theorem sensitive_resources_stay_sensitive_witness:
  "\<exists>ok s'. deviceServiceChangeResourceMode example_svc_env (Some ''/d1/ep/1/r/pin'') 1 example_service = Some (ok, s') \<and>
     (\<exists>r'. jsonDatabaseGetResourceByUri (Some ''/d1/ep/1/r/pin'') (svc_db s') = Some (Some r') \<and>
        mode_has (r_mode r') RESOURCE_MODE_SENSITIVE)"
proof -
  let ?u = "''/d1/ep/1/r/pin''" and ?r = "example_resource (Some ''1'') ''pin'' ''1234'' 131"
  have "hashMapGet (resourcesByUri one_db) ?u = Some (ResourceLocator ''d1'' (Some ''/d1/ep/1'') ?u)"
    "jsonDatabaseGetResourceByUri (Some ?u) one_db = Some (Some ?r)" "mode_has (r_mode ?r) RESOURCE_MODE_SENSITIVE" by code_simp+
  then show ?thesis
    using sensitive_resources_stay_sensitive [of example_service ?u example_svc_env 1] db_inv_one_db by fastforce
qed

section \<open>Removing devices and endpoints\<close>

lemma getDeviceById_get: "jsonDatabaseGetDeviceById (Some u) db = map_option ce_device (hashMapGet (devices db) u)"
  by (simp add: jsonDatabaseGetDeviceById_def split: option.splits)

lemma removeDeviceById_effect:
  assumes "db_inv db" "hashMapGet (devices db) uuid = Some ce" "fst (storageDelete E STORAGE_NAMESPACE uuid (store db))"
  obtains db' where "jsonDatabaseRemoveDeviceById E (Some uuid) db = Some (True, db')" "db_inv db'"
    "\<forall>v. hashMapGet (devices db') v = (if v = uuid then None else hashMapGet (devices db) v)"
    "systemProperties db' = systemProperties db"
proof -
  obtain st where del: "storageDelete E STORAGE_NAMESPACE uuid (store db) = (True, st)"
    using assms(3) by (cases "storageDelete E STORAGE_NAMESPACE uuid (store db)") auto
  from destroyCacheEntry_inv [of "db\<lparr>store := st\<rparr>" uuid ce] assms(1,2) obtain db' where
    d: "destroyCacheEntry uuid (ce_device ce) (db\<lparr>store := st\<rparr>) = Some db'" "db_inv db'"
      "devices db' = without {uuid} (devices db)" by auto
  moreover have "systemProperties db' = systemProperties db" using d(1) by (auto simp: destroyCacheEntry_def bind_eq_Some_conv)
  ultimately show ?thesis using that [of db'] assms(2) del
    by (simp add: jsonDatabaseRemoveDeviceById_def hashMapGet_without)
qed

text \<open>The log of a removal, and the state after it when the driver's clean-up keeps to the database as it is.\<close>

definition removal_notices :: "('j, 's, 'w) svc_env \<Rightarrow> DeviceDriver option \<Rightarrow> icDevice \<Rightarrow> 'j svc_event list" where
  "removal_notices E drv d =
     map (\<lambda>e. EvEndpointRemoved e (d_deviceClass d) True) (filter e_enabled (items (d_endpoints d))) @
     (case drv of None \<Rightarrow> [] | Some x \<Rightarrow> if deviceRemoved (driverOps E x) = None then [] else [Called (driverName x) (DeviceRemoved d)]) @
     [EvDeviceRemoved (d_uuid d) (d_deviceClass d)]"

definition quiet_cleanup :: "('j, 's, 'w) svc_env \<Rightarrow> bool" where
  "quiet_cleanup E \<longleftrightarrow> (\<forall>drv f d s. deviceRemoved (driverOps E drv) = Some f \<longrightarrow>
     svc_db (f d s) = svc_db s \<and> svc_log (f d s) = svc_log s)"

lemma removeDevice_effect:
  assumes "db_inv (svc_db s)" "hashMapGet (devices (svc_db s)) uuid = Some ce" "driver_of (ce_device ce) s = Some drv"
    and "fst (storageDelete (svc_db_env E) STORAGE_NAMESPACE uuid (store (svc_db s)))"
    and "deviceServiceGetReconfigureDeviceContext (Some uuid) s = None" "quiet_cleanup E"
  obtains s' where "deviceServiceRemoveDevice E (Some uuid) s = Some (True, s')" "db_inv (svc_db s')"
    "\<forall>v. hashMapGet (devices (svc_db s')) v = (if v = uuid then None else hashMapGet (devices (svc_db s)) v)"
    "svc_log s' = svc_log s @ removal_notices E drv (ce_device ce)"
    "systemProperties (svc_db s') = systemProperties (svc_db s)"
proof -
  let ?d = "ce_device ce"
  obtain db' where db': "jsonDatabaseRemoveDeviceById (svc_db_env E) (Some uuid) (svc_db s) = Some (True, db')" "db_inv db'"
    "\<forall>v. hashMapGet (devices db') v = (if v = uuid then None else hashMapGet (devices (svc_db s)) v)"
    "systemProperties db' = systemProperties (svc_db s)"
    by (rule removeDeviceById_effect [OF assms(1,2,4)])
  let ?s2 = "publish (map (\<lambda>e. EvEndpointRemoved e (d_deviceClass ?d) True) (filter e_enabled (items (d_endpoints ?d)))) (set_db db' s)"
  let ?s3 = "case drv of None \<Rightarrow> ?s2 | Some x \<Rightarrow> notify_driver x (DeviceRemoved ?d)
    (map_option (\<lambda>f. f ?d) (deviceRemoved (driverOps E x))) ?s2"
  have "driver_of ?d ?s2 = Some drv" using assms(3) by (simp add: driver_of_def)
  then have "deviceServiceRemoveDevice E (Some uuid) s = Some (True, publish [EvDeviceRemoved (d_uuid ?d) (d_deviceClass ?d)] ?s3)"
    using assms(2,5) db'(1)
    by (simp add: deviceServiceRemoveDevice_def getDeviceById_get waitForOrCancelPendingReconfiguration_def in_db_def Let_def)
  moreover have "svc_db ?s3 = db'" "svc_log ?s3 @ [EvDeviceRemoved (d_uuid ?d) (d_deviceClass ?d)] =
      svc_log s @ removal_notices E drv ?d"
    using assms(6) by (auto simp: notify_driver_def quiet_cleanup_def removal_notices_def split: option.splits)
  ultimately show ?thesis using that db'(2-4) by simp
qed

lemma update_first_found:
  "find p xs = Some y \<Longrightarrow> update_first p (\<lambda>_. z) xs = update_first p (\<lambda>x. if x = y then z else x) xs"
  by (induction xs) auto

lemma saveEndpoint_effect:
  assumes "db_inv db" "hashMapGet (devices db) uuid = Some ce" "e \<in> set (items (d_endpoints (ce_device ce)))" "e_uri e = Some eu"
  obtains ok db' where "jsonDatabaseSaveEndpoint E (Some (e\<lparr>e_enabled := b\<rparr>)) db = Some (ok, db')" "db_inv db'"
    "\<forall>v. map_option ce_device (hashMapGet (devices db') v) = (if v = uuid
       then Some (upd_endpoint eu (\<lambda>x. if x = e then e\<lparr>e_enabled := b\<rparr> else x) (ce_device ce))
       else map_option ce_device (hashMapGet (devices db) v))"
proof -
  let ?e = "e\<lparr>e_enabled := b\<rparr>"
  note inv = db_inv_device [OF assms(1,2)]
  note fe = find_endpoint_unique [OF inv assms(3,4)]
  have l: "hashMapGet (resourcesByUri db) eu = Some (EndpointLocator uuid eu)"
  proof -
    have "(eu, EndpointLocator uuid eu) \<in> set (device_entries uuid (ce_device ce))"
      unfolding mem_device_entries [OF inv] mem_endpoint_entries using assms(3,4) by blast
    then show ?thesis using assms(2) db_inv_index [OF assms(1)] by blast
  qed
  let ?db1 = "upd_entry uuid (upd_device (upd_endpoint eu (\<lambda>_. ?e))) db"
  let ?d = "upd_endpoint eu (\<lambda>x. if x = e then ?e else x) (ce_device ce)"
  have same: "upd_endpoint eu (\<lambda>_. ?e) (ce_device ce) = ?d"
    using fe update_first_found [of "\<lambda>x. e_uri x = Some eu" _ e ?e]
    by (cases "d_endpoints (ce_device ce)") (simp_all add: find_endpoint_def upd_endpoint_def)
  have en: "endpoint_entries uuid (if x = e then ?e else x) = endpoint_entries uuid x" for x
    by (cases "e_uri x") (auto simp: endpoint_entries_def)
  have "device_inv uuid ?d \<and> device_entries uuid ?d = device_entries uuid (ce_device ce)"
    by (rule upd_endpoint_inv [OF _ _ inv en]) auto
  then have inv1: "db_inv ?db1"
    using assms(2) same by (intro db_inv_upd_entry [OF assms(1)]) (simp add: upd_device_def)
  have ce1: "hashMapGet (devices ?db1) uuid = Some (ce\<lparr>ce_device := ?d\<rparr>)"
    using assms(2) same by (simp add: get_upd_entry upd_device_def)
  from flush_entry_spec [OF ce1, of E] inv1 obtain ok db' where fl: "flush_entry E uuid ?db1 = Some (ok, db')" "db_inv db'"
    "\<forall>v. hashMapGet (devices db') v = (if v = uuid then Some (ce\<lparr>ce_device := ?d, ce_dirty := \<not> ok\<rparr>)
       else hashMapGet (devices ?db1) v)" by auto
  have "jsonDatabaseSaveEndpoint E (Some ?e) db = Some (ok, db')"
    using fl(1) l assms(2,4) fe by (simp add: jsonDatabaseSaveEndpoint_def deref_endpoint_def upd_entry_def)
  then show ?thesis by (rule that [OF _ fl(2)]) (simp add: fl(3) get_upd_entry)
qed

lemma find_only: "p y \<Longrightarrow> y \<in> set xs \<Longrightarrow> \<forall>x \<in> set xs. x = y \<or> \<not> p x \<Longrightarrow> find p xs = Some y"
  by (induction xs) auto

lemma no_enabled_left:
  assumes "device_inv uuid d" "e_uri e = Some eu" "e_enabled e" "\<forall>x \<in> set (items (d_endpoints d)). x = e \<or> \<not> e_enabled x"
  shows "filter e_enabled (items (d_endpoints (upd_endpoint eu (\<lambda>x. if x = e then e\<lparr>e_enabled := False\<rparr> else x) d))) = []"
proof -
  let ?e = "e\<lparr>e_enabled := False\<rparr>"
  let ?upd = "update_first (\<lambda>x. e_uri x = Some eu) (\<lambda>x. if x = e then ?e else x)"
  have ne: "?e \<noteq> e"
  proof
    assume "?e = e"
    then have "e_enabled ?e = e_enabled e" by (rule arg_cong)
    with assms(3) show False by simp
  qed
  have gone: "e \<notin> set (?upd es)" if "distinct (map e_uri es)" for es
    using that assms(2) ne by (induction es) (auto simp: rev_image_eqI)
  have sub: "set (?upd es) \<subseteq> insert ?e (set es)" for es by (induction es) auto
  have "items (d_endpoints (upd_endpoint eu (\<lambda>x. if x = e then ?e else x) d)) = ?upd (items (d_endpoints d))"
    by (cases "d_endpoints d") (simp_all add: upd_endpoint_def)
  moreover have "\<not> e_enabled y" if "y \<in> set (?upd (items (d_endpoints d)))" for y
  proof -
    have "distinct (map e_uri (items (d_endpoints d)))" using assms(1) by (simp add: device_inv_def)
    then have "y \<noteq> e" using gone that by blast
    moreover have "y = ?e \<or> y \<in> set (items (d_endpoints d))" using sub that by blast
    moreover have "\<not> e_enabled ?e" by simp
    ultimately show ?thesis using assms(4) by blast
  qed
  ultimately show ?thesis by (simp add: filter_empty_conv)
qed

lemma other_enabled_iff:
  "list_all (\<lambda>x. e_id x \<noteq> None) es \<Longrightarrow>
   other_enabled i es = Some (list_ex (\<lambda>x. e_enabled x \<and> e_id x \<noteq> Some i) es)"
  by (induction i es rule: other_enabled.induct) auto

lemma descriptor_frame:
  assumes "getDeviceDescriptorCascadeAddDeleteEndpoints E d s = Some (b, s1)"
  shows "svc_db s1 = svc_db s" "svc_log s1 = svc_log s" "svc_drivers s1 = svc_drivers s"
    "pendingReconfiguration s1 = pendingReconfiguration s"
  using assms
  by (auto simp: getDeviceDescriptorCascadeAddDeleteEndpoints_def deviceServiceGetDeviceDescriptorForDevice_def svc_db_def
      svc_drivers_def split: if_splits option.splits prod.splits Option.bind_splits)

text \<open>
  C22. Disabling the last enabled endpoint of a device removes the device: the call succeeds, the device
  is gone from the database and every other device is as it was, and the log reports the removal of
  that endpoint once, then the call of the driver and the removal of the device.
\<close>

theorem remove_last_endpoint_removes_device:
  assumes "db_inv (svc_db s)" "hashMapGet (devices (svc_db s)) uuid = Some ce" "e \<in> set (items (d_endpoints (ce_device ce)))"
    and "e_id e = Some i" "e_deviceUuid e = Some uuid" "e_enabled e"
    and "\<forall>x \<in> set (items (d_endpoints (ce_device ce))). e_id x \<noteq> None \<and> (x = e \<or> e_id x \<noteq> Some i \<and> \<not> e_enabled x)"
    and "getDeviceDescriptorCascadeAddDeleteEndpoints E (Some (ce_device ce)) s = Some (False, s1)"
    and "driver_of (ce_device ce) s = Some drv" "deviceServiceGetReconfigureDeviceContext (Some uuid) s = None"
    and "quiet_cleanup E" "\<And>st. fst (storageDelete (svc_db_env E) STORAGE_NAMESPACE uuid st)"
  shows "\<exists>s' d'. deviceServiceRemoveEndpointById E uuid (Some i) s = Some (True, s') \<and> db_inv (svc_db s') \<and>
    (\<forall>v. map_option ce_device (hashMapGet (devices (svc_db s')) v) =
       (if v = uuid then None else map_option ce_device (hashMapGet (devices (svc_db s)) v))) \<and>
    svc_log s' = svc_log s @ EvEndpointRemoved (e\<lparr>e_enabled := False\<rparr>) (d_deviceClass (ce_device ce)) True #
      (case drv of None \<Rightarrow> [] | Some x \<Rightarrow> if deviceRemoved (driverOps E x) = None then [] else [Called (driverName x) (DeviceRemoved d')]) @
      [EvDeviceRemoved (Some uuid) (d_deviceClass (ce_device ce))]"
proof -
  let ?d = "ce_device ce" and ?e = "e\<lparr>e_enabled := False\<rparr>"
  note inv = db_inv_device [OF assms(1,2)]
  note fr = descriptor_frame [OF assms(8)]
  obtain eu where eu: "e_uri e = Some eu" using inv assms(3) by (auto simp: device_inv_def list_all_iff)
  let ?d1 = "upd_endpoint eu (\<lambda>x. if x = e then ?e else x) ?d"
  obtain ok db' where db': "jsonDatabaseSaveEndpoint (svc_db_env E) (Some ?e) (svc_db s1) = Some (ok, db')" "db_inv db'"
    "\<forall>v. map_option ce_device (hashMapGet (devices db') v) = (if v = uuid then Some ?d1
       else map_option ce_device (hashMapGet (devices (svc_db s1)) v))"
    using assms(1,2) fr(1) by (rule_tac saveEndpoint_effect [of "svc_db s1" uuid ce e eu "svc_db_env E" False]) (use assms(3) eu in simp_all)
  let ?s2 = "publish [EvEndpointRemoved ?e (d_deviceClass ?d) True] (set_db db' s1)"
  have ep: "jsonDatabaseGetEndpointById uuid (Some i) (svc_db s) = Some e"
  proof -
    have "find (\<lambda>x. e_id x = Some i) (items (d_endpoints ?d)) = Some e"
      by (rule find_only [of "\<lambda>x. e_id x = Some i" e, OF assms(4) assms(3)]) (use assms(7) in blast)
    then show ?thesis using assms(2) by (simp add: jsonDatabaseGetEndpointById_def)
  qed
  have noOther: "other_enabled i (items (d_endpoints ?d)) = Some False"
    using assms(4,7) by (subst other_enabled_iff) (auto simp: list_all_iff list_ex_iff)
  obtain ce1 where ce1: "hashMapGet (devices (svc_db ?s2)) uuid = Some ce1" "ce_device ce1 = ?d1"
    using db'(3) [rule_format, of uuid] by (cases "hashMapGet (devices db') uuid") auto
  have cls: "d_deviceClass ?d1 = d_deviceClass ?d" "d_uuid ?d1 = Some uuid" "d_managingDeviceDriver ?d1 = d_managingDeviceDriver ?d"
    using inv by (simp_all add: upd_endpoint_def device_inv_def)
  have none: "filter e_enabled (items (d_endpoints ?d1)) = []"
    using no_enabled_left [OF inv eu assms(6)] assms(7) by blast
  obtain s' where s': "deviceServiceRemoveDevice E (Some uuid) ?s2 = Some (True, s')" "db_inv (svc_db s')"
    "\<forall>v. hashMapGet (devices (svc_db s')) v = (if v = uuid then None else hashMapGet (devices (svc_db ?s2)) v)"
    "svc_log s' = svc_log ?s2 @ removal_notices E drv ?d1"
  proof (rule removeDevice_effect [of ?s2 uuid ce1 drv E])
    show "driver_of (ce_device ce1) ?s2 = Some drv"
      using assms(9) cls(3) fr(3) ce1(2) by (simp add: driver_of_def managing_driver_def)
    show "deviceServiceGetReconfigureDeviceContext (Some uuid) ?s2 = None"
      using assms(10) fr(4) by (simp add: deviceServiceGetReconfigureDeviceContext_def publish_def set_db_def)
  qed (use db'(2) ce1 assms(11,12) in auto)
  have "deviceServiceRemoveEndpointById E uuid (Some i) s = Some (True, s')"
    using assms(2,4-6,8) ep noOther db'(1) s'(1)
    by (simp add: deviceServiceRemoveEndpointById_def getDeviceById_get in_db_def Let_def)
  moreover have "svc_log s' = svc_log s @ EvEndpointRemoved ?e (d_deviceClass ?d) True #
      (case drv of None \<Rightarrow> [] | Some x \<Rightarrow> if deviceRemoved (driverOps E x) = None then [] else [Called (driverName x) (DeviceRemoved ?d1)]) @
      [EvDeviceRemoved (Some uuid) (d_deviceClass ?d)]"
    using s'(4) none cls fr(2) by (simp add: removal_notices_def)
  ultimately show ?thesis using s'(2,3) db'(3) fr(1) by (intro exI [of _ s'] exI [of _ ?d1]) auto
qed

theorem remove_last_endpoint_removes_device_witness:
  "\<exists>s'. deviceServiceRemoveEndpointById example_svc_env ''d1'' (Some ''1'') example_service = Some (True, s') \<and>
     hashMapGet (devices (svc_db s')) ''d1'' = None \<and> length (svc_log s') = 2"
proof -
  let ?e = "hd (items (d_endpoints example_device))" and ?ce = "\<lparr>ce_device = example_device, ce_dirty = False\<rparr>"
  have e: "?e \<in> set (items (d_endpoints example_device))" "e_id ?e = Some ''1''" "e_deviceUuid ?e = Some ''d1''" "e_enabled ?e"
    "\<forall>x \<in> set (items (d_endpoints example_device)). e_id x \<noteq> None \<and> (x = ?e \<or> e_id x \<noteq> Some ''1'' \<and> \<not> e_enabled x)"
    by (simp_all add: example_device_def)
  have "svc_log example_service = []" "deviceServiceGetReconfigureDeviceContext (Some ''d1'') example_service = None"
    by code_simp+
  moreover have "driver_of example_device example_service = Some (Some (example_driver ''ZigbeeDoorLock'' ''zigbee''))"
    by code_simp
  moreover have "hashMapGet (devices (svc_db example_service)) ''d1'' = Some ?ce"
    by (simp add: one_db_def hashMapGet_def)
  moreover have "getDeviceDescriptorCascadeAddDeleteEndpoints example_svc_env (Some example_device) example_service =
      Some (False, example_service)"
    by (simp add: getDeviceDescriptorCascadeAddDeleteEndpoints_def deviceServiceGetDeviceDescriptorForDevice_def
        deviceServiceFindDeviceResourceById_def example_device_def example_resource_def COMMON_DEVICE_RESOURCE_MANUFACTURER_def
        COMMON_DEVICE_RESOURCE_MODEL_def COMMON_DEVICE_RESOURCE_HARDWARE_VERSION_def COMMON_DEVICE_RESOURCE_FIRMWARE_VERSION_def)
  moreover have "quiet_cleanup example_svc_env" "fst (storageDelete (svc_db_env example_svc_env) STORAGE_NAMESPACE ''d1'' st)" for st
    by (simp_all add: quiet_cleanup_def example_svc_env_def example_ops_def example_env_def)
  moreover have "deviceRemoved (driverOps example_svc_env x) = None" for x
    by (simp add: example_svc_env_def example_ops_def)
  ultimately show ?thesis
    using remove_last_endpoint_removes_device [of example_service "''d1''" ?ce ?e "''1''" example_svc_env example_service
        "Some (example_driver ''ZigbeeDoorLock'' ''zigbee'')", simplified, OF _ _ _ e(2-4)] db_inv_one_db e(1,5)
    by (auto dest: spec [of "\<lambda>v. map_option ce_device (hashMapGet _ v) = _ v" "''d1''"])
qed

end
