(* ===== verification/Service_Events.thy ===== *)
theory Service_Events
  imports Device_Service_Props "HOL-Library.Sublist"
begin

text \<open>
  The properties the device service reacts to: \<^verbatim>\<open>core/src/event/deviceEventHandler.c\<close>, the handlers of
  \<^verbatim>\<open>deviceService.c\<close> it calls (time zone, list of denied devices), the handler of the interval of the
  monitor thread, and \<^verbatim>\<open>deviceServiceRestoreConfig\<close>, which denies devices through a property. The
  signal \<^verbatim>\<open>property-changed\<close> is delivered to the handlers in the order they connected, before the
  function that set the property returns. The model is that of a build with the option
  \<^verbatim>\<open>BARTON_CONFIG_ZIGBEE\<close> and without \<^verbatim>\<open>BARTON_CONFIG_M1LTE\<close>.
\<close>

section \<open>Names\<close>

definition DEVICE_DESCRIPTOR_LIST :: string where "DEVICE_DESCRIPTOR_LIST = ''deviceDescriptorList''"
definition DEVICE_DESC_ALLOWLIST_URL_OVERRIDE :: string where
  "DEVICE_DESC_ALLOWLIST_URL_OVERRIDE = ''deviceDescriptor.whitelist.url.override''"
definition DEVICE_DESC_DENYLIST :: string where "DEVICE_DESC_DENYLIST = ''deviceDescriptor.blacklist''"
definition POSIX_TIME_ZONE_PROP :: string where "POSIX_TIME_ZONE_PROP = ''POSIX_TZ''"
definition DEVICE_FIRMWARE_URL_NODE :: string where "DEVICE_FIRMWARE_URL_NODE = ''deviceFirmwareBaseUrl''"
definition CPE_DENYLISTED_DEVICES_PROPERTY_NAME :: string where
  "CPE_DENYLISTED_DEVICES_PROPERTY_NAME = ''cpe.denylistedDevices''"
definition TOUCHSCREEN_SENSOR_COMMFAIL_TROUBLE_DELAY :: string where
  "TOUCHSCREEN_SENSOR_COMMFAIL_TROUBLE_DELAY = ''touchscreen.sensor.commFail.troubleDelay''"
definition ZIGBEE_PROPS_PREFIX :: string where "ZIGBEE_PROPS_PREFIX = ''cpe.zigbee.''"
definition TELEMETRY_PROPS_PREFIX :: string where "TELEMETRY_PROPS_PREFIX = ''telemetry.''"
definition FAST_COMM_FAIL_PROP :: string where "FAST_COMM_FAIL_PROP = ''zigbee.testing.fastCommFail.flag''"
definition COMM_FAIL_MONITOR_INTERVAL_SECS_PROP :: string where
  "COMM_FAIL_MONITOR_INTERVAL_SECS_PROP = ''barton.commFail.monitorIntervalSecs''"
definition CPE_ZIGBEE_REPORT_DEVICE_INFO_ENABLED :: string where
  "CPE_ZIGBEE_REPORT_DEVICE_INFO_ENABLED = ''cpe.zigbee.reportDeviceInfo.enabled''"
definition CPE_DIAGNOSTIC_ZIGBEEDATA_ENABLED :: string where
  "CPE_DIAGNOSTIC_ZIGBEEDATA_ENABLED = ''cpe.diagnostics.zigBeeData.enabled''"
definition CPE_DIAGNOSTIC_ZIGBEEDATA_PER_CHANNEL_NUMBER_OF_SCANS :: string where
  "CPE_DIAGNOSTIC_ZIGBEEDATA_PER_CHANNEL_NUMBER_OF_SCANS = ''cpe.diagnostics.zigBeeData.numberOfScansPerChannel''"
definition CPE_DIAGNOSTIC_ZIGBEEDATA_CHANNEL_SCAN_DURATION_MS :: string where
  "CPE_DIAGNOSTIC_ZIGBEEDATA_CHANNEL_SCAN_DURATION_MS = ''cpe.diagnostics.zigBeeData.channelScanDurationMs''"
definition CPE_DIAGNOSTIC_ZIGBEEDATA_CHANNEL_SCAN_DELAY_MS :: string where
  "CPE_DIAGNOSTIC_ZIGBEEDATA_CHANNEL_SCAN_DELAY_MS = ''cpe.diagnostics.zigBeeData.perChannelScanDelayMs''"
definition CPE_DIAGNOSTIC_ZIGBEEDATA_COLLECTION_DELAY_MIN :: string where
  "CPE_DIAGNOSTIC_ZIGBEEDATA_COLLECTION_DELAY_MIN = ''cpe.diagnostics.zigBeeData.preCollectionDelayMinutes''"
definition SHOULD_NOT_PERSIST_AFTER_RMA_METADATA_NAME :: string where
  "SHOULD_NOT_PERSIST_AFTER_RMA_METADATA_NAME = ''shouldNotPersistAfterRMA''"
definition M1LTE_DC :: string where "M1LTE_DC = ''m1lte''"

lemmas property_names =
  DEVICE_DESCRIPTOR_LIST_def DEVICE_DESC_ALLOWLIST_URL_OVERRIDE_def DEVICE_DESC_DENYLIST_def POSIX_TIME_ZONE_PROP_def
  DEVICE_FIRMWARE_URL_NODE_def CPE_DENYLISTED_DEVICES_PROPERTY_NAME_def TOUCHSCREEN_SENSOR_COMMFAIL_TROUBLE_DELAY_def
  ZIGBEE_PROPS_PREFIX_def TELEMETRY_PROPS_PREFIX_def FAST_COMM_FAIL_PROP_def COMM_FAIL_MONITOR_INTERVAL_SECS_PROP_def
  CPE_ZIGBEE_REPORT_DEVICE_INFO_ENABLED_def CPE_DIAGNOSTIC_ZIGBEEDATA_ENABLED_def
  CPE_DIAGNOSTIC_ZIGBEEDATA_PER_CHANNEL_NUMBER_OF_SCANS_def CPE_DIAGNOSTIC_ZIGBEEDATA_CHANNEL_SCAN_DURATION_MS_def
  CPE_DIAGNOSTIC_ZIGBEEDATA_CHANNEL_SCAN_DELAY_MS_def CPE_DIAGNOSTIC_ZIGBEEDATA_COLLECTION_DELAY_MIN_def

section \<open>Denied devices\<close>

text \<open>The strings of a JSON array, the other elements left out; \<open>None\<close> when the text is no array.\<close>

definition denylist_strings :: "('j, 's, 'w) svc_env \<Rightarrow> cstr \<Rightarrow> string list option" where
  "denylist_strings E text =
     (case cJSON_Parse (svc_json E) text of None \<Rightarrow> None
      | Some j \<Rightarrow> if cJSON_IsArray E (Some j)
          then Some (List.map_filter (\<lambda>(_, x). cJSON_valuestring (svc_json E) x) (cJSON_children (svc_json E) j)) else None)"

definition deviceServiceIsDeviceDenylisted :: "('j, 's, 'w) svc_env \<Rightarrow> cstr \<Rightarrow> ('j, 's, 'w) device_service \<Rightarrow> bool" where
  "deviceServiceIsDeviceDenylisted E uuid s =
     (let denylistedDevices = get_property_as_string (svc_provider E) (Some CPE_DENYLISTED_DEVICES_PROPERTY_NAME) (Some [])
            (svc_world s) (svc_db s)
      in if stringIsEmpty (svc_util E) denylistedDevices then False
         else (case denylist_strings E denylistedDevices of None \<Rightarrow> False
           | Some l \<Rightarrow> list_ex (\<lambda>x. stringCompare (svc_util E) uuid (Some x) True = 0) l))"

fun remove_each :: "('j, 's, 'w) svc_env \<Rightarrow> string list \<Rightarrow> ('j, 's, 'w) device_service \<Rightarrow> ('j, 's, 'w) device_service option" where
  "remove_each E [] s = Some s"
| "remove_each E (u # us) s = do { (_, s1) \<leftarrow> deviceServiceRemoveDevice E (Some u) s; remove_each E us s1 }"

definition processDenylistedDevices ::
  "('j, 's, 'w) svc_env \<Rightarrow> cstr \<Rightarrow> ('j, 's, 'w) device_service \<Rightarrow> ('j, 's, 'w) device_service option" where
  "processDenylistedDevices E propValue s =
     (if stringIsEmpty (svc_util E) propValue then Some s
      else (case denylist_strings E propValue of None \<Rightarrow> Some s | Some l \<Rightarrow> remove_each E l s))"

section \<open>Time zone\<close>

fun write_timezones ::
  "('j, 's, 'w) svc_env \<Rightarrow> icDevice list \<Rightarrow> cstr \<Rightarrow> ('j, 's, 'w) device_service \<Rightarrow> ('j, 's, 'w) device_service option" where
  "write_timezones E [] timeZone s = Some s"
| "write_timezones E (d # ds) timeZone s = do {
     tzResource \<leftarrow> deviceServiceFindDeviceResourceById (Some d) COMMON_DEVICE_RESOURCE_TIMEZONE;
     case tzResource of None \<Rightarrow> write_timezones E ds timeZone s
     | Some r \<Rightarrow> do {
         (_, s1) \<leftarrow> deviceServiceWriteResource E (r_uri r) timeZone s;
         write_timezones E ds timeZone s1 } }"

definition timeZoneChanged ::
  "('j, 's, 'w) svc_env \<Rightarrow> cstr \<Rightarrow> ('j, 's, 'w) device_service \<Rightarrow> ('j, 's, 'w) device_service option" where
  "timeZoneChanged E timeZone s = write_timezones E (jsonDatabaseGetDevices (svc_db s)) timeZone s"

section \<open>Changed properties\<close>

definition in_watchdog :: "(watchdog \<Rightarrow> watchdog) \<Rightarrow> ('j, 's, 'w) device_service \<Rightarrow> ('j, 's, 'w) device_service" where
  "in_watchdog f s = s\<lparr>svc_fail := (svc_fail s)\<lparr>cf_watchdog := f (cf_watchdog (svc_fail s))\<rparr>\<rparr>"

text \<open>The first test stands alone; the others are one chain, in which the first that holds decides.\<close>

definition descriptor_list_changed ::
  "('j, 's, 'w) svc_env \<Rightarrow> string \<Rightarrow> cstr \<Rightarrow> ('j, 's, 'w) device_service \<Rightarrow> ('j, 's, 'w) device_service" where
  "descriptor_list_changed E propertyName newPropertyValue s =
     (if propertyName = DEVICE_DESCRIPTOR_LIST
         \<and> \<not> has_property (svc_provider E) (Some DEVICE_DESC_ALLOWLIST_URL_OVERRIDE) (svc_world s) (svc_db s)
      then publish [AllowlistUpdate newPropertyValue] s else s)"

definition property_chain ::
  "('j, 's, 'w) svc_env \<Rightarrow> string \<Rightarrow> cstr \<Rightarrow> ('j, 's, 'w) device_service \<Rightarrow> ('j, 's, 'w) device_service option" where
  "property_chain E propertyName newPropertyValue s =
     (if propertyName = DEVICE_DESC_ALLOWLIST_URL_OVERRIDE
      then Some (if newPropertyValue \<noteq> None then publish [AllowlistUpdate newPropertyValue] s
        else (case get_property_as_string (svc_provider E) (Some DEVICE_DESCRIPTOR_LIST) None (svc_world s) (svc_db s) of
                None \<Rightarrow> s | Some allowlistUrl \<Rightarrow> publish [AllowlistUpdate (Some allowlistUrl)] s))
      else if propertyName = DEVICE_DESC_DENYLIST then Some (publish [DenylistUpdate newPropertyValue] s)
      else if propertyName = POSIX_TIME_ZONE_PROP then timeZoneChanged E newPropertyValue s
      else if propertyName = DEVICE_FIRMWARE_URL_NODE then deviceServiceProcessDeviceDescriptors E s
      else if propertyName = CPE_DENYLISTED_DEVICES_PROPERTY_NAME then processDenylistedDevices E newPropertyValue s
      else if propertyName = TOUCHSCREEN_SENSOR_COMMFAIL_TROUBLE_DELAY
      then set_service_timeout E (case stringToUint32 E newPropertyValue of None \<Rightarrow> 0 | Some commFailTimeoutMins \<Rightarrow> commFailTimeoutMins * 60) s
      else if prefix ZIGBEE_PROPS_PREFIX propertyName \<or> prefix TELEMETRY_PROPS_PREFIX propertyName
      then Some (publish [ZigbeePropertyChange (Some propertyName) newPropertyValue] s)
      else if propertyName \<in> {CPE_ZIGBEE_REPORT_DEVICE_INFO_ENABLED, CPE_DIAGNOSTIC_ZIGBEEDATA_ENABLED,
          CPE_DIAGNOSTIC_ZIGBEEDATA_PER_CHANNEL_NUMBER_OF_SCANS, CPE_DIAGNOSTIC_ZIGBEEDATA_CHANNEL_SCAN_DURATION_MS,
          CPE_DIAGNOSTIC_ZIGBEEDATA_CHANNEL_SCAN_DELAY_MS, CPE_DIAGNOSTIC_ZIGBEEDATA_COLLECTION_DELAY_MIN}
      then Some (publish [TrackerPropertyChange (Some propertyName) newPropertyValue] s)
      else if propertyName = FAST_COMM_FAIL_PROP
      then Some (in_watchdog (deviceCommunicationWatchdogSetFastCommfail (stringToBool E newPropertyValue))
        (publish [ZigbeePropertyChange (Some propertyName) newPropertyValue] s))
      else Some s)"

definition propertyChangedHandler ::
  "('j, 's, 'w) svc_env \<Rightarrow> string \<Rightarrow> cstr \<Rightarrow> cstr \<Rightarrow> ('j, 's, 'w) device_service \<Rightarrow> ('j, 's, 'w) device_service option" where
  "propertyChangedHandler E propertyName oldPropertyValue newPropertyValue s =
     map_option (deviceServiceNotifyPropertyChange E (Some propertyName) newPropertyValue)
       (property_chain E propertyName newPropertyValue (descriptor_list_changed E propertyName newPropertyValue s))"

definition OnCommFailMonitorIntervalPropertyChanged ::
  "('j, 's, 'w) svc_env \<Rightarrow> string \<Rightarrow> cstr \<Rightarrow> cstr \<Rightarrow> ('j, 's, 'w) device_service \<Rightarrow> ('j, 's, 'w) device_service" where
  "OnCommFailMonitorIntervalPropertyChanged E propertyName oldValue newValue s =
     (if propertyName \<noteq> COMM_FAIL_MONITOR_INTERVAL_SECS_PROP then s
      else (case newValue of None \<Rightarrow> s
        | Some v \<Rightarrow> (let secs = fst (g_ascii_strtoull (svc_glib E) v 10)
                     in if secs > 0 then in_watchdog (deviceCommunicationWatchdogSetMonitorInterval (ucast secs)) s else s)))"

text \<open>A property is set and the signals reach both handlers.\<close>

fun deliver :: "('j, 's, 'w) svc_env \<Rightarrow> property_signal list \<Rightarrow> ('j, 's, 'w) device_service \<Rightarrow> ('j, 's, 'w) device_service option" where
  "deliver E [] s = Some s"
| "deliver E (PropertyChanged n old new # sigs) s = do {
     s1 \<leftarrow> propertyChangedHandler E n old new (publish [EvPropertyChanged (PropertyChanged n old new)] s);
     deliver E sigs (OnCommFailMonitorIntervalPropertyChanged E n old new s1) }"

definition service_set_property_string ::
  "('j, 's, 'w) svc_env \<Rightarrow> string \<Rightarrow> cstr \<Rightarrow> ('j, 's, 'w) device_service \<Rightarrow> (bool \<times> ('j, 's, 'w) device_service) option" where
  "service_set_property_string E n v s = do {
     (ok, w, db, sigs) \<leftarrow> set_property_string (svc_db_env E) (svc_provider E) (Some n) v (svc_world s) (svc_db s);
     s1 \<leftarrow> deliver E sigs (set_db db (s\<lparr>svc_world := w\<rparr>));
     Some (ok, s1) }"

section \<open>Denying a device, restoring a configuration\<close>

text \<open>The array the property holds, or a new one.\<close>

definition denylist_array :: "('j, 's, 'w) svc_env \<Rightarrow> ('j, 's, 'w) device_service \<Rightarrow> 'j" where
  "denylist_array E s =
     (case cJSON_Parse (svc_json E) (get_property_as_string (svc_provider E) (Some CPE_DENYLISTED_DEVICES_PROPERTY_NAME) (Some [])
             (svc_world s) (svc_db s)) of
        None \<Rightarrow> cJSON_CreateArray E
      | Some j \<Rightarrow> if cJSON_IsArray E (Some j) then j else cJSON_CreateArray E)"

definition denylistDevice ::
  "('j, 's, 'w) svc_env \<Rightarrow> cstr \<Rightarrow> ('j, 's, 'w) device_service \<Rightarrow> ('j, 's, 'w) device_service option" where
  "denylistDevice E uuid s =
     (case uuid of None \<Rightarrow> Some s
      | Some u \<Rightarrow>
          if stringIsEmpty (svc_util E) uuid \<or> deviceServiceIsDeviceDenylisted E uuid s then Some s
          else map_option snd (service_set_property_string E CPE_DENYLISTED_DEVICES_PROPERTY_NAME
            (Some (cJSON_PrintUnformatted E (cJSON_AddItemToArray E (denylist_array E s) (cJSON_CreateString (svc_json E) u)))) s))"

text \<open>The drivers restore in order; the first failure ends the restoration.\<close>

fun restore_drivers ::
  "('j, 's, 'w) svc_env \<Rightarrow> string \<Rightarrow> DeviceDriver list \<Rightarrow> ('j, 's, 'w) device_service \<Rightarrow> bool \<times> ('j, 's, 'w) device_service" where
  "restore_drivers E tempRestoreDir [] s = (True, s)"
| "restore_drivers E tempRestoreDir (drv # ds) s =
     (case restoreConfig (driverOps E drv) of None \<Rightarrow> restore_drivers E tempRestoreDir ds s
      | Some f \<Rightarrow>
          (case f tempRestoreDir (storageDir E)
                  (publish [Called (driverName drv) (DriverRestoreConfig tempRestoreDir (storageDir E))] s) of
             (True, s1) \<Rightarrow> restore_drivers E tempRestoreDir ds s1
           | (False, s1) \<Rightarrow> (False, s1)))"

fun deny_each :: "('j, 's, 'w) svc_env \<Rightarrow> icDevice list \<Rightarrow> ('j, 's, 'w) device_service \<Rightarrow> ('j, 's, 'w) device_service option" where
  "deny_each E [] s = Some s"
| "deny_each E (d # ds) s =
     (if d_uuid d = None \<or> d_deviceClass d = None then deny_each E ds s
      else do {
        denylistDeviceAfterRma \<leftarrow> getBooleanMetadata (d_uuid d) None (Some SHOULD_NOT_PERSIST_AFTER_RMA_METADATA_NAME) (svc_db s);
        if denylistDeviceAfterRma \<or> stringCompare (svc_util E) (d_deviceClass d) (Some M1LTE_DC) False = 0
        then do { s1 \<leftarrow> denylistDevice E (d_uuid d) s; deny_each E ds s1 }
        else deny_each E ds s })"

definition deviceServiceRestoreConfig ::
  "('j, 's, 'w) svc_env \<Rightarrow> string \<Rightarrow> ('j, 's, 'w) device_service \<Rightarrow> (bool \<times> ('j, 's, 'w) device_service) option" where
  "deviceServiceRestoreConfig E tempRestoreDir s = do {
     let deviceDrivers = all_drivers s;
     let s1 = tell_each (\<lambda>drv. notify_driver drv PreRestoreConfig (preRestoreConfig (driverOps E drv))) deviceDrivers s;
     (ok, s2) \<leftarrow> in_db (jsonDatabaseRestore (svc_db_env E) tempRestoreDir) s1;
     if \<not> ok then Some (False, s2)
     else do {
       s3 \<leftarrow> deviceServiceScrubDevices E s2;
       let (ok, m) = subsystemManagerRestoreConfig tempRestoreDir (storageDir E) (svc_subsystems s3);
       let s4 = s3\<lparr>svc_subsystems := m\<rparr>;
       if \<not> ok then Some (False, s4)
       else (case restore_drivers E tempRestoreDir deviceDrivers s4 of
           (False, s5) \<Rightarrow> Some (False, s5)
         | (True, s5) \<Rightarrow> do {
             s6 \<leftarrow> deny_each E (deviceServiceGetAllDevices (svc_db s5)) s5;
             Some (True, tell_each (\<lambda>drv. notify_driver drv DriverPostRestoreConfig (postRestoreConfig (driverOps E drv)))
               deviceDrivers (in_subsystems subsystemManagerPostRestoreConfig s6)) }) } }"

section \<open>Theorems\<close>

lemma set_property_devices:
  "devices (snd (deviceServiceSetSystemProperty E n v db)) = devices db"
  "resourcesByUri (snd (deviceServiceSetSystemProperty E n v db)) = resourcesByUri db"
  by (auto simp: deviceServiceSetSystemProperty_def jsonDatabaseSetSystemProperty_def saveSystemProperties_def split: prod.splits bool.splits)

lemma remove_unknown_each:
  "\<forall>u \<in> set us. hashMapGet (devices (svc_db s)) u = None \<Longrightarrow> \<exists>m. remove_each E us s = Some (s\<lparr>markedForRemoval := m\<rparr>)"
proof (induction us arbitrary: s)
  case Nil
  show ?case by (auto intro: exI [of _ "markedForRemoval s"])
next
  case (Cons u us)
  let ?s = "s\<lparr>markedForRemoval := snd (hashMapPut (markedForRemoval s) u ())\<rparr>"
  have "deviceServiceRemoveDevice E (Some u) s = Some (True, ?s)"
    using Cons.prems by (simp add: deviceServiceRemoveDevice_def getDeviceById_get)
  moreover have "\<exists>m. remove_each E us ?s = Some (?s\<lparr>markedForRemoval := m\<rparr>)"
    using Cons.prems by (intro Cons.IH) (simp add: svc_db_def)
  ultimately show ?case by auto
qed

lemma remove_each_append: "remove_each E (us @ vs) s = Option.bind (remove_each E us s) (remove_each E vs)"
  by (induction us arbitrary: s) (auto split: option.splits simp: Option.bind_eq_None_conv split_def Option.bind_assoc)

text \<open>
  Drivers that leave the database and the log to the service: a clean-up after a removal, and a
  notice of a changed property.
\<close>

definition quiet_notices :: "('j, 's, 'w) svc_env \<Rightarrow> bool" where
  "quiet_notices E \<longleftrightarrow> quiet_cleanup E \<and> (\<forall>drv f k v s. propertyChanged (driverOps E drv) = Some f \<longrightarrow> svc_db (f k v s) = svc_db s)"

lemma tell_quiet: "(\<And>d s. svc_db (f d s) = svc_db s) \<Longrightarrow> svc_db (tell_each f ds s) = svc_db s"
  by (induction ds arbitrary: s) auto

lemma notify_change_db: "quiet_notices E \<Longrightarrow> svc_db (deviceServiceNotifyPropertyChange E k v s) = svc_db s"
  unfolding deviceServiceNotifyPropertyChange_def
  by (rule tell_quiet) (auto simp: notify_driver_def quiet_notices_def split: option.splits)

text \<open>cJSON on the list of denied devices: a string added at the end of an array, printed and parsed.\<close>

definition denylist_json_ok :: "('j, 's, 'w) svc_env \<Rightarrow> 'j \<Rightarrow> string \<Rightarrow> bool" where
  "denylist_json_ok E arr u \<longleftrightarrow>
     (let x = cJSON_CreateString (svc_json E) u; arr' = cJSON_AddItemToArray E arr x
      in cJSON_valuestring (svc_json E) x = Some u \<and> cJSON_IsArray E (Some arr') \<and>
         map snd (cJSON_children (svc_json E) arr') = map snd (cJSON_children (svc_json E) arr) @ [x] \<and>
         cJSON_Parse (svc_json E) (Some (cJSON_PrintUnformatted E arr')) = Some arr' \<and> cJSON_PrintUnformatted E arr' \<noteq> [])"

definition array_strings :: "('j, 's, 'w) svc_env \<Rightarrow> 'j \<Rightarrow> string list" where
  "array_strings E j = List.map_filter (cJSON_valuestring (svc_json E)) (map snd (cJSON_children (svc_json E) j))"

lemma denylist_strings_array:
  "cJSON_Parse (svc_json E) t = Some j \<Longrightarrow> cJSON_IsArray E (Some j) \<Longrightarrow> denylist_strings E t = Some (array_strings E j)"
  by (simp add: denylist_strings_def array_strings_def List.map_filter_def filter_map comp_def case_prod_unfold)

lemma denylist_strings_added:
  assumes "denylist_json_ok E arr u"
  shows "denylist_strings E (Some (cJSON_PrintUnformatted E (cJSON_AddItemToArray E arr (cJSON_CreateString (svc_json E) u)))) =
    Some (array_strings E arr @ [u])"
  using assms by (subst denylist_strings_array) (auto simp: denylist_json_ok_def array_strings_def Let_def List.map_filter_def)

text \<open>What the handlers of \<^verbatim>\<open>property-changed\<close> do with the list of denied devices.\<close>

lemma deliver_denylist:
  "deliver E [PropertyChanged CPE_DENYLISTED_DEVICES_PROPERTY_NAME old new] s =
     map_option (deviceServiceNotifyPropertyChange E (Some CPE_DENYLISTED_DEVICES_PROPERTY_NAME) new)
       (processDenylistedDevices E new (publish [EvPropertyChanged (PropertyChanged CPE_DENYLISTED_DEVICES_PROPERTY_NAME old new)] s))"
  by (cases "processDenylistedDevices E new (publish [EvPropertyChanged (PropertyChanged CPE_DENYLISTED_DEVICES_PROPERTY_NAME old new)] s)")
    (simp_all add: propertyChangedHandler_def descriptor_list_changed_def property_chain_def
      OnCommFailMonitorIntervalPropertyChanged_def property_names)

lemma is_denylisted_default:
  assumes "svc_provider E = default_provider" "util_ok (svc_util E)"
    and "deviceServiceGetSystemProperty CPE_DENYLISTED_DEVICES_PROPERTY_NAME (svc_db s) = Some t"
    and "t \<noteq> []" "denylist_strings E (Some t) = Some l"
  shows "deviceServiceIsDeviceDenylisted E (Some u) s \<longleftrightarrow> (\<exists>x \<in> set l. lower u = lower x)"
  using assms by (auto simp: deviceServiceIsDeviceDenylisted_def get_property_as_string_def get_property_default util_okD list_ex_iff)

text \<open>
  C21. Denying a paired device. The device service with its default property provider adds the device
  to the property and, through the signal of the provider, removes it: the call returns, the device is
  denied from then on, it is gone from the database, and every other device is as it was.
\<close>

theorem denylisted_device_removed:
  assumes "svc_provider E = default_provider" "util_ok (svc_util E)" "quiet_notices E" "db_inv (svc_db s)"
    and "hashMapGet (devices (svc_db s)) u = Some ce" "driver_of (ce_device ce) s = Some drv"
    and "deviceServiceGetReconfigureDeviceContext (Some u) s = None" "\<And>st. fst (storageDelete (svc_db_env E) STORAGE_NAMESPACE u st)"
    and "u \<noteq> []" "\<not> deviceServiceIsDeviceDenylisted E (Some u) s"
    and "\<forall>x \<in> set (array_strings E (denylist_array E s)). hashMapGet (devices (svc_db s)) x = None"
    and "denylist_json_ok E (denylist_array E s) u" "\<And>v. fst (deviceServiceSetSystemProperty (svc_db_env E) CPE_DENYLISTED_DEVICES_PROPERTY_NAME v (svc_db s))"
  shows "\<exists>s'. denylistDevice E (Some u) s = Some s' \<and> deviceServiceIsDeviceDenylisted E (Some u) s' \<and> db_inv (svc_db s') \<and>
    (\<forall>v. hashMapGet (devices (svc_db s')) v = (if v = u then None else hashMapGet (devices (svc_db s)) v))"
proof -
  let ?n = CPE_DENYLISTED_DEVICES_PROPERTY_NAME
  define t where "t = cJSON_PrintUnformatted E (cJSON_AddItemToArray E (denylist_array E s) (cJSON_CreateString (svc_json E) u))"
  let ?l = "array_strings E (denylist_array E s)"
  have l: "denylist_strings E (Some t) = Some (?l @ [u])" "t \<noteq> []"
    using denylist_strings_added [OF assms(12)] assms(12) by (auto simp: t_def denylist_json_ok_def Let_def)
  note set = set_string_saved [OF assms(13) [of t], of "svc_world s", folded assms(1)]
  define db where "db = snd (deviceServiceSetSystemProperty (svc_db_env E) ?n t (svc_db s))"
  have db: "devices db = devices (svc_db s)" "db_inv db" "deviceServiceGetSystemProperty ?n db = Some t"
    using assms(4) dbprops.get_set by (auto simp: db_def set_property_devices db_inv_def)
  let ?s = "publish [EvPropertyChanged (PropertyChanged ?n (deviceServiceGetSystemProperty ?n (svc_db s)) (Some t))] (set_db db s)"
  obtain m where m: "remove_each E ?l ?s = Some (?s\<lparr>markedForRemoval := m\<rparr>)"
    using remove_unknown_each [of ?l ?s E] assms(11) db(1) by auto
  let ?s1 = "?s\<lparr>markedForRemoval := m\<rparr>"
  have fr: "svc_db ?s1 = db" "svc_drivers ?s1 = svc_drivers s" by (simp_all add: svc_db_def svc_drivers_def publish_def set_db_def)
  obtain s2 where s2: "deviceServiceRemoveDevice E (Some u) ?s1 = Some (True, s2)" "db_inv (svc_db s2)"
    "\<forall>v. hashMapGet (devices (svc_db s2)) v = (if v = u then None else hashMapGet (devices (svc_db ?s1)) v)"
    "systemProperties (svc_db s2) = systemProperties (svc_db ?s1)"
  proof (rule removeDevice_effect [of ?s1 u ce drv E])
    show "driver_of (ce_device ce) ?s1 = Some drv" using assms(6) fr(2) by (simp add: driver_of_def)
    show "deviceServiceGetReconfigureDeviceContext (Some u) ?s1 = None"
      using assms(7) by (simp add: deviceServiceGetReconfigureDeviceContext_def publish_def set_db_def)
  qed (use fr db assms(3,5,8) in \<open>auto simp: quiet_notices_def\<close>)
  have "processDenylistedDevices E (Some t) ?s = Some s2"
    using l m s2(1) assms(2) by (simp add: processDenylistedDevices_def util_okD remove_each_append)
  then have run: "denylistDevice E (Some u) s = Some (deviceServiceNotifyPropertyChange E (Some ?n) (Some t) s2)" (is "_ = Some ?s3")
    using assms(2,9,10) set t_def db_def by (simp add: denylistDevice_def service_set_property_string_def deliver_denylist util_okD del: deliver.simps)
  have s3: "svc_db ?s3 = svc_db s2" by (rule notify_change_db [OF assms(3)])
  then have "deviceServiceGetSystemProperty ?n (svc_db ?s3) = Some t"
    using s2(4) db(3) fr(1) by (simp add: deviceServiceGetSystemProperty_def jsonDatabaseGetSystemProperty_def)
  then have "deviceServiceIsDeviceDenylisted E (Some u) ?s3"
    using l assms(1,2) by (subst is_denylisted_default) auto
  then show ?thesis using run s3 s2(2,3) fr(1) db(1) by auto
qed

definition denying_json :: "json json_api" where
  "denying_json = example_json\<lparr>cJSON_Parse := (\<lambda>t. if t = Some ''[\"d1\"]'' then Some (JObject [([], JString ''d1'')]) else None)\<rparr>"

definition denying_env :: "(json, (string \<times> string) list, unit) svc_env" where
  "denying_env = example_svc_env\<lparr>svc_db_env := (svc_db_env example_svc_env)\<lparr>env_json := denying_json\<rparr>,
     cJSON_PrintUnformatted := (\<lambda>j. if j = JObject [([], JString ''d1'')] then ''[\"d1\"]'' else [])\<rparr>"

lemma example_property_unset [simp]: "deviceServiceGetSystemProperty n one_db = None"
  by (simp add: deviceServiceGetSystemProperty_def jsonDatabaseGetSystemProperty_def one_db_def empty_db_def hashMapGet_def)

lemma denying_array: "denylist_array denying_env example_service = JObject []"
  by (simp add: denylist_array_def denying_env_def denying_json_def example_svc_env_def get_property_as_string_def get_property_default)

theorem denylisted_device_removed_witness:
  "\<exists>s'. denylistDevice denying_env (Some ''d1'') example_service = Some s' \<and> deviceServiceIsDeviceDenylisted denying_env (Some ''d1'') s' \<and>
     hashMapGet (devices (svc_db s')) ''d1'' = None"
proof -
  let ?ce = "\<lparr>ce_device = example_device, ce_dirty = False\<rparr>"
  have "\<exists>s'. denylistDevice denying_env (Some ''d1'') example_service = Some s' \<and>
      deviceServiceIsDeviceDenylisted denying_env (Some ''d1'') s' \<and> db_inv (svc_db s') \<and>
      (\<forall>v. hashMapGet (devices (svc_db s')) v = (if v = ''d1'' then None else hashMapGet (devices (svc_db example_service)) v))"
  proof (rule denylisted_device_removed [of denying_env example_service "''d1''" ?ce "Some (example_driver ''ZigbeeDoorLock'' ''zigbee'')"])
    show "util_ok (svc_util denying_env)" by (simp add: denying_env_def example_svc_env_def example_env_def util_ok_example)
    show "driver_of (ce_device ?ce) example_service = Some (Some (example_driver ''ZigbeeDoorLock'' ''zigbee''))"
      "deviceServiceGetReconfigureDeviceContext (Some ''d1'') example_service = None" by code_simp+
    show "\<not> deviceServiceIsDeviceDenylisted denying_env (Some ''d1'') example_service"
      by (simp add: deviceServiceIsDeviceDenylisted_def denying_env_def example_svc_env_def get_property_as_string_def get_property_default
          example_env_def example_util_def)
    show "\<forall>x \<in> set (array_strings denying_env (denylist_array denying_env example_service)). hashMapGet (devices (svc_db example_service)) x = None"
      unfolding denying_array by (simp add: array_strings_def denying_env_def denying_json_def example_json_def)
    show "denylist_json_ok denying_env (denylist_array denying_env example_service) ''d1''"
      unfolding denying_array by (simp add: denylist_json_ok_def denying_env_def denying_json_def example_svc_env_def example_json_def example_env_def)
  qed (use db_inv_one_db in \<open>simp_all add: denying_env_def example_svc_env_def example_env_def quiet_notices_def
      quiet_cleanup_def example_ops_def one_db_def hashMapGet_def
      deviceServiceSetSystemProperty_def jsonDatabaseSetSystemProperty_def saveSystemProperties_def hashMapPut_def hashMapDelete_def
      hashMapContains_def empty_db_def\<close>)
  then show ?thesis by auto
qed

text \<open>
  Of the six properties the event tracker has a handler for, five reach it; the sixth,
  \<^verbatim>\<open>cpe.zigbee.reportDeviceInfo.enabled\<close>, has the prefix of the properties of the Zigbee stack, is
  forwarded there, and never reaches the tracker.
\<close>

theorem tracker_misses_report_property:
  assumes "n \<in> {CPE_ZIGBEE_REPORT_DEVICE_INFO_ENABLED, CPE_DIAGNOSTIC_ZIGBEEDATA_ENABLED,
      CPE_DIAGNOSTIC_ZIGBEEDATA_PER_CHANNEL_NUMBER_OF_SCANS, CPE_DIAGNOSTIC_ZIGBEEDATA_CHANNEL_SCAN_DURATION_MS,
      CPE_DIAGNOSTIC_ZIGBEEDATA_CHANNEL_SCAN_DELAY_MS, CPE_DIAGNOSTIC_ZIGBEEDATA_COLLECTION_DELAY_MIN}"
  shows "propertyChangedHandler E n old new s = Some (deviceServiceNotifyPropertyChange E (Some n) new (publish
    [if n = CPE_ZIGBEE_REPORT_DEVICE_INFO_ENABLED then ZigbeePropertyChange (Some n) new else TrackerPropertyChange (Some n) new] s))"
  using assms unfolding insert_iff empty_iff
  by (elim disjE FalseE; hypsubst) (simp_all add: propertyChangedHandler_def descriptor_list_changed_def property_chain_def property_names)

theorem tracker_misses_report_property_witness:
  "map_option svc_log (propertyChangedHandler example_svc_env CPE_ZIGBEE_REPORT_DEVICE_INFO_ENABLED None (Some ''true'') example_service) =
     Some [ZigbeePropertyChange (Some CPE_ZIGBEE_REPORT_DEVICE_INFO_ENABLED) (Some ''true'')]"
proof -
  have "svc_log (deviceServiceNotifyPropertyChange example_svc_env k v s) = svc_log s" for k v s
  proof -
    have "svc_log (tell_each (\<lambda>drv. notify_driver drv (PropertyChange k v) None) ds s) = svc_log s" for ds s
      by (induction ds arbitrary: s) (simp_all add: notify_driver_def)
    then show ?thesis by (simp add: deviceServiceNotifyPropertyChange_def example_svc_env_def example_ops_def)
  qed
  then show ?thesis
    by (subst tracker_misses_report_property) (simp_all add: example_service_def)
qed

end
