(* ===== verification/Device_Pairing.thy ===== *)
theory Device_Pairing
  imports Service_Events
begin

text \<open>
  Pairing of a device a driver has found: \<^verbatim>\<open>deviceServiceDeviceFound\<close> of \<^verbatim>\<open>core/src/deviceService.c\<close> with the
  functions it calls, and the discovery filters (\<^verbatim>\<open>core/src/deviceDiscoveryFilters.c\<close>). The functions of
  the driver, or of the migrator, may change the device and the initial values they are given and
  any part of the service; they return what they leave behind.
\<close>

section \<open>Names\<close>

definition COMMON_DEVICE_RESOURCE_FIRMWARE_UPDATE_STATUS :: string where
  "COMMON_DEVICE_RESOURCE_FIRMWARE_UPDATE_STATUS = ''firmwareUpdateStatus''"
definition COMMON_DEVICE_RESOURCE_DATE_ADDED :: string where "COMMON_DEVICE_RESOURCE_DATE_ADDED = ''dateAdded''"
definition COMMON_DEVICE_FUNCTION_RESET_TO_FACTORY :: string where
  "COMMON_DEVICE_FUNCTION_RESET_TO_FACTORY = ''resetToFactoryDefaults''"
definition RESOURCE_TYPE_STRING :: string where "RESOURCE_TYPE_STRING = ''com.icontrol.string''"
definition RESOURCE_TYPE_VERSION :: string where "RESOURCE_TYPE_VERSION = ''com.icontrol.version''"
definition RESOURCE_TYPE_FIRMWARE_VERSION_STATUS :: string where
  "RESOURCE_TYPE_FIRMWARE_VERSION_STATUS = ''com.icontrol.firmwareVersionStatus''"
definition RESOURCE_TYPE_DATETIME :: string where "RESOURCE_TYPE_DATETIME = ''com.icontrol.dateTime''"
definition RESOURCE_TYPE_TROUBLE :: string where "RESOURCE_TYPE_TROUBLE = ''com.icontrol.trouble''"
definition RESOURCE_TYPE_RESET_TO_FACTORY_OPERATION :: string where
  "RESOURCE_TYPE_RESET_TO_FACTORY_OPERATION = ''com.icontrol.resetToFactoryOperation''"

section \<open>Common resources\<close>

definition put_device_value :: "string \<Rightarrow> cstr \<Rightarrow> icInitialResourceValues \<Rightarrow> icInitialResourceValues" where
  "put_device_value k v vs = snd (initialResourceValuesPutDeviceValue vs (Some k) v)"

definition fetchCommonResourcesInitialValues ::
  "cstr \<Rightarrow> cstr \<Rightarrow> cstr \<Rightarrow> cstr \<Rightarrow> icInitialResourceValues \<Rightarrow> ('j, 's, 'w) device_service \<Rightarrow>
   icInitialResourceValues \<times> ('j, 's, 'w) device_service" where
  "fetchCommonResourcesInitialValues man mdl hardwareVersion firmwareVersion vs s =
     (let vs1 = put_device_value COMMON_DEVICE_RESOURCE_MANUFACTURER man vs;
          vs2 = put_device_value COMMON_DEVICE_RESOURCE_MODEL mdl vs1;
          vs3 = put_device_value COMMON_DEVICE_RESOURCE_HARDWARE_VERSION hardwareVersion vs2;
          vs4 = put_device_value COMMON_DEVICE_RESOURCE_FIRMWARE_VERSION firmwareVersion vs3;
          vs5 = put_device_value COMMON_DEVICE_RESOURCE_FIRMWARE_UPDATE_STATUS None vs4;
          (dateBuf, s1) = getCurrentTimestampString s;
          vs6 = put_device_value COMMON_DEVICE_RESOURCE_DATE_ADDED (Some dateBuf) vs5;
          vs7 = put_device_value COMMON_DEVICE_RESOURCE_DATE_LAST_CONTACTED (Some dateBuf) vs6
      in (put_device_value COMMON_DEVICE_RESOURCE_COMM_FAIL (Some ''false'') vs7, s1))"

text \<open>One resource after the other; a failure does not stop the others.\<close>

definition add_if_available ::
  "icInitialResourceValues \<Rightarrow> string \<Rightarrow> string \<Rightarrow> u8 \<Rightarrow> bool \<times> icDevice \<Rightarrow> bool \<times> icDevice" where
  "add_if_available vs i t md = (\<lambda>(ok, d).
     case createDeviceResourceIfAvailable d (Some i) vs (Some t) md CACHING_POLICY_ALWAYS of (d', r) \<Rightarrow> (ok \<and> r \<noteq> None, d'))"

definition addCommonResources :: "icDevice \<Rightarrow> icInitialResourceValues \<Rightarrow> bool \<times> icDevice" where
  "addCommonResources d vs =
     (let a1 = add_if_available vs COMMON_DEVICE_RESOURCE_MANUFACTURER RESOURCE_TYPE_STRING RESOURCE_MODE_READABLE (True, d);
          a2 = add_if_available vs COMMON_DEVICE_RESOURCE_MODEL RESOURCE_TYPE_STRING
                 (or RESOURCE_MODE_READABLE RESOURCE_MODE_EMIT_EVENTS) a1;
          a3 = add_if_available vs COMMON_DEVICE_RESOURCE_HARDWARE_VERSION RESOURCE_TYPE_VERSION RESOURCE_MODE_READABLE a2;
          a4 = add_if_available vs COMMON_DEVICE_RESOURCE_FIRMWARE_VERSION RESOURCE_TYPE_VERSION
                 (or (or RESOURCE_MODE_READABLE RESOURCE_MODE_DYNAMIC) RESOURCE_MODE_EMIT_EVENTS) a3;
          a5 = add_if_available vs COMMON_DEVICE_RESOURCE_FIRMWARE_UPDATE_STATUS RESOURCE_TYPE_FIRMWARE_VERSION_STATUS
                 (or (or RESOURCE_MODE_READABLE RESOURCE_MODE_DYNAMIC) RESOURCE_MODE_EMIT_EVENTS) a4;
          a6 = add_if_available vs COMMON_DEVICE_RESOURCE_DATE_ADDED RESOURCE_TYPE_DATETIME RESOURCE_MODE_READABLE a5;
          a7 = add_if_available vs COMMON_DEVICE_RESOURCE_DATE_LAST_CONTACTED RESOURCE_TYPE_DATETIME
                 (or (or RESOURCE_MODE_READABLE RESOURCE_MODE_DYNAMIC) RESOURCE_MODE_LAZY_SAVE_NEXT) a6;
          (ok, d8) = add_if_available vs COMMON_DEVICE_RESOURCE_COMM_FAIL RESOURCE_TYPE_TROUBLE
                 (or (or RESOURCE_MODE_READABLE RESOURCE_MODE_DYNAMIC) RESOURCE_MODE_EMIT_EVENTS) a7
      in case createDeviceResource d8 (Some COMMON_DEVICE_FUNCTION_RESET_TO_FACTORY) None
           (Some RESOURCE_TYPE_RESET_TO_FACTORY_OPERATION) RESOURCE_MODE_EXECUTABLE CACHING_POLICY_NEVER of
           (d9, r) \<Rightarrow> (ok \<and> r \<noteq> None, d9))"

section \<open>Discovery filters\<close>

definition discoveryFilterCreate :: "cstr \<Rightarrow> cstr \<Rightarrow> discoveryFilter option" where
  "discoveryFilterCreate up vp =
     (case (up, vp) of (Some u, Some v) \<Rightarrow> Some \<lparr>uriPattern = u, valuePattern = v\<rparr> | _ \<Rightarrow> None)"

definition cloneDiscoveryFilterItems :: "discoveryFilter option \<Rightarrow> discoveryFilter option" where
  "cloneDiscoveryFilterItems item =
     (case item of None \<Rightarrow> None | Some f \<Rightarrow> discoveryFilterCreate (Some (uriPattern f)) (Some (valuePattern f)))"

text \<open>A filter whose patterns compile and match some initial value, key and value both.\<close>

definition filter_matches :: "('j, 's, 'w) svc_env \<Rightarrow> icInitialResourceValues \<Rightarrow> discoveryFilter \<Rightarrow> bool" where
  "filter_matches E vs f =
     (case (svc_regcomp E (uriPattern f), svc_regcomp E (valuePattern f)) of
        (Some uriRegex, Some valueRegex) \<Rightarrow>
          list_ex (\<lambda>(k, v). case v of None \<Rightarrow> False | Some x \<Rightarrow> uriRegex k \<and> valueRegex x) (items vs)
      | _ \<Rightarrow> False)"

definition checkDeviceDiscoveryFilters ::
  "('j, 's, 'w) svc_env \<Rightarrow> icDevice \<Rightarrow> icInitialResourceValues \<Rightarrow> ('j, 's, 'w) device_service \<Rightarrow> bool option" where
  "checkDeviceDiscoveryFilters E d vs s =
     (case d_deviceClass d of None \<Rightarrow> None
      | Some c \<Rightarrow> Some (case hashMapGet (activeDiscoveries s) c of None \<Rightarrow> True
          | Some ctx \<Rightarrow> (case ctx_filters ctx of None \<Rightarrow> True | Some fs \<Rightarrow> list_all (filter_matches E vs) fs)))"

section \<open>The new device\<close>

definition set_endpoint_uris :: "string \<Rightarrow> icDeviceEndpoint \<Rightarrow> icDeviceEndpoint option" where
  "set_endpoint_uris u e = do {
     i \<leftarrow> e_id e;
     rs \<leftarrow> setUrisOnResources (Some (endpointUriCreate u i)) (e_resources e);
     Some (e\<lparr>e_uri := Some (endpointUriCreate u i), e_resources := rs\<rparr>) }"

definition setUris :: "icDevice \<Rightarrow> icDevice option" where
  "setUris d = do {
     u \<leftarrow> d_uuid d;
     rs \<leftarrow> setUrisOnResources (Some (CHR ''/'' # u)) (d_resources d);
     es \<leftarrow> (case d_endpoints d of None \<Rightarrow> Some None | Some l \<Rightarrow> map_option Some (collect (set_endpoint_uris u) l));
     Some (d\<lparr>d_uri := Some (CHR ''/'' # u), d_resources := rs, d_endpoints := es\<rparr>) }"

fun update_each ::
  "('j, 's, 'w) svc_env \<Rightarrow> cstr \<Rightarrow> (icDeviceResource \<Rightarrow> cstr) \<Rightarrow> icDeviceResource list \<Rightarrow> ('j, 's, 'w) device_service \<Rightarrow>
   ('j, 's, 'w) device_service option" where
  "update_each E uuid ep [] s = Some s"
| "update_each E uuid ep (r # rs) s = do {
     s1 \<leftarrow> updateResource E uuid (ep r) (r_id r) (r_value r) None s;
     update_each E uuid ep rs s1 }"

fun set_each ::
  "('j, 's, 'w) svc_env \<Rightarrow> cstr \<Rightarrow> (icDeviceMetadata \<Rightarrow> cstr) \<Rightarrow> icDeviceMetadata list \<Rightarrow> ('j, 's, 'w) device_service \<Rightarrow>
   ('j, 's, 'w) device_service option" where
  "set_each E uuid ep [] s = Some s"
| "set_each E uuid ep (m # ms) s = do {
     s1 \<leftarrow> setMetadata E uuid (ep m) (m_id m) (m_value m) s;
     set_each E uuid ep ms s1 }"

fun update_endpoints ::
  "('j, 's, 'w) svc_env \<Rightarrow> cstr \<Rightarrow> icDeviceEndpoint list \<Rightarrow> ('j, 's, 'w) device_service \<Rightarrow> ('j, 's, 'w) device_service option" where
  "update_endpoints E uuid [] s = Some s"
| "update_endpoints E uuid (e # es) s = do {
     s1 \<leftarrow> update_each E uuid r_endpointId (items (e_resources e)) s;
     s2 \<leftarrow> set_each E uuid m_endpointId (items (e_metadata e)) s1;
     update_endpoints E uuid es s2 }"

definition updateDataOfRecoveredDevice ::
  "('j, 's, 'w) svc_env \<Rightarrow> icDevice option \<Rightarrow> ('j, 's, 'w) device_service \<Rightarrow> (bool \<times> ('j, 's, 'w) device_service) option" where
  "updateDataOfRecoveredDevice E device s =
     (case device of None \<Rightarrow> Some (False, s)
      | Some d \<Rightarrow> do {
          s1 \<leftarrow> update_each E (d_uuid d) (\<lambda>_. None) (items (d_resources d)) s;
          s2 \<leftarrow> set_each E (d_uuid d) (\<lambda>_. None) (items (d_metadata d)) s1;
          s3 \<leftarrow> update_endpoints E (d_uuid d) (items (d_endpoints d)) s2;
          Some (True, s3) })"

text \<open>The time zone of the service is written to a device that has the resource.\<close>

definition write_new_timezone ::
  "('j, 's, 'w) svc_env \<Rightarrow> icDevice \<Rightarrow> ('j, 's, 'w) device_service \<Rightarrow> ('j, 's, 'w) device_service option" where
  "write_new_timezone E d s = do {
     tzResource \<leftarrow> deviceServiceFindDeviceResourceById (Some d) COMMON_DEVICE_RESOURCE_TIMEZONE;
     case tzResource of None \<Rightarrow> Some s
     | Some r \<Rightarrow>
         (case get_property_as_string (svc_provider E) (Some POSIX_TIME_ZONE_PROP) None (svc_world s) (svc_db s) of
            None \<Rightarrow> Some s
          | Some posixTZ \<Rightarrow> map_option snd (deviceServiceWriteResource E (r_uri r) (Some posixTZ) s)) }"

definition added_events :: "icDevice \<Rightarrow> 'j svc_event list" where
  "added_events d = EvDeviceAdded (d_uuid d) # map (\<lambda>e. EvEndpointAdded e (d_deviceClass d)) (filter e_enabled (items (d_endpoints d)))"

definition finalizeNewDevice ::
  "('j, 's, 'w) svc_env \<Rightarrow> icDevice option \<Rightarrow> bool \<Rightarrow> bool \<Rightarrow> ('j, 's, 'w) device_service \<Rightarrow>
   ((bool \<times> icDevice option) \<times> ('j, 's, 'w) device_service) option" where
  "finalizeNewDevice E device sendEvents inRepairMode s =
     (case device of None \<Rightarrow> Some ((False, None), s)
      | Some d \<Rightarrow> do {
          d1 \<leftarrow> setUris d;
          s1 \<leftarrow> write_new_timezone E d1 s;
          (ok, s2) \<leftarrow> (if inRepairMode then updateDataOfRecoveredDevice E (Some d1) s1
                         else in_db (jsonDatabaseAddDevice (svc_db_env E) (Some d1)) s1);
          Some ((ok, Some d1), if \<not> sendEvents then s2
            else if \<not> inRepairMode then publish (added_events d1) s2
            else publish [EvDeviceRecovered (d_uuid d1)] s2) })"

section \<open>A device is found\<close>

definition repair_mode :: "DeviceFoundDetails \<Rightarrow> ('j, 's, 'w) device_service \<Rightarrow> bool" where
  "repair_mode details s =
     (case hashMapGet (activeDiscoveries s) (fd_deviceClass details) of None \<Rightarrow> False | Some ctx \<Rightarrow> ctx_findOrphanedDevices ctx)"

definition reject_device ::
  "DeviceFoundDetails \<Rightarrow> bool \<Rightarrow> ('j, 's, 'w) device_service \<Rightarrow> ('j, 's, 'w) device_service" where
  "reject_device details inRepairMode s =
     publish [EvDeviceRejected (fd_deviceUuid details) inRepairMode] (markDeviceRejected (fd_deviceUuid details) s)"

definition pairing_ops :: "('j, 's, 'w) svc_env \<Rightarrow> DeviceFoundDetails \<Rightarrow> ('j, 's, 'w) driver_ops" where
  "pairing_ops E details = (if fd_deviceMigrator details then migratorOps E else driverOps E (fd_deviceDriver details))"

definition descriptor_timeout :: "('j, 's, 'w) svc_env \<Rightarrow> DeviceDescriptor option \<Rightarrow> ('j, 's, 'w) device_service \<Rightarrow> u32" where
  "descriptor_timeout E dd s =
     (let secs = deviceServiceCommFailGetTimeoutSecs (svc_fail s)
      in case deviceDescriptorGetMetadataValue dd COMMON_DEVICE_METADATA_COMMFAIL_OVERRIDE_SECS of None \<Rightarrow> secs
         | Some t \<Rightarrow> (case asciiToUnsigned (svc_cf_env E) t of None \<Rightarrow> secs | Some v \<Rightarrow> v))"

text \<open>
  The resources of a configured device: the common values, the values of the driver, the common
  resources, the resources of the driver, the filters, the descriptor. The first that fails ends it. A driver
  must have a function to register its resources.
\<close>

definition pair_resources ::
  "('j, 's, 'w) svc_env \<Rightarrow> DeviceFoundDetails \<Rightarrow> DeviceDescriptor option \<Rightarrow> icDevice \<Rightarrow> ('j, 's, 'w) device_service \<Rightarrow>
   ((bool \<times> icDevice) \<times> ('j, 's, 'w) device_service) option" where
  "pair_resources E details dd d s =
     (let ops = pairing_ops E details; drv = fd_deviceDriver details; name = driverName drv;
          (vs, s1) = fetchCommonResourcesInitialValues (fd_manufacturer details) (fd_model details)
            (fd_hardwareVersion details) (fd_firmwareVersion details) initialResourceValuesCreate s;
          ((ok1, d1, vs1), s2) = (case fetchInitialResourceValues ops of None \<Rightarrow> ((True, d, vs), s1)
            | Some f \<Rightarrow> f d vs (publish [Called name (FetchInitialResourceValues d)] s1))
      in if \<not> ok1 then Some ((False, d1), s2)
         else (case addCommonResources d1 vs1 of (ok2, d2) \<Rightarrow>
           if \<not> ok2 then Some ((False, d2), s2)
           else (case registerResources ops of None \<Rightarrow> None
             | Some register \<Rightarrow>
                 (case register d2 vs1 (publish [Called name (RegisterResources d2)] s2) of ((ok3, d3), s3) \<Rightarrow>
                   if \<not> ok3 then Some ((False, d3), s3)
                   else do {
                     ok4 \<leftarrow> checkDeviceDiscoveryFilters E d3 vs1 s3;
                     Some (if \<not> ok4 then ((False, d3), s3)
                       else (case (processDeviceDescriptor (driverOps E drv), dd) of
                           (Some process, Some x) \<Rightarrow> process d3 x (publish [Called name (ProcessDeviceDescriptor d3 x)] s3)
                         | _ \<Rightarrow> ((True, d3), s3))) }))))"

text \<open>From the creation of the device to the end of the pairing.\<close>

definition configure_found ::
  "('j, 's, 'w) svc_env \<Rightarrow> DeviceFoundDetails \<Rightarrow> bool \<Rightarrow> DeviceDescriptor option \<Rightarrow> icDevice \<Rightarrow> ('j, 's, 'w) device_service \<Rightarrow>
   ((bool \<times> icDevice) \<times> ('j, 's, 'w) device_service) option" where
  "configure_found E details inRepairMode dd d s =
     (let ops = pairing_ops E details; sendEvents = (\<not> fd_deviceMigrator details);
          cls = fd_deviceClass details; u = fd_deviceUuid details;
          ((ok, d1), s1) = (case configureDevice ops of None \<Rightarrow> ((True, d), s)
            | Some f \<Rightarrow> f d dd (publish [Called (driverName (fd_deviceDriver details)) (ConfigureDevice d dd)] s))
      in if \<not> ok then Some ((False, d1), if sendEvents then publish [EvConfigureFailed cls u inRepairMode] s1 else s1)
         else pair_resources E details dd d1 (if sendEvents then publish [EvConfigureCompleted cls u inRepairMode] s1 else s1))"

definition take_mark ::
  "icDevice \<Rightarrow> ('j, 's, 'w) device_service \<Rightarrow> (bool \<times> ('j, 's, 'w) device_service) option" where
  "take_mark d s = (case d_uuid d of None \<Rightarrow> None
     | Some u \<Rightarrow> (case hashMapDelete (markedForRemoval s) u of (marked, m) \<Rightarrow> Some (\<not> marked, s\<lparr>markedForRemoval := m\<rparr>)))"

definition pairing_succeeded ::
  "('j, 's, 'w) svc_env \<Rightarrow> DeviceFoundDetails \<Rightarrow> bool \<Rightarrow> icDevice \<Rightarrow> ('j, 's, 'w) device_service \<Rightarrow> ('j, 's, 'w) device_service option" where
  "pairing_succeeded E details inRepairMode d s =
     (let s1 = (if fd_deviceMigrator details then s else publish [EvDiscoveryCompleted d inRepairMode] s);
          s2 = (if inRepairMode then s1 else notify_driver (fd_deviceDriver details) (DevicePersisted d)
                  (map_option (\<lambda>f. f d) (devicePersisted (pairing_ops E details))) s1)
      in set_device_timeout E d s2)"

definition pairing_failed ::
  "('j, 's, 'w) svc_env \<Rightarrow> DeviceFoundDetails \<Rightarrow> bool \<Rightarrow> icDevice \<Rightarrow> ('j, 's, 'w) device_service \<Rightarrow> ('j, 's, 'w) device_service" where
  "pairing_failed E details inRepairMode d s =
     markDevicePairingFailed (fd_deviceUuid details)
       (if fd_deviceMigrator details then s
        else publish [EvDiscoveryFailed (fd_deviceUuid details) inRepairMode]
          (notify_driver (fd_deviceDriver details) (DeviceRemoved d)
             (map_option (\<lambda>f. f d) (deviceRemoved (driverOps E (fd_deviceDriver details)))) s))"

text \<open>A device the marks keep, or whose finalisation fails, is not paired.\<close>

definition finish_pairing ::
  "('j, 's, 'w) svc_env \<Rightarrow> DeviceFoundDetails \<Rightarrow> bool \<Rightarrow> bool \<times> icDevice \<Rightarrow> ('j, 's, 'w) device_service \<Rightarrow>
   (bool \<times> ('j, 's, 'w) device_service) option" where
  "finish_pairing E details inRepairMode r s = do {
     (ok1, s1) \<leftarrow> (if fst r then take_mark (snd r) s else Some (False, s));
     ((ok2, device), s2) \<leftarrow> (if ok1 then finalizeNewDevice E (Some (snd r)) (\<not> fd_deviceMigrator details) inRepairMode s1
       else Some ((False, Some (snd r)), s1));
     d \<leftarrow> device;
     if ok2 then map_option (Pair True) (pairing_succeeded E details inRepairMode d s2)
     else Some (False, pairing_failed E details inRepairMode d s2) }"

definition deviceServiceDeviceFound ::
  "('j, 's, 'w) svc_env \<Rightarrow> DeviceFoundDetails \<Rightarrow> bool \<Rightarrow> ('j, 's, 'w) device_service \<Rightarrow> (bool \<times> ('j, 's, 'w) device_service) option" where
  "deviceServiceDeviceFound E details never_reject s =
     (let inRepairMode = repair_mode details s
      in if deviceServiceIsDeviceDenylisted E (Some (fd_deviceUuid details)) s then Some (False, reject_device details inRepairMode s)
         else do {
           (dd, st) \<leftarrow> deviceDescriptorsGet (svc_util E) (svc_parse E) (fd_manufacturer details) (fd_model details)
             (fd_hardwareVersion details) (fd_firmwareVersion details) (svc_descriptors s);
           let s1 = s\<lparr>svc_descriptors := st\<rparr>;
           if dd = None \<and> \<not> never_reject \<and> \<not> fd_deviceMigrator details \<and> \<not> isDeviceDescriptorBypassed s1
              then Some (False, reject_device details inRepairMode s1)
              else do {
                device \<leftarrow> createDevice (Some (fd_deviceUuid details)) (Some (fd_deviceClass details)) (fd_deviceClassVersion details)
                  (driverName (fd_deviceDriver details)) dd;
                d \<leftarrow> device;
                let s2 = (if fd_deviceMigrator details then s1
                  else publish [EvDeviceDiscovered (fd_deviceUuid details) inRepairMode,
                    EvConfigureStarted (fd_deviceClass details) (fd_deviceUuid details) inRepairMode] s1);
                es \<leftarrow> (case deviceServiceCommFailHintDeviceTimeoutSecs (svc_cf_env E) d (descriptor_timeout E dd s2) (svc_drivers s2) of
                  Inl _ \<Rightarrow> None | Inr es \<Rightarrow> Some es);
                (r, s3) \<leftarrow> configure_found E details inRepairMode dd d (publish (map EvCommFail es) s2);
                finish_pairing E details inRepairMode r s3 } })"

section \<open>Finalising a new device\<close>

lemma collect_set: "collect f xs = Some ys \<Longrightarrow> y \<in> set ys \<Longrightarrow> \<exists>x \<in> set xs. f x = Some y"
  by (induction xs arbitrary: ys) (auto simp: bind_eq_Some_conv)

lemma setUris_resources:
  assumes "setUris d = Some d1" "d_uuid d = Some u"
  shows "d_uuid d1 = Some u" "d_uri d1 = Some (CHR ''/'' # u)"
    and "\<And>r. r \<in> set (items (d_resources d1)) \<Longrightarrow> \<exists>i. r_id r = Some i \<and> r_uri r = Some (CHR ''/'' # u @ ''/r/'' @ i)"
proof -
  obtain rs es where d1: "setUrisOnResources (Some (CHR ''/'' # u)) (d_resources d) = Some rs"
    "d1 = d\<lparr>d_uri := Some (CHR ''/'' # u), d_resources := rs, d_endpoints := es\<rparr>"
    using assms by (auto simp: setUris_def bind_eq_Some_conv)
  then show "d_uuid d1 = Some u" "d_uri d1 = Some (CHR ''/'' # u)" using assms by auto
  fix r assume r: "r \<in> set (items (d_resources d1))"
  then have "\<exists>x. setUriOnResource (Some (CHR ''/'' # u)) x = Some r"
    using d1 by (cases "d_resources d") (auto simp: setUrisOnResources_def dest!: collect_set)
  then show "\<exists>i. r_id r = Some i \<and> r_uri r = Some (CHR ''/'' # u @ ''/r/'' @ i)"
    by (auto simp: setUriOnResource_def split: option.splits)
qed

lemma seek_resource_total:
  "\<forall>r \<in> set rs. r_id r \<noteq> None \<Longrightarrow> \<exists>x. seek_resource k rs = Some x \<and> (\<forall>r. x = Some r \<longrightarrow> r \<in> set rs \<and> r_id r = Some k)"
  by (induction rs) (auto split: option.splits)

lemma write_unknown_uri:
  assumes "\<not> isUriPattern u" "u \<notin> keys_of (resourcesByUri (svc_db s))"
  shows "deviceServiceWriteResource E (Some u) v s = Some (True, s)"
proof -
  have "hashMapGet (resourcesByUri (svc_db s)) u = None" using assms(2) by (simp add: hashMapGet_none)
  then show ?thesis using assms(1)
    by (simp add: deviceServiceWriteResource_def deviceServiceGetResourcesByUriPatternInternal_def jsonDatabaseGetResourceByUri_def)
qed

text \<open>The time zone is written to a URI the database does not have yet.\<close>

lemma new_timezone_not_written:
  assumes "setUris d = Some d1" "d_uuid d = Some u" "\<not> isUriPattern u"
    and "keys_of (device_entries u d1) \<inter> keys_of (resourcesByUri (svc_db s)) = {}"
  shows "write_new_timezone E d1 s = Some s"
proof -
  note d1 = setUris_resources [OF assms(1,2)]
  obtain x where x: "deviceServiceFindDeviceResourceById (Some d1) COMMON_DEVICE_RESOURCE_TIMEZONE = Some x"
    "\<forall>r. x = Some r \<longrightarrow> r \<in> set (items (d_resources d1)) \<and> r_id r = Some COMMON_DEVICE_RESOURCE_TIMEZONE"
    using seek_resource_total [of "items (d_resources d1)" COMMON_DEVICE_RESOURCE_TIMEZONE] d1(3)
    by (fastforce simp: deviceServiceFindDeviceResourceById_def)
  show ?thesis
  proof (cases x)
    case None
    then show ?thesis using x(1) by (simp add: write_new_timezone_def)
  next
    case (Some r)
    let ?uri = "CHR ''/'' # u @ ''/r/'' @ COMMON_DEVICE_RESOURCE_TIMEZONE"
    have r: "r \<in> set (items (d_resources d1))" "r_uri r = Some ?uri" using x(2) Some d1(3) by fastforce+
    then have "(?uri, ResourceLocator u None ?uri) \<in> set (device_entries u d1)"
      by (force simp: device_entries_def d1(2) resource_entries_def List.map_filter_def)
    then have "?uri \<in> keys_of (device_entries u d1)" by force
    then have "?uri \<notin> keys_of (resourcesByUri (svc_db s))" using assms(4) by blast
    moreover have "\<not> isUriPattern ?uri" using assms(3) by (auto simp: isUriPattern_def COMMON_DEVICE_RESOURCE_TIMEZONE_def)
    ultimately show ?thesis
      using x(1) Some r(2) write_unknown_uri [of ?uri s E] by (simp add: write_new_timezone_def split: option.splits)
  qed
qed

lemma finalize_new_effect:
  assumes "db_inv (svc_db s)" "setUris d = Some d1" "d_uuid d = Some u" "\<not> isUriPattern u"
    and "\<not> jsonDatabaseIsDeviceKnown (Some u) (svc_db s)" "metadata_uris_present d1"
    and "keys_of (device_entries u d1) \<inter> keys_of (resourcesByUri (svc_db s)) = {}"
  shows "\<exists>ok db'. finalizeNewDevice E (Some d) sendEvents False s =
      Some ((ok, Some d1), publish (if sendEvents then added_events d1 else []) (set_db db' s)) \<and> db_inv db' \<and>
    ok = (loads (svc_util E) u d1 \<and> fst (saveDevice (svc_db_env E) d1 (svc_db s))) \<and>
    (if ok then jsonDatabaseGetDevices db' = jsonDatabaseGetDevices (svc_db s) @ [d1]
     else devices db' = devices (svc_db s) \<and> resourcesByUri db' = resourcesByUri (svc_db s))"
proof -
  from addDevice_atomic [OF assms(1) setUris_resources(1) [OF assms(2,3)] assms(5,6,7), of "svc_db_env E"] obtain ok db' where
    r: "jsonDatabaseAddDevice (svc_db_env E) (Some d1) (svc_db s) = Some (ok, db')" "db_inv db'"
      "ok = (loads (svc_util E) u d1 \<and> fst (saveDevice (svc_db_env E) d1 (svc_db s)))"
      "if ok then jsonDatabaseGetDevices db' = jsonDatabaseGetDevices (svc_db s) @ [d1]
       else devices db' = devices (svc_db s) \<and> resourcesByUri db' = resourcesByUri (svc_db s)"
    by (auto split: if_splits)
  show ?thesis
    by (rule exI [of _ ok], rule exI [of _ db'])
      (use r new_timezone_not_written [OF assms(2,3,4,7), of E] assms(2) in \<open>simp add: finalizeNewDevice_def in_db_result\<close>)
qed

text \<open>
  C20. Finalising a new device. The device, with the URIs of its tree, is added to the database, as a
  whole or not at all. Nothing else happens but the events: a time zone the service has is not written
  to the device, since the write comes before the device is in the database, and the device and its
  endpoints are reported as added even when adding them has failed.
\<close>

theorem finalize_new_device:
  assumes "db_inv (svc_db s)" "setUris d = Some d1" "d_uuid d = Some u" "\<not> isUriPattern u"
    and "\<not> jsonDatabaseIsDeviceKnown (Some u) (svc_db s)" "metadata_uris_present d1"
    and "keys_of (device_entries u d1) \<inter> keys_of (resourcesByUri (svc_db s)) = {}"
  shows "\<exists>ok db'. finalizeNewDevice E (Some d) sendEvents False s =
      Some ((ok, Some d1), publish (if sendEvents then added_events d1 else []) (set_db db' s)) \<and> db_inv db' \<and>
    ok = (loads (svc_util E) u d1 \<and> fst (saveDevice (svc_db_env E) d1 (svc_db s))) \<and>
    (if ok then jsonDatabaseGetDevices db' = jsonDatabaseGetDevices (svc_db s) @ [d1]
     else devices db' = devices (svc_db s) \<and> resourcesByUri db' = resourcesByUri (svc_db s))"
  by (rule finalize_new_effect [OF assms])

definition zoned_device :: icDevice where
  "zoned_device = \<lparr>d_uuid = Some ''d2'', d_deviceClass = Some ''camera'', d_deviceClassVersion = 1, d_uri = None,
     d_managingDeviceDriver = Some ''ZigbeeDoorLock'', d_endpoints = Some [],
     d_resources = Some [\<lparr>r_id = Some ''timezone'', r_uri = None, r_endpointId = None, r_deviceUuid = Some ''d2'', r_value = Some ''UTC'',
       r_type = Some ''com.icontrol.timeZone'', r_mode = 3, r_cachingPolicy = CACHING_POLICY_ALWAYS, r_dateOfLastSyncMillis = 0\<rparr>],
     d_metadata = Some []\<rparr>"

definition zoned_service :: "(json, (string \<times> string) list, unit) device_service" where
  "zoned_service = set_db (one_db\<lparr>systemProperties := [(''POSIX_TZ'', ''CST6CDT'')]\<rparr>) example_service"

theorem finalize_new_device_witness:
  "\<exists>d1 s'. finalizeNewDevice example_svc_env (Some zoned_device) True False zoned_service = Some ((True, Some d1), s') \<and>
     jsonDatabaseGetDevices (svc_db s') = [example_device, d1] \<and>
     svc_log s' = [EvDeviceAdded (Some ''d2'')] \<and>
     get_property_as_string default_provider (Some POSIX_TIME_ZONE_PROP) None () (svc_db zoned_service) = Some ''CST6CDT'' \<and>
     map r_value (items (d_resources d1)) = [Some ''UTC'']"
proof -
  define d1 where "d1 = the (setUris zoned_device)"
  have d1: "setUris zoned_device = Some d1" "d_uuid zoned_device = Some ''d2''" "\<not> isUriPattern ''d2''" "metadata_uris_present d1"
    "loads example_util ''d2'' d1" "(added_events d1 :: json svc_event list) = [EvDeviceAdded (Some ''d2'')]" "map r_value (items (d_resources d1)) = [Some ''UTC'']"
    unfolding d1_def by code_simp+
  have db: "svc_db zoned_service = one_db\<lparr>systemProperties := [(''POSIX_TZ'', ''CST6CDT'')]\<rparr>" "svc_log zoned_service = []"
    by (simp_all add: zoned_service_def) (simp add: example_service_def)
  have inv: "db_inv (svc_db zoned_service)" using db_inv_one_db by (simp add: db db_inv_def)
  have new: "\<not> jsonDatabaseIsDeviceKnown (Some ''d2'') (svc_db zoned_service)"
    by (simp add: db jsonDatabaseIsDeviceKnown_def one_db_def hashMapContains_def)
  have "keys_of (device_entries ''d2'' d1) \<inter> keys_of (device_entries ''d1'' example_device) = {}"
    unfolding d1_def by code_simp
  then have disj: "keys_of (device_entries ''d2'' d1) \<inter> keys_of (resourcesByUri (svc_db zoned_service)) = {}"
    by (simp add: db one_db_def)
  have "jsonDatabaseGetDevices (svc_db zoned_service) = [example_device]"
    by (simp add: db one_db_def jsonDatabaseGetDevices_def List.map_filter_def)
  moreover have "fst (saveDevice (svc_db_env example_svc_env) d1 (svc_db zoned_service))" "svc_util example_svc_env = example_util"
    by (simp_all add: saveDevice_def example_svc_env_def example_env_def d1)
  moreover have "get_property_as_string default_provider (Some POSIX_TIME_ZONE_PROP) None () (svc_db zoned_service) = Some ''CST6CDT''"
    by (simp add: db get_property_as_string_def get_property_default deviceServiceGetSystemProperty_def jsonDatabaseGetSystemProperty_def
        POSIX_TIME_ZONE_PROP_def hashMapGet_def)
  ultimately show ?thesis
    using finalize_new_device [OF inv d1(1-3) new d1(4) disj, of example_svc_env True] d1(5-7) db(2)
    by (auto intro!: exI [of _ d1])
qed

text \<open>
  A removal of a device that is not known leaves a mark, and the next pairing of that device fails
  because of it, however it went until then: the device is not added, the driver is told to forget it,
  and the failure is reported. The mark is gone then.
\<close>

theorem unknown_removal_fails_pairing:
  assumes "\<not> jsonDatabaseIsDeviceKnown (Some u) (svc_db s)" "d_uuid d = Some u"
  shows "\<exists>s1. deviceServiceRemoveDevice E (Some u) s = Some (True, s1) \<and>
    (\<forall>s2. markedForRemoval s2 = markedForRemoval s1 \<longrightarrow>
       finish_pairing E details inRepairMode (True, d) s2 =
         Some (False, pairing_failed E details inRepairMode d (s2\<lparr>markedForRemoval := without {u} (markedForRemoval s)\<rparr>)))"
proof -
  have "jsonDatabaseGetDeviceById (Some u) (svc_db s) = None"
    using assms(1) by (auto simp: jsonDatabaseIsDeviceKnown_def getDeviceById_get hmap_simps)
  moreover have "hashMapDelete (snd (hashMapPut (markedForRemoval s) u ())) u = (True, without {u} (markedForRemoval s))"
    by (cases "map_of (markedForRemoval s) u") (auto simp: hashMapDelete_def hashMapPut_def hashMapContains_def without_def map_add_def)
  ultimately show ?thesis
    using assms(2) by (intro exI [of _ "s\<lparr>markedForRemoval := snd (hashMapPut (markedForRemoval s) u ())\<rparr>"])
      (simp add: deviceServiceRemoveDevice_def finish_pairing_def take_mark_def)
qed

theorem unknown_removal_fails_pairing_witness:
  "\<exists>s1. deviceServiceRemoveDevice example_svc_env (Some ''d2'') example_service = Some (True, s1) \<and>
     map_option fst (finish_pairing example_svc_env \<lparr>fd_deviceDriver = example_driver ''ZigbeeDoorLock'' ''zigbee'', fd_deviceMigrator = False,
       fd_deviceClass = ''camera'', fd_deviceClassVersion = 1, fd_deviceUuid = ''d2'', fd_manufacturer = None, fd_model = None,
       fd_hardwareVersion = None, fd_firmwareVersion = None\<rparr> False (True, zoned_device) s1) = Some False"
proof -
  have "\<not> jsonDatabaseIsDeviceKnown (Some ''d2'') (svc_db example_service)" "d_uuid zoned_device = Some ''d2''"
    by (simp_all add: jsonDatabaseIsDeviceKnown_def one_db_def hashMapContains_def zoned_device_def)
  from unknown_removal_fails_pairing [OF this, of example_svc_env "\<lparr>fd_deviceDriver = example_driver ''ZigbeeDoorLock'' ''zigbee'',
      fd_deviceMigrator = False, fd_deviceClass = ''camera'', fd_deviceClassVersion = 1, fd_deviceUuid = ''d2'', fd_manufacturer = None,
      fd_model = None, fd_hardwareVersion = None, fd_firmwareVersion = None\<rparr>" False]
  obtain s1 where s1: "deviceServiceRemoveDevice example_svc_env (Some ''d2'') example_service = Some (True, s1)"
    "\<forall>s2. markedForRemoval s2 = markedForRemoval s1 \<longrightarrow> (\<exists>x. finish_pairing example_svc_env \<lparr>fd_deviceDriver = example_driver ''ZigbeeDoorLock'' ''zigbee'',
      fd_deviceMigrator = False, fd_deviceClass = ''camera'', fd_deviceClassVersion = 1, fd_deviceUuid = ''d2'', fd_manufacturer = None,
      fd_model = None, fd_hardwareVersion = None, fd_firmwareVersion = None\<rparr> False (True, zoned_device) s2 = Some (False, x))"
    by blast
  from s1(2) [rule_format, of s1] s1(1) show ?thesis by auto
qed

end
