(* ===== verification/Device_Discovery.thy ===== *)
theory Device_Discovery
  imports Device_Pairing
begin

text \<open>
  Discovery of devices: \<^verbatim>\<open>deviceServiceDiscoverStart\<close>, \<^verbatim>\<open>deviceServiceDiscoverStop\<close> and the monitor threads of
  \<^verbatim>\<open>core/src/deviceService.c\<close>. The functions hold \<^verbatim>\<open>discoveryControlMutex\<close> from beginning to end and are
  one step each. A monitor thread is created for every device class; between its locked parts other
  threads run, so its stages are separate steps of the relation \<open>disc_step\<close>.
\<close>

section \<open>Starting\<close>

definition getDriversForDiscovery :: "('j, 's, 'w) svc_env \<Rightarrow> string \<Rightarrow> ('j, 's, 'w) device_service \<Rightarrow> DeviceDriver list option" where
  "getDriversForDiscovery E deviceClass s =
     (case deviceDriverManagerGetDeviceDriversByDeviceClass (Some deviceClass) (svc_drivers s) of None \<Rightarrow> None
      | Some drivers \<Rightarrow> Some (if \<not> deviceServiceIsReadyForDeviceOperation s
          then filter (\<lambda>drv. neverReject (driverOps E drv)) drivers else drivers))"

definition validateDeviceClassForDiscovery :: "('j, 's, 'w) svc_env \<Rightarrow> DeviceDriver list option \<Rightarrow> bool \<Rightarrow> bool" where
  "validateDeviceClassForDiscovery E drivers findOrphanedDevices =
     (case drivers of None \<Rightarrow> False
      | Some ds \<Rightarrow> ds \<noteq> [] \<and> (findOrphanedDevices \<longrightarrow> list_ex (\<lambda>drv. recoverDevices (driverOps E drv) \<noteq> None) ds))"

definition checkDescriptorReadinessForDiscovery ::
  "('j, 's, 'w) svc_env \<Rightarrow> DeviceDriver list \<Rightarrow> ('j, 's, 'w) device_service \<Rightarrow> bool" where
  "checkDescriptorReadinessForDiscovery E drivers s =
     (deviceDescriptorsListIsReady s \<or> list_ex (\<lambda>drv. neverReject (driverOps E drv)) drivers)"

text \<open>The function of a driver that starts it, for discovery or recovery, and the call.\<close>

definition start_function ::
  "('j, 's, 'w) svc_env \<Rightarrow> bool \<Rightarrow> DeviceDriver \<Rightarrow> (string \<Rightarrow> ('j, 's, 'w) device_service \<Rightarrow> bool \<times> ('j, 's, 'w) device_service) option" where
  "start_function E findOrphanedDevices drv =
     (if findOrphanedDevices then recoverDevices (driverOps E drv) else discoverDevices (driverOps E drv))"

definition start_call :: "bool \<Rightarrow> string \<Rightarrow> driver_call" where
  "start_call findOrphanedDevices c = (if findOrphanedDevices then RecoverDevices c else DiscoverDevices c)"

fun start_drivers ::
  "('j, 's, 'w) svc_env \<Rightarrow> string \<Rightarrow> bool \<Rightarrow> DeviceDriver list \<Rightarrow> ('j, 's, 'w) device_service \<Rightarrow>
   (DeviceDriver list \<times> bool) \<times> ('j, 's, 'w) device_service" where
  "start_drivers E c orphaned [] s = (([], False), s)"
| "start_drivers E c orphaned (drv # ds) s =
     (if \<not> neverReject (driverOps E drv) \<and> \<not> deviceDescriptorsListIsReady s then start_drivers E c orphaned ds s
      else (case start_function E orphaned drv of None \<Rightarrow> start_drivers E c orphaned ds s
        | Some f \<Rightarrow>
            (case f c (publish [Called (driverName drv) (start_call orphaned c)] s) of (driverStarted, s1) \<Rightarrow>
              (case start_drivers E c orphaned ds s1 of ((started, anyFailed), s2) \<Rightarrow>
                 ((if driverStarted then drv # started else started, \<not> driverStarted \<or> anyFailed), s2)))))"

definition startDriverDiscoveryForDeviceClass ::
  "('j, 's, 'w) svc_env \<Rightarrow> string \<Rightarrow> bool \<Rightarrow> ('j, 's, 'w) device_service \<Rightarrow>
   (DeviceDriver list \<times> bool) \<times> ('j, 's, 'w) device_service" where
  "startDriverDiscoveryForDeviceClass E c orphaned s =
     (case deviceDriverManagerGetDeviceDriversByDeviceClass (Some c) (svc_drivers s) of None \<Rightarrow> (([], False), s)
      | Some drivers \<Rightarrow> start_drivers E c orphaned drivers s)"

definition stopped_event :: "bool \<Rightarrow> string \<Rightarrow> 'j svc_event" where
  "stopped_event orphaned c = (if orphaned then EvRecoveryStopped c else EvDiscoveryStopped c)"

definition stop_driver :: "('j, 's, 'w) svc_env \<Rightarrow> string \<Rightarrow> DeviceDriver \<Rightarrow> ('j, 's, 'w) device_service \<Rightarrow> ('j, 's, 'w) device_service" where
  "stop_driver E c drv = notify_driver drv (StopDiscoveringDevices c) (map_option (\<lambda>f. f c) (stopDiscoveringDevices (driverOps E drv)))"

fun rollbackFailedDiscovery ::
  "('j, 's, 'w) svc_env \<Rightarrow> (string, DeviceDriver list) hmap \<Rightarrow> bool \<Rightarrow> ('j, 's, 'w) device_service \<Rightarrow> ('j, 's, 'w) device_service" where
  "rollbackFailedDiscovery E [] orphaned s = s"
| "rollbackFailedDiscovery E ((c, started) # m) orphaned s =
     rollbackFailedDiscovery E m orphaned (publish [stopped_event orphaned c] (tell_each (stop_driver E c) started s))"

text \<open>The contexts are created with their monitor threads, and put into the map when their class is not there.\<close>

definition startDiscoveryMonitorForDeviceClass ::
  "nat \<Rightarrow> string \<Rightarrow> discoveryFilter list option \<Rightarrow> u16 \<Rightarrow> bool \<Rightarrow> DeviceDriver list option \<Rightarrow> discoverDeviceClassContext" where
  "startDiscoveryMonitorForDeviceClass i c filters timeoutSeconds orphaned started =
     \<lparr>ctx_id = i, ctx_deviceClass = c, ctx_timeoutSeconds = timeoutSeconds, ctx_findOrphanedDevices = orphaned,
      ctx_filters = map_option (List.map_filter (cloneDiscoveryFilterItems \<circ> Some)) filters, ctx_startedDrivers = started\<rparr>"

fun startDiscoveryMonitors ::
  "nat \<Rightarrow> string list \<Rightarrow> (string, DeviceDriver list) hmap \<Rightarrow> discoveryFilter list option \<Rightarrow> u16 \<Rightarrow> bool \<Rightarrow>
   ('j, 's, 'w) device_service \<Rightarrow> discoverDeviceClassContext list \<times> ('j, 's, 'w) device_service" where
  "startDiscoveryMonitors i [] m filters timeoutSeconds orphaned s = ([], s)"
| "startDiscoveryMonitors i (c # cs) m filters timeoutSeconds orphaned s =
     (let ctx = startDiscoveryMonitorForDeviceClass i c filters timeoutSeconds orphaned (hashMapGet m c);
          s1 = s\<lparr>activeDiscoveries := snd (hashMapPut (activeDiscoveries s) c ctx)\<rparr>
      in case startDiscoveryMonitors (Suc i) cs m filters timeoutSeconds orphaned s1 of (ctxs, s2) \<Rightarrow> (ctx # ctxs, s2))"

text \<open>The first phase: the classes to start, up to the first that cannot be.\<close>

fun new_classes ::
  "('j, 's, 'w) svc_env \<Rightarrow> bool \<Rightarrow> ('j, 's, 'w) device_service \<Rightarrow> string list \<Rightarrow> string list option" where
  "new_classes E orphaned s [] = Some []"
| "new_classes E orphaned s (c # cs) =
     (if hashMapGet (activeDiscoveries s) c \<noteq> None then new_classes E orphaned s cs
      else (let drivers = getDriversForDiscovery E c s
            in if validateDeviceClassForDiscovery E drivers orphaned \<and> checkDescriptorReadinessForDiscovery E (items drivers) s
               then map_option (Cons c) (new_classes E orphaned s cs) else None))"

fun start_classes ::
  "('j, 's, 'w) svc_env \<Rightarrow> bool \<Rightarrow> string list \<Rightarrow> (string, DeviceDriver list) hmap \<Rightarrow> bool \<Rightarrow> ('j, 's, 'w) device_service \<Rightarrow>
   ((string, DeviceDriver list) hmap \<times> bool) \<times> ('j, 's, 'w) device_service" where
  "start_classes E orphaned [] m anyFailed s = ((m, anyFailed), s)"
| "start_classes E orphaned (c # cs) m anyFailed s =
     (case startDriverDiscoveryForDeviceClass E c orphaned s of ((started, driverFailed), s1) \<Rightarrow>
        start_classes E orphaned cs (snd (hashMapPut m c started)) (driverFailed \<or> anyFailed) s1)"

text \<open>The result, the contexts of the new monitor threads, and the service. \<open>i\<close> is a free address.\<close>

definition deviceServiceDiscoverStart ::
  "('j, 's, 'w) svc_env \<Rightarrow> nat \<Rightarrow> string list option \<Rightarrow> discoveryFilter list option \<Rightarrow> u16 \<Rightarrow> bool \<Rightarrow> ('j, 's, 'w) device_service \<Rightarrow>
   (bool \<times> discoverDeviceClassContext list) \<times> ('j, 's, 'w) device_service" where
  "deviceServiceDiscoverStart E i deviceClasses filters timeoutSeconds findOrphanedDevices s =
     (case deviceClasses of None \<Rightarrow> ((False, []), s)
      | Some cs \<Rightarrow>
          let s1 = s\<lparr>discoveryTimeoutSeconds := timeoutSeconds\<rparr>
          in case new_classes E findOrphanedDevices s1 cs of None \<Rightarrow> ((False, []), s1)
             | Some [] \<Rightarrow> ((False, []), s1)
             | Some news \<Rightarrow>
                 let s2 = publish [EvDiscoveryStarted (news @ map fst (activeDiscoveries s1)) timeoutSeconds findOrphanedDevices] s1
                 in case start_classes E findOrphanedDevices news [] False s2 of ((m, anyDriverFailed), s3) \<Rightarrow>
                      if anyDriverFailed then ((False, []), rollbackFailedDiscovery E m findOrphanedDevices s3)
                      else (case startDiscoveryMonitors i news m filters timeoutSeconds findOrphanedDevices s3 of
                              (ctxs, s4) \<Rightarrow> ((True, ctxs), s4)))"

section \<open>Stopping\<close>

text \<open>The contexts whose condition is signalled.\<close>

definition deviceServiceDiscoverStop :: "string list option \<Rightarrow> ('j, 's, 'w) device_service \<Rightarrow> nat list" where
  "deviceServiceDiscoverStop deviceClasses s =
     (case deviceClasses of None \<Rightarrow> map (ctx_id \<circ> snd) (activeDiscoveries s)
      | Some cs \<Rightarrow> List.map_filter (\<lambda>c. map_option ctx_id (hashMapGet (activeDiscoveries s) c)) cs)"

text \<open>
  The stages of a monitor thread: created, waiting on its condition, woken, and about to leave the map of
  active discoveries. A thread without started drivers does not wait.
\<close>

datatype monitor_stage = Created | Waiting | Woken | Leaving | Gone

record monitor =
  mon_ctx :: discoverDeviceClassContext
  mon_stage :: monitor_stage

definition mon_id :: "monitor \<Rightarrow> nat" where
  "mon_id m = ctx_id (mon_ctx m)"

definition monitor_begin :: "monitor \<Rightarrow> monitor" where
  "monitor_begin m = m\<lparr>mon_stage := (if items (ctx_startedDrivers (mon_ctx m)) \<noteq> [] then Waiting else Leaving)\<rparr>"

text \<open>A signal reaches a thread that waits, and no other.\<close>

definition monitor_signal :: "nat list \<Rightarrow> monitor \<Rightarrow> monitor" where
  "monitor_signal ids m = (if mon_stage m = Waiting \<and> mon_id m \<in> set ids then m\<lparr>mon_stage := Woken\<rparr> else m)"

text \<open>The drivers are stopped, without a test that they can be.\<close>

fun stop_started ::
  "('j, 's, 'w) svc_env \<Rightarrow> string \<Rightarrow> DeviceDriver list \<Rightarrow> ('j, 's, 'w) device_service \<Rightarrow> ('j, 's, 'w) device_service option" where
  "stop_started E c [] s = Some s"
| "stop_started E c (drv # ds) s =
     (case stopDiscoveringDevices (driverOps E drv) of None \<Rightarrow> None | Some _ \<Rightarrow> stop_started E c ds (stop_driver E c drv s))"

definition monitor_stop ::
  "('j, 's, 'w) svc_env \<Rightarrow> discoverDeviceClassContext \<Rightarrow> ('j, 's, 'w) device_service \<Rightarrow> ('j, 's, 'w) device_service option" where
  "monitor_stop E ctx s = do {
     s1 \<leftarrow> stop_started E (ctx_deviceClass ctx) (items (ctx_startedDrivers ctx)) s;
     Some (publish [stopped_event (ctx_findOrphanedDevices ctx) (ctx_deviceClass ctx)]
       (clearPairingFailedDevices (clearRejectedDevices s1))) }"

definition monitor_leave :: "discoverDeviceClassContext \<Rightarrow> ('j, 's, 'w) device_service \<Rightarrow> ('j, 's, 'w) device_service" where
  "monitor_leave ctx s = s\<lparr>activeDiscoveries := snd (hashMapDelete (activeDiscoveries s) (ctx_deviceClass ctx))\<rparr>"

section \<open>Interleaving\<close>

text \<open>
  \<open>Other\<close> is any work of the service and its drivers that leaves the active discoveries alone.
\<close>

inductive disc_step ::
  "('j, 's, 'w) svc_env \<Rightarrow> ('j, 's, 'w) device_service \<times> monitor list \<Rightarrow> ('j, 's, 'w) device_service \<times> monitor list \<Rightarrow> bool"
  for E :: "('j, 's, 'w) svc_env" where
  Start: "deviceServiceDiscoverStart E (length ms) cs filters t orphaned s = ((ok, ctxs), s') \<Longrightarrow>
    disc_step E (s, ms) (s', ms @ map (\<lambda>ctx. \<lparr>mon_ctx = ctx, mon_stage = Created\<rparr>) ctxs)"
| Stop: "disc_step E (s, ms) (s, map (monitor_signal (deviceServiceDiscoverStop cs s)) ms)"
| Begin: "i < length ms \<Longrightarrow> mon_stage (ms ! i) = Created \<Longrightarrow> disc_step E (s, ms) (s, ms[i := monitor_begin (ms ! i)])"
| Timeout: "i < length ms \<Longrightarrow> mon_stage (ms ! i) = Waiting \<Longrightarrow> ctx_timeoutSeconds (mon_ctx (ms ! i)) > 0 \<Longrightarrow>
    disc_step E (s, ms) (s, ms[i := (ms ! i)\<lparr>mon_stage := Woken\<rparr>])"
| StopDrivers: "i < length ms \<Longrightarrow> mon_stage (ms ! i) = Woken \<Longrightarrow> monitor_stop E (mon_ctx (ms ! i)) s = Some s' \<Longrightarrow>
    disc_step E (s, ms) (s', ms[i := (ms ! i)\<lparr>mon_stage := Leaving\<rparr>])"
| Leave: "i < length ms \<Longrightarrow> mon_stage (ms ! i) = Leaving \<Longrightarrow>
    disc_step E (s, ms) (monitor_leave (mon_ctx (ms ! i)) s, ms[i := (ms ! i)\<lparr>mon_stage := Gone\<rparr>])"
| Other: "activeDiscoveries s' = activeDiscoveries s \<Longrightarrow> svc_drivers s' = svc_drivers s \<Longrightarrow> disc_step E (s, ms) (s', ms)"

inductive_cases disc_stepE: "disc_step E x y"

inductive disc_reachable :: "('j, 's, 'w) svc_env \<Rightarrow> ('j, 's, 'w) device_service \<times> monitor list \<Rightarrow> bool"
  for E :: "('j, 's, 'w) svc_env" where
  Initial: "activeDiscoveries s = [] \<Longrightarrow> disc_reachable E (s, [])"
| Step: "disc_reachable E x \<Longrightarrow> disc_step E x y \<Longrightarrow> disc_reachable E y"

section \<open>Drivers that keep their word\<close>

text \<open>
  A driver that reports success discovers from then on, one that reports failure does not, and one that is
  stopped stops; every driver can be stopped. \<open>run\<close> is which drivers discover which class. The active
  discoveries are the service's own.
\<close>

definition discovery_contract :: "('j, 's, 'w) svc_env \<Rightarrow> ('w \<Rightarrow> (DeviceDriver \<times> string) set) \<Rightarrow> bool" where
  "discovery_contract E run \<longleftrightarrow>
     (\<forall>drv orphaned f c s ok s'. start_function E orphaned drv = Some f \<longrightarrow> f c s = (ok, s') \<longrightarrow>
        activeDiscoveries s' = activeDiscoveries s \<and>
        run (svc_world s') = (if ok then insert (drv, c) (run (svc_world s)) else run (svc_world s))) \<and>
     (\<forall>drv. \<exists>f. stopDiscoveringDevices (driverOps E drv) = Some f \<and> (\<forall>c s. activeDiscoveries (f c s) = activeDiscoveries s \<and>
        run (svc_world (f c s)) = run (svc_world s) - {(drv, c)}))"

lemma publish_frame [simp]:
  "activeDiscoveries (publish es s) = activeDiscoveries s" "svc_world (publish es s) = svc_world s"
  by (simp_all add: publish_def)

lemma start_drivers_effect:
  assumes "discovery_contract E run" "start_drivers E c orphaned ds s = ((started, failed), s')"
  shows "activeDiscoveries s' = activeDiscoveries s \<and> run (svc_world s') = run (svc_world s) \<union> (\<lambda>d. (d, c)) ` set started"
  using assms(2)
proof (induction ds arbitrary: s started failed)
  case (Cons drv ds)
  show ?case
  proof (cases "(\<not> neverReject (driverOps E drv) \<and> \<not> deviceDescriptorsListIsReady s) \<or> start_function E orphaned drv = None")
    case True
    then show ?thesis using Cons.prems by (intro Cons.IH) (auto split: if_splits)
  next
    case False
    then obtain f where f: "start_function E orphaned drv = Some f" by auto
    obtain ok s1 where s1: "f c (publish [Called (driverName drv) (start_call orphaned c)] s) = (ok, s1)" by fastforce
    obtain st fl s2 where s2: "start_drivers E c orphaned ds s1 = ((st, fl), s2)" by (metis prod.collapse)
    have "s' = s2" "started = (if ok then drv # st else st)" using Cons.prems f s1 s2 False by auto
    moreover have "activeDiscoveries s1 = activeDiscoveries s"
      "run (svc_world s1) = (if ok then insert (drv, c) (run (svc_world s)) else run (svc_world s))"
      using assms(1) f s1 unfolding discovery_contract_def by fastforce+
    ultimately show ?thesis using Cons.IH [of s1 st fl] s2 by auto
  qed
qed simp

lemma start_class_effect:
  assumes "discovery_contract E run" "startDriverDiscoveryForDeviceClass E c orphaned s = ((started, failed), s')"
  shows "activeDiscoveries s' = activeDiscoveries s" "run (svc_world s') = run (svc_world s) \<union> (\<lambda>d. (d, c)) ` set started"
  using assms start_drivers_effect [OF assms(1)]
  by (auto simp: startDriverDiscoveryForDeviceClass_def split: option.splits)

definition pairs_of :: "(string, DeviceDriver list) hmap \<Rightarrow> (DeviceDriver \<times> string) set" where
  "pairs_of m = {(d, c). \<exists>l. (c, l) \<in> set m \<and> d \<in> set l}"

lemma start_classes_effect:
  assumes "discovery_contract E run" "start_classes E orphaned cs m failed s = ((m', failed'), s')"
    and "distinct cs" "keys_of m \<inter> set cs = {}"
  shows "activeDiscoveries s' = activeDiscoveries s \<and>
    (\<exists>m2. m' = m @ m2 \<and> map fst m2 = cs \<and> run (svc_world s') = run (svc_world s) \<union> pairs_of m2)"
  using assms(2-4)
proof (induction cs arbitrary: m failed s)
  case (Cons c cs)
  obtain started fl s1 where s1: "startDriverDiscoveryForDeviceClass E c orphaned s = ((started, fl), s1)" by (metis prod.collapse)
  have put: "snd (hashMapPut m c started) = m @ [(c, started)]"
    using Cons.prems(3) by (simp add: hashMapPut_def hashMapContains_def map_of_eq_None_iff)
  note e = start_class_effect [OF assms(1) s1]
  have "activeDiscoveries s' = activeDiscoveries s1 \<and> (\<exists>m2. m' = (m @ [(c, started)]) @ m2 \<and> map fst m2 = cs \<and>
      run (svc_world s') = run (svc_world s1) \<union> pairs_of m2)"
    using Cons.prems s1 put by (intro Cons.IH) auto
  then obtain m2 where "activeDiscoveries s' = activeDiscoveries s1" "m' = m @ (c, started) # m2" "map fst m2 = cs"
    "run (svc_world s') = run (svc_world s1) \<union> pairs_of m2" by auto
  moreover have "pairs_of ((c, started) # m2) = (\<lambda>d. (d, c)) ` set started \<union> pairs_of m2" by (auto simp: pairs_of_def)
  ultimately show ?case using e by (intro conjI exI [of _ "(c, started) # m2"]) auto
qed (auto simp: pairs_of_def)

lemma contract_stop:
  assumes "discovery_contract E run"
  shows "\<exists>f. stopDiscoveringDevices (driverOps E drv) = Some f \<and>
    (\<forall>c s. activeDiscoveries (f c s) = activeDiscoveries s \<and> run (svc_world (f c s)) = run (svc_world s) - {(drv, c)})"
  using conjunct2 [OF assms [unfolded discovery_contract_def]] by (rule spec)

lemma stop_driver_effect:
  assumes "discovery_contract E run"
  shows "activeDiscoveries (stop_driver E c drv s) = activeDiscoveries s" "run (svc_world (stop_driver E c drv s)) = run (svc_world s) - {(drv, c)}"
proof -
  obtain f where "stopDiscoveringDevices (driverOps E drv) = Some f"
    "\<forall>c s. activeDiscoveries (f c s) = activeDiscoveries s \<and> run (svc_world (f c s)) = run (svc_world s) - {(drv, c)}"
    using contract_stop [OF assms] by blast
  then show "activeDiscoveries (stop_driver E c drv s) = activeDiscoveries s"
    "run (svc_world (stop_driver E c drv s)) = run (svc_world s) - {(drv, c)}" by (auto simp: stop_driver_def notify_driver_def)
qed

lemma stop_each_effect:
  assumes "discovery_contract E run"
  shows "activeDiscoveries (tell_each (stop_driver E c) ds s) = activeDiscoveries s \<and>
    run (svc_world (tell_each (stop_driver E c) ds s)) = run (svc_world s) - (\<lambda>d. (d, c)) ` set ds"
  by (induction ds arbitrary: s) (auto simp: stop_driver_effect [OF assms])

lemma rollback_effect:
  assumes "discovery_contract E run"
  shows "activeDiscoveries (rollbackFailedDiscovery E m orphaned s) = activeDiscoveries s \<and>
    run (svc_world (rollbackFailedDiscovery E m orphaned s)) = run (svc_world s) - pairs_of m"
proof (induction m arbitrary: s)
  case (Cons x m)
  obtain c l where x: "x = (c, l)" by fastforce
  show ?case using Cons stop_each_effect [OF assms, of c l s] by (auto simp: x pairs_of_def)
qed (simp add: pairs_of_def)

lemma new_classes_filter: "new_classes E orphaned s cs = Some news \<Longrightarrow> news = filter (\<lambda>c. hashMapGet (activeDiscoveries s) c = None) cs"
  by (induction cs arbitrary: news) (auto split: if_splits simp: Let_def)

lemma startMonitors_effect:
  assumes "startDiscoveryMonitors i cs m filters t orphaned s = (ctxs, s')" "distinct cs" "keys_of (activeDiscoveries s) \<inter> set cs = {}"
  shows "svc_world s' = svc_world s \<and> activeDiscoveries s' = activeDiscoveries s @ map (\<lambda>ctx. (ctx_deviceClass ctx, ctx)) ctxs \<and>
    map ctx_deviceClass ctxs = cs \<and> map ctx_startedDrivers ctxs = map (hashMapGet m) cs \<and> map ctx_id ctxs = [i ..< i + length ctxs] \<and>
    (\<forall>ctx \<in> set ctxs. ctx_timeoutSeconds ctx = t \<and> ctx_findOrphanedDevices ctx = orphaned)"
  using assms
proof (induction cs arbitrary: i s ctxs)
  case (Cons c cs)
  let ?ctx = "startDiscoveryMonitorForDeviceClass i c filters t orphaned (hashMapGet m c)"
  let ?s = "s\<lparr>activeDiscoveries := activeDiscoveries s @ [(c, ?ctx)]\<rparr>"
  have "snd (hashMapPut (activeDiscoveries s) c ?ctx) = activeDiscoveries s @ [(c, ?ctx)]"
    using Cons.prems(3) by (simp add: hashMapPut_def hashMapContains_def map_of_eq_None_iff)
  with Cons.prems(1) obtain rest where rest: "startDiscoveryMonitors (Suc i) cs m filters t orphaned ?s = (rest, s')" "ctxs = ?ctx # rest"
    by (auto simp: Let_def split: prod.splits)
  from Cons.IH [OF rest(1)] Cons.prems(2,3) rest(2) show ?case
    by (auto simp: startDiscoveryMonitorForDeviceClass_def upt_conv_Cons simp del: upt_Suc)
qed auto

lemma started_pairs:
  assumes "distinct (map fst m)" "map ctx_deviceClass ctxs = map fst m" "map ctx_startedDrivers ctxs = map (hashMapGet m) (map fst m)"
  shows "pairs_of m = {(drv, ctx_deviceClass ctx) | drv ctx. ctx \<in> set ctxs \<and> drv \<in> set (items (ctx_startedDrivers ctx))}"
proof -
  have get: "(c, l) \<in> set m \<longleftrightarrow> hashMapGet m c = Some l" for c l
    using assms(1) by (simp add: hashMapGet_def)
  have each: "ctx_startedDrivers ctx = hashMapGet m (ctx_deviceClass ctx)" if mem: "ctx \<in> set ctxs" for ctx
  proof -
    obtain j where j: "j < length ctxs" "ctx = ctxs ! j" using mem unfolding in_set_conv_nth by blast
    have len: "length ctxs = length m" using arg_cong [OF assms(2), of length] by simp
    have "map ctx_startedDrivers ctxs ! j = map (hashMapGet m) (map fst m) ! j" "map ctx_deviceClass ctxs ! j = map fst m ! j"
      using assms(2,3) by simp_all
    then show ?thesis using j len by simp
  qed
  have classes: "c \<in> fst ` set m \<longleftrightarrow> (\<exists>ctx \<in> set ctxs. ctx_deviceClass ctx = c)" for c
    using arg_cong [OF assms(2), of set] by (auto simp: image_iff) (metis fst_conv image_iff)+
  show ?thesis
  proof (intro set_eqI, clarify)
    fix d c
    have "(d, c) \<in> pairs_of m \<longleftrightarrow> (\<exists>l. hashMapGet m c = Some l \<and> d \<in> set l)" by (simp add: pairs_of_def get)
    also have "\<dots> \<longleftrightarrow> (\<exists>ctx \<in> set ctxs. ctx_deviceClass ctx = c \<and> d \<in> set (items (ctx_startedDrivers ctx)))"
    proof
      assume "\<exists>l. hashMapGet m c = Some l \<and> d \<in> set l"
      then obtain l where l: "hashMapGet m c = Some l" "d \<in> set l" by blast
      then have "c \<in> fst ` set m" using get by force
      then obtain ctx where ctx: "ctx \<in> set ctxs" "ctx_deviceClass ctx = c" using classes by blast
      then have "d \<in> set (items (ctx_startedDrivers ctx))" using each [OF ctx(1)] l by simp
      then show "\<exists>ctx \<in> set ctxs. ctx_deviceClass ctx = c \<and> d \<in> set (items (ctx_startedDrivers ctx))" using ctx by blast
    next
      assume "\<exists>ctx \<in> set ctxs. ctx_deviceClass ctx = c \<and> d \<in> set (items (ctx_startedDrivers ctx))"
      then obtain ctx where ctx: "ctx \<in> set ctxs" "ctx_deviceClass ctx = c" "d \<in> set (items (ctx_startedDrivers ctx))" by blast
      then show "\<exists>l. hashMapGet m c = Some l \<and> d \<in> set l" using each [OF ctx(1)] by (cases "hashMapGet m c") simp_all
    qed
    finally show "(d, c) \<in> pairs_of m \<longleftrightarrow>
        (d, c) \<in> {(drv, ctx_deviceClass ctx) | drv ctx. ctx \<in> set ctxs \<and> drv \<in> set (items (ctx_startedDrivers ctx))}" by blast
  qed
qed

section \<open>All or nothing\<close>

text \<open>
  C18. Starting discovery of classes that are each named once is all or nothing. When it fails, the active
  discoveries are what they were, no driver discovers that did not before, and every driver goes on that
  discovers for an active class; where drivers discover for active classes only, they are exactly as they were.
  When it succeeds, the classes that were not active are, each with one new context that knows exactly the
  drivers started for it, in the order asked for.
\<close>

theorem discover_start_all_or_nothing:
  assumes "discovery_contract E run" "distinct cs"
    and "deviceServiceDiscoverStart E i (Some cs) filters t orphaned s = ((ok, ctxs), s')"
  shows "if ok
    then map ctx_deviceClass ctxs = filter (\<lambda>c. hashMapGet (activeDiscoveries s) c = None) cs \<and>
      activeDiscoveries s' = activeDiscoveries s @ map (\<lambda>ctx. (ctx_deviceClass ctx, ctx)) ctxs \<and>
      run (svc_world s') = run (svc_world s) \<union> {(drv, ctx_deviceClass ctx) | drv ctx. ctx \<in> set ctxs \<and> drv \<in> set (items (ctx_startedDrivers ctx))}
    else ctxs = [] \<and> activeDiscoveries s' = activeDiscoveries s \<and> run (svc_world s') \<subseteq> run (svc_world s) \<and>
      (\<forall>drv c. hashMapGet (activeDiscoveries s) c \<noteq> None \<longrightarrow> (drv, c) \<in> run (svc_world s) \<longrightarrow> (drv, c) \<in> run (svc_world s')) \<and>
      ((\<forall>(drv, c) \<in> run (svc_world s). hashMapGet (activeDiscoveries s) c \<noteq> None) \<longrightarrow> run (svc_world s') = run (svc_world s))"
proof -
  let ?s1 = "s\<lparr>discoveryTimeoutSeconds := t\<rparr>"
  let ?news = "filter (\<lambda>c. hashMapGet (activeDiscoveries s) c = None) cs"
  show ?thesis
  proof (cases "new_classes E orphaned ?s1 cs = Some ?news \<and> ?news \<noteq> []")
    case False
    have "new_classes E orphaned ?s1 cs = None \<or> new_classes E orphaned ?s1 cs = Some []"
      using False new_classes_filter [of E orphaned ?s1 cs] by (cases "new_classes E orphaned ?s1 cs") auto
    then show ?thesis using assms(3) by (auto simp: deviceServiceDiscoverStart_def Let_def)
  next
    case True
    let ?s2 = "publish [EvDiscoveryStarted (?news @ map fst (activeDiscoveries s)) t orphaned] ?s1"
    obtain m failed s3 where s3: "start_classes E orphaned ?news [] False ?s2 = ((m, failed), s3)" by (metis prod.collapse)
    have "distinct ?news" using assms(2) by simp
    from start_classes_effect [OF assms(1) s3 this] have m: "activeDiscoveries s3 = activeDiscoveries s" "map fst m = ?news"
      "run (svc_world s3) = run (svc_world s) \<union> pairs_of m" by auto
    have run: "deviceServiceDiscoverStart E i (Some cs) filters t orphaned s =
      (if failed then ((False, []), rollbackFailedDiscovery E m orphaned s3)
       else case startDiscoveryMonitors i ?news m filters t orphaned s3 of (ctxs, s4) \<Rightarrow> ((True, ctxs), s4))"
      using True s3 by (auto simp: deviceServiceDiscoverStart_def Let_def split: list.splits)
    show ?thesis
    proof (cases failed)
      case True
      then have s': "\<not> ok" "ctxs = []" "s' = rollbackFailedDiscovery E m orphaned s3" using run assms(3) by auto
      have "hashMapGet (activeDiscoveries s) c = None" if "(drv, c) \<in> pairs_of m" for drv c
        using that arg_cong [OF m(2), of set] by (force simp: pairs_of_def)
      then show ?thesis using s' rollback_effect [OF assms(1), of m orphaned s3] m(1,3) by auto
    next
      case False
      then have ok: ok "startDiscoveryMonitors i ?news m filters t orphaned s3 = (ctxs, s')" using run assms(3) by (auto split: prod.splits)
      have "keys_of (activeDiscoveries s3) \<inter> set ?news = {}" using m(1) by (auto simp: hashMapGet_none)
      from startMonitors_effect [OF ok(2) \<open>distinct ?news\<close> this] have c: "svc_world s' = svc_world s3"
        "activeDiscoveries s' = activeDiscoveries s @ map (\<lambda>ctx. (ctx_deviceClass ctx, ctx)) ctxs"
        "map ctx_deviceClass ctxs = ?news" "map ctx_startedDrivers ctxs = map (hashMapGet m) ?news" using m(1) by auto
      have "pairs_of m = {(drv, ctx_deviceClass ctx) | drv ctx. ctx \<in> set ctxs \<and> drv \<in> set (items (ctx_startedDrivers ctx))}"
        by (rule started_pairs) (use c m(2) \<open>distinct ?news\<close> in auto)
      then show ?thesis using ok c m(3) by simp
    qed
  qed
qed

text \<open>
  Two drivers for lights that keep track of what they discover; in \<open>tracking_env b\<close> the second one starts
  exactly when \<open>b\<close>.
\<close>

definition light1 :: DeviceDriver where "light1 = example_driver ''Light1'' ''zigbee''"
definition light2 :: DeviceDriver where "light2 = example_driver ''Light2'' ''zigbee''"

type_synonym tracking = "(DeviceDriver \<times> string) set"

definition tracking_ops :: "bool \<Rightarrow> DeviceDriver \<Rightarrow> (json, (string \<times> string) list, tracking) driver_ops" where
  "tracking_ops b drv = example_ops\<lparr>
     discoverDevices := Some (\<lambda>c s. if drv = light2 \<and> \<not> b then (False, s) else (True, s\<lparr>svc_world := insert (drv, c) (svc_world s)\<rparr>)),
     recoverDevices := Some (\<lambda>c s. (True, s\<lparr>svc_world := insert (drv, c) (svc_world s)\<rparr>)),
     stopDiscoveringDevices := Some (\<lambda>c s. s\<lparr>svc_world := svc_world s - {(drv, c)}\<rparr>), neverReject := drv = light1\<rparr>"

definition tracking_env :: "bool \<Rightarrow> (json, (string \<times> string) list, tracking) svc_env" where
  "tracking_env b = \<lparr>svc_db_env = example_env, svc_cf_env = example_cf_env, svc_provider = default_provider,
     svc_regcomp = (\<lambda>_. None), svc_parse = (\<lambda>_ _. Some None), stringToBool = (\<lambda>t. t = Some ''true''),
     createDeviceMetadataUri = (\<lambda>u i. None), driverOps = tracking_ops b,
     migratorOps = example_ops, clientCallback = (\<lambda>_ _ _ s. s), isDelayTaskWaiting = (\<lambda>_ _. False),
     cancelDelayTask = (\<lambda>_ w. w), scheduleDelayTask = (\<lambda>_ w. (1, w)), awaitReconfiguration = (\<lambda>_ s. s),
     cJSON_IsArray = (\<lambda>j. False), cJSON_CreateArray = JObject [], cJSON_AddItemToArray = (\<lambda>j x. j), cJSON_PrintUnformatted = (\<lambda>_. []),
     stringToUint32 = (\<lambda>t. None), svc_glib = example_glib, storageDir = ''/storage''\<rparr>"

definition tracking_service :: "bool \<Rightarrow> (json, (string \<times> string) list, tracking) device_service" where
  "tracking_service operational = \<lparr>svc_fail = example_comm_fail\<lparr>cf_drivers := register_all [Some light1, Some light2] driver_manager_static\<rparr>,
     svc_descriptors = \<lparr>allowListPath = [], denyListPath = [], deviceDescriptors = None\<rparr>,
     svc_subsystems = \<lparr>subsystems = None, allDriversStarted = False, readyForDevicesCB = False,
       subsystemManagerInitialized = False, preRegisteredSubsystems = [], sm_db = one_db, sm_trace = []\<rparr>,
     isDeviceServiceInLPM = False, subsystemsReadyForDevices = operational, isDeviceDescriptorsListReady = True,
     shuttingDown = False, deviceDescriptorProcessorTask = False, discoveryTimeoutSeconds = 0,
     activeDiscoveries = [], pendingReconfiguration = Some [], markedForRemoval = [], rejected = [], failedToPair = [],
     svc_clock = (\<lambda>n. of_nat n), svc_ticks = 0, svc_log = [], svc_world = {}\<rparr>"

lemma tracking_contract: "discovery_contract (tracking_env b) id"
  by (auto simp: discovery_contract_def tracking_env_def tracking_ops_def start_function_def split: if_splits)

lemma tracking_drivers [simp]:
  "deviceDriverManagerGetDeviceDriversByDeviceClass (Some ''light'') (svc_drivers (tracking_service b)) = Some [light1, light2]"
  "svc_world (tracking_service b) = {}" "activeDiscoveries (tracking_service b) = []"
  "subsystemsReadyForDevices (tracking_service b) = b" "isDeviceDescriptorsListReady (tracking_service b)"
  by (simp_all add: tracking_service_def svc_drivers_def light1_def light2_def) code_simp

lemma light_distinct [simp]: "light1 \<noteq> light2" "light2 \<noteq> light1"
  by (simp_all add: light1_def light2_def example_driver_def)

lemma service_frame [simp]:
  "svc_drivers (s\<lparr>discoveryTimeoutSeconds := t\<rparr>) = svc_drivers s" "svc_db (s\<lparr>discoveryTimeoutSeconds := t\<rparr>) = svc_db s"
  "svc_drivers (s\<lparr>svc_world := w\<rparr>) = svc_drivers s" "svc_db (s\<lparr>svc_world := w\<rparr>) = svc_db s"
  "isDeviceDescriptorsListReady (publish es s) = isDeviceDescriptorsListReady s"
  by (simp_all add: svc_drivers_def svc_db_def publish_def)

theorem discover_start_all_or_nothing_witness:
  "let r = deviceServiceDiscoverStart (tracking_env False) 0 (Some [''light'']) None 60 False (tracking_service True)
   in \<not> fst (fst r) \<and> svc_world (snd r) = {} \<and> activeDiscoveries (snd r) = []"
proof -
  let ?r = "deviceServiceDiscoverStart (tracking_env False) 0 (Some [''light'']) None 60 False (tracking_service True)"
  have "\<not> fst (fst ?r)"
    by (simp add: deviceServiceDiscoverStart_def getDriversForDiscovery_def validateDeviceClassForDiscovery_def
        checkDescriptorReadinessForDiscovery_def startDriverDiscoveryForDeviceClass_def start_function_def tracking_env_def tracking_ops_def
        deviceServiceIsReadyForDeviceOperation_def deviceDescriptorsListIsReady_def hashMapGet_def Let_def)
  moreover obtain ok ctxs s' where r: "?r = ((ok, ctxs), s')" by (metis prod.collapse)
  ultimately show ?thesis
    using discover_start_all_or_nothing [OF tracking_contract _ r] by simp
qed

section \<open>Monitor threads\<close>

text \<open>
  Every active discovery has a monitor thread that has not gone yet, under its address, and the class is
  the key.
\<close>

definition disc_inv :: "('j, 's, 'w) device_service \<times> monitor list \<Rightarrow> bool" where
  "disc_inv = (\<lambda>(s, ms). hmap_ok (activeDiscoveries s) \<and> (\<forall>i < length ms. mon_id (ms ! i) = i) \<and>
     (\<forall>(c, ctx) \<in> set (activeDiscoveries s). ctx_deviceClass ctx = c \<and> ctx_id ctx < length ms \<and> mon_ctx (ms ! ctx_id ctx) = ctx \<and>
        mon_stage (ms ! ctx_id ctx) \<noteq> Gone))"

text \<open>Starting the monitors, with classes named twice, or active already, admitted.\<close>

lemma startMonitors_general:
  assumes "startDiscoveryMonitors i cs m filters t orphaned s = (ctxs, s')"
  shows "svc_world s' = svc_world s \<and> map ctx_id ctxs = [i ..< i + length ctxs] \<and>
    (hmap_ok (activeDiscoveries s) \<longrightarrow> hmap_ok (activeDiscoveries s')) \<and>
    (\<forall>x \<in> set (activeDiscoveries s'). x \<in> set (activeDiscoveries s) \<or> (\<exists>ctx \<in> set ctxs. x = (ctx_deviceClass ctx, ctx)))"
  using assms
proof (induction cs arbitrary: i s ctxs)
  case (Cons c cs)
  let ?ctx = "startDiscoveryMonitorForDeviceClass i c filters t orphaned (hashMapGet m c)"
  let ?s = "s\<lparr>activeDiscoveries := snd (hashMapPut (activeDiscoveries s) c ?ctx)\<rparr>"
  from Cons.prems(1) obtain rest where rest: "startDiscoveryMonitors (Suc i) cs m filters t orphaned ?s = (rest, s')" "ctxs = ?ctx # rest"
    by (auto simp: Let_def split: prod.splits)
  have "hmap_ok (activeDiscoveries s) \<Longrightarrow> hmap_ok (snd (hashMapPut (activeDiscoveries s) c ?ctx))"
    by (auto simp: hashMapPut_def hmap_ok_def hashMapContains_def map_of_eq_None_iff)
  moreover have "x \<in> set (snd (hashMapPut (activeDiscoveries s) c ?ctx)) \<Longrightarrow> x \<in> set (activeDiscoveries s) \<or> x = (c, ?ctx)" for x
    by (auto simp: hashMapPut_def split: if_splits)
  moreover have "ctx_deviceClass ?ctx = c" "ctx_id ?ctx = i" by (simp_all add: startDiscoveryMonitorForDeviceClass_def)
  ultimately show ?case using Cons.IH [OF rest(1)] rest(2)
    by (fastforce simp: upt_conv_Cons simp del: upt_Suc)
qed auto

lemma start_classes_active:
  "discovery_contract E run \<Longrightarrow> start_classes E orphaned cs m failed s = (r, s') \<Longrightarrow> activeDiscoveries s' = activeDiscoveries s"
proof (induction cs arbitrary: m failed s)
  case (Cons c cs)
  obtain started fl s1 where s1: "startDriverDiscoveryForDeviceClass E c orphaned s = ((started, fl), s1)" by (metis prod.collapse)
  then show ?case using Cons.IH [of "snd (hashMapPut m c started)" "fl \<or> failed" s1] Cons.prems start_class_effect(1) [OF Cons.prems(1) s1] by auto
qed auto

lemma discover_start_cases:
  assumes "discovery_contract E run" "deviceServiceDiscoverStart E i cs filters t orphaned s = ((ok, ctxs), s')"
  obtains (Failed) "\<not> ok" "ctxs = []" "activeDiscoveries s' = activeDiscoveries s"
  | (Started) news m s3 where ok "startDiscoveryMonitors i news m filters t orphaned s3 = (ctxs, s')" "activeDiscoveries s3 = activeDiscoveries s"
proof (cases "\<exists>l news. cs = Some l \<and> new_classes E orphaned (s\<lparr>discoveryTimeoutSeconds := t\<rparr>) l = Some news \<and> news \<noteq> []")
  case False
  then show ?thesis
    using assms(2) that(1) by (auto simp: deviceServiceDiscoverStart_def Let_def split: option.splits list.splits)
next
  case True
  then obtain l news where news: "cs = Some l" "new_classes E orphaned (s\<lparr>discoveryTimeoutSeconds := t\<rparr>) l = Some news" "news \<noteq> []" by blast
  let ?s2 = "publish [EvDiscoveryStarted (news @ map fst (activeDiscoveries s)) t orphaned] (s\<lparr>discoveryTimeoutSeconds := t\<rparr>)"
  obtain m failed s3 where s3: "start_classes E orphaned news [] False ?s2 = ((m, failed), s3)" by (metis prod.collapse)
  have act: "activeDiscoveries s3 = activeDiscoveries s" using start_classes_active [OF assms(1) s3] by simp
  have run: "((ok, ctxs), s') = (if failed then ((False, []), rollbackFailedDiscovery E m orphaned s3)
       else case startDiscoveryMonitors i news m filters t orphaned s3 of (ctxs, s4) \<Rightarrow> ((True, ctxs), s4))"
    using news s3 by (subst assms(2) [symmetric]) (auto simp: deviceServiceDiscoverStart_def Let_def split: list.splits)
  show ?thesis
    using run act that(1) that(2) [of news m s3] rollback_effect [OF assms(1), of m orphaned s3]
    by (cases failed; cases "startDiscoveryMonitors i news m filters t orphaned s3") auto
qed

lemma start_keeps_inv:
  assumes "discovery_contract E run" "disc_inv (s, ms)" "deviceServiceDiscoverStart E (length ms) cs filters t orphaned s = ((ok, ctxs), s')"
  shows "disc_inv (s', ms @ map (\<lambda>ctx. \<lparr>mon_ctx = ctx, mon_stage = Created\<rparr>) ctxs)"
  using assms(1,3)
proof (cases rule: discover_start_cases)
  case Failed
  then show ?thesis using assms(2) by (simp add: disc_inv_def)
next
  case (Started news m s3)
  note s3 = Started(2,3)
  note g = startMonitors_general [OF s3(1)]
  have id: "ctx_id (ctxs ! j) = length ms + j" if j: "j < length ctxs" for j
  proof -
    have "map ctx_id ctxs ! j = [length ms ..< length ms + length ctxs] ! j" using g by simp
    then show ?thesis using j by simp
  qed
  let ?ms = "ms @ map (\<lambda>ctx. \<lparr>mon_ctx = ctx, mon_stage = Created\<rparr>) ctxs"
  have "ctx_deviceClass ctx = c \<and> ctx_id ctx < length ?ms \<and> mon_ctx (?ms ! ctx_id ctx) = ctx \<and> mon_stage (?ms ! ctx_id ctx) \<noteq> Gone"
    if x: "(c, ctx) \<in> set (activeDiscoveries s')" for c ctx
  proof (cases "(c, ctx) \<in> set (activeDiscoveries s)")
    case True
    then show ?thesis using assms(2) by (force simp: disc_inv_def nth_append)
  next
    case False
    with g x s3(2) obtain "c = ctx_deviceClass ctx" "ctx \<in> set ctxs" by auto
    moreover then obtain j where "j < length ctxs" "ctx = ctxs ! j" unfolding in_set_conv_nth by blast
    ultimately show ?thesis using id by simp
  qed
  moreover have "mon_id (?ms ! i) = i" if "i < length ?ms" for i
    using that assms(2) id [of "i - length ms"] by (auto simp: disc_inv_def nth_append mon_id_def)
  moreover have "hmap_ok (activeDiscoveries s')" using g s3(2) assms(2) by (simp add: disc_inv_def)
  ultimately show ?thesis by (auto simp: disc_inv_def)
qed

lemma stop_started_effect:
  "discovery_contract E run \<Longrightarrow> \<exists>s'. stop_started E c ds s = Some s' \<and> activeDiscoveries s' = activeDiscoveries s"
proof (induction ds arbitrary: s)
  case (Cons drv ds)
  obtain f where "stopDiscoveringDevices (driverOps E drv) = Some f" using contract_stop [OF Cons.prems] by blast
  then show ?case using Cons.IH [OF Cons.prems, of "stop_driver E c drv s"] stop_driver_effect(1) [OF Cons.prems, of c drv s] by auto
qed auto

lemma monitor_stop_effect:
  assumes "discovery_contract E run"
  shows "\<exists>s'. monitor_stop E ctx s = Some s' \<and> activeDiscoveries s' = activeDiscoveries s"
  using stop_started_effect [OF assms, of "ctx_deviceClass ctx" "items (ctx_startedDrivers ctx)" s]
  by (auto simp: monitor_stop_def clearPairingFailedDevices_def clearRejectedDevices_def)

lemma monitor_frame [simp]:
  "mon_ctx (monitor_begin m) = mon_ctx m" "mon_id (monitor_begin m) = mon_id m" "mon_stage (monitor_begin m) \<noteq> Gone"
  "mon_ctx (monitor_signal ids m) = mon_ctx m" "mon_id (monitor_signal ids m) = mon_id m"
  "mon_stage (monitor_signal ids m) = Gone \<longleftrightarrow> mon_stage m = Gone"
  "mon_id (m\<lparr>mon_stage := st\<rparr>) = mon_id m"
  by (simp_all add: monitor_begin_def monitor_signal_def mon_id_def)

lemma disc_inv_upd:
  assumes "disc_inv (s, ms)" "activeDiscoveries s' = activeDiscoveries s" "i < length ms" "mon_ctx m = mon_ctx (ms ! i)" "mon_stage m \<noteq> Gone"
  shows "disc_inv (s', ms[i := m])"
  using assms by (auto simp: disc_inv_def nth_list_update mon_id_def)

lemma leave_keeps_inv:
  assumes "disc_inv (s, ms)" "i < length ms"
  shows "disc_inv (monitor_leave (mon_ctx (ms ! i)) s, ms[i := (ms ! i)\<lparr>mon_stage := Gone\<rparr>])"
proof -
  have sub: "set (activeDiscoveries (monitor_leave ctx s)) = {x \<in> set (activeDiscoveries s). fst x \<noteq> ctx_deviceClass ctx}" for ctx
    by (auto simp: monitor_leave_def hashMapDelete_def)
  have "hmap_ok (activeDiscoveries (monitor_leave (mon_ctx (ms ! i)) s))"
    using assms(1) by (auto simp: disc_inv_def monitor_leave_def hmap_ok_def hashMapDelete_def distinct_map_filter)
  moreover have "ctx_id ctx \<noteq> i" if "(c, ctx) \<in> set (activeDiscoveries s)" "c \<noteq> ctx_deviceClass (mon_ctx (ms ! i))" for c ctx
    using that assms(1) by (auto simp: disc_inv_def)
  ultimately show ?thesis using assms by (auto simp: disc_inv_def sub nth_list_update mon_id_def)
qed

lemma disc_step_inv:
  assumes "discovery_contract E run" "disc_inv x" "disc_step E x y"
  shows "disc_inv y"
  using assms(3,2)
proof cases
  case (Start ms cs filters t orphaned s ok ctxs s')
  then show ?thesis using start_keeps_inv [OF assms(1)] assms(2) by blast
next
  case (Stop s ms cs)
  then show ?thesis using assms(2) by (auto simp: disc_inv_def)
next
  case (Begin i ms s)
  then show ?thesis using disc_inv_upd [of s ms s i] assms(2) by simp
next
  case (Timeout i ms s)
  then show ?thesis using disc_inv_upd [of s ms s i] assms(2) by simp
next
  case (StopDrivers i ms s s')
  then show ?thesis using disc_inv_upd [of s ms s' i] assms(2) monitor_stop_effect [OF assms(1), of "mon_ctx (ms ! i)" s] by auto
next
  case (Leave i ms s)
  then show ?thesis using leave_keeps_inv assms(2) by blast
next
  case (Other s' s ms)
  then show ?thesis using assms(2) by (simp add: disc_inv_def)
qed

lemma reachable_disc_inv:
  assumes "disc_reachable E x" "discovery_contract E run"
  shows "disc_inv x"
  using assms
proof induction
  case (Initial s)
  then show ?case by (simp add: disc_inv_def)
next
  case (Step x y)
  then show ?case by (blast intro: disc_step_inv)
qed

text \<open>
  C19. In every interleaving of the threads an active discovery can be brought to its end: its monitor
  thread exists, a request to stop that class reaches it once it waits, it stops its drivers and takes
  the class out of the active discoveries.
\<close>

theorem active_discovery_can_end:
  assumes "discovery_contract E run" "disc_reachable E (s, ms)" "hashMapGet (activeDiscoveries s) c = Some ctx"
  shows "\<exists>s' ms'. (disc_step E)\<^sup>*\<^sup>* (s, ms) (s', ms') \<and> hashMapGet (activeDiscoveries s') c = None"
proof -
  note inv = reachable_disc_inv [OF assms(2,1)]
  let ?i = "ctx_id ctx"
  define ends where "ends x \<longleftrightarrow> (\<exists>s' ms'. (disc_step E)\<^sup>*\<^sup>* x (s', ms') \<and> hashMapGet (activeDiscoveries s') c = None)" for x
  have mem: "(c, ctx) \<in> set (activeDiscoveries s)" using assms(3) inv by (simp add: disc_inv_def hashMapGet_mem)
  then have i: "ctx_deviceClass ctx = c" "?i < length ms" "mon_ctx (ms ! ?i) = ctx" "mon_stage (ms ! ?i) \<noteq> Gone" "mon_id (ms ! ?i) = ?i"
    using inv by (auto simp: disc_inv_def)
  have step: "ends y \<Longrightarrow> disc_step E x y \<Longrightarrow> ends x" for x y
    unfolding ends_def by (blast intro: converse_rtranclp_into_rtranclp)
  have leave: "ends (s1, ms1)"
    if "?i < length ms1" "mon_ctx (ms1 ! ?i) = ctx" "mon_stage (ms1 ! ?i) = Leaving" for s1 ms1
  proof -
    have "disc_step E (s1, ms1) (monitor_leave ctx s1, ms1[?i := (ms1 ! ?i)\<lparr>mon_stage := Gone\<rparr>])"
      using disc_step.Leave [of ?i ms1 E s1] that by simp
    moreover have "hashMapGet (activeDiscoveries (monitor_leave ctx s1)) c = None"
      using i(1) by (auto simp: monitor_leave_def hashMapGet_none hashMapDelete_def)
    ultimately show ?thesis unfolding ends_def by blast
  qed
  have woken: "ends (s1, ms1)"
    if "?i < length ms1" "mon_ctx (ms1 ! ?i) = ctx" "mon_stage (ms1 ! ?i) = Woken" for s1 ms1
  proof -
    obtain s2 where "monitor_stop E ctx s1 = Some s2" using monitor_stop_effect [OF assms(1)] by blast
    then have "disc_step E (s1, ms1) (s2, ms1[?i := (ms1 ! ?i)\<lparr>mon_stage := Leaving\<rparr>])"
      using disc_step.StopDrivers [of ?i ms1 E s1 s2] that by simp
    moreover have "ends (s2, ms1[?i := (ms1 ! ?i)\<lparr>mon_stage := Leaving\<rparr>])" using that by (intro leave) simp_all
    ultimately show ?thesis using step by blast
  qed
  have waiting: "ends (s, ms1)"
    if "?i < length ms1" "mon_ctx (ms1 ! ?i) = ctx" "mon_stage (ms1 ! ?i) = Waiting" for ms1
  proof -
    let ?ms2 = "map (monitor_signal (deviceServiceDiscoverStop (Some [c]) s)) ms1"
    have "disc_step E (s, ms1) (s, ?ms2)" by (rule disc_step.Stop)
    moreover have "mon_stage (?ms2 ! ?i) = Woken" "mon_ctx (?ms2 ! ?i) = ctx"
      using that assms(3) by (simp_all add: monitor_signal_def deviceServiceDiscoverStop_def List.map_filter_def mon_id_def)
    ultimately show ?thesis using step woken [of ?ms2 s] that(1) by simp
  qed
  have "ends (s, ms)"
  proof (cases "mon_stage (ms ! ?i)")
    case Created
    have "disc_step E (s, ms) (s, ms[?i := monitor_begin (ms ! ?i)])" using disc_step.Begin [of ?i ms E s] i(2) Created by simp
    moreover have "ends (s, ms[?i := monitor_begin (ms ! ?i)])"
      using waiting [of "ms[?i := monitor_begin (ms ! ?i)]"] leave [of "ms[?i := monitor_begin (ms ! ?i)]" s] i
      by (cases "items (ctx_startedDrivers ctx) = []") (simp_all add: monitor_begin_def)
    ultimately show ?thesis using step by blast
  qed (use i waiting woken leave in auto)
  then show ?thesis by (simp add: ends_def)
qed

lemma tracking_start:
  "\<exists>ctx s'. deviceServiceDiscoverStart (tracking_env True) 0 (Some [''light'']) None 0 False (tracking_service True) = ((True, [ctx]), s') \<and>
     ctx_timeoutSeconds ctx = 0 \<and> ctx_id ctx = 0 \<and> ctx_startedDrivers ctx = Some [light1, light2] \<and> activeDiscoveries s' = [(''light'', ctx)]"
  by (simp add: deviceServiceDiscoverStart_def getDriversForDiscovery_def validateDeviceClassForDiscovery_def
      checkDescriptorReadinessForDiscovery_def startDriverDiscoveryForDeviceClass_def start_function_def tracking_env_def tracking_ops_def
      deviceServiceIsReadyForDeviceOperation_def deviceDescriptorsListIsReady_def hashMapGet_def Let_def hashMapPut_def
      hashMapContains_def startDiscoveryMonitorForDeviceClass_def)

theorem active_discovery_can_end_witness:
  "\<exists>s ms. disc_reachable (tracking_env True) (s, ms) \<and> hashMapGet (activeDiscoveries s) ''light'' \<noteq> None \<and>
     (\<exists>s' ms'. (disc_step (tracking_env True))\<^sup>*\<^sup>* (s, ms) (s', ms') \<and> hashMapGet (activeDiscoveries s') ''light'' = None)"
proof -
  obtain ctx s' where s': "deviceServiceDiscoverStart (tracking_env True) 0 (Some [''light'']) None 0 False (tracking_service True) = ((True, [ctx]), s')"
    "activeDiscoveries s' = [(''light'', ctx)]" using tracking_start by blast
  have "disc_reachable (tracking_env True) (tracking_service True, [])" by (rule disc_reachable.Initial) simp
  then have r: "disc_reachable (tracking_env True) (s', [\<lparr>mon_ctx = ctx, mon_stage = Created\<rparr>])"
    using disc_step.Start [of "tracking_env True" "[]"] s'(1) by (fastforce intro: disc_reachable.Step)
  have a: "hashMapGet (activeDiscoveries s') ''light'' = Some ctx" using s'(2) by (simp add: hashMapGet_def)
  show ?thesis using active_discovery_can_end [OF tracking_contract r a] r a by blast
qed

text \<open>
  A request to stop that comes before the monitor thread waits is lost. A discovery without timeout
  then runs on: its thread waits, and no step of any thread but another request to stop wakes it.
\<close>

theorem early_stop_is_lost:
  assumes "discovery_contract E run" "i < length ms" "mon_stage (ms ! i) = Created" "items (ctx_startedDrivers (mon_ctx (ms ! i))) \<noteq> []"
    and "ctx_timeoutSeconds (mon_ctx (ms ! i)) = 0"
  shows "\<exists>ms'. (disc_step E)\<^sup>*\<^sup>* (s, map (monitor_signal (deviceServiceDiscoverStop cs s)) ms) (s, ms') \<and> mon_stage (ms' ! i) = Waiting \<and>
    (\<forall>s2 ms2. disc_step E (s, ms') (s2, ms2) \<and> mon_stage (ms2 ! i) \<noteq> Waiting \<longrightarrow>
       (\<exists>cs. s2 = s \<and> ms2 = map (monitor_signal (deviceServiceDiscoverStop cs s)) ms'))"
proof -
  let ?ms = "map (monitor_signal (deviceServiceDiscoverStop cs s)) ms"
  let ?ms' = "?ms[i := monitor_begin (?ms ! i)]"
  have m: "?ms ! i = ms ! i" "i < length ?ms" using assms(2,3) by (simp_all add: monitor_signal_def)
  have w: "?ms' ! i = (ms ! i)\<lparr>mon_stage := Waiting\<rparr>" "i < length ?ms'" using m assms(4) by (simp_all add: monitor_begin_def)
  have "disc_step E (s, ?ms) (s, ?ms')" using disc_step.Begin [of i ?ms E s] m assms(3) by simp
  moreover have "\<exists>cs. s2 = s \<and> ms2 = map (monitor_signal (deviceServiceDiscoverStop cs s)) ?ms'"
    if st: "disc_step E (s, ?ms') (s2, ms2)" "mon_stage (ms2 ! i) \<noteq> Waiting" for s2 ms2
    using st(1)
  proof cases
    case (Start cs filters t orphaned ok ctxs)
    then show ?thesis using st(2) w by (simp add: nth_append)
  next
    case (Stop cs)
    then show ?thesis by blast
  next
    case (Begin j)
    then show ?thesis using st(2) w by (auto simp: nth_list_update split: if_splits)
  next
    case (Timeout j)
    then show ?thesis using st(2) w assms(5) by (auto simp: nth_list_update split: if_splits)
  next
    case (StopDrivers j)
    then show ?thesis using st(2) w by (auto simp: nth_list_update split: if_splits)
  next
    case (Leave j)
    then show ?thesis using st(2) w by (auto simp: nth_list_update split: if_splits)
  next
    case Other
    then show ?thesis using st(2) w by simp
  qed
  ultimately show ?thesis using w by (intro exI [of _ ?ms']) auto
qed

theorem early_stop_is_lost_witness:
  "\<exists>s m ms'. disc_reachable (tracking_env True) (s, [m]) \<and> mon_stage m = Created \<and>
     (disc_step (tracking_env True))\<^sup>*\<^sup>* (s, map (monitor_signal (deviceServiceDiscoverStop None s)) [m]) (s, ms') \<and> mon_stage (ms' ! 0) = Waiting"
proof -
  obtain ctx s' where s': "deviceServiceDiscoverStart (tracking_env True) 0 (Some [''light'']) None 0 False (tracking_service True) = ((True, [ctx]), s')"
    "ctx_timeoutSeconds ctx = 0" "ctx_startedDrivers ctx = Some [light1, light2]" using tracking_start by blast
  let ?m = "\<lparr>mon_ctx = ctx, mon_stage = Created\<rparr>"
  have "disc_reachable (tracking_env True) (tracking_service True, [])" by (rule disc_reachable.Initial) simp
  then have r: "disc_reachable (tracking_env True) (s', [?m])"
    using disc_step.Start [of "tracking_env True" "[]"] s'(1) by (fastforce intro: disc_reachable.Step)
  show ?thesis
    using early_stop_is_lost [OF tracking_contract, of 0 "[?m]" True s' None] s'(2,3) r
    by (intro exI [of _ s'] exI [of _ ?m]) auto
qed

text \<open>
  While the service is not ready for device operation, a class is admitted to discovery when one of its
  drivers may never be rejected, but then all its drivers are started: the selection of
  \<^verbatim>\<open>getDriversForDiscovery\<close> is not used to start them.
\<close>

theorem unready_service_starts_all_drivers:
  assumes "\<not> deviceServiceIsReadyForDeviceOperation s" "deviceDescriptorsListIsReady s" "hashMapGet (activeDiscoveries s) c = None"
    and "deviceDriverManagerGetDeviceDriversByDeviceClass (Some c) (svc_drivers s) = Some drivers"
    and "drv0 \<in> set drivers" "neverReject (driverOps E drv0)"
    and "\<And>drv. \<exists>f. discoverDevices (driverOps E drv) = Some f \<and> (\<forall>c s. f c s = (True, s))"
  shows "\<exists>ctx s'. deviceServiceDiscoverStart E i (Some [c]) filters t False s = ((True, [ctx]), s') \<and>
    ctx_startedDrivers ctx = Some drivers \<and> getDriversForDiscovery E c s = Some (filter (\<lambda>drv. neverReject (driverOps E drv)) drivers)"
proof -
  let ?s1 = "s\<lparr>discoveryTimeoutSeconds := t\<rparr>"
  have all: "\<exists>s2. start_drivers E c False ds s1 = ((ds, False), s2) \<and> activeDiscoveries s2 = activeDiscoveries s1"
    if "deviceDescriptorsListIsReady s1" for ds s1
    using that
  proof (induction ds arbitrary: s1)
    case (Cons d ds)
    obtain f where f: "discoverDevices (driverOps E d) = Some f" "\<forall>c s. f c s = (True, s)" using assms(7) by blast
    let ?s2 = "publish [Called (driverName d) (start_call False c)] s1"
    have "deviceDescriptorsListIsReady ?s2" using Cons.prems by (simp add: deviceDescriptorsListIsReady_def isDeviceDescriptorBypassed_def)
    from Cons.IH [OF this] show ?case using f Cons.prems by (auto simp: start_function_def)
  qed simp
  have sel: "getDriversForDiscovery E c s = Some (filter (\<lambda>drv. neverReject (driverOps E drv)) drivers)"
    using assms(1,4) by (simp add: getDriversForDiscovery_def)
  have "getDriversForDiscovery E c ?s1 = Some (filter (\<lambda>drv. neverReject (driverOps E drv)) drivers)" "deviceDescriptorsListIsReady ?s1"
    using assms(1,2,4) by (simp_all add: getDriversForDiscovery_def deviceServiceIsReadyForDeviceOperation_def deviceDescriptorsListIsReady_def isDeviceDescriptorBypassed_def)
  moreover have "filter (\<lambda>drv. neverReject (driverOps E drv)) drivers \<noteq> []" using assms(5,6) by (auto simp: filter_empty_conv)
  ultimately have news: "new_classes E False ?s1 [c] = Some [c]"
    using assms(3) by (simp add: validateDeviceClassForDiscovery_def checkDescriptorReadinessForDiscovery_def Let_def)
  let ?s2 = "publish [EvDiscoveryStarted ([c] @ map fst (activeDiscoveries s)) t False] ?s1"
  have "deviceDescriptorsListIsReady ?s2" using assms(2) by (simp add: deviceDescriptorsListIsReady_def isDeviceDescriptorBypassed_def)
  from all [OF this] obtain s2 where "start_drivers E c False drivers ?s2 = ((drivers, False), s2)" by blast
  then have "start_classes E False [c] [] False ?s2 = (([(c, drivers)], False), s2)"
    using assms(4) by (simp add: startDriverDiscoveryForDeviceClass_def hashMapPut_def hashMapContains_def)
  with news show ?thesis
    using sel by (simp add: deviceServiceDiscoverStart_def Let_def startDiscoveryMonitorForDeviceClass_def hashMapGet_def)
qed

text \<open>Two drivers that start whenever they are asked to; the first may never be rejected.\<close>

definition willing_env :: "(json, (string \<times> string) list, tracking) svc_env" where
  "willing_env = (tracking_env True)\<lparr>driverOps := (\<lambda>drv. (tracking_ops True drv)\<lparr>discoverDevices := Some (\<lambda>c s. (True, s))\<rparr>)\<rparr>"

theorem unready_service_starts_all_drivers_witness:
  "\<exists>ctx s'. deviceServiceDiscoverStart willing_env 0 (Some [''light'']) None 60 False (tracking_service False) = ((True, [ctx]), s') \<and>
     ctx_startedDrivers ctx = Some [light1, light2] \<and> getDriversForDiscovery willing_env ''light'' (tracking_service False) = Some [light1]"
  using unready_service_starts_all_drivers [of "tracking_service False" "''light''" "[light1, light2]" light1 willing_env 0 None 60]
  by (simp add: deviceServiceIsReadyForDeviceOperation_def deviceDescriptorsListIsReady_def hashMapGet_def willing_env_def tracking_ops_def)

end
