(* ===== verification/Device_Reconfigure.thy ===== *)
theory Device_Reconfigure
  imports Device_Discovery
begin

text \<open>
  Reconfiguration of paired devices, of \<^verbatim>\<open>core/src/deviceService.c\<close>: whether a device needs it, the table of
  pending reconfigurations, the task that builds the device anew and puts it in place of the old
  one, the wait of drivers of sleepy devices, cancellation at shutdown, and the initialisation of the
  devices when the subsystems become ready.
\<close>

section \<open>Names\<close>

definition COMMON_ENDPOINT_RESOURCE_LABEL :: string where "COMMON_ENDPOINT_RESOURCE_LABEL = ''label''"
definition COMMON_DEVICE_METADATA_RECONFIGURATION_REQUIRED :: string where
  "COMMON_DEVICE_METADATA_RECONFIGURATION_REQUIRED = ''reconfRequired''"
definition RECONFIGURATION_TIMEOUT_SEC :: u32 where "RECONFIGURATION_TIMEOUT_SEC = 1800"
definition MAX_PENDING_RECONFIGURATION_WAIT_COUNT :: nat where "MAX_PENDING_RECONFIGURATION_WAIT_COUNT = 2"

section \<open>What a reconfiguration keeps\<close>

text \<open>The value moves from the old resource to the first new one of that id; what is left of it comes first.\<close>

fun yoinkResource :: "util_api \<Rightarrow> cstr \<Rightarrow> string \<Rightarrow> icDeviceResource list \<Rightarrow> cstr \<times> icDeviceResource list" where
  "yoinkResource U old resourceId [] = (old, [])"
| "yoinkResource U old resourceId (r # rs) =
     (if stringCompare U (Some resourceId) (r_id r) False = 0 then (None, r\<lparr>r_value := old\<rparr> # rs)
      else map_prod id ((#) r) (yoinkResource U old resourceId rs))"

definition yoink_into ::
  "util_api \<Rightarrow> cstr option \<Rightarrow> string \<Rightarrow> icDeviceResource list option \<Rightarrow> cstr option \<times> icDeviceResource list option" where
  "yoink_into U old resourceId rs =
     (case (old, rs) of (Some v, Some l) \<Rightarrow> map_prod Some Some (yoinkResource U v resourceId l) | _ \<Rightarrow> (old, rs))"

text \<open>
  The new endpoints of the id of an old one: the first takes its metadata and its label; a second one of
  the same id gets what is left, no metadata and no label. The flag tells whether there is one.
\<close>

fun yoink_endpoint ::
  "util_api \<Rightarrow> cstr \<Rightarrow> icDeviceMetadata list option \<Rightarrow> cstr option \<Rightarrow> icDeviceEndpoint list \<Rightarrow> bool \<times> icDeviceEndpoint list" where
  "yoink_endpoint U endpointId ms label [] = (False, [])"
| "yoink_endpoint U endpointId ms label (n # ns) =
     (if stringCompare U endpointId (e_id n) False = 0
      then (case yoink_into U label COMMON_ENDPOINT_RESOURCE_LABEL (e_resources n) of (label', rs) \<Rightarrow>
        (True, n\<lparr>e_metadata := ms, e_resources := rs\<rparr> # snd (yoink_endpoint U endpointId None label' ns)))
      else map_prod id ((#) n) (yoink_endpoint U endpointId ms label ns))"

fun yoink_endpoints ::
  "util_api \<Rightarrow> cstr \<Rightarrow> 's json_db \<Rightarrow> icDeviceEndpoint list \<Rightarrow> icDeviceEndpoint list \<Rightarrow> (bool \<times> icDeviceEndpoint list) option" where
  "yoink_endpoints U uuid db [] ns = Some (True, ns)"
| "yoink_endpoints U uuid db (e # es) ns = do {
     oldLabelRes \<leftarrow> deviceServiceGetResourceByIdInternal U uuid (e_id e) (Some COMMON_ENDPOINT_RESOURCE_LABEL) db;
     case yoink_endpoint U (e_id e) (e_metadata e) (map_option r_value oldLabelRes) ns of
       (True, ns') \<Rightarrow> yoink_endpoints U uuid db es ns'
     | (False, ns') \<Rightarrow> Some (False, ns') }"

definition yoinkCustomizedDeviceData ::
  "util_api \<Rightarrow> icDevice \<Rightarrow> icDevice \<Rightarrow> 's json_db \<Rightarrow> (bool \<times> icDevice) option" where
  "yoinkCustomizedDeviceData U oldDevice newDevice db = do {
     oldDateAddedRes \<leftarrow> deviceServiceGetResourceByIdInternal U (d_uuid oldDevice) None (Some COMMON_DEVICE_RESOURCE_DATE_ADDED) db;
     let d1 = newDevice\<lparr>d_metadata := d_metadata oldDevice,
       d_resources := snd (yoink_into U (map_option r_value oldDateAddedRes) COMMON_DEVICE_RESOURCE_DATE_ADDED (d_resources newDevice))\<rparr>;
     (ok, ns) \<leftarrow> yoink_endpoints U (d_uuid oldDevice) db (items (d_endpoints oldDevice)) (items (d_endpoints newDevice));
     Some (ok, d1\<lparr>d_endpoints := map_option (\<lambda>_. ns) (d_endpoints newDevice)\<rparr>) }"

section \<open>Pending reconfigurations\<close>

definition deviceServiceSetReconfigureDeviceContext ::
  "ReconfigureDeviceContext option \<Rightarrow> ('j, 's, 'w) device_service \<Rightarrow> bool \<times> ('j, 's, 'w) device_service" where
  "deviceServiceSetReconfigureDeviceContext ctx s =
     (case (ctx, pendingReconfiguration s) of
        (Some c, Some m) \<Rightarrow> (case hashMapPut m (rc_deviceUuid c) c of (ok, m') \<Rightarrow> (ok, s\<lparr>pendingReconfiguration := Some m'\<rparr>))
      | _ \<Rightarrow> (False, s))"

definition new_reconfigure_context ::
  "string \<Rightarrow> reconfigurationCompleteCallback option \<Rightarrow> bool \<Rightarrow> ReconfigureDeviceContext" where
  "new_reconfigure_context deviceUuid reconfigurationCompleted allowAsap =
     \<lparr>rc_deviceUuid = deviceUuid, rc_taskHandle = 0, rc_isSignaled = False, rc_isAllowedAsap = allowAsap,
      rc_shouldTerminate = False, rc_timeoutSeconds = RECONFIGURATION_TIMEOUT_SEC,
      rc_reconfigurationCompleted = reconfigurationCompleted\<rparr>"

text \<open>The uuid is copied: it is never \<^verbatim>\<open>NULL\<close>. The handle of the task is known only after it is scheduled.\<close>

definition deviceServiceReconfigureDevice ::
  "('j, 's, 'w) svc_env \<Rightarrow> string \<Rightarrow> u32 \<Rightarrow> reconfigurationCompleteCallback option \<Rightarrow> bool \<Rightarrow> ('j, 's, 'w) device_service \<Rightarrow>
   ('j, 's, 'w) device_service" where
  "deviceServiceReconfigureDevice E deviceUuid delaySeconds reconfigurationCompleted allowAsap s =
     (if deviceServiceIsReconfigurationPending (Some deviceUuid) s then s
      else (case deviceServiceSetReconfigureDeviceContext
              (Some (new_reconfigure_context deviceUuid reconfigurationCompleted allowAsap)) s of
         (False, s1) \<Rightarrow> s1
       | (True, s1) \<Rightarrow> (case scheduleDelayTask E delaySeconds (svc_world s1) of (handle, w) \<Rightarrow>
           publish [ReconfigurationScheduled deviceUuid delaySeconds]
             (s1\<lparr>svc_world := w, pendingReconfiguration := map_option (\<lambda>m. hashMapUpdate m deviceUuid
                (\<lambda>c. c\<lparr>rc_taskHandle := handle\<rparr>)) (pendingReconfiguration s1)\<rparr>))))"

text \<open>
  The wait of a driver. Each wake-up from the condition variable finds the context signalled or not, asked
  to terminate or not, at the seconds since the start. The seconds left come first; \<open>None\<close>: it still
  waits when the wake-ups end.
\<close>

record wake_up =
  wk_isSignaled :: bool
  wk_shouldTerminate :: bool
  wk_elapsed :: int

fun wait_loop :: "u32 \<Rightarrow> u32 \<Rightarrow> bool \<Rightarrow> bool \<Rightarrow> wake_up list \<Rightarrow> bool option" where
  "wait_loop ctxTimeout timeoutSeconds isSignaled shouldTerminate wakes =
     (if timeoutSeconds > 0 \<and> \<not> isSignaled
      then (case wakes of [] \<Rightarrow> None
        | k # ks \<Rightarrow>
            if wk_isSignaled k then wait_loop ctxTimeout timeoutSeconds True (wk_shouldTerminate k) ks
            else if uint ctxTimeout > wk_elapsed k
            then wait_loop ctxTimeout (word_of_int (uint ctxTimeout - wk_elapsed k)) False (wk_shouldTerminate k) ks
            else Some False)
      else Some (\<not> shouldTerminate))"

declare wait_loop.simps [simp del]

definition deviceServiceWaitForReconfigure :: "cstr \<Rightarrow> wake_up list \<Rightarrow> ('j, 's, 'w) device_service \<Rightarrow> bool option" where
  "deviceServiceWaitForReconfigure deviceUuid wakes s =
     (case deviceServiceGetReconfigureDeviceContext deviceUuid s of None \<Rightarrow> Some False
      | Some c \<Rightarrow> wait_loop (rc_timeoutSeconds c) (rc_timeoutSeconds c) (rc_isSignaled c) (rc_shouldTerminate c) wakes)"

text \<open>A task that has not started is cancelled; one that runs is told to terminate.\<close>

fun cancel_pending ::
  "('j, 's, 'w) svc_env \<Rightarrow> (string, ReconfigureDeviceContext) hmap \<Rightarrow> 'w \<Rightarrow> (string, ReconfigureDeviceContext) hmap \<times> 'w" where
  "cancel_pending E [] w = ([], w)"
| "cancel_pending E ((u, c) # m) w =
     (if isDelayTaskWaiting E (rc_taskHandle c) w then cancel_pending E m (cancelDelayTask E (rc_taskHandle c) w)
      else map_prod ((#) (u, c\<lparr>rc_isSignaled := True, rc_shouldTerminate := True\<rparr>)) id (cancel_pending E m w))"

definition cancelPendingReconfigurationTasks ::
  "('j, 's, 'w) svc_env \<Rightarrow> ('j, 's, 'w) device_service \<Rightarrow> ('j, 's, 'w) device_service" where
  "cancelPendingReconfigurationTasks E s =
     (case pendingReconfiguration s of None \<Rightarrow> s
      | Some m \<Rightarrow> (case cancel_pending E m (svc_world s) of (m', w) \<Rightarrow> s\<lparr>pendingReconfiguration := Some m', svc_world := w\<rparr>))"

text \<open>\<open>await\<close> is what the other threads do during one wait on the condition variable.\<close>

fun wait_pending :: "nat \<Rightarrow> (('j, 's, 'w) device_service \<Rightarrow> ('j, 's, 'w) device_service) \<Rightarrow> ('j, 's, 'w) device_service \<Rightarrow>
   ('j, 's, 'w) device_service" where
  "wait_pending 0 await s = s"
| "wait_pending (Suc n) await s =
     (if (case pendingReconfiguration s of None \<Rightarrow> True | Some m \<Rightarrow> m = []) then s else wait_pending n await (await s))"

definition waitForPendingReconfigurationsToComplete ::
  "(('j, 's, 'w) device_service \<Rightarrow> ('j, 's, 'w) device_service) \<Rightarrow> ('j, 's, 'w) device_service \<Rightarrow> ('j, 's, 'w) device_service" where
  "waitForPendingReconfigurationsToComplete = wait_pending MAX_PENDING_RECONFIGURATION_WAIT_COUNT"

section \<open>The task\<close>

text \<open>
  The new device, configured and with its resources. The driver functions are called without a test:
  a driver that lacks one of them is a fault. The first step that fails ends it.
\<close>

definition rebuild_device ::
  "('j, 's, 'w) svc_env \<Rightarrow> DeviceDriver \<Rightarrow> cstr \<Rightarrow> cstr \<Rightarrow> cstr \<Rightarrow> cstr \<Rightarrow> DeviceDescriptor option \<Rightarrow> icDevice \<Rightarrow>
   ('j, 's, 'w) device_service \<Rightarrow> ((bool \<times> icDevice) \<times> ('j, 's, 'w) device_service) option" where
  "rebuild_device E drv man mdl hw fw dd d s = do {
     let ops = driverOps E drv;
     let name = driverName drv;
     configure \<leftarrow> configureDevice ops;
     case configure d dd (publish [Called name (ConfigureDevice d dd)] s) of ((ok1, d1), s1) \<Rightarrow>
       if \<not> ok1 then Some ((False, d1), s1)
       else (case fetchCommonResourcesInitialValues man mdl hw fw initialResourceValuesCreate s1 of (vs, s2) \<Rightarrow>
         case addCommonResources d1 vs of (ok2, d2) \<Rightarrow>
           if \<not> ok2 then Some ((False, d2), s2)
           else do {
             fetch \<leftarrow> fetchInitialResourceValues ops;
             case fetch d2 vs (publish [Called name (FetchInitialResourceValues d2)] s2) of ((ok3, d3, vs3), s3) \<Rightarrow>
               if \<not> ok3 then Some ((False, d3), s3)
               else do {
                 register \<leftarrow> registerResources ops;
                 Some (register d3 vs3 (publish [Called name (RegisterResources d3)] s3)) } }) }"

text \<open>
  The new device takes what it keeps from the old one and takes its place. What became of the removal
  and of the finalisation is not looked at.
\<close>

definition replace_device ::
  "('j, 's, 'w) svc_env \<Rightarrow> string \<Rightarrow> icDevice \<Rightarrow> icDevice \<Rightarrow> ('j, 's, 'w) device_service \<Rightarrow> (bool \<times> ('j, 's, 'w) device_service) option" where
  "replace_device E deviceUuid device newDevice s = do {
     (ok, d) \<leftarrow> yoinkCustomizedDeviceData (svc_util E) device newDevice (svc_db s);
     if \<not> ok then Some (False, s)
     else do {
       (_, s1) \<leftarrow> in_db (jsonDatabaseRemoveDeviceById (svc_db_env E) (d_uuid device)) s;
       (_, s2) \<leftarrow> finalizeNewDevice E (Some d) False False s1;
       (_, s3) \<leftarrow> deviceServiceRemoveMetadata E (Some deviceUuid) None (Some COMMON_DEVICE_METADATA_RECONFIGURATION_REQUIRED) s2;
       Some (True, s3) } }"

definition reconfigure_with ::
  "('j, 's, 'w) svc_env \<Rightarrow> string \<Rightarrow> icDevice \<Rightarrow> DeviceDriver \<Rightarrow> cstr \<Rightarrow> cstr \<Rightarrow> cstr \<Rightarrow> cstr \<Rightarrow> u8 \<Rightarrow>
   ('j, 's, 'w) device_service \<Rightarrow> (bool \<times> ('j, 's, 'w) device_service) option" where
  "reconfigure_with E deviceUuid device drv man mdl hw fw newDeviceClassVersion s =
     do { (dd, st) \<leftarrow> deviceDescriptorsGet (svc_util E) (svc_parse E) man mdl hw fw (svc_descriptors s);
        let s1 = s\<lparr>svc_descriptors := st\<rparr>;
        created \<leftarrow> createDevice (d_uuid device) (d_deviceClass device) newDeviceClassVersion (driverName drv) dd;
        d \<leftarrow> created;
        es \<leftarrow> (case deviceServiceCommFailHintDeviceTimeoutSecs (svc_cf_env E) d
                  (deviceServiceCommFailGetDeviceTimeoutSecs (svc_cf_env E) (Some device) (svc_fail s1)) (svc_drivers s1) of
                Inl _ \<Rightarrow> None | Inr es \<Rightarrow> Some es);
        ((ok, newDevice), s2) \<leftarrow> rebuild_device E drv man mdl hw fw dd d (publish (map EvCommFail es) s1);
        if \<not> ok then Some (False, s2) else replace_device E deviceUuid device newDevice s2 }"

text \<open>The part up to the result.\<close>

definition try_reconfigure ::
  "('j, 's, 'w) svc_env \<Rightarrow> string \<Rightarrow> ('j, 's, 'w) device_service \<Rightarrow> (bool \<times> ('j, 's, 'w) device_service) option" where
  "try_reconfigure E deviceUuid s =
     (case deviceServiceGetDevice (Some deviceUuid) (svc_db s) of None \<Rightarrow> Some (False, s)
      | Some device \<Rightarrow> do {
          driver \<leftarrow> getDeviceDriverForUri (d_uri device) s;
          case driver of None \<Rightarrow> Some (False, s)
          | Some drv \<Rightarrow>
              (case getDeviceClassVersion (driverOps E drv) of None \<Rightarrow> Some (False, s)
               | Some getVersion \<Rightarrow> do {
                   man \<leftarrow> deviceServiceFindDeviceResourceById (Some device) COMMON_DEVICE_RESOURCE_MANUFACTURER;
                   mdl \<leftarrow> deviceServiceFindDeviceResourceById (Some device) COMMON_DEVICE_RESOURCE_MODEL;
                   hw \<leftarrow> deviceServiceFindDeviceResourceById (Some device) COMMON_DEVICE_RESOURCE_HARDWARE_VERSION;
                   fw \<leftarrow> deviceServiceFindDeviceResourceById (Some device) COMMON_DEVICE_RESOURCE_FIRMWARE_VERSION;
                   case (man, mdl, hw, fw) of
                     (Some a, Some b, Some c, Some e) \<Rightarrow>
                       (case getVersion (d_deviceClass device) s of None \<Rightarrow> Some (False, s)
                        | Some v \<Rightarrow> reconfigure_with E deviceUuid device drv (r_value a) (r_value b) (r_value c) (r_value e) v s)
                   | _ \<Rightarrow> Some (False, s) }) })"

text \<open>After a failed start-up reconfiguration the device is synchronised instead; the driver must be able to.\<close>

definition reconfigurationCompletedCallback ::
  "('j, 's, 'w) svc_env \<Rightarrow> bool \<Rightarrow> string \<Rightarrow> ('j, 's, 'w) device_service \<Rightarrow> ('j, 's, 'w) device_service option" where
  "reconfigurationCompletedCallback E result deviceUuid s =
     (if result \<or> \<not> deviceServiceIsReadyForDeviceOperation s then Some s
      else (case deviceServiceGetDevice (Some deviceUuid) (svc_db s) of None \<Rightarrow> Some s
        | Some d \<Rightarrow> do {
            driver \<leftarrow> getDeviceDriverForUri (d_uri d) s;
            case driver of None \<Rightarrow> Some s
            | Some drv \<Rightarrow> do {
                sync \<leftarrow> synchronizeDevice (driverOps E drv);
                Some (sync d (publish [Called (driverName drv) (SynchronizeDevice d)] s)) } }))"

definition reconfiguration_completed ::
  "('j, 's, 'w) svc_env \<Rightarrow> ReconfigureDeviceContext \<Rightarrow> bool \<Rightarrow> ('j, 's, 'w) device_service \<Rightarrow> ('j, 's, 'w) device_service option" where
  "reconfiguration_completed E ctx result s =
     (case rc_reconfigurationCompleted ctx of None \<Rightarrow> Some s
      | Some ServiceCallback \<Rightarrow> reconfigurationCompletedCallback E result (rc_deviceUuid ctx) s
      | Some (ClientCallback n) \<Rightarrow> Some (clientCallback E n result (rc_deviceUuid ctx)
          (publish [ReconfigurationCompleted n result (rc_deviceUuid ctx)] s)))"

definition reconfigureDeviceTask ::
  "('j, 's, 'w) svc_env \<Rightarrow> ReconfigureDeviceContext \<Rightarrow> ('j, 's, 'w) device_service \<Rightarrow> ('j, 's, 'w) device_service option" where
  "reconfigureDeviceTask E ctx s = do {
     s1 \<leftarrow> setMetadata E (Some (rc_deviceUuid ctx)) None (Some COMMON_DEVICE_METADATA_RECONFIGURATION_REQUIRED) (Some ''true'') s;
     (result, s2) \<leftarrow> try_reconfigure E (rc_deviceUuid ctx) s1;
     s3 \<leftarrow> reconfiguration_completed E ctx result s2;
     Some (snd (deviceServiceRemoveReconfigureDeviceContext (Some ctx) s3)) }"

section \<open>Which devices need it\<close>

text \<open>Some endpoint has another profile version than the driver expects.\<close>

fun profile_outdated :: "(string, u8) hmap \<Rightarrow> icDeviceEndpoint list \<Rightarrow> bool option" where
  "profile_outdated expected [] = Some False"
| "profile_outdated expected (e # es) = do {
     profile \<leftarrow> e_profile e;
     case hashMapGet expected profile of
       Some v \<Rightarrow> if e_profileVersion e \<noteq> v then Some True else profile_outdated expected es
     | None \<Rightarrow> profile_outdated expected es }"

definition class_outdated :: "('j, 's, 'w) svc_env \<Rightarrow> DeviceDriver \<Rightarrow> icDevice \<Rightarrow> ('j, 's, 'w) device_service \<Rightarrow> bool" where
  "class_outdated E drv d s =
     (case getDeviceClassVersion (driverOps E drv) of None \<Rightarrow> False
      | Some getVersion \<Rightarrow> (case getVersion (d_deviceClass d) s of None \<Rightarrow> False | Some v \<Rightarrow> d_deviceClassVersion d \<noteq> v))"

definition deviceServiceDeviceNeedsReconfiguring ::
  "('j, 's, 'w) svc_env \<Rightarrow> cstr \<Rightarrow> ('j, 's, 'w) device_service \<Rightarrow> bool option" where
  "deviceServiceDeviceNeedsReconfiguring E deviceUuid s =
     (case deviceServiceGetDevice deviceUuid (svc_db s) of None \<Rightarrow> Some False
      | Some d \<Rightarrow> do {
          driver \<leftarrow> getDeviceDriverForUri (d_uri d) s;
          case driver of None \<Rightarrow> Some False
          | Some drv \<Rightarrow>
              if class_outdated E drv d s then Some True
              else do {
                outdated \<leftarrow> (case endpointProfileVersions (driverOps E drv) of None \<Rightarrow> Some False
                  | Some m \<Rightarrow> profile_outdated m (items (d_endpoints d)));
                if outdated then Some True
                else map_option (stringToBool E)
                  (getMetadata (d_uuid d) None (Some COMMON_DEVICE_METADATA_RECONFIGURATION_REQUIRED) (svc_db s)) } })"

section \<open>Initialisation of the devices\<close>

definition deviceInitializationTask ::
  "('j, 's, 'w) svc_env \<Rightarrow> string \<Rightarrow> ('j, 's, 'w) device_service \<Rightarrow> ('j, 's, 'w) device_service option" where
  "deviceInitializationTask E uuid s =
     (if shuttingDown s then Some s
      else (case deviceServiceGetDevice (Some uuid) (svc_db s) of None \<Rightarrow> Some s
        | Some d \<Rightarrow> do {
            driver \<leftarrow> getDeviceDriverForUri (d_uri d) s;
            case driver of None \<Rightarrow> Some s
            | Some drv \<Rightarrow> do {
                needed \<leftarrow> deviceServiceDeviceNeedsReconfiguring E (Some uuid) s;
                Some (if needed then deviceServiceReconfigureDevice E uuid 0 (Some ServiceCallback) False s
                  else notify_driver drv (SynchronizeDevice d)
                    (map_option (\<lambda>f. f d) (synchronizeDevice (driverOps E drv))) s) } }))"

text \<open>The tasks the thread pool is given, one for each device; the pool runs them later.\<close>

definition startDeviceInitialization :: "('j, 's, 'w) device_service \<Rightarrow> string list option" where
  "startDeviceInitialization s = collect d_uuid (jsonDatabaseGetDevices (svc_db s))"

definition subsystemManagerReadyForDevicesCallback ::
  "('j, 's, 'w) svc_env \<Rightarrow> ('j, 's, 'w) device_service \<Rightarrow> (string list \<times> ('j, 's, 'w) device_service) option" where
  "subsystemManagerReadyForDevicesCallback E s = do {
     let s1 = publish [EvReadyForDeviceOperation] (notifyDriversForServiceStatusChange E (s\<lparr>subsystemsReadyForDevices := True\<rparr>));
     tasks \<leftarrow> startDeviceInitialization s1;
     Some (tasks, s1) }"

section \<open>What is kept\<close>

lemma compare_ids [simp]: "util_ok U \<Longrightarrow> stringCompare U (Some i) j False = 0 \<longleftrightarrow> j = Some i"
  by (cases j) (auto simp: util_okD)

lemma yoinkResource_first:
  "util_ok U \<Longrightarrow> snd (yoinkResource U v i rs) = update_first (\<lambda>r. r_id r = Some i) (\<lambda>r. r\<lparr>r_value := v\<rparr>) rs"
  by (induction rs) auto

definition with_value :: "string \<Rightarrow> cstr option \<Rightarrow> icDeviceResource list option \<Rightarrow> icDeviceResource list option" where
  "with_value i old rs = (case old of None \<Rightarrow> rs
     | Some v \<Rightarrow> map_option (update_first (\<lambda>r. r_id r = Some i) (\<lambda>r. r\<lparr>r_value := v\<rparr>)) rs)"

lemma yoink_into_with: "util_ok U \<Longrightarrow> snd (yoink_into U old i rs) = with_value i old rs"
  by (cases old; cases rs) (simp_all add: yoink_into_def with_value_def yoinkResource_first)

definition customised :: "icDeviceEndpoint \<Rightarrow> cstr option \<Rightarrow> icDeviceEndpoint \<Rightarrow> icDeviceEndpoint" where
  "customised e label n = n\<lparr>e_metadata := e_metadata e, e_resources := with_value COMMON_ENDPOINT_RESOURCE_LABEL label (e_resources n)\<rparr>"

lemma customised_id [simp]: "e_id (customised e l n) = e_id n"
  by (simp add: customised_def)

lemma yoink_endpoint_none: "util_ok U \<Longrightarrow> Some i \<notin> set (map e_id ns) \<Longrightarrow> yoink_endpoint U (Some i) ms l ns = (False, ns)"
  by (induction ns) auto

lemma yoink_endpoint_one:
  assumes "util_ok U" "distinct (map e_id ns)" "e_id e = Some i"
  shows "yoink_endpoint U (Some i) (e_metadata e) l ns =
    (Some i \<in> set (map e_id ns), map (\<lambda>n. if e_id n = Some i then customised e l n else n) ns)"
  using assms(2)
proof (induction ns)
  case (Cons n ns)
  show ?case
  proof (cases "e_id n = Some i")
    case True
    then have "Some i \<notin> set (map e_id ns)" using Cons.prems by auto
    moreover from this have "map (\<lambda>n. if e_id n = Some i then customised e l n else n) ns = ns"
      by (intro map_idI) (auto simp: image_iff)
    ultimately show ?thesis using True assms(1)
      by (auto simp: yoink_endpoint_none customised_def yoink_into_with [symmetric] split: prod.splits)
  qed (use Cons assms(1) in \<open>auto\<close>)
qed simp

definition old_value :: "util_api \<Rightarrow> cstr \<Rightarrow> cstr \<Rightarrow> string \<Rightarrow> 's json_db \<Rightarrow> cstr option" where
  "old_value U u ep i db = (case deviceServiceGetResourceByIdInternal U u ep (Some i) db of Some (Some r) \<Rightarrow> Some (r_value r) | _ \<Rightarrow> None)"

text \<open>A new endpoint, after the old ones have been gone through.\<close>

definition kept_endpoint :: "util_api \<Rightarrow> cstr \<Rightarrow> 's json_db \<Rightarrow> icDeviceEndpoint list \<Rightarrow> icDeviceEndpoint \<Rightarrow> icDeviceEndpoint" where
  "kept_endpoint U u db es n = (case find (\<lambda>e. e_id e = e_id n) es of None \<Rightarrow> n
     | Some e \<Rightarrow> customised e (old_value U u (e_id e) COMMON_ENDPOINT_RESOURCE_LABEL db) n)"

lemma lookup_total:
  assumes "db_inv db"
  obtains x where "deviceServiceGetResourceByIdInternal U u ep i db = Some x"
proof -
  have "\<exists>x. deviceServiceGetResourceByIdInternal U u ep i db = Some x"
    using getResource_exact [OF assms] by (cases u; cases i) (fastforce simp: deviceServiceGetResourceByIdInternal_def)+
  then show ?thesis using that by blast
qed

lemma yoink_endpoints_all:
  assumes "util_ok U" "db_inv db"
  shows "distinct (map e_id ns) \<Longrightarrow> distinct (map e_id es) \<Longrightarrow> None \<notin> set (map e_id es) \<Longrightarrow>
    set (map e_id es) \<subseteq> set (map e_id ns) \<Longrightarrow>
    yoink_endpoints U u db es ns = Some (True, map (kept_endpoint U u db es) ns)"
proof (induction es arbitrary: ns)
  case Nil
  have "kept_endpoint U u db [] = id" by (auto simp: kept_endpoint_def)
  then show ?case by simp
next
  case (Cons e es)
  obtain i where i: "e_id e = Some i" using Cons.prems(3) by (cases "e_id e") auto
  obtain x where x: "deviceServiceGetResourceByIdInternal U u (e_id e) (Some COMMON_ENDPOINT_RESOURCE_LABEL) db = Some x"
    by (rule lookup_total [OF assms(2)])
  let ?l = "old_value U u (e_id e) COMMON_ENDPOINT_RESOURCE_LABEL db"
  let ?f = "\<lambda>n. if e_id n = Some i then customised e ?l n else n"
  have l: "map_option r_value x = ?l" using x by (auto simp: old_value_def split: option.splits)
  have ids: "map e_id (map ?f ns) = map e_id ns" by auto
  have rest: "yoink_endpoints U u db es (map ?f ns) = Some (True, map (kept_endpoint U u db es) (map ?f ns))"
    by (rule Cons.IH) (use Cons.prems in \<open>auto simp: ids simp del: map_map\<close>)
  have "find (\<lambda>e. e_id e = Some i) es = None" using Cons.prems(2) i by (auto simp: find_None_iff image_iff)
  then have k: "kept_endpoint U u db es (?f n) = kept_endpoint U u db (e # es) n" for n
    using i by (auto simp: kept_endpoint_def)
  have "map (kept_endpoint U u db es) (map ?f ns) = map (kept_endpoint U u db (e # es)) ns"
    unfolding map_map comp_def k ..
  with rest x l i yoink_endpoint_one [OF assms(1) Cons.prems(1) i, of ?l] Cons.prems(4) show ?case by simp
qed

text \<open>An old endpoint that the new device lacks stops the reconfiguration.\<close>

lemma yoink_endpoints_missing:
  assumes "util_ok U" "db_inv db"
  shows "distinct (map e_id ns) \<Longrightarrow> None \<notin> set (map e_id es) \<Longrightarrow> \<not> set (map e_id es) \<subseteq> set (map e_id ns) \<Longrightarrow>
    \<exists>ns'. yoink_endpoints U u db es ns = Some (False, ns')"
proof (induction es arbitrary: ns)
  case (Cons e es)
  obtain i where i: "e_id e = Some i" using Cons.prems(2) by (cases "e_id e") auto
  obtain x where x: "deviceServiceGetResourceByIdInternal U u (e_id e) (Some COMMON_ENDPOINT_RESOURCE_LABEL) db = Some x"
    by (rule lookup_total [OF assms(2)])
  let ?f = "\<lambda>n. if e_id n = Some i then customised e (map_option r_value x) n else n"
  have ids: "map e_id (map ?f ns) = map e_id ns" by auto
  have IH: "\<exists>ns'. yoink_endpoints U u db es (map ?f ns) = Some (False, ns')" if "Some i \<in> set (map e_id ns)"
    by (rule Cons.IH) (use Cons.prems i that in \<open>auto simp only: ids list.set_map [symmetric] list.map list.set\<close>)
  show ?case using IH x i yoink_endpoint_one [OF assms(1) Cons.prems(1) i, of "map_option r_value x"]
    by (cases "Some i \<in> set (map e_id ns)") auto
qed simp

section \<open>An example\<close>

definition labelled_device :: icDevice where
  "labelled_device = example_device\<lparr>
     d_resources := Some [example_resource None ''dateAdded'' ''1600000000000'' 1],
     d_endpoints := Some [\<lparr>e_id = Some ''1'', e_uri = Some ''/d1/ep/1'', e_profile = Some ''doorLock'',
        e_profileVersion = 3, e_deviceUuid = Some ''d1'', e_enabled = True,
        e_resources = Some [example_resource (Some ''1'') ''label'' ''Front door'' 3],
        e_metadata = Some [example_metadata (Some ''1'') ''note'' ''x'']\<rparr>],
     d_metadata := Some [example_metadata None ''reconfRequired'' ''true'']\<rparr>"

definition rebuilt_device :: icDevice where
  "rebuilt_device = example_device\<lparr>d_uri := None, d_deviceClassVersion := 3,
     d_resources := Some [example_resource None ''dateAdded'' ''1700000000000'' 1],
     d_endpoints := Some [\<lparr>e_id = Some ''1'', e_uri = None, e_profile = Some ''doorLock'',
        e_profileVersion = 4, e_deviceUuid = Some ''d1'', e_enabled = True,
        e_resources = Some [example_resource (Some ''1'') ''label'' '''' 3], e_metadata = Some []\<rparr>],
     d_metadata := Some []\<rparr>"

definition labelled_db :: "(string \<times> string) list json_db" where
  "labelled_db = (empty_db [])\<lparr>devices := [(''d1'', \<lparr>ce_device = labelled_device, ce_dirty = False\<rparr>)],
     resourcesByUri := device_entries ''d1'' labelled_device\<rparr>"

lemma db_inv_labelled: "db_inv labelled_db"
proof -
  have l: "loads example_util ''d1'' labelled_device" "d_uuid labelled_device = Some ''d1''" by code_simp+
  show ?thesis
    using db_inv_append [OF db_inv_empty loads_device_inv [OF l], of _ "device_entries ''d1'' labelled_device"] l(1)
    by (simp add: labelled_db_def empty_db_def loads_def)
qed

text \<open>The same service with a storage that is full.\<close>

definition full_svc_env :: "(json, (string \<times> string) list, unit) svc_env" where
  "full_svc_env = example_svc_env\<lparr>svc_db_env := example_env\<lparr>storageSave := (\<lambda>ns k t st. (False, st))\<rparr>\<rparr>"

abbreviation reconfigured_device :: icDevice where
  "reconfigured_device \<equiv> snd (the (yoinkCustomizedDeviceData example_util labelled_device rebuilt_device labelled_db))"

section \<open>Data that is kept\<close>

text \<open>
  C23. A reconfigured device keeps what the user made of it. When the new device has every endpoint of
  the old one, it takes over the metadata of the device and of the endpoints, the date the device was
  added and the labels as the database has them; nothing else of the new device changes, and endpoints
  that are new stay as they are. When an endpoint is missing the data is not taken over, and the
  reconfiguration fails.
\<close>

theorem reconfiguration_keeps_customisation:
  assumes "util_ok U" "db_inv db"
    and "distinct (map e_id (items (d_endpoints old)))" "distinct (map e_id (items (d_endpoints new)))"
    and "\<forall>e \<in> set (items (d_endpoints old)). e_id e \<noteq> None"
  shows "if \<forall>e \<in> set (items (d_endpoints old)). \<exists>n \<in> set (items (d_endpoints new)). e_id n = e_id e
    then yoinkCustomizedDeviceData U old new db = Some (True, new\<lparr>d_metadata := d_metadata old,
        d_resources := with_value COMMON_DEVICE_RESOURCE_DATE_ADDED
          (old_value U (d_uuid old) None COMMON_DEVICE_RESOURCE_DATE_ADDED db) (d_resources new),
        d_endpoints := map_option (map (kept_endpoint U (d_uuid old) db (items (d_endpoints old)))) (d_endpoints new)\<rparr>)
    else \<exists>d. yoinkCustomizedDeviceData U old new db = Some (False, d)"
proof -
  let ?es = "items (d_endpoints old)" and ?ns = "items (d_endpoints new)"
  obtain x where x: "deviceServiceGetResourceByIdInternal U (d_uuid old) None (Some COMMON_DEVICE_RESOURCE_DATE_ADDED) db = Some x"
    by (rule lookup_total [OF assms(2)])
  then have date: "map_option r_value x = old_value U (d_uuid old) None COMMON_DEVICE_RESOURCE_DATE_ADDED db"
    by (auto simp: old_value_def split: option.splits)
  have some: "None \<notin> set (map e_id ?es)" using assms(5) by force
  have sub: "(\<forall>e \<in> set ?es. \<exists>n \<in> set ?ns. e_id n = e_id e) \<longleftrightarrow> set (map e_id ?es) \<subseteq> set (map e_id ?ns)"
    by (auto simp: image_iff subset_iff) metis+
  show ?thesis
  proof (cases "set (map e_id ?es) \<subseteq> set (map e_id ?ns)")
    case True
    from yoink_endpoints_all [OF assms(1,2,4,3) some True, of "d_uuid old"] x date show ?thesis
      unfolding if_P [OF True [folded sub]]
      by (cases "d_endpoints new") (simp_all add: yoinkCustomizedDeviceData_def yoink_into_with [OF assms(1)])
  next
    case False
    from yoink_endpoints_missing [OF assms(1,2,4) some False, of "d_uuid old"] x show ?thesis
      unfolding if_not_P [OF False [folded sub]] by (auto simp: yoinkCustomizedDeviceData_def)
  qed
qed

theorem reconfiguration_keeps_customisation_witness:
  "\<exists>d. yoinkCustomizedDeviceData example_util labelled_device rebuilt_device labelled_db = Some (True, d) \<and>
     d_metadata d = d_metadata labelled_device \<and> map r_value (items (d_resources d)) = [Some ''1600000000000''] \<and>
     map (\<lambda>e. map r_value (items (e_resources e))) (items (d_endpoints d)) = [[Some ''Front door'']] \<and>
     map e_metadata (items (d_endpoints d)) = [Some [example_metadata (Some ''1'') ''note'' ''x'']]"
proof -
  have "distinct (map e_id (items (d_endpoints labelled_device)))" "distinct (map e_id (items (d_endpoints rebuilt_device)))"
    "\<forall>e \<in> set (items (d_endpoints labelled_device)). e_id e \<noteq> None" by code_simp+
  note keeps = reconfiguration_keeps_customisation [OF util_ok_example db_inv_labelled this]
  have "\<forall>e \<in> set (items (d_endpoints labelled_device)). \<exists>n \<in> set (items (d_endpoints rebuilt_device)). e_id n = e_id e"
    by code_simp
  note keeps [unfolded if_P [OF this]]
  moreover have "with_value COMMON_DEVICE_RESOURCE_DATE_ADDED
      (old_value example_util (d_uuid labelled_device) None COMMON_DEVICE_RESOURCE_DATE_ADDED labelled_db) (d_resources rebuilt_device) =
      Some [example_resource None ''dateAdded'' ''1600000000000'' 1]"
    "map_option (map (kept_endpoint example_util (d_uuid labelled_device) labelled_db (items (d_endpoints labelled_device))))
      (d_endpoints rebuilt_device) = Some [(hd (items (d_endpoints rebuilt_device)))\<lparr>
        e_metadata := Some [example_metadata (Some ''1'') ''note'' ''x''], e_resources := Some [example_resource (Some ''1'') ''label'' ''Front door'' 3]\<rparr>]"
    by code_simp+
  ultimately show ?thesis by (simp add: example_resource_def)
qed

section \<open>Taking the place of the old device\<close>

lemma removed_index:
  assumes "db_inv db'" "\<forall>v. hashMapGet (devices db') v = (if v = u then None else hashMapGet (devices db) v)"
    and "\<forall>v ce. v \<noteq> u \<longrightarrow> hashMapGet (devices db) v = Some ce \<longrightarrow> keys_of (device_entries v (ce_device ce)) \<inter> ks = {}"
  shows "ks \<inter> keys_of (resourcesByUri db') = {}"
proof -
  have "k \<notin> ks" if k: "k \<in> keys_of (resourcesByUri db')" for k
  proof -
    obtain loc where "hashMapGet (resourcesByUri db') k = Some loc" 
      using k hashMapGet_none [of "resourcesByUri db'" k] by auto
    then obtain v ce where "hashMapGet (devices db') v = Some ce" "(k, loc) \<in> set (device_entries v (ce_device ce))"
      using db_inv_index [OF assms(1)] by blast
    moreover from this have "v \<noteq> u" "hashMapGet (devices db) v = Some ce" using assms(2) by (auto split: if_splits)
    moreover have "k \<in> keys_of (device_entries v (ce_device ce))" using calculation(2) by force
    ultimately show ?thesis using assms(3) by blast
  qed
  then show ?thesis by blast
qed

lemma delete_unique:
  "distinct (map g xs) \<Longrightarrow> snd (linkedListDelete (\<lambda>x. g x = a) xs) = filter (\<lambda>x. g x \<noteq> a) xs"
proof (induction xs)
  case (Cons x xs)
  then show ?case by (cases "g x = a") (auto simp: case_prod_beta image_iff intro!: filter_True [symmetric])
qed simp

text \<open>Removing a metadata item of a device itself.\<close>

abbreviation drop_metadata :: "string \<Rightarrow> icDevice \<Rightarrow> icDevice" where
  "drop_metadata k d \<equiv> d\<lparr>d_metadata := map_option (filter (\<lambda>m. m_uri m \<noteq> Some k)) (d_metadata d)\<rparr>"

lemma drop_metadata_entries:
  assumes "device_inv u d" "\<And>loc. (k, loc) \<in> set (device_entries u d) \<Longrightarrow> loc = MetadataLocator u None k"
  shows "device_inv u (drop_metadata k d)" "set (device_entries u (drop_metadata k d)) = set (device_entries u d) - {(k, MetadataLocator u None k)}"
proof -
  have its: "items (map_option (filter P) xs) = filter P (items xs)" for P and xs :: "icDeviceMetadata list option"
    by (cases xs) simp_all
  show inv: "device_inv u (drop_metadata k d)"
    using assms(1) by (auto simp: device_inv_def metadata_uris_present_def its list_all_iff)
  have "(j, loc) \<in> set (device_entries u (drop_metadata k d)) \<longleftrightarrow>
      (j, loc) \<in> set (device_entries u d) \<and> (j, loc) \<noteq> (k, MetadataLocator u None k)" for j loc
  proof (cases "loc = MetadataLocator u None k")
    case True
    then show ?thesis by (auto simp: mem_device_entries [OF inv] mem_device_entries [OF assms(1)] its mem_endpoint_entries)
  next
    case False
    then show ?thesis by (auto simp: mem_device_entries [OF inv] mem_device_entries [OF assms(1)] its)
  qed
  then show "set (device_entries u (drop_metadata k d)) = set (device_entries u d) - {(k, MetadataLocator u None k)}" by auto
qed

lemma removeMetadata_device:
  assumes "db_inv db" "hashMapGet (devices db) u = Some ce" "m \<in> set (items (d_metadata (ce_device ce)))" "m_uri m = Some k"
    and "distinct (map m_uri (items (d_metadata (ce_device ce))))"
  obtains ok db' where "jsonDatabaseRemoveMetadataByUri E (Some k) db = Some (ok, db')" "db_inv db'"
    "\<forall>v. map_option ce_device (hashMapGet (devices db') v) =
      (if v = u then Some (drop_metadata k (ce_device ce)) else map_option ce_device (hashMapGet (devices db) v))"
proof -
  let ?d = "ce_device ce" and ?db1 = "db\<lparr>resourcesByUri := snd (hashMapDelete (resourcesByUri db) k)\<rparr>"
  let ?f = "upd_device (upd_metadata None (\<lambda>l. snd (linkedListDelete (\<lambda>m. m_uri m = Some k) l)))"
  let ?db2 = "upd_entry u ?f ?db1"
  have d: "device_inv u ?d" by (rule db_inv_device [OF assms(1,2)])
  have mem: "(k, MetadataLocator u None k) \<in> set (device_entries u ?d)"
    using assms(3,4) by (auto simp: mem_device_entries [OF d])
  then have idx: "hashMapGet (resourcesByUri db) k = Some (MetadataLocator u None k)"
    using db_inv_index [OF assms(1)] assms(2) by blast
  have only: "loc = MetadataLocator u None k" if "hashMapGet (devices db) v = Some b" "(k, loc) \<in> set (device_entries v (ce_device b))" for v b loc
    using that idx db_inv_index [OF assms(1), of k loc] by auto
  have own: "v = u" if "hashMapGet (devices db) v = Some b" "(k, loc) \<in> set (device_entries v (ce_device b))" for v b loc
    using only [OF that] that(2) by (auto simp: mem_device_entries [OF db_inv_device [OF assms(1) that(1)]] mem_endpoint_entries)
  have f: "ce_device (?f ce) = drop_metadata k ?d"
    using assms(5) by (cases "d_metadata ?d") (simp_all add: upd_device_def upd_metadata_def delete_unique)
  note dropped = drop_metadata_entries [OF d only [OF assms(2)]]
  have devs: "hashMapGet (devices ?db2) v = (if v = u then Some (?f ce) else hashMapGet (devices db) v)" for v
    using assms(2) by (simp add: get_upd_entry)
  have ok: "hmap_ok (devices ?db2)" "hmap_ok (resourcesByUri ?db2)"
    using assms(1) by (auto simp: db_inv_def upd_entry_def delete_without hmap_ok_without)
  have ent: "set (device_entries v (ce_device (if v = u then ?f ce else b))) = {x \<in> set (device_entries v (ce_device b)). fst x \<noteq> k}"
    if b: "hashMapGet (devices db) v = Some b" for v b
  proof (cases "v = u")
    case True
    then have "b = ce" using b assms(2) by simp
    moreover have "ce_device (if v = u then ?f ce else b) = drop_metadata k ?d" using True f by (simp only: if_True refl)
    moreover have "set (device_entries u ?d) - {(k, MetadataLocator u None k)} = {x \<in> set (device_entries u ?d). fst x \<noteq> k}"
    proof -
      have "(j, loc) \<in> set (device_entries u ?d) - {(k, MetadataLocator u None k)} \<longleftrightarrow> (j, loc) \<in> {x \<in> set (device_entries u ?d). fst x \<noteq> k}" for j loc
        using only [OF assms(2), of loc] by auto
      then show ?thesis by (intro set_eqI) (simp only: split_paired_all)
    qed
    ultimately show ?thesis using True dropped(2) by (simp only:)
  next
    case False
    then show ?thesis using own [OF b] by auto
  qed
  have "entries_of (devices ?db2) = {x \<in> entries_of (devices db). fst x \<noteq> k}"
  proof (rule set_eqI)
    fix x
    have "(\<exists>b. hashMapGet (devices ?db2) v = Some b \<and> x \<in> set (device_entries v (ce_device b))) \<longleftrightarrow>
      (\<exists>b. hashMapGet (devices db) v = Some b \<and> x \<in> {x \<in> set (device_entries v (ce_device b)). fst x \<noteq> k})" for v
    proof (cases "v = u")
      case True
      then show ?thesis using ent [OF assms(2)] assms(2) by (simp add: devs)
    next
      case False
      have "x \<in> set (device_entries v (ce_device b)) \<longleftrightarrow> x \<in> {x \<in> set (device_entries v (ce_device b)). fst x \<noteq> k}"
        if "hashMapGet (devices db) v = Some b" for b using ent [OF that] False by simp
      then show ?thesis using False by (simp only: devs if_False) blast
    qed
    then show "x \<in> entries_of (devices ?db2) \<longleftrightarrow> x \<in> {x \<in> entries_of (devices db). fst x \<noteq> k}"
      using ok(1) assms(1) by (auto simp: entries_of_get db_inv_def)
  qed
  moreover have "device_inv v (ce_device b)" if "(v, b) \<in> set (devices ?db2)" for v b
    using that devs [of v] f dropped(1) db_inv_device [OF assms(1)] hashMapGet_mem [OF ok(1), of v b] by (auto split: if_splits)
  ultimately have inv: "db_inv ?db2"
    using assms(1) ok by (auto simp: db_inv_def delete_without set_without)
  have "hashMapGet (devices ?db2) u = Some (?f ce)" by (simp add: devs)
  from flush_entry_spec [OF this, of E] obtain ok db' where fl: "flush_entry E u ?db2 = Some (ok, db')" "db_inv db'"
    "\<forall>v. hashMapGet (devices db') v = (if v = u then Some ((?f ce)\<lparr>ce_dirty := \<not> ok\<rparr>) else hashMapGet (devices ?db2) v)"
    using inv by blast
  moreover have "list_ex (\<lambda>m. m_uri m = Some k) (items (d_metadata ?d))" using assms(3,4) by (auto simp: list_ex_iff)
  ultimately have "jsonDatabaseRemoveMetadataByUri E (Some k) db = Some (ok, db')"
    using idx assms(2) by (simp add: jsonDatabaseRemoveMetadataByUri_def Let_def owner_metadata_def)
  then show ?thesis using that fl(2,3) f by (simp add: devs)
qed

lemma publish_nil [simp]: "publish [] s = s"
  by (simp add: publish_def)

lemma set_db_twice [simp]: "set_db a (set_db b s) = set_db a s"
  by (simp add: set_db_def)

lemma find_append_case: "find P (xs @ ys) = (case find P xs of None \<Rightarrow> find P ys | Some x \<Rightarrow> Some x)"
  by (induction xs) auto

lemma setUris_metadata: "setUris d = Some d1 \<Longrightarrow> d_metadata d1 = d_metadata d"
  by (auto simp: setUris_def bind_eq_Some_conv)

lemma device_by_id_find:
  assumes "db_inv db"
  shows "deviceServiceGetDevice (Some v) db = find (\<lambda>d. d_uuid d = Some v) (jsonDatabaseGetDevices db)"
proof -
  have "\<forall>(u, ce) \<in> set m. d_uuid (ce_device ce) = Some u \<Longrightarrow>
      map_option ce_device (map_of m v) = find (\<lambda>d. d_uuid d = Some v) (map (ce_device \<circ> snd) m)" for m
    by (induction m) auto
  moreover have "\<forall>(u, ce) \<in> set (devices db). d_uuid (ce_device ce) = Some u"
    using assms by (auto simp: db_inv_def device_inv_def)
  moreover have "jsonDatabaseGetDevices db = map (ce_device \<circ> snd) (devices db)"
    by (simp add: jsonDatabaseGetDevices_def List.map_filter_def comp_def case_prod_beta)
  ultimately show ?thesis by (simp add: deviceServiceGetDevice_def getDeviceById_get hashMapGet_def)
qed

text \<open>
  C35. The end of a reconfiguration. The old device is removed, the new one is added with the data kept
  from the old one, and the mark that a reconfiguration is required is dropped; other devices stay as
  they are. But the outcome of the addition is ignored: a new device that cannot be saved, or that the
  checks of the database reject, is not in the database, the old one is gone, and the reconfiguration is
  reported as a success.
\<close>

theorem reconfigured_device_replaced_or_lost:
  assumes "db_inv (svc_db s)" "hashMapGet (devices (svc_db s)) u = Some ce"
    and "fst (storageDelete (svc_db_env E) STORAGE_NAMESPACE u (store (svc_db s)))"
    and "yoinkCustomizedDeviceData (svc_util E) (ce_device ce) newDevice (svc_db s) = Some (True, d)"
    and "setUris d = Some d1" "d_uuid d = Some u" "\<not> isUriPattern u" "metadata_uris_present d1"
    and "\<forall>v b. v \<noteq> u \<longrightarrow> hashMapGet (devices (svc_db s)) v = Some b \<longrightarrow>
      keys_of (device_entries v (ce_device b)) \<inter> keys_of (device_entries u d1) = {}"
    and "distinct (map m_uri (items (d_metadata d)))"
    and "mark \<in> set (items (d_metadata d))" "m_uri mark = Some (metadataUriCreate u None COMMON_DEVICE_METADATA_RECONFIGURATION_REQUIRED)"
  shows "\<exists>db1 s'. jsonDatabaseRemoveDeviceById (svc_db_env E) (Some u) (svc_db s) = Some (True, db1) \<and>
    replace_device E u (ce_device ce) newDevice s = Some (True, s') \<and> db_inv (svc_db s') \<and> svc_log s' = svc_log s \<and>
    (\<forall>v. v \<noteq> u \<longrightarrow> deviceServiceGetDevice (Some v) (svc_db s') = deviceServiceGetDevice (Some v) (svc_db s)) \<and>
    deviceServiceGetDevice (Some u) (svc_db s') =
      (if loads (svc_util E) u d1 \<and> fst (saveDevice (svc_db_env E) d1 db1)
       then Some (drop_metadata (metadataUriCreate u None COMMON_DEVICE_METADATA_RECONFIGURATION_REQUIRED) d1) else None)"
proof -
  let ?k = "metadataUriCreate u None COMMON_DEVICE_METADATA_RECONFIGURATION_REQUIRED"
  obtain db1 where db1: "jsonDatabaseRemoveDeviceById (svc_db_env E) (Some u) (svc_db s) = Some (True, db1)" "db_inv db1"
    "\<forall>v. hashMapGet (devices db1) v = (if v = u then None else hashMapGet (devices (svc_db s)) v)"
    by (rule removeDeviceById_effect [OF assms(1-3)])
  have disj: "keys_of (device_entries u d1) \<inter> keys_of (resourcesByUri db1) = {}"
    by (rule removed_index [OF db1(2,3) assms(9)])
  have new: "\<not> jsonDatabaseIsDeviceKnown (Some u) db1"
    using db1(3) by (simp add: jsonDatabaseIsDeviceKnown_def hmap_simps)
  from finalize_new_effect [of "set_db db1 s" d d1 u E False] db1(2) assms(5-8) new disj
  obtain ok db2 where fin: "finalizeNewDevice E (Some d) False False (set_db db1 s) = Some ((ok, Some d1), set_db db2 s)" "db_inv db2"
    "ok = (loads (svc_util E) u d1 \<and> fst (saveDevice (svc_db_env E) d1 db1))"
    "if ok then jsonDatabaseGetDevices db2 = jsonDatabaseGetDevices db1 @ [d1]
     else devices db2 = devices db1 \<and> resourcesByUri db2 = resourcesByUri db1"
    by (auto simp: publish_nil split: if_splits)
  have dev: "deviceServiceGetDevice (Some v) db2 = (if v = u then if ok then Some d1 else None else deviceServiceGetDevice (Some v) (svc_db s))" for v
  proof -
    have d1: "deviceServiceGetDevice (Some v) db1 = (if v = u then None else deviceServiceGetDevice (Some v) (svc_db s))"
      using db1(3) by (simp add: deviceServiceGetDevice_def getDeviceById_get)
    show ?thesis
    proof (cases ok)
      case True
      then have "deviceServiceGetDevice (Some v) db2 = find (\<lambda>x. d_uuid x = Some v) (jsonDatabaseGetDevices db1 @ [d1])"
        using fin(4) device_by_id_find [OF fin(2)] by simp
      also have "\<dots> = (case deviceServiceGetDevice (Some v) db1 of None \<Rightarrow> find (\<lambda>x. d_uuid x = Some v) [d1] | Some x \<Rightarrow> Some x)"
        by (simp add: find_append_case device_by_id_find [OF db1(2)])
      also have "\<dots> = (if v = u then Some d1 else deviceServiceGetDevice (Some v) (svc_db s))"
        using d1 setUris_resources(1) [OF assms(5,6)] by (auto split: option.splits)
      finally show ?thesis using True by simp
    next
      case False
      then show ?thesis using fin(4) d1 by (simp add: deviceServiceGetDevice_def getDeviceById_get)
    qed
  qed
  have meta: "d_metadata d1 = d_metadata d" by (rule setUris_metadata [OF assms(5)])
  have k: "?k \<in> keys_of (device_entries u d1)"
    using assms(11,12) setUris_resources(2) [OF assms(5,6)]
    by (force simp: device_entries_def meta metadata_entries_def List.map_filter_def)
  obtain r db3 where db3: "jsonDatabaseRemoveMetadataByUri (svc_db_env E) (Some ?k) db2 = Some (r, db3)" "db_inv db3"
    "\<forall>v. deviceServiceGetDevice (Some v) db3 = (if v = u \<and> ok then Some (drop_metadata ?k d1) else deviceServiceGetDevice (Some v) db2)"
  proof (cases ok)
    case True
    then obtain ce2 where ce2: "hashMapGet (devices db2) u = Some ce2" "ce_device ce2 = d1"
      using dev [of u] by (auto simp: deviceServiceGetDevice_def getDeviceById_get)
    show ?thesis
      by (rule removeMetadata_device [OF fin(2) ce2(1), of mark ?k "svc_db_env E"])
        (use True that ce2(2) assms(10-12) meta in \<open>auto simp: deviceServiceGetDevice_def getDeviceById_get\<close>)
  next
    case False
    then have "hashMapGet (resourcesByUri db2) ?k = None" using fin(4) disj k by (auto simp: hashMapGet_none)
    then show ?thesis using that [of False db2] fin(2) False by (simp add: jsonDatabaseRemoveMetadataByUri_def)
  qed
  have "replace_device E u (ce_device ce) newDevice s = Some (True, set_db db3 s)"
    using assms(4) db1(1) fin(1) db3(1) db_inv_device [OF assms(1,2)]
    by (simp add: replace_device_def in_db_def deviceServiceRemoveMetadata_def device_inv_def)
  then show ?thesis using db1(1) db3(2,3) dev fin(3) by (intro exI [of _ db1] exI [of _ "set_db db3 s"]) simp
qed

theorem reconfigured_device_replaced_or_lost_witness:
  "\<exists>s'. replace_device full_svc_env ''d1'' labelled_device rebuilt_device (set_db labelled_db example_service) = Some (True, s') \<and>
     deviceServiceGetDevice (Some ''d1'') (svc_db s') = None"
proof -
  let ?s = "set_db labelled_db example_service :: (json, (string \<times> string) list, unit) device_service"
  let ?d = reconfigured_device and ?ce = "\<lparr>ce_device = labelled_device, ce_dirty = False\<rparr>"
  have get: "hashMapGet (devices (svc_db ?s)) v = (if v = ''d1'' then Some ?ce else None)" for v
    by (simp add: labelled_db_def empty_db_def hashMapGet_def)
  have g: "hashMapGet (devices (svc_db ?s)) ''d1'' = Some ?ce" using get [of "''d1''"] by simp
  have y: "yoinkCustomizedDeviceData (svc_util full_svc_env) (ce_device ?ce) rebuilt_device (svc_db ?s) = Some (True, ?d)"
    by (simp add: full_svc_env_def example_env_def) code_simp
  have u: "setUris ?d = Some (the (setUris ?d))" "d_uuid ?d = Some ''d1''" "\<not> isUriPattern ''d1''"
    "metadata_uris_present (the (setUris ?d))" "distinct (map m_uri (items (d_metadata ?d)))"
    "example_metadata None ''reconfRequired'' ''true'' \<in> set (items (d_metadata ?d))"
    "m_uri (example_metadata None ''reconfRequired'' ''true'') =
      Some (metadataUriCreate ''d1'' None COMMON_DEVICE_METADATA_RECONFIGURATION_REQUIRED)" by code_simp+
  have "db_inv (svc_db ?s)" "fst (storageDelete (svc_db_env full_svc_env) STORAGE_NAMESPACE ''d1'' (store (svc_db ?s)))"
    "\<forall>v b. v \<noteq> ''d1'' \<longrightarrow> hashMapGet (devices (svc_db ?s)) v = Some b \<longrightarrow>
      keys_of (device_entries v (ce_device b)) \<inter> keys_of (device_entries ''d1'' (the (setUris ?d))) = {}"
    using db_inv_labelled get by (simp_all add: full_svc_env_def example_env_def)
  from reconfigured_device_replaced_or_lost [OF this(1) g this(2) y u(1-4) this(3) u(5-7)]
  show ?thesis by (auto simp: saveDevice_def full_svc_env_def)
qed

section \<open>Waiting and cancelling\<close>

text \<open>The wake-up that ends a wait: the first that finds a signal, or that comes when the time is up.\<close>

definition ends_wait :: "u32 \<Rightarrow> wake_up \<Rightarrow> bool" where
  "ends_wait t k \<longleftrightarrow> wk_isSignaled k \<or> wk_elapsed k \<ge> uint t"

lemma wait_loop_ends:
  assumes "\<forall>k \<in> set ks. wk_elapsed k \<ge> 0" "left > 0"
  shows "wait_loop t left False stop ks = map_option (\<lambda>k. wk_isSignaled k \<and> \<not> wk_shouldTerminate k) (find (ends_wait t) ks)"
  using assms
proof (induction ks arbitrary: left stop)
  case Nil
  then show ?case by (simp add: wait_loop.simps)
next
  case (Cons k ks)
  show ?case
  proof (cases "ends_wait t k")
    case True
    then show ?thesis using Cons.prems(2)
      by (subst wait_loop.simps) (auto simp: ends_wait_def wait_loop.simps [of t left True])
  next
    case False
    let ?n = "word_of_int (uint t - wk_elapsed k) :: u32"
    have e: "0 \<le> wk_elapsed k" "wk_elapsed k < uint t" "\<not> wk_isSignaled k"
      using False Cons.prems(1) by (auto simp: ends_wait_def)
    have w: "uint (word_of_int x :: u32) = x" if "0 \<le> x" "x < 2 ^ 32" for x
      using that by (simp add: unsigned_of_int take_bit_int_eq_self)
    have "uint ?n = uint t - wk_elapsed k"
      by (rule w) (use uint_lt2p [of t] e in simp_all)
    then have "?n > 0" using e by (simp add: word_less_def)
    from Cons.IH [OF _ this, of "wk_shouldTerminate k"] Cons.prems e False show ?thesis
      by (subst wait_loop.simps) simp
  qed
qed

text \<open>
  C34. A driver that waits for its device to wake up comes back: by a signal, or when the time is up at
  the latest, however often the condition variable wakes up in between. It comes back with success
  exactly when the signal came first and did not ask it to terminate.
\<close>

theorem wait_for_reconfigure_returns:
  assumes "deviceServiceGetReconfigureDeviceContext (Some u) s = Some c" "rc_timeoutSeconds c > 0" "\<not> rc_isSignaled c"
    and "\<forall>k \<in> set ks. wk_elapsed k \<ge> 0" "k \<in> set ks" "wk_isSignaled k \<or> wk_elapsed k \<ge> uint (rc_timeoutSeconds c)"
  shows "\<exists>first \<in> set ks. find (\<lambda>k. wk_isSignaled k \<or> wk_elapsed k \<ge> uint (rc_timeoutSeconds c)) ks = Some first \<and>
    deviceServiceWaitForReconfigure (Some u) ks s = Some (wk_isSignaled first \<and> \<not> wk_shouldTerminate first)"
proof -
  have "find (ends_wait (rc_timeoutSeconds c)) ks \<noteq> None"
    using assms(5,6) by (auto simp: find_None_iff ends_wait_def)
  then obtain first where "find (ends_wait (rc_timeoutSeconds c)) ks = Some first" by auto
  moreover from this have "first \<in> set ks" by (auto simp: find_Some_iff)
  moreover have "ends_wait (rc_timeoutSeconds c) = (\<lambda>k. wk_isSignaled k \<or> wk_elapsed k \<ge> uint (rc_timeoutSeconds c))"
    by (auto simp: ends_wait_def)
  ultimately show ?thesis
    using assms(1-4) wait_loop_ends [OF assms(4,2), of "rc_timeoutSeconds c" "rc_shouldTerminate c"]
    by (simp add: deviceServiceWaitForReconfigure_def)
qed

lemma cancel_pending_get:
  "map_of (fst (cancel_pending E m w)) u = Some c \<Longrightarrow> rc_isSignaled c \<and> rc_shouldTerminate c"
  by (induction m arbitrary: w) (auto split: if_splits simp: map_prod_def case_prod_beta)

text \<open>
  At shutdown no driver is left waiting: after the cancellation, a reconfiguration is gone from the
  table or its wait is over, without success, before the condition variable wakes up even once.
\<close>

theorem cancelled_waits_end:
  "deviceServiceWaitForReconfigure u [] (cancelPendingReconfigurationTasks E s) = Some False"
proof (cases "deviceServiceGetReconfigureDeviceContext u (cancelPendingReconfigurationTasks E s)")
  case None
  then show ?thesis by (simp add: deviceServiceWaitForReconfigure_def)
next
  case (Some c)
  then obtain v m where "u = Some v" "pendingReconfiguration s = Some m" "map_of (fst (cancel_pending E m (svc_world s))) v = Some c"
    by (auto simp: deviceServiceGetReconfigureDeviceContext_def cancelPendingReconfigurationTasks_def hashMapGet_def
        case_prod_beta split: option.splits)
  then have "rc_isSignaled c" "rc_shouldTerminate c" using cancel_pending_get [of E m "svc_world s" v c] by simp_all
  then show ?thesis using Some by (simp add: deviceServiceWaitForReconfigure_def wait_loop.simps)
qed

text \<open>A device whose reconfiguration is pending is not scheduled again.\<close>

lemma pending_not_rescheduled:
  "deviceServiceIsReconfigurationPending (Some u) s \<Longrightarrow> deviceServiceReconfigureDevice E u delay cb asap s = s"
  by (simp add: deviceServiceReconfigureDevice_def)

lemma reconfigure_schedules:
  assumes "\<not> deviceServiceIsReconfigurationPending (Some u) s" "pendingReconfiguration s = Some m"
  shows "deviceServiceGetReconfigureDeviceContext (Some u) (deviceServiceReconfigureDevice E u delay cb asap s) =
    Some ((new_reconfigure_context u cb asap)\<lparr>rc_taskHandle := fst (scheduleDelayTask E delay (svc_world s))\<rparr>)"
proof -
  have "hashMapPut m u x = (True, m @ [(u, x)])" for x
    using assms by (auto simp: deviceServiceIsReconfigurationPending_def deviceServiceGetReconfigureDeviceContext_def
        hashMapPut_def hashMapContains_def hashMapGet_def)
  moreover have "map_of m u = None"
    using assms by (auto simp: deviceServiceIsReconfigurationPending_def deviceServiceGetReconfigureDeviceContext_def hashMapGet_def)
  ultimately show ?thesis using assms
    by (simp add: deviceServiceReconfigureDevice_def deviceServiceSetReconfigureDeviceContext_def new_reconfigure_context_def
        deviceServiceGetReconfigureDeviceContext_def hashMapGet_hashMapUpdate publish_def case_prod_beta)
      (simp add: hashMapGet_def map_add_def)
qed

theorem wait_for_reconfigure_returns_witness:
  "deviceServiceWaitForReconfigure (Some ''d1'')
     [\<lparr>wk_isSignaled = False, wk_shouldTerminate = False, wk_elapsed = 30\<rparr>, \<lparr>wk_isSignaled = True, wk_shouldTerminate = False, wk_elapsed = 40\<rparr>]
     (deviceServiceReconfigureDevice example_svc_env ''d1'' 0 None False example_service) = Some True"
proof -
  let ?ks = "[\<lparr>wk_isSignaled = False, wk_shouldTerminate = False, wk_elapsed = 30\<rparr>,
    \<lparr>wk_isSignaled = True, wk_shouldTerminate = False, wk_elapsed = 40\<rparr>]"
  let ?c = "(new_reconfigure_context ''d1'' None False)\<lparr>rc_taskHandle := 1\<rparr>"
  have pend: "\<not> deviceServiceIsReconfigurationPending (Some ''d1'') example_service" "pendingReconfiguration example_service = Some []"
    by (simp_all add: example_service_def deviceServiceIsReconfigurationPending_def deviceServiceGetReconfigureDeviceContext_def hashMapGet_def)
  have c: "deviceServiceGetReconfigureDeviceContext (Some ''d1'')
      (deviceServiceReconfigureDevice example_svc_env ''d1'' 0 None False example_service) = Some ?c"
    by (simp add: reconfigure_schedules [OF pend] example_svc_env_def)
  have "rc_timeoutSeconds ?c > 0" "\<not> rc_isSignaled ?c" "\<forall>k \<in> set ?ks. wk_elapsed k \<ge> 0" "last ?ks \<in> set ?ks"
    "wk_isSignaled (last ?ks) \<or> wk_elapsed (last ?ks) \<ge> uint (rc_timeoutSeconds ?c)"
    by (simp_all add: new_reconfigure_context_def RECONFIGURATION_TIMEOUT_SEC_def)
  from wait_for_reconfigure_returns [OF c this] show ?thesis
    by (simp add: new_reconfigure_context_def RECONFIGURATION_TIMEOUT_SEC_def)
qed

text \<open>
  A reconfiguration that fails can not be requested again by the function that is told of the failure:
  the table still has the finished one then, so the request is ignored, and it is dropped right after.
\<close>

theorem retry_in_callback_is_lost:
  assumes "rc_reconfigurationCompleted ctx = Some (ClientCallback n)" "pendingReconfiguration s2 = Some m"
    and "hashMapGet m (rc_deviceUuid ctx) = Some ctx" "hmap_ok m"
    and "\<And>ok u. clientCallback E n ok u = deviceServiceReconfigureDevice E u delay (Some (ClientCallback n)) asap"
    and "setMetadata E (Some (rc_deviceUuid ctx)) None (Some COMMON_DEVICE_METADATA_RECONFIGURATION_REQUIRED) (Some ''true'') s = Some s1"
    and "try_reconfigure E (rc_deviceUuid ctx) s1 = Some (False, s2)"
  shows "\<exists>s'. reconfigureDeviceTask E ctx s = Some s' \<and> \<not> deviceServiceIsReconfigurationPending (Some (rc_deviceUuid ctx)) s' \<and>
    svc_log s' = svc_log s2 @ [ReconfigurationCompleted n False (rc_deviceUuid ctx)]"
proof -
  let ?s3 = "publish [ReconfigurationCompleted n False (rc_deviceUuid ctx)] s2"
  have "deviceServiceIsReconfigurationPending (Some (rc_deviceUuid ctx)) ?s3"
    using assms(2,3) by (simp add: deviceServiceIsReconfigurationPending_def deviceServiceGetReconfigureDeviceContext_def publish_def)
  then have "reconfiguration_completed E ctx False s2 = Some ?s3"
    using assms(1,5) by (simp add: reconfiguration_completed_def pending_not_rescheduled)
  moreover have "hashMapDelete m (rc_deviceUuid ctx) = (True, without {rc_deviceUuid ctx} m)"
    using assms(3) delete_without [of m "rc_deviceUuid ctx"] by (auto simp: hashMapDelete_def hashMapContains_def hashMapGet_def split: option.splits)
  ultimately show ?thesis using assms(2,6,7)
    by (simp add: reconfigureDeviceTask_def deviceServiceRemoveReconfigureDeviceContext_def publish_def
        deviceServiceIsReconfigurationPending_def deviceServiceGetReconfigureDeviceContext_def hashMapGet_without)
qed

definition retrying_env :: "(json, (string \<times> string) list, unit) svc_env" where
  "retrying_env = example_svc_env\<lparr>clientCallback := (\<lambda>n ok u. deviceServiceReconfigureDevice example_svc_env u 60 (Some (ClientCallback n)) False)\<rparr>"

definition retried_context :: ReconfigureDeviceContext where
  "retried_context = new_reconfigure_context ''d9'' (Some (ClientCallback 7)) False"

definition retrying_service :: "(json, (string \<times> string) list, unit) device_service" where
  "retrying_service = example_service\<lparr>pendingReconfiguration := Some [(''d9'', retried_context)]\<rparr>"

theorem retry_in_callback_is_lost_witness:
  "\<exists>s'. reconfigureDeviceTask retrying_env retried_context retrying_service = Some s' \<and>
     \<not> deviceServiceIsReconfigurationPending (Some ''d9'') s' \<and> ReconfigurationCompleted 7 False ''d9'' \<in> set (svc_log s')"
proof -
  let ?r = "setMetadata retrying_env (Some ''d9'') None (Some COMMON_DEVICE_METADATA_RECONFIGURATION_REQUIRED) (Some ''true'') retrying_service"
  let ?t = "try_reconfigure retrying_env ''d9'' (the ?r)"
  have ctx: "rc_reconfigurationCompleted retried_context = Some (ClientCallback 7)" "rc_deviceUuid retried_context = ''d9''"
    by (simp_all add: retried_context_def new_reconfigure_context_def)
  have "?r \<noteq> None" by code_simp
  then have r: "?r = Some (the ?r)" by simp
  have "map_option fst ?t = Some False" by code_simp
  then have t: "?t = Some (False, snd (the ?t))" by (cases ?t) auto
  have p: "pendingReconfiguration (snd (the ?t)) = Some [(''d9'', retried_context)]" by code_simp
  have cb: "clientCallback retrying_env 7 ok u = deviceServiceReconfigureDevice retrying_env u 60 (Some (ClientCallback 7)) False" for ok u
  proof -
    have "scheduleDelayTask retrying_env = scheduleDelayTask example_svc_env" by (simp add: retrying_env_def)
    then have "deviceServiceReconfigureDevice retrying_env = deviceServiceReconfigureDevice example_svc_env"
      by (simp only: fun_eq_iff deviceServiceReconfigureDevice_def) simp
    then show ?thesis by (simp add: retrying_env_def)
  qed
  show ?thesis
    using retry_in_callback_is_lost [OF ctx(1) p _ _ cb, of retrying_service "the ?r"] r t ctx(2) by (auto simp: hashMapGet_def hmap_ok_def)
qed

end
