(* ===== verification/Descriptor_Parser.thy ===== *)
theory Descriptor_Parser
  imports Device_Descriptors
begin

text \<open>
  The parser of the allow and deny lists, \<^verbatim>\<open>libs/device/descriptors/c/src/parser.c\<close>. The document is the tree
  libxml2 has read; the functions that read nodes and trim and convert strings belong to the support library
  and are arguments (\<open>xml_api\<close>), as is the test that a set of uuids contains a possibly missing one. The
  result is \<open>None\<close> where the code reads through a \<^verbatim>\<open>NULL\<close> pointer.
\<close>

section \<open>Documents\<close>

text \<open>
  A text node is named \<^verbatim>\<open>text\<close>, a comment \<^verbatim>\<open>comment\<close>; a CDATA section has no name. Elements have no content of
  their own.
\<close>

datatype xml_node =
    XmlElement string "(string \<times> string) list" "xml_node list"
  | XmlText string
  | XmlComment string
  | XmlCData string

fun xml_name :: "xml_node \<Rightarrow> cstr" where
  "xml_name (XmlElement n _ _) = Some n"
| "xml_name (XmlText _) = Some ''text''"
| "xml_name (XmlComment _) = Some ''comment''"
| "xml_name (XmlCData _) = None"

fun xml_children :: "xml_node \<Rightarrow> xml_node list" where
  "xml_children (XmlElement _ _ cs) = cs"
| "xml_children _ = []"

fun xml_content :: "xml_node \<Rightarrow> cstr" where
  "xml_content (XmlElement _ _ _) = None"
| "xml_content (XmlText t) = Some t"
| "xml_content (XmlComment t) = Some t"
| "xml_content (XmlCData t) = Some t"

text \<open>The children whose type is \<^verbatim>\<open>XML_ELEMENT_NODE\<close>, with their names.\<close>

definition elements :: "xml_node \<Rightarrow> (string \<times> xml_node) list" where
  "elements n = List.map_filter (\<lambda>c. case c of XmlElement k _ _ \<Rightarrow> Some (k, c) | _ \<Rightarrow> None) (xml_children n)"

record xml_api =
  doesNonEmptyFileExist :: "cstr \<Rightarrow> bool"
  xmlParseFile :: "cstr \<Rightarrow> xml_node option option"
  getXmlNodeContentsAsString :: "xml_node \<Rightarrow> cstr \<Rightarrow> cstr"
  getXmlNodeAttributeAsString :: "xml_node \<Rightarrow> string \<Rightarrow> cstr \<Rightarrow> cstr"
  getXmlNodeContentsAsBoolean :: "xml_node \<Rightarrow> bool \<Rightarrow> bool"
  trimString :: "string \<Rightarrow> string"
  hexStringToUint16 :: "string \<Rightarrow> u16 option"
  uuid_contains :: "(string, unit) hmap \<Rightarrow> cstr \<Rightarrow> bool option"

section \<open>The C library\<close>

text \<open>\<^verbatim>\<open>strsep\<close> applied until there is nothing left: the parts between the separators, at least one.\<close>

fun strsep_all :: "char \<Rightarrow> string \<Rightarrow> string list" where
  "strsep_all c [] = [[]]"
| "strsep_all c (x # xs) =
     (if x = c then [] # strsep_all c xs else (case strsep_all c xs of [] \<Rightarrow> [[x]] | p # ps \<Rightarrow> (x # p) # ps))"

definition hex_digit :: "char \<Rightarrow> nat option" where
  "hex_digit c = (let n = of_char c :: nat in
     if 48 \<le> n \<and> n \<le> 57 then Some (n - 48)
     else if 97 \<le> n \<and> n \<le> 102 then Some (n - 87)
     else if 65 \<le> n \<and> n \<le> 70 then Some (n - 55) else None)"

definition digit_in :: "nat \<Rightarrow> char \<Rightarrow> bool" where
  "digit_in b c = (case hex_digit c of None \<Rightarrow> False | Some d \<Rightarrow> d < b)"

definition value_in :: "nat \<Rightarrow> string \<Rightarrow> nat" where
  "value_in b t = foldl (\<lambda>n c. b * n + (case hex_digit c of None \<Rightarrow> 0 | Some d \<Rightarrow> d)) 0 t"

text \<open>The base and the rest of the digits, for base 0: a prefix \<^verbatim>\<open>0x\<close> before a digit, or \<^verbatim>\<open>0\<close>.\<close>

definition detect_base :: "string \<Rightarrow> nat \<times> string" where
  "detect_base t =
     (case t of z # x # d # _ \<Rightarrow> if z = CHR ''0'' \<and> (x = CHR ''x'' \<or> x = CHR ''X'') \<and> digit_in 16 d then (16, drop 2 t)
        else if z = CHR ''0'' then (8, t) else (10, t)
      | z # _ \<Rightarrow> if z = CHR ''0'' then (8, t) else (10, t)
      | [] \<Rightarrow> (10, t))"

text \<open>\<^verbatim>\<open>strtol\<close> saturates at the bounds of a 64-bit \<^verbatim>\<open>long\<close>.\<close>

definition strtol :: "string \<Rightarrow> nat \<Rightarrow> int" where
  "strtol t base =
     (let t1 = dropWhile is_space t;
          neg = (t1 \<noteq> [] \<and> hd t1 = CHR ''-'');
          t2 = (if t1 \<noteq> [] \<and> (hd t1 = CHR ''-'' \<or> hd t1 = CHR ''+'') then tl t1 else t1);
          (b, t3) = (if base = 0 then detect_base t2 else (base, t2));
          n = int (value_in b (takeWhile (digit_in b) t3))
      in if neg then max (- n) (- (2 ^ 63)) else min n (2 ^ 63 - 1))"

text \<open>The conversion of a \<^verbatim>\<open>long\<close> to an \<^verbatim>\<open>int\<close> keeps the low 32 bits.\<close>

definition to_int32 :: "int \<Rightarrow> int" where
  "to_int32 n = sint (word_of_int n :: 32 word)"

definition atoi :: "string \<Rightarrow> int" where
  "atoi t = to_int32 (strtol t 10)"

section \<open>Versions\<close>

definition empty_versions :: DeviceVersionList where
  "empty_versions = \<lparr>listType = DEVICE_VERSION_LIST_TYPE_UNKNOWN, format = None, versionList = None,
     versionIsWildcarded = False, range_from = None, range_to = None\<rparr>"

definition getTrimmedXmlNodeContentsAsString :: "xml_api \<Rightarrow> xml_node \<Rightarrow> cstr" where
  "getTrimmedXmlNodeContentsAsString X n = map_option (trimString X) (getXmlNodeContentsAsString X n None)"

definition range_items :: "xml_api \<Rightarrow> (string \<times> xml_node) list \<Rightarrow> DeviceVersionList \<Rightarrow> DeviceVersionList" where
  "range_items X = fold (\<lambda>(k, n) l. case getTrimmedXmlNodeContentsAsString X n of None \<Rightarrow> l
     | Some v \<Rightarrow> if k = ''from'' then l\<lparr>range_from := Some v\<rparr> else if k = ''to'' then l\<lparr>range_to := Some v\<rparr> else l)"

text \<open>Only the first element counts: each branch leaves the loop.\<close>

definition parseDeviceVersionList :: "xml_api \<Rightarrow> xml_node \<Rightarrow> DeviceVersionList" where
  "parseDeviceVersionList X node =
     (let l = empty_versions\<lparr>format := getXmlNodeAttributeAsString X node ''format'' None\<rparr>
      in case elements node of [] \<Rightarrow> l
         | (k, n) # _ \<Rightarrow>
             if k = ''list'' then l\<lparr>listType := DEVICE_VERSION_LIST_TYPE_LIST,
               versionList := Some (map (\<lambda>(_, i). getTrimmedXmlNodeContentsAsString X i) (elements n))\<rparr>
             else if k = ''any'' then l\<lparr>listType := DEVICE_VERSION_LIST_TYPE_WILDCARD\<rparr>
             else if k = ''range'' then range_items X (elements n) (l\<lparr>listType := DEVICE_VERSION_LIST_TYPE_RANGE\<rparr>)
             else l)"

text \<open>The number is printed as an unsigned one of 32 bits; the buffer of 20 characters holds every such number.\<close>

definition versionStringToDecimalString :: "xml_api \<Rightarrow> string \<Rightarrow> string" where
  "versionStringToDecimalString X version =
     (let value = to_int32 (strtol version 0) in trimString X (decimal (unat (word_of_int value :: u32))))"

definition version_value :: "xml_api \<Rightarrow> bool \<Rightarrow> string \<Rightarrow> string" where
  "version_value X forceDecimal t =
     (if forceDecimal then versionStringToDecimalString X t else lower (trimString X t))"

text \<open>The second \<^verbatim>\<open>strsep\<close> gives \<^verbatim>\<open>NULL\<close> when there is no separator; the callers have seen one.\<close>

definition parseZigbeeDeviceVersionRange :: "xml_api \<Rightarrow> string \<Rightarrow> bool \<Rightarrow> (string \<times> string) option" where
  "parseZigbeeDeviceVersionRange X versions forceDecimal =
     (case strsep_all (CHR ''-'') versions of
        a # b # _ \<Rightarrow> Some (version_value X forceDecimal a, version_value X forceDecimal b)
      | _ \<Rightarrow> None)"

text \<open>The parts of a list; a range among them replaces the one before.\<close>

fun version_tokens :: "xml_api \<Rightarrow> bool \<Rightarrow> string list \<Rightarrow> DeviceVersionList \<Rightarrow> DeviceVersionList option" where
  "version_tokens X forceDecimal [] l = Some l"
| "version_tokens X forceDecimal (t # ts) l =
     (if CHR ''-'' \<in> set t
      then (case parseZigbeeDeviceVersionRange X t forceDecimal of None \<Rightarrow> None
        | Some (a, b) \<Rightarrow> version_tokens X forceDecimal ts
            (l\<lparr>listType := DEVICE_VERSION_LIST_TYPE_LIST_AND_RANGE, range_from := Some a, range_to := Some b\<rparr>))
      else version_tokens X forceDecimal ts
        (l\<lparr>versionList := map_option (\<lambda>vs. vs @ [Some (version_value X forceDecimal t)]) (versionList l)\<rparr>))"

definition parseZigbeeDeviceVersion :: "xml_api \<Rightarrow> xml_node \<Rightarrow> bool \<Rightarrow> DeviceVersionList option" where
  "parseZigbeeDeviceVersion X node forceDecimal =
     (let l = empty_versions\<lparr>format := Some ''Zigbee''\<rparr>
      in case getXmlNodeContentsAsString X node None of None \<Rightarrow> None
         | Some versions \<Rightarrow>
             if versions \<noteq> [] \<and> hd versions = CHR ''*'' then Some (l\<lparr>listType := DEVICE_VERSION_LIST_TYPE_WILDCARD\<rparr>)
             else if CHR '','' \<in> set versions
             then version_tokens X forceDecimal (strsep_all (CHR '','') versions)
               (l\<lparr>listType := DEVICE_VERSION_LIST_TYPE_LIST, versionList := Some []\<rparr>)
             else if CHR ''-'' \<in> set versions
             then (case parseZigbeeDeviceVersionRange X versions forceDecimal of None \<Rightarrow> None
               | Some (a, b) \<Rightarrow> Some (l\<lparr>listType := DEVICE_VERSION_LIST_TYPE_RANGE, range_from := Some a, range_to := Some b\<rparr>))
             else Some (l\<lparr>listType := DEVICE_VERSION_LIST_TYPE_LIST, versionList := Some [Some
               (if forceDecimal then versionStringToDecimalString X versions else trimString X versions)]\<rparr>))"

section \<open>Descriptors\<close>

definition parseMetadataList :: "xml_api \<Rightarrow> xml_node \<Rightarrow> (string, string) hmap \<Rightarrow> (string, string) hmap" where
  "parseMetadataList X node = fold (\<lambda>(k, n) m.
     if k = ''metadata''
     then (case (getXmlNodeAttributeAsString X n ''name'' None, getXmlNodeAttributeAsString X n ''value'' None) of
         (Some name, Some v) \<Rightarrow> snd (hashMapPut m name v) | _ \<Rightarrow> m)
     else m) (elements node)"

text \<open>
  One child of the element of the latest firmware, of whatever type: its name is compared with each of the
  four. The contents of a type or an action are compared without a test.
\<close>

definition firmware_child :: "xml_api \<Rightarrow> xml_node \<Rightarrow> DeviceFirmware \<Rightarrow> DeviceFirmware option" where
  "firmware_child X n f = do {
     k \<leftarrow> xml_name n;
     if k = ''version'' then Some (f\<lparr>fw_version := getTrimmedXmlNodeContentsAsString X n\<rparr>)
     else if k = ''filename'' then
       (let infos = (case fileInfos f of None \<Rightarrow> [] | Some l \<Rightarrow> l)
        in Some (f\<lparr>fileInfos := Some (case getTrimmedXmlNodeContentsAsString X n of None \<Rightarrow> infos
          | Some name \<Rightarrow> infos @ [\<lparr>fileName = Some name, checksum = getXmlNodeAttributeAsString X n ''checksum'' None\<rparr>])\<rparr>))
     else if k = ''type'' then do {
       firmwareType \<leftarrow> getXmlNodeContentsAsString X n None;
       Some (if lower firmwareType = ''ota'' then f\<lparr>fw_type := DEVICE_FIRMWARE_TYPE_ZIGBEE_OTA\<rparr>
         else if lower firmwareType = ''legacy'' then f\<lparr>fw_type := DEVICE_FIRMWARE_TYPE_ZIGBEE_LEGACY\<rparr> else f) }
     else if k = ''postUpgradeAction'' then do {
       action \<leftarrow> getXmlNodeContentsAsString X n None;
       Some (if lower action = ''none'' then f\<lparr>upgradeAction := POST_UPGRADE_ACTION_NONE\<rparr>
         else if lower action = ''reconfigure'' then f\<lparr>upgradeAction := POST_UPGRADE_ACTION_RECONFIGURE\<rparr> else f) }
     else Some f }"

fun firmware_children :: "xml_api \<Rightarrow> xml_node list \<Rightarrow> DeviceFirmware \<Rightarrow> DeviceFirmware option" where
  "firmware_children X [] f = Some f"
| "firmware_children X (n # ns) f = do { f1 \<leftarrow> firmware_child X n f; firmware_children X ns f1 }"

text \<open>The two ids, up to the first that is missing or not a hexadecimal number of 16 bits.\<close>

fun matter_items :: "xml_api \<Rightarrow> (string \<times> xml_node) list \<Rightarrow> u16 option \<times> u16 option \<Rightarrow> u16 option \<times> u16 option" where
  "matter_items X [] ids = ids"
| "matter_items X ((k, n) # es) (vid, pid) =
     (if k = ''vendorId'' \<or> k = ''productId''
      then (case getTrimmedXmlNodeContentsAsString X n of None \<Rightarrow> (vid, pid)
        | Some t \<Rightarrow> (case hexStringToUint16 X t of None \<Rightarrow> (vid, pid)
            | Some v \<Rightarrow> matter_items X es (if k = ''vendorId'' then (Some v, pid) else (vid, Some v))))
      else matter_items X es (vid, pid))"

definition parseMatterTechnologyNode :: "xml_api \<Rightarrow> xml_node \<Rightarrow> MatterTechnology option" where
  "parseMatterTechnologyNode X node =
     (case matter_items X (elements node) (None, None) of
        (Some v, Some p) \<Rightarrow> Some \<lparr>vendorId = v, productId = p\<rparr> | _ \<Rightarrow> None)"

definition parse_category :: "string \<Rightarrow> CategoryType \<Rightarrow> CategoryType" where
  "parse_category t c =
     (if lower t = ''zigbee'' then CATEGORY_TYPE_ZIGBEE else if lower t = ''camera'' then CATEGORY_TYPE_CAMERA
      else if lower t = lower ''PhilipsHue'' then CATEGORY_TYPE_PHILIPS_HUE
      else if lower t = ''matter'' then CATEGORY_TYPE_MATTER else c)"

definition parse_versions :: "xml_api \<Rightarrow> DeviceDescriptor \<Rightarrow> xml_node \<Rightarrow> bool \<Rightarrow> DeviceVersionList option" where
  "parse_versions X dd n forceDecimal =
     (if deviceDescriptorType dd = DEVICE_DESCRIPTOR_TYPE_CAMERA then Some (parseDeviceVersionList X n)
      else parseZigbeeDeviceVersion X n forceDecimal)"

text \<open>
  One element of a descriptor; the flag tells whether the loop goes on. It ends at a \<^verbatim>\<open>matter\<close> element without
  valid ids, once the category is known to be Matter.
\<close>

definition base_item :: "xml_api \<Rightarrow> string \<Rightarrow> xml_node \<Rightarrow> DeviceDescriptor \<Rightarrow> (bool \<times> DeviceDescriptor) option" where
  "base_item X k n dd =
     (let text = getXmlNodeContentsAsString X n None in
      if k = ''uuid'' then Some (True, dd\<lparr>dd_uuid := text\<rparr>)
      else if k = ''description'' then Some (True, dd\<lparr>description := text\<rparr>)
      else if k = ''manufacturer'' then Some (True, dd\<lparr>manufacturer := text\<rparr>)
      else if k = ''model'' then Some (True, dd\<lparr>model := text\<rparr>)
      else if k = ''hardwareVersions'' then map_option (\<lambda>v. (True, dd\<lparr>hardwareVersions := Some v\<rparr>)) (parse_versions X dd n True)
      else if k = ''firmwareVersions'' then map_option (\<lambda>v. (True, dd\<lparr>firmwareVersions := Some v\<rparr>)) (parse_versions X dd n False)
      else if k = ''minSupportedFirmwareVersion'' then Some (True, dd\<lparr>minSupportedFirmwareVersion := text\<rparr>)
      else if k = ''metadataList'' then Some (True, dd\<lparr>dd_metadata := Some (parseMetadataList X n [])\<rparr>)
      else if k = ''latestFirmware'' then
        map_option (\<lambda>f. (True, dd\<lparr>latestFirmware := Some f\<rparr>)) (firmware_children X (xml_children n)
          \<lparr>fw_version = None, fileInfos = None,
           fw_type = (if deviceDescriptorType dd = DEVICE_DESCRIPTOR_TYPE_CAMERA then DEVICE_FIRMWARE_TYPE_CAMERA else DEVICE_FIRMWARE_TYPE_UNKNOWN),
           upgradeAction = POST_UPGRADE_ACTION_NONE\<rparr>)
      else if k = ''cascadeAddDeleteEndpoints'' then Some (True, dd\<lparr>cascadeAddDeleteEndpoints := getXmlNodeContentsAsBoolean X n False\<rparr>)
      else if k = ''category'' then map_option (\<lambda>t. (True, dd\<lparr>category := parse_category t (category dd)\<rparr>)) text
      else if k = ''matter'' then
        (case parseMatterTechnologyNode X n of
           None \<Rightarrow> Some (category dd \<noteq> CATEGORY_TYPE_MATTER, dd\<lparr>matter := None\<rparr>)
         | Some m \<Rightarrow> Some (True, dd\<lparr>matter := Some m\<rparr>))
      else Some (True, dd))"

fun base_items :: "xml_api \<Rightarrow> (string \<times> xml_node) list \<Rightarrow> DeviceDescriptor \<Rightarrow> DeviceDescriptor option" where
  "base_items X [] dd = Some dd"
| "base_items X ((k, n) # es) dd =
     (case base_item X k n dd of None \<Rightarrow> None
      | Some (True, dd1) \<Rightarrow> base_items X es dd1 | Some (False, dd1) \<Rightarrow> Some dd1)"

definition parseDescriptorBase :: "xml_api \<Rightarrow> xml_node \<Rightarrow> DeviceDescriptor \<Rightarrow> (bool \<times> DeviceDescriptor) option" where
  "parseDescriptorBase X ddNode dd = do {
     dd1 \<leftarrow> base_items X (elements ddNode) dd;
     Some (\<not> (category dd1 = CATEGORY_TYPE_MATTER \<and> matter dd1 = None), dd1) }"

section \<open>Cameras\<close>

definition set_level :: "xml_api \<Rightarrow> string \<times> xml_node \<Rightarrow> int \<times> int \<times> int \<Rightarrow> int \<times> int \<times> int" where
  "set_level X = (\<lambda>(k, n) (l, m, h). case getXmlNodeContentsAsString X n None of None \<Rightarrow> (l, m, h)
     | Some t \<Rightarrow> if k = ''low'' then (atoi t, m, h) else if k = ''med'' then (l, atoi t, h)
         else if k = ''high'' then (l, m, atoi t) else (l, m, h))"

text \<open>The order of the fields in the structure: width, height, bottom, top, left, right.\<close>

definition region_names :: "string list" where
  "region_names = [''width'', ''height'', ''bottomCoord'', ''topCoord'', ''leftCoord'', ''rightCoord'']"

definition set_region :: "xml_api \<Rightarrow> string \<times> xml_node \<Rightarrow> int list \<Rightarrow> int list" where
  "set_region X = (\<lambda>(k, n) r. case getXmlNodeContentsAsString X n None of None \<Rightarrow> r
     | Some t \<Rightarrow> map (\<lambda>(name, v). if name = k then atoi t else v) (zip region_names r))"

definition parseCameraMotionNode :: "xml_api \<Rightarrow> xml_node \<Rightarrow> CameraMotionSettings \<Rightarrow> CameraMotionSettings" where
  "parseCameraMotionNode X node = fold (\<lambda>(k, n) s.
     if k = ''enabled'' then s\<lparr>motion_enabled := (getXmlNodeContentsAsString X n (Some ''false'') = Some ''true'')\<rparr>
     else if k = ''sensitivityLevel'' then s\<lparr>sensitivity := fold (set_level X) (elements n) (sensitivity s)\<rparr>
     else if k = ''detectionThreshold'' then s\<lparr>detectionThreshold := fold (set_level X) (elements n) (detectionThreshold s)\<rparr>
     else if k = ''regionOfInterest'' then s\<lparr>regionOfInterest := fold (set_region X) (elements n) (regionOfInterest s)\<rparr>
     else s) (elements node)"

definition parse_protocol :: "string \<Rightarrow> CameraProtocol" where
  "parse_protocol t = (if t = ''legacy'' then CAMERA_PROTOCOL_LEGACY
     else if t = ''openHome'' then CAMERA_PROTOCOL_OPENHOME else CAMERA_PROTOCOL_UNKNOWN)"

definition parseCameraDescriptor ::
  "xml_api \<Rightarrow> xml_node \<Rightarrow> CameraProtocol \<times> CameraMotionSettings \<Rightarrow> CameraProtocol \<times> CameraMotionSettings" where
  "parseCameraDescriptor X node = fold (\<lambda>(k, n) (p, s).
     if k = ''protocol'' then (case getXmlNodeContentsAsString X n None of None \<Rightarrow> p | Some t \<Rightarrow> parse_protocol t, s)
     else if k = ''motion'' then (p, parseCameraMotionNode X n s) else (p, s)) (elements node)"

section \<open>The lists\<close>

text \<open>A uuid is the content of the first child; an element without children is skipped.\<close>

fun denylist_items :: "(string \<times> xml_node) list \<Rightarrow> (string, unit) hmap \<Rightarrow> (string, unit) hmap option" where
  "denylist_items [] m = Some m"
| "denylist_items ((k, n) # es) m =
     (if k \<noteq> ''uuid'' then denylist_items es m
      else (case xml_children n of [] \<Rightarrow> denylist_items es m
        | c # _ \<Rightarrow> do { uuid \<leftarrow> xml_content c; denylist_items es (snd (hashMapPut m uuid ())) }))"

text \<open>\<open>Some None\<close>: no list.\<close>

definition getDenylistedUuids :: "xml_api \<Rightarrow> cstr \<Rightarrow> (string, unit) hmap option option" where
  "getDenylistedUuids X denylistPath =
     (if \<not> doesNonEmptyFileExist X denylistPath then Some None
      else (case xmlParseFile X denylistPath of Some (Some topNode) \<Rightarrow> map_option Some (denylist_items (elements topNode) [])
        | _ \<Rightarrow> Some None))"

definition empty_descriptor :: "DeviceDescriptorType \<Rightarrow> DeviceDescriptor" where
  "empty_descriptor ty = \<lparr>deviceDescriptorType = ty, dd_uuid = None, description = None, manufacturer = None, model = None,
     hardwareVersions = None, firmwareVersions = None, minSupportedFirmwareVersion = None, dd_metadata = None,
     latestFirmware = None, cascadeAddDeleteEndpoints = False, category = CATEGORY_TYPE_UNKNOWN, matter = None,
     camera = (if ty = DEVICE_DESCRIPTOR_TYPE_CAMERA
       then Some (CAMERA_PROTOCOL_UNKNOWN, \<lparr>motion_enabled = False, sensitivity = (0, 0, 0), detectionThreshold = (0, 0, 0),
         regionOfInterest = replicate 6 0\<rparr>) else None)\<rparr>"

text \<open>One element of the list; \<open>Some None\<close>: it is no descriptor, or not a valid one.\<close>

definition parse_descriptor :: "xml_api \<Rightarrow> string \<Rightarrow> xml_node \<Rightarrow> DeviceDescriptor option option" where
  "parse_descriptor X k n =
     (if k = ''CameraDeviceDescriptor'' then do {
        (ok, dd) \<leftarrow> parseDescriptorBase X n (empty_descriptor DEVICE_DESCRIPTOR_TYPE_CAMERA);
        Some (if ok then Some (dd\<lparr>camera := map_option (parseCameraDescriptor X n) (camera dd)\<rparr>) else None) }
      else if k = ''DeviceDescriptor'' then do {
        (ok, dd) \<leftarrow> parseDescriptorBase X n (empty_descriptor DEVICE_DESCRIPTOR_TYPE_ZIGBEE);
        Some (if ok then Some dd else None) }
      else Some None)"

fun descriptor_items ::
  "xml_api \<Rightarrow> (string, unit) hmap option \<Rightarrow> (string \<times> xml_node) list \<Rightarrow> DeviceDescriptor list option" where
  "descriptor_items X denied [] = Some []"
| "descriptor_items X denied ((k, n) # es) = do {
     parsed \<leftarrow> parse_descriptor X k n;
     keep \<leftarrow> (case (parsed, denied) of (Some dd, Some m) \<Rightarrow> map_option Not (uuid_contains X m (dd_uuid dd)) | _ \<Rightarrow> Some True);
     rest \<leftarrow> descriptor_items X denied es;
     Some (case parsed of Some dd \<Rightarrow> if keep then dd # rest else rest | None \<Rightarrow> rest) }"

definition parseDeviceDescriptors :: "xml_api \<Rightarrow> cstr \<Rightarrow> cstr \<Rightarrow> DeviceDescriptor list option option" where
  "parseDeviceDescriptors X allowlistPath denylistPath =
     (if \<not> doesNonEmptyFileExist X allowlistPath then Some None
      else (case xmlParseFile X allowlistPath of
          Some (Some topNode) \<Rightarrow> do {
            denylistedUuids \<leftarrow> getDenylistedUuids X denylistPath;
            map_option Some (descriptor_items X denylistedUuids (elements topNode)) }
        | _ \<Rightarrow> Some None))"

section \<open>Validity of the lists\<close>

definition checkAllowListValid :: "xml_api \<Rightarrow> cstr \<Rightarrow> bool option" where
  "checkAllowListValid X wlPath = map_option (\<lambda>r. r \<noteq> None) (parseDeviceDescriptors X wlPath None)"

definition checkDenyListValid :: "xml_api \<Rightarrow> cstr \<Rightarrow> bool option" where
  "checkDenyListValid X blPath = map_option (\<lambda>r. r \<noteq> None) (getDenylistedUuids X blPath)"

section \<open>Version texts\<close>

lemma to_lower_idem [simp]: "to_lower (to_lower c) = to_lower c"
proof (cases "65 \<le> (of_char c :: nat) \<and> (of_char c :: nat) \<le> 90")
  case True
    then have "(of_char (char_of ((of_char c :: nat) + 32)) :: nat) = of_char c + 32" by (simp add: of_char_of)
    then show ?thesis using True by (simp add: to_lower_def)
qed (auto simp: to_lower_def)

lemma lower_idem [simp]: "lower (lower t) = lower t"
  by (simp add: lower_def)

text \<open>The parts of a text that are ranges, and those that are not.\<close>

abbreviation range_tokens :: "string list \<Rightarrow> string list" where
  "range_tokens ts \<equiv> filter (\<lambda>t. CHR ''-'' \<in> set t) ts"

abbreviation plain_tokens :: "string list \<Rightarrow> string list" where
  "plain_tokens ts \<equiv> filter (\<lambda>t. CHR ''-'' \<notin> set t) ts"

lemma strsep_all_nonempty [simp]: "strsep_all c t \<noteq> []"
  by (cases t) (auto split: list.splits)

lemma strsep_all_single: "c \<notin> set t \<Longrightarrow> strsep_all c t = [t]"
  by (induction t) auto

lemma strsep_all_two: "c \<in> set t \<Longrightarrow> \<exists>a b ps. strsep_all c t = a # b # ps"
proof (induction t)
  case (Cons x t)
  then show ?case by (cases "x = c"; cases "strsep_all c t") auto
qed simp

lemma range_parsed:
  assumes "CHR ''-'' \<in> set t"
  obtains a b where "parseZigbeeDeviceVersionRange X t fd = Some (a, b)"
  using strsep_all_two [OF assms] that by (auto simp: parseZigbeeDeviceVersionRange_def)

lemma version_tokens_result:
  assumes "versionList l = Some vs"
  shows "\<exists>l'. version_tokens X fd ts l = Some l' \<and>
    versionList l' = Some (vs @ map (\<lambda>t. Some (version_value X fd t)) (plain_tokens ts)) \<and>
    (if range_tokens ts = [] then range_from l' = range_from l \<and> range_to l' = range_to l \<and> listType l' = listType l
     else listType l' = DEVICE_VERSION_LIST_TYPE_LIST_AND_RANGE \<and>
       (\<exists>a b. parseZigbeeDeviceVersionRange X (last (range_tokens ts)) fd = Some (a, b) \<and> range_from l' = Some a \<and> range_to l' = Some b))"
  using assms
proof (induction ts arbitrary: l vs)
  case (Cons t ts)
  show ?case
  proof (cases "CHR ''-'' \<in> set t")
    case True
    obtain a b where ab: "parseZigbeeDeviceVersionRange X t fd = Some (a, b)" using range_parsed [OF True] .
    let ?l = "l\<lparr>listType := DEVICE_VERSION_LIST_TYPE_LIST_AND_RANGE, range_from := Some a, range_to := Some b\<rparr>"
    have "versionList ?l = Some vs" using Cons.prems by simp
    from Cons.IH [OF this] True ab show ?thesis by auto
  next
    case False
    let ?l = "l\<lparr>versionList := Some (vs @ [Some (version_value X fd t)])\<rparr>"
    have "versionList ?l = Some (vs @ [Some (version_value X fd t)])" by simp
    from Cons.IH [OF this] False Cons.prems show ?thesis by auto
  qed
qed simp

text \<open>
  What the text of allowed firmware versions of a Zigbee device admits, together with the test at
  pairing: everything, if it starts with a star; else a version that is one of the parts between the
  commas, up to spaces and case, or a number in the last range among them. Of several ranges in a list
  only the last has an effect.
\<close>

theorem firmware_text_admits:
  assumes "util_ok U" "getXmlNodeContentsAsString X n None = Some t"
  shows "\<exists>l. parseZigbeeDeviceVersion X n False = Some l \<and>
    (versionInRange U (Some v) (Some l) \<longleftrightarrow>
       t \<noteq> [] \<and> hd t = CHR ''*'' \<or>
       (\<exists>p \<in> set (plain_tokens (strsep_all (CHR '','') t)). lower (trimString X p) = lower v) \<or>
       (range_tokens (strsep_all (CHR '','') t) \<noteq> [] \<and>
        (\<exists>a b. parseZigbeeDeviceVersionRange X (last (range_tokens (strsep_all (CHR '','') t))) False = Some (a, b) \<and>
           in_numeric_range U v a b)))"
proof -
  let ?l = "empty_versions\<lparr>format := Some ''Zigbee''\<rparr>"
  consider (any) "t \<noteq> [] \<and> hd t = CHR ''*''"
    | (many) "\<not> (t \<noteq> [] \<and> hd t = CHR ''*'')" "CHR '','' \<in> set t"
    | (range) "\<not> (t \<noteq> [] \<and> hd t = CHR ''*'')" "CHR '','' \<notin> set t" "CHR ''-'' \<in> set t"
    | (one) "\<not> (t \<noteq> [] \<and> hd t = CHR ''*'')" "CHR '','' \<notin> set t" "CHR ''-'' \<notin> set t" by blast
  then show ?thesis
  proof cases
    case any
    then show ?thesis using assms(2)
      by (simp add: parseZigbeeDeviceVersion_def versionInRange_iff [OF assms(1)] version_admitted_def)
  next
    case many
    have "versionList (?l\<lparr>listType := DEVICE_VERSION_LIST_TYPE_LIST, versionList := Some []\<rparr>) = Some []" by simp
    from version_tokens_result [OF this, of X False "strsep_all (CHR '','') t"] obtain l where
      l: "version_tokens X False (strsep_all (CHR '','') t)
          (?l\<lparr>listType := DEVICE_VERSION_LIST_TYPE_LIST, versionList := Some []\<rparr>) = Some l"
        "versionList l = Some (map (\<lambda>t. Some (version_value X False t)) (plain_tokens (strsep_all (CHR '','') t)))"
        "if range_tokens (strsep_all (CHR '','') t) = [] then range_from l = None \<and> range_to l = None \<and> listType l = DEVICE_VERSION_LIST_TYPE_LIST
         else listType l = DEVICE_VERSION_LIST_TYPE_LIST_AND_RANGE \<and>
           (\<exists>a b. parseZigbeeDeviceVersionRange X (last (range_tokens (strsep_all (CHR '','') t))) False = Some (a, b) \<and>
              range_from l = Some a \<and> range_to l = Some b)"
      by (auto simp: empty_versions_def)
    have "parseZigbeeDeviceVersion X n False = Some l" using many assms(2) l(1) by (auto simp: parseZigbeeDeviceVersion_def Let_def)
    moreover have "(\<exists>vs w. versionList l = Some vs \<and> Some w \<in> set vs \<and> lower w = lower v) \<longleftrightarrow>
        (\<exists>p \<in> set (plain_tokens (strsep_all (CHR '','') t)). lower (trimString X p) = lower v)"
      using l(2) by (auto simp: version_value_def)
    ultimately show ?thesis using l(3) many(1)
      by (auto simp: versionInRange_iff [OF assms(1)] version_admitted_def split: if_splits)
  next
    case range
    then obtain a b where "parseZigbeeDeviceVersionRange X t False = Some (a, b)" using range_parsed by blast
    then show ?thesis using range assms(2)
      by (auto simp: parseZigbeeDeviceVersion_def versionInRange_iff [OF assms(1)] version_admitted_def strsep_all_single empty_versions_def Let_def)
  next
    case one
    then show ?thesis using assms(2)
      by (auto simp: parseZigbeeDeviceVersion_def versionInRange_iff [OF assms(1)] version_admitted_def strsep_all_single empty_versions_def Let_def)
  qed
qed

section \<open>The lists as a whole\<close>

lemma descriptor_items_denied:
  "descriptor_items X (Some m) es = Some dds \<Longrightarrow> \<exists>all. descriptor_items X None es = Some all \<and>
     dds = filter (\<lambda>dd. uuid_contains X m (dd_uuid dd) = Some False) all \<and> (\<forall>dd \<in> set all. uuid_contains X m (dd_uuid dd) \<noteq> None)"
proof (induction es arbitrary: dds)
  case (Cons e es)
  obtain k n where e: "e = (k, n)" by fastforce
  from Cons.prems obtain parsed rest where p: "parse_descriptor X k n = Some parsed" "descriptor_items X (Some m) es = Some rest"
    by (auto simp: e bind_eq_Some_conv)
  from Cons.IH [OF p(2)] obtain all where all: "descriptor_items X None es = Some all"
    "rest = filter (\<lambda>dd. uuid_contains X m (dd_uuid dd) = Some False) all" "\<forall>dd \<in> set all. uuid_contains X m (dd_uuid dd) \<noteq> None"
    by blast
  show ?case
  proof (cases parsed)
    case None
    then show ?thesis using Cons.prems p all by (simp add: e)
  next
    case (Some dd)
    then obtain b where "uuid_contains X m (dd_uuid dd) = Some b" "dds = (if b then rest else dd # rest)"
      using Cons.prems p by (auto simp: e bind_eq_Some_conv)
    then show ?thesis using Some p all by (auto simp: e)
  qed
qed simp

text \<open>The deny document itself: it lists a uuid when one of its \<open>uuid\<close> elements begins with that text.\<close>

definition uuid_listed :: "xml_node \<Rightarrow> string \<Rightarrow> bool" where
  "uuid_listed root u = list_ex (\<lambda>n. case n of XmlElement k _ (c # _) \<Rightarrow> k = ''uuid'' \<and> xml_content c = Some u | _ \<Rightarrow> False)
     (xml_children root)"

lemma denylist_items_contains:
  assumes "denylist_items es m = Some m'"
  shows "hashMapContains m' u \<longleftrightarrow>
    hashMapContains m u \<or> (\<exists>n c cs. (''uuid'', n) \<in> set es \<and> xml_children n = c # cs \<and> xml_content c = Some u)"
  using assms
proof (induction es m rule: denylist_items.induct)
  case (2 k n es m)
  show ?case
  proof (cases "k = ''uuid'' \<and> xml_children n \<noteq> []")
    case True
    then obtain c cs w where c: "k = ''uuid''" "xml_children n = c # cs" "xml_content c = Some w"
      using 2(4) by (auto simp: neq_Nil_conv bind_eq_Some_conv)
    moreover from c 2(4) have "denylist_items es (snd (hashMapPut m w ())) = Some m'" by simp
    moreover have "hashMapContains (snd (hashMapPut m w ())) u \<longleftrightarrow> hashMapContains m u \<or> u = w"
      by (auto simp: hashMapPut_def hashMapContains_def map_of_eq_None_iff domIff map_add_def split: option.splits)
    ultimately show ?thesis using 2(3) [OF _ c(2)] by auto
  next
    case False
    with 2 show ?thesis by (auto split: list.splits if_splits)
  qed
qed simp

lemma elements_iff: "(k, n) \<in> set (elements root) \<longleftrightarrow> n \<in> set (xml_children root) \<and> (\<exists>as cs. n = XmlElement k as cs)"
proof -
  have "(k, n) \<in> set (List.map_filter (\<lambda>c. case c of XmlElement k _ _ \<Rightarrow> Some (k, c) | _ \<Rightarrow> None) xs) \<longleftrightarrow>
      n \<in> set xs \<and> (\<exists>as cs. n = XmlElement k as cs)" for xs
    by (induction xs) (auto split: xml_node.splits)
  then show ?thesis by (simp add: elements_def)
qed

lemma uuid_listed_elements:
  "uuid_listed root u \<longleftrightarrow>
    (\<exists>n c cs. (''uuid'', n) \<in> set (elements root) \<and> xml_children n = c # cs \<and> xml_content c = Some u)"
proof -
  have "(case n of XmlElement k _ (c # _) \<Rightarrow> k = ''uuid'' \<and> xml_content c = Some u | _ \<Rightarrow> False) \<longleftrightarrow>
      (\<exists>as c cs. n = XmlElement ''uuid'' as (c # cs) \<and> xml_content c = Some u)" for n
    by (cases n) (auto split: list.splits)
  then show ?thesis unfolding uuid_listed_def list_ex_iff elements_iff by fastforce
qed

text \<open>
  C26. The deny list. With a deny document that parses, the descriptors that are loaded are those the
  allow list alone would give, in their order, and a descriptor with a uuid stays exactly when no
  \<open>uuid\<close> element of the deny document has that text.
\<close>

theorem denied_descriptors_dropped:
  assumes "\<And>m u. uuid_contains X m (Some u) = Some (hashMapContains m u)"
    and "parseDeviceDescriptors X a d = Some (Some dds)"
    and "doesNonEmptyFileExist X d" "xmlParseFile X d = Some (Some deny)"
    and "\<not> doesNonEmptyFileExist X e"
  shows "\<exists>all keep. parseDeviceDescriptors X a e = Some (Some all) \<and> dds = filter keep all \<and>
    (\<forall>dd u. dd_uuid dd = Some u \<longrightarrow> (keep dd \<longleftrightarrow> \<not> uuid_listed deny u))"
proof -
  from assms(2) obtain root where root: "doesNonEmptyFileExist X a" "xmlParseFile X a = Some (Some root)"
    by (auto simp: parseDeviceDescriptors_def split: if_splits option.splits)
  from assms(2-4) root obtain m where m: "denylist_items (elements deny) [] = Some m"
    by (auto simp: parseDeviceDescriptors_def getDenylistedUuids_def bind_eq_Some_conv)
  with assms(2-4) root have "descriptor_items X (Some m) (elements root) = Some dds"
    by (simp add: parseDeviceDescriptors_def getDenylistedUuids_def)
  from descriptor_items_denied [OF this] obtain all where all: "descriptor_items X None (elements root) = Some all"
    "dds = filter (\<lambda>dd. uuid_contains X m (dd_uuid dd) = Some False) all" by blast
  moreover have "getDenylistedUuids X e = Some None" using assms(5) by (simp add: getDenylistedUuids_def)
  moreover have "hashMapContains m u \<longleftrightarrow> uuid_listed deny u" for u
    using denylist_items_contains [OF m] by (simp add: uuid_listed_elements hashMapContains_def)
  ultimately show ?thesis using root assms(1)
    by (intro exI [of _ all] exI [of _ "\<lambda>dd. uuid_contains X m (dd_uuid dd) = Some False"]) (simp add: parseDeviceDescriptors_def)
qed

text \<open>What every element of a descriptor keeps.\<close>

lemma base_item_keeps:
  assumes "base_item X k n dd = Some (b, dd')"
  shows "deviceDescriptorType dd' = deviceDescriptorType dd" "camera dd' = camera dd"
    "k \<noteq> ''manufacturer'' \<Longrightarrow> manufacturer dd' = manufacturer dd"
  using assms by (auto simp: base_item_def Let_def split: if_splits option.splits)

lemma base_items_keeps:
  assumes "base_items X es dd = Some dd'"
  shows "deviceDescriptorType dd' = deviceDescriptorType dd \<and> camera dd' = camera dd \<and>
    (''manufacturer'' \<notin> fst ` set es \<longrightarrow> manufacturer dd' = manufacturer dd)"
  using assms
proof (induction es arbitrary: dd)
  case (Cons e es)
  obtain k n where e: "e = (k, n)" by fastforce
  obtain b dd1 where b: "base_item X k n dd = Some (b, dd1)" using Cons.prems by (auto simp: e split: option.splits)
  note base_item_keeps [OF b]
  moreover have "b \<Longrightarrow> base_items X es dd1 = Some dd'" "\<not> b \<Longrightarrow> dd1 = dd'" using Cons.prems b by (auto simp: e split: bool.splits)
  ultimately show ?case using Cons.IH [of dd1] by (cases b) (auto simp: e)
qed simp

lemma descriptor_items_wf:
  "descriptor_items X denied es = Some dds \<Longrightarrow> dd \<in> set dds \<Longrightarrow> \<exists>k n. parse_descriptor X k n = Some (Some dd)"
proof (induction es arbitrary: dds)
  case (Cons e es)
  obtain k n where e: "e = (k, n)" by fastforce
  from Cons.prems(1) obtain parsed rest where p: "parse_descriptor X k n = Some parsed" "descriptor_items X denied es = Some rest"
    "dds = rest \<or> (\<exists>x. parsed = Some x \<and> dds = x # rest)"
    by (simp add: e bind_eq_Some_conv) (elim exE conjE, rename_tac parsed keep rest, case_tac parsed, auto split: if_splits)
  show ?case
  proof (cases "dd \<in> set rest")
    case True
    then show ?thesis by (rule Cons.IH [OF p(2)])
  next
    case False
    then have "parsed = Some dd" using p(3) Cons.prems(2) by auto
    then show ?thesis using p(1) by blast
  qed
qed simp

text \<open>
  Every descriptor of a parsed list is well formed: one of the Matter category has a vendor and a
  product, and exactly the camera descriptors have camera settings.
\<close>

theorem parsed_descriptors_well_formed:
  assumes "parseDeviceDescriptors X a d = Some (Some dds)" "dd \<in> set dds"
  shows "(category dd = CATEGORY_TYPE_MATTER \<longrightarrow> matter dd \<noteq> None) \<and>
    (camera dd \<noteq> None \<longleftrightarrow> deviceDescriptorType dd = DEVICE_DESCRIPTOR_TYPE_CAMERA)"
proof -
  obtain es denied where "descriptor_items X denied es = Some dds"
    using assms(1) by (auto simp: parseDeviceDescriptors_def bind_eq_Some_conv split: if_splits option.splits)
  then obtain k n where "parse_descriptor X k n = Some (Some dd)" using descriptor_items_wf assms(2) by blast
  then show ?thesis
    by (auto simp: parse_descriptor_def parseDescriptorBase_def bind_eq_Some_conv empty_descriptor_def split: if_splits
        dest!: base_items_keeps)
qed

text \<open>A fault in one descriptor is a fault of the list.\<close>

lemma descriptor_items_fault: "(k, n) \<in> set es \<Longrightarrow> parse_descriptor X k n = None \<Longrightarrow> descriptor_items X denied es = None"
  by (induction es) (auto simp: bind_eq_None_conv split: option.splits)

lemma base_items_reach:
  "''matter'' \<notin> fst ` set pre \<Longrightarrow> base_items X (pre @ es) dd = Some dd' \<Longrightarrow> \<exists>dd1. base_items X es dd1 = Some dd' \<and>
     deviceDescriptorType dd1 = deviceDescriptorType dd"
proof (induction pre arbitrary: dd)
  case (Cons e pre)
  obtain k n where e: "e = (k, n)" by fastforce
  obtain b dd1 where b: "base_item X k n dd = Some (b, dd1)" using Cons.prems(2) by (auto simp: e split: option.splits)
  have "k \<noteq> ''matter''" using Cons.prems(1) by (auto simp: e)
  then have "b" using b by (auto simp: base_item_def Let_def split: if_splits option.splits)
  then have "base_items X (pre @ es) dd1 = Some dd'" using Cons.prems(2) b by (simp add: e)
  moreover have "''matter'' \<notin> fst ` set pre" using Cons.prems(1) by auto
  ultimately show ?case using Cons.IH [of dd1] base_item_keeps(1) [OF b] by auto
qed auto

text \<open>
  An allow list in which a descriptor has an empty element of hardware versions, firmware versions
  or category is not rejected: the missing text is read through a \<^verbatim>\<open>NULL\<close> pointer, already when the list is
  checked after its download.
\<close>

theorem empty_element_faults:
  assumes "doesNonEmptyFileExist X (Some p)" "xmlParseFile X (Some p) = Some (Some root)"
    and "(''DeviceDescriptor'', d) \<in> set (elements root)" "elements d = pre @ (k, n) # post" "''matter'' \<notin> fst ` set pre"
    and "k \<in> {''hardwareVersions'', ''firmwareVersions'', ''category''}" "getXmlNodeContentsAsString X n None = None"
  shows "checkAllowListValid X (Some p) = None"
proof -
  have "base_item X k n dd = None" if "deviceDescriptorType dd = DEVICE_DESCRIPTOR_TYPE_ZIGBEE" for dd
    using assms(6,7) that by (auto simp: base_item_def parse_versions_def parseZigbeeDeviceVersion_def Let_def)
  then have "base_items X (elements d) (empty_descriptor DEVICE_DESCRIPTOR_TYPE_ZIGBEE) = None"
    using base_items_reach [OF assms(5), of X "(k, n) # post" "empty_descriptor DEVICE_DESCRIPTOR_TYPE_ZIGBEE"] assms(4)
    by (cases "base_items X (elements d) (empty_descriptor DEVICE_DESCRIPTOR_TYPE_ZIGBEE)")
      (fastforce simp: empty_descriptor_def split: option.splits)+
  then have "parse_descriptor X ''DeviceDescriptor'' d = None"
    by (simp add: parse_descriptor_def parseDescriptorBase_def)
  from descriptor_items_fault [OF assms(3) this] have "descriptor_items X denied (elements root) = None" for denied .
  then have "parseDeviceDescriptors X (Some p) None = None"
    using assms(1,2) by (cases "getDenylistedUuids X None") (auto simp: parseDeviceDescriptors_def)
  then show ?thesis by (simp add: checkAllowListValid_def)
qed

text \<open>
  A descriptor without a manufacturer passes the check of the list: it is accepted and loaded. As the
  first of the list it makes every lookup of a device fault.
\<close>

theorem nameless_descriptor_accepted:
  assumes "doesNonEmptyFileExist X (Some p)" "xmlParseFile X (Some p) = Some (Some root)"
    and "elements root = (''DeviceDescriptor'', d) # es" "''manufacturer'' \<notin> fst ` set (elements d)"
    and "parse_descriptor X ''DeviceDescriptor'' d \<noteq> Some None" "checkAllowListValid X (Some p) = Some valid"
    and "\<not> doesNonEmptyFileExist X (Some q)" "\<not> doesNonEmptyFileExist X None"
    and "allowListPath st = p" "denyListPath st = q" "p \<noteq> []" "deviceDescriptors st = None"
  shows "valid \<and> deviceDescriptorsGet U (\<lambda>a b. parseDeviceDescriptors X (Some a) (Some b)) (Some man) (Some mdl) hw fw st = None"
proof -
  have none: "getDenylistedUuids X None = Some None" "getDenylistedUuids X (Some q) = Some None"
    using assms(7,8) by (simp_all add: getDenylistedUuids_def)
  from assms(6) none(1) assms(1,2) obtain dds where dds: "descriptor_items X None (elements root) = Some dds" "valid"
    by (auto simp: checkAllowListValid_def parseDeviceDescriptors_def)
  then obtain dd rest where dd: "parse_descriptor X ''DeviceDescriptor'' d = Some (Some dd)" "dds = dd # rest"
    using assms(3,5) by (auto simp: bind_eq_Some_conv)
  have "manufacturer dd = None"
    using dd(1) assms(4) by (auto simp: parse_descriptor_def parseDescriptorBase_def bind_eq_Some_conv empty_descriptor_def
        split: if_splits dest!: base_items_keeps)
  moreover have "parseDeviceDescriptors X (Some p) (Some q) = Some (Some dds)"
    using assms(1,2) none(2) dds(1) by (simp add: parseDeviceDescriptors_def)
  ultimately show ?thesis
    using assms(9-12) dds(2) dd(2) by (simp add: deviceDescriptorsGet_def parseFiles_def)
qed

section \<open>An example\<close>

definition example_xml :: "(string \<times> xml_node) list \<Rightarrow> xml_api" where
  "example_xml docs = \<lparr>doesNonEmptyFileExist = (\<lambda>p. case p of None \<Rightarrow> False | Some f \<Rightarrow> map_of docs f \<noteq> None),
     xmlParseFile = (\<lambda>p. case p of None \<Rightarrow> None | Some f \<Rightarrow> map_option Some (map_of docs f)),
     getXmlNodeContentsAsString = (\<lambda>n d. case xml_children n of XmlText t # _ \<Rightarrow> Some t | _ \<Rightarrow> d),
     getXmlNodeAttributeAsString = (\<lambda>n k d. case n of XmlElement _ as _ \<Rightarrow> (case map_of as k of None \<Rightarrow> d | Some v \<Rightarrow> Some v) | _ \<Rightarrow> d),
     getXmlNodeContentsAsBoolean = (\<lambda>n d. case xml_children n of XmlText t # _ \<Rightarrow> t = ''true'' | _ \<Rightarrow> d),
     trimString = (\<lambda>t. rev (dropWhile is_space (rev (dropWhile is_space t)))),
     hexStringToUint16 = (\<lambda>t. None), uuid_contains = (\<lambda>m k. Some (case k of None \<Rightarrow> False | Some u \<Rightarrow> hashMapContains m u))\<rparr>"

definition leaf :: "string \<Rightarrow> string \<Rightarrow> xml_node" where
  "leaf k t = XmlElement k [] [XmlText t]"

definition lock_node :: "string \<Rightarrow> xml_node" where
  "lock_node u = XmlElement ''DeviceDescriptor'' [] [leaf ''uuid'' u, leaf ''manufacturer'' ''Acme'', leaf ''model'' ''Lock'',
     leaf ''hardwareVersions'' ''*'', leaf ''firmwareVersions'' ''5, 10-20, 30-40'']"

definition list_docs :: "(string \<times> xml_node) list" where
  "list_docs = [(''/allow'', XmlElement ''DeviceDescriptorList'' [] [lock_node ''u1'', XmlComment ''x'', lock_node ''u2'']),
     (''/deny'', XmlElement ''DenyList'' [] [leaf ''uuid'' ''u1'']),
     (''/empty'', XmlElement ''DeviceDescriptorList'' [] [XmlElement ''DeviceDescriptor'' [] [leaf ''uuid'' ''u1'', XmlElement ''category'' [] []]]),
     (''/nameless'', XmlElement ''DeviceDescriptorList'' [] [XmlElement ''DeviceDescriptor'' [] [leaf ''uuid'' ''u1'', leaf ''model'' ''Lock'']])]"

theorem firmware_text_admits_witness:
  "\<exists>l. parseZigbeeDeviceVersion (example_xml []) (leaf ''firmwareVersions'' ''5, 10-20, 30-40'') False = Some l \<and>
     versionInRange example_util (Some ''35'') (Some l) \<and> \<not> versionInRange example_util (Some ''15'') (Some l)"
proof -
  have t: "getXmlNodeContentsAsString (example_xml []) (leaf ''firmwareVersions'' ''5, 10-20, 30-40'') None = Some ''5, 10-20, 30-40''"
    by (simp add: example_xml_def leaf_def)
  have r: "range_tokens (strsep_all (CHR '','') ''5, 10-20, 30-40'') = ['' 10-20'', '' 30-40'']" by code_simp
  have ab: "parseZigbeeDeviceVersionRange (example_xml []) '' 30-40'' False = Some (''30'', ''40'')" by code_simp
  have "in_numeric_range example_util ''35'' ''30'' ''40''" "\<not> in_numeric_range example_util ''15'' ''30'' ''40''"
    by (simp_all add: in_numeric_range_def example_util_def)
  moreover have "plain_tokens (strsep_all (CHR '','') ''5, 10-20, 30-40'') = [''5'']" by code_simp
  moreover have "lower (trimString (example_xml []) ''5'') \<noteq> lower ''15''" by code_simp
  ultimately show ?thesis
    using firmware_text_admits [OF util_ok_example t, of "''35''"] firmware_text_admits [OF util_ok_example t, of "''15''"] r ab by auto
qed

abbreviation lists :: xml_api where "lists \<equiv> example_xml list_docs"

theorem denied_descriptors_dropped_witness:
  "\<exists>dds all keep. parseDeviceDescriptors lists (Some ''/allow'') (Some ''/deny'') = Some (Some dds) \<and> map dd_uuid dds = [Some ''u2''] \<and>
     parseDeviceDescriptors lists (Some ''/allow'') None = Some (Some all) \<and> dds = filter keep all \<and>
     (\<forall>dd u. dd_uuid dd = Some u \<longrightarrow> (keep dd \<longleftrightarrow> u \<noteq> ''u1''))"
proof -
  have r: "map_option (map_option (map dd_uuid)) (parseDeviceDescriptors lists (Some ''/allow'') (Some ''/deny'')) = Some (Some [Some ''u2''])"
    by code_simp
  then obtain dds where dds: "parseDeviceDescriptors lists (Some ''/allow'') (Some ''/deny'') = Some (Some dds)" "map dd_uuid dds = [Some ''u2'']"
    by (auto simp: map_option_case split: option.splits)
  let ?deny = "XmlElement ''DenyList'' [] [leaf ''uuid'' ''u1'']"
  have d: "doesNonEmptyFileExist lists (Some ''/deny'')" "xmlParseFile lists (Some ''/deny'') = Some (Some ?deny)" by code_simp+
  have "uuid_listed ?deny u \<longleftrightarrow> u = ''u1''" for u by (auto simp: uuid_listed_def leaf_def)
  moreover have "\<And>m u. uuid_contains lists m (Some u) = Some (hashMapContains m u)" "\<not> doesNonEmptyFileExist lists None"
    by (simp_all add: example_xml_def)
  ultimately show ?thesis using denied_descriptors_dropped [OF _ dds(1) d, of None] dds by auto
qed

theorem parsed_descriptors_well_formed_witness:
  "\<exists>dds. parseDeviceDescriptors lists (Some ''/allow'') None = Some (Some dds) \<and> dds \<noteq> [] \<and> camera (hd dds) = None"
proof -
  have "map_option (map_option (map deviceDescriptorType)) (parseDeviceDescriptors lists (Some ''/allow'') None) =
      Some (Some [DEVICE_DESCRIPTOR_TYPE_ZIGBEE, DEVICE_DESCRIPTOR_TYPE_ZIGBEE])" by code_simp
  then obtain dds where dds: "parseDeviceDescriptors lists (Some ''/allow'') None = Some (Some dds)"
    "map deviceDescriptorType dds = [DEVICE_DESCRIPTOR_TYPE_ZIGBEE, DEVICE_DESCRIPTOR_TYPE_ZIGBEE]"
    by (auto simp: map_option_case split: option.splits)
  then have "hd dds \<in> set dds" "deviceDescriptorType (hd dds) = DEVICE_DESCRIPTOR_TYPE_ZIGBEE" "dds \<noteq> []" by auto
  with parsed_descriptors_well_formed [OF dds(1) this(1)] dds(1) show ?thesis by (cases "camera (hd dds)") auto
qed

theorem empty_element_faults_witness: "checkAllowListValid lists (Some ''/empty'') = None"
proof -
  let ?d = "XmlElement ''DeviceDescriptor'' [] [leaf ''uuid'' ''u1'', XmlElement ''category'' [] []]"
  have "xmlParseFile lists (Some ''/empty'') = Some (Some (XmlElement ''DeviceDescriptorList'' [] [?d]))"
    "doesNonEmptyFileExist lists (Some ''/empty'')"
    by (simp_all add: example_xml_def list_docs_def)
  moreover have "(''DeviceDescriptor'', ?d) \<in> set (elements (XmlElement ''DeviceDescriptorList'' [] [?d]))"
    "elements ?d = [(''uuid'', leaf ''uuid'' ''u1'')] @ (''category'', XmlElement ''category'' [] []) # []"
    by (simp_all add: elements_def leaf_def List.map_filter_def)
  ultimately show ?thesis
    by (intro empty_element_faults [of lists _ _ ?d "[(''uuid'', leaf ''uuid'' ''u1'')]" "''category''" "XmlElement ''category'' [] []" "[]"])
      (auto simp: example_xml_def)
qed

theorem nameless_descriptor_accepted_witness:
  "checkAllowListValid lists (Some ''/nameless'') = Some True \<and>
   deviceDescriptorsGet example_util (\<lambda>a b. parseDeviceDescriptors lists (Some a) (Some b)) (Some ''Acme'') (Some ''Lock'') (Some ''1'') (Some ''1'')
     \<lparr>allowListPath = ''/nameless'', denyListPath = '''', deviceDescriptors = None\<rparr> = None"
proof -
  let ?d = "XmlElement ''DeviceDescriptor'' [] [leaf ''uuid'' ''u1'', leaf ''model'' ''Lock'']"
  let ?root = "XmlElement ''DeviceDescriptorList'' [] [?d]" and ?st = "\<lparr>allowListPath = ''/nameless'', denyListPath = [], deviceDescriptors = None\<rparr>"
  have f: "doesNonEmptyFileExist lists (Some ''/nameless'')" "xmlParseFile lists (Some ''/nameless'') = Some (Some ?root)"
    "\<not> doesNonEmptyFileExist lists (Some [])" "\<not> doesNonEmptyFileExist lists None"
    by (simp_all add: example_xml_def list_docs_def)
  have e: "elements ?root = (''DeviceDescriptor'', ?d) # []" "''manufacturer'' \<notin> fst ` set (elements ?d)"
    by (simp_all add: elements_def leaf_def List.map_filter_def)
  have "map_option (\<lambda>x. x = None) (parse_descriptor lists ''DeviceDescriptor'' ?d) = Some False" by code_simp
  then have p: "parse_descriptor lists ''DeviceDescriptor'' ?d \<noteq> Some None" by auto
  have v: "checkAllowListValid lists (Some ''/nameless'') = Some True" by code_simp
  show ?thesis
    using nameless_descriptor_accepted [OF f(1,2) e p v f(3,4), of ?st example_util "''Acme''" "''Lock''" "Some ''1''" "Some ''1''"] v by simp
qed

end
