(* ===== verification/Descriptor_Handler.thy ===== *)
theory Descriptor_Handler
  imports Device_Reconfigure Descriptor_Parser
begin

text \<open>
  The handler of the device descriptor lists, \<^verbatim>\<open>core/src/deviceDescriptorHandler.c\<close>: the allow and the deny
  list are downloaded by repeating tasks until that succeeds, and pairing becomes possible once both
  are valid.

  The state joins the static variables of the file, the files (paths and contents), the tasks the task
  library holds, and the service whose callbacks are called. The download, the renaming of a file, the
  checksum and the task library are arguments. Cancelling a task runs its clean-up function when it
  succeeds, as the library does.
\<close>

section \<open>State\<close>

definition DEFAULT_INVALID_DENYLIST_URL :: string where "DEFAULT_INVALID_DENYLIST_URL = ''http://toBeReplaced''"
definition MIN_URL_LENGTH :: nat where "MIN_URL_LENGTH = 9"
definition INIT_DD_TASK_WAIT_TIME_SECONDS :: u64 where "INIT_DD_TASK_WAIT_TIME_SECONDS = 15"
definition INTERVAL_DD_TASK_TIME_SECONDS :: u64 where "INTERVAL_DD_TASK_TIME_SECONDS = 15"
definition MAX_DD_TASK_WAIT_TIME_SECONDS :: u64 where "MAX_DD_TASK_WAIT_TIME_SECONDS = 120"
definition BASE_DD_EXPONENTIAL_DELAY_SECONDS :: u32 where "BASE_DD_EXPONENTIAL_DELAY_SECONDS = 2"
definition MAX_DD_EXPONENTIAL_DELAY_SECONDS :: u64 where "MAX_DD_EXPONENTIAL_DELAY_SECONDS = 60 * 60 * 24"
definition CPE_DD_EXPONENTIAL_DELAY_SECS :: string where "CPE_DD_EXPONENTIAL_DELAY_SECS = ''cpe.dd.exponentialDelaySecs''"
definition CPE_DD_INCREMENTAL_DELAY_SECS :: string where "CPE_DD_INCREMENTAL_DELAY_SECS = ''cpe.dd.incrementalDelaySecs''"
definition DEVICE_DESC_ALLOWLIST_AGGRESSIVE_UPDATE :: string where
  "DEVICE_DESC_ALLOWLIST_AGGRESSIVE_UPDATE = ''deviceDescriptor.allowList.aggressiveUpdate''"
definition CURRENT_DEVICE_DESCRIPTOR_URL :: string where "CURRENT_DEVICE_DESCRIPTOR_URL = ''currentDeviceDescriptorUrl''"
definition CURRENT_DEVICE_DESCRIPTOR_MD5 :: string where "CURRENT_DEVICE_DESCRIPTOR_MD5 = ''currentDeviceDescriptorMd5''"

datatype RepeatingTaskPolicy = Incremental u64 u64 u64 | Exponential u8 u64

datatype descriptor_list = Allowlist | Denylist

record list_task =
  lt_id :: u32
  lt_list :: descriptor_list
  lt_url :: string
  lt_policy :: RepeatingTaskPolicy

record ('j, 's, 'w) descriptor_handler =
  allowlistTaskId :: u32
  currentAllowlistUrl :: cstr
  denylistTaskId :: u32
  currentDenylistUrl :: cstr
  readyForPairingCB :: bool
  descriptorsUpdatedCB :: bool
  isDenylistValid :: bool
  isAllowlistValid :: bool
  dh_files :: "string \<rightharpoonup> string"
  dh_tasks :: "list_task list"
  dh_service :: "('j, 's, 'w) device_service"

record ('j, 's, 'w) dh_env =
  dh_svc :: "('j, 's, 'w) svc_env"
  dh_xml :: "(string \<rightharpoonup> string) \<Rightarrow> xml_api"
  file_md5 :: "string \<Rightarrow> string"
  urlHelperDownloadFile :: "string \<Rightarrow> 'w \<Rightarrow> (string option \<times> int) \<times> 'w"
  rename_works :: "string \<Rightarrow> string \<Rightarrow> 'w \<Rightarrow> bool"
  remove_works :: "string \<Rightarrow> 'w \<Rightarrow> bool"
  createPolicyRepeatingTask :: "RepeatingTaskPolicy \<Rightarrow> 'w \<Rightarrow> u32 \<times> 'w"
  cancelPolicyRepeatingTask :: "u32 \<Rightarrow> 'w \<Rightarrow> bool \<times> 'w"

definition dh_db :: "('j, 's, 'w) descriptor_handler \<Rightarrow> 's json_db" where
  "dh_db s = svc_db (dh_service s)"

definition dh_world :: "('j, 's, 'w) descriptor_handler \<Rightarrow> 'w" where
  "dh_world s = svc_world (dh_service s)"

definition set_world :: "'w \<Rightarrow> ('j, 's, 'w) descriptor_handler \<Rightarrow> ('j, 's, 'w) descriptor_handler" where
  "set_world w s = s\<lparr>dh_service := (dh_service s)\<lparr>svc_world := w\<rparr>\<rparr>"

definition put_property :: "('j, 's, 'w) dh_env \<Rightarrow> string \<Rightarrow> string \<Rightarrow> ('j, 's, 'w) descriptor_handler \<Rightarrow> ('j, 's, 'w) descriptor_handler" where
  "put_property E k v s = s\<lparr>dh_service := set_db (snd (deviceServiceSetSystemProperty (svc_db_env (dh_svc E)) k v (dh_db s))) (dh_service s)\<rparr>"

section \<open>Files\<close>

definition deviceServiceHashComputeFileMd5HexString ::
  "('j, 's, 'w) dh_env \<Rightarrow> string \<Rightarrow> ('j, 's, 'w) descriptor_handler \<Rightarrow> cstr" where
  "deviceServiceHashComputeFileMd5HexString E path s = map_option (file_md5 E) (dh_files s path)"

definition fileNeedsUpdating ::
  "('j, 's, 'w) dh_env \<Rightarrow> string \<Rightarrow> string \<Rightarrow> string \<Rightarrow> string \<Rightarrow> ('j, 's, 'w) descriptor_handler \<Rightarrow> bool" where
  "fileNeedsUpdating E currentUrlSystemKey newUrl currentFilePath currentFileMd5SystemKey s =
     (case deviceServiceGetSystemProperty currentUrlSystemKey (dh_db s) of None \<Rightarrow> True
      | Some currentUrl \<Rightarrow>
          (case deviceServiceGetSystemProperty currentFileMd5SystemKey (dh_db s) of None \<Rightarrow> True
           | Some currentMd5 \<Rightarrow>
               if dh_files s currentFilePath = None then True
               else if currentUrl = newUrl
               then stringCompare (svc_util (dh_svc E)) (Some currentMd5)
                 (deviceServiceHashComputeFileMd5HexString E currentFilePath s) True \<noteq> 0
               else True))"

text \<open>
  The download goes to a temporary file, which is checked, when there is a check, and moved into place;
  otherwise it is removed, if that works. \<open>None\<close>: the check faults.
\<close>

definition downloadFile ::
  "('j, 's, 'w) dh_env \<Rightarrow> string \<Rightarrow> string \<Rightarrow> (xml_api \<Rightarrow> cstr \<Rightarrow> bool option) option \<Rightarrow> ('j, 's, 'w) descriptor_handler \<Rightarrow>
   (bool \<times> ('j, 's, 'w) descriptor_handler) option" where
  "downloadFile E url destFile fileValidator s =
     (let tmpfilename = destFile @ ''.tmp'';
          ((content, httpCode), w) = urlHelperDownloadFile E url (dh_world s);
          s1 = set_world w (case content of None \<Rightarrow> s | Some c \<Rightarrow> s\<lparr>dh_files := (dh_files s)(tmpfilename \<mapsto> c)\<rparr>);
          fileSize = (case content of None \<Rightarrow> 0 | Some c \<Rightarrow> length c);
          drop = (\<lambda>x. if remove_works E tmpfilename w then x\<lparr>dh_files := (dh_files x)(tmpfilename := None)\<rparr> else x)
      in if fileSize > 0 \<and> (httpCode = 200 \<or> httpCode = 0)
         then do {
           valid \<leftarrow> (case fileValidator of None \<Rightarrow> Some True | Some check \<Rightarrow> check (dh_xml E (dh_files s1)) (Some tmpfilename));
           Some (if valid \<and> rename_works E tmpfilename destFile w
             then (True, s1\<lparr>dh_files := (dh_files s1)(destFile := dh_files s1 tmpfilename, tmpfilename := None)\<rparr>)
             else (False, drop s1)) }
         else Some (False, drop s1))"

section \<open>Readiness\<close>

text \<open>The callback is called once: it is forgotten then.\<close>

definition checkAndSetReadyForPairing ::
  "('j, 's, 'w) dh_env \<Rightarrow> ('j, 's, 'w) descriptor_handler \<Rightarrow> bool \<times> ('j, 's, 'w) descriptor_handler" where
  "checkAndSetReadyForPairing E s =
     (let descriptorsReady = (isAllowlistValid s \<and> isDenylistValid s)
      in (descriptorsReady, if descriptorsReady \<and> readyForPairingCB s
          then s\<lparr>dh_service := deviceDescriptorsReadyForPairingCallback (dh_svc E) (dh_service s), readyForPairingCB := False\<rparr>
          else s))"

definition localAllowlistIsValid :: "('j, 's, 'w) dh_env \<Rightarrow> ('j, 's, 'w) descriptor_handler \<Rightarrow> bool option" where
  "localAllowlistIsValid E s = checkAllowListValid (dh_xml E (dh_files s)) (getAllowListPath (svc_descriptors (dh_service s)))"

definition localDenylistIsValid :: "('j, 's, 'w) dh_env \<Rightarrow> ('j, 's, 'w) descriptor_handler \<Rightarrow> bool option" where
  "localDenylistIsValid E s = checkDenyListValid (dh_xml E (dh_files s)) (getDenyListPath (svc_descriptors (dh_service s)))"

section \<open>The tasks\<close>

text \<open>The library takes the task out and runs its clean-up function.\<close>

definition destroyAllowlistTaskObjectsFunc :: "u32 \<Rightarrow> ('j, 's, 'w) descriptor_handler \<Rightarrow> ('j, 's, 'w) descriptor_handler" where
  "destroyAllowlistTaskObjectsFunc taskHandle s = s\<lparr>dh_tasks := filter (\<lambda>t. lt_id t \<noteq> taskHandle) (dh_tasks s), allowlistTaskId := 0\<rparr>"

definition destroyDenylistTaskObjectsFunc :: "u32 \<Rightarrow> ('j, 's, 'w) descriptor_handler \<Rightarrow> ('j, 's, 'w) descriptor_handler" where
  "destroyDenylistTaskObjectsFunc taskHandle s = s\<lparr>dh_tasks := filter (\<lambda>t. lt_id t \<noteq> taskHandle) (dh_tasks s), denylistTaskId := 0\<rparr>"

definition cancelAllowlistUpdate :: "('j, 's, 'w) dh_env \<Rightarrow> ('j, 's, 'w) descriptor_handler \<Rightarrow> ('j, 's, 'w) descriptor_handler" where
  "cancelAllowlistUpdate E s =
     (if allowlistTaskId s = 0 then s
      else (case cancelPolicyRepeatingTask E (allowlistTaskId s) (dh_world s) of
         (True, w) \<Rightarrow> destroyAllowlistTaskObjectsFunc (allowlistTaskId s) (set_world w s)
       | (False, w) \<Rightarrow> (set_world w s)\<lparr>currentAllowlistUrl := None, allowlistTaskId := 0\<rparr>))"

definition cancelDenylistUpdate :: "('j, 's, 'w) dh_env \<Rightarrow> ('j, 's, 'w) descriptor_handler \<Rightarrow> ('j, 's, 'w) descriptor_handler" where
  "cancelDenylistUpdate E s =
     (if denylistTaskId s = 0 then s
      else (case cancelPolicyRepeatingTask E (denylistTaskId s) (dh_world s) of
         (True, w) \<Rightarrow> destroyDenylistTaskObjectsFunc (denylistTaskId s) (set_world w s)
       | (False, w) \<Rightarrow> (set_world w s)\<lparr>currentDenylistUrl := None, denylistTaskId := 0\<rparr>))"

definition incremental_policy :: "('j, 's, 'w) dh_env \<Rightarrow> ('j, 's, 'w) descriptor_handler \<Rightarrow> RepeatingTaskPolicy" where
  "incremental_policy E s = Incremental (get_property_as_uint64 (svc_glib (dh_svc E)) (svc_provider (dh_svc E))
     (Some CPE_DD_INCREMENTAL_DELAY_SECS) INIT_DD_TASK_WAIT_TIME_SECONDS (dh_world s) (dh_db s))
     MAX_DD_TASK_WAIT_TIME_SECONDS INTERVAL_DD_TASK_TIME_SECONDS"

text \<open>The delay is brought into the range of 8 bits before it is narrowed.\<close>

definition exponential_policy :: "('j, 's, 'w) dh_env \<Rightarrow> ('j, 's, 'w) descriptor_handler \<Rightarrow> RepeatingTaskPolicy" where
  "exponential_policy E s =
     (let exponentialDelay = get_property_as_uint32 (svc_glib (dh_svc E)) (svc_provider (dh_svc E))
            (Some CPE_DD_EXPONENTIAL_DELAY_SECS) BASE_DD_EXPONENTIAL_DELAY_SECONDS (dh_world s) (dh_db s);
          clamped = (if exponentialDelay = 0 then 1 else if exponentialDelay > 255 then 255 else exponentialDelay)
      in Exponential (ucast clamped) MAX_DD_EXPONENTIAL_DELAY_SECONDS)"

definition deviceDescriptorsUpdateAllowlist ::
  "('j, 's, 'w) dh_env \<Rightarrow> cstr \<Rightarrow> ('j, 's, 'w) descriptor_handler \<Rightarrow> ('j, 's, 'w) descriptor_handler" where
  "deviceDescriptorsUpdateAllowlist E url s =
     (let s1 = cancelAllowlistUpdate E s
      in case url of None \<Rightarrow> s1
         | Some u \<Rightarrow>
             if length u < MIN_URL_LENGTH then s1
             else (let policy = (if get_property_as_bool (svc_provider (dh_svc E)) (Some DEVICE_DESC_ALLOWLIST_AGGRESSIVE_UPDATE) False
                                     (dh_world s1) (dh_db s1)
                                 then incremental_policy E s1 else exponential_policy E s1)
                   in case createPolicyRepeatingTask E policy (dh_world s1) of (i, w) \<Rightarrow>
                     (set_world w s1)\<lparr>currentAllowlistUrl := Some u, allowlistTaskId := i,
                       dh_tasks := dh_tasks s1 @ [\<lparr>lt_id = i, lt_list = Allowlist, lt_url = u, lt_policy = policy\<rparr>]\<rparr>))"

text \<open>Without a URL the deny list is removed.\<close>

definition remove_denylist :: "('j, 's, 'w) dh_env \<Rightarrow> ('j, 's, 'w) descriptor_handler \<Rightarrow> ('j, 's, 'w) descriptor_handler" where
  "remove_denylist E s =
     (case getDenyListPath (svc_descriptors (dh_service s)) of None \<Rightarrow> s
      | Some p \<Rightarrow> put_property E CURRENT_DENYLIST_MD5 [] (put_property E CURRENT_DENYLIST_URL []
          (s\<lparr>dh_files := (dh_files s)(p := None)\<rparr>)))"

definition deviceDescriptorsUpdateDenylist ::
  "('j, 's, 'w) dh_env \<Rightarrow> cstr \<Rightarrow> ('j, 's, 'w) descriptor_handler \<Rightarrow> ('j, 's, 'w) descriptor_handler" where
  "deviceDescriptorsUpdateDenylist E url s =
     (let s1 = cancelDenylistUpdate E s
      in case url of None \<Rightarrow> remove_denylist E s1
         | Some u \<Rightarrow>
             if length u \<ge> MIN_URL_LENGTH \<and> lower u \<noteq> lower DEFAULT_INVALID_DENYLIST_URL
             then (case createPolicyRepeatingTask E (incremental_policy E s1) (dh_world s1) of (i, w) \<Rightarrow>
               (set_world w s1)\<lparr>currentDenylistUrl := Some u, denylistTaskId := i,
                 dh_tasks := dh_tasks s1 @ [\<lparr>lt_id = i, lt_list = Denylist, lt_url = u, lt_policy = incremental_policy E s1\<rparr>]\<rparr>)
             else remove_denylist E s1)"

text \<open>
  A run of a task: the file is brought up to date, in \<open>fetch_list\<close>, which tells whether it is up to date and
  whether it has been updated; then the flags are set under the lock, and the service is told.
\<close>

definition fetch_list ::
  "('j, 's, 'w) dh_env \<Rightarrow> string \<Rightarrow> string \<Rightarrow> string \<Rightarrow> string \<Rightarrow> (xml_api \<Rightarrow> cstr \<Rightarrow> bool option) \<Rightarrow> ('j, 's, 'w) descriptor_handler \<Rightarrow>
   ((bool \<times> bool) \<times> ('j, 's, 'w) descriptor_handler) option" where
  "fetch_list E urlKey md5Key url path validator s =
     (if \<not> fileNeedsUpdating E urlKey url path md5Key s then Some ((True, False), s)
      else do {
        (ok, s1) \<leftarrow> downloadFile E url path (Some validator) s;
        if \<not> ok then Some ((False, False), s1)
        else do {
          let s2 = put_property E urlKey url s1;
          md5 \<leftarrow> deviceServiceHashComputeFileMd5HexString E path s2;
          Some ((True, True), put_property E md5Key md5 s2) } })"

definition tell_updated :: "bool \<Rightarrow> ('j, 's, 'w) descriptor_handler \<Rightarrow> ('j, 's, 'w) descriptor_handler" where
  "tell_updated fileUpdated s =
     (if fileUpdated \<and> descriptorsUpdatedCB s then s\<lparr>dh_service := descriptorsUpdatedCallback (dh_service s)\<rparr> else s)"

definition updateAllowlistTaskFunc ::
  "('j, 's, 'w) dh_env \<Rightarrow> string \<Rightarrow> ('j, 's, 'w) descriptor_handler \<Rightarrow> (bool \<times> ('j, 's, 'w) descriptor_handler) option" where
  "updateAllowlistTaskFunc E url s =
     (case getAllowListPath (svc_descriptors (dh_service s)) of None \<Rightarrow> Some (False, s)
      | Some allowlistPath \<Rightarrow> do {
          ((fileUptoDate, fileUpdated), s1) \<leftarrow> fetch_list E CURRENT_DEVICE_DESCRIPTOR_URL CURRENT_DEVICE_DESCRIPTOR_MD5 url allowlistPath
            checkAllowListValid s;
          let s2 = (if fileUptoDate then s1\<lparr>allowlistTaskId := 0, isAllowlistValid := True\<rparr> else s1);
          let s3 = (if fileUpdated then snd (checkAndSetReadyForPairing E s2) else s2);
          Some (fileUptoDate, tell_updated fileUpdated s3) })"

definition updateDenylistTaskFunc ::
  "('j, 's, 'w) dh_env \<Rightarrow> string \<Rightarrow> ('j, 's, 'w) descriptor_handler \<Rightarrow> (bool \<times> ('j, 's, 'w) descriptor_handler) option" where
  "updateDenylistTaskFunc E url s =
     (case getDenyListPath (svc_descriptors (dh_service s)) of None \<Rightarrow> Some (False, s)
      | Some denylistPath \<Rightarrow> do {
          ((fileUptoDate, fileUpdated), s1) \<leftarrow> fetch_list E CURRENT_DENYLIST_URL CURRENT_DENYLIST_MD5 url denylistPath
            checkDenyListValid s;
          let s2 = (if fileUptoDate then s1\<lparr>denylistTaskId := 0, isDenylistValid := True\<rparr> else s1);
          let s3 = (if fileUpdated then snd (checkAndSetReadyForPairing E s2) else s2);
          Some (fileUptoDate, tell_updated fileUpdated s3) })"

section \<open>Start and end\<close>

definition configured_allowlist_url :: "('j, 's, 'w) dh_env \<Rightarrow> ('j, 's, 'w) descriptor_handler \<Rightarrow> cstr" where
  "configured_allowlist_url E s =
     (let I = svc_provider (dh_svc E); w = dh_world s; db = dh_db s
      in if has_property I (Some DEVICE_DESC_ALLOWLIST_URL_OVERRIDE) w db
         then get_property_as_string I (Some DEVICE_DESC_ALLOWLIST_URL_OVERRIDE) None w db
         else if has_property I (Some DEVICE_DESCRIPTOR_LIST) w db
         then get_property_as_string I (Some DEVICE_DESCRIPTOR_LIST) None w db else None)"

definition deviceServiceDeviceDescriptorsInit ::
  "('j, 's, 'w) dh_env \<Rightarrow> ('j, 's, 'w) descriptor_handler \<Rightarrow> ('j, 's, 'w) descriptor_handler option" where
  "deviceServiceDeviceDescriptorsInit E s = do {
     let allowlistUrl = configured_allowlist_url E s;
     let denylistUrl = get_property_as_string (svc_provider (dh_svc E)) (Some DEVICE_DESC_DENYLIST) None (dh_world s) (dh_db s);
     allowListValid \<leftarrow> localAllowlistIsValid E s;
     denyListValid \<leftarrow> localDenylistIsValid E s;
     let optional = (stringIsEmpty (svc_util (dh_svc E)) denylistUrl \<or>
       map_option lower denylistUrl = Some (lower DEFAULT_INVALID_DENYLIST_URL));
     let s1 = snd (checkAndSetReadyForPairing E (s\<lparr>isAllowlistValid := allowListValid,
       isDenylistValid := (if optional then True else denyListValid), readyForPairingCB := True, descriptorsUpdatedCB := True\<rparr>));
     let s2 = (if stringIsEmpty (svc_util (dh_svc E)) allowlistUrl then s1 else deviceDescriptorsUpdateAllowlist E allowlistUrl s1);
     Some (deviceDescriptorsUpdateDenylist E denylistUrl s2) }"

definition deviceServiceDeviceDescriptorsDestroy ::
  "('j, 's, 'w) dh_env \<Rightarrow> ('j, 's, 'w) descriptor_handler \<Rightarrow> ('j, 's, 'w) descriptor_handler" where
  "deviceServiceDeviceDescriptorsDestroy E s =
     (cancelDenylistUpdate E (cancelAllowlistUpdate E s))\<lparr>readyForPairingCB := False, descriptorsUpdatedCB := False\<rparr>"

section \<open>Downloads\<close>

lemma handler_frame [simp]:
  "dh_files (set_world w s) = dh_files s" "dh_db (set_world w s) = dh_db s" "dh_world (set_world w s) = w"
  "dh_files (put_property E k v s) = dh_files s" "dh_world (put_property E k v s) = dh_world s"
  "dh_db (s\<lparr>dh_files := fs\<rparr>) = dh_db s" "dh_world (s\<lparr>dh_files := fs\<rparr>) = dh_world s"
  "svc_log (dh_service (set_world w s)) = svc_log (dh_service s)"
  "svc_log (dh_service (put_property E k v s)) = svc_log (dh_service s)"
  "svc_descriptors (dh_service (put_property E k v s)) = svc_descriptors (dh_service s)"
  "svc_descriptors (dh_service (set_world w s)) = svc_descriptors (dh_service s)"
  by (simp_all add: set_world_def put_property_def dh_db_def dh_world_def set_db_def svc_db_def)

lemma property_after_set [simp]:
  "deviceServiceGetSystemProperty k' (dh_db (put_property E k v s)) = (if k' = k then Some v else deviceServiceGetSystemProperty k' (dh_db s))"
  by (simp add: put_property_def dh_db_def dbprops.get_set_if)

text \<open>The flags, which the work on files does not touch.\<close>

definition flags :: "('j, 's, 'w) descriptor_handler \<Rightarrow> bool \<times> bool \<times> bool \<times> bool \<times> list_task list \<times> u32 \<times> u32" where
  "flags s = (isAllowlistValid s, isDenylistValid s, readyForPairingCB s, descriptorsUpdatedCB s, dh_tasks s, allowlistTaskId s, denylistTaskId s)"

lemma flags_frame [simp]: "flags (set_world w s) = flags s" "flags (put_property E k v s) = flags s" "flags (s\<lparr>dh_files := fs\<rparr>) = flags s"
  by (simp_all add: flags_def set_world_def put_property_def)

definition passes_check :: "(xml_api \<Rightarrow> cstr \<Rightarrow> bool option) option \<Rightarrow> xml_api \<Rightarrow> string \<Rightarrow> bool" where
  "passes_check validator X f \<longleftrightarrow> (case validator of None \<Rightarrow> True | Some check \<Rightarrow> check X (Some f) = Some True)"

lemma download_effect:
  assumes "downloadFile E url dest validator s = Some (ok, s')"
  shows "\<And>f. f \<noteq> dest \<Longrightarrow> f \<noteq> dest @ ''.tmp'' \<Longrightarrow> dh_files s' f = dh_files s f"
    "\<not> ok \<Longrightarrow> dh_files s' dest = dh_files s dest"
    "ok \<Longrightarrow> \<exists>c code w. urlHelperDownloadFile E url (dh_world s) = ((Some c, code), w) \<and> c \<noteq> [] \<and> (code = 200 \<or> code = 0) \<and>
       passes_check validator (dh_xml E ((dh_files s)(dest @ ''.tmp'' \<mapsto> c))) (dest @ ''.tmp'') \<and> dh_files s' dest = Some c"
    "flags s' = flags s" "svc_log (dh_service s') = svc_log (dh_service s)" "dh_db s' = dh_db s"
    "svc_descriptors (dh_service s') = svc_descriptors (dh_service s)"
    "dh_files s' (dest @ ''.tmp'') = (case urlHelperDownloadFile E url (dh_world s) of ((content, code), w) \<Rightarrow>
       if ok \<or> remove_works E (dest @ ''.tmp'') w then None else case content of None \<Rightarrow> dh_files s (dest @ ''.tmp'') | Some c \<Rightarrow> Some c)"
  using assms
  by (auto simp: downloadFile_def Let_def bind_eq_Some_conv passes_check_def split: prod.splits option.splits if_splits)

text \<open>
  C25. A download replaces the list as a whole or not at all. The file at the destination changes only
  when the download succeeded and the new contents passed the check, and then it has exactly these
  contents; no other file changes but the temporary one. That one is gone after a success, and after a failure
  unless it cannot be removed; then it holds what was downloaded, and what it held before when nothing was.
\<close>

theorem download_replaces_or_keeps:
  assumes "downloadFile E url dest validator s = Some (ok, s')"
  shows "(\<forall>f. f \<noteq> dest \<and> f \<noteq> dest @ ''.tmp'' \<longrightarrow> dh_files s' f = dh_files s f) \<and>
    (case urlHelperDownloadFile E url (dh_world s) of ((content, code), w) \<Rightarrow>
       dh_files s' (dest @ ''.tmp'') = (if ok \<or> remove_works E (dest @ ''.tmp'') w then None
         else case content of None \<Rightarrow> dh_files s (dest @ ''.tmp'') | Some c \<Rightarrow> Some c)) \<and>
    (if ok then \<exists>c code w. urlHelperDownloadFile E url (dh_world s) = ((Some c, code), w) \<and> c \<noteq> [] \<and> (code = 200 \<or> code = 0) \<and>
         passes_check validator (dh_xml E ((dh_files s)(dest @ ''.tmp'' \<mapsto> c))) (dest @ ''.tmp'') \<and> dh_files s' dest = Some c
     else dh_files s' dest = dh_files s dest)"
  using download_effect(1-3,8) [OF assms] by (auto split: prod.split)

lemma fetch_effect:
  assumes "fetch_list E uk mk url path validator s = Some ((uptodate, upd), s')"
  shows "flags s' = flags s" "svc_log (dh_service s') = svc_log (dh_service s)" "upd \<Longrightarrow> uptodate"
    "svc_descriptors (dh_service s') = svc_descriptors (dh_service s)"
  using assms
  by (auto simp: fetch_list_def bind_eq_Some_conv Let_def download_effect(4,5,7) split: if_splits)

text \<open>
  A list that has been downloaded is up to date: the next run of the task, or of another with the
  same URL, does not download it again, as long as the file and the properties stay.
\<close>

theorem fetched_list_is_current:
  assumes "util_ok (svc_util (dh_svc E))" "uk \<noteq> mk"
    and "fetch_list E uk mk url path validator s = Some ((True, upd), s')"
  shows "fetch_list E uk mk url path validator s' = Some ((True, False), s')"
proof (cases "fileNeedsUpdating E uk url path mk s")
  case False
  then show ?thesis using assms(3) by (auto simp: fetch_list_def)
next
  case True
  then obtain s1 md5 where d: "downloadFile E url path (Some validator) s = Some (True, s1)"
    "deviceServiceHashComputeFileMd5HexString E path (put_property E uk url s1) = Some md5"
    "s' = put_property E mk md5 (put_property E uk url s1)"
    using assms(3) by (auto simp: fetch_list_def bind_eq_Some_conv Let_def split: if_splits)
  then have "deviceServiceHashComputeFileMd5HexString E path s' = Some md5" "dh_files s' path \<noteq> None"
    by (auto simp: deviceServiceHashComputeFileMd5HexString_def)
  then have "\<not> fileNeedsUpdating E uk url path mk s'"
    using assms(1,2) d(3) by (simp add: fileNeedsUpdating_def util_okD)
  then show ?thesis by (simp add: fetch_list_def)
qed

section \<open>Interleavings\<close>

text \<open>
  The steps of the handler: a run of a task, the clean-up of a task that has ended, a change of a URL, the
  end. The library runs the tasks of the two lists in any order.
\<close>

inductive dh_step :: "('j, 's, 'w) dh_env \<Rightarrow> ('j, 's, 'w) descriptor_handler \<Rightarrow> ('j, 's, 'w) descriptor_handler \<Rightarrow> bool" for E where
  run_allow: "t \<in> set (dh_tasks s) \<Longrightarrow> lt_list t = Allowlist \<Longrightarrow> updateAllowlistTaskFunc E (lt_url t) s = Some (r, s') \<Longrightarrow> dh_step E s s'"
| run_deny: "t \<in> set (dh_tasks s) \<Longrightarrow> lt_list t = Denylist \<Longrightarrow> updateDenylistTaskFunc E (lt_url t) s = Some (r, s') \<Longrightarrow> dh_step E s s'"
| clean_allow: "t \<in> set (dh_tasks s) \<Longrightarrow> lt_list t = Allowlist \<Longrightarrow> dh_step E s (destroyAllowlistTaskObjectsFunc (lt_id t) s)"
| clean_deny: "t \<in> set (dh_tasks s) \<Longrightarrow> lt_list t = Denylist \<Longrightarrow> dh_step E s (destroyDenylistTaskObjectsFunc (lt_id t) s)"
| update_allow: "dh_step E s (deviceDescriptorsUpdateAllowlist E url s)"
| update_deny: "dh_step E s (deviceDescriptorsUpdateDenylist E url s)"
| finish: "dh_step E s (deviceServiceDeviceDescriptorsDestroy E s)"

text \<open>How often the service has been told that it is ready for pairing.\<close>

definition ready_count :: "('j, 's, 'w) descriptor_handler \<Rightarrow> nat" where
  "ready_count s = length (filter (\<lambda>e. case e of EvReadyForPairing \<Rightarrow> True | _ \<Rightarrow> False) (svc_log (dh_service s)))"

text \<open>The drivers that are told of the new status do not announce it themselves.\<close>

definition status_quiet :: "('j, 's, 'w) svc_env \<Rightarrow> bool" where
  "status_quiet E \<longleftrightarrow> (\<forall>drv f s. serviceStatusChanged (driverOps E drv) = Some f \<longrightarrow> svc_log (f s) = svc_log s)"

abbreviation readies :: "'j svc_event list \<Rightarrow> nat" where
  "readies es \<equiv> length (filter (\<lambda>e. case e of EvReadyForPairing \<Rightarrow> True | _ \<Rightarrow> False) es)"

lemma tell_readies:
  "(\<And>d s. readies (svc_log (f d s)) = readies (svc_log s)) \<Longrightarrow> readies (svc_log (tell_each f ds s)) = readies (svc_log s)"
  by (induction ds arbitrary: s) auto

lemma notify_status_readies:
  assumes "status_quiet E"
  shows "readies (svc_log (notifyDriversForServiceStatusChange E s)) = readies (svc_log s)"
  unfolding notifyDriversForServiceStatusChange_def
  by (rule tell_readies) (use assms in \<open>auto simp: notify_driver_def status_quiet_def publish_def split: option.splits\<close>)

lemma scheduled_log [simp]: "readies (svc_log (scheduleDeviceDescriptorsProcessingTask s)) = readies (svc_log s)"
  by (simp add: scheduleDeviceDescriptorsProcessingTask_def publish_def)

lemma ready_callback_count:
  assumes "status_quiet E"
  shows "readies (svc_log (deviceDescriptorsReadyForPairingCallback E s)) = Suc (readies (svc_log s))"
  using notify_status_readies [OF assms, of "s\<lparr>isDeviceDescriptorsListReady := True\<rparr>"]
  by (simp add: deviceDescriptorsReadyForPairingCallback_def publish_def)

lemma check_ready:
  assumes "status_quiet (dh_svc E)"
  shows "ready_count (snd (checkAndSetReadyForPairing E s)) = ready_count s +
      (if isAllowlistValid s \<and> isDenylistValid s \<and> readyForPairingCB s then 1 else 0)"
    "readyForPairingCB (snd (checkAndSetReadyForPairing E s)) = (readyForPairingCB s \<and> \<not> (isAllowlistValid s \<and> isDenylistValid s))"
    "isAllowlistValid (snd (checkAndSetReadyForPairing E s)) = isAllowlistValid s"
    "isDenylistValid (snd (checkAndSetReadyForPairing E s)) = isDenylistValid s"
    "dh_tasks (snd (checkAndSetReadyForPairing E s)) = dh_tasks s"
  using ready_callback_count [OF assms] by (auto simp: checkAndSetReadyForPairing_def ready_count_def Let_def)

lemma tell_updated_frame [simp]:
  "ready_count (tell_updated b s) = ready_count s" "readyForPairingCB (tell_updated b s) = readyForPairingCB s"
  "isAllowlistValid (tell_updated b s) = isAllowlistValid s" "isDenylistValid (tell_updated b s) = isDenylistValid s"
  "dh_tasks (tell_updated b s) = dh_tasks s"
  by (simp_all add: tell_updated_def ready_count_def descriptorsUpdatedCallback_def)

lemma cancel_frame [simp]:
  "ready_count (cancelAllowlistUpdate E s) = ready_count s" "readyForPairingCB (cancelAllowlistUpdate E s) = readyForPairingCB s"
  "isAllowlistValid (cancelAllowlistUpdate E s) = isAllowlistValid s" "isDenylistValid (cancelAllowlistUpdate E s) = isDenylistValid s"
  "ready_count (cancelDenylistUpdate E s) = ready_count s" "readyForPairingCB (cancelDenylistUpdate E s) = readyForPairingCB s"
  "isAllowlistValid (cancelDenylistUpdate E s) = isAllowlistValid s" "isDenylistValid (cancelDenylistUpdate E s) = isDenylistValid s"
  by (auto simp: cancelAllowlistUpdate_def cancelDenylistUpdate_def ready_count_def destroyAllowlistTaskObjectsFunc_def
      destroyDenylistTaskObjectsFunc_def set_world_def split: prod.splits bool.splits)

lemma set_frame [simp]:
  "ready_count (set_world w s) = ready_count s" "readyForPairingCB (set_world w s) = readyForPairingCB s"
  "isAllowlistValid (set_world w s) = isAllowlistValid s" "isDenylistValid (set_world w s) = isDenylistValid s"
  "ready_count (put_property E k v s) = ready_count s" "readyForPairingCB (put_property E k v s) = readyForPairingCB s"
  "isAllowlistValid (put_property E k v s) = isAllowlistValid s" "isDenylistValid (put_property E k v s) = isDenylistValid s"
  "dh_tasks (set_world w s) = dh_tasks s" "dh_tasks (put_property E k v s) = dh_tasks s"
  by (simp_all add: ready_count_def) (simp_all add: set_world_def put_property_def)

lemma update_frame [simp]:
  "ready_count (deviceDescriptorsUpdateAllowlist E u s) = ready_count s" "readyForPairingCB (deviceDescriptorsUpdateAllowlist E u s) = readyForPairingCB s"
  "isAllowlistValid (deviceDescriptorsUpdateAllowlist E u s) = isAllowlistValid s" "isDenylistValid (deviceDescriptorsUpdateAllowlist E u s) = isDenylistValid s"
  "ready_count (deviceDescriptorsUpdateDenylist E u s) = ready_count s" "readyForPairingCB (deviceDescriptorsUpdateDenylist E u s) = readyForPairingCB s"
  "isAllowlistValid (deviceDescriptorsUpdateDenylist E u s) = isAllowlistValid s" "isDenylistValid (deviceDescriptorsUpdateDenylist E u s) = isDenylistValid s"
  by (auto simp: deviceDescriptorsUpdateAllowlist_def deviceDescriptorsUpdateDenylist_def remove_denylist_def Let_def ready_count_def
      split: option.splits prod.splits)
    (auto simp: ready_count_def [symmetric])

text \<open>What a run of a task does to the flags: it may make its own list valid, and it announces readiness at most once.\<close>

definition announces :: "('j, 's, 'w) descriptor_handler \<Rightarrow> ('j, 's, 'w) descriptor_handler \<Rightarrow> bool" where
  "announces s s' \<longleftrightarrow>
     (if ready_count s' = ready_count s then readyForPairingCB s' = readyForPairingCB s
      else ready_count s' = Suc (ready_count s) \<and> readyForPairingCB s \<and> \<not> readyForPairingCB s' \<and> isAllowlistValid s' \<and> isDenylistValid s')"

lemma finish_run:
  assumes "status_quiet (dh_svc E)" "fetch_list E uk mk url path validator s = Some ((uptodate, upd), s1)"
    and "dh_service t = dh_service s1" "readyForPairingCB t = readyForPairingCB s1" "dh_tasks t = dh_tasks s1"
    and "isAllowlistValid t = a" "isDenylistValid t = d" and "s2 = (if uptodate then t else s1)"
    and "s3 = (if upd then snd (checkAndSetReadyForPairing E s2) else s2)"
  shows "announces s (tell_updated upd s3)" "dh_tasks (tell_updated upd s3) = dh_tasks s"
    "isAllowlistValid (tell_updated upd s3) = (if uptodate then a else isAllowlistValid s)"
    "isDenylistValid (tell_updated upd s3) = (if uptodate then d else isDenylistValid s)"
proof -
  note f = fetch_effect [OF assms(2)]
  have s1: "isAllowlistValid s1 = isAllowlistValid s" "isDenylistValid s1 = isDenylistValid s" "readyForPairingCB s1 = readyForPairingCB s"
    "dh_tasks s1 = dh_tasks s" "ready_count s1 = ready_count s"
    using f(1,2) by (auto simp: flags_def ready_count_def)
  have s2: "ready_count s2 = ready_count s" "readyForPairingCB s2 = readyForPairingCB s" "dh_tasks s2 = dh_tasks s"
    "isAllowlistValid s2 = (if uptodate then a else isAllowlistValid s)" "isDenylistValid s2 = (if uptodate then d else isDenylistValid s)"
    using s1 assms(3-7) by (simp_all add: assms(8)) (simp_all add: ready_count_def)
  show "announces s (tell_updated upd s3)" "dh_tasks (tell_updated upd s3) = dh_tasks s"
    "isAllowlistValid (tell_updated upd s3) = (if uptodate then a else isAllowlistValid s)"
    "isDenylistValid (tell_updated upd s3) = (if uptodate then d else isDenylistValid s)"
    using check_ready [OF assms(1), of s2] s2 f(3) by (auto simp: assms(9) announces_def)
qed

lemma run_allow_frame:
  assumes "status_quiet (dh_svc E)" "updateAllowlistTaskFunc E url s = Some (r, s')"
  shows "announces s s'" "dh_tasks s' = dh_tasks s" "isDenylistValid s' = isDenylistValid s" "isAllowlistValid s' = (isAllowlistValid s \<or> r)"
proof -
  have "announces s s' \<and> dh_tasks s' = dh_tasks s \<and> isDenylistValid s' = isDenylistValid s \<and> isAllowlistValid s' = (isAllowlistValid s \<or> r)"
  proof (cases "getAllowListPath (svc_descriptors (dh_service s))")
    case None
    then show ?thesis using assms(2) by (auto simp: updateAllowlistTaskFunc_def announces_def)
  next
    case (Some p)
    then obtain uptodate upd s1 where f: "fetch_list E CURRENT_DEVICE_DESCRIPTOR_URL CURRENT_DEVICE_DESCRIPTOR_MD5 url p checkAllowListValid s =
        Some ((uptodate, upd), s1)"
      using assms(2) by (auto simp: updateAllowlistTaskFunc_def bind_eq_Some_conv)
    let ?t = "s1\<lparr>allowlistTaskId := 0, isAllowlistValid := True\<rparr>"
    let ?s2 = "if uptodate then ?t else s1"
    let ?s3 = "if upd then snd (checkAndSetReadyForPairing E ?s2) else ?s2"
    have d: "isDenylistValid s1 = isDenylistValid s" using fetch_effect(1) [OF f] by (simp add: flags_def)
    have "r = uptodate" "s' = tell_updated upd ?s3"
      using assms(2) Some f by (auto simp: updateAllowlistTaskFunc_def Let_def)
    then show ?thesis using finish_run [OF assms(1) f, of ?t True "isDenylistValid s1" ?s2 ?s3] d by auto
  qed
  then show "announces s s'" "dh_tasks s' = dh_tasks s" "isDenylistValid s' = isDenylistValid s" "isAllowlistValid s' = (isAllowlistValid s \<or> r)"
    by auto
qed

lemma run_deny_frame:
  assumes "status_quiet (dh_svc E)" "updateDenylistTaskFunc E url s = Some (r, s')"
  shows "announces s s'" "dh_tasks s' = dh_tasks s" "isAllowlistValid s' = isAllowlistValid s" "isDenylistValid s' = (isDenylistValid s \<or> r)"
proof -
  have "announces s s' \<and> dh_tasks s' = dh_tasks s \<and> isAllowlistValid s' = isAllowlistValid s \<and> isDenylistValid s' = (isDenylistValid s \<or> r)"
  proof (cases "getDenyListPath (svc_descriptors (dh_service s))")
    case None
    then show ?thesis using assms(2) by (auto simp: updateDenylistTaskFunc_def announces_def)
  next
    case (Some p)
    then obtain uptodate upd s1 where f: "fetch_list E CURRENT_DENYLIST_URL CURRENT_DENYLIST_MD5 url p checkDenyListValid s =
        Some ((uptodate, upd), s1)"
      using assms(2) by (auto simp: updateDenylistTaskFunc_def bind_eq_Some_conv)
    let ?t = "s1\<lparr>denylistTaskId := 0, isDenylistValid := True\<rparr>"
    let ?s2 = "if uptodate then ?t else s1"
    let ?s3 = "if upd then snd (checkAndSetReadyForPairing E ?s2) else ?s2"
    have d: "isAllowlistValid s1 = isAllowlistValid s" using fetch_effect(1) [OF f] by (simp add: flags_def)
    have "r = uptodate" "s' = tell_updated upd ?s3"
      using assms(2) Some f by (auto simp: updateDenylistTaskFunc_def Let_def)
    then show ?thesis using finish_run [OF assms(1) f, of ?t "isAllowlistValid s1" True ?s2 ?s3] d by auto
  qed
  then show "announces s s'" "dh_tasks s' = dh_tasks s" "isAllowlistValid s' = isAllowlistValid s" "isDenylistValid s' = (isDenylistValid s \<or> r)"
    by auto
qed

text \<open>Readiness is announced at most once, and only when both lists are valid.\<close>

definition announced_once :: "nat \<Rightarrow> ('j, 's, 'w) descriptor_handler \<Rightarrow> bool" where
  "announced_once n s \<longleftrightarrow> ready_count s = n \<or> ready_count s = Suc n \<and> isAllowlistValid s \<and> isDenylistValid s \<and> \<not> readyForPairingCB s"

lemma dh_step_announced:
  assumes "status_quiet (dh_svc E)"
  shows "dh_step E s s' \<Longrightarrow> announced_once n s \<Longrightarrow> announced_once n s'"
proof (induction rule: dh_step.induct)
  case (run_allow t s r s')
  with run_allow_frame [OF assms run_allow(3)] show ?case by (auto simp: announced_once_def announces_def split: if_splits)
next
  case (run_deny t s r s')
  with run_deny_frame [OF assms run_deny(3)] show ?case by (auto simp: announced_once_def announces_def split: if_splits)
next
  case (clean_allow t s)
  then show ?case by (simp add: announced_once_def destroyAllowlistTaskObjectsFunc_def ready_count_def)
next
  case (clean_deny t s)
  then show ?case by (simp add: announced_once_def destroyDenylistTaskObjectsFunc_def ready_count_def)
next
  case (finish s)
  have "ready_count (deviceServiceDeviceDescriptorsDestroy E s) = ready_count s"
    by (subst (2) cancel_frame(1) [of E, symmetric], subst (2) cancel_frame(5) [of E, symmetric])
      (simp add: deviceServiceDeviceDescriptorsDestroy_def ready_count_def)
  with finish show ?case by (auto simp: announced_once_def deviceServiceDeviceDescriptorsDestroy_def)
qed (auto simp: announced_once_def)

lemma init_announced:
  assumes "status_quiet (dh_svc E)" "deviceServiceDeviceDescriptorsInit E s = Some s0"
  shows "announced_once (ready_count s) s0"
proof -
  let ?P = "announced_once (ready_count s)"
  have start: "?P (snd (checkAndSetReadyForPairing E (s\<lparr>isAllowlistValid := a, isDenylistValid := d, readyForPairingCB := True,
      descriptorsUpdatedCB := True\<rparr>)))" (is "?P (snd (checkAndSetReadyForPairing E ?s))") for a d
  proof -
    have "ready_count ?s = ready_count s" by (simp add: ready_count_def)
    then show ?thesis using check_ready [OF assms(1), of ?s] by (auto simp: announced_once_def)
  qed
  have "?P (deviceDescriptorsUpdateAllowlist E u t)" "?P (deviceDescriptorsUpdateDenylist E u t)" if "?P t" for u t
    using that by (simp_all add: announced_once_def)
  then show ?thesis using assms(2) start by (auto simp: deviceServiceDeviceDescriptorsInit_def bind_eq_Some_conv Let_def)
qed

text \<open>
  C24. However the tasks, their clean-up, changes of the URLs and the end are interleaved after the
  start, the service is told that it is ready for pairing at most once, and only when both lists are
  valid; both stay valid from then on.
\<close>

theorem ready_for_pairing_once:
  assumes "status_quiet (dh_svc E)" "deviceServiceDeviceDescriptorsInit E s = Some s0" "(dh_step E)\<^sup>*\<^sup>* s0 s'"
  shows "ready_count s' \<le> Suc (ready_count s) \<and> (ready_count s' \<noteq> ready_count s \<longrightarrow> isAllowlistValid s' \<and> isDenylistValid s')"
proof -
  from assms(3) have "announced_once (ready_count s) s'"
    by (induction) (auto intro: init_announced [OF assms(1,2)] dh_step_announced [OF assms(1)])
  then show ?thesis by (auto simp: announced_once_def)
qed

text \<open>
  The start treats a missing deny list as valid, a change at run time does not. When the URL of the
  deny list is dropped while the list is not valid, the list stays invalid, and the allow list that is
  downloaded afterwards does not make the service ready; with the same configuration, a start would.
\<close>

theorem dropped_denylist_not_ready:
  assumes "status_quiet (dh_svc E)" "\<not> isDenylistValid s"
    and "updateAllowlistTaskFunc E url (deviceDescriptorsUpdateDenylist E None s) = Some (r, s')"
  shows "ready_count s' = ready_count s \<and> \<not> isDenylistValid s'"
  using run_allow_frame [OF assms(1,3)] assms(2) by (auto simp: announces_def split: if_splits)

lemma new_allow_task:
  assumes "allowlistTaskId s = 0" "length u \<ge> MIN_URL_LENGTH"
  shows "\<exists>p. \<lparr>lt_id = allowlistTaskId (deviceDescriptorsUpdateAllowlist E (Some u) s), lt_list = Allowlist, lt_url = u, lt_policy = p\<rparr>
      \<in> set (dh_tasks (deviceDescriptorsUpdateAllowlist E (Some u) s))"
    "set (dh_tasks s) \<subseteq> set (dh_tasks (deviceDescriptorsUpdateAllowlist E (Some u) s))"
proof -
  define p where "p = (if get_property_as_bool (svc_provider (dh_svc E)) (Some DEVICE_DESC_ALLOWLIST_AGGRESSIVE_UPDATE) False
      (dh_world s) (dh_db s) then incremental_policy E s else exponential_policy E s)"
  obtain i w where c: "createPolicyRepeatingTask E p (dh_world s) = (i, w)" by fastforce
  have "deviceDescriptorsUpdateAllowlist E (Some u) s = (set_world w s)\<lparr>currentAllowlistUrl := Some u, allowlistTaskId := i,
      dh_tasks := dh_tasks s @ [\<lparr>lt_id = i, lt_list = Allowlist, lt_url = u, lt_policy = p\<rparr>]\<rparr>"
    using assms c by (simp add: deviceDescriptorsUpdateAllowlist_def cancelAllowlistUpdate_def Let_def p_def [symmetric])
  then show "\<exists>p. \<lparr>lt_id = allowlistTaskId (deviceDescriptorsUpdateAllowlist E (Some u) s), lt_list = Allowlist, lt_url = u, lt_policy = p\<rparr>
      \<in> set (dh_tasks (deviceDescriptorsUpdateAllowlist E (Some u) s))"
    "set (dh_tasks s) \<subseteq> set (dh_tasks (deviceDescriptorsUpdateAllowlist E (Some u) s))" by auto
qed

text \<open>
  The clean-up of a task hides the task that follows it. A task that has brought the list up to date
  gives its id back before it is cleaned up; when the URL changes between the two, the clean-up clears
  the id of the new task, and the change after that does not cancel it: two tasks download the list.
\<close>

theorem late_cleanup_hides_task:
  assumes "t \<in> set (dh_tasks s)" "updateAllowlistTaskFunc E (lt_url t) s = Some (True, s1)" "getAllowListPath (svc_descriptors (dh_service s)) \<noteq> None"
    and "length u \<ge> MIN_URL_LENGTH" "length v \<ge> MIN_URL_LENGTH"
    and s2: "s2 = deviceDescriptorsUpdateAllowlist E (Some u) s1" and "allowlistTaskId s2 \<noteq> lt_id t"
    and s3: "s3 = destroyAllowlistTaskObjectsFunc (lt_id t) s2" and s4: "s4 = deviceDescriptorsUpdateAllowlist E (Some v) s3"
  shows "allowlistTaskId s3 = 0 \<and> {u, v} \<subseteq> lt_url ` {t' \<in> set (dh_tasks s4). lt_list t' = Allowlist}"
proof -
  have zero: "allowlistTaskId (snd (checkAndSetReadyForPairing E x)) = allowlistTaskId x"
    "allowlistTaskId (tell_updated b x) = allowlistTaskId x" for b and x :: "('a, 'b, 'c) descriptor_handler"
    by (simp_all add: tell_updated_def checkAndSetReadyForPairing_def Let_def)
  have "allowlistTaskId s1 = 0"
    using assms(2,3) by (auto simp: updateAllowlistTaskFunc_def bind_eq_Some_conv Let_def zero)
  then obtain p where 2: "\<lparr>lt_id = allowlistTaskId s2, lt_list = Allowlist, lt_url = u, lt_policy = p\<rparr> \<in> set (dh_tasks s2)"
    using new_allow_task(1) [OF _ assms(4)] by (auto simp: s2)
  have 3: "allowlistTaskId s3 = 0" "\<lparr>lt_id = allowlistTaskId s2, lt_list = Allowlist, lt_url = u, lt_policy = p\<rparr> \<in> set (dh_tasks s3)"
    using 2 assms(7) by (auto simp: s3 destroyAllowlistTaskObjectsFunc_def)
  then have "\<lparr>lt_id = allowlistTaskId s2, lt_list = Allowlist, lt_url = u, lt_policy = p\<rparr> \<in> set (dh_tasks s4)"
    "\<exists>i q. \<lparr>lt_id = i, lt_list = Allowlist, lt_url = v, lt_policy = q\<rparr> \<in> set (dh_tasks s4)"
    using new_allow_task [OF 3(1) assms(5), of E] by (auto simp: s4)
  then show ?thesis using 3(1) by (force simp: image_iff)
qed

text \<open>
  The base of the exponential delay is the configured number of seconds, brought into the range from 1 to 255.
\<close>

theorem exponential_delay_clamped:
  "\<exists>d. exponential_policy E s = Exponential d MAX_DD_EXPONENTIAL_DELAY_SECONDS \<and>
     unat d = max 1 (min 255 (unat (get_property_as_uint32 (svc_glib (dh_svc E)) (svc_provider (dh_svc E))
       (Some CPE_DD_EXPONENTIAL_DELAY_SECS) BASE_DD_EXPONENTIAL_DELAY_SECONDS (dh_world s) (dh_db s))))"
proof -
  have "unat (ucast (if p = 0 then 1 else if p > 255 then 255 else p) :: u8) = max 1 (min 255 (unat p))" for p :: u32
  proof (cases "p = 0 \<or> p > 255")
    case True
    then show ?thesis by (auto simp: word_less_nat_alt)
  next
    case False
    then have "unat p \<le> 255" "0 < unat p" by (simp_all add: word_less_nat_alt unat_gt_0)
    then show ?thesis using False by (simp add: unsigned_ucast_eq take_bit_nat_eq_self)
  qed
  then show ?thesis by (simp add: exponential_policy_def Let_def)
qed

section \<open>An example\<close>

text \<open>The world counts the tasks; a file with the contents \<open>good\<close> is a valid allow list, and the URL that ends in \<open>ok\<close> gives it.\<close>

definition list_xml :: "(string \<rightharpoonup> string) \<Rightarrow> xml_api" where
  "list_xml fs = (example_xml [])\<lparr>doesNonEmptyFileExist := (\<lambda>p. Option.bind p fs \<noteq> None),
     xmlParseFile := (\<lambda>p. if Option.bind p fs = Some ''good'' then Some (Some (XmlElement ''DeviceDescriptorList'' [] [])) else None)\<rparr>"

definition counting_svc_env :: "(json, (string \<times> string) list, u32) svc_env" where
  "counting_svc_env = \<lparr>svc_db_env = example_env, svc_cf_env = example_cf_env, svc_provider = default_provider,
     svc_regcomp = (\<lambda>_. None), svc_parse = (\<lambda>_ _. Some None), stringToBool = (\<lambda>t. t = Some ''true''),
     createDeviceMetadataUri = (\<lambda>u i. map_option (\<lambda>v. metadataUriCreate v None i) u), driverOps = (\<lambda>_. example_ops),
     migratorOps = example_ops, clientCallback = (\<lambda>_ _ _ s. s), isDelayTaskWaiting = (\<lambda>_ _. False),
     cancelDelayTask = (\<lambda>_ w. w), scheduleDelayTask = (\<lambda>_ w. (w + 1, w + 1)), awaitReconfiguration = (\<lambda>_ s. s),
     cJSON_IsArray = (\<lambda>_. False), cJSON_CreateArray = JObject [], cJSON_AddItemToArray = (\<lambda>j x. j),
     cJSON_PrintUnformatted = (\<lambda>_. []), stringToUint32 = (\<lambda>_. None), svc_glib = example_glib, storageDir = ''/storage''\<rparr>"

definition example_dh_env :: "(json, (string \<times> string) list, u32) dh_env" where
  "example_dh_env = \<lparr>dh_svc = counting_svc_env, dh_xml = list_xml, file_md5 = rev,
     urlHelperDownloadFile = (\<lambda>u w. ((if drop 7 u = ''ok'' then Some ''good'' else None, 200), w)), rename_works = (\<lambda>_ _ _. True), remove_works = (\<lambda>_ _. True),
     createPolicyRepeatingTask = (\<lambda>_ w. (w + 1, w + 1)), cancelPolicyRepeatingTask = (\<lambda>_ w. (True, w))\<rparr>"

definition counting_service :: "(json, (string \<times> string) list, u32) device_service" where
  "counting_service = \<lparr>svc_fail = example_comm_fail,
     svc_descriptors = \<lparr>allowListPath = ''/allow'', denyListPath = ''/deny'', deviceDescriptors = None\<rparr>,
     svc_subsystems = \<lparr>subsystems = None, allDriversStarted = False, readyForDevicesCB = False,
       subsystemManagerInitialized = False, preRegisteredSubsystems = [], sm_db = one_db, sm_trace = []\<rparr>,
     isDeviceServiceInLPM = False, subsystemsReadyForDevices = True, isDeviceDescriptorsListReady = False,
     shuttingDown = False, deviceDescriptorProcessorTask = False, discoveryTimeoutSeconds = 0,
     activeDiscoveries = [], pendingReconfiguration = Some [], markedForRemoval = [], rejected = [], failedToPair = [],
     svc_clock = (\<lambda>n. 1700000000000 + of_nat n), svc_ticks = 0, svc_log = [], svc_world = 7\<rparr>"

definition example_task :: list_task where
  "example_task = \<lparr>lt_id = 7, lt_list = Allowlist, lt_url = ''http://ok'', lt_policy = Exponential 2 86400\<rparr>"

definition example_handler :: "(json, (string \<times> string) list, u32) descriptor_handler" where
  "example_handler = \<lparr>allowlistTaskId = 7, currentAllowlistUrl = Some ''http://ok'', denylistTaskId = 0, currentDenylistUrl = None,
     readyForPairingCB = True, descriptorsUpdatedCB = True, isDenylistValid = False, isAllowlistValid = False,
     dh_files = Map.empty, dh_tasks = [example_task], dh_service = counting_service\<rparr>"

lemma example_dh_quiet: "status_quiet (dh_svc example_dh_env)"
  by (simp add: status_quiet_def example_dh_env_def counting_svc_env_def example_ops_def)

lemma example_run: "map_option fst (updateAllowlistTaskFunc example_dh_env ''http://ok'' example_handler) = Some True"
  by code_simp

theorem download_replaces_or_keeps_witness:
  "\<exists>s'. downloadFile example_dh_env ''http://ok'' ''/allow'' (Some checkAllowListValid) example_handler = Some (True, s') \<and>
     dh_files s' ''/allow'' = Some ''good'' \<and> dh_files s' ''/allow.tmp'' = None \<and> dh_files s' ''/deny'' = None"
proof -
  have "map_option fst (downloadFile example_dh_env ''http://ok'' ''/allow'' (Some checkAllowListValid) example_handler) = Some True" by code_simp
  then obtain s' where d: "downloadFile example_dh_env ''http://ok'' ''/allow'' (Some checkAllowListValid) example_handler = Some (True, s')"
    by auto
  have "urlHelperDownloadFile example_dh_env ''http://ok'' w = ((Some ''good'', 200), w)" for w by (simp add: example_dh_env_def)
  moreover have "dh_files example_handler = Map.empty" by (simp add: example_handler_def)
  ultimately show ?thesis using download_replaces_or_keeps [OF d] d by auto
qed

theorem fetched_list_is_current_witness:
  "\<exists>s'. fetch_list example_dh_env ''url'' ''md5'' ''http://ok'' ''/allow'' checkAllowListValid example_handler = Some ((True, True), s') \<and>
     fetch_list example_dh_env ''url'' ''md5'' ''http://ok'' ''/allow'' checkAllowListValid s' = Some ((True, False), s')"
proof -
  have "map_option fst (fetch_list example_dh_env ''url'' ''md5'' ''http://ok'' ''/allow'' checkAllowListValid example_handler) = Some (True, True)"
    by code_simp
  then obtain s' where f: "fetch_list example_dh_env ''url'' ''md5'' ''http://ok'' ''/allow'' checkAllowListValid example_handler = Some ((True, True), s')"
    by auto
  have "util_ok (svc_util (dh_svc example_dh_env))" by (simp add: example_dh_env_def counting_svc_env_def example_env_def util_ok_example)
  then show ?thesis using fetched_list_is_current [OF _ _ f] f by simp
qed

theorem ready_for_pairing_once_witness:
  "\<exists>s0. deviceServiceDeviceDescriptorsInit example_dh_env example_handler = Some s0 \<and>
     ready_count (deviceDescriptorsUpdateAllowlist example_dh_env (Some ''http://ok'') s0) \<le> 1"
proof -
  have "deviceServiceDeviceDescriptorsInit example_dh_env example_handler \<noteq> None" by code_simp
  then obtain s0 where s0: "deviceServiceDeviceDescriptorsInit example_dh_env example_handler = Some s0" by auto
  have "(dh_step example_dh_env)\<^sup>*\<^sup>* s0 (deviceDescriptorsUpdateAllowlist example_dh_env (Some ''http://ok'') s0)"
    by (intro r_into_rtranclp update_allow)
  note ready_for_pairing_once [OF example_dh_quiet s0 this]
  moreover have "ready_count example_handler = 0" by (simp add: ready_count_def example_handler_def counting_service_def)
  ultimately show ?thesis using s0 by auto
qed

theorem dropped_denylist_not_ready_witness:
  "\<exists>s'. updateAllowlistTaskFunc example_dh_env ''http://ok'' (deviceDescriptorsUpdateDenylist example_dh_env None example_handler) = Some (True, s') \<and>
     ready_count s' = 0 \<and> \<not> isDenylistValid s'"
proof -
  have "map_option fst (updateAllowlistTaskFunc example_dh_env ''http://ok'' (deviceDescriptorsUpdateDenylist example_dh_env None example_handler)) = Some True"
    by code_simp
  then obtain s' where r: "updateAllowlistTaskFunc example_dh_env ''http://ok'' (deviceDescriptorsUpdateDenylist example_dh_env None example_handler) = Some (True, s')"
    by auto
  have "\<not> isDenylistValid example_handler" "ready_count example_handler = 0"
    by (simp_all add: ready_count_def example_handler_def counting_service_def)
  then show ?thesis using dropped_denylist_not_ready [OF example_dh_quiet _ r] r by simp
qed

theorem late_cleanup_hides_task_witness:
  "\<exists>s1. updateAllowlistTaskFunc example_dh_env ''http://ok'' example_handler = Some (True, s1) \<and>
     {''http://one'', ''http://two''} \<subseteq> lt_url ` set (dh_tasks (deviceDescriptorsUpdateAllowlist example_dh_env (Some ''http://two'')
       (destroyAllowlistTaskObjectsFunc 7 (deviceDescriptorsUpdateAllowlist example_dh_env (Some ''http://one'') s1))))"
proof -
  have "map_option (\<lambda>(r, s). (r, allowlistTaskId (deviceDescriptorsUpdateAllowlist example_dh_env (Some ''http://one'') s)))
      (updateAllowlistTaskFunc example_dh_env ''http://ok'' example_handler) = Some (True, 8)" by code_simp
  then obtain s1 where r: "updateAllowlistTaskFunc example_dh_env ''http://ok'' example_handler = Some (True, s1)"
    and n: "allowlistTaskId (deviceDescriptorsUpdateAllowlist example_dh_env (Some ''http://one'') s1) = 8" by auto
  have "example_task \<in> set (dh_tasks example_handler)" "lt_id example_task = 7" "lt_url example_task = ''http://ok''"
    "getAllowListPath (svc_descriptors (dh_service example_handler)) \<noteq> None"
    by (simp_all add: example_handler_def example_task_def counting_service_def getAllowListPath_def)
  then show ?thesis
    using late_cleanup_hides_task [of example_task example_handler example_dh_env s1 "''http://one''" "''http://two''", OF _ _ _ _ _ refl _ refl refl] r n
    by (force simp: MIN_URL_LENGTH_def)
qed

end
