(* ===== verification/Zhal_Queue.thy ===== *)
theory Zhal_Queue
  imports Barton_Externals "HOL-Library.Monad_Syntax" "HOL-Library.Sublist"
begin

text \<open>
  The requests to the Zigbee process, \<^verbatim>\<open>core/src/zhal/c/src/zhalImpl.c\<close>. A caller puts a request into the
  queue of its device and waits; a worker thread takes at most one request of each device that is not
  busy, sends it, and leaves it in a table by its id; a response that arrives later completes it. A
  request that times out is taken back from wherever it is.

  Work items and device queues are objects: an item is its position in the list of all items that were
  ever created, a queue its position in the list of queues. Each part of a function under one lock is a
  definition, and a step of \<open>zq_step\<close>. The mutex of an item is not a field: the caller holds it from
  the creation to the wait and while it handles a timeout, the worker while it works on the item, and
  the steps of others on that item are enabled only outside. A condition variable that is signalled is a
  flag; a wait ends when it is set or by a timeout.
\<close>

section \<open>JSON\<close>

text \<open>
  What the code uses of cJSON besides the operations of \<open>json_api\<close>. \<open>set_item_string\<close> is
  \<^verbatim>\<open>cJSON_SetValuestring\<close> on the item of that name.
\<close>

record 'j cjson_api = "'j json_api" +
  cJSON_valueint :: "'j \<Rightarrow> int"
  cJSON_IsNumber :: "'j option \<Rightarrow> bool"
  cJSON_IsString :: "'j option \<Rightarrow> bool"
  cJSON_IsBool :: "'j option \<Rightarrow> bool"
  cJSON_IsTrue :: "'j option \<Rightarrow> bool"
  cJSON_CreateArray :: 'j
  cJSON_AddItemToArray :: "'j \<Rightarrow> 'j \<Rightarrow> 'j"
  cJSON_DeleteItemFromObject :: "'j \<Rightarrow> string \<Rightarrow> 'j"
  set_item_string :: "'j \<Rightarrow> string \<Rightarrow> string \<Rightarrow> 'j"
  cJSON_PrintUnformatted :: "'j \<Rightarrow> string"

section \<open>State\<close>

definition INT32_MAX :: u32 where "INT32_MAX = 0x7FFFFFFF"
definition ZHAL_STATUS_FAIL :: int where "ZHAL_STATUS_FAIL = -1"

record DeviceQueue =
  dq_queue :: "nat list"
  isBusy :: int

text \<open>
  Where the caller is: before the push; waiting; between the two parts of a timeout, with whether the
  request was in the table; back with its result.
\<close>

datatype 'j caller = Queuing | Waiting | Dropped bool | Returned "'j option"

record 'j WorkItem =
  wi_eui64 :: u64
  wi_requestId :: u32
  wi_request :: 'j
  wi_response :: "'j option"
  wi_deviceQueue :: nat
  wi_timedOut :: bool
  wi_signaled :: bool
  wi_caller :: "'j caller"

text \<open>
  Where the worker is with its first item: about to take it, after it is in the table, after the queue is
  busy, and after a failed transmission, with whether it was still in the table.
\<close>

datatype stage = Take | Stored | Transmit | Aborted bool

text \<open>
  \<open>queuesLocked\<close>: a thread has gone and left \<^verbatim>\<open>deviceQueuesMutex\<close> locked. \<open>zq_entering\<close> are the callers that
  have seen that the layer is initialised and have no item yet. \<open>zq_handlers\<close> are the threads that
  have taken a request out of the table for its response; the flag tells whether the device is free
  again. \<open>zq_pushed\<close> and \<open>zq_sent\<close> record the items that were queued and transmitted, \<open>zq_answers\<close> the calls
  of the response handler.
\<close>

record 'j zhal =
  zq_initialized :: bool
  deviceQueues :: "(u64, nat) hmap option"
  queuesLocked :: bool
  requestId :: u32
  asyncRequests :: "(u32, nat) hmap option"
  workerShutdown :: bool
  responseHandler :: bool
  zq_entering :: "(u64 \<times> 'j option) list"
  zq_queues :: "DeviceQueue list"
  zq_items :: "'j WorkItem list"
  zq_handlers :: "(nat \<times> 'j \<times> bool) list"
  zq_work :: "nat list"
  zq_stage :: stage
  zq_pending :: "nat list"
  zq_pushed :: "nat list"
  zq_sent :: "nat list"
  zq_answers :: "(string \<times> int) list"

definition upd_item :: "nat \<Rightarrow> ('j WorkItem \<Rightarrow> 'j WorkItem) \<Rightarrow> 'j zhal \<Rightarrow> 'j zhal" where
  "upd_item i f s = s\<lparr>zq_items := (zq_items s)[i := f (zq_items s ! i)]\<rparr>"

definition upd_queue :: "nat \<Rightarrow> (DeviceQueue \<Rightarrow> DeviceQueue) \<Rightarrow> 'j zhal \<Rightarrow> 'j zhal" where
  "upd_queue q f s = s\<lparr>zq_queues := (zq_queues s)[q := f (zq_queues s ! q)]\<rparr>"

section \<open>Start\<close>

definition zhalInit :: "bool \<Rightarrow> 'j zhal \<Rightarrow> 'j zhal" where
  "zhalInit handler s = s\<lparr>zq_initialized := True, deviceQueues := Some [], asyncRequests := Some [],
     workerShutdown := False, responseHandler := handler\<rparr>"

section \<open>A request\<close>

text \<open>The ids are kept in the range of a signed number.\<close>

definition getNextRequestId :: "'j zhal \<Rightarrow> u32 \<times> 'j zhal" where
  "getNextRequestId s = (requestId s, s\<lparr>requestId := (if requestId s + 1 > INT32_MAX then 0 else requestId s + 1)\<rparr>)"

definition createDeviceQueue :: DeviceQueue where
  "createDeviceQueue = \<lparr>dq_queue = [], isBusy = 0\<rparr>"

text \<open>The allocation of an item does not fail.\<close>

definition createItem :: "'j cjson_api \<Rightarrow> u64 \<Rightarrow> 'j option \<Rightarrow> nat \<Rightarrow> 'j zhal \<Rightarrow> nat option \<times> 'j zhal" where
  "createItem J targetEui64 requestJson deviceQueue s =
     (case requestJson of None \<Rightarrow> (None, s)
      | Some req \<Rightarrow> (case getNextRequestId s of (rid, s1) \<Rightarrow>
          (Some (length (zq_items s)), s1\<lparr>zq_items := zq_items s1 @ [\<lparr>wi_eui64 = targetEui64, wi_requestId = rid,
             wi_request = cJSON_AddNumberToObject J req ''requestId'' (uint rid), wi_response = None,
             wi_deviceQueue = deviceQueue, wi_timedOut = False, wi_signaled = False, wi_caller = Queuing\<rparr>]\<rparr>)))"

text \<open>
  The first parts of \<^verbatim>\<open>zhalSendRequest\<close>: the test whether the layer is initialised; then the queue of the
  device, which is made when there is none. After a shutdown it returns with the mutex still locked.
\<close>

definition send_check :: "u64 \<Rightarrow> 'j option \<Rightarrow> 'j zhal \<Rightarrow> 'j zhal" where
  "send_check targetEui64 requestJson s =
     (if zq_initialized s then s\<lparr>zq_entering := zq_entering s @ [(targetEui64, requestJson)]\<rparr> else s)"

definition send_lookup :: "u64 \<Rightarrow> 'j zhal \<Rightarrow> nat option \<times> 'j zhal" where
  "send_lookup targetEui64 s =
     (case deviceQueues s of None \<Rightarrow> (None, s\<lparr>queuesLocked := True\<rparr>)
      | Some m \<Rightarrow> (case hashMapGet m targetEui64 of Some q \<Rightarrow> (Some q, s)
          | None \<Rightarrow> (Some (length (zq_queues s)), s\<lparr>zq_queues := zq_queues s @ [createDeviceQueue],
              deviceQueues := Some (snd (hashMapPut m targetEui64 (length (zq_queues s))))\<rparr>)))"

definition send_begin :: "'j cjson_api \<Rightarrow> nat \<Rightarrow> 'j zhal \<Rightarrow> nat option \<times> 'j zhal" where
  "send_begin J n s =
     (case zq_entering s ! n of (targetEui64, requestJson) \<Rightarrow>
        let s0 = s\<lparr>zq_entering := take n (zq_entering s) @ drop (Suc n) (zq_entering s)\<rparr>
        in case send_lookup targetEui64 s0 of (None, s1) \<Rightarrow> (None, s1)
           | (Some q, s1) \<Rightarrow> createItem J targetEui64 requestJson q s1)"

definition send_push :: "nat \<Rightarrow> 'j zhal \<Rightarrow> 'j zhal" where
  "send_push i s = (upd_item i (\<lambda>w. w\<lparr>wi_caller := Waiting\<rparr>)
     (upd_queue (wi_deviceQueue (zq_items s ! i)) (\<lambda>q. q\<lparr>dq_queue := dq_queue q @ [i]\<rparr>) s))\<lparr>zq_pushed := zq_pushed s @ [i]\<rparr>"

text \<open>After a timeout: the request is taken out of the table, then out of the queue of its device.\<close>

definition send_timeout_table :: "nat \<Rightarrow> 'j zhal \<Rightarrow> 'j zhal" where
  "send_timeout_table i s =
     (case asyncRequests s of None \<Rightarrow> upd_item i (\<lambda>w. w\<lparr>wi_caller := Dropped False\<rparr>) s
      | Some m \<Rightarrow> (case hashMapDelete m (wi_requestId (zq_items s ! i)) of (didDelete, m') \<Rightarrow>
          upd_item i (\<lambda>w. w\<lparr>wi_caller := Dropped didDelete\<rparr>) (s\<lparr>asyncRequests := Some m'\<rparr>)))"

definition send_timeout_queue :: "nat \<Rightarrow> bool \<Rightarrow> 'j zhal \<Rightarrow> 'j zhal" where
  "send_timeout_queue i didDeleteFromAsyncRequests s =
     (let w = zq_items s ! i; q = wi_deviceQueue w;
          (didDeleteFromQueue, is) = linkedListDelete (\<lambda>x. x = i) (dq_queue (zq_queues s ! q))
      in upd_item i (\<lambda>w. w\<lparr>wi_timedOut := (wi_timedOut w \<or> \<not> didDeleteFromAsyncRequests \<and> \<not> didDeleteFromQueue),
             wi_caller := Returned None\<rparr>)
           (upd_queue q (\<lambda>d. d\<lparr>dq_queue := is, isBusy := (if didDeleteFromAsyncRequests then isBusy d - 1 else isBusy d)\<rparr>) s))"

text \<open>The response, and the call of the response handler.\<close>

definition report_response :: "'j cjson_api \<Rightarrow> 'j \<Rightarrow> 'j zhal \<Rightarrow> 'j zhal" where
  "report_response J result s =
     (let resultCode = cJSON_GetObjectItem J result ''resultCode'';
          code = (if cJSON_IsNumber J resultCode then (case resultCode of None \<Rightarrow> ZHAL_STATUS_FAIL | Some c \<Rightarrow> cJSON_valueint J c) else ZHAL_STATUS_FAIL);
          responseType = cJSON_GetObjectItem J result ''responseType''
      in case (cJSON_IsString J responseType, Option.bind responseType (cJSON_valuestring J)) of
           (True, Some type) \<Rightarrow> s\<lparr>zq_answers := zq_answers s @ [(type, code)]\<rparr>
         | _ \<Rightarrow> s)"

definition send_finish :: "'j cjson_api \<Rightarrow> nat \<Rightarrow> 'j zhal \<Rightarrow> 'j zhal" where
  "send_finish J i s =
     (let result = wi_response (zq_items s ! i);
          s1 = upd_item i (\<lambda>w. w\<lparr>wi_response := None, wi_caller := Returned result\<rparr>) s
      in case result of None \<Rightarrow> s1 | Some r \<Rightarrow> if responseHandler s then report_response J r s1 else s1)"

section \<open>The worker\<close>

text \<open>At most one item of each queue that is not busy.\<close>

fun take_work :: "nat list \<Rightarrow> DeviceQueue list \<Rightarrow> nat list \<times> DeviceQueue list" where
  "take_work [] qs = ([], qs)"
| "take_work (q # ps) qs =
     (case dq_queue (qs ! q) of [] \<Rightarrow> take_work ps qs
      | i # is \<Rightarrow> if isBusy (qs ! q) = 0 then map_prod ((#) i) id (take_work ps (qs[q := (qs ! q)\<lparr>dq_queue := is\<rparr>]))
          else take_work ps qs)"

definition getAvailableWork :: "'j zhal \<Rightarrow> 'j zhal" where
  "getAvailableWork s =
     (case deviceQueues s of None \<Rightarrow> s
      | Some m \<Rightarrow> (case take_work (map snd m) (zq_queues s) of (is, qs) \<Rightarrow>
          s\<lparr>zq_work := zq_work s @ is, zq_queues := qs, zq_stage := Take\<rparr>))"

text \<open>
  The transmission. \<open>xmit_io\<close> is what the socket does: whether it can be opened, connected and written, the
  length it reads, and the reply. The length of the payload is sent as 16 bits. The reply is read up
  to its first NUL.
\<close>

record xmit_io =
  io_socket :: bool
  io_connect :: bool
  io_send_length :: bool
  io_send_payload :: bool
  io_recv_length :: "u16 option"
  io_recv :: cstr

definition xmit_payload :: "'j cjson_api \<Rightarrow> 'j WorkItem \<Rightarrow> u16 \<times> string" where
  "xmit_payload J item =
     (let payload = cJSON_PrintUnformatted J (wi_request item); payloadLen = (of_nat (length payload) :: u16)
      in (payloadLen, take (unat payloadLen) payload))"

definition xmit :: "'j cjson_api \<Rightarrow> xmit_io \<Rightarrow> bool" where
  "xmit J io =
     (if io_socket io \<and> io_connect io \<and> io_send_length io \<and> io_send_payload io
      then (case (io_recv_length io, io_recv io) of
          (Some msgLen, Some reply) \<Rightarrow>
            if length reply \<noteq> unat msgLen then False
            else (case cJSON_Parse J (Some (takeWhile (\<lambda>c. of_char c \<noteq> (0 :: nat)) reply)) of None \<Rightarrow> False
              | Some response \<Rightarrow> (case cJSON_GetObjectItem J response ''resultCode'' of None \<Rightarrow> False
                  | Some c \<Rightarrow> cJSON_valueint J c = 0))
        | _ \<Rightarrow> False)
      else False)"

text \<open>The parts of \<^verbatim>\<open>workOnItem\<close> on the first item. The result of \<^verbatim>\<open>hashMapPut\<close> is not looked at.\<close>

definition next_item :: "'j zhal \<Rightarrow> 'j zhal" where
  "next_item s = s\<lparr>zq_work := tl (zq_work s), zq_stage := Take\<rparr>"

definition work_take :: "'j zhal \<Rightarrow> 'j zhal" where
  "work_take s =
     (let i = hd (zq_work s); w = zq_items s ! i
      in if wi_timedOut w then next_item s
         else s\<lparr>asyncRequests := map_option (\<lambda>m. snd (hashMapPut m (wi_requestId w) i)) (asyncRequests s), zq_stage := Stored\<rparr>)"

definition work_busy :: "'j zhal \<Rightarrow> 'j zhal" where
  "work_busy s =
     (upd_queue (wi_deviceQueue (zq_items s ! hd (zq_work s))) (\<lambda>q. q\<lparr>isBusy := isBusy q + 1\<rparr>) s)\<lparr>zq_stage := Transmit\<rparr>"

definition work_transmit :: "bool \<Rightarrow> 'j zhal \<Rightarrow> 'j zhal" where
  "work_transmit ok s =
     (let i = hd (zq_work s); s1 = s\<lparr>zq_sent := zq_sent s @ [i]\<rparr>
      in if ok then next_item s1
         else (case asyncRequests s of None \<Rightarrow> s1\<lparr>zq_stage := Aborted False\<rparr>
           | Some m \<Rightarrow> (case hashMapDelete m (wi_requestId (zq_items s ! i)) of (didDelete, m') \<Rightarrow>
               s1\<lparr>asyncRequests := Some m', zq_stage := Aborted didDelete\<rparr>)))"

text \<open>The device is free again, unless it is so already.\<close>

definition clear_busy :: "nat \<Rightarrow> 'j zhal \<Rightarrow> 'j zhal" where
  "clear_busy i = (\<lambda>s. upd_queue (wi_deviceQueue (zq_items s ! i)) (\<lambda>q. q\<lparr>isBusy := (if isBusy q > 0 then isBusy q - 1 else isBusy q)\<rparr>) s)"

definition signal_item :: "nat \<Rightarrow> 'j zhal \<Rightarrow> 'j zhal" where
  "signal_item i = upd_item i (\<lambda>w. w\<lparr>wi_signaled := True\<rparr>)"

definition work_abort :: "bool \<Rightarrow> 'j zhal \<Rightarrow> 'j zhal" where
  "work_abort didDelete s =
     (let i = hd (zq_work s) in next_item (signal_item i (if didDelete then clear_busy i s else s)))"

section \<open>Responses\<close>

text \<open>What is logged of a response: the network key of a system status is blotted out.\<close>

definition logResponse :: "'j cjson_api \<Rightarrow> util_api \<Rightarrow> 'j \<Rightarrow> string" where
  "logResponse J U response =
     (case cJSON_GetObjectItem J response ''ipcResponseType'' of
        Some t \<Rightarrow> if stringCompare U (cJSON_valuestring J t) (Some ''getSystemStatusResponse'') False = 0
          then cJSON_PrintUnformatted J (case cJSON_GetObjectItem J response ''networkKey'' of None \<Rightarrow> response
            | Some _ \<Rightarrow> set_item_string J response ''networkKey'' ''<REDACTED>'')
          else cJSON_PrintUnformatted J response
      | None \<Rightarrow> cJSON_PrintUnformatted J response)"

text \<open>
  The parts of \<^verbatim>\<open>handleIpcResponse\<close>: the request is taken out of the table, its device is free, the caller
  gets the response.
\<close>

definition response_id :: "'j cjson_api \<Rightarrow> 'j \<Rightarrow> u32 option" where
  "response_id J response = map_option (\<lambda>r. word_of_int (cJSON_valueint J r)) (cJSON_GetObjectItem J response ''requestId'')"

definition response_found :: "'j cjson_api \<Rightarrow> 'j \<Rightarrow> 'j zhal \<Rightarrow> 'j zhal" where
  "response_found J response s =
     (case (response_id J response, asyncRequests s) of
        (Some rid, Some m) \<Rightarrow> (case hashMapGet m rid of None \<Rightarrow> s
          | Some i \<Rightarrow> s\<lparr>asyncRequests := Some (snd (hashMapDelete m rid)), zq_handlers := zq_handlers s @ [(i, response, False)]\<rparr>)
      | _ \<Rightarrow> s)"

definition response_clear :: "nat \<Rightarrow> 'j zhal \<Rightarrow> 'j zhal" where
  "response_clear n s =
     (case zq_handlers s ! n of (i, r, _) \<Rightarrow> (clear_busy i s)\<lparr>zq_handlers := (zq_handlers s)[n := (i, r, True)]\<rparr>)"

definition response_deliver :: "nat \<Rightarrow> 'j zhal \<Rightarrow> 'j zhal" where
  "response_deliver n s =
     (case zq_handlers s ! n of (i, r, _) \<Rightarrow>
        (upd_item i (\<lambda>w. w\<lparr>wi_response := Some r, wi_signaled := True\<rparr>) s)\<lparr>zq_handlers := take n (zq_handlers s) @ drop (Suc n) (zq_handlers s)\<rparr>)"

section \<open>End\<close>

text \<open>
  \<^verbatim>\<open>zhalTerm\<close>: no further requests; the worker ends; then everything that is pending, in the table and in the
  queues, is collected, and its callers are woken.
\<close>

definition term_stop :: "'j zhal \<Rightarrow> 'j zhal" where
  "term_stop s = s\<lparr>zq_initialized := False, workerShutdown := True\<rparr>"

definition term_drain_table :: "'j zhal \<Rightarrow> 'j zhal" where
  "term_drain_table s = s\<lparr>asyncRequests := None, zq_pending := (case asyncRequests s of None \<Rightarrow> [] | Some m \<Rightarrow> map snd m)\<rparr>"

definition term_drain_queues :: "'j zhal \<Rightarrow> 'j zhal" where
  "term_drain_queues s = s\<lparr>deviceQueues := None,
     zq_pending := zq_pending s @ (case deviceQueues s of None \<Rightarrow> [] | Some m \<Rightarrow> concat (map (\<lambda>(_, q). dq_queue (zq_queues s ! q)) m))\<rparr>"

definition term_signal :: "'j zhal \<Rightarrow> 'j zhal" where
  "term_signal s = (case zq_pending s of [] \<Rightarrow> s | i # is \<Rightarrow> signal_item i (s\<lparr>zq_pending := is\<rparr>))"

section \<open>Interleavings\<close>

text \<open>
  The worker holds the mutex of its first item from the moment it takes it; the caller holds the mutex of
  its item before the wait and while it handles a timeout.
\<close>

definition worker_holds :: "nat \<Rightarrow> 'j zhal \<Rightarrow> bool" where
  "worker_holds i s \<longleftrightarrow> zq_stage s \<noteq> Take \<and> zq_work s \<noteq> [] \<and> hd (zq_work s) = i"

definition caller_holds :: "nat \<Rightarrow> 'j zhal \<Rightarrow> bool" where
  "caller_holds i s \<longleftrightarrow> wi_caller (zq_items s ! i) = Queuing \<or> (\<exists>d. wi_caller (zq_items s ! i) = Dropped d)"

text \<open>
  A response that comes before its request is transmitted, when the id is in the table and the device is
  not yet busy, is excluded unless \<open>early\<close> is set. \<^verbatim>\<open>zhalInit\<close> is called once before each \<^verbatim>\<open>zhalTerm\<close>.
\<close>

definition not_sent_yet :: "'j cjson_api \<Rightarrow> 'j \<Rightarrow> 'j zhal \<Rightarrow> bool" where
  "not_sent_yet J r s \<longleftrightarrow> zq_stage s = Stored \<and> zq_work s \<noteq> [] \<and> response_id J r = Some (wi_requestId (zq_items s ! hd (zq_work s)))"

inductive zq_step :: "'j cjson_api \<Rightarrow> bool \<Rightarrow> 'j zhal \<Rightarrow> 'j zhal \<Rightarrow> bool" for J early where
  start: "asyncRequests s = None \<Longrightarrow> deviceQueues s = None \<Longrightarrow> \<not> queuesLocked s \<Longrightarrow> zq_work s = [] \<Longrightarrow> zq_step J early s (zhalInit h s)"
| entered: "zq_step J early s (send_check e j s)"
| send: "n < length (zq_entering s) \<Longrightarrow> \<not> queuesLocked s \<Longrightarrow> zq_step J early s (snd (send_begin J n s))"
| push: "i < length (zq_items s) \<Longrightarrow> wi_caller (zq_items s ! i) = Queuing \<Longrightarrow> zq_step J early s (send_push i s)"
| timeout: "i < length (zq_items s) \<Longrightarrow> wi_caller (zq_items s ! i) = Waiting \<Longrightarrow> \<not> worker_holds i s \<Longrightarrow>
    zq_step J early s (send_timeout_table i s)"
| timed_out: "i < length (zq_items s) \<Longrightarrow> wi_caller (zq_items s ! i) = Dropped d \<Longrightarrow> zq_step J early s (send_timeout_queue i d s)"
| answered: "i < length (zq_items s) \<Longrightarrow> wi_caller (zq_items s ! i) = Waiting \<Longrightarrow> wi_signaled (zq_items s ! i) \<Longrightarrow> \<not> worker_holds i s \<Longrightarrow>
    zq_step J early s (send_finish J i s)"
| collect: "zq_work s = [] \<Longrightarrow> \<not> workerShutdown s \<Longrightarrow> \<not> queuesLocked s \<Longrightarrow> zq_step J early s (getAvailableWork s)"
| item_taken: "zq_work s \<noteq> [] \<Longrightarrow> zq_stage s = Take \<Longrightarrow> \<not> caller_holds (hd (zq_work s)) s \<Longrightarrow> zq_step J early s (work_take s)"
| made_busy: "zq_work s \<noteq> [] \<Longrightarrow> zq_stage s = Stored \<Longrightarrow> zq_step J early s (work_busy s)"
| transmitted: "zq_work s \<noteq> [] \<Longrightarrow> zq_stage s = Transmit \<Longrightarrow> zq_step J early s (work_transmit (xmit J io) s)"
| given_up: "zq_work s \<noteq> [] \<Longrightarrow> zq_stage s = Aborted d \<Longrightarrow> zq_step J early s (work_abort d s)"
| response: "early \<or> \<not> not_sent_yet J r s \<Longrightarrow> zq_step J early s (response_found J r s)"
| cleared: "n < length (zq_handlers s) \<Longrightarrow> zq_handlers s ! n = (i, r, False) \<Longrightarrow> zq_step J early s (response_clear n s)"
| delivered: "n < length (zq_handlers s) \<Longrightarrow> zq_handlers s ! n = (i, r, True) \<Longrightarrow> \<not> worker_holds i s \<Longrightarrow> \<not> caller_holds i s \<Longrightarrow>
    zq_step J early s (response_deliver n s)"
| stop: "zq_initialized s \<Longrightarrow> zq_step J early s (term_stop s)"
| drain_table: "workerShutdown s \<Longrightarrow> zq_work s = [] \<Longrightarrow> asyncRequests s \<noteq> None \<Longrightarrow> zq_step J early s (term_drain_table s)"
| drain_queues: "asyncRequests s = None \<Longrightarrow> \<not> queuesLocked s \<Longrightarrow> zq_step J early s (term_drain_queues s)"
| woken: "zq_pending s = i # is \<Longrightarrow> \<not> worker_holds i s \<Longrightarrow> \<not> caller_holds i s \<Longrightarrow> zq_step J early s (term_signal s)"

definition zq_start :: "'j zhal" where
  "zq_start = \<lparr>zq_initialized = False, deviceQueues = None, queuesLocked = False, requestId = 0, asyncRequests = None,
     workerShutdown = True, responseHandler = False, zq_entering = [], zq_queues = [], zq_items = [], zq_handlers = [], zq_work = [],
     zq_stage = Take, zq_pending = [], zq_pushed = [], zq_sent = [], zq_answers = []\<rparr>"

section \<open>Taking work\<close>

text \<open>A pass takes the first item of each queue of the list that is not busy, and no more.\<close>

definition taken_from :: "(nat \<Rightarrow> nat) \<Rightarrow> nat list \<Rightarrow> DeviceQueue list \<Rightarrow> nat list \<Rightarrow> DeviceQueue list \<Rightarrow> bool" where
  "taken_from f ps qs is qs' \<longleftrightarrow> length qs' = length qs \<and> (\<forall>q < length qs. isBusy (qs' ! q) = isBusy (qs ! q) \<and>
     filter (\<lambda>i. f i = q) is @ dq_queue (qs' ! q) = dq_queue (qs ! q) \<and>
     length (filter (\<lambda>i. f i = q) is) = (if q \<in> set ps \<and> isBusy (qs ! q) = 0 \<and> dq_queue (qs ! q) \<noteq> [] then 1 else 0)) \<and>
     set is \<subseteq> (\<Union>p \<in> set ps. set (dq_queue (qs ! p))) \<and> set (map f is) \<subseteq> set ps \<and> distinct (map f is)"

lemma take_work_spec:
  assumes "take_work ps qs = (is, qs')" "distinct ps" "\<forall>p \<in> set ps. p < length qs"
    and "\<forall>q < length qs. \<forall>i \<in> set (dq_queue (qs ! q)). f i = q"
  shows "taken_from f ps qs is qs'"
  using assms
proof (induction ps arbitrary: qs "is")
  case Nil
  then show ?case by (simp add: taken_from_def)
next
  case (Cons p ps)
  consider "dq_queue (qs ! p) = [] \<or> isBusy (qs ! p) \<noteq> 0" "take_work ps qs = (is, qs')"
    | i "is'" js where "dq_queue (qs ! p) = i # is'" "isBusy (qs ! p) = 0" "is = i # js" "take_work ps (qs[p := (qs ! p)\<lparr>dq_queue := is'\<rparr>]) = (js, qs')"
    using Cons.prems(1) by (auto simp: map_prod_def split: list.splits if_splits prod.splits)
  then show ?case
  proof cases
    case 1
    then have "taken_from f ps qs is qs'" using Cons.IH [OF 1(2)] Cons.prems by auto
    then show ?thesis using 1(1) Cons.prems(2) by (auto simp: taken_from_def)
  next
    case 2
    let ?qs = "qs[p := (qs ! p)\<lparr>dq_queue := is'\<rparr>]"
    have ps: "distinct ps" "\<forall>p \<in> set ps. p < length ?qs" "p \<notin> set ps" "p < length qs" using Cons.prems(2,3) by auto
    have own: "\<forall>q < length ?qs. \<forall>i \<in> set (dq_queue (?qs ! q)). f i = q"
      using Cons.prems(4) 2(1) ps(4) by (auto simp: nth_list_update)
    have IH: "taken_from f ps ?qs js qs'" by (rule Cons.IH [OF 2(4) ps(1,2) own])
    have i: "f i = p" using Cons.prems(4) 2(1) ps(4) by auto
    have not_p: "p \<notin> set (map f js)" using IH ps(3) by (auto simp: taken_from_def)
    then have none: "filter (\<lambda>i. f i = p) js = []" by (auto simp: filter_empty_conv)
    have "?qs ! x = qs ! x" if "x \<in> set ps" for x using ps(3) that by (metis nth_list_update_neq)
    then have "(\<Union>p \<in> set ps. set (dq_queue (?qs ! p))) = (\<Union>p \<in> set ps. set (dq_queue (qs ! p)))" by simp
    then have "set js \<subseteq> (\<Union>p \<in> set ps. set (dq_queue (qs ! p)))" using IH by (simp add: taken_from_def)
    moreover have "isBusy (qs' ! q) = isBusy (qs ! q) \<and> filter (\<lambda>i. f i = q) is @ dq_queue (qs' ! q) = dq_queue (qs ! q) \<and>
       length (filter (\<lambda>i. f i = q) is) = (if q \<in> set (p # ps) \<and> isBusy (qs ! q) = 0 \<and> dq_queue (qs ! q) \<noteq> [] then 1 else 0)"
      if q: "q < length qs" for q
    proof (cases "q = p")
      case True
      have "isBusy (qs' ! p) = isBusy (?qs ! p)" "filter (\<lambda>i. f i = p) js @ dq_queue (qs' ! p) = dq_queue (?qs ! p)"
        using IH ps(4) by (auto simp: taken_from_def)
      then show ?thesis using True 2(1,2) i none ps(4) by (simp add: 2(3))
    next
      case False
      have "isBusy (qs' ! q) = isBusy (?qs ! q)" "filter (\<lambda>i. f i = q) js @ dq_queue (qs' ! q) = dq_queue (?qs ! q)"
        "length (filter (\<lambda>i. f i = q) js) = (if q \<in> set ps \<and> isBusy (?qs ! q) = 0 \<and> dq_queue (?qs ! q) \<noteq> [] then 1 else 0)"
        using IH q by (auto simp: taken_from_def)
      then show ?thesis using False i by (simp add: 2(3))
    qed
    ultimately show ?thesis using IH 2(1) i not_p by (auto simp: taken_from_def 2(3))
  qed
qed

section \<open>The invariant\<close>

definition qof :: "'j zhal \<Rightarrow> nat \<Rightarrow> nat" where
  "qof s i = wi_deviceQueue (zq_items s ! i)"

definition table :: "'j zhal \<Rightarrow> (u32, nat) hmap" where
  "table s = (case asyncRequests s of None \<Rightarrow> [] | Some m \<Rightarrow> m)"

definition live :: "'j zhal \<Rightarrow> nat list" where
  "live s = (case deviceQueues s of None \<Rightarrow> [] | Some m \<Rightarrow> map snd m)"

text \<open>The items the worker has taken and not yet put into the table, and those that do not count as busy yet.\<close>

definition todo :: "'j zhal \<Rightarrow> nat list" where
  "todo s = (if zq_stage s = Take then zq_work s else tl (zq_work s))"

definition uncounted :: "'j zhal \<Rightarrow> nat list" where
  "uncounted s = (if zq_stage s = Take \<or> zq_stage s = Stored then zq_work s else tl (zq_work s))"

text \<open>
  What makes a device busy: a request in the table; one that a response, a timeout or the worker has taken
  out, until the count is corrected; less the one that is in the table before the count is raised.
\<close>

definition tokens :: "'j zhal \<Rightarrow> nat \<Rightarrow> int" where
  "tokens s q = int (length (filter (\<lambda>(r, i). qof s i = q) (table s))) +
     int (length (filter (\<lambda>(i, r, c). \<not> c \<and> qof s i = q) (zq_handlers s))) +
     int (length (filter (\<lambda>w. wi_caller w = Dropped True \<and> wi_deviceQueue w = q) (zq_items s))) +
     (if zq_stage s = Aborted True \<and> zq_work s \<noteq> [] \<and> qof s (hd (zq_work s)) = q then 1 else 0) -
     (if zq_stage s = Stored \<and> zq_work s \<noteq> [] \<and> qof s (hd (zq_work s)) = q then 1 else 0)"

text \<open>Ids are the positions of the items, as long as there are at most \<open>2 ^ 31\<close>.\<close>

definition ids_ok :: "'j zhal \<Rightarrow> bool" where
  "ids_ok s \<longleftrightarrow> requestId s = of_nat (length (zq_items s) mod 2 ^ 31) \<and>
     (\<forall>i < length (zq_items s). wi_requestId (zq_items s ! i) = of_nat i \<and> wi_deviceQueue (zq_items s ! i) < length (zq_queues s))"

text \<open>An item is in one place at a time: in a queue, with the worker or in the table.\<close>

definition placed :: "'j zhal \<Rightarrow> nat \<Rightarrow> bool" where
  "placed s i \<longleftrightarrow> i < length (zq_items s) \<and> wi_caller (zq_items s ! i) \<noteq> Queuing"

abbreviation tabled :: "'j zhal \<Rightarrow> nat set" where
  "tabled s \<equiv> snd ` set (table s)"

definition queues_ok :: "'j zhal \<Rightarrow> bool" where
  "queues_ok s \<longleftrightarrow> (\<forall>q < length (zq_queues s). distinct (dq_queue (zq_queues s ! q)) \<and>
     (\<forall>i \<in> set (dq_queue (zq_queues s ! q)). placed s i \<and> qof s i = q \<and> i \<notin> set (zq_work s) \<and> i \<notin> tabled s))"

definition work_ok :: "'j zhal \<Rightarrow> bool" where
  "work_ok s \<longleftrightarrow> distinct (zq_work s) \<and> (\<forall>i \<in> set (zq_work s). placed s i) \<and> (\<forall>i \<in> set (todo s). i \<notin> tabled s) \<and>
     (zq_stage s \<noteq> Take \<longrightarrow> zq_work s \<noteq> []) \<and> (zq_stage s = Stored \<longrightarrow> hd (zq_work s) \<in> tabled s)"

definition table_ok :: "'j zhal \<Rightarrow> bool" where
  "table_ok s \<longleftrightarrow> hmap_ok (table s) \<and> (\<forall>(r, i) \<in> set (table s). placed s i \<and> r = of_nat i) \<and>
     (\<forall>(i, r, c) \<in> set (zq_handlers s). i < length (zq_items s))"

definition live_ok :: "'j zhal \<Rightarrow> bool" where
  "live_ok s \<longleftrightarrow> distinct (live s) \<and> (\<forall>q \<in> set (live s). q < length (zq_queues s)) \<and>
     (asyncRequests s = None \<longrightarrow> zq_work s = [] \<and> workerShutdown s)"

definition places_ok :: "'j zhal \<Rightarrow> bool" where
  "places_ok s \<longleftrightarrow> queues_ok s \<and> work_ok s \<and> table_ok s \<and> live_ok s"

lemmas places_defs = places_ok_def queues_ok_def work_ok_def table_ok_def live_ok_def

definition busy_ok :: "'j zhal \<Rightarrow> bool" where
  "busy_ok s \<longleftrightarrow> (asyncRequests s \<noteq> None \<longrightarrow> (\<forall>q \<in> set (live s). isBusy (zq_queues s ! q) = tokens s q \<and>
     int (length (filter (\<lambda>i. qof s i = q) (uncounted s))) + tokens s q \<le> 1))"

definition zq_inv :: "'j zhal \<Rightarrow> bool" where
  "zq_inv s \<longleftrightarrow> (length (zq_items s) \<le> 2 ^ 31 \<longrightarrow> ids_ok s \<and> places_ok s \<and> busy_ok s)"

lemma filter_split:
  "n < length xs \<Longrightarrow> length (filter P xs) = length (filter P (take n xs)) + (if P (xs ! n) then 1 else 0) + length (filter P (drop (Suc n) xs))"
  by (subst id_take_nth_drop [of n xs]) (simp_all del: append_take_drop_id)

lemma filter_update_length:
  "n < length xs \<Longrightarrow> int (length (filter P (xs[n := y]))) = int (length (filter P xs)) - (if P (xs ! n) then 1 else 0) + (if P y then 1 else 0)"
  using filter_split [of n xs P] by (simp add: upd_conv_take_nth_drop)

lemma filter_drop_length:
  "n < length xs \<Longrightarrow> int (length (filter P (take n xs @ drop (Suc n) xs))) = int (length (filter P xs)) - (if P (xs ! n) then 1 else 0)"
  using filter_split [of n xs P] by simp

lemma filter_key_length:
  "hmap_ok m \<Longrightarrow> int (length (filter P (filter (\<lambda>e. fst e \<noteq> k) m))) =
     int (length (filter P m)) - (case map_of m k of None \<Rightarrow> 0 | Some v \<Rightarrow> if P (k, v) then 1 else 0)"
proof (induction m)
  case (Cons e m)
  have "filter (\<lambda>e. fst e \<noteq> k) m = m" if "k = fst e"
    using Cons.prems that by (auto simp: hmap_ok_def filter_id_conv image_iff)
  with Cons show ?case by (cases e) (auto simp: hmap_ok_def split: option.splits)
qed simp

lemma word_of_nat_inj31: "i < 2 ^ 31 \<Longrightarrow> j < 2 ^ 31 \<Longrightarrow> (of_nat i :: u32) = of_nat j \<Longrightarrow> i = j"
  by (simp add: word_of_nat_eq_iff take_bit_nat_eq_self)

text \<open>Updates of an item that leave its queue and id alone, and updates of a queue.\<close>

lemma upd_item_frame [simp]:
  "zq_queues (upd_item i f s) = zq_queues s" "table (upd_item i f s) = table s" "live (upd_item i f s) = live s"
  "zq_handlers (upd_item i f s) = zq_handlers s" "zq_work (upd_item i f s) = zq_work s" "zq_stage (upd_item i f s) = zq_stage s"
  "todo (upd_item i f s) = todo s" "uncounted (upd_item i f s) = uncounted s" "requestId (upd_item i f s) = requestId s"
  "asyncRequests (upd_item i f s) = asyncRequests s" "workerShutdown (upd_item i f s) = workerShutdown s"
  "length (zq_items (upd_item i f s)) = length (zq_items s)" "zq_pushed (upd_item i f s) = zq_pushed s" "zq_sent (upd_item i f s) = zq_sent s"
  by (simp_all add: upd_item_def table_def live_def todo_def uncounted_def)

lemma upd_queue_frame [simp]:
  "zq_items (upd_queue q f s) = zq_items s" "table (upd_queue q f s) = table s" "live (upd_queue q f s) = live s"
  "zq_handlers (upd_queue q f s) = zq_handlers s" "zq_work (upd_queue q f s) = zq_work s" "zq_stage (upd_queue q f s) = zq_stage s"
  "todo (upd_queue q f s) = todo s" "uncounted (upd_queue q f s) = uncounted s" "requestId (upd_queue q f s) = requestId s"
  "asyncRequests (upd_queue q f s) = asyncRequests s" "workerShutdown (upd_queue q f s) = workerShutdown s"
  "length (zq_queues (upd_queue q f s)) = length (zq_queues s)" "zq_pushed (upd_queue q f s) = zq_pushed s" "zq_sent (upd_queue q f s) = zq_sent s"
  by (simp_all add: upd_queue_def table_def live_def todo_def uncounted_def)

lemma nth_upd [simp]:
  "j < length (zq_items s) \<Longrightarrow> zq_items (upd_item i f s) ! j = (if i = j then f (zq_items s ! j) else zq_items s ! j)"
  "p < length (zq_queues s) \<Longrightarrow> zq_queues (upd_queue q g s) ! p = (if q = p then g (zq_queues s ! p) else zq_queues s ! p)"
  by (auto simp: upd_item_def upd_queue_def nth_list_update)

lemma qof_upd_queue [simp]: "qof (upd_queue q f s) = qof s"
  by (simp add: qof_def fun_eq_iff)

lemma qof_upd_item [simp]: "(\<And>w. wi_deviceQueue (f w) = wi_deviceQueue w) \<Longrightarrow> qof (upd_item i f s) = qof s"
proof
  fix j
  assume f: "\<And>w. wi_deviceQueue (f w) = wi_deviceQueue w"
  then show "qof (upd_item i f s) j = qof s j"
    by (cases "j < length (zq_items s)"; cases "i < length (zq_items s)") (auto simp: qof_def upd_item_def nth_list_update list_update_beyond)
qed

lemma tokens_upd_queue [simp]: "tokens (upd_queue p f s) q = tokens s q"
  by (simp add: tokens_def)

lemma tokens_upd_item:
  assumes "i < length (zq_items s)" "\<And>w. wi_deviceQueue (f w) = wi_deviceQueue w"
  shows "tokens (upd_item i f s) q = tokens s q - (if wi_caller (zq_items s ! i) = Dropped True \<and> qof s i = q then 1 else 0) +
    (if wi_caller (f (zq_items s ! i)) = Dropped True \<and> qof s i = q then 1 else 0)"
proof -
  let ?P = "\<lambda>w. wi_caller w = Dropped True \<and> wi_deviceQueue w = q"
  have "int (length (filter ?P (zq_items (upd_item i f s)))) = int (length (filter ?P (zq_items s))) - (if ?P (zq_items s ! i) then 1 else 0) +
      (if ?P (f (zq_items s ! i)) then 1 else 0)"
    by (simp add: upd_item_def filter_update_length [OF assms(1)])
  then show ?thesis using assms(2) by (simp add: tokens_def qof_def [of s i])
qed

definition core :: "'j zhal \<Rightarrow> bool" where
  "core s \<longleftrightarrow> ids_ok s \<and> places_ok s \<and> busy_ok s"

lemma zq_inv_core: "zq_inv s \<longleftrightarrow> (length (zq_items s) \<le> 2 ^ 31 \<longrightarrow> core s)"
  by (simp add: zq_inv_def core_def)

text \<open>An update of one item keeps it.\<close>

lemma placed_upd [simp]:
  "placed (upd_queue q g s) = placed s"
  "placed (upd_item i f s) j \<longleftrightarrow> (if i = j then i < length (zq_items s) \<and> wi_caller (f (zq_items s ! i)) \<noteq> Queuing else placed s j)"
  by (auto simp: placed_def fun_eq_iff)

lemma places_upd_item:
  assumes "places_ok s" "\<And>w. wi_deviceQueue (f w) = wi_deviceQueue w"
    and "placed s i \<Longrightarrow> wi_caller (f (zq_items s ! i)) \<noteq> Queuing"
  shows "places_ok (upd_item i f s)"
proof -
  have "placed s j \<Longrightarrow> placed (upd_item i f s) j" for j using assms(3) by (auto simp: placed_def)
  moreover have "qof (upd_item i f s) = qof s" using assms(2) by simp
  ultimately show ?thesis using assms(1)
    by (simp add: places_ok_def queues_ok_def work_ok_def table_ok_def live_ok_def del: placed_upd(2)) blast
qed

lemma ids_upd_item:
  assumes "ids_ok s" "\<And>w. wi_deviceQueue (f w) = wi_deviceQueue w" "\<And>w. wi_requestId (f w) = wi_requestId w"
  shows "ids_ok (upd_item i f s)"
  using assms(1) by (auto simp: ids_ok_def assms(2,3))

lemma core_upd_item:
  assumes "core s" "i < length (zq_items s)" "\<And>w. wi_deviceQueue (f w) = wi_deviceQueue w" "\<And>w. wi_requestId (f w) = wi_requestId w"
    and "placed s i \<Longrightarrow> wi_caller (f (zq_items s ! i)) \<noteq> Queuing"
    and "wi_caller (f (zq_items s ! i)) = Dropped True \<longleftrightarrow> wi_caller (zq_items s ! i) = Dropped True"
  shows "core (upd_item i f s)"
proof -
  have "tokens (upd_item i f s) q = tokens s q" for q
    using tokens_upd_item [OF assms(2,3), of q] assms(6) by simp
  then have "busy_ok (upd_item i f s)" using assms(1,3) by (simp add: busy_ok_def core_def)
  then show ?thesis using assms by (simp add: core_def ids_upd_item places_upd_item)
qed

text \<open>Fields the invariant does not look at.\<close>

lemma core_frame [simp]:
  "core (s\<lparr>zq_pushed := a\<rparr>) = core s" "core (s\<lparr>zq_sent := a\<rparr>) = core s" "core (s\<lparr>zq_pending := a\<rparr>) = core s"
  "core (s\<lparr>zq_answers := b\<rparr>) = core s" "core (s\<lparr>zq_initialized := c\<rparr>) = core s" "core (s\<lparr>queuesLocked := c\<rparr>) = core s"
  "core (s\<lparr>responseHandler := c\<rparr>) = core s" "core (s\<lparr>zq_entering := d\<rparr>) = core s"
  by (simp_all add: core_def ids_ok_def places_defs placed_def busy_ok_def tokens_def qof_def table_def live_def todo_def uncounted_def)

lemma core_signal:
  assumes "core s"
  shows "core (signal_item i s)"
proof (cases "i < length (zq_items s)")
  case True
  show ?thesis unfolding signal_item_def by (rule core_upd_item [OF assms True]) (auto simp: placed_def)
next
  case False
  then show ?thesis using assms by (simp add: signal_item_def upd_item_def list_update_beyond)
qed

lemma core_finish:
  assumes "core s" "i < length (zq_items s)" "wi_caller (zq_items s ! i) = Waiting"
  shows "core (send_finish J i s)"
proof -
  have "core (upd_item i (\<lambda>w. w\<lparr>wi_response := None, wi_caller := Returned r\<rparr>) s)" for r
    by (rule core_upd_item [OF assms(1,2)]) (use assms(3) in auto)
  then show ?thesis by (auto simp: send_finish_def report_response_def Let_def split: option.splits bool.splits)
qed

lemma core_init:
  assumes "core s" "asyncRequests s = None" "zq_work s = []"
  shows "core (zhalInit h s)"
  using assms
  by (auto simp: core_def zhalInit_def ids_ok_def places_defs placed_def busy_ok_def qof_def table_def live_def todo_def hmap_ok_def)

lemma core_push:
  assumes "core s" "i < length (zq_items s)" "wi_caller (zq_items s ! i) = Queuing"
  shows "core (send_push i s)"
proof -
  let ?t = "upd_queue (wi_deviceQueue (zq_items s ! i)) (\<lambda>q. q\<lparr>dq_queue := dq_queue q @ [i]\<rparr>) s"
  let ?f = "\<lambda>w :: 'a WorkItem. w\<lparr>wi_caller := Waiting\<rparr>"
  have "ids_ok ?t" using assms(1) by (auto simp: core_def ids_ok_def)
  then have ids: "ids_ok (upd_item i ?f ?t)" by (rule ids_upd_item) auto
  have p: "queues_ok s" "work_ok s" "table_ok s" "live_ok s" "\<not> placed s i" using assms by (auto simp: core_def places_ok_def placed_def)
  have "placed ?t j \<Longrightarrow> placed (upd_item i ?f ?t) j" "placed (upd_item i ?f ?t) i" "qof (upd_item i ?f ?t) = qof s" for j
    using assms(2) by (auto simp: placed_def)
  moreover have "i \<notin> set (zq_work s)" "i \<notin> tabled s" "\<And>q. q < length (zq_queues s) \<Longrightarrow> i \<notin> set (dq_queue (zq_queues s ! q))"
    using p by (auto simp: queues_ok_def work_ok_def table_ok_def)
  ultimately have "queues_ok (upd_item i ?f ?t)" "work_ok (upd_item i ?f ?t)" "table_ok (upd_item i ?f ?t)" "live_ok (upd_item i ?f ?t)"
    using p by (auto simp: queues_ok_def work_ok_def table_ok_def live_ok_def qof_def [of s i] simp del: placed_upd(2))
  then have "places_ok (upd_item i ?f ?t)" by (simp add: places_ok_def)
  moreover have "tokens (upd_item i ?f ?t) q = tokens s q" for q
    using assms(2,3) by (subst tokens_upd_item) auto
  then have "busy_ok (upd_item i ?f ?t)" using assms(1) p(4) by (auto simp: core_def busy_ok_def live_ok_def)
  ultimately show ?thesis using ids by (simp add: send_push_def core_def [of "upd_item i ?f ?t"])
qed

text \<open>A new item is nowhere yet; a new queue is empty.\<close>

lemma next_id:
  assumes "n < 2 ^ 31"
  shows "(if (of_nat n + 1 :: u32) > INT32_MAX then 0 else of_nat n + 1) = of_nat (Suc n mod 2 ^ 31)"
proof (cases "Suc n = 2 ^ 31")
  case True
  then have "(of_nat n + 1 :: u32) = of_nat (2 ^ 31)" by (metis of_nat_Suc add.commute)
  with True show ?thesis by (simp add: INT32_MAX_def)
next
  case False
  with assms have n: "Suc n < 2 ^ 31" by simp
  have "unat (of_nat k :: u32) = k" if "k < 2 ^ 31" for k using that by (simp add: unsigned_of_nat take_bit_nat_eq_self)
  then have "unat (of_nat (Suc n) :: u32) = Suc n" using n by blast
  moreover have "(of_nat (Suc n) :: u32) = of_nat n + 1" by simp
  ultimately have "unat (of_nat n + 1 :: u32) = Suc n" by metis
  then have "\<not> (of_nat n + 1 :: u32) > INT32_MAX" using n by (simp only: word_less_nat_alt INT32_MAX_def) simp
  with n show ?thesis by (simp add: add.commute)
qed

lemma uncounted_work: "set (uncounted s) \<subseteq> set (zq_work s)"
  by (auto simp: uncounted_def intro: list.set_sel(2))

lemma tokens_append:
  assumes "table_ok s" "work_ok s" "zq_items s' = zq_items s @ [w]" "wi_caller w = Queuing" "table s' = table s" "zq_handlers s' = zq_handlers s"
    and "zq_work s' = zq_work s" "zq_stage s' = zq_stage s"
  shows "tokens s' q = tokens s q" "filter (\<lambda>i. qof s' i = q) (uncounted s') = filter (\<lambda>i. qof s i = q) (uncounted s)"
proof -
  have old: "qof s' i = qof s i" if "i < length (zq_items s)" for i using that assms(3) by (simp add: qof_def nth_append)
  have "filter (\<lambda>(r, i). qof s' i = q) (table s) = filter (\<lambda>(r, i). qof s i = q) (table s)"
    "filter (\<lambda>(i, r, c). \<not> c \<and> qof s' i = q) (zq_handlers s) = filter (\<lambda>(i, r, c). \<not> c \<and> qof s i = q) (zq_handlers s)"
    using assms(1) by (auto simp: table_ok_def placed_def old intro!: filter_cong)
  moreover have "qof s' (hd (zq_work s)) = qof s (hd (zq_work s))" if "zq_work s \<noteq> []"
    using that assms(2) old by (auto simp: work_ok_def placed_def)
  ultimately show "tokens s' q = tokens s q" using assms(3-8) by (auto simp: tokens_def)
  have "filter (\<lambda>i. qof s' i = q) (uncounted s) = filter (\<lambda>i. qof s i = q) (uncounted s)"
    using assms(2) old uncounted_work [of s] by (intro filter_cong) (auto simp: work_ok_def placed_def)
  moreover have "uncounted s' = uncounted s" using assms(7,8) by (simp add: uncounted_def)
  ultimately show "filter (\<lambda>i. qof s' i = q) (uncounted s') = filter (\<lambda>i. qof s i = q) (uncounted s)" by simp
qed

lemma core_create:
  assumes "core s" "q < length (zq_queues s)" "length (zq_items (snd (createItem J e j q s))) \<le> 2 ^ 31"
  shows "core (snd (createItem J e j q s))"
proof (cases j)
  case None
  then show ?thesis using assms(1) by (simp add: createItem_def)
next
  case (Some req)
  define s' where "s' = snd (createItem J e j q s)"
  obtain w where w: "zq_items s' = zq_items s @ [w]" "wi_requestId w = requestId s" "wi_deviceQueue w = q" "wi_caller w = Queuing"
    "requestId s' = (if requestId s + 1 > INT32_MAX then 0 else requestId s + 1)" "table s' = table s" "zq_handlers s' = zq_handlers s"
    "zq_work s' = zq_work s" "zq_stage s' = zq_stage s" "zq_queues s' = zq_queues s" "live s' = live s" "asyncRequests s' = asyncRequests s"
    "workerShutdown s' = workerShutdown s"
    using Some by (auto simp: s'_def createItem_def getNextRequestId_def table_def live_def)
  have n: "length (zq_items s) < 2 ^ 31" using assms(3) w(1) by (simp add: s'_def [symmetric])
  have ids: "ids_ok s" and p: "queues_ok s" "work_ok s" "table_ok s" "live_ok s" using assms(1) by (auto simp: core_def places_ok_def)
  have "requestId s = of_nat (length (zq_items s))" using ids n by (simp add: ids_ok_def)
  note rid = this
  have "requestId s' = of_nat (length (zq_items s') mod 2 ^ 31)" using next_id [OF n] by (simp only: w(1,5) rid) simp
  moreover have "wi_requestId (zq_items s' ! i) = of_nat i \<and> wi_deviceQueue (zq_items s' ! i) < length (zq_queues s')"
    if "i < length (zq_items s')" for i
    using that ids w(1-3,10) rid assms(2) by (auto simp: ids_ok_def nth_append less_Suc_eq)
  ultimately have new_ids: "ids_ok s'" by (simp add: ids_ok_def)
  have placed: "placed s i \<Longrightarrow> placed s' i \<and> qof s' i = qof s i" for i using w(1) by (auto simp: placed_def nth_append qof_def)
  have todo: "todo s' = todo s" using w by (simp add: todo_def)
  have "queues_ok s'" using p(1) placed unfolding queues_ok_def w(6,8,10) by metis
  moreover have "work_ok s'" using p(2) placed unfolding work_ok_def w(6,8,9) todo by blast
  moreover have "i < length (zq_items s')" if "i < length (zq_items s)" for i using that w(1) by simp
  then have "table_ok s'" using p(3) placed unfolding table_ok_def w(6,7) by blast
  moreover have "live_ok s'" using p(4) w by (simp add: live_ok_def)
  moreover have "busy_ok s'"
    using assms(1) tokens_append [OF p(3,2) w(1,4) w(6-9)] w by (simp add: core_def busy_ok_def)
  ultimately show ?thesis using new_ids by (simp add: core_def places_ok_def s'_def)
qed

lemma core_lookup:
  assumes "core s" "send_lookup e s = (r, s')"
  shows "core s'" "\<And>q. r = Some q \<Longrightarrow> q < length (zq_queues s')" "zq_items s' = zq_items s"
proof -
  consider "r = None" "s' = s \<or> s' = s\<lparr>queuesLocked := True\<rparr>"
    | m q where "deviceQueues s = Some m" "hashMapGet m e = Some q" "r = Some q" "s' = s"
    | m where "deviceQueues s = Some m" "hashMapGet m e = None" "r = Some (length (zq_queues s))"
      "s' = s\<lparr>zq_queues := zq_queues s @ [createDeviceQueue], deviceQueues := Some (m @ [(e, length (zq_queues s))])\<rparr>"
  proof (cases "deviceQueues s \<noteq> None")
    case True
    then obtain m where m: "deviceQueues s = Some m" by auto
    show thesis
    proof (cases "hashMapGet m e")
      case None
      then show thesis using True m assms(2) that(3) [OF m]
        by (simp add: send_lookup_def hashMapPut_def hashMapContains_def hashMapGet_def)
    next
      case (Some q)
      then have "r = Some q" "s' = s" using True m assms(2) by (simp_all add: send_lookup_def)
      then show thesis using that(2) [OF m Some] by blast
    qed
  next
    case False
    then show thesis using assms(2) that(1) by (auto simp: send_lookup_def split: if_splits)
  qed
  then show "core s'" "\<And>q. r = Some q \<Longrightarrow> q < length (zq_queues s')" "zq_items s' = zq_items s"
  proof (atomize (full), cases)
    case 1
    then show "core s' \<and> (\<forall>q. r = Some q \<longrightarrow> q < length (zq_queues s')) \<and> zq_items s' = zq_items s" using assms(1) by auto
  next
    case 2
    then have "q \<in> set (live s)" by (force simp: live_def hashMapGet_def dest: map_of_SomeD)
    then show "core s' \<and> (\<forall>q. r = Some q \<longrightarrow> q < length (zq_queues s')) \<and> zq_items s' = zq_items s"
      using assms(1) 2 by (auto simp: core_def places_ok_def live_ok_def)
  next
    case 3
    have ids: "ids_ok s" and p: "queues_ok s" "work_ok s" "table_ok s" "live_ok s" using assms(1) by (auto simp: core_def places_ok_def)
    have e: "table s' = table s" "placed s' = placed s" "qof s' = qof s" "zq_work s' = zq_work s" "todo s' = todo s" "zq_stage s' = zq_stage s"
      "zq_handlers s' = zq_handlers s" "uncounted s' = uncounted s" "live s' = live s @ [length (zq_queues s)]" "tokens s' = tokens s" "zq_items s' = zq_items s"
      using 3 by (auto simp: table_def placed_def qof_def todo_def uncounted_def live_def tokens_def fun_eq_iff)
    have "ids_ok s'" using ids 3(4) by (auto simp: ids_ok_def less_Suc_eq)
    moreover have "queues_ok s'" using p(1) e 3(4) by (auto simp: queues_ok_def nth_append less_Suc_eq createDeviceQueue_def)
    moreover have "work_ok s'" "table_ok s'" using p(2,3) e by (simp_all add: work_ok_def table_ok_def)
    moreover have "live_ok s'" using p(4) 3(4) e(9) by (auto simp: live_ok_def)
    moreover have "busy_ok s'"
    proof -
      let ?n = "length (zq_queues s)"
      have other: "qof s i \<noteq> ?n" if "i < length (zq_items s)" for i using ids that by (auto simp: ids_ok_def qof_def)
      have "filter (\<lambda>(r, i). qof s i = ?n) (table s) = []" "filter (\<lambda>(i, r, c). \<not> c \<and> qof s i = ?n) (zq_handlers s) = []"
        using p(3) other by (auto simp: filter_empty_conv table_ok_def placed_def)
      moreover have "filter (\<lambda>w. wi_caller w = Dropped True \<and> wi_deviceQueue w = ?n) (zq_items s) = []"
        using ids by (fastforce simp: filter_empty_conv ids_ok_def in_set_conv_nth)
      moreover have "filter (\<lambda>i. qof s i = ?n) (uncounted s) = []"
        using p(2) other uncounted_work [of s] by (auto simp: filter_empty_conv placed_def work_ok_def)
      moreover have "qof s (hd (zq_work s)) \<noteq> ?n" if "zq_work s \<noteq> []" using that p(2) other by (auto simp: work_ok_def placed_def)
      ultimately have "tokens s ?n = 0" "filter (\<lambda>i. qof s i = ?n) (uncounted s) = []" by (auto simp: tokens_def)
      then show ?thesis using assms(1) p(4) e 3(4) by (auto simp: core_def busy_ok_def live_ok_def nth_append createDeviceQueue_def)
    qed
    ultimately show "core s' \<and> (\<forall>q. r = Some q \<longrightarrow> q < length (zq_queues s')) \<and> zq_items s' = zq_items s"
      using 3 e(11) by (auto simp: core_def places_ok_def)
  qed
qed

text \<open>Taking an item out of the table.\<close>

definition drop_id :: "nat \<Rightarrow> 'j zhal \<Rightarrow> 'j zhal" where
  "drop_id i s = s\<lparr>asyncRequests := map_option (filter (\<lambda>e. fst e \<noteq> of_nat i)) (asyncRequests s)\<rparr>"

lemma table_lookup:
  assumes "table_ok s" "length (zq_items s) \<le> 2 ^ 31" "i < length (zq_items s)"
  shows "map_of (table s) (of_nat i) = (if i \<in> tabled s then Some i else None)"
proof (cases "map_of (table s) (of_nat i)")
  case None
  have "(of_nat i, i) \<in> set (table s)" if "i \<in> tabled s" using that assms(1) by (auto simp: table_ok_def)
  then have "i \<notin> tabled s" using None by (force simp: map_of_eq_None_iff)
  with None show ?thesis by simp
next
  case (Some j)
  then have "(of_nat i, j) \<in> set (table s)" by (rule map_of_SomeD)
  then have "(of_nat i :: u32) = of_nat j" "j < length (zq_items s)" using assms(1) by (auto simp: table_ok_def placed_def)
  moreover have "j \<in> tabled s" using \<open>(of_nat i, j) \<in> set (table s)\<close> by force
  moreover have "i = j" using word_of_nat_inj31 [of i j] assms(2,3) calculation(1,2) by linarith
  ultimately show ?thesis using Some by simp
qed

lemma drop_id_frame [simp]:
  "table (drop_id i s) = filter (\<lambda>e. fst e \<noteq> of_nat i) (table s)" "placed (drop_id i s) = placed s" "qof (drop_id i s) = qof s"
  "live (drop_id i s) = live s" "zq_queues (drop_id i s) = zq_queues s" "zq_items (drop_id i s) = zq_items s" "zq_work (drop_id i s) = zq_work s"
  "zq_stage (drop_id i s) = zq_stage s" "todo (drop_id i s) = todo s" "uncounted (drop_id i s) = uncounted s" "zq_handlers (drop_id i s) = zq_handlers s"
  "requestId (drop_id i s) = requestId s" "workerShutdown (drop_id i s) = workerShutdown s" "asyncRequests (drop_id i s) = None \<longleftrightarrow> asyncRequests s = None"
  by (auto simp: drop_id_def table_def placed_def qof_def live_def todo_def uncounted_def fun_eq_iff split: option.splits)

lemma drop_id_tabled:
  assumes "table_ok s" "length (zq_items s) \<le> 2 ^ 31" "i < length (zq_items s)"
  shows "tabled (drop_id i s) = tabled s - {i}"
proof -
  have "fst e \<noteq> of_nat i \<longleftrightarrow> snd e \<noteq> i" if "e \<in> set (table s)" for e
  proof -
    have e: "snd e < length (zq_items s)" "fst e = of_nat (snd e)" using that assms(1) by (auto simp: table_ok_def placed_def)
    then show ?thesis using word_of_nat_inj31 [of i "snd e"] assms(2,3) by (metis less_le_trans)
  qed
  then have "filter (\<lambda>e. fst e \<noteq> of_nat i) (table s) = filter (\<lambda>e. snd e \<noteq> i) (table s)" by (intro filter_cong) auto
  then show ?thesis by auto
qed

lemma tokens_drop_id:
  assumes "table_ok s" "length (zq_items s) \<le> 2 ^ 31" "i < length (zq_items s)"
  shows "tokens (drop_id i s) q = tokens s q - (if i \<in> tabled s \<and> qof s i = q then 1 else 0)"
proof -
  have "hmap_ok (table s)" using assms(1) by (simp add: table_ok_def)
  from filter_key_length [OF this, of "\<lambda>(r, i). qof s i = q" "of_nat i"] show ?thesis
    by (simp add: tokens_def table_lookup [OF assms])
qed

lemma places_drop_id:
  assumes "places_ok s" "length (zq_items s) \<le> 2 ^ 31" "i < length (zq_items s)" "zq_stage s = Stored \<Longrightarrow> hd (zq_work s) \<noteq> i"
  shows "places_ok (drop_id i s)"
proof -
  have p: "queues_ok s" "work_ok s" "table_ok s" "live_ok s" using assms(1) by (auto simp: places_ok_def)
  note t = drop_id_tabled [OF p(3) assms(2,3)]
  have "queues_ok (drop_id i s)" unfolding queues_ok_def t using p(1) by (simp add: queues_ok_def)
  moreover have "work_ok (drop_id i s)" unfolding work_ok_def t using p(2) assms(4) by (simp add: work_ok_def)
  moreover have "table_ok (drop_id i s)" using p(3) by (auto simp: table_ok_def hmap_ok_def distinct_map_filter)
  moreover have "live_ok (drop_id i s)" using p(4) by (simp add: live_ok_def)
  ultimately show ?thesis by (simp add: places_ok_def)
qed

lemma delete_is_drop:
  assumes "core s" "length (zq_items s) \<le> 2 ^ 31" "i < length (zq_items s)" "asyncRequests s = Some m"
  shows "hashMapDelete m (wi_requestId (zq_items s ! i)) = (i \<in> tabled s, filter (\<lambda>e. fst e \<noteq> of_nat i) m)"
proof -
  have "wi_requestId (zq_items s ! i) = of_nat i" "table s = m" using assms by (auto simp: core_def ids_ok_def table_def)
  moreover have "map_of m (of_nat i) = (if i \<in> tabled s then Some i else None)"
    using table_lookup [OF _ assms(2,3)] assms(1) \<open>table s = m\<close> by (simp add: core_def places_ok_def)
  ultimately show ?thesis by (simp add: hashMapDelete_def hashMapContains_def)
qed

lemma core_timeout_table:
  assumes "core s" "length (zq_items s) \<le> 2 ^ 31" "i < length (zq_items s)" "wi_caller (zq_items s ! i) = Waiting" "\<not> worker_holds i s"
  shows "core (send_timeout_table i s)"
proof -
  have p: "places_ok s" "table_ok s" "ids_ok s" "work_ok s" using assms(1) by (auto simp: core_def places_ok_def)
  define f where "f = (\<lambda>w :: 'a WorkItem. w\<lparr>wi_caller := Dropped (i \<in> tabled s)\<rparr>)"
  have f: "wi_deviceQueue (f w) = wi_deviceQueue w" "wi_requestId (f w) = wi_requestId w" "wi_caller (f w) = Dropped (i \<in> tabled s)" for w
    by (simp_all add: f_def)
  have e: "send_timeout_table i s = upd_item i f (drop_id i s)"
  proof (cases "asyncRequests s")
    case None
    then have "tabled s = {}" "drop_id i s = s" by (simp_all add: table_def drop_id_def)
    with None show ?thesis by (simp add: send_timeout_table_def f_def)
  next
    case (Some m)
    then show ?thesis using delete_is_drop [OF assms(1-3) Some] by (simp add: send_timeout_table_def f_def drop_id_def)
  qed
  have stage: "zq_stage s = Stored \<Longrightarrow> hd (zq_work s) \<noteq> i" using assms(5) p(4) by (auto simp: worker_holds_def work_ok_def)
  have "places_ok (upd_item i f (drop_id i s))"
    by (rule places_upd_item) (use places_drop_id [OF p(1) assms(2,3) stage] f in auto)
  moreover have "ids_ok (drop_id i s)" using p(3) by (simp add: ids_ok_def)
  then have "ids_ok (upd_item i f (drop_id i s))" by (rule ids_upd_item) (use f in auto)
  moreover have "tokens (upd_item i f (drop_id i s)) q = tokens s q" for q
    using tokens_upd_item [of i "drop_id i s" f q] tokens_drop_id [OF p(2) assms(2,3)] assms(3,4) f by simp
  then have "busy_ok (upd_item i f (drop_id i s))" using assms(1) f by (auto simp: core_def busy_ok_def)
  ultimately show ?thesis by (simp add: e core_def)
qed

lemma tokens_least:
  assumes "work_ok s" "(i, r, False) \<in> set (zq_handlers s)"
  shows "tokens s (qof s i) \<ge> 1"
proof -
  let ?q = "qof s i"
  have h: "length (filter (\<lambda>(i, r, c). \<not> c \<and> qof s i = ?q) (zq_handlers s)) \<ge> 1"
    using assms(2) by (auto simp: Suc_le_eq length_greater_0_conv filter_empty_conv)
  have "length (filter (\<lambda>(r, i). qof s i = ?q) (table s)) \<ge> 1" if st: "zq_stage s = Stored" "qof s (hd (zq_work s)) = ?q"
    using assms(1) st by (force simp: work_ok_def Suc_le_eq length_greater_0_conv filter_empty_conv)
  with h show ?thesis by (fastforce simp: tokens_def)
qed

lemma linkedListDelete_distinct: "linkedListDelete p xs = (b, ys) \<Longrightarrow> distinct xs \<Longrightarrow> distinct ys"
proof (induction xs arbitrary: b ys)
  case (Cons x xs)
  then show ?case using linkedListDelete_set [of p xs] by (auto split: if_splits prod.splits)
qed simp

lemma core_timeout_queue:
  assumes "core s" "i < length (zq_items s)" "wi_caller (zq_items s ! i) = Dropped d"
  shows "core (send_timeout_queue i d s)"
proof -
  let ?q = "qof s i"
  obtain b js where del: "linkedListDelete (\<lambda>x. x = i) (dq_queue (zq_queues s ! ?q)) = (b, js)" by fastforce
  define g where "g = (\<lambda>x :: DeviceQueue. x\<lparr>dq_queue := js, isBusy := (if d then isBusy x - 1 else isBusy x)\<rparr>)"
  define f where "f = (\<lambda>w :: 'a WorkItem. w\<lparr>wi_timedOut := (wi_timedOut w \<or> \<not> d \<and> \<not> b), wi_caller := Returned None\<rparr>)"
  have e: "send_timeout_queue i d s = upd_item i f (upd_queue ?q g s)"
    using del by (simp add: send_timeout_queue_def Let_def f_def g_def qof_def)
  have f: "wi_deviceQueue (f w) = wi_deviceQueue w" "wi_requestId (f w) = wi_requestId w" "wi_caller (f w) = Returned None" for w
    by (simp_all add: f_def)
  have p: "queues_ok s" "work_ok s" "table_ok s" "live_ok s" "ids_ok s" "busy_ok s" using assms(1) by (auto simp: core_def places_ok_def)
  have q: "?q < length (zq_queues s)" using p(5) assms(2) by (auto simp: ids_ok_def qof_def)
  have "set js \<subseteq> set (dq_queue (zq_queues s ! ?q))" "distinct js"
    using linkedListDelete_set [OF del] linkedListDelete_distinct [OF del] p(1) q by (auto simp: queues_ok_def)
  then have "queues_ok (upd_queue ?q g s)" using p(1) by (auto simp: queues_ok_def g_def)
  then have "places_ok (upd_queue ?q g s)" using p by (simp add: places_ok_def work_ok_def table_ok_def live_ok_def)
  then have "places_ok (upd_item i f (upd_queue ?q g s))" by (rule places_upd_item) (use f in auto)
  moreover have "ids_ok (upd_queue ?q g s)" using p(5) by (simp add: ids_ok_def)
  then have "ids_ok (upd_item i f (upd_queue ?q g s))" by (rule ids_upd_item) (use f in auto)
  moreover have tok: "tokens (upd_item i f (upd_queue ?q g s)) q = tokens s q - (if d \<and> ?q = q then 1 else 0)" for q
    using tokens_upd_item [of i "upd_queue ?q g s" f q] assms(2,3) f by simp
  then have "busy_ok (upd_item i f (upd_queue ?q g s))" using p(4,6) f by (auto simp: busy_ok_def live_ok_def g_def)
  ultimately show ?thesis by (simp add: e core_def)
qed

lemma core_collect:
  assumes "core s" "zq_work s = []" "asyncRequests s \<noteq> None"
  shows "core (getAvailableWork s)"
proof (cases "deviceQueues s")
  case None
  then show ?thesis using assms(1) by (simp add: getAvailableWork_def)
next
  case (Some m)
  have p: "queues_ok s" "work_ok s" "table_ok s" "live_ok s" "ids_ok s" "busy_ok s" using assms(1) by (auto simp: core_def places_ok_def)
  have lv: "live s = map snd m" using Some by (simp add: live_def)
  obtain js qs where tk: "take_work (live s) (zq_queues s) = (js, qs)" by fastforce
  define s' where "s' = getAvailableWork s"
  have s': "zq_work s' = js" "zq_queues s' = qs" "zq_stage s' = Take" "table s' = table s" "placed s' = placed s" "qof s' = qof s" "live s' = live s"
    "zq_items s' = zq_items s" "zq_handlers s' = zq_handlers s" "requestId s' = requestId s" "asyncRequests s' = asyncRequests s" "todo s' = js" "uncounted s' = js"
    using Some tk assms(2) lv by (auto simp: s'_def getAvailableWork_def table_def placed_def qof_def live_def todo_def uncounted_def fun_eq_iff)
  have "taken_from (qof s) (live s) (zq_queues s) js qs"
    by (rule take_work_spec [OF tk]) (use p(1,4) in \<open>auto simp: live_ok_def queues_ok_def\<close>)
  note tf = this [unfolded taken_from_def]
  have stage: "zq_stage s = Take" using p(2) assms(2) by (auto simp: work_ok_def)
  have from_queue: "\<exists>q < length (zq_queues s). i \<in> set (dq_queue (zq_queues s ! q))" if "i \<in> set js" for i
    using tf that p(4) unfolding live_ok_def by blast
  have disjoint: "distinct (dq_queue (qs ! q)) \<and> i \<in> set (dq_queue (zq_queues s ! q)) \<and> i \<notin> set js"
    if "q < length (zq_queues s)" "i \<in> set (dq_queue (qs ! q))" for q i
  proof -
    have app: "filter (\<lambda>i. qof s i = q) js @ dq_queue (qs ! q) = dq_queue (zq_queues s ! q)" using tf that(1) by blast
    moreover have "distinct (dq_queue (zq_queues s ! q))" using p(1) that(1) by (auto simp: queues_ok_def)
    ultimately have "distinct (filter (\<lambda>i. qof s i = q) js @ dq_queue (qs ! q))" by simp
    moreover have "i \<in> set (dq_queue (zq_queues s ! q))" using app that(2) by (metis Un_iff set_append)
    moreover from this have "qof s i = q" using p(1) that(1) by (auto simp: queues_ok_def)
    ultimately show ?thesis using that(2) by auto
  qed
  have "queues_ok s'" unfolding queues_ok_def s'
  proof (intro allI impI conjI ballI)
    fix q assume q: "q < length qs"
    then have ql: "q < length (zq_queues s)" using tf by simp
    have "filter (\<lambda>i. qof s i = q) js @ dq_queue (qs ! q) = dq_queue (zq_queues s ! q)" using tf ql by blast
    moreover have "distinct (dq_queue (zq_queues s ! q))" using p(1) ql by (auto simp: queues_ok_def)
    ultimately show "distinct (dq_queue (qs ! q))" by (metis distinct_append)
    fix i assume i: "i \<in> set (dq_queue (qs ! q))"
    then have "i \<in> set (dq_queue (zq_queues s ! q))" "i \<notin> set js" using disjoint ql by auto
    then show "placed s i" "qof s i = q" "i \<notin> set js" "i \<notin> tabled s" using p(1) ql by (auto simp: queues_ok_def)
  qed
  moreover have "placed s i \<and> i \<notin> tabled s" if "i \<in> set js" for i using from_queue [OF that] p(1) by (auto simp: queues_ok_def)
  then have "work_ok s'" using tf by (auto simp: work_ok_def s' distinct_map)
  moreover have "table_ok s'" "live_ok s'" "ids_ok s'" using p(3,4,5) tf assms(3) by (auto simp: table_ok_def live_ok_def ids_ok_def s')
  moreover have "tokens s' = tokens s" using stage by (simp add: tokens_def fun_eq_iff s')
  moreover have "busy_ok s'" unfolding busy_ok_def s' calculation(6)
  proof (intro impI ballI conjI)
    fix q assume q: "q \<in> set (live s)"
    then have ql: "q < length (zq_queues s)" using p(4) by (simp add: live_ok_def)
    have old: "isBusy (zq_queues s ! q) = tokens s q" "tokens s q \<le> 1" using p(6) q assms(3) by (auto simp: busy_ok_def)
    have new: "isBusy (qs ! q) = isBusy (zq_queues s ! q)"
      "length (filter (\<lambda>i. qof s i = q) js) = (if q \<in> set (live s) \<and> isBusy (zq_queues s ! q) = 0 \<and> dq_queue (zq_queues s ! q) \<noteq> [] then 1 else 0)"
      using tf ql by blast+
    show "isBusy (qs ! q) = tokens s q" "int (length (filter (\<lambda>i. qof s i = q) js)) + tokens s q \<le> 1" using old new by auto
  qed
  ultimately show ?thesis by (simp add: core_def places_ok_def s'_def)
qed

text \<open>The worker moves on; the count of its queue is raised and lowered.\<close>

lemma core_parts:
  assumes "core s"
  shows "queues_ok s" "work_ok s" "table_ok s" "live_ok s" "ids_ok s" "busy_ok s"
  using assms by (auto simp: core_def places_ok_def)

lemma coreI: "queues_ok s \<Longrightarrow> work_ok s \<Longrightarrow> table_ok s \<Longrightarrow> live_ok s \<Longrightarrow> ids_ok s \<Longrightarrow> busy_ok s \<Longrightarrow> core s"
  by (simp add: core_def places_ok_def)

lemma next_item_frame [simp]:
  "table (next_item s) = table s" "placed (next_item s) = placed s" "qof (next_item s) = qof s" "live (next_item s) = live s"
  "zq_queues (next_item s) = zq_queues s" "zq_items (next_item s) = zq_items s" "zq_handlers (next_item s) = zq_handlers s"
  "requestId (next_item s) = requestId s" "asyncRequests (next_item s) = asyncRequests s" "workerShutdown (next_item s) = workerShutdown s"
  "zq_work (next_item s) = tl (zq_work s)" "zq_stage (next_item s) = Take" "todo (next_item s) = tl (zq_work s)" "uncounted (next_item s) = tl (zq_work s)"
  by (auto simp: next_item_def table_def placed_def qof_def live_def todo_def uncounted_def fun_eq_iff)

lemma core_next_item:
  assumes "core s" "zq_stage s = Take \<or> zq_stage s = Transmit \<or> zq_stage s = Aborted False"
  shows "core (next_item s)"
proof (rule coreI)
  note p = core_parts [OF assms(1)]
  have t: "set (tl (zq_work s)) \<subseteq> set (zq_work s)" "set (tl (zq_work s)) \<subseteq> set (todo s)"
    by (auto simp: todo_def intro: list.set_sel(2))
  show "queues_ok (next_item s)" using p(1) t by (auto simp: queues_ok_def)
  show "work_ok (next_item s)" using p(2) t by (auto simp: work_ok_def distinct_tl)
  show "table_ok (next_item s)" "live_ok (next_item s)" "ids_ok (next_item s)" using p(3-5) by (auto simp: table_ok_def live_ok_def ids_ok_def)
  have "tokens (next_item s) = tokens s" using assms(2) by (auto simp: tokens_def fun_eq_iff)
  moreover have "length (filter P (tl xs)) \<le> length (filter P xs)" for P and xs :: "nat list" by (cases xs) auto
  then have "length (filter P (tl (zq_work s))) \<le> length (filter P (uncounted s))" for P by (simp add: uncounted_def)
  then have "int (length (filter P (tl (zq_work s)))) + n \<le> 1" if "int (length (filter P (uncounted s))) + n \<le> 1" for P n
    using that by (smt (verit) of_nat_mono)
  ultimately show "busy_ok (next_item s)" using p(6) by (auto simp: busy_ok_def)
qed

lemma core_take:
  assumes "core s" "length (zq_items s) \<le> 2 ^ 31" "zq_work s \<noteq> []" "zq_stage s = Take"
  shows "core (work_take s)"
proof (cases "wi_timedOut (zq_items s ! hd (zq_work s))")
  case True
  then show ?thesis using core_next_item [OF assms(1)] assms(4) by (simp add: work_take_def Let_def)
next
  case False
  note p = core_parts [OF assms(1)]
  obtain i js where w: "zq_work s = i # js" using assms(3) by (cases "zq_work s") auto
  obtain m where m: "asyncRequests s = Some m" using p(4) assms(3) by (auto simp: live_ok_def)
  have i: "i < length (zq_items s)" "placed s i" "i \<notin> tabled s" "i \<notin> set js" using p(2) w assms(4) by (auto simp: work_ok_def todo_def placed_def)
  have "map_of m (of_nat i) = None" using table_lookup [OF p(3) assms(2) i(1)] i(3) m by (simp add: table_def)
  moreover have "wi_requestId (zq_items s ! i) = of_nat i" using p(5) i(1) by (simp add: ids_ok_def)
  ultimately have put: "hashMapPut m (wi_requestId (zq_items s ! i)) i = (True, m @ [(of_nat i, i)])"
    by (simp add: hashMapPut_def hashMapContains_def)
  define s' where "s' = work_take s"
  have s': "table s' = table s @ [(of_nat i, i)]" "placed s' = placed s" "qof s' = qof s" "live s' = live s" "zq_queues s' = zq_queues s" "zq_items s' = zq_items s"
    "zq_handlers s' = zq_handlers s" "requestId s' = requestId s" "asyncRequests s' \<noteq> None" "zq_work s' = i # js" "zq_stage s' = Stored" "todo s' = js" "uncounted s' = i # js"
    using False w m put by (auto simp: s'_def work_take_def Let_def table_def placed_def qof_def live_def todo_def uncounted_def fun_eq_iff)
  have "of_nat i \<notin> fst ` set (table s)" using \<open>map_of m (of_nat i) = None\<close> m by (simp add: table_def map_of_eq_None_iff)
  show ?thesis unfolding s'_def [symmetric]
  proof (rule coreI)
    show "queues_ok s'" using p(1) w unfolding queues_ok_def s' by auto
    show "work_ok s'" using p(2) w i assms(4) by (auto simp: work_ok_def s' todo_def)
    show "table_ok s'" using p(3) i(2) \<open>of_nat i \<notin> fst ` set (table s)\<close> by (auto simp: table_ok_def s' hmap_ok_def)
    show "live_ok s'" "ids_ok s'" using p(4,5) by (auto simp: live_ok_def ids_ok_def s')
    have "tokens s' q = tokens s q" for q using w assms(4) by (simp add: tokens_def s')
    then show "busy_ok s'" using p(6) w m assms(4) by (auto simp: busy_ok_def s' uncounted_def)
  qed
qed

lemma core_busy:
  assumes "core s" "zq_work s \<noteq> []" "zq_stage s = Stored"
  shows "core (work_busy s)"
proof -
  note p = core_parts [OF assms(1)]
  obtain i js where w: "zq_work s = i # js" using assms(2) by (cases "zq_work s") auto
  define g where "g = (\<lambda>q :: DeviceQueue. q\<lparr>isBusy := isBusy q + 1\<rparr>)"
  define s' where "s' = work_busy s"
  have s': "table s' = table s" "placed s' = placed s" "qof s' = qof s" "live s' = live s" "zq_queues s' = zq_queues (upd_queue (qof s i) g s)" "zq_items s' = zq_items s"
    "zq_handlers s' = zq_handlers s" "requestId s' = requestId s" "asyncRequests s' = asyncRequests s" "zq_work s' = i # js" "zq_stage s' = Transmit" "todo s' = js"
    "uncounted s' = js" "workerShutdown s' = workerShutdown s"
    using w by (auto simp: s'_def work_busy_def g_def table_def placed_def qof_def live_def todo_def uncounted_def upd_queue_def fun_eq_iff)
  show ?thesis unfolding s'_def [symmetric]
  proof (rule coreI)
    show "queues_ok s'" using p(1) w unfolding queues_ok_def s' by (simp add: g_def)
    show "work_ok s'" using p(2) w assms(3) by (auto simp: work_ok_def s' todo_def)
    show "table_ok s'" "ids_ok s'" using p(3,5) by (auto simp: table_ok_def ids_ok_def s')
    show "live_ok s'" using p(4) w by (auto simp: live_ok_def s')
    have "tokens s' q = tokens s q + (if qof s i = q then 1 else 0)" for q using w assms(3) by (simp add: tokens_def s')
    then show "busy_ok s'" using p(4,6) w assms(3) by (auto simp: busy_ok_def s' uncounted_def live_ok_def g_def)
  qed
qed

lemma stage_frame [simp]:
  "table (s\<lparr>zq_stage := a\<rparr>) = table s" "placed (s\<lparr>zq_stage := a\<rparr>) = placed s" "qof (s\<lparr>zq_stage := a\<rparr>) = qof s" "live (s\<lparr>zq_stage := a\<rparr>) = live s"
  by (auto simp: table_def placed_def qof_def live_def fun_eq_iff)

lemma core_transmit:
  assumes "core s" "length (zq_items s) \<le> 2 ^ 31" "zq_work s \<noteq> []" "zq_stage s = Transmit"
  shows "core (work_transmit ok s)"
proof (cases ok)
  case True
  then show ?thesis using core_next_item [of "s\<lparr>zq_sent := zq_sent s @ [hd (zq_work s)]\<rparr>"] assms(1,4) by (simp add: work_transmit_def Let_def)
next
  case False
  note p = core_parts [OF assms(1)]
  obtain i js where w: "zq_work s = i # js" using assms(3) by (cases "zq_work s") auto
  obtain m where m: "asyncRequests s = Some m" using p(4) assms(3) by (auto simp: live_ok_def)
  have i: "i < length (zq_items s)" using p(2) w by (auto simp: work_ok_def placed_def)
  let ?t = "(drop_id i s)\<lparr>zq_stage := Aborted (i \<in> tabled s)\<rparr>"
  have "work_transmit ok s = ?t\<lparr>zq_sent := zq_sent s @ [i]\<rparr>"
    using False w m delete_is_drop [OF assms(1,2) i m] by (simp add: work_transmit_def Let_def drop_id_def)
  moreover have "core ?t"
  proof (rule coreI)
    have "places_ok (drop_id i s)" by (rule places_drop_id) (use assms i in \<open>auto simp: core_def\<close>)
    then have d: "queues_ok (drop_id i s)" "work_ok (drop_id i s)" "table_ok (drop_id i s)" "live_ok (drop_id i s)" by (auto simp: places_ok_def)
    have e: "zq_queues ?t = zq_queues (drop_id i s)" "zq_work ?t = zq_work (drop_id i s)" "zq_items ?t = zq_items (drop_id i s)" "zq_handlers ?t = zq_handlers (drop_id i s)"
      "asyncRequests ?t = asyncRequests (drop_id i s)" "workerShutdown ?t = workerShutdown (drop_id i s)" by simp_all
    show "queues_ok ?t" using d(1) unfolding queues_ok_def stage_frame e .
    show "table_ok ?t" using d(3) unfolding table_ok_def stage_frame e .
    show "live_ok ?t" using d(4) unfolding live_ok_def stage_frame e .
    have "todo ?t = todo (drop_id i s)" using assms(4) by (simp add: todo_def)
    then show "work_ok ?t" using d(2) assms(3,4) by (simp add: work_ok_def)
    show "ids_ok ?t" using p(5) by (simp add: ids_ok_def)
    have "tokens ?t q = tokens s q" for q
      using tokens_drop_id [OF p(3) assms(2) i, of q] w assms(4) by (auto simp: tokens_def)
    moreover have "uncounted ?t = uncounted s" using assms(4) by (simp add: uncounted_def)
    ultimately show "busy_ok ?t" using p(6) by (simp add: busy_ok_def)
  qed
  ultimately show ?thesis by simp
qed

lemma core_abort:
  assumes "core s" "zq_work s \<noteq> []" "zq_stage s = Aborted d"
  shows "core (work_abort d s)"
proof -
  note p = core_parts [OF assms(1)]
  obtain i js where w: "zq_work s = i # js" using assms(2) by (cases "zq_work s") auto
  have i: "i < length (zq_items s)" using p(2) w by (auto simp: work_ok_def placed_def)
  have "core ((if d then clear_busy i s else s)\<lparr>zq_stage := Aborted False\<rparr>)"
  proof (cases d)
    case False
    then have "s\<lparr>zq_stage := Aborted False\<rparr> = s" using assms(3) by simp
    with False assms(1) show ?thesis by simp
  next
    case True
    let ?t = "(clear_busy i s)\<lparr>zq_stage := Aborted False\<rparr>"
    have t: "zq_queues ?t = zq_queues (clear_busy i s)" "todo ?t = todo s" "uncounted ?t = uncounted s" "table ?t = table s" "placed ?t = placed s" "qof ?t = qof s" "live ?t = live s"
      using assms(3) True by (auto simp: clear_busy_def todo_def uncounted_def)
    have tok: "tokens ?t q = tokens s q - (if qof s i = q then 1 else 0)" for q
      using w assms(3) True by (simp add: tokens_def clear_busy_def)
    have pos: "tokens s (qof s i) \<ge> 1" using w assms(3) True by (simp add: tokens_def)
    have "core ?t"
    proof (rule coreI)
      show "queues_ok ?t" using p(1) unfolding queues_ok_def t(2-) by (simp add: clear_busy_def)
      show "work_ok ?t" using p(2) assms(3) unfolding work_ok_def t by (simp add: clear_busy_def)
      show "table_ok ?t" "live_ok ?t" "ids_ok ?t" using p(3-5) by (auto simp: clear_busy_def table_ok_def live_ok_def ids_ok_def)
      show "busy_ok ?t" using p(4,6) pos unfolding busy_ok_def t(2-) tok
        by (auto simp: clear_busy_def live_ok_def qof_def)
    qed
    with True show ?thesis by simp
  qed
  then have "core (signal_item i ((if d then clear_busy i s else s)\<lparr>zq_stage := Aborted False\<rparr>))"
    by (rule core_signal)
  then have "core (next_item (signal_item i ((if d then clear_busy i s else s)\<lparr>zq_stage := Aborted False\<rparr>)))"
    by (rule core_next_item) (simp add: signal_item_def)
  moreover have "next_item (signal_item i (x\<lparr>zq_stage := Aborted False\<rparr>)) = next_item (signal_item i x)" for x :: "'a zhal"
    by (simp add: next_item_def signal_item_def upd_item_def)
  ultimately show ?thesis by (simp add: work_abort_def Let_def w)
qed

text \<open>Responses.\<close>

lemma core_response_found:
  assumes "core s" "length (zq_items s) \<le> 2 ^ 31" "\<not> not_sent_yet J r s"
  shows "core (response_found J r s)"
proof (cases "\<exists>rid m i. response_id J r = Some rid \<and> asyncRequests s = Some m \<and> hashMapGet m rid = Some i")
  case False
  then have "response_found J r s = s" by (auto simp: response_found_def split: option.splits)
  then show ?thesis using assms(1) by simp
next
  case True
  then obtain rid m i where r: "response_id J r = Some rid" and m: "asyncRequests s = Some m" and get: "hashMapGet m rid = Some i" by blast
  note p = core_parts [OF assms(1)]
  have "(rid, i) \<in> set (table s)" using get m by (auto simp: hashMapGet_def table_def dest: map_of_SomeD)
  then have "i \<in> tabled s" by force
  moreover have "i < length (zq_items s)" "rid = of_nat i" using \<open>(rid, i) \<in> set (table s)\<close> p(3) by (auto simp: table_ok_def placed_def)
  ultimately have i: "i < length (zq_items s)" "rid = of_nat i" "i \<in> tabled s" by blast+
  have not_hd: "hd (zq_work s) \<noteq> i" if "zq_stage s = Stored"
    using assms(3) that p(2,5) r i by (auto simp: not_sent_yet_def work_ok_def ids_ok_def)
  let ?t = "(drop_id i s)\<lparr>zq_handlers := zq_handlers s @ [(i, r, False)]\<rparr>"
  have e: "response_found J r s = ?t" using r m get i(2) by (simp add: response_found_def drop_id_def hashMapDelete_def)
  have t: "table ?t = table (drop_id i s)" "placed ?t = placed s" "qof ?t = qof s" "live ?t = live s" "todo ?t = todo s" "uncounted ?t = uncounted s"
    by (auto simp: table_def placed_def qof_def live_def todo_def uncounted_def drop_id_def fun_eq_iff)
  have "places_ok (drop_id i s)" by (rule places_drop_id) (use assms i not_hd in \<open>auto simp: core_def\<close>)
  then have d: "queues_ok (drop_id i s)" "work_ok (drop_id i s)" "table_ok (drop_id i s)" "live_ok (drop_id i s)" by (auto simp: places_ok_def)
  have "core ?t"
  proof (rule coreI)
    have e: "zq_queues ?t = zq_queues (drop_id i s)" "zq_work ?t = zq_work (drop_id i s)" "zq_stage ?t = zq_stage (drop_id i s)"
      "placed ?t = placed (drop_id i s)" "qof ?t = qof (drop_id i s)" "live ?t = live (drop_id i s)" "todo ?t = todo (drop_id i s)"
      "asyncRequests ?t = asyncRequests (drop_id i s)" "workerShutdown ?t = workerShutdown (drop_id i s)"
      using t by simp_all
    show "queues_ok ?t" using d(1) unfolding queues_ok_def t(1) e .
    show "work_ok ?t" using d(2) unfolding work_ok_def t(1) e .
    have "\<forall>(j, x, c) \<in> set (zq_handlers ?t). j < length (zq_items ?t)" using p(3) i(1) by (auto simp: table_ok_def)
    then show "table_ok ?t" using d(3) unfolding table_ok_def t(1) e by blast
    show "live_ok ?t" using d(4) unfolding live_ok_def e .
    show "ids_ok ?t" using p(5) by (simp add: ids_ok_def)
    have "tokens ?t q = tokens s q" for q
      using tokens_drop_id [OF p(3) assms(2) i(1), of q] i(3) by (auto simp: tokens_def t)
    then show "busy_ok ?t" using p(6) by (simp add: busy_ok_def t)
  qed
  then show ?thesis by (simp add: e)
qed

lemma core_response_clear:
  assumes "core s" "n < length (zq_handlers s)" "zq_handlers s ! n = (i, r, False)"
  shows "core (response_clear n s)"
proof -
  note p = core_parts [OF assms(1)]
  have mem: "(i, r, False) \<in> set (zq_handlers s)" using assms(2,3) by (metis nth_mem)
  have i: "i < length (zq_items s)" using p(3) mem by (auto simp: table_ok_def)
  let ?t = "(clear_busy i s)\<lparr>zq_handlers := (zq_handlers s)[n := (i, r, True)]\<rparr>"
  have e: "response_clear n s = ?t" using assms(3) by (simp add: response_clear_def)
  have t: "table ?t = table s" "placed ?t = placed s" "qof ?t = qof s" "live ?t = live s" "todo ?t = todo s" "uncounted ?t = uncounted s" "zq_work ?t = zq_work s" "zq_stage ?t = zq_stage s"
    by (auto simp: table_def placed_def qof_def live_def todo_def uncounted_def clear_busy_def upd_queue_def fun_eq_iff)
  have "core ?t"
  proof (rule coreI)
    show "queues_ok ?t" using p(1) unfolding queues_ok_def t by (simp add: clear_busy_def)
    show "work_ok ?t" using p(2) unfolding work_ok_def t .
    show "table_ok ?t" using p(3) i set_update_subset_insert [of "zq_handlers s" n "(i, r, True)"] unfolding table_ok_def t by (auto simp: clear_busy_def)
    show "live_ok ?t" using p(4) unfolding live_ok_def t by (simp add: clear_busy_def)
    show "ids_ok ?t" using p(5) by (simp add: ids_ok_def clear_busy_def)
    have tok: "tokens ?t q = tokens s q - (if qof s i = q then 1 else 0)" for q
      using filter_update_length [OF assms(2), of "\<lambda>(i, r, c). \<not> c \<and> qof s i = q" "(i, r, True)"] assms(3)
      by (simp add: tokens_def t) (simp add: clear_busy_def)
    have "tokens s (qof s i) \<ge> 1" by (rule tokens_least [OF p(2) mem])
    then show "busy_ok ?t" using p(4,6) unfolding busy_ok_def t tok by (auto simp: clear_busy_def live_ok_def qof_def)
  qed
  then show ?thesis by (simp add: e)
qed

lemma core_response_deliver:
  assumes "core s" "n < length (zq_handlers s)" "zq_handlers s ! n = (i, r, True)"
  shows "core (response_deliver n s)"
proof -
  note p = core_parts [OF assms(1)]
  have i: "i < length (zq_items s)" using p(3) assms(2,3) nth_mem [OF assms(2)] by (auto simp: table_ok_def)
  let ?hs = "take n (zq_handlers s) @ drop (Suc n) (zq_handlers s)"
  let ?t = "s\<lparr>zq_handlers := ?hs\<rparr>"
  have t: "table ?t = table s" "placed ?t = placed s" "qof ?t = qof s" "live ?t = live s" "todo ?t = todo s" "uncounted ?t = uncounted s"
    by (auto simp: table_def placed_def qof_def live_def todo_def uncounted_def fun_eq_iff)
  have sub: "set ?hs \<subseteq> set (zq_handlers s)" using set_take_subset set_drop_subset by fastforce
  have "core ?t"
  proof (rule coreI)
    show "queues_ok ?t" using p(1) unfolding queues_ok_def t by simp
    show "work_ok ?t" using p(2) unfolding work_ok_def t by simp
    show "table_ok ?t" using p(3) sub unfolding table_ok_def t by (auto simp del: set_append)
    show "live_ok ?t" using p(4) unfolding live_ok_def t by simp
    show "ids_ok ?t" using p(5) by (simp add: ids_ok_def)
    have "tokens ?t q = tokens s q" for q
      using filter_drop_length [OF assms(2), of "\<lambda>(i, r, c). \<not> c \<and> qof s i = q"] assms(3) by (simp add: tokens_def t del: filter_append)
    then show "busy_ok ?t" using p(6) by (simp add: busy_ok_def t)
  qed
  then have "core (upd_item i (\<lambda>w. w\<lparr>wi_response := Some r, wi_signaled := True\<rparr>) ?t)"
    by (rule core_upd_item) (use i in \<open>auto simp: placed_def\<close>)
  moreover have "response_deliver n s = upd_item i (\<lambda>w. w\<lparr>wi_response := Some r, wi_signaled := True\<rparr>) ?t"
    using assms(3) by (simp add: response_deliver_def upd_item_def)
  ultimately show ?thesis by simp
qed

section \<open>What holds in every interleaving\<close>

lemma core_send:
  assumes "core s" "length (zq_items (snd (send_begin J n s))) \<le> 2 ^ 31"
  shows "core (snd (send_begin J n s))"
proof -
  obtain e j where ej: "zq_entering s ! n = (e, j)" by fastforce
  define s0 where "s0 = s\<lparr>zq_entering := take n (zq_entering s) @ drop (Suc n) (zq_entering s)\<rparr>"
  have c0: "core s0" using assms(1) by (simp add: s0_def)
  obtain r s1 where l: "send_lookup e s0 = (r, s1)" by fastforce
  have b: "send_begin J n s = (case r of None \<Rightarrow> (None, s1) | Some q \<Rightarrow> createItem J e j q s1)"
    using l by (simp add: send_begin_def ej s0_def Let_def split: option.splits)
  show ?thesis
  proof (cases r)
    case None
    then show ?thesis using core_lookup(1) [OF c0 l] by (simp add: b)
  next
    case (Some q)
    then show ?thesis using core_create [OF core_lookup(1) [OF c0 l] core_lookup(2) [OF c0 l Some], of J e j] assms(2) by (simp add: b)
  qed
qed

lemma core_cong:
  assumes "core s" "zq_queues s' = zq_queues s" "zq_items s' = zq_items s" "zq_handlers s' = zq_handlers s" "zq_work s' = zq_work s" "zq_stage s' = zq_stage s"
    and "requestId s' = requestId s" "asyncRequests s' = asyncRequests s" "live s' = live s \<or> live s' = []" "workerShutdown s \<Longrightarrow> workerShutdown s'"
  shows "core s'"
proof (rule coreI)
  note p = core_parts [OF assms(1)]
  have e: "table s' = table s" "placed s' = placed s" "qof s' = qof s" "todo s' = todo s" "uncounted s' = uncounted s"
    using assms(2-8) by (auto simp: table_def placed_def qof_def todo_def uncounted_def fun_eq_iff)
  show "queues_ok s'" using p(1) unfolding queues_ok_def e assms(2,5) .
  show "work_ok s'" using p(2) unfolding work_ok_def e assms(5,6) .
  show "table_ok s'" using p(3) unfolding table_ok_def e assms(3,4) .
  show "live_ok s'" using p(4) assms(9,10) unfolding live_ok_def assms(2,5,8) by auto
  show "ids_ok s'" using p(5) unfolding ids_ok_def assms(2,3,7) .
  have "tokens s' = tokens s" unfolding tokens_def e assms(3-6) ..
  then show "busy_ok s'" using p(6) assms(9) unfolding busy_ok_def e assms(2,8) by auto
qed

lemma core_term:
  assumes "core s"
  shows "core (term_stop s)" "workerShutdown s \<Longrightarrow> zq_work s = [] \<Longrightarrow> core (term_drain_table s)" "core (term_drain_queues s)"
proof -
  note p = core_parts [OF assms]
  show "core (term_stop s)" "core (term_drain_queues s)"
    by (rule core_cong [OF assms]; simp add: term_stop_def term_drain_queues_def live_def)+
  show "core (term_drain_table s)" if w: "workerShutdown s" "zq_work s = []"
  proof (rule coreI)
    let ?t = "term_drain_table s"
    have t: "zq_queues ?t = zq_queues s" "placed ?t = placed s" "qof ?t = qof s" "zq_work ?t = []" "table ?t = []" "zq_items ?t = zq_items s" "requestId ?t = requestId s"
      "asyncRequests ?t = None" "live ?t = live s" "todo ?t = []" "zq_handlers ?t = zq_handlers s" "zq_stage ?t = zq_stage s" "workerShutdown ?t = workerShutdown s"
      using w by (auto simp: term_drain_table_def placed_def qof_def table_def live_def todo_def fun_eq_iff)
    show "queues_ok ?t" using p(1) unfolding queues_ok_def t by simp
    show "work_ok ?t" using p(2) w(2) unfolding work_ok_def t by simp
    show "table_ok ?t" using p(3) unfolding table_ok_def t by (simp add: hmap_ok_def)
    show "live_ok ?t" using p(4) w unfolding live_ok_def t by simp
    show "ids_ok ?t" using p(5) unfolding ids_ok_def t .
    show "busy_ok ?t" unfolding busy_ok_def t by simp
  qed
qed

lemma items_grow: "zq_step J early s s' \<Longrightarrow> length (zq_items s) \<le> length (zq_items s')"
  by (induction rule: zq_step.induct)
    (auto simp: zhalInit_def send_check_def send_begin_def send_lookup_def createItem_def getNextRequestId_def send_push_def send_timeout_table_def
      send_timeout_queue_def send_finish_def report_response_def getAvailableWork_def work_take_def work_busy_def work_transmit_def work_abort_def
      response_found_def response_clear_def response_deliver_def clear_busy_def signal_item_def term_stop_def term_drain_table_def
      term_drain_queues_def term_signal_def Let_def split: prod.splits option.splits bool.splits if_splits list.splits)

lemma zq_step_inv:
  assumes "zq_step J False s s'" "zq_inv s"
  shows "zq_inv s'"
proof -
  have "core s'" if len': "length (zq_items s') \<le> 2 ^ 31"
  proof -
    have len: "length (zq_items s) \<le> 2 ^ 31" using items_grow [OF assms(1)] len' by linarith
    with assms(2) have core: "core s" by (simp add: zq_inv_core)
    from assms(1) show ?thesis using core len len'
    proof (cases rule: zq_step.cases)
      case (start h)
      then show ?thesis using core_init [OF core] by simp
    next
      case (entered e j)
      then show ?thesis using core by (simp add: send_check_def)
    next
      case (collect)
      then show ?thesis using core_collect [OF core] core_parts(4) [OF core] by (auto simp: live_ok_def)
    next
      case (woken i "is")
      then show ?thesis using core_signal [of "s\<lparr>zq_pending := is\<rparr>" i] core by (simp add: term_signal_def)
    qed (auto intro: core_send core_push core_timeout_table core_timeout_queue core_finish core_take core_busy core_transmit core_abort
        core_response_found core_response_clear core_response_deliver core_term)
  qed
  then show ?thesis by (simp add: zq_inv_core)
qed

lemma zq_inv_start: "zq_inv zq_start"
  by (simp add: zq_inv_core zq_start_def core_def ids_ok_def places_defs busy_ok_def table_def live_def todo_def hmap_ok_def)

lemma reachable_core:
  assumes "(zq_step J False)\<^sup>*\<^sup>* zq_start s" "length (zq_items s) \<le> 2 ^ 31"
  shows "core s"
proof -
  from assms(1) have "zq_inv s" by (induction) (auto intro: zq_inv_start zq_step_inv)
  with assms(2) show ?thesis by (simp add: zq_inv_core)
qed

text \<open>
  C1. In every interleaving of callers, worker and responses there is at most one request of a device in
  flight, and its count is 0 or 1. The hypotheses are that a response does not come before its
  request is sent, and that the ids have not been used up.
\<close>

theorem one_request_per_device:
  assumes "(zq_step J False)\<^sup>*\<^sup>* zq_start s" "length (zq_items s) \<le> 2 ^ 31"
    and "deviceQueues s = Some m" "asyncRequests s = Some t" "(e, q) \<in> set m"
  shows "0 \<le> isBusy (zq_queues s ! q) \<and> isBusy (zq_queues s ! q) \<le> 1 \<and>
    length (filter (\<lambda>(rid, i). wi_deviceQueue (zq_items s ! i) = q) t) \<le> 1"
proof -
  note p = core_parts [OF reachable_core [OF assms(1,2)]]
  have q: "q \<in> set (live s)" using assms(3,5) by (force simp: live_def)
  have b: "isBusy (zq_queues s ! q) = tokens s q" "int (length (filter (\<lambda>i. qof s i = q) (uncounted s))) + tokens s q \<le> 1"
    using p(6) q assms(4) by (auto simp: busy_ok_def)
  have t: "table s = t" using assms(4) by (simp add: table_def)
  let ?A = "length (filter (\<lambda>(r, i). qof s i = q) (table s))"
  have A: "tokens s q \<ge> int ?A - (if zq_stage s = Stored \<and> zq_work s \<noteq> [] \<and> qof s (hd (zq_work s)) = q then 1 else 0)"
    by (simp add: tokens_def)
  show ?thesis
  proof (cases "zq_stage s = Stored \<and> zq_work s \<noteq> [] \<and> qof s (hd (zq_work s)) = q")
    case True
    then have "hd (zq_work s) \<in> set (filter (\<lambda>i. qof s i = q) (uncounted s))" by (simp add: uncounted_def)
    then have "length (filter (\<lambda>i. qof s i = q) (uncounted s)) \<ge> 1" by (metis One_nat_def Suc_leI empty_iff empty_set length_greater_0_conv)
    moreover have "?A \<ge> 1" using True p(2) by (force simp: work_ok_def Suc_le_eq length_greater_0_conv filter_empty_conv)
    ultimately show ?thesis using b A True t by (auto simp: qof_def)
  next
    case False
    then show ?thesis using b A t by (auto simp: qof_def)
  qed
qed

text \<open>
  C2. No device is left busy: when no thread is between two of its parts and no request of the device is
  in the table, the next pass of the worker takes the first request of its queue.
\<close>

theorem idle_device_is_served:
  assumes "(zq_step J False)\<^sup>*\<^sup>* zq_start s" "length (zq_items s) \<le> 2 ^ 31"
    and "deviceQueues s = Some m" "asyncRequests s = Some t" "(e, q) \<in> set m" "zq_work s = []"
    and "\<forall>(i, r, c) \<in> set (zq_handlers s). c" "\<forall>w \<in> set (zq_items s). wi_caller w \<noteq> Dropped True"
    and "\<forall>(rid, i) \<in> set t. wi_deviceQueue (zq_items s ! i) \<noteq> q" "dq_queue (zq_queues s ! q) = i # is"
  shows "i \<in> set (zq_work (getAvailableWork s))"
proof -
  note p = core_parts [OF reachable_core [OF assms(1,2)]]
  have q: "q \<in> set (live s)" "q < length (zq_queues s)" using assms(3,5) p(4) by (force simp: live_def live_ok_def)+
  have "filter (\<lambda>(r, i). qof s i = q) (table s) = []" "filter (\<lambda>(i, r, c). \<not> c \<and> qof s i = q) (zq_handlers s) = []"
    "filter (\<lambda>w. wi_caller w = Dropped True \<and> wi_deviceQueue w = q) (zq_items s) = []"
    using assms(4,7-9) by (auto simp: filter_empty_conv table_def qof_def)
  then have "tokens s q = 0" using assms(6) p(2) by (simp add: tokens_def)
  then have idle: "isBusy (zq_queues s ! q) = 0" using p(6) q assms(4) by (auto simp: busy_ok_def)
  obtain js qs where tk: "take_work (live s) (zq_queues s) = (js, qs)" by fastforce
  have "taken_from (qof s) (live s) (zq_queues s) js qs"
    by (rule take_work_spec [OF tk]) (use p(1,4) in \<open>auto simp: live_ok_def queues_ok_def\<close>)
  then have "filter (\<lambda>i. qof s i = q) js @ dq_queue (qs ! q) = i # is" "length (filter (\<lambda>i. qof s i = q) js) = 1"
    using q idle assms(10) unfolding taken_from_def by auto
  then have "i \<in> set (filter (\<lambda>i. qof s i = q) js)" by (cases "filter (\<lambda>i. qof s i = q) js") auto
  moreover have "live s = map snd m" using assms(3) by (simp add: live_def)
  ultimately show ?thesis using tk assms(3,6) by (auto simp: getAvailableWork_def)
qed

section \<open>Order\<close>

text \<open>The items the worker has taken and not yet transmitted.\<close>

definition unsent :: "'j zhal \<Rightarrow> nat list" where
  "unsent s = (if (\<exists>d. zq_stage s = Aborted d) then tl (zq_work s) else zq_work s)"

definition in_order :: "'j zhal \<Rightarrow> bool" where
  "in_order s \<longleftrightarrow> (\<forall>q < length (zq_queues s).
     subseq (filter (\<lambda>i. qof s i = q) (zq_sent s @ unsent s) @ dq_queue (zq_queues s ! q)) (filter (\<lambda>i. qof s i = q) (zq_pushed s))) \<and>
     (\<forall>i \<in> set (zq_sent s) \<union> set (zq_pushed s). i < length (zq_items s))"

text \<open>The fields the order depends on.\<close>

lemma in_order_cong:
  assumes "in_order s" "zq_queues s' = zq_queues s" "qof s' = qof s" "zq_sent s' = zq_sent s" "unsent s' = unsent s" "zq_pushed s' = zq_pushed s"
    and "length (zq_items s') = length (zq_items s)"
  shows "in_order s'"
  using assms(1) unfolding in_order_def assms(2-) .

lemma unsent_frame [simp]: "unsent (upd_item i f s) = unsent s" "unsent (upd_queue q g s) = unsent s"
  by (simp_all add: unsent_def)

lemma qof_frame [simp]:
  "qof (s\<lparr>zq_pushed := a\<rparr>) = qof s" "qof (s\<lparr>zq_sent := a\<rparr>) = qof s" "qof (s\<lparr>zq_handlers := b\<rparr>) = qof s" "qof (s\<lparr>zq_pending := a\<rparr>) = qof s"
  "qof (s\<lparr>zq_answers := c\<rparr>) = qof s" "qof (s\<lparr>asyncRequests := d\<rparr>) = qof s" "qof (s\<lparr>zq_entering := e\<rparr>) = qof s"
  by (simp_all add: qof_def fun_eq_iff)

lemma in_order_busy:
  assumes "in_order s" "\<And>x. dq_queue (g x) = dq_queue x"
  shows "in_order (upd_queue q g s)"
  using assms by (simp add: in_order_def)

lemma in_order_push:
  assumes "in_order s" "ids_ok s" "i < length (zq_items s)"
  shows "in_order (send_push i s)"
proof -
  let ?q = "wi_deviceQueue (zq_items s ! i)"
  have f: "zq_sent (send_push i s) = zq_sent s" "unsent (send_push i s) = unsent s" "zq_pushed (send_push i s) = zq_pushed s @ [i]" "qof (send_push i s) = qof s"
    "length (zq_items (send_push i s)) = length (zq_items s)" "length (zq_queues (send_push i s)) = length (zq_queues s)"
    by (simp_all add: send_push_def) (simp add: unsent_def)
  have "zq_queues (send_push i s) ! q = (if q = ?q then (zq_queues s ! q)\<lparr>dq_queue := dq_queue (zq_queues s ! q) @ [i]\<rparr> else zq_queues s ! q)"
    if "q < length (zq_queues s)" for q using that by (auto simp: send_push_def)
  then show ?thesis using assms unfolding in_order_def f
    by (auto simp: qof_def [of s i] subseq_append' simp flip: append_assoc)
qed

lemma linkedListDelete_subseq: "subseq (snd (linkedListDelete p xs)) xs"
  by (induction xs) (auto split: prod.splits)

lemma in_order_collect:
  assumes "in_order s" "core s" "zq_work s = []"
  shows "in_order (getAvailableWork s)"
proof (cases "deviceQueues s")
  case None
  then show ?thesis using assms(1) by (simp add: getAvailableWork_def)
next
  case (Some m)
  note p = core_parts [OF assms(2)]
  obtain js qs where tk: "take_work (live s) (zq_queues s) = (js, qs)" by fastforce
  let ?t = "getAvailableWork s"
  have t: "zq_queues ?t = qs" "qof ?t = qof s" "zq_sent ?t = zq_sent s" "unsent ?t = js" "zq_pushed ?t = zq_pushed s" "zq_items ?t = zq_items s"
    using Some tk assms(3) by (auto simp: getAvailableWork_def live_def qof_def unsent_def fun_eq_iff)
  have "taken_from (qof s) (live s) (zq_queues s) js qs"
    by (rule take_work_spec [OF tk]) (use p(1,4) in \<open>auto simp: live_ok_def queues_ok_def\<close>)
  then have "length qs = length (zq_queues s)"
    "\<And>q. q < length (zq_queues s) \<Longrightarrow> filter (\<lambda>i. qof s i = q) js @ dq_queue (qs ! q) = dq_queue (zq_queues s ! q)"
    unfolding taken_from_def by auto
  moreover have "unsent s = []" using assms(3) by (simp add: unsent_def)
  ultimately show ?thesis using assms(1) unfolding in_order_def t by simp
qed

lemma in_order_less:
  assumes "in_order s" "qof s' = qof s" "zq_queues s' = zq_queues s" "subseq (zq_sent s' @ unsent s') (zq_sent s @ unsent s)" "zq_pushed s' = zq_pushed s"
    and "length (zq_items s') = length (zq_items s)" "set (zq_sent s') \<subseteq> set (zq_sent s) \<union> set (unsent s)" "\<forall>i \<in> set (unsent s). i < length (zq_items s)"
  shows "in_order s'"
proof -
  have "subseq (filter P (zq_sent s' @ unsent s') @ xs) (filter P (zq_sent s @ unsent s) @ xs)" for P xs
    by (subst subseq_append) (rule subseq_filter [OF assms(4)])
  then show ?thesis using assms(1,7,8) unfolding in_order_def assms(2,3,5,6) by (blast intro: subseq_order.trans)
qed


lemma in_order_send:
  assumes "in_order s" "core s"
  shows "in_order (snd (send_begin J n s))"
proof -
  define s' where "s' = snd (send_begin J n s)"
  have e: "(\<exists>ws. zq_items s' = zq_items s @ ws) \<and> (\<exists>k. zq_queues s' = zq_queues s @ replicate k createDeviceQueue) \<and>
    zq_sent s' = zq_sent s \<and> unsent s' = unsent s \<and> zq_pushed s' = zq_pushed s"
  proof -
    have new: "\<exists>k. [x] = replicate k x" for x :: DeviceQueue by (rule exI [of _ 1]) simp
    show ?thesis unfolding s'_def
      by (auto simp: send_begin_def send_lookup_def createItem_def getNextRequestId_def unsent_def Let_def new
          split: option.splits prod.splits)
  qed
  then obtain ws k where ws: "zq_items s' = zq_items s @ ws" and k: "zq_queues s' = zq_queues s @ replicate k createDeviceQueue"
    and f: "zq_sent s' = zq_sent s" "unsent s' = unsent s" "zq_pushed s' = zq_pushed s" by auto
  note p = core_parts [OF assms(2)]
  have old: "\<forall>i \<in> set (zq_sent s @ unsent s) \<union> set (zq_pushed s). i < length (zq_items s)"
    using assms(1) p(2) by (auto simp: in_order_def work_ok_def unsent_def placed_def dest: list.set_sel(2) split: if_splits)
  have q: "qof s' i = qof s i" if "i < length (zq_items s)" for i using that ws by (simp add: qof_def nth_append)
  have fq: "filter (\<lambda>i. qof s' i = q) (zq_sent s @ unsent s) = filter (\<lambda>i. qof s i = q) (zq_sent s @ unsent s)"
    "filter (\<lambda>i. qof s' i = q) (zq_pushed s) = filter (\<lambda>i. qof s i = q) (zq_pushed s)" for q
    by (rule filter_cong [OF refl], use old q in auto)+
  have less: "qof s i < length (zq_queues s)" if "i < length (zq_items s)" for i using p(5) that by (auto simp: ids_ok_def qof_def)
  have "subseq (filter (\<lambda>i. qof s i = q) (zq_sent s @ unsent s) @ dq_queue (zq_queues s' ! q)) (filter (\<lambda>i. qof s i = q) (zq_pushed s))"
    if "q < length (zq_queues s')" for q
  proof (cases "q < length (zq_queues s)")
    case True
    then show ?thesis using assms(1) k by (simp add: in_order_def nth_append)
  next
    case False
    then have "filter (\<lambda>i. qof s i = q) (zq_sent s @ unsent s) = []" using old less by (auto simp: filter_empty_conv)
    moreover have "dq_queue (zq_queues s' ! q) = []" using False that k by (simp add: nth_append createDeviceQueue_def)
    ultimately show ?thesis by (metis append_Nil list_emb_Nil)
  qed
  moreover have "\<forall>i \<in> set (zq_sent s) \<union> set (zq_pushed s). i < length (zq_items s')" using old ws by (auto simp: ball_Un trans_less_add1)
  ultimately have "in_order s'" unfolding in_order_def f fq by blast
  then show ?thesis by (simp add: s'_def)
qed

lemma in_order_timed_out:
  assumes "in_order s"
  shows "in_order (send_timeout_queue i d s)"
proof -
  let ?t = "send_timeout_queue i d s"
  have t: "zq_sent ?t = zq_sent s" "unsent ?t = unsent s" "zq_pushed ?t = zq_pushed s" "qof ?t = qof s"
    "length (zq_items ?t) = length (zq_items s)" "length (zq_queues ?t) = length (zq_queues s)"
    by (simp_all add: send_timeout_queue_def Let_def split: prod.splits)
  have sub: "subseq (dq_queue (zq_queues ?t ! q)) (dq_queue (zq_queues s ! q))" if "q < length (zq_queues s)" for q
    using that linkedListDelete_subseq [of "\<lambda>x. x = i" "dq_queue (zq_queues s ! q)"]
    by (auto simp: send_timeout_queue_def Let_def split: prod.splits)
  have "subseq (xs @ dq_queue (zq_queues ?t ! q)) (xs @ dq_queue (zq_queues s ! q))" if "q < length (zq_queues s)" for xs q
    using sub [OF that] by (intro list_emb_append_mono) auto
  then show ?thesis using assms unfolding in_order_def t by (blast intro: subseq_order.trans)
qed

lemma unsent_placed: "core s \<Longrightarrow> \<forall>i \<in> set (unsent s). i < length (zq_items s)"
  using core_parts(2) [of s] by (auto simp: work_ok_def unsent_def placed_def dest: list.set_sel(2) split: if_splits)

lemma in_order_work:
  assumes "in_order s" "core s" "zq_work s \<noteq> []"
  shows "zq_stage s = Take \<Longrightarrow> in_order (work_take s)" "zq_stage s = Stored \<Longrightarrow> in_order (work_busy s)"
    "zq_stage s = Transmit \<Longrightarrow> in_order (work_transmit ok s)" "zq_stage s = Aborted d \<Longrightarrow> in_order (work_abort d s)"
proof -
  note less = in_order_less [OF assms(1) _ _ _ _ _ _ unsent_placed [OF assms(2)]]
  obtain i is' where w: "zq_work s = i # is'" using assms(3) by (cases "zq_work s") auto
  have sub: "subseq (xs @ is') (xs @ i # is')" for xs by (intro list_emb_append_mono) auto
  show "in_order (work_take s)" if "zq_stage s = Take"
    by (rule less) (use w that sub in \<open>auto simp: work_take_def next_item_def unsent_def qof_def Let_def fun_eq_iff\<close>)
  show "in_order (work_busy s)" if "zq_stage s = Stored"
  proof -
    let ?t = "upd_queue (wi_deviceQueue (zq_items s ! hd (zq_work s))) (\<lambda>q. q\<lparr>isBusy := isBusy q + 1\<rparr>) s"
    have "in_order ?t" by (rule in_order_busy [OF assms(1)]) simp
    then show ?thesis unfolding work_busy_def
      by (rule in_order_cong) (use that in \<open>simp_all add: unsent_def qof_def fun_eq_iff\<close>)
  qed
  show "in_order (work_transmit ok s)" if "zq_stage s = Transmit"
    by (rule less) (use w that in \<open>auto simp: work_transmit_def next_item_def unsent_def qof_def Let_def fun_eq_iff split: option.splits prod.splits\<close>)
  show "in_order (work_abort d s)" if "zq_stage s = Aborted d"
  proof -
    define u where "u = (if d then clear_busy i s else s)"
    have "in_order u" unfolding u_def clear_busy_def using assms(1) by (simp add: in_order_busy)
    moreover have "unsent u = is'" "zq_work u = i # is'" using that w by (auto simp: u_def clear_busy_def unsent_def)
    moreover have "qof (next_item (signal_item i u)) = qof (signal_item i u)" by (simp add: next_item_def qof_def fun_eq_iff)
    then have "qof (next_item (signal_item i u)) = qof u" by (simp add: signal_item_def)
    moreover have "work_abort d s = next_item (signal_item i u)" by (simp add: work_abort_def u_def w)
    ultimately show ?thesis
      by (auto elim!: in_order_cong simp: signal_item_def next_item_def unsent_def)
  qed
qed


lemma in_order_rest:
  assumes "in_order s"
  shows "in_order (zhalInit h s)" "in_order (send_check e j s)" "in_order (send_timeout_table i s)" "in_order (send_finish J i s)"
    "in_order (response_found J r s)" "in_order (response_clear n s)" "in_order (response_deliver n s)" "in_order (term_stop s)"
    "in_order (term_drain_table s)" "in_order (term_drain_queues s)" "in_order (term_signal s)"
proof -
  have clear: "in_order (clear_busy i s)" for i unfolding clear_busy_def by (rule in_order_busy [OF assms]) simp
  obtain k x c where n: "zq_handlers s ! n = (k, x, c)" by (cases "zq_handlers s ! n") auto
  show "in_order (response_clear n s)" using n
    by (auto simp: response_clear_def unsent_def intro: in_order_cong [OF clear [of k]])
  show "in_order (zhalInit h s)" "in_order (send_check e j s)" "in_order (term_stop s)" "in_order (term_drain_table s)" "in_order (term_drain_queues s)"
    by (rule in_order_cong [OF assms]; auto simp: zhalInit_def send_check_def term_stop_def term_drain_table_def term_drain_queues_def unsent_def qof_def fun_eq_iff; fail)+
  show "in_order (send_timeout_table i s)"
    by (rule in_order_cong [OF assms]) (auto simp: send_timeout_table_def unsent_def split: option.splits prod.splits)
  show "in_order (send_finish J i s)"
    by (rule in_order_cong [OF assms]) (auto simp: send_finish_def report_response_def Let_def unsent_def split: option.splits bool.splits)
  show "in_order (response_found J r s)"
    by (rule in_order_cong [OF assms]) (auto simp: response_found_def unsent_def split: option.splits)
  show "in_order (response_deliver n s)"
    by (rule in_order_cong [OF assms]) (use n in \<open>auto simp: response_deliver_def unsent_def\<close>)
  show "in_order (term_signal s)"
    by (rule in_order_cong [OF assms]) (auto simp: term_signal_def signal_item_def unsent_def split: list.splits)
qed

lemma zq_step_order:
  assumes "zq_step J early s s'" "core s" "in_order s"
  shows "in_order s'"
  using assms(1)
proof (cases rule: zq_step.cases)
  case (push i)
  then show ?thesis using in_order_push [OF assms(3)] core_parts(5) [OF assms(2)] by simp
qed (use assms(2,3) in \<open>auto intro: in_order_rest in_order_send in_order_timed_out in_order_collect in_order_work\<close>)

lemma reachable_in_order:
  assumes "(zq_step J False)\<^sup>*\<^sup>* zq_start s" "length (zq_items s) \<le> 2 ^ 31"
  shows "in_order s"
  using assms
proof (induction)
  case base
  then show ?case by (simp add: in_order_def zq_start_def)
next
  case (step s t)
  have "length (zq_items s) \<le> 2 ^ 31" using items_grow [OF step.hyps(2)] step.prems by linarith
  then show ?case using zq_step_order [OF step.hyps(2) reachable_core [OF step.hyps(1)]] step.IH by blast
qed

text \<open>
  C3. The requests of a device are transmitted in the order they were queued, each at most once; a request
  that times out before it is sent is left out.
\<close>

theorem requests_sent_in_order:
  assumes "(zq_step J False)\<^sup>*\<^sup>* zq_start s" "length (zq_items s) \<le> 2 ^ 31" "q < length (zq_queues s)"
  shows "subseq (filter (\<lambda>i. wi_deviceQueue (zq_items s ! i) = q) (zq_sent s)) (filter (\<lambda>i. wi_deviceQueue (zq_items s ! i) = q) (zq_pushed s))"
proof -
  have "subseq (filter (\<lambda>i. qof s i = q) (zq_sent s @ unsent s) @ dq_queue (zq_queues s ! q)) (filter (\<lambda>i. qof s i = q) (zq_pushed s))"
    using reachable_in_order [OF assms(1,2)] assms(3) by (simp add: in_order_def)
  then have "subseq (filter (\<lambda>i. qof s i = q) (zq_sent s)) (filter (\<lambda>i. qof s i = q) (zq_pushed s))"
    by (auto intro: subseq_order.trans [rotated] simp: prefix_imp_subseq)
  then show ?thesis by (simp add: qof_def)
qed


section \<open>Responses and requests\<close>

definition own_response :: "'j cjson_api \<Rightarrow> 'j WorkItem \<Rightarrow> bool" where
  "own_response J w \<longleftrightarrow> (\<forall>r. wi_response w = Some r \<or> wi_caller w = Returned (Some r) \<longrightarrow> response_id J r = Some (wi_requestId w))"

definition matched :: "'j cjson_api \<Rightarrow> 'j zhal \<Rightarrow> bool" where
  "matched J s \<longleftrightarrow> (\<forall>(i, r, c) \<in> set (zq_handlers s). response_id J r = Some (wi_requestId (zq_items s ! i))) \<and>
     (\<forall>w \<in> set (zq_items s). own_response J w)"

lemma matched_cong:
  assumes "matched J s" "zq_handlers s' = zq_handlers s" "zq_items s' = zq_items s"
  shows "matched J s'"
  using assms(1) unfolding matched_def assms(2,3) .

lemma matched_upd_item:
  assumes "matched J s" "\<And>w. wi_requestId (f w) = wi_requestId w" "i < length (zq_items s)" "own_response J (f (zq_items s ! i))"
  shows "matched J (upd_item i f s)"
proof -
  have "wi_requestId (zq_items (upd_item i f s) ! j) = wi_requestId (zq_items s ! j)" for j
    using assms(2,3) by (cases "i = j") (auto simp: upd_item_def nth_list_update)
  moreover have "\<forall>w \<in> set (zq_items (upd_item i f s)). own_response J w"
    using assms(1,4) set_update_subset_insert [of "zq_items s" i "f (zq_items s ! i)"] by (auto simp: matched_def upd_item_def)
  ultimately show ?thesis using assms(1) by (simp add: matched_def)
qed

lemma matched_own: "matched J s \<Longrightarrow> i < length (zq_items s) \<Longrightarrow> own_response J (zq_items s ! i)"
  by (simp add: matched_def)

lemma matched_signal:
  assumes "matched J s"
  shows "matched J (signal_item i s)"
proof (cases "i < length (zq_items s)")
  case True
  then show ?thesis unfolding signal_item_def
    by (rule matched_upd_item [OF assms, rotated]) (use matched_own [OF assms True] in \<open>auto simp: own_response_def\<close>)
next
  case False
  then show ?thesis using assms by (simp add: signal_item_def upd_item_def list_update_beyond matched_def)
qed

lemma matched_send:
  assumes "matched J s" "core s"
  shows "matched J (snd (send_begin J n s))"
proof -
  let ?t = "snd (send_begin J n s)"
  have "zq_items ?t = zq_items s \<or> (\<exists>w. zq_items ?t = zq_items s @ [w] \<and> own_response J w)" "zq_handlers ?t = zq_handlers s"
    by (auto simp: send_begin_def send_lookup_def createItem_def getNextRequestId_def Let_def own_response_def split: option.splits prod.splits)
  moreover have "\<forall>(i, r, c) \<in> set (zq_handlers s). i < length (zq_items s)" using core_parts(3) [OF assms(2)] by (simp add: table_ok_def)
  ultimately show ?thesis using assms(1) by (fastforce simp: matched_def nth_append)
qed

lemma matched_found:
  assumes "matched J s" "core s"
  shows "matched J (response_found J r s)"
proof (cases "response_found J r s = s")
  case False
  then obtain rid m i where f: "response_id J r = Some rid" "asyncRequests s = Some m" "hashMapGet m rid = Some i"
    by (auto simp: response_found_def split: option.splits)
  then have "(rid, i) \<in> set (table s)" by (auto simp: table_def hashMapGet_def dest: map_of_SomeD)
  then have "rid = of_nat i" "i < length (zq_items s)" using core_parts(3) [OF assms(2)] by (auto simp: table_ok_def placed_def)
  then have "wi_requestId (zq_items s ! i) = rid" using core_parts(5) [OF assms(2)] by (simp add: ids_ok_def)
  then show ?thesis using f assms(1) by (auto simp: response_found_def matched_def)
qed (use assms(1) in simp)

lemma matched_deliver:
  assumes "matched J s" "core s" "n < length (zq_handlers s)"
  shows "matched J (response_deliver n s)"
proof -
  obtain i r c where h: "zq_handlers s ! n = (i, r, c)" by (cases "zq_handlers s ! n") auto
  let ?t = "upd_item i (\<lambda>w. w\<lparr>wi_response := Some r, wi_signaled := True\<rparr>) s"
  have mem: "(i, r, c) \<in> set (zq_handlers s)" using h assms(3) nth_mem by metis
  then have i: "i < length (zq_items s)" "response_id J r = Some (wi_requestId (zq_items s ! i))"
    using assms(1) core_parts(3) [OF assms(2)] by (auto simp: matched_def table_ok_def)
  have "matched J ?t"
    by (rule matched_upd_item [OF assms(1) _ i(1)]) (use matched_own [OF assms(1) i(1)] i(2) in \<open>auto simp: own_response_def\<close>)
  moreover have "set (take n (zq_handlers s) @ drop (Suc n) (zq_handlers s)) \<subseteq> set (zq_handlers s)"
    by (auto dest: in_set_takeD in_set_dropD)
  ultimately show ?thesis by (fastforce simp: response_deliver_def h matched_def)
qed

lemma matched_clear:
  assumes "matched J s" "n < length (zq_handlers s)"
  shows "matched J (response_clear n s)"
proof -
  obtain i r c where h: "zq_handlers s ! n = (i, r, c)" by (cases "zq_handlers s ! n") auto
  then have "(i, r, c) \<in> set (zq_handlers s)" using assms(2) nth_mem by metis
  moreover have "set ((zq_handlers s)[n := (i, r, True)]) \<subseteq> insert (i, r, True) (set (zq_handlers s))" by (rule set_update_subset_insert)
  ultimately show ?thesis using assms(1) by (fastforce simp: response_clear_def h matched_def clear_busy_def)
qed

lemma matched_caller:
  assumes "matched J s" "i < length (zq_items s)"
  shows "matched J (send_push i s)" "matched J (send_timeout_table i s)" "matched J (send_timeout_queue i d s)" "matched J (send_finish J i s)"
proof -
  note own = matched_own [OF assms]
  show "matched J (send_push i s)"
  proof -
    let ?u = "upd_queue (wi_deviceQueue (zq_items s ! i)) (\<lambda>q. q\<lparr>dq_queue := dq_queue q @ [i]\<rparr>) s"
    have "matched J ?u" by (rule matched_cong [OF assms(1)]) simp_all
    then have "matched J (upd_item i (\<lambda>w. w\<lparr>wi_caller := Waiting\<rparr>) ?u)"
      by (rule matched_upd_item) (use assms(2) own in \<open>auto simp: own_response_def\<close>)
    then show ?thesis by (rule matched_cong) (simp_all add: send_push_def)
  qed
  have dropped: "matched J (upd_item i (\<lambda>w. w\<lparr>wi_caller := Dropped b\<rparr>) (s\<lparr>asyncRequests := a\<rparr>))" for a b
    by (rule matched_upd_item [OF matched_cong [OF assms(1)]]) (use assms(2) own in \<open>auto simp: own_response_def\<close>)
  show "matched J (send_timeout_table i s)"
    using dropped [of _ "asyncRequests s"] dropped by (auto simp: send_timeout_table_def split: option.splits prod.splits)
  have gone: "matched J (upd_item i (\<lambda>w. w\<lparr>wi_timedOut := wi_timedOut w \<or> b, wi_caller := Returned None\<rparr>) (upd_queue q g s))" for b q g
    by (rule matched_upd_item [OF matched_cong [OF assms(1)]]) (use assms(2) own in \<open>auto simp: own_response_def\<close>)
  show "matched J (send_timeout_queue i d s)"
    using gone by (auto simp: send_timeout_queue_def Let_def split: prod.splits)
  have "matched J (upd_item i (\<lambda>w. w\<lparr>wi_response := None, wi_caller := Returned (wi_response (zq_items s ! i))\<rparr>) s)"
    by (rule matched_upd_item [OF assms(1) _ assms(2)]) (use own in \<open>auto simp: own_response_def\<close>)
  then show "matched J (send_finish J i s)"
    by (rule matched_cong) (auto simp: send_finish_def report_response_def Let_def split: option.splits bool.splits)
qed

lemma matched_rest:
  assumes "matched J s"
  shows "matched J (zhalInit h s)" "matched J (send_check e j s)" "matched J (getAvailableWork s)" "matched J (work_take s)" "matched J (work_busy s)"
    "matched J (work_transmit ok s)" "matched J (term_stop s)" "matched J (term_drain_table s)" "matched J (term_drain_queues s)"
  by (rule matched_cong [OF assms]; auto simp: zhalInit_def send_check_def getAvailableWork_def work_take_def next_item_def work_busy_def
      work_transmit_def term_stop_def term_drain_table_def term_drain_queues_def Let_def split: option.splits prod.splits; fail)+

lemma matched_abort:
  assumes "matched J s"
  shows "matched J (work_abort d s)"
proof -
  define u where "u = (if d then clear_busy (hd (zq_work s)) s else s)"
  have "matched J u" by (rule matched_cong [OF assms]) (simp_all add: u_def clear_busy_def)
  then have "matched J (signal_item (hd (zq_work s)) u)" by (rule matched_signal)
  then show ?thesis by (rule matched_cong) (simp_all add: work_abort_def u_def next_item_def Let_def)
qed

lemma zq_step_matched:
  assumes "zq_step J early s s'" "core s" "matched J s"
  shows "matched J s'"
  using assms(1)
proof (cases rule: zq_step.cases)
  case (woken i "is")
  have "matched J (s\<lparr>zq_pending := is\<rparr>)" by (rule matched_cong [OF assms(3)]) simp_all
  then show ?thesis using woken matched_signal by (simp add: term_signal_def)
qed (use assms(2,3) in \<open>auto intro: matched_rest matched_send matched_caller matched_found matched_clear matched_deliver matched_abort\<close>)

text \<open>
  C4. A caller gets only a response that carries the id of its own request.
\<close>

theorem responses_match:
  assumes "(zq_step J False)\<^sup>*\<^sup>* zq_start s" "length (zq_items s) \<le> 2 ^ 31" "w \<in> set (zq_items s)" "wi_caller w = Returned (Some r)"
  shows "response_id J r = Some (wi_requestId w)"
proof -
  from assms(1,2) have "matched J s"
  proof (induction)
    case base
    then show ?case by (simp add: matched_def zq_start_def)
  next
    case (step s t)
    have "length (zq_items s) \<le> 2 ^ 31" using items_grow [OF step.hyps(2)] step.prems by linarith
    then show ?case using zq_step_matched [OF step.hyps(2) reachable_core [OF step.hyps(1)]] step.IH by blast
  qed
  then show ?thesis using assms(3,4) by (auto simp: matched_def own_response_def)
qed


section \<open>Shutdown and length\<close>

text \<open>Once the mutex of the queues is left locked it stays so, and there are no queues any more.\<close>

lemma locked_stays:
  assumes "zq_step J early s s'" "queuesLocked s" "deviceQueues s = None"
  shows "queuesLocked s'" "deviceQueues s' = None"
  using assms
  by (cases rule: zq_step.cases;
      auto simp: send_check_def send_push_def send_timeout_table_def send_timeout_queue_def send_finish_def report_response_def upd_item_def upd_queue_def
        work_take_def next_item_def work_busy_def work_transmit_def work_abort_def signal_item_def clear_busy_def response_found_def response_clear_def
        response_deliver_def term_stop_def term_drain_table_def term_drain_queues_def term_signal_def Let_def
        split: option.splits prod.splits bool.splits list.splits; fail)+

text \<open>
  C5. A request that has seen the layer initialised and gets to its queue only after the shutdown returns
  without a result and leaves the mutex of the queues locked; from then on no call of \<^verbatim>\<open>zhalInit\<close> gets
  past it.
\<close>

theorem shutdown_race_keeps_mutex:
  assumes "deviceQueues s = None" "n < length (zq_entering s)" "(zq_step J early)\<^sup>*\<^sup>* (snd (send_begin J n s)) t"
  shows "fst (send_begin J n s) = None \<and> queuesLocked t \<and> deviceQueues t = None"
proof -
  have b: "fst (send_begin J n s) = None" "queuesLocked (snd (send_begin J n s))" "deviceQueues (snd (send_begin J n s)) = None"
    using assms(1) by (auto simp: send_begin_def send_lookup_def Let_def split: prod.splits)
  from assms(3) have "queuesLocked t \<and> deviceQueues t = None"
    by induction (use b locked_stays in blast)+
  with b(1) show ?thesis by simp
qed

text \<open>
  The length that goes with a request has 16 bits: the request is sent whole exactly when it is
  shorter than \<open>2 ^ 16\<close>.
\<close>

theorem request_sent_whole:
  "snd (xmit_payload J w) = cJSON_PrintUnformatted J (wi_request w) \<longleftrightarrow> length (cJSON_PrintUnformatted J (wi_request w)) < 2 ^ 16"
proof -
  let ?p = "cJSON_PrintUnformatted J (wi_request w)"
  have len: "unat (of_nat (length ?p) :: u16) = length ?p mod 2 ^ 16" by (simp add: unsigned_of_nat take_bit_eq_mod)
  have "length ?p < 2 ^ 16" if "take (length ?p mod 2 ^ 16) ?p = ?p"
  proof -
    have "length ?p \<le> length ?p mod 2 ^ 16" using arg_cong [OF that, of length] by (simp add: min_def split: if_splits)
    also have "\<dots> < 2 ^ 16" by simp
    finally show ?thesis .
  qed
  then show ?thesis by (auto simp: xmit_payload_def Let_def len)
qed

section \<open>Runs\<close>

text \<open>An instance of the parameters, and runs up to a queued, a transmitted and an answered request.\<close>

definition example_cjson :: "json cjson_api" where
  "example_cjson = json_api.extend (example_json\<lparr>cJSON_Parse := (\<lambda>t. if t = Some ''ok'' then Some (JObject [(''resultCode'', JNumber 0)]) else None)\<rparr>)
     \<lparr>cJSON_valueint = (\<lambda>j. case j of JNumber n \<Rightarrow> n | _ \<Rightarrow> 0), cJSON_IsNumber = (\<lambda>j. case j of Some (JNumber _) \<Rightarrow> True | _ \<Rightarrow> False),
      cJSON_IsString = (\<lambda>j. case j of Some (JString _) \<Rightarrow> True | _ \<Rightarrow> False), cJSON_IsBool = (\<lambda>j. case j of Some (JBool _) \<Rightarrow> True | _ \<Rightarrow> False),
      cJSON_IsTrue = (\<lambda>j. j = Some (JBool True)), cJSON_CreateArray = JObject [],
      cJSON_AddItemToArray = (\<lambda>a j. JObject (json_fields a @ [('''', j)])),
      cJSON_DeleteItemFromObject = (\<lambda>j k. JObject (filter (\<lambda>(n, _). lower n \<noteq> lower k) (json_fields j))),
      set_item_string = (\<lambda>j k v. JObject (map (\<lambda>(n, x). (n, if lower n = lower k then JString v else x)) (json_fields j))),
      cJSON_PrintUnformatted = (\<lambda>_. ''{}'')\<rparr>"

definition example_io :: xmit_io where
  "example_io = \<lparr>io_socket = True, io_connect = True, io_send_length = True, io_send_payload = True, io_recv_length = Some 2, io_recv = Some ''ok''\<rparr>"

definition example_response :: json where
  "example_response = JObject [(''requestId'', JNumber 0), (''responseType'', JString ''ack''), (''resultCode'', JNumber 0)]"

definition run_begun :: "json zhal" where
  "run_begun = snd (send_begin example_cjson 0 (send_check 7 (Some (JObject [])) (zhalInit True zq_start)))"

definition run_queued :: "json zhal" where "run_queued = send_push 0 run_begun"

definition run_sent :: "json zhal" where
  "run_sent = work_transmit True (work_busy (work_take (getAvailableWork run_queued)))"

definition run_answered :: "json zhal" where
  "run_answered = send_finish example_cjson 0 (response_deliver 0 (response_clear 0 (response_found example_cjson example_response run_sent)))"

lemma run_queued_reachable: "(zq_step example_cjson False)\<^sup>*\<^sup>* zq_start run_queued"
proof -
  let ?s = "zhalInit True zq_start" and ?step = "zq_step example_cjson False"
  have "?step zq_start ?s" by (rule zq_step.start) (simp_all add: zq_start_def)
  moreover have "?step ?s (send_check 7 (Some (JObject [])) ?s)" by (rule zq_step.entered)
  moreover have "?step (send_check 7 (Some (JObject [])) ?s) run_begun" unfolding run_begun_def by (rule zq_step.send) code_simp+
  moreover have "?step run_begun run_queued" unfolding run_queued_def by (rule zq_step.push) code_simp+
  ultimately show ?thesis by (meson r_into_rtranclp rtranclp_trans)
qed

lemma run_sent_reachable: "(zq_step example_cjson False)\<^sup>*\<^sup>* zq_start run_sent"
proof -
  let ?step = "zq_step example_cjson False"
  have ok: "xmit example_cjson example_io = True" by code_simp
  have "?step run_queued (getAvailableWork run_queued)" by (rule zq_step.collect) code_simp+
  moreover have "?step (getAvailableWork run_queued) (work_take (getAvailableWork run_queued))"
    by (rule zq_step.item_taken) (code_simp | simp add: caller_holds_def, code_simp)+
  moreover have "?step (work_take (getAvailableWork run_queued)) (work_busy (work_take (getAvailableWork run_queued)))"
    by (rule zq_step.made_busy) code_simp+
  moreover have "?step (work_busy (work_take (getAvailableWork run_queued))) run_sent"
    unfolding run_sent_def ok [symmetric] by (rule zq_step.transmitted) code_simp+
  ultimately show ?thesis using run_queued_reachable by (meson rtranclp.rtrancl_into_rtrancl)
qed


lemma run_answered_reachable: "(zq_step example_cjson False)\<^sup>*\<^sup>* zq_start run_answered"
proof -
  let ?step = "zq_step example_cjson False" and ?s = "response_found example_cjson example_response run_sent"
  have "?step run_sent ?s" by (rule zq_step.response) code_simp
  moreover have "?step ?s (response_clear 0 ?s)" by (rule zq_step.cleared [where i = 0 and r = example_response]) code_simp+
  moreover have "?step (response_clear 0 ?s) (response_deliver 0 (response_clear 0 ?s))"
    by (rule zq_step.delivered [where i = 0 and r = example_response]) (code_simp | simp add: caller_holds_def worker_holds_def, code_simp)+
  moreover have "?step (response_deliver 0 (response_clear 0 ?s)) run_answered"
    unfolding run_answered_def by (rule zq_step.answered) (code_simp | simp add: worker_holds_def, code_simp)+
  ultimately show ?thesis using run_sent_reachable by (meson rtranclp.rtrancl_into_rtrancl)
qed

lemma run_values:
  "length (zq_items run_queued) = 1" "deviceQueues run_queued = Some [(7, 0)]" "asyncRequests run_queued = Some []"
  "zq_work run_queued = []" "zq_handlers run_queued = []" "map wi_caller (zq_items run_queued) = [Waiting]" "dq_queue (zq_queues run_queued ! 0) = [0]"
  "length (zq_items run_sent) = 1" "deviceQueues run_sent = Some [(7, 0)]" "asyncRequests run_sent = Some [(0, 0)]" "isBusy (zq_queues run_sent ! 0) = 1"
  "length (zq_queues run_sent) = 1" "zq_sent run_sent = [0]" "zq_pushed run_sent = [0]" "map wi_deviceQueue (zq_items run_sent) = [0]"
  "length (zq_items run_answered) = 1" "wi_caller (zq_items run_answered ! 0) = Returned (Some example_response)" "wi_requestId (zq_items run_answered ! 0) = 0"
  by code_simp+

theorem one_request_per_device_witness:
  "isBusy (zq_queues run_sent ! 0) = 1 \<and> length (filter (\<lambda>(rid, i). wi_deviceQueue (zq_items run_sent ! i) = 0) [(0 :: u32, 0)]) \<le> 1"
  using one_request_per_device [OF run_sent_reachable _ run_values(9,10), of 7 0] run_values(8,11) by simp

theorem idle_device_is_served_witness: "0 \<in> set (zq_work (getAvailableWork run_queued))"
proof -
  have "\<forall>w \<in> set (zq_items run_queued). wi_caller w = Waiting" using run_values(6) by (auto simp: map_eq_Cons_conv)
  then show ?thesis
    using idle_device_is_served [OF run_queued_reachable _ run_values(2,3) _ run_values(4) _ _ _ run_values(7), of 7] run_values(1,5) by simp
qed

theorem requests_sent_in_order_witness:
  "subseq (filter (\<lambda>i. wi_deviceQueue (zq_items run_sent ! i) = 0) [0]) (filter (\<lambda>i. wi_deviceQueue (zq_items run_sent ! i) = 0) [0])"
  using requests_sent_in_order [OF run_sent_reachable, of 0] run_values(8,12-14) by simp

theorem responses_match_witness: "response_id example_cjson example_response = Some (wi_requestId (zq_items run_answered ! 0))"
  by (rule responses_match [OF run_answered_reachable]) (use run_values in auto)

definition run_stopped :: "json zhal" where
  "run_stopped = term_drain_queues (term_drain_table (term_stop (send_check 7 (Some (JObject [])) (zhalInit True zq_start))))"

theorem shutdown_race_keeps_mutex_witness:
  "(zq_step example_cjson False)\<^sup>*\<^sup>* zq_start run_stopped \<and> fst (send_begin example_cjson 0 run_stopped) = None \<and>
    queuesLocked (snd (send_begin example_cjson 0 run_stopped))"
proof -
  let ?s = "zhalInit True zq_start" and ?step = "zq_step example_cjson False"
  let ?e = "send_check 7 (Some (JObject [])) ?s"
  have "?step zq_start ?s" by (rule zq_step.start) (simp_all add: zq_start_def)
  moreover have "?step ?s ?e" by (rule zq_step.entered)
  moreover have "?step ?e (term_stop ?e)" by (rule zq_step.stop) code_simp
  moreover have "?step (term_stop ?e) (term_drain_table (term_stop ?e))" by (rule zq_step.drain_table) code_simp+
  moreover have "?step (term_drain_table (term_stop ?e)) run_stopped" unfolding run_stopped_def by (rule zq_step.drain_queues) code_simp+
  ultimately have "?step\<^sup>*\<^sup>* zq_start run_stopped" by (meson r_into_rtranclp rtranclp_trans)
  moreover have "deviceQueues run_stopped = None" "0 < length (zq_entering run_stopped)" by code_simp+
  ultimately show ?thesis using shutdown_race_keeps_mutex [OF _ _ rtranclp.rtrancl_refl] by blast
qed

end
