(* ===== verification/Zhal_Events.thy ===== *)
theory Zhal_Events
  imports Zhal_Queue Version_Utils
begin

text \<open>
  The events of the Zigbee process, \<^verbatim>\<open>core/src/zhal/c/src/zhalEventHandler.c\<close>, and the receiver that hands
  packets to it, \<^verbatim>\<open>zhalAsyncReceiver.c\<close>. An event is a JSON object; the handler picks its fields and calls
  one of the callbacks the subsystem has registered. A callback is a value of \<open>zhal_call\<close> in the
  log. A fault, the use of a \<^verbatim>\<open>NULL\<close> string or of callbacks that are gone, is \<open>None\<close>.
\<close>

section \<open>Data\<close>

datatype zhalDeviceType = deviceTypeUnknown | deviceTypeEndDevice | deviceTypeRouter
datatype zhalPowerSource = powerSourceUnknown | powerSourceMains | powerSourceBattery

datatype zhalOtaEventType =
    ZHAL_OTA_INVALID_EVENT
  | ZHAL_OTA_LEGACY_BOOTLOAD_UPGRADE_STARTED_EVENT
  | ZHAL_OTA_LEGACY_BOOTLOAD_UPGRADE_FAILED_EVENT
  | ZHAL_OTA_LEGACY_BOOTLOAD_UPGRADE_COMPLETED_EVENT
  | ZHAL_OTA_IMAGE_NOTIFY_EVENT
  | ZHAL_OTA_QUERY_NEXT_IMAGE_REQUEST_EVENT
  | ZHAL_OTA_QUERY_NEXT_IMAGE_RESPONSE_EVENT
  | ZHAL_OTA_UPGRADE_STARTED_EVENT
  | ZHAL_OTA_IMAGE_BLOCK_REQUEST_EVENT
  | ZHAL_OTA_IMAGE_BLOCK_RESPONSE_EVENT
  | ZHAL_OTA_UPGRADE_END_REQUEST_EVENT
  | ZHAL_OTA_UPGRADE_END_RESPONSE_EVENT

text \<open>\<^verbatim>\<open>reportDataLen\<close> and \<^verbatim>\<open>commandDataLen\<close> are the lengths of the data; \<^verbatim>\<open>rssi\<close> is signed.\<close>

record ReceivedAttributeReport =
  ar_eui64 :: u64
  ar_sourceEndpoint :: u8
  ar_clusterId :: u16
  ar_reportData :: "u8 list"
  ar_rssi :: u8
  ar_lqi :: u8
  ar_mfgId :: u16

record ReceivedClusterCommand =
  cc_eui64 :: u64
  cc_sourceEndpoint :: u8
  cc_profileId :: u16
  cc_clusterId :: u16
  cc_fromServer :: bool
  cc_commandId :: u8
  cc_mfgSpecific :: bool
  cc_mfgCode :: u16
  cc_seqNum :: u8
  cc_apsSeqNum :: u8
  cc_rssi :: u8
  cc_lqi :: u8
  cc_commandData :: "u8 list"

record OtaUpgradeEvent =
  ota_eui64 :: u64
  ota_timestamp :: u64
  ota_eventType :: zhalOtaEventType
  ota_buffer :: "u8 list"
  ota_sentStatus :: "int option"

text \<open>Which callbacks are set, and the calls that are made.\<close>

record zhalCallbacks =
  cb_startup :: bool
  cb_deviceAnnounced :: bool
  cb_deviceJoined :: bool
  cb_deviceRejoined :: bool
  cb_linkKeyUpdated :: bool
  cb_apsAckFailure :: bool
  cb_attributeReportReceived :: bool
  cb_clusterCommandReceived :: bool
  cb_deviceOtaUpgradeMessageSent :: bool
  cb_deviceOtaUpgradeMessageReceived :: bool
  cb_deviceCommunicationSucceeded :: bool
  cb_deviceCommunicationFailed :: bool
  cb_networkConfigChanged :: bool
  cb_networkHealthProblem :: bool
  cb_networkHealthProblemRestored :: bool
  cb_panIdAttackDetected :: bool
  cb_panIdAttackCleared :: bool
  cb_beaconReceived :: bool

datatype zhal_call =
    Startup
  | DeviceAnnounced u64 zhalDeviceType zhalPowerSource
  | DeviceJoined u64
  | DeviceRejoined u64 bool
  | LinkKeyUpdated u64 bool
  | ApsAckFailure u64
  | AttributeReportReceived ReceivedAttributeReport
  | ClusterCommandReceived ReceivedClusterCommand
  | DeviceOtaUpgradeMessageSent OtaUpgradeEvent
  | DeviceOtaUpgradeMessageReceived OtaUpgradeEvent
  | DeviceCommunicationSucceeded u64
  | DeviceCommunicationFailed u64
  | NetworkConfigChanged cstr
  | NetworkHealthProblem
  | NetworkHealthProblemRestored
  | PanIdAttackDetected
  | PanIdAttackCleared
  | BeaconReceived u64 u16 bool bool bool u8

record zevents =
  lastApsSeqNums :: "(u64, u8) hmap option"
  callbacks :: "zhalCallbacks option"
  ze_calls :: "zhal_call list"

text \<open>
  What the code calls outside: \<^verbatim>\<open>stringToUnsignedNumberWithinRange\<close> with a base and the whole range of 64 bits,
  \<^verbatim>\<open>icDecodeBase64\<close>, and the value an uninitialised \<^verbatim>\<open>eui64\<close> on the stack happens to have.
\<close>

record zevent_api =
  stringToUnsigned :: "cstr \<Rightarrow> nat \<Rightarrow> u64 option"
  icDecodeBase64 :: "cstr \<Rightarrow> u8 list option"
  stack_eui64 :: u64

fun callback_set :: "zhalCallbacks \<Rightarrow> zhal_call \<Rightarrow> bool" where
  "callback_set cb Startup = cb_startup cb"
| "callback_set cb (DeviceAnnounced _ _ _) = cb_deviceAnnounced cb"
| "callback_set cb (DeviceJoined _) = cb_deviceJoined cb"
| "callback_set cb (DeviceRejoined _ _) = cb_deviceRejoined cb"
| "callback_set cb (LinkKeyUpdated _ _) = cb_linkKeyUpdated cb"
| "callback_set cb (ApsAckFailure _) = cb_apsAckFailure cb"
| "callback_set cb (AttributeReportReceived _) = cb_attributeReportReceived cb"
| "callback_set cb (ClusterCommandReceived _) = cb_clusterCommandReceived cb"
| "callback_set cb (DeviceOtaUpgradeMessageSent _) = cb_deviceOtaUpgradeMessageSent cb"
| "callback_set cb (DeviceOtaUpgradeMessageReceived _) = cb_deviceOtaUpgradeMessageReceived cb"
| "callback_set cb (DeviceCommunicationSucceeded _) = cb_deviceCommunicationSucceeded cb"
| "callback_set cb (DeviceCommunicationFailed _) = cb_deviceCommunicationFailed cb"
| "callback_set cb (NetworkConfigChanged _) = cb_networkConfigChanged cb"
| "callback_set cb NetworkHealthProblem = cb_networkHealthProblem cb"
| "callback_set cb NetworkHealthProblemRestored = cb_networkHealthProblemRestored cb"
| "callback_set cb PanIdAttackDetected = cb_panIdAttackDetected cb"
| "callback_set cb PanIdAttackCleared = cb_panIdAttackCleared cb"
| "callback_set cb (BeaconReceived _ _ _ _ _ _) = cb_beaconReceived cb"

text \<open>A call through a pointer that is not set, of the structure or in it, is a fault.\<close>

definition call :: "zhal_call \<Rightarrow> zevents \<Rightarrow> zevents option" where
  "call c s = (case callbacks s of None \<Rightarrow> None
     | Some cb \<Rightarrow> if callback_set cb c then Some (s\<lparr>ze_calls := ze_calls s @ [c]\<rparr>) else None)"

text \<open>
  \<^verbatim>\<open>sscanf\<close> with the hexadecimal format of 64 bits on the characters it may use: an optional sign and prefix,
  then digits; a value that is too large becomes the largest one. With \<^verbatim>\<open>%016\<close> these are at most 16
  characters after white space. Without a digit the target keeps the value it had.
\<close>

definition parse_hex :: "string \<Rightarrow> u64 option" where
  "parse_hex t1 =
     (let neg = (t1 \<noteq> [] \<and> hd t1 = CHR ''-'');
          t2 = (if t1 \<noteq> [] \<and> hd t1 \<in> {CHR ''-'', CHR ''+''} then tl t1 else t1);
          t3 = (if take 2 t2 = ''0x'' \<or> take 2 t2 = ''0X'' then drop 2 t2 else t2);
          ds = hex_prefix t3; n = foldl (\<lambda>n d. 16 * n + int d) 0 ds
      in if ds = [] then None else Some (if n \<ge> 2 ^ 64 then - 1 else if neg then - word_of_int n else word_of_int n))"

definition scan_hex64 :: "string \<Rightarrow> u64 option" where
  "scan_hex64 t = parse_hex (take 16 (dropWhile is_space t))"

definition sscanf_eui64 :: "cstr \<Rightarrow> u64 \<Rightarrow> u64 option" where
  "sscanf_eui64 str before = map_option (\<lambda>t. case scan_hex64 t of None \<Rightarrow> before | Some v \<Rightarrow> v) str"

text \<open>The fields of an event, when it has all of them; \<^verbatim>\<open>strcmp\<close> of a field.\<close>

definition fields :: "'j cjson_api \<Rightarrow> 'j \<Rightarrow> string list \<Rightarrow> 'j list option" where
  "fields J event names = those (map (cJSON_GetObjectItem J event) names)"

section \<open>Sequence numbers\<close>

definition zhalEventHandlerInit :: "zevents \<Rightarrow> zevents" where
  "zhalEventHandlerInit s = s\<lparr>lastApsSeqNums := Some []\<rparr>"

definition zhalEventHandlerTerm :: "zevents \<Rightarrow> zevents" where
  "zhalEventHandlerTerm s = s\<lparr>lastApsSeqNums := None\<rparr>"

definition isDuplicateApsSequenceNumber :: "u64 \<Rightarrow> u8 \<Rightarrow> (u64, u8) hmap option \<Rightarrow> bool \<times> (u64, u8) hmap option" where
  "isDuplicateApsSequenceNumber eui64 apsSeqNum seqs =
     (case seqs of None \<Rightarrow> (False, None)
      | Some m \<Rightarrow> (case hashMapGet m eui64 of
          Some lastSeqNum \<Rightarrow> if lastSeqNum = apsSeqNum then (True, Some m)
            else (False, Some (snd (hashMapPut (snd (hashMapDelete m eui64)) eui64 apsSeqNum)))
        | None \<Rightarrow> (False, Some (snd (hashMapPut m eui64 apsSeqNum)))))"


section \<open>Handlers\<close>

text \<open>
  A command is dropped when its sequence number is the last one of its device. It is remembered before
  its data is decoded.
\<close>

definition handleClusterCommandReceived :: "'j cjson_api \<Rightarrow> zevent_api \<Rightarrow> 'j \<Rightarrow> zevents \<Rightarrow> zevents option" where
  "handleClusterCommandReceived J X event s =
     (case fields J event [''eui64'', ''sourceEndpoint'', ''profileId'', ''direction'', ''clusterId'', ''commandId'', ''mfgSpecific'',
          ''mfgCode'', ''seqNum'', ''apsSeqNum'', ''rssi'', ''lqi'', ''encodedBuf''] of
        Some [eui64Json, sourceEndpointJson, profileIdJson, directionJson, clusterIdJson, commandIdJson, mfgSpecificJson,
            mfgCodeJson, seqNumJson, apsSeqNumJson, rssiJson, lqiJson, encodedBufJson] \<Rightarrow>
          (case stringToUnsigned X (cJSON_valuestring J eui64Json) 16 of None \<Rightarrow> Some s
           | Some eui64 \<Rightarrow> (case isDuplicateApsSequenceNumber eui64 (word_of_int (cJSON_valueint J apsSeqNumJson)) (lastApsSeqNums s) of
               (True, m) \<Rightarrow> Some (s\<lparr>lastApsSeqNums := m\<rparr>)
             | (False, m) \<Rightarrow> (case icDecodeBase64 X (cJSON_valuestring J encodedBufJson) of None \<Rightarrow> Some (s\<lparr>lastApsSeqNums := m\<rparr>)
                 | Some bytes \<Rightarrow> call (ClusterCommandReceived \<lparr>cc_eui64 = eui64, cc_sourceEndpoint = word_of_int (cJSON_valueint J sourceEndpointJson),
                     cc_profileId = word_of_int (cJSON_valueint J profileIdJson), cc_clusterId = word_of_int (cJSON_valueint J clusterIdJson),
                     cc_fromServer = (cJSON_valueint J directionJson = 1), cc_commandId = word_of_int (cJSON_valueint J commandIdJson),
                     cc_mfgSpecific = ((word_of_int (cJSON_valueint J mfgSpecificJson) :: u8) \<noteq> 0),
                     cc_mfgCode = word_of_int (cJSON_valueint J mfgCodeJson), cc_seqNum = word_of_int (cJSON_valueint J seqNumJson),
                     cc_apsSeqNum = word_of_int (cJSON_valueint J apsSeqNumJson), cc_rssi = word_of_int (cJSON_valueint J rssiJson),
                     cc_lqi = word_of_int (cJSON_valueint J lqiJson), cc_commandData = bytes\<rparr>) (s\<lparr>lastApsSeqNums := m\<rparr>))))
      | _ \<Rightarrow> Some s)"

definition handleAttributeReportReceived :: "'j cjson_api \<Rightarrow> zevent_api \<Rightarrow> 'j \<Rightarrow> zevents \<Rightarrow> zevents option" where
  "handleAttributeReportReceived J X event s =
     (case fields J event [''eui64'', ''sourceEndpoint'', ''clusterId'', ''encodedBuf'', ''rssi'', ''lqi''] of
        Some [eui64Json, sourceEndpointJson, clusterIdJson, encodedBufJson, rssiJson, lqiJson] \<Rightarrow> do {
          eui64 \<leftarrow> sscanf_eui64 (cJSON_valuestring J eui64Json) 0;
          case icDecodeBase64 X (cJSON_valuestring J encodedBufJson) of None \<Rightarrow> Some s
          | Some bytes \<Rightarrow> call (AttributeReportReceived \<lparr>ar_eui64 = eui64, ar_sourceEndpoint = word_of_int (cJSON_valueint J sourceEndpointJson),
              ar_clusterId = word_of_int (cJSON_valueint J clusterIdJson), ar_reportData = bytes, ar_rssi = word_of_int (cJSON_valueint J rssiJson),
              ar_lqi = word_of_int (cJSON_valueint J lqiJson),
              ar_mfgId = (case cJSON_GetObjectItem J event ''mfgCode'' of None \<Rightarrow> 0 | Some m \<Rightarrow> word_of_int (cJSON_valueint J m))\<rparr>) s }
      | _ \<Rightarrow> Some s)"

definition ota_event_type :: "string \<Rightarrow> zhalOtaEventType" where
  "ota_event_type t =
     (if t = ''imageNotifySent'' then ZHAL_OTA_IMAGE_NOTIFY_EVENT
      else if t = ''queryNextImageRequest'' then ZHAL_OTA_QUERY_NEXT_IMAGE_REQUEST_EVENT
      else if t = ''queryNextImageResponseSent'' then ZHAL_OTA_QUERY_NEXT_IMAGE_RESPONSE_EVENT
      else if t = ''upgradeStarted'' then ZHAL_OTA_UPGRADE_STARTED_EVENT
      else if t = ''upgradeEndRequest'' then ZHAL_OTA_UPGRADE_END_REQUEST_EVENT
      else if t = ''upgradeEndResponseSent'' then ZHAL_OTA_UPGRADE_END_RESPONSE_EVENT
      else if t = ''legacyBootloadUpgradeStarted'' then ZHAL_OTA_LEGACY_BOOTLOAD_UPGRADE_STARTED_EVENT
      else if t = ''legacyBootloadUpgradeFailed'' then ZHAL_OTA_LEGACY_BOOTLOAD_UPGRADE_FAILED_EVENT
      else if t = ''legacyBootloadUpgradeCompleted'' then ZHAL_OTA_LEGACY_BOOTLOAD_UPGRADE_COMPLETED_EVENT
      else ZHAL_OTA_INVALID_EVENT)"

definition parseOtaUpgradeMessageEventJson :: "'j cjson_api \<Rightarrow> zevent_api \<Rightarrow> 'j \<Rightarrow> OtaUpgradeEvent option" where
  "parseOtaUpgradeMessageEventJson J X event =
     (case fields J event [''otaEventType'', ''eui64'', ''timestamp'', ''encodedBuf''] of
        Some [otaEventTypeJson, eui64Json, timestampJson, encodedBufJson] \<Rightarrow> do {
          type \<leftarrow> cJSON_valuestring J otaEventTypeJson;
          eui64Str \<leftarrow> cJSON_valuestring J eui64Json;
          timestampStr \<leftarrow> cJSON_valuestring J timestampJson;
          eui64 \<leftarrow> stringToUnsigned X (Some eui64Str) 16;
          timestamp \<leftarrow> stringToUnsigned X (Some timestampStr) 10;
          buffer \<leftarrow> icDecodeBase64 X (cJSON_valuestring J encodedBufJson);
          Some \<lparr>ota_eui64 = eui64, ota_timestamp = timestamp, ota_eventType = ota_event_type type, ota_buffer = buffer,
            ota_sentStatus = map_option (cJSON_valueint J) (cJSON_GetObjectItem J event ''sentStatus'')\<rparr> }
      | _ \<Rightarrow> None)"

definition handleOtaUpgradeMessageSentEventReceived :: "'j cjson_api \<Rightarrow> zevent_api \<Rightarrow> 'j \<Rightarrow> zevents \<Rightarrow> zevents option" where
  "handleOtaUpgradeMessageSentEventReceived J X event s =
     (case parseOtaUpgradeMessageEventJson J X event of None \<Rightarrow> Some s
      | Some otaEvent \<Rightarrow>
          if ota_eventType otaEvent \<in> {ZHAL_OTA_IMAGE_NOTIFY_EVENT, ZHAL_OTA_QUERY_NEXT_IMAGE_RESPONSE_EVENT, ZHAL_OTA_UPGRADE_END_RESPONSE_EVENT}
          then (if ota_sentStatus otaEvent = None then Some s else call (DeviceOtaUpgradeMessageSent otaEvent) s)
          else Some s)"

definition handleOtaUpgradeMessageReceivedEventReceived :: "'j cjson_api \<Rightarrow> zevent_api \<Rightarrow> 'j \<Rightarrow> zevents \<Rightarrow> zevents option" where
  "handleOtaUpgradeMessageReceivedEventReceived J X event s =
     (case parseOtaUpgradeMessageEventJson J X event of None \<Rightarrow> Some s
      | Some otaEvent \<Rightarrow>
          if ota_eventType otaEvent \<in> {ZHAL_OTA_LEGACY_BOOTLOAD_UPGRADE_STARTED_EVENT, ZHAL_OTA_LEGACY_BOOTLOAD_UPGRADE_FAILED_EVENT,
            ZHAL_OTA_LEGACY_BOOTLOAD_UPGRADE_COMPLETED_EVENT, ZHAL_OTA_QUERY_NEXT_IMAGE_REQUEST_EVENT, ZHAL_OTA_UPGRADE_STARTED_EVENT,
            ZHAL_OTA_UPGRADE_END_REQUEST_EVENT}
          then call (DeviceOtaUpgradeMessageReceived otaEvent) s else Some s)"

definition handleDeviceCommunicationSucceededEventReceived :: "'j cjson_api \<Rightarrow> 'j \<Rightarrow> zevents \<Rightarrow> zevents option" where
  "handleDeviceCommunicationSucceededEventReceived J event s =
     (case cJSON_GetObjectItem J event ''eui64'' of None \<Rightarrow> Some s
      | Some eui64Json \<Rightarrow> do { eui64 \<leftarrow> sscanf_eui64 (cJSON_valuestring J eui64Json) 0; call (DeviceCommunicationSucceeded eui64) s })"

definition handleDeviceCommunicationFailedEventRecieved :: "'j cjson_api \<Rightarrow> 'j \<Rightarrow> zevents \<Rightarrow> zevents option" where
  "handleDeviceCommunicationFailedEventRecieved J event s =
     (case cJSON_GetObjectItem J event ''eui64'' of None \<Rightarrow> Some s
      | Some eui64Json \<Rightarrow> do { eui64 \<leftarrow> sscanf_eui64 (cJSON_valuestring J eui64Json) 0; call (DeviceCommunicationFailed eui64) s })"

definition handleDeviceAnnounced :: "'j cjson_api \<Rightarrow> zevent_api \<Rightarrow> 'j \<Rightarrow> zevents \<Rightarrow> zevents option" where
  "handleDeviceAnnounced J X event s =
     (case fields J event [''eui64'', ''deviceType'', ''powerSource''] of
        Some [eui64Json, deviceTypeJson, powerSourceJson] \<Rightarrow> do {
          eui64 \<leftarrow> sscanf_eui64 (cJSON_valuestring J eui64Json) (stack_eui64 X);
          deviceType \<leftarrow> cJSON_valuestring J deviceTypeJson;
          powerSource \<leftarrow> cJSON_valuestring J powerSourceJson;
          call (DeviceAnnounced eui64
            (if deviceType = ''endDevice'' then deviceTypeEndDevice else if deviceType = ''router'' then deviceTypeRouter else deviceTypeUnknown)
            (if powerSource = ''mains'' then powerSourceMains else if powerSource = ''battery'' then powerSourceBattery else powerSourceUnknown)) s }
      | _ \<Rightarrow> Some s)"

definition handleDeviceRejoinedEventReceived :: "'j cjson_api \<Rightarrow> zevent_api \<Rightarrow> 'j \<Rightarrow> zevents \<Rightarrow> zevents option" where
  "handleDeviceRejoinedEventReceived J X event s =
     (case fields J event [''eui64'', ''isSecure''] of
        Some [eui64Json, isSecureJson] \<Rightarrow> do {
          eui64 \<leftarrow> sscanf_eui64 (cJSON_valuestring J eui64Json) (stack_eui64 X);
          call (DeviceRejoined eui64 (cJSON_IsBool J (Some isSecureJson) \<and> cJSON_IsTrue J (Some isSecureJson))) s }
      | _ \<Rightarrow> Some s)"

definition handleLinkKeyUpdatedEventReceived :: "'j cjson_api \<Rightarrow> zevent_api \<Rightarrow> 'j \<Rightarrow> zevents \<Rightarrow> zevents option" where
  "handleLinkKeyUpdatedEventReceived J X event s =
     (case cJSON_GetObjectItem J event ''eui64'' of None \<Rightarrow> Some s
      | Some eui64Json \<Rightarrow> do {
          eui64 \<leftarrow> sscanf_eui64 (cJSON_valuestring J eui64Json) (stack_eui64 X);
          call (LinkKeyUpdated eui64 (case cJSON_GetObjectItem J event ''isUsingHashBasedKey'' of None \<Rightarrow> False
            | Some k \<Rightarrow> cJSON_IsBool J (Some k) \<and> cJSON_IsTrue J (Some k))) s })"

definition handleBeaconEventReceived :: "'j cjson_api \<Rightarrow> zevent_api \<Rightarrow> 'j \<Rightarrow> zevents \<Rightarrow> zevents option" where
  "handleBeaconEventReceived J X event s =
     (case fields J event [''eui64'', ''panId'', ''isOpen'', ''hasEndDeviceCapacity'', ''hasRouterCapacity'', ''depth''] of
        Some [eui64Json, panIdJson, isOpenJson, hasEndDeviceCapacityJson, hasRouterCapacityJson, depthJson] \<Rightarrow>
          (case stringToUnsigned X (cJSON_valuestring J eui64Json) 16 of None \<Rightarrow> Some s
           | Some eui64 \<Rightarrow> let panId = cJSON_valueint J panIdJson; depth = cJSON_valueint J depthJson
               in if 0 \<le> panId \<and> panId \<le> 65535 \<and> 0 \<le> depth \<and> depth \<le> 255
                  then call (BeaconReceived eui64 (word_of_int panId) (cJSON_IsTrue J (Some isOpenJson)) (cJSON_IsTrue J (Some hasEndDeviceCapacityJson))
                    (cJSON_IsTrue J (Some hasRouterCapacityJson)) (word_of_int depth)) s
                  else Some s)
      | _ \<Rightarrow> Some s)"


text \<open>
  The dispatch. Without callbacks, after \<^verbatim>\<open>zhalTerm\<close>, every event with a type is a fault: a branch reads them, at
  the latest the last one. The result tells whether the event is freed here.
\<close>

definition dispatch_event :: "'j cjson_api \<Rightarrow> util_api \<Rightarrow> zevent_api \<Rightarrow> string \<Rightarrow> zhalCallbacks \<Rightarrow> 'j \<Rightarrow> zevents \<Rightarrow> zevents option" where
  "dispatch_event J U X t cb event s =
     (if t = ''zhalStartup'' \<and> cb_startup cb then call Startup s
     else if t = ''networkConfigChanged'' \<and> cb_networkConfigChanged cb
       then (case cJSON_GetObjectItem J event ''networkConfigData'' of None \<Rightarrow> Some s
         | Some data \<Rightarrow> call (NetworkConfigChanged (cJSON_valuestring J data)) s)
     else if t = ''deviceAnnounced'' \<and> cb_deviceAnnounced cb then handleDeviceAnnounced J X event s
     else if t = ''deviceJoined'' \<and> cb_deviceJoined cb
       then (case cJSON_GetObjectItem J event ''eui64'' of None \<Rightarrow> Some s
         | Some data \<Rightarrow> do { eui64 \<leftarrow> sscanf_eui64 (cJSON_valuestring J data) (stack_eui64 X); call (DeviceJoined eui64) s })
     else if t = ''deviceRejoined'' \<and> cb_deviceRejoined cb then handleDeviceRejoinedEventReceived J X event s
     else if t = ''linkKeyUpdated'' \<and> cb_linkKeyUpdated cb then handleLinkKeyUpdatedEventReceived J X event s
     else if t = ''apsAckFailure'' \<and> cb_apsAckFailure cb
       then (case cJSON_GetObjectItem J event ''eui64'' of None \<Rightarrow> Some s
         | Some data \<Rightarrow> do { eui64 \<leftarrow> sscanf_eui64 (cJSON_valuestring J data) (stack_eui64 X); call (ApsAckFailure eui64) s })
     else if t = ''clusterCommandReceived'' \<and> cb_clusterCommandReceived cb then handleClusterCommandReceived J X event s
     else if t = ''attributeReport'' \<and> cb_attributeReportReceived cb then handleAttributeReportReceived J X event s
     else if t = ''deviceOtaUpgradeMessageSentEvent'' \<and> cb_deviceOtaUpgradeMessageSent cb
       then handleOtaUpgradeMessageSentEventReceived J X event s
     else if t = ''deviceOtaUpgradeMessageReceivedEvent'' \<and> cb_deviceOtaUpgradeMessageReceived cb
       then handleOtaUpgradeMessageReceivedEventReceived J X event s
     else if t = ''deviceCommunicationSucceededEvent'' \<and> cb_deviceCommunicationSucceeded cb
       then handleDeviceCommunicationSucceededEventReceived J event s
     else if t = ''deviceCommunicationFailedEvent'' \<and> cb_deviceCommunicationFailed cb
       then handleDeviceCommunicationFailedEventRecieved J event s
     else if t = ''networkHealthProblem'' \<and> cb_networkHealthProblem cb then call NetworkHealthProblem s
     else if t = ''networkHealthProblemRestored'' \<and> cb_networkHealthProblemRestored cb then call NetworkHealthProblemRestored s
     else if t = ''panIdAttack'' \<and> cb_panIdAttackDetected cb then call PanIdAttackDetected s
     else if t = ''panIdAttackCleared'' \<and> cb_panIdAttackCleared cb then call PanIdAttackCleared s
     else if cb_beaconReceived cb \<and> stringCompare U (Some t) (Some ''beaconReceived'') False = 0 then handleBeaconEventReceived J X event s
     else Some s)"

definition zhalHandleEvent :: "'j cjson_api \<Rightarrow> util_api \<Rightarrow> zevent_api \<Rightarrow> 'j \<Rightarrow> zevents \<Rightarrow> (int \<times> zevents) option" where
  "zhalHandleEvent J U X event s =
     (case cJSON_GetObjectItem J event ''eventType'' of None \<Rightarrow> Some (0, s)
      | Some eventType \<Rightarrow> do {
          t \<leftarrow> cJSON_valuestring J eventType;
          cb \<leftarrow> callbacks s;
          s' \<leftarrow> dispatch_event J U X t cb event s;
          Some (1, s') })"

section \<open>The receiver\<close>

text \<open>
  A packet is handled only when it comes from the loopback address; a response goes to the queue of
  requests, everything else to the event handler, each in a thread of its own. A type that is not a
  string is a fault.
\<close>

datatype 'j packet = Ignored | Response 'j | Event 'j

definition receive_packet :: "'j cjson_api \<Rightarrow> bool \<Rightarrow> string \<Rightarrow> 'j packet option" where
  "receive_packet J loopback recvBuf =
     (if loopback then (case cJSON_Parse J (Some (takeWhile (\<lambda>c. of_char c \<noteq> (0 :: nat)) recvBuf)) of None \<Rightarrow> Some Ignored
        | Some asyncJson \<Rightarrow> (case cJSON_GetObjectItem J asyncJson ''eventType'' of None \<Rightarrow> Some Ignored
            | Some eventType \<Rightarrow> map_option (\<lambda>t. if t = ''ipcResponse'' then Response asyncJson else Event asyncJson) (cJSON_valuestring J eventType)))
      else Some Ignored)"

section \<open>Safety\<close>

text \<open>The events whose text fields are texts.\<close>

definition text_fields :: "'j cjson_api \<Rightarrow> 'j \<Rightarrow> bool" where
  "text_fields J event \<longleftrightarrow> (\<forall>k \<in> {''eventType'', ''eui64'', ''deviceType'', ''powerSource''}. \<forall>j. cJSON_GetObjectItem J event k = Some j \<longrightarrow>
     cJSON_valuestring J j \<noteq> None)"

lemma text_fieldsD:
  assumes "text_fields J event" "cJSON_GetObjectItem J event k = Some j" "k \<in> {''eventType'', ''eui64'', ''deviceType'', ''powerSource''}"
  shows "\<exists>t. cJSON_valuestring J j = Some t"
  using assms by (auto simp: text_fields_def)

lemma scan_total: "text_fields J event \<Longrightarrow> cJSON_GetObjectItem J event ''eui64'' = Some j \<Longrightarrow> \<exists>v. sscanf_eui64 (cJSON_valuestring J j) b = Some v"
  using text_fieldsD [of J event "''eui64''" j] by (auto simp: sscanf_eui64_def)

text \<open>The type of the events that lead to a call.\<close>

fun event_name :: "zhal_call \<Rightarrow> string" where
  "event_name Startup = ''zhalStartup''"
| "event_name (DeviceAnnounced _ _ _) = ''deviceAnnounced''"
| "event_name (DeviceJoined _) = ''deviceJoined''"
| "event_name (DeviceRejoined _ _) = ''deviceRejoined''"
| "event_name (LinkKeyUpdated _ _) = ''linkKeyUpdated''"
| "event_name (ApsAckFailure _) = ''apsAckFailure''"
| "event_name (AttributeReportReceived _) = ''attributeReport''"
| "event_name (ClusterCommandReceived _) = ''clusterCommandReceived''"
| "event_name (DeviceOtaUpgradeMessageSent _) = ''deviceOtaUpgradeMessageSentEvent''"
| "event_name (DeviceOtaUpgradeMessageReceived _) = ''deviceOtaUpgradeMessageReceivedEvent''"
| "event_name (DeviceCommunicationSucceeded _) = ''deviceCommunicationSucceededEvent''"
| "event_name (DeviceCommunicationFailed _) = ''deviceCommunicationFailedEvent''"
| "event_name (NetworkConfigChanged _) = ''networkConfigChanged''"
| "event_name NetworkHealthProblem = ''networkHealthProblem''"
| "event_name NetworkHealthProblemRestored = ''networkHealthProblemRestored''"
| "event_name PanIdAttackDetected = ''panIdAttack''"
| "event_name PanIdAttackCleared = ''panIdAttackCleared''"
| "event_name (BeaconReceived _ _ _ _ _ _) = ''beaconReceived''"

text \<open>
  What a handler of a type of event does while its callback is set: at most one call is added, of the callback
  that belongs to the type, and callbacks stay.
\<close>

definition handles :: "string \<Rightarrow> zevents \<Rightarrow> zevents option \<Rightarrow> bool" where
  "handles t s r \<longleftrightarrow> (\<exists>s' cs. r = Some s' \<and> callbacks s' = callbacks s \<and> ze_calls s' = ze_calls s @ cs \<and> length cs \<le> 1 \<and> (\<forall>c \<in> set cs. event_name c = t))"

lemma handles_nothing [simp]: "handles t s (Some s)" "handles t s (Some (s\<lparr>lastApsSeqNums := m\<rparr>))"
  by (auto simp: handles_def)

lemma handles_call:
  assumes "callbacks s = Some cb" "callback_set cb x" "event_name x = t"
  shows "handles t s (call x s)" "handles t s (call x (s\<lparr>lastApsSeqNums := m\<rparr>))"
  using assms by (auto simp: handles_def call_def)

lemma handles_bind: "\<exists>v. m = Some v \<Longrightarrow> (\<And>v. handles t s (f v)) \<Longrightarrow> handles t s (m \<bind> f)"
  by auto

lemma fields_Cons: "fields J event (k # ks) = (case cJSON_GetObjectItem J event k of None \<Rightarrow> None | Some j \<Rightarrow> map_option (Cons j) (fields J event ks))"
  by (auto simp: fields_def split: option.splits)

lemma fields_Nil: "fields J event [] = Some []"
  by (simp add: fields_def)

lemmas fields_simps = fields_Cons fields_Nil


lemma handles_command:
  assumes "callbacks s = Some c" "cb_clusterCommandReceived c"
  shows "handles ''clusterCommandReceived'' s (handleClusterCommandReceived J X event s)"
proof (cases "\<exists>a0 a1 a2 a3 a4 a5 a6 a7 a8 a9 a10 a11 a12. fields J event [''eui64'', ''sourceEndpoint'', ''profileId'', ''direction'', ''clusterId'',
    ''commandId'', ''mfgSpecific'', ''mfgCode'', ''seqNum'', ''apsSeqNum'', ''rssi'', ''lqi'', ''encodedBuf''] = Some [a0, a1, a2, a3, a4, a5, a6, a7, a8, a9, a10, a11, a12]")
  case True
  then show ?thesis using assms
    by (auto simp: handleClusterCommandReceived_def handles_call split: option.split prod.split bool.split)
next
  case False
  then show ?thesis by (auto simp: handleClusterCommandReceived_def split: option.split list.split)
qed

lemma handles_report:
  assumes "callbacks s = Some c" "text_fields J event" "cb_attributeReportReceived c"
  shows "handles ''attributeReport'' s (handleAttributeReportReceived J X event s)"
  using assms by (auto simp: handleAttributeReportReceived_def fields_simps handles_call split: option.splits intro!: handles_bind scan_total)

lemma handles_ota:
  assumes "callbacks s = Some c"
  shows "cb_deviceOtaUpgradeMessageSent c \<Longrightarrow> handles ''deviceOtaUpgradeMessageSentEvent'' s (handleOtaUpgradeMessageSentEventReceived J X event s)"
    "cb_deviceOtaUpgradeMessageReceived c \<Longrightarrow> handles ''deviceOtaUpgradeMessageReceivedEvent'' s (handleOtaUpgradeMessageReceivedEventReceived J X event s)"
  using assms by (auto simp: handleOtaUpgradeMessageSentEventReceived_def handleOtaUpgradeMessageReceivedEventReceived_def handles_call split: option.splits)

lemma handles_comm:
  assumes "callbacks s = Some c" "text_fields J event"
  shows "cb_deviceCommunicationSucceeded c \<Longrightarrow> handles ''deviceCommunicationSucceededEvent'' s (handleDeviceCommunicationSucceededEventReceived J event s)"
    "cb_deviceCommunicationFailed c \<Longrightarrow> handles ''deviceCommunicationFailedEvent'' s (handleDeviceCommunicationFailedEventRecieved J event s)"
  using assms by (auto simp: handleDeviceCommunicationSucceededEventReceived_def handleDeviceCommunicationFailedEventRecieved_def handles_call
      split: option.splits intro!: handles_bind scan_total)

lemma handles_announced:
  assumes "callbacks s = Some c" "text_fields J event" "cb_deviceAnnounced c"
  shows "handles ''deviceAnnounced'' s (handleDeviceAnnounced J X event s)"
  using assms by (auto simp: handleDeviceAnnounced_def fields_simps handles_call split: option.splits intro!: handles_bind scan_total text_fieldsD [of J event])

lemma handles_joined:
  assumes "callbacks s = Some c" "text_fields J event"
  shows "cb_deviceRejoined c \<Longrightarrow> handles ''deviceRejoined'' s (handleDeviceRejoinedEventReceived J X event s)"
    "cb_linkKeyUpdated c \<Longrightarrow> handles ''linkKeyUpdated'' s (handleLinkKeyUpdatedEventReceived J X event s)"
  using assms by (auto simp: handleDeviceRejoinedEventReceived_def handleLinkKeyUpdatedEventReceived_def fields_simps handles_call
      split: option.splits intro!: handles_bind scan_total)

lemma handles_beacon:
  assumes "callbacks s = Some c" "cb_beaconReceived c"
  shows "handles ''beaconReceived'' s (handleBeaconEventReceived J X event s)"
  using assms by (auto simp: handleBeaconEventReceived_def fields_simps handles_call Let_def split: option.splits)

lemma handles_eui64:
  assumes "callbacks s = Some c" "text_fields J event" "\<And>v. callback_set c (f v)" "\<And>v. event_name (f v) = t"
  shows "handles t s (case cJSON_GetObjectItem J event ''eui64'' of None \<Rightarrow> Some s
     | Some data \<Rightarrow> do { eui64 \<leftarrow> sscanf_eui64 (cJSON_valuestring J data) b; call (f eui64) s })"
  using assms by (auto simp: handles_call split: option.splits intro!: handles_bind scan_total)

lemma handles_config:
  assumes "callbacks s = Some c" "cb_networkConfigChanged c"
  shows "handles ''networkConfigChanged'' s (case cJSON_GetObjectItem J event ''networkConfigData'' of None \<Rightarrow> Some s
     | Some data \<Rightarrow> call (NetworkConfigChanged (cJSON_valuestring J data)) s)"
  using assms by (auto simp: handles_call split: option.splits)

lemma handles_if: "(b \<Longrightarrow> handles t s x) \<Longrightarrow> (\<not> b \<Longrightarrow> handles t s y) \<Longrightarrow> handles t s (if b then x else y)"
  by simp

lemma handles_dispatch:
  assumes "callbacks s = Some c" "text_fields J event" "util_ok U"
  shows "handles t s (dispatch_event J U X t c event s)"
  unfolding dispatch_event_def
  using util_okD(3) [OF assms(3), of t "''beaconReceived''"]
  by (intro handles_if) (auto simp: handles_call [OF assms(1)] intro: handles_command [OF assms(1)] handles_report [OF assms(1,2)] handles_ota [OF assms(1)]
      handles_comm [OF assms(1,2)] handles_announced [OF assms(1,2)] handles_joined [OF assms(1,2)] handles_beacon [OF assms(1)]
      handles_eui64 [OF assms(1,2)] handles_config [OF assms(1)])

text \<open>The events that carry nothing besides their type.\<close>

definition plain_calls :: "zhal_call list" where
  "plain_calls = [Startup, NetworkHealthProblem, NetworkHealthProblemRestored, PanIdAttackDetected, PanIdAttackCleared]"

lemma dispatch_plain:
  assumes "x \<in> set plain_calls" "callback_set c x" "callbacks s = Some c"
  shows "\<exists>s'. dispatch_event J U X (event_name x) c event s = Some s' \<and> ze_calls s' = ze_calls s @ [x]"
proof -
  have "dispatch_event J U X ''zhalStartup'' c event s = (if cb_startup c then call Startup s else dispatch_event J U X ''zhalStartup'' c event s)"
    "dispatch_event J U X ''networkHealthProblem'' c event s =
      (if cb_networkHealthProblem c then call NetworkHealthProblem s else dispatch_event J U X ''networkHealthProblem'' c event s)"
    "dispatch_event J U X ''networkHealthProblemRestored'' c event s =
      (if cb_networkHealthProblemRestored c then call NetworkHealthProblemRestored s else dispatch_event J U X ''networkHealthProblemRestored'' c event s)"
    "dispatch_event J U X ''panIdAttack'' c event s =
      (if cb_panIdAttackDetected c then call PanIdAttackDetected s else dispatch_event J U X ''panIdAttack'' c event s)"
    "dispatch_event J U X ''panIdAttackCleared'' c event s =
      (if cb_panIdAttackCleared c then call PanIdAttackCleared s else dispatch_event J U X ''panIdAttackCleared'' c event s)"
    unfolding dispatch_event_def by simp_all
  moreover have "x = Startup \<or> x = NetworkHealthProblem \<or> x = NetworkHealthProblemRestored \<or> x = PanIdAttackDetected \<or> x = PanIdAttackCleared"
    using assms(1) by (simp add: plain_calls_def)
  ultimately have "dispatch_event J U X (event_name x) c event s = call x s"
    using assms(2) by (elim disjE) (simp_all only: event_name.simps callback_set.simps if_True)
  with assms(2,3) show ?thesis by (simp add: call_def)
qed

text \<open>
  C7. While the callbacks are registered, all of them or not, an event whose text fields are texts never
  faults, in particular no callback that is not set is called; it leads to at most one call, of the callback for
  its type, and always to that call when it carries no data and the callback is set; an event without a
  type leads to none and is not taken.
\<close>

theorem event_handled:
  assumes "callbacks s = Some c" "text_fields J event" "util_ok U"
  shows "\<exists>s' cs. zhalHandleEvent J U X event s = Some (if cJSON_GetObjectItem J event ''eventType'' = None then 0 else 1, s') \<and>
    callbacks s' = callbacks s \<and> ze_calls s' = ze_calls s @ cs \<and> length cs \<le> 1 \<and>
    (\<forall>x \<in> set cs. \<exists>e. cJSON_GetObjectItem J event ''eventType'' = Some e \<and> cJSON_valuestring J e = Some (event_name x)) \<and>
    (\<forall>x e. x \<in> set plain_calls \<and> callback_set c x \<and> cJSON_GetObjectItem J event ''eventType'' = Some e \<and>
       cJSON_valuestring J e = Some (event_name x) \<longrightarrow> cs = [x])"
proof (cases "cJSON_GetObjectItem J event ''eventType''")
  case None
  then show ?thesis by (simp add: zhalHandleEvent_def)
next
  case (Some e)
  obtain t where t: "cJSON_valuestring J e = Some t" using text_fieldsD [OF assms(2) Some] by auto
  have "handles t s (dispatch_event J U X t c event s)" by (rule handles_dispatch [OF assms])
  then obtain s' cs where h: "dispatch_event J U X t c event s = Some s'" "callbacks s' = callbacks s" "ze_calls s' = ze_calls s @ cs"
      "length cs \<le> 1" "\<forall>x \<in> set cs. event_name x = t"
    unfolding handles_def by blast
  have "cs = [x]" if "x \<in> set plain_calls" "callback_set c x" "event_name x = t" for x
    using dispatch_plain [OF that(1,2) assms(1), of J U X event] that(3) h(1,3) by simp
  moreover have "zhalHandleEvent J U X event s = Some (1, s')" using Some t assms(1) h(1) by (simp add: zhalHandleEvent_def)
  ultimately show ?thesis using Some t h(2-5) by (intro exI [of _ s'] exI [of _ cs]) auto
qed

section \<open>Repeated commands\<close>

text \<open>The commands that pass the check, of a sequence of devices and sequence numbers.\<close>

fun passed :: "(u64, u8) hmap option \<Rightarrow> (u64 \<times> u8) list \<Rightarrow> (u64 \<times> u8) list" where
  "passed m [] = []"
| "passed m ((e, n) # ks) = (case isDuplicateApsSequenceNumber e n m of (d, m') \<Rightarrow> (if d then [] else [(e, n)]) @ passed m' ks)"

lemma remdups_adj_hd: "x # tl (remdups_adj (x # xs)) = remdups_adj (x # xs)"
  by (metis hd_remdups_adj list.collapse list.sel(1) list.simps(3) remdups_adj_Nil_iff)

lemma isDuplicate_cases:
  assumes "hmap_ok m"
  obtains "hashMapGet m e = Some n" "isDuplicateApsSequenceNumber e n (Some m) = (True, Some m)"
  | m' where "hashMapGet m e \<noteq> Some n" "isDuplicateApsSequenceNumber e n (Some m) = (False, Some m')" "hmap_ok m'" "hashMapGet m' = (hashMapGet m)(e \<mapsto> n)"
proof (cases "hashMapGet m e")
  case None
  then show ?thesis using that(2) hm.put_fresh [OF assms None, of n] hm.ok_put [OF assms, of e n] by (simp add: isDuplicateApsSequenceNumber_def)
next
  case (Some l)
  then show ?thesis using that(1) that(2) [OF _ _ hm.ok_put [OF hm.ok_del [OF assms]] hm.replace_idiom(2) [OF assms]]
    by (cases "l = n") (auto simp: isDuplicateApsSequenceNumber_def)
qed

lemma passed_adj:
  assumes "hmap_ok m"
  shows "map snd (filter (\<lambda>k. fst k = e) (passed (Some m) ks)) = (let ns = map snd (filter (\<lambda>k. fst k = e) ks) in
    case hashMapGet m e of None \<Rightarrow> remdups_adj ns | Some l \<Rightarrow> tl (remdups_adj (l # ns)))"
  using assms
proof (induction ks arbitrary: m)
  case Nil
  then show ?case by (simp split: option.splits)
next
  case (Cons k ks)
  obtain e' n where k: "k = (e', n)" by fastforce
  from Cons.prems show ?case
  proof (cases rule: isDuplicate_cases [of m e' n])
    case 1
    then show ?thesis using Cons.IH [OF Cons.prems] by (auto simp: k split: option.splits)
  next
    case (2 m')
    show ?thesis
    proof (cases "e' = e")
      case True
      have ne: "tl (remdups_adj (l # n # ns)) = remdups_adj (n # ns)" if "l \<noteq> n" for l ns using that by simp
      show ?thesis using True 2 Cons.IH [OF 2(3)] by (auto simp: k Let_def remdups_adj_hd ne simp del: remdups_adj.simps split: option.splits)
    next
      case False
      then show ?thesis using 2 Cons.IH [OF 2(3)] by (auto simp: k split: option.splits)
    qed
  qed
qed

text \<open>A complete command event of a device, with its sequence number.\<close>

definition command_event :: "'j cjson_api \<Rightarrow> zevent_api \<Rightarrow> 'j \<Rightarrow> u64 \<times> u8 \<Rightarrow> bool" where
  "command_event J X event k \<longleftrightarrow>
     (\<forall>f \<in> set [''sourceEndpoint'', ''profileId'', ''direction'', ''clusterId'', ''commandId'', ''mfgSpecific'', ''mfgCode'', ''seqNum'', ''rssi'', ''lqi''].
        cJSON_GetObjectItem J event f \<noteq> None) \<and>
     (\<exists>j. cJSON_GetObjectItem J event ''eui64'' = Some j \<and> stringToUnsigned X (cJSON_valuestring J j) 16 = Some (fst k)) \<and>
     (\<exists>j. cJSON_GetObjectItem J event ''apsSeqNum'' = Some j \<and> word_of_int (cJSON_valueint J j) = snd k) \<and>
     (\<exists>j. cJSON_GetObjectItem J event ''encodedBuf'' = Some j \<and> icDecodeBase64 X (cJSON_valuestring J j) \<noteq> None)"

fun handle_commands :: "'j cjson_api \<Rightarrow> zevent_api \<Rightarrow> 'j list \<Rightarrow> zevents \<Rightarrow> zevents option" where
  "handle_commands J X [] s = Some s"
| "handle_commands J X (e # es) s = handleClusterCommandReceived J X e s \<bind> handle_commands J X es"

definition command_keys :: "zhal_call list \<Rightarrow> (u64 \<times> u8) list" where
  "command_keys cs = concat (map (\<lambda>c. case c of ClusterCommandReceived x \<Rightarrow> [(cc_eui64 x, cc_apsSeqNum x)] | _ \<Rightarrow> []) cs)"

lemma command_step:
  assumes "command_event J X event (e, n)" "callbacks s = Some c" "cb_clusterCommandReceived c" "isDuplicateApsSequenceNumber e n (lastApsSeqNums s) = (d, m)"
  obtains s' where "handleClusterCommandReceived J X event s = Some s'" "callbacks s' = Some c" "lastApsSeqNums s' = m"
    "command_keys (ze_calls s') = command_keys (ze_calls s) @ (if d then [] else [(e, n)])"
proof -
  let ?f = "[''eui64'', ''sourceEndpoint'', ''profileId'', ''direction'', ''clusterId'', ''commandId'', ''mfgSpecific'',
          ''mfgCode'', ''seqNum'', ''apsSeqNum'', ''rssi'', ''lqi'', ''encodedBuf'']"
  obtain a0 a1 a2 a3 a4 a5 a6 a7 a8 a9 a10 a11 a12 bytes where
    "fields J event ?f = Some [a0, a1, a2, a3, a4, a5, a6, a7, a8, a9, a10, a11, a12]"
    "stringToUnsigned X (cJSON_valuestring J a0) 16 = Some e" "word_of_int (cJSON_valueint J a9) = n" "icDecodeBase64 X (cJSON_valuestring J a12) = Some bytes"
    using assms(1) by (auto simp: command_event_def fields_simps)
  then show thesis using that assms(2-4) by (cases d) (auto simp: handleClusterCommandReceived_def call_def command_keys_def)
qed

lemma handle_commands_passed:
  assumes "list_all2 (command_event J X) evs ks" "callbacks s = Some c" "cb_clusterCommandReceived c"
  obtains s' where "handle_commands J X evs s = Some s'" "command_keys (ze_calls s') = command_keys (ze_calls s) @ passed (lastApsSeqNums s) ks"
  using assms
proof (induction evs ks arbitrary: s thesis rule: list_all2_induct)
  case Nil
  then show ?case by simp
next
  case (Cons ev evs k ks)
  obtain e n where k: "k = (e, n)" by fastforce
  obtain d m where d: "isDuplicateApsSequenceNumber e n (lastApsSeqNums s) = (d, m)" by fastforce
  obtain s1 where s1: "handleClusterCommandReceived J X ev s = Some s1" "callbacks s1 = Some c" "lastApsSeqNums s1 = m"
    "command_keys (ze_calls s1) = command_keys (ze_calls s) @ (if d then [] else [(e, n)])"
    using command_step [OF Cons.hyps(1) [unfolded k] Cons.prems(2,3) d] by blast
  obtain s' where "handle_commands J X evs s1 = Some s'" "command_keys (ze_calls s') = command_keys (ze_calls s1) @ passed m ks"
    using Cons.IH [OF _ s1(2) Cons.prems(3)] s1(3) by metis
  then show ?case using Cons.prems(1) [of s'] s1(1,4) d by (simp add: k)
qed

text \<open>
  C6. Of the commands of a device, handled one after the other, exactly those are delivered whose sequence
  number differs from the one before: the delivered numbers are the received ones without adjacent
  repetitions.
\<close>

theorem commands_without_repeats:
  assumes "list_all2 (command_event J X) evs ks" "callbacks s = Some c" "cb_clusterCommandReceived c" "lastApsSeqNums s = Some []" "ze_calls s = []"
  shows "\<exists>s'. handle_commands J X evs s = Some s' \<and>
    map snd (filter (\<lambda>k. fst k = e) (command_keys (ze_calls s'))) = remdups_adj (map snd (filter (\<lambda>k. fst k = e) ks))"
proof -
  obtain s' where "handle_commands J X evs s = Some s'" "command_keys (ze_calls s') = passed (Some []) ks"
    using handle_commands_passed [OF assms(1-3)] assms(4,5) by (auto simp: command_keys_def)
  moreover have "hmap_ok ([] :: (u64, u8) hmap)" by (simp add: hmap_ok_def)
  ultimately show ?thesis using passed_adj [of "[]" e ks] by (auto simp: hashMapGet_def Let_def)
qed


section \<open>Events that go wrong\<close>

text \<open>
  A device id without a hexadecimal digit: \<^verbatim>\<open>sscanf\<close> writes nothing, and the device that is reported as
  joined is whatever was on the stack.
\<close>

theorem unreadable_id_joins_anything:
  assumes "cJSON_GetObjectItem J event ''eventType'' = Some e" "cJSON_valuestring J e = Some ''deviceJoined''"
    and "cJSON_GetObjectItem J event ''eui64'' = Some i" "cJSON_valuestring J i = Some t" "scan_hex64 t = None"
    and "callbacks s = Some c" "cb_deviceJoined c"
  shows "zhalHandleEvent J U X event s = Some (1, s\<lparr>ze_calls := ze_calls s @ [DeviceJoined (stack_eui64 X)]\<rparr>)"
  using assms by (simp add: zhalHandleEvent_def dispatch_event_def sscanf_eui64_def call_def)

text \<open>An event thread that runs when \<^verbatim>\<open>zhalTerm\<close> has cleared the callbacks reads through a null pointer.\<close>

theorem late_event_faults:
  assumes "callbacks s = None" "cJSON_GetObjectItem J event ''eventType'' = Some e"
  shows "zhalHandleEvent J U X event s = None"
  using assms by (auto simp: zhalHandleEvent_def)

section \<open>Examples\<close>

definition example_zevent_api :: zevent_api where
  "example_zevent_api = \<lparr>stringToUnsigned = (\<lambda>t b. Option.bind t scan_hex64), icDecodeBase64 = (\<lambda>t. map_option (map (\<lambda>c. word_of_nat (of_char c))) t),
     stack_eui64 = 3735928559\<rparr>"

definition all_callbacks :: zhalCallbacks where
  "all_callbacks = \<lparr>cb_startup = True, cb_deviceAnnounced = True, cb_deviceJoined = True, cb_deviceRejoined = True, cb_linkKeyUpdated = True,
     cb_apsAckFailure = True, cb_attributeReportReceived = True, cb_clusterCommandReceived = True, cb_deviceOtaUpgradeMessageSent = True,
     cb_deviceOtaUpgradeMessageReceived = True, cb_deviceCommunicationSucceeded = True, cb_deviceCommunicationFailed = True, cb_networkConfigChanged = True,
     cb_networkHealthProblem = True, cb_networkHealthProblemRestored = True, cb_panIdAttackDetected = True, cb_panIdAttackCleared = True, cb_beaconReceived = True\<rparr>"

definition zevents_start :: zevents where
  "zevents_start = \<lparr>lastApsSeqNums = Some [], callbacks = Some all_callbacks, ze_calls = []\<rparr>"

definition example_command :: "int \<Rightarrow> json" where
  "example_command n = JObject [(''eventType'', JString ''clusterCommandReceived''), (''eui64'', JString ''0000000000000011''), (''sourceEndpoint'', JNumber 1),
     (''profileId'', JNumber 260), (''direction'', JNumber 1), (''clusterId'', JNumber 1280), (''commandId'', JNumber 0), (''mfgSpecific'', JNumber 0),
     (''mfgCode'', JNumber 0), (''seqNum'', JNumber 5), (''apsSeqNum'', JNumber n), (''rssi'', JNumber (-40)), (''lqi'', JNumber 255), (''encodedBuf'', JString ''AA'')]"

definition example_joined :: json where
  "example_joined = JObject [(''eventType'', JString ''deviceJoined''), (''eui64'', JString ''zz'')]"

lemma example_commands:
  "list_all2 (command_event example_cjson example_zevent_api) [example_command 7, example_command 7, example_command 8]
     [(17, 7), (17, 7), (17, 8)]"
proof -
  have "cJSON_GetObjectItem example_cjson (example_command n) ''eui64'' = Some (JString ''0000000000000011'')"
    "cJSON_GetObjectItem example_cjson (example_command n) ''apsSeqNum'' = Some (JNumber n)"
    "cJSON_GetObjectItem example_cjson (example_command n) ''encodedBuf'' = Some (JString ''AA'')"
    "\<forall>f \<in> set [''sourceEndpoint'', ''profileId'', ''direction'', ''clusterId'', ''commandId'', ''mfgSpecific'', ''mfgCode'', ''seqNum'', ''rssi'', ''lqi''].
        cJSON_GetObjectItem example_cjson (example_command n) f \<noteq> None" for n
    by (simp_all add: example_cjson_def example_json_def json_api.defs json_item_def ci_lookup_def example_command_def lower_def to_lower_def)
  moreover have "stringToUnsigned example_zevent_api (cJSON_valuestring example_cjson (JString ''0000000000000011'')) 16 = Some 17"
    "icDecodeBase64 example_zevent_api (cJSON_valuestring example_cjson (JString ''AA'')) \<noteq> None"
    "\<And>n. cJSON_valueint example_cjson (JNumber n) = n"
    by code_simp+
  ultimately show ?thesis by (simp add: command_event_def)
qed

theorem commands_without_repeats_witness:
  "\<exists>s'. handle_commands example_cjson example_zevent_api [example_command 7, example_command 7, example_command 8] zevents_start = Some s' \<and>
    map snd (filter (\<lambda>k. fst k = 17) (command_keys (ze_calls s'))) = [7, 8]"
  using commands_without_repeats [OF example_commands, of zevents_start all_callbacks 17] by (simp add: zevents_start_def all_callbacks_def)

definition example_startup :: json where
  "example_startup = JObject [(''eventType'', JString ''zhalStartup'')]"

theorem event_handled_witness:
  "\<exists>s'. zhalHandleEvent example_cjson example_util example_zevent_api example_startup zevents_start = Some (1, s') \<and> ze_calls s' = [Startup]"
proof -
  have t: "text_fields example_cjson example_startup"
    by (simp add: text_fields_def example_startup_def example_cjson_def example_json_def json_api.defs json_item_def ci_lookup_def lower_def to_lower_def)
  have e: "cJSON_GetObjectItem example_cjson example_startup ''eventType'' = Some (JString ''zhalStartup'')"
    "cJSON_valuestring example_cjson (JString ''zhalStartup'') = Some (event_name Startup)"
    "Startup \<in> set plain_calls" "callback_set all_callbacks Startup" "ze_calls zevents_start = []" "callbacks zevents_start = Some all_callbacks"
    by code_simp+
  from event_handled [OF e(6) t util_ok_example, of example_zevent_api] obtain s' cs where
    "zhalHandleEvent example_cjson example_util example_zevent_api example_startup zevents_start =
       Some (if cJSON_GetObjectItem example_cjson example_startup ''eventType'' = None then 0 else 1, s')"
    "ze_calls s' = ze_calls zevents_start @ cs" "cs = [Startup]"
    using e(1-4) by blast
  then show ?thesis unfolding e(1,5) by simp
qed

theorem unreadable_id_joins_anything_witness:
  "zhalHandleEvent example_cjson example_util example_zevent_api example_joined zevents_start =
     Some (1, zevents_start\<lparr>ze_calls := [DeviceJoined 3735928559]\<rparr>)"
proof -
  have "cJSON_GetObjectItem example_cjson example_joined ''eventType'' = Some (JString ''deviceJoined'')"
    "cJSON_GetObjectItem example_cjson example_joined ''eui64'' = Some (JString ''zz'')" "cJSON_valuestring example_cjson (JString t) = Some t"
    "scan_hex64 ''zz'' = None" for t by code_simp+
  then show ?thesis
    using unreadable_id_joins_anything [of example_cjson example_joined "JString ''deviceJoined''" "JString ''zz''" "''zz''" zevents_start all_callbacks example_util example_zevent_api]
    by (simp add: zevents_start_def all_callbacks_def example_zevent_api_def)
qed

theorem late_event_faults_witness:
  "zhalHandleEvent example_cjson example_util example_zevent_api example_joined (zevents_start\<lparr>callbacks := None\<rparr>) = None"
proof -
  have "cJSON_GetObjectItem example_cjson example_joined ''eventType'' = Some (JString ''deviceJoined'')" by code_simp
  then show ?thesis using late_event_faults [of "zevents_start\<lparr>callbacks := None\<rparr>"] by simp
qed

end
