(* ===== verification/Zhal_Requests.thy ===== *)
theory Zhal_Requests
  imports Zhal_Events
begin

text \<open>
  The requests to the Zigbee process, \<^verbatim>\<open>core/src/zhal/c/src/zhalRequests.c\<close>: each function builds a JSON
  request, sends it with \<^verbatim>\<open>sendRequestWithTimeout\<close>, which tries again while the network is busy, and reads
  the response. \<^verbatim>\<open>zhalSendRequest\<close> blocks until \<open>Zhal_Queue\<close> completes the request; here it is an argument,
  \<open>link_api\<close>, that gives the reply of each attempt. The log has an entry for each attempt, \<open>None\<close> when the layer was
  not initialised. A fault, the use of a \<^verbatim>\<open>NULL\<close> pointer, is \<open>None\<close>.
\<close>

section \<open>Sending\<close>

definition DEFAULT_REQUEST_TIMEOUT_SECONDS :: int where "DEFAULT_REQUEST_TIMEOUT_SECONDS = 30"
definition SET_DEVICES_TIMEOUT_SECONDS :: int where "SET_DEVICES_TIMEOUT_SECONDS = 150"
definition MAX_NETWORK_BUSY_RETRIES :: nat where "MAX_NETWORK_BUSY_RETRIES = 5"
definition ZHAL_STATUS_OK :: int where "ZHAL_STATUS_OK = 0"
definition ZHAL_STATUS_NETWORK_BUSY :: int where "ZHAL_STATUS_NETWORK_BUSY = -7"

text \<open>For the attempt of a number: whether the layer is initialised, the id of the request, and the reply.\<close>

record 'j link_api =
  link_up :: "nat \<Rightarrow> bool"
  link_id :: "nat \<Rightarrow> u32"
  link_reply :: "nat \<Rightarrow> 'j option"

type_synonym 'j zlog = "(u64 \<times> 'j \<times> int) option list"

text \<open>
  The loop, with the attempts that are left and the result so far. \<^verbatim>\<open>zhalSendRequest\<close> leaves its id in the
  request, which is removed before the next attempt.
\<close>

fun send_loop :: "'j cjson_api \<Rightarrow> 'j link_api \<Rightarrow> nat \<Rightarrow> u64 \<Rightarrow> 'j \<Rightarrow> int \<Rightarrow> int \<Rightarrow> 'j zlog \<Rightarrow> (int \<times> 'j option) \<times> 'j zlog" where
  "send_loop J L 0 eui64 request timeoutSecs result log = ((result, None), log)"
| "send_loop J L (Suc n) eui64 request timeoutSecs result log =
     (if \<not> link_up L (length log) then ((result, None), log @ [None])
      else let request1 = cJSON_AddNumberToObject J request ''requestId'' (uint (link_id L (length log)));
               log1 = log @ [Some (eui64, request1, timeoutSecs)]
           in case link_reply L (length log) of None \<Rightarrow> ((result, None), log1)
              | Some resp \<Rightarrow> (case cJSON_GetObjectItem J resp ''resultCode'' of None \<Rightarrow> ((result, Some resp), log1)
                  | Some resultCode \<Rightarrow> let r = cJSON_valueint J resultCode
                      in if r = ZHAL_STATUS_OK then ((r, Some resp), log1)
                         else if r = ZHAL_STATUS_NETWORK_BUSY
                           then send_loop J L n eui64 (cJSON_DeleteItemFromObject J request1 ''requestId'') timeoutSecs r log1
                         else ((r, None), log1)))"

definition sendRequestWithTimeout :: "'j cjson_api \<Rightarrow> 'j link_api \<Rightarrow> u64 \<Rightarrow> 'j \<Rightarrow> int \<Rightarrow> 'j zlog \<Rightarrow> (int \<times> 'j option) \<times> 'j zlog" where
  "sendRequestWithTimeout J L eui64 request timeoutSecs = send_loop J L MAX_NETWORK_BUSY_RETRIES eui64 request timeoutSecs (-1)"

definition sendRequest :: "'j cjson_api \<Rightarrow> 'j link_api \<Rightarrow> u64 \<Rightarrow> 'j \<Rightarrow> 'j zlog \<Rightarrow> (int \<times> 'j option) \<times> 'j zlog" where
  "sendRequest J L eui64 request = sendRequestWithTimeout J L eui64 request DEFAULT_REQUEST_TIMEOUT_SECONDS"

definition sendRequestNoResponse :: "'j cjson_api \<Rightarrow> 'j link_api \<Rightarrow> u64 \<Rightarrow> 'j \<Rightarrow> 'j zlog \<Rightarrow> int \<times> 'j zlog" where
  "sendRequestNoResponse J L eui64 request log = (case sendRequest J L eui64 request log of ((result, _), log') \<Rightarrow> (result, log'))"

section \<open>Building requests\<close>

text \<open>\<^verbatim>\<open>sprintf\<close> with a hexadecimal format of fixed width, in lower case.\<close>

definition hex_char :: "nat \<Rightarrow> char" where
  "hex_char d = char_of (if d < 10 then 48 + d else 87 + d)"

fun hex_text :: "nat \<Rightarrow> nat \<Rightarrow> string" where
  "hex_text 0 n = []"
| "hex_text (Suc k) n = hex_text k (n div 16) @ [hex_char (n mod 16)]"

definition eui64_text :: "u64 \<Rightarrow> string" where
  "eui64_text eui64 = hex_text 16 (unat eui64)"

text \<open>Calls that add items to an object, in order.\<close>

datatype 'j field = Str cstr | Num int | Boolean bool | Sub 'j

fun add_field :: "'j cjson_api \<Rightarrow> 'j \<Rightarrow> string \<times> 'j field \<Rightarrow> 'j" where
  "add_field J j (k, Str s) = cJSON_AddStringToObject J j k s"
| "add_field J j (k, Num n) = cJSON_AddNumberToObject J j k n"
| "add_field J j (k, Boolean b) = cJSON_AddBoolToObject J j k b"
| "add_field J j (k, Sub v) = cJSON_AddItemToObject J j k v"

definition json_object :: "'j cjson_api \<Rightarrow> (string \<times> 'j field) list \<Rightarrow> 'j" where
  "json_object J fs = foldl (add_field J) (cJSON_CreateObject J) fs"

definition json_array :: "'j cjson_api \<Rightarrow> 'j list \<Rightarrow> 'j" where
  "json_array J js = foldl (cJSON_AddItemToArray J) (cJSON_CreateArray J) js"

definition json_request :: "'j cjson_api \<Rightarrow> string \<Rightarrow> (string \<times> 'j field) list \<Rightarrow> 'j" where
  "json_request J name fs = json_object J ((''request'', Str (Some name)) # fs)"

definition setAddress :: "u64 \<Rightarrow> string \<times> 'j field" where
  "setAddress eui64 = (''address'', Str (Some (eui64_text eui64)))"

definition flag :: "bool \<Rightarrow> 'j field" where
  "flag b = Num (if b then 1 else 0)"

text \<open>What else the code calls: the encoder and the null item.\<close>

record 'j request_api = zevent_api +
  icEncodeBase64 :: "u8 list option \<Rightarrow> cstr"
  cJSON_CreateNull :: 'j


section \<open>Requests without a response\<close>

definition zhalNetworkInit :: "'j cjson_api \<Rightarrow> 'j link_api \<Rightarrow> u64 \<Rightarrow> cstr \<Rightarrow> cstr \<Rightarrow> 'j option \<Rightarrow> 'j zlog \<Rightarrow> int \<times> 'j zlog" where
  "zhalNetworkInit J L eui64 region networkConfigData properties =
     sendRequestNoResponse J L 0 (json_request J ''networkInit''
       ((if eui64 \<noteq> 0 then [setAddress eui64] else []) @
        (case region of None \<Rightarrow> [] | Some _ \<Rightarrow> [(''region'', Str region)]) @
        (case networkConfigData of None \<Rightarrow> [] | Some _ \<Rightarrow> [(''networkConfigData'', Str networkConfigData)]) @
        (case properties of None \<Rightarrow> [] | Some p \<Rightarrow> [(''properties'', Sub p)])))"

definition zhalNetworkTerm :: "'j cjson_api \<Rightarrow> 'j link_api \<Rightarrow> 'j zlog \<Rightarrow> int \<times> 'j zlog" where
  "zhalNetworkTerm J L = sendRequestNoResponse J L 0 (json_request J ''networkTerm'' [])"

definition zhalRefreshOtaFiles :: "'j cjson_api \<Rightarrow> 'j link_api \<Rightarrow> 'j zlog \<Rightarrow> int \<times> 'j zlog" where
  "zhalRefreshOtaFiles J L = sendRequestNoResponse J L 0 (json_request J ''refreshOtaFiles'' [])"

datatype zhalPiezoTone = piezoToneNone | piezoToneWarble | piezoToneFire | piezoToneCo | piezoToneHighFreq | piezoToneLowFreq

fun tone_name :: "zhalPiezoTone \<Rightarrow> cstr" where
  "tone_name piezoToneNone = None"
| "tone_name piezoToneWarble = Some ''warble''"
| "tone_name piezoToneFire = Some ''fire''"
| "tone_name piezoToneCo = Some ''t4_co''"
| "tone_name piezoToneHighFreq = Some ''highFrequency''"
| "tone_name piezoToneLowFreq = Some ''lowFrequency''"

definition zhalSetPiezoTone :: "'j cjson_api \<Rightarrow> 'j link_api \<Rightarrow> zhalPiezoTone \<Rightarrow> 'j zlog \<Rightarrow> int \<times> 'j zlog" where
  "zhalSetPiezoTone J L tone = sendRequestNoResponse J L 0
     (case tone_name tone of Some _ \<Rightarrow> json_request J ''activatePiezo'' [(''tone'', Str (tone_name tone))]
      | None \<Rightarrow> json_request J ''deactivatePiezo'' [])"

definition zhalNetworkEnableJoin :: "'j cjson_api \<Rightarrow> 'j link_api \<Rightarrow> 'j zlog \<Rightarrow> int \<times> 'j zlog" where
  "zhalNetworkEnableJoin J L = sendRequestNoResponse J L 0 (json_request J ''networkEnableJoin'' [(''durationSeconds'', Num 255)])"

definition zhalNetworkDisableJoin :: "'j cjson_api \<Rightarrow> 'j link_api \<Rightarrow> 'j zlog \<Rightarrow> int \<times> 'j zlog" where
  "zhalNetworkDisableJoin J L = sendRequestNoResponse J L 0 (json_request J ''networkDisableJoin'' [])"

text \<open>Attributes. \<open>None\<close> for a list is \<^verbatim>\<open>NULL\<close>; the number of elements is the length of the list.\<close>

record zhalAttributeInfo =
  ai_id :: u16
  ai_type :: u8

record zhalAttributeData =
  ad_attributeInfo :: zhalAttributeInfo
  ad_data :: "u8 list option"

definition attributesWrite :: "'j cjson_api \<Rightarrow> 'j request_api \<Rightarrow> 'j link_api \<Rightarrow> u64 \<Rightarrow> u8 \<Rightarrow> u16 \<Rightarrow> bool \<Rightarrow> u16 \<Rightarrow> bool \<Rightarrow>
    zhalAttributeData list option \<Rightarrow> 'j zlog \<Rightarrow> int \<times> 'j zlog" where
  "attributesWrite J X L eui64 endpointId clusterId isMfgSpecific mfgId toServer attributeData log =
     (case attributeData of
        Some (d # ds) \<Rightarrow> sendRequestNoResponse J L eui64 (json_request J ''attributesWrite''
          ([setAddress eui64, (''endpointId'', Num (uint endpointId)), (''clusterId'', Num (uint clusterId)),
            (''clientToServer'', flag toServer), (''isMfgSpecific'', flag isMfgSpecific)] @
           (if isMfgSpecific then [(''mfgId'', Num (uint mfgId))] else []) @
           [(''attributes'', Sub (json_array J (map (\<lambda>a. json_object J
              [(''id'', Num (uint (ai_id (ad_attributeInfo a)))), (''type'', Num (uint (ai_type (ad_attributeInfo a)))),
               (''data'', Str (icEncodeBase64 X (ad_data a)))]) (d # ds))))])) log
      | _ \<Rightarrow> (-1, log))"

definition zhalAttributesWrite :: "'j cjson_api \<Rightarrow> 'j request_api \<Rightarrow> 'j link_api \<Rightarrow> u64 \<Rightarrow> u8 \<Rightarrow> u16 \<Rightarrow> bool \<Rightarrow>
    zhalAttributeData list option \<Rightarrow> 'j zlog \<Rightarrow> int \<times> 'j zlog" where
  "zhalAttributesWrite J X L eui64 endpointId clusterId toServer attributeData =
     attributesWrite J X L eui64 endpointId clusterId False 0xFFFF toServer attributeData"

definition zhalAttributesWriteMfgSpecific :: "'j cjson_api \<Rightarrow> 'j request_api \<Rightarrow> 'j link_api \<Rightarrow> u64 \<Rightarrow> u8 \<Rightarrow> u16 \<Rightarrow> u16 \<Rightarrow> bool \<Rightarrow>
    zhalAttributeData list option \<Rightarrow> 'j zlog \<Rightarrow> int \<times> 'j zlog" where
  "zhalAttributesWriteMfgSpecific J X L eui64 endpointId clusterId mfgId toServer attributeData =
     attributesWrite J X L eui64 endpointId clusterId True mfgId toServer attributeData"

text \<open>Bindings.\<close>

definition binding_fields :: "u64 \<Rightarrow> u8 \<Rightarrow> u16 \<Rightarrow> (string \<times> 'j field) list" where
  "binding_fields eui64 endpointId clusterId = [setAddress eui64, (''endpointId'', Num (uint endpointId)), (''clusterId'', Num (uint clusterId))]"

definition target_fields :: "u64 \<Rightarrow> u8 \<Rightarrow> (string \<times> 'j field) list" where
  "target_fields targetEui64 targetEndpointId =
     [(''targetAddress'', Str (Some (eui64_text targetEui64))), (''targetEndpointId'', Num (uint targetEndpointId))]"

definition zhalBindingSet :: "'j cjson_api \<Rightarrow> 'j link_api \<Rightarrow> u64 \<Rightarrow> u8 \<Rightarrow> u16 \<Rightarrow> 'j zlog \<Rightarrow> int \<times> 'j zlog" where
  "zhalBindingSet J L eui64 endpointId clusterId =
     sendRequestNoResponse J L eui64 (json_request J ''bindingSet'' (binding_fields eui64 endpointId clusterId))"

definition zhalBindingSetTarget :: "'j cjson_api \<Rightarrow> 'j link_api \<Rightarrow> u64 \<Rightarrow> u8 \<Rightarrow> u64 \<Rightarrow> u8 \<Rightarrow> u16 \<Rightarrow> 'j zlog \<Rightarrow> int \<times> 'j zlog" where
  "zhalBindingSetTarget J L eui64 endpointId targetEui64 targetEndpointId clusterId =
     sendRequestNoResponse J L eui64 (json_request J ''bindingSet'' (binding_fields eui64 endpointId clusterId @ target_fields targetEui64 targetEndpointId))"

definition zhalBindingClear :: "'j cjson_api \<Rightarrow> 'j link_api \<Rightarrow> u64 \<Rightarrow> u8 \<Rightarrow> u16 \<Rightarrow> 'j zlog \<Rightarrow> int \<times> 'j zlog" where
  "zhalBindingClear J L eui64 endpointId clusterId =
     sendRequestNoResponse J L eui64 (json_request J ''bindingClear'' (binding_fields eui64 endpointId clusterId))"

definition zhalBindingClearTarget :: "'j cjson_api \<Rightarrow> 'j link_api \<Rightarrow> u64 \<Rightarrow> u8 \<Rightarrow> u16 \<Rightarrow> u64 \<Rightarrow> u8 \<Rightarrow> 'j zlog \<Rightarrow> int \<times> 'j zlog" where
  "zhalBindingClearTarget J L eui64 endpointId clusterId targetEui64 targetEndpoint =
     sendRequestNoResponse J L eui64 (json_request J ''bindingClear'' (binding_fields eui64 endpointId clusterId @ target_fields targetEui64 targetEndpoint))"

text \<open>Reporting.\<close>

record zhalAttributeReportingConfig =
  rc_attributeInfo :: zhalAttributeInfo
  rc_minInterval :: u16
  rc_maxInterval :: u16
  rc_reportableChange :: u64

definition zhalAttributesSetReportingInternal :: "'j cjson_api \<Rightarrow> 'j link_api \<Rightarrow> u64 \<Rightarrow> u8 \<Rightarrow> u16 \<Rightarrow> zhalAttributeReportingConfig list option \<Rightarrow> bool \<Rightarrow> u16 \<Rightarrow>
    'j zlog \<Rightarrow> int \<times> 'j zlog" where
  "zhalAttributesSetReportingInternal J L eui64 endpointId clusterId configs mfgSpecific mfgId log =
     (case configs of
        Some (c # cs) \<Rightarrow> sendRequestNoResponse J L eui64 (json_request J ''attributesSetReporting''
          (binding_fields eui64 endpointId clusterId @
           [(''configs'', Sub (json_array J (map (\<lambda>x. json_object J
              [(''info'', Sub (json_object J [(''id'', Num (uint (ai_id (rc_attributeInfo x)))), (''type'', Num (uint (ai_type (rc_attributeInfo x))))])),
               (''minInterval'', Num (uint (rc_minInterval x))), (''maxInterval'', Num (uint (rc_maxInterval x))),
               (''reportableChange'', Num (uint (rc_reportableChange x)))]) (c # cs)))),
            (''isMfgSpecific'', Boolean mfgSpecific)] @
           (if mfgSpecific then [(''mfgId'', Num (uint mfgId))] else []))) log
      | _ \<Rightarrow> (-1, log))"

definition zhalAttributesSetReporting :: "'j cjson_api \<Rightarrow> 'j link_api \<Rightarrow> u64 \<Rightarrow> u8 \<Rightarrow> u16 \<Rightarrow> zhalAttributeReportingConfig list option \<Rightarrow> 'j zlog \<Rightarrow> int \<times> 'j zlog" where
  "zhalAttributesSetReporting J L eui64 endpointId clusterId configs = zhalAttributesSetReportingInternal J L eui64 endpointId clusterId configs False 0"

definition zhalAttributesSetReportingMfgSpecific :: "'j cjson_api \<Rightarrow> 'j link_api \<Rightarrow> u64 \<Rightarrow> u8 \<Rightarrow> u16 \<Rightarrow> u16 \<Rightarrow> zhalAttributeReportingConfig list option \<Rightarrow>
    'j zlog \<Rightarrow> int \<times> 'j zlog" where
  "zhalAttributesSetReportingMfgSpecific J L eui64 endpointId clusterId mfgId configs =
     zhalAttributesSetReportingInternal J L eui64 endpointId clusterId configs True mfgId"

text \<open>The flags of a device are one byte.\<close>

record zhalDeviceEntry =
  de_eui64 :: u64
  de_flags :: u8

text \<open>\<open>None\<close> is \<^verbatim>\<open>NULL\<close> with a number of devices that is not 0.\<close>

definition zhalSetDevices :: "'j cjson_api \<Rightarrow> 'j link_api \<Rightarrow> zhalDeviceEntry list option \<Rightarrow> 'j zlog \<Rightarrow> int \<times> 'j zlog" where
  "zhalSetDevices J L devices log =
     (case devices of None \<Rightarrow> (-1, log)
      | Some ds \<Rightarrow> (case sendRequestWithTimeout J L 0 (json_request J ''setDevices''
          [(''devices'', Sub (json_array J (map (\<lambda>d. json_object J [(''eui64'', Str (Some (eui64_text (de_eui64 d)))), (''flags'', Num (uint (de_flags d)))]) ds)))])
          SET_DEVICES_TIMEOUT_SECONDS log of ((result, _), log') \<Rightarrow> (result, log')))"

definition zhalRemoveDeviceAddress :: "'j cjson_api \<Rightarrow> 'j link_api \<Rightarrow> u64 \<Rightarrow> 'j zlog \<Rightarrow> int \<times> 'j zlog" where
  "zhalRemoveDeviceAddress J L eui64 = sendRequestNoResponse J L 0 (json_request J ''removeDeviceAddress'' [setAddress eui64])"


text \<open>Commands. A message that is given must not be empty.\<close>

definition message_field :: "'j request_api \<Rightarrow> u8 list option \<Rightarrow> string \<times> 'j field" where
  "message_field X message = (''encodedMessage'', Str (case message of None \<Rightarrow> Some '''' | Some _ \<Rightarrow> icEncodeBase64 X message))"

definition command_request :: "'j cjson_api \<Rightarrow> 'j request_api \<Rightarrow> u64 \<Rightarrow> u8 \<Rightarrow> u16 \<Rightarrow> bool \<Rightarrow> bool \<Rightarrow> bool \<Rightarrow> u8 \<Rightarrow> int \<Rightarrow> u16 \<Rightarrow> u8 list option \<Rightarrow> 'j" where
  "command_request J X eui64 endpointId clusterId toServer useApsEncryption useDefaultResponse commandId isMfgSpecific mfgId message =
     json_request J ''sendCommand''
       (binding_fields eui64 endpointId clusterId @
        [(''direction'', Str (Some (if toServer then ''clientToServer'' else ''serverToClient''))), (''isMfgSpecific'', Num isMfgSpecific),
         (''mfgId'', Num (uint mfgId)), (''commandId'', Num (uint commandId)), message_field X message,
         (''requestDefaultResponse'', Boolean useDefaultResponse), (''useApsEncryption'', Boolean useApsEncryption)])"

definition zhalSendCommand :: "'j cjson_api \<Rightarrow> 'j request_api \<Rightarrow> 'j link_api \<Rightarrow> u64 \<Rightarrow> u8 \<Rightarrow> u16 \<Rightarrow> bool \<Rightarrow> bool \<Rightarrow> bool \<Rightarrow> u8 \<Rightarrow> u8 list option \<Rightarrow>
    'j zlog \<Rightarrow> int \<times> 'j zlog" where
  "zhalSendCommand J X L eui64 endpointId clusterId toServer useApsEncryption useDefaultResponse commandId message log =
     (if message = Some [] then (-1, log)
      else sendRequestNoResponse J L eui64
        (command_request J X eui64 endpointId clusterId toServer useApsEncryption useDefaultResponse commandId 0 0 message) log)"

definition zhalSendMfgCommand :: "'j cjson_api \<Rightarrow> 'j request_api \<Rightarrow> 'j link_api \<Rightarrow> u64 \<Rightarrow> u8 \<Rightarrow> u16 \<Rightarrow> bool \<Rightarrow> bool \<Rightarrow> bool \<Rightarrow> u8 \<Rightarrow> u16 \<Rightarrow> u8 list option \<Rightarrow>
    'j zlog \<Rightarrow> int \<times> 'j zlog" where
  "zhalSendMfgCommand J X L eui64 endpointId clusterId toServer useApsEncryption useDefaultResponse commandId mfgId message log =
     (if message = Some [] then (-1, log)
      else sendRequestNoResponse J L eui64
        (command_request J X eui64 endpointId clusterId toServer useApsEncryption useDefaultResponse commandId 1 mfgId message) log)"

definition zhalSendViaApsAck :: "'j cjson_api \<Rightarrow> 'j request_api \<Rightarrow> 'j link_api \<Rightarrow> u64 \<Rightarrow> u8 \<Rightarrow> u16 \<Rightarrow> u8 \<Rightarrow> u8 list option \<Rightarrow> 'j zlog \<Rightarrow> int \<times> 'j zlog" where
  "zhalSendViaApsAck J X L eui64 endpointId clusterId sequenceNum message log =
     (if message = Some [] then (-1, log)
      else sendRequestNoResponse J L eui64 (json_request J ''sendViaApsAck''
        (binding_fields eui64 endpointId clusterId @ [(''sequenceNum'', Num (uint sequenceNum)), message_field X message])) log)"

definition zhalRequestLeave :: "'j cjson_api \<Rightarrow> 'j link_api \<Rightarrow> u64 \<Rightarrow> bool \<Rightarrow> bool \<Rightarrow> 'j zlog \<Rightarrow> int \<times> 'j zlog" where
  "zhalRequestLeave J L eui64 withRejoin isEndDevice =
     sendRequestNoResponse J L eui64 (json_request J ''requestLeave''
       ([setAddress eui64] @ (if withRejoin then [(''withRejoin'', Boolean True)] else []) @ (if isEndDevice then [(''isEndDevice'', Boolean True)] else [])))"

record zhalNetworkChangeRequest =
  nc_channel :: u8
  nc_panId :: u16
  nc_networkKey :: "u8 list"

definition zhalNetworkChange :: "'j cjson_api \<Rightarrow> 'j link_api \<Rightarrow> zhalNetworkChangeRequest \<Rightarrow> 'j zlog \<Rightarrow> int \<times> 'j zlog" where
  "zhalNetworkChange J L r = sendRequestNoResponse J L 0 (json_request J ''networkChange''
     [(''channel'', Num (uint (nc_channel r))), (''panId'', Num (uint (nc_panId r))),
      (''netKey'', Str (Some (concat (map (\<lambda>b. hex_text 2 (unat b)) (nc_networkKey r)))))])"

definition zhalDeviceIsChild :: "'j cjson_api \<Rightarrow> 'j link_api \<Rightarrow> u64 \<Rightarrow> 'j zlog \<Rightarrow> bool \<times> 'j zlog" where
  "zhalDeviceIsChild J L eui64 log =
     (case sendRequestNoResponse J L 0 (json_request J ''deviceIsChild'' [setAddress eui64]) log of (r, log') \<Rightarrow> (r = 0, log'))"

definition zhalUpgradeDeviceFirmwareLegacy :: "'j cjson_api \<Rightarrow> 'j link_api \<Rightarrow> u64 \<Rightarrow> u64 \<Rightarrow> cstr \<Rightarrow> cstr \<Rightarrow> 'j zlog \<Rightarrow> int \<times> 'j zlog" where
  "zhalUpgradeDeviceFirmwareLegacy J L eui64 routerEui64 appFilename bootloaderFilename log =
     (case appFilename of None \<Rightarrow> (-1, log)
      | Some _ \<Rightarrow> sendRequestNoResponse J L eui64 (json_request J ''upgradeDeviceFirmwareLegacy''
          ([setAddress eui64, (''routerAddress'', Str (Some (eui64_text routerEui64))), (''appFilename'', Str appFilename), (''authChallengeResponse'', Num 0)] @
           (case bootloaderFilename of None \<Rightarrow> [] | Some _ \<Rightarrow> [(''bootloaderFilename'', Str bootloaderFilename)]))) log)"

datatype zhalMessageHandlingType = MESSAGE_HANDLING_NORMAL | MESSAGE_HANDLING_IGNORE_ALL | MESSAGE_HANDLING_PASSTHRU_ALL

fun handling_value :: "zhalMessageHandlingType \<Rightarrow> int" where
  "handling_value MESSAGE_HANDLING_NORMAL = 0"
| "handling_value MESSAGE_HANDLING_IGNORE_ALL = 1"
| "handling_value MESSAGE_HANDLING_PASSTHRU_ALL = 2"

record zhalLpmMonitoredDeviceInfo =
  lpm_eui64 :: u64
  lpm_timeoutSeconds :: int
  lpm_messageHandling :: zhalMessageHandlingType

definition zhalEnterLowPowerMode :: "'j cjson_api \<Rightarrow> 'j link_api \<Rightarrow> zhalLpmMonitoredDeviceInfo list option \<Rightarrow> 'j zlog \<Rightarrow> int \<times> 'j zlog" where
  "zhalEnterLowPowerMode J L deviceList = sendRequestNoResponse J L 0 (json_request J ''enterLowPowerMode''
     [(''monitoredDeviceInfos'', Sub (json_array J (map (\<lambda>d. json_object J
        [(''eui64'', Str (Some (eui64_text (lpm_eui64 d)))), (''timeoutSeconds'', Num (lpm_timeoutSeconds d)),
         (''messageHandling'', Num (handling_value (lpm_messageHandling d)))]) (case deviceList of None \<Rightarrow> [] | Some ds \<Rightarrow> ds))))])"

definition zhalExitLowPowerMode :: "'j cjson_api \<Rightarrow> 'j link_api \<Rightarrow> 'j zlog \<Rightarrow> int \<times> 'j zlog" where
  "zhalExitLowPowerMode J L = sendRequestNoResponse J L 0 (json_request J ''exitLowPowerMode'' [])"

definition zhalSetCommunicationFailTimeout :: "'j cjson_api \<Rightarrow> 'j link_api \<Rightarrow> u32 \<Rightarrow> 'j zlog \<Rightarrow> int \<times> 'j zlog" where
  "zhalSetCommunicationFailTimeout J L timeoutSeconds =
     sendRequestNoResponse J L 0 (json_request J ''setCommunicationFailTimeout'' [(''timeoutSeconds'', Num (uint timeoutSeconds))])"

definition zhalAddZigbeeUart :: "'j cjson_api \<Rightarrow> 'j link_api \<Rightarrow> u64 \<Rightarrow> u8 \<Rightarrow> 'j zlog \<Rightarrow> int \<times> 'j zlog" where
  "zhalAddZigbeeUart J L eui64 endpointId =
     sendRequestNoResponse J L eui64 (json_request J ''addZigbeeUart'' [setAddress eui64, (''endpoint'', Num (uint endpointId))])"

definition zhalRemoveZigbeeUart :: "'j cjson_api \<Rightarrow> 'j link_api \<Rightarrow> u64 \<Rightarrow> 'j zlog \<Rightarrow> int \<times> 'j zlog" where
  "zhalRemoveZigbeeUart J L eui64 = sendRequestNoResponse J L eui64 (json_request J ''removeZigbeeUart'' [setAddress eui64])"

definition zhalSyncZigbeeUart :: "'j cjson_api \<Rightarrow> 'j link_api \<Rightarrow> u64 \<Rightarrow> u8 \<Rightarrow> 'j zlog \<Rightarrow> int \<times> 'j zlog" where
  "zhalSyncZigbeeUart J L eui64 endpointId =
     sendRequestNoResponse J L eui64 (json_request J ''syncZigbeeUart'' [setAddress eui64, (''endpoint'', Num (uint endpointId))])"

definition zhalSetOtaUpgradeDelay :: "'j cjson_api \<Rightarrow> 'j link_api \<Rightarrow> u32 \<Rightarrow> 'j zlog \<Rightarrow> int \<times> 'j zlog" where
  "zhalSetOtaUpgradeDelay J L delaySeconds =
     sendRequestNoResponse J L 0 (json_request J ''setOtaUpgradeDelay'' [(''delaySeconds'', Num (uint delaySeconds))])"

text \<open>Requests that return whether the result is 0.\<close>

definition succeeds :: "int \<times> 'j zlog \<Rightarrow> bool \<times> 'j zlog" where
  "succeeds r = (fst r = 0, snd r)"

definition zhalIncrementNetworkCounters :: "'j cjson_api \<Rightarrow> 'j link_api \<Rightarrow> int \<Rightarrow> int \<Rightarrow> 'j zlog \<Rightarrow> bool \<times> 'j zlog" where
  "zhalIncrementNetworkCounters J L nonce frame log =
     succeeds (sendRequestNoResponse J L 0 (json_request J ''incrementNetworkCounters'' [(''nonce'', Num nonce), (''frame'', Num frame)]) log)"

definition zhalConfigureNetworkHealthCheck :: "'j cjson_api \<Rightarrow> 'j link_api \<Rightarrow> u32 \<Rightarrow> u8 \<Rightarrow> u32 \<Rightarrow> u32 \<Rightarrow> u32 \<Rightarrow> 'j zlog \<Rightarrow> bool \<times> 'j zlog" where
  "zhalConfigureNetworkHealthCheck J L intervalMillis ccaThreshold ccaFailureThreshold restoreThreshold delayBetweenThresholdRetriesMillis log =
     succeeds (sendRequestNoResponse J L 0 (json_request J ''networkHealthCheckConfigure''
       [(''intervalMillis'', Num (uint intervalMillis)), (''ccaThreshold'', Num (sint ccaThreshold)), (''ccaFailureThreshold'', Num (uint ccaFailureThreshold)),
        (''restoreThreshold'', Num (uint restoreThreshold)), (''delayBetweenThresholdRetriesMillis'', Num (uint delayBetweenThresholdRetriesMillis))]) log)"

definition zhalDefenderConfigure :: "'j cjson_api \<Rightarrow> 'j link_api \<Rightarrow> u8 \<Rightarrow> u32 \<Rightarrow> u32 \<Rightarrow> 'j zlog \<Rightarrow> bool \<times> 'j zlog" where
  "zhalDefenderConfigure J L panIdChangeThreshold panIdChangeWindowMillis panIdChangeRestoreMillis log =
     succeeds (sendRequestNoResponse J L 0 (json_request J ''defenderConfigure''
       [(''panIdChangeThreshold'', Num (uint panIdChangeThreshold)), (''panIdChangeWindowMillis'', Num (uint panIdChangeWindowMillis)),
        (''panIdChangeRestoreMillis'', Num (uint panIdChangeRestoreMillis))]) log)"

definition zhalSetProperty :: "'j cjson_api \<Rightarrow> 'j request_api \<Rightarrow> 'j link_api \<Rightarrow> cstr \<Rightarrow> cstr \<Rightarrow> 'j zlog \<Rightarrow> bool \<times> 'j zlog" where
  "zhalSetProperty J X L key value log =
     succeeds (sendRequestNoResponse J L 0 (json_request J ''setProperty''
       [(''key'', Str key), (''value'', Sub (case value of None \<Rightarrow> cJSON_CreateNull X | Some v \<Rightarrow> cJSON_CreateString J v))]) log)"


section \<open>Requests with a response\<close>

text \<open>\<open>with_response\<close> reads the response when the result is 0, and gives the default otherwise.\<close>

definition with_response :: "(int \<times> 'j option) \<times> 'j zlog \<Rightarrow> (int \<Rightarrow> 'a) \<Rightarrow> ('j \<Rightarrow> 'a) \<Rightarrow> 'a \<times> 'j zlog" where
  "with_response r dflt f = (case r of ((result, response), log) \<Rightarrow>
     (case (result = 0, response) of (True, Some resp) \<Rightarrow> f resp | _ \<Rightarrow> dflt result, log))"

definition int_item :: "'j cjson_api \<Rightarrow> 'j \<Rightarrow> string \<Rightarrow> int option" where
  "int_item J j k = map_option (cJSON_valueint J) (cJSON_GetObjectItem J j k)"

definition array_items :: "'j cjson_api \<Rightarrow> 'j \<Rightarrow> nat \<Rightarrow> 'j list option" where
  "array_items J a n = those (map (cJSON_GetArrayItem J a) [0..<n])"

text \<open>The process id and whether it is initialised, when the caller asks for them.\<close>

definition zhalHeartbeat :: "'j cjson_api \<Rightarrow> 'j link_api \<Rightarrow> 'j zlog \<Rightarrow> (int \<times> (int \<times> bool) option) \<times> 'j zlog" where
  "zhalHeartbeat J L log =
     with_response (sendRequest J L 0 (json_request J ''heartbeat'' []) log) (\<lambda>r. (r, None))
       (\<lambda>resp. let pid = cJSON_GetObjectItem J resp ''pid''
          in (0, Some (if cJSON_IsNumber J pid then (case pid of None \<Rightarrow> -1 | Some p \<Rightarrow> cJSON_valueint J p) else -1,
            cJSON_IsTrue J (cJSON_GetObjectItem J resp ''initialized''))))"

text \<open>The items that belong to the response itself are removed from the counters.\<close>

definition zhalGetAndClearCounters :: "'j cjson_api \<Rightarrow> 'j link_api \<Rightarrow> 'j zlog \<Rightarrow> 'j option \<times> 'j zlog" where
  "zhalGetAndClearCounters J L log =
     (case sendRequest J L 0 (json_request J ''getCounters'' []) log of ((rc, result), log') \<Rightarrow>
        (if rc \<noteq> 0 then result
         else map_option (\<lambda>j. foldl (cJSON_DeleteItemFromObject J) j [''eventType'', ''ipcResponseType'', ''resultCode'', ''requestId'']) result, log'))"

record zhalSystemStatus =
  ss_networkIsUp :: bool
  ss_networkIsOpenForJoin :: bool
  ss_eui64 :: u64
  ss_originalEui64 :: u64
  ss_channel :: u8
  ss_panId :: u16
  ss_networkKey :: "u8 list"
  ss_version :: string

text \<open>
  The bytes of the key up to the first that is not a number, and whether all were. \<^verbatim>\<open>strncpy\<close> of the version
  keeps 63 characters.
\<close>

fun key_bytes :: "zevent_api \<Rightarrow> nat \<Rightarrow> string \<Rightarrow> u8 list \<times> bool" where
  "key_bytes X 0 t = ([], True)"
| "key_bytes X (Suc n) t =
     (case stringToUnsigned X (Some (take 2 t)) 16 of
        Some v \<Rightarrow> if unat v \<le> 255 then (case key_bytes X n (drop 2 t) of (bs, ok) \<Rightarrow> (ucast v # bs, ok)) else (replicate (Suc n) 0, False)
      | None \<Rightarrow> (replicate (Suc n) 0, False))"

definition read_key :: "'j cjson_api \<Rightarrow> zevent_api \<Rightarrow> 'j option \<Rightarrow> u8 list \<times> bool" where
  "read_key J X item =
     (case Option.bind item (cJSON_valuestring J) of
        Some t \<Rightarrow> if length t = 32 then key_bytes X 16 t else (replicate 16 0, False)
      | None \<Rightarrow> (replicate 16 0, False))"

definition read_status :: "'j cjson_api \<Rightarrow> zevent_api \<Rightarrow> 'j \<Rightarrow> (int \<times> zhalSystemStatus) option" where
  "read_status J X response =
     (let up = cJSON_GetObjectItem J response ''networkIsUp''; openForJoin = cJSON_GetObjectItem J response ''networkIsOpenForJoin'';
          number = (\<lambda>k. Option.bind (cJSON_GetObjectItem J response k) (\<lambda>i. stringToUnsigned X (cJSON_valuestring J i) 16));
          eui64 = number ''eui64''; originalEui64 = number ''originalEui64'';
          channel = int_item J response ''channel''; panId = int_item J response ''panId'';
          (key, keyOk) = read_key J X (cJSON_GetObjectItem J response ''networkKey'');
          result = (if up = None \<or> openForJoin = None \<or> eui64 = None \<or> originalEui64 = None \<or> channel = None \<or> panId = None \<or> \<not> keyOk then -1 else 0);
          status = (\<lambda>version. \<lparr>ss_networkIsUp = (up \<noteq> None \<and> cJSON_IsTrue J up), ss_networkIsOpenForJoin = (openForJoin \<noteq> None \<and> cJSON_IsTrue J openForJoin),
            ss_eui64 = (case eui64 of None \<Rightarrow> 0 | Some v \<Rightarrow> v), ss_originalEui64 = (case originalEui64 of None \<Rightarrow> 0 | Some v \<Rightarrow> v),
            ss_channel = (case channel of None \<Rightarrow> 0 | Some c \<Rightarrow> word_of_int c), ss_panId = (case panId of None \<Rightarrow> 0 | Some p \<Rightarrow> word_of_int p),
            ss_networkKey = key, ss_version = version\<rparr>)
      in case cJSON_GetObjectItem J response ''version'' of None \<Rightarrow> Some (result, status '''')
         | Some v \<Rightarrow> map_option (\<lambda>t. (result, status (take 63 t))) (cJSON_valuestring J v))"

text \<open>\<open>None\<close> inside is a fault; without a response only the result is known.\<close>

definition zhalGetSystemStatus :: "'j cjson_api \<Rightarrow> zevent_api \<Rightarrow> 'j link_api \<Rightarrow> 'j zlog \<Rightarrow> (int \<times> zhalSystemStatus option) option \<times> 'j zlog" where
  "zhalGetSystemStatus J X L log =
     with_response (sendRequest J L 0 (json_request J ''getSystemStatus'' []) log) (\<lambda>_. Some (-1, None))
       (\<lambda>response. map_option (map_prod id Some) (read_status J X response))"

text \<open>Lists are read up to their length in the width of the counter.\<close>

definition zhalGetEndpointIds :: "'j cjson_api \<Rightarrow> 'j link_api \<Rightarrow> u64 \<Rightarrow> 'j zlog \<Rightarrow> (int \<times> u8 list) option \<times> 'j zlog" where
  "zhalGetEndpointIds J L eui64 log =
     with_response (sendRequest J L eui64 (json_request J ''getEndpointIds'' [setAddress eui64]) log) (\<lambda>r. Some (r, []))
       (\<lambda>response. case cJSON_GetObjectItem J response ''endpointIds'' of None \<Rightarrow> Some (-1, [])
          | Some ids \<Rightarrow> map_option (\<lambda>js. (0, map (\<lambda>j. word_of_int (cJSON_valueint J j)) js))
              (array_items J ids (unat (of_nat (cJSON_GetArraySize J ids) :: u8))))"

definition MAX_CLUSTERS_PER_ENDPOINT :: nat where "MAX_CLUSTERS_PER_ENDPOINT = 255"

record zhalEndpointInfo =
  ei_endpointId :: u8
  ei_appProfileId :: u16
  ei_appDeviceId :: u16
  ei_appDeviceVersion :: u8
  ei_serverClusterIds :: "u16 list"
  ei_clientClusterIds :: "u16 list"

definition read_clusters :: "'j cjson_api \<Rightarrow> 'j option \<Rightarrow> (bool \<times> u16 list) option" where
  "read_clusters J item =
     (case item of None \<Rightarrow> Some (False, [])
      | Some a \<Rightarrow> map_option (\<lambda>js. (True, map (\<lambda>j. word_of_int (cJSON_valueint J j)) js)) (array_items J a (unat (of_nat (cJSON_GetArraySize J a) :: u8))))"

definition read_endpoint_info :: "'j cjson_api \<Rightarrow> 'j \<Rightarrow> (int \<times> zhalEndpointInfo) option" where
  "read_endpoint_info J response = do {
     (okS, servers) \<leftarrow> read_clusters J (cJSON_GetObjectItem J response ''appInputClusterIds'');
     (okC, clients) \<leftarrow> read_clusters J (cJSON_GetObjectItem J response ''appOutputClusterIds'');
     let num = int_item J response;
     Some (if num ''endpointId'' = None \<or> num ''appProfileId'' = None \<or> num ''appDeviceId'' = None \<or> num ''appDeviceVersion'' = None \<or> \<not> okS \<or> \<not> okC then -1 else 0,
       \<lparr>ei_endpointId = (case num ''endpointId'' of None \<Rightarrow> 0 | Some n \<Rightarrow> word_of_int n),
        ei_appProfileId = (case num ''appProfileId'' of None \<Rightarrow> 0 | Some n \<Rightarrow> word_of_int n),
        ei_appDeviceId = (case num ''appDeviceId'' of None \<Rightarrow> 0 | Some n \<Rightarrow> word_of_int n),
        ei_appDeviceVersion = (case num ''appDeviceVersion'' of None \<Rightarrow> 0 | Some n \<Rightarrow> word_of_int n),
        ei_serverClusterIds = servers, ei_clientClusterIds = clients\<rparr>) }"

definition zhalGetEndpointInfo :: "'j cjson_api \<Rightarrow> 'j link_api \<Rightarrow> u64 \<Rightarrow> u8 \<Rightarrow> 'j zlog \<Rightarrow> (int \<times> zhalEndpointInfo option) option \<times> 'j zlog" where
  "zhalGetEndpointInfo J L eui64 endpointId log =
     with_response (sendRequest J L eui64 (json_request J ''getClustersInfo'' [setAddress eui64, (''endpointId'', Num (uint endpointId))]) log)
       (\<lambda>r. Some (r, None)) (\<lambda>response. map_option (map_prod id Some) (read_endpoint_info J response))"

definition zhalEndpointHasServerCluster :: "zhalEndpointInfo option \<Rightarrow> u16 \<Rightarrow> bool" where
  "zhalEndpointHasServerCluster endpointInfo clusterId =
     (case endpointInfo of None \<Rightarrow> False | Some i \<Rightarrow> list_ex (\<lambda>c. c = clusterId) (ei_serverClusterIds i))"

definition cluster_fields :: "u64 \<Rightarrow> u8 \<Rightarrow> u16 \<Rightarrow> bool \<Rightarrow> (string \<times> 'j field) list" where
  "cluster_fields eui64 endpointId clusterId toServer = binding_fields eui64 endpointId clusterId @ [(''clientToServer'', flag toServer)]"

definition zhalGetAttributeInfos :: "'j cjson_api \<Rightarrow> 'j link_api \<Rightarrow> u64 \<Rightarrow> u8 \<Rightarrow> u16 \<Rightarrow> bool \<Rightarrow> 'j zlog \<Rightarrow> (int \<times> zhalAttributeInfo list) option \<times> 'j zlog" where
  "zhalGetAttributeInfos J L eui64 endpointId clusterId toServer log =
     with_response (sendRequest J L eui64 (json_request J ''getAttributeInfos'' (cluster_fields eui64 endpointId clusterId toServer)) log) (\<lambda>r. Some (r, []))
       (\<lambda>response. case cJSON_GetObjectItem J response ''attributeInfos'' of None \<Rightarrow> Some (-1, [])
          | Some infos \<Rightarrow> do {
              js \<leftarrow> array_items J infos (unat (of_nat (cJSON_GetArraySize J infos) :: u16));
              is \<leftarrow> those (map (\<lambda>j. do { i \<leftarrow> int_item J j ''id''; t \<leftarrow> int_item J j ''type'';
                Some \<lparr>ai_id = word_of_int i, ai_type = word_of_int t\<rparr> }) js);
              Some (0, is) })"


text \<open>
  The value of one attribute, with whether the entry has an id. A successful entry without data is a
  fault.
\<close>

definition no_attribute :: zhalAttributeData where
  "no_attribute = \<lparr>ad_attributeInfo = \<lparr>ai_id = 0, ai_type = 0\<rparr>, ad_data = None\<rparr>"

definition read_attribute :: "'j cjson_api \<Rightarrow> zevent_api \<Rightarrow> 'j \<Rightarrow> (bool \<times> zhalAttributeData) option" where
  "read_attribute J X item =
     (case int_item J item ''id'' of None \<Rightarrow> Some (False, no_attribute)
      | Some i \<Rightarrow> let info = \<lparr>ai_id = word_of_int i, ai_type = (case int_item J item ''type'' of None \<Rightarrow> 0 | Some t \<Rightarrow> word_of_int t)\<rparr>;
            success = (case int_item J item ''success'' of None \<Rightarrow> False | Some v \<Rightarrow> v \<noteq> 0)
          in if success
             then (case cJSON_GetObjectItem J item ''data'' of None \<Rightarrow> None
               | Some d \<Rightarrow> Some (True, \<lparr>ad_attributeInfo = info, ad_data = icDecodeBase64 X (cJSON_valuestring J d)\<rparr>))
             else Some (True, \<lparr>ad_attributeInfo = info, ad_data = None\<rparr>))"

definition read_attributes :: "'j cjson_api \<Rightarrow> zevent_api \<Rightarrow> nat \<Rightarrow> 'j \<Rightarrow> (int \<times> zhalAttributeData list) option" where
  "read_attributes J X numAttributeIds response =
     (case cJSON_GetObjectItem J response ''attributeData'' of None \<Rightarrow> Some (-1, replicate numAttributeIds no_attribute)
      | Some datas \<Rightarrow> let numAttributeData = (of_nat (cJSON_GetArraySize J datas) :: u8)
          in if numAttributeData \<noteq> of_nat numAttributeIds then Some (-1, replicate numAttributeIds no_attribute)
             else do {
               js \<leftarrow> array_items J datas (unat numAttributeData);
               ds \<leftarrow> those (map (read_attribute J X) js);
               Some (if list_all fst ds then 0 else -1, map snd ds) })"

definition attributesRead :: "'j cjson_api \<Rightarrow> zevent_api \<Rightarrow> 'j link_api \<Rightarrow> u64 \<Rightarrow> u8 \<Rightarrow> u16 \<Rightarrow> bool \<Rightarrow> bool \<Rightarrow> u16 \<Rightarrow> u16 list option \<Rightarrow>
    'j zlog \<Rightarrow> (int \<times> zhalAttributeData list) option \<times> 'j zlog" where
  "attributesRead J X L eui64 endpointId clusterId toServer isMfgSpecific mfgId attributeIds log =
     (case attributeIds of
        Some (a # as) \<Rightarrow>
          with_response (sendRequest J L eui64
            (json_request J ''attributesRead'' (cluster_fields eui64 endpointId clusterId toServer @ [(''isMfgSpecific'', flag isMfgSpecific)] @
              (if isMfgSpecific then [(''mfgId'', Num (uint mfgId))] else []) @
              [(''infos'', Sub (json_array J (map (\<lambda>i. json_object J [(''id'', Num (uint i))]) (a # as))))])) log)
            (\<lambda>r. Some (r, replicate (length (a # as)) no_attribute)) (read_attributes J X (length (a # as)))
      | _ \<Rightarrow> (Some (-1, []), log))"

definition zhalAttributesRead :: "'j cjson_api \<Rightarrow> zevent_api \<Rightarrow> 'j link_api \<Rightarrow> u64 \<Rightarrow> u8 \<Rightarrow> u16 \<Rightarrow> bool \<Rightarrow> u16 list option \<Rightarrow>
    'j zlog \<Rightarrow> (int \<times> zhalAttributeData list) option \<times> 'j zlog" where
  "zhalAttributesRead J X L eui64 endpointId clusterId toServer attributeIds =
     attributesRead J X L eui64 endpointId clusterId toServer False 0xFFFF attributeIds"

definition zhalAttributesReadMfgSpecific :: "'j cjson_api \<Rightarrow> zevent_api \<Rightarrow> 'j link_api \<Rightarrow> u64 \<Rightarrow> u8 \<Rightarrow> u16 \<Rightarrow> u16 \<Rightarrow> bool \<Rightarrow> u16 list option \<Rightarrow>
    'j zlog \<Rightarrow> (int \<times> zhalAttributeData list) option \<times> 'j zlog" where
  "zhalAttributesReadMfgSpecific J X L eui64 endpointId clusterId mfgId toServer attributeIds =
     attributesRead J X L eui64 endpointId clusterId toServer True mfgId attributeIds"

text \<open>Tables. \<^verbatim>\<open>sscanf\<close> without a width; its target is 0 where it was cleared, and not initialised for a hop.\<close>

definition scan_hex :: "cstr \<Rightarrow> u64 \<Rightarrow> u64 option" where
  "scan_hex str before = map_option (\<lambda>t. case parse_hex (dropWhile is_space t) of None \<Rightarrow> before | Some v \<Rightarrow> v) str"

definition scan_item :: "'j cjson_api \<Rightarrow> 'j \<Rightarrow> string \<Rightarrow> u64 option" where
  "scan_item J j k = (case cJSON_GetObjectItem J j k of None \<Rightarrow> Some 0 | Some i \<Rightarrow> scan_hex (cJSON_valuestring J i) 0)"

datatype binding_destination = ExtendedAddress u64 u8 | Group u16

record zhalBindingTableEntry =
  bt_sourceAddress :: u64
  bt_sourceEndpoint :: u8
  bt_clusterId :: u16
  bt_destination :: binding_destination

definition int_or_0 :: "'j cjson_api \<Rightarrow> 'j \<Rightarrow> string \<Rightarrow> int" where
  "int_or_0 J j k = (case int_item J j k of None \<Rightarrow> 0 | Some n \<Rightarrow> n)"

definition read_binding :: "'j cjson_api \<Rightarrow> 'j \<Rightarrow> zhalBindingTableEntry option" where
  "read_binding J entry = do {
     source \<leftarrow> scan_item J entry ''sourceAddress'';
     dest \<leftarrow> (case int_item J entry ''destinationGroup'' of Some g \<Rightarrow> Some (Group (word_of_int g))
       | None \<Rightarrow> map_option (\<lambda>d. ExtendedAddress d (word_of_int (int_or_0 J entry ''destinationEndpoint''))) (scan_item J entry ''destinationAddress''));
     Some \<lparr>bt_sourceAddress = source, bt_sourceEndpoint = word_of_int (int_or_0 J entry ''sourceEndpoint''),
       bt_clusterId = word_of_int (int_or_0 J entry ''clusterId''), bt_destination = dest\<rparr> }"

text \<open>The entries of an array item of the response; without it the table is empty.\<close>

definition response_entries :: "'j cjson_api \<Rightarrow> 'j \<Rightarrow> string \<Rightarrow> 'j list option" where
  "response_entries J response k =
     (case cJSON_GetObjectItem J response k of None \<Rightarrow> Some [] | Some a \<Rightarrow> array_items J a (cJSON_GetArraySize J a))"

definition zhalBindingGet :: "'j cjson_api \<Rightarrow> 'j link_api \<Rightarrow> u64 \<Rightarrow> 'j zlog \<Rightarrow> zhalBindingTableEntry list option option \<times> 'j zlog" where
  "zhalBindingGet J L eui64 log =
     with_response (sendRequest J L 0 (json_request J ''bindingGet'' [setAddress eui64]) log) (\<lambda>_. Some None)
       (\<lambda>response. do { js \<leftarrow> response_entries J response ''entries''; bs \<leftarrow> those (map (read_binding J) js); Some (Some bs) })"

definition zhalGetSourceRoute :: "'j cjson_api \<Rightarrow> zevent_api \<Rightarrow> 'j link_api \<Rightarrow> u64 \<Rightarrow> 'j zlog \<Rightarrow> u64 list option option \<times> 'j zlog" where
  "zhalGetSourceRoute J X L eui64 log =
     with_response (sendRequest J L 0 (json_request J ''getSourceRoute'' [setAddress eui64]) log) (\<lambda>_. Some None)
       (\<lambda>response. do {
          js \<leftarrow> response_entries J response ''hops'';
          hops \<leftarrow> those (map (\<lambda>j. scan_hex (cJSON_valuestring J j) (stack_eui64 X)) (filter (\<lambda>j. cJSON_IsString J (Some j)) js));
          Some (Some hops) })"

record zhalLqiData =
  lqi_eui64 :: u64
  lqi_lqi :: u8

definition read_lqi :: "'j cjson_api \<Rightarrow> 'j \<Rightarrow> zhalLqiData option" where
  "read_lqi J entry = do {
     e \<leftarrow> (if cJSON_IsString J (cJSON_GetObjectItem J entry ''eui'') then scan_item J entry ''eui'' else Some 0);
     Some \<lparr>lqi_eui64 = e, lqi_lqi = (if cJSON_IsNumber J (cJSON_GetObjectItem J entry ''lqi'') then word_of_int (int_or_0 J entry ''lqi'') else 0)\<rparr> }"

definition zhalGetLqiTable :: "'j cjson_api \<Rightarrow> 'j link_api \<Rightarrow> u64 \<Rightarrow> 'j zlog \<Rightarrow> zhalLqiData list option option \<times> 'j zlog" where
  "zhalGetLqiTable J L eui64 log =
     with_response (sendRequest J L 0 (json_request J ''getLqiTable'' [setAddress eui64]) log) (\<lambda>_. Some None)
       (\<lambda>response. do { js \<leftarrow> response_entries J response ''entries''; ls \<leftarrow> those (map (read_lqi J) js); Some (Some ls) })"

text \<open>The list is created with the first entry that has both values, whether or not its id can be read.\<close>

definition read_monitored :: "'j cjson_api \<Rightarrow> zevent_api \<Rightarrow> 'j \<Rightarrow> zhalLpmMonitoredDeviceInfo option option" where
  "read_monitored J X entry =
     (if cJSON_IsString J (cJSON_GetObjectItem J entry ''eui64'') \<and> cJSON_IsNumber J (cJSON_GetObjectItem J entry ''timerSeconds'')
      then Some (map_option (\<lambda>e. \<lparr>lpm_eui64 = e, lpm_timeoutSeconds = int_or_0 J entry ''timerSeconds'', lpm_messageHandling = MESSAGE_HANDLING_NORMAL\<rparr>)
        (stringToUnsigned X (Option.bind (cJSON_GetObjectItem J entry ''eui64'') (cJSON_valuestring J)) 16))
      else None)"

definition zhalGetMonitoredDevicesInfo :: "'j cjson_api \<Rightarrow> zevent_api \<Rightarrow> 'j link_api \<Rightarrow> 'j zlog \<Rightarrow> zhalLpmMonitoredDeviceInfo list option option \<times> 'j zlog" where
  "zhalGetMonitoredDevicesInfo J X L log =
     with_response (sendRequest J L 0 (json_request J ''getMonitoredDevices'' []) log) (\<lambda>_. Some None)
       (\<lambda>response. map_option (\<lambda>js. let es = List.map_filter (read_monitored J X) js in if es = [] then None else Some (List.map_filter id es))
          (response_entries J response ''monitoredDeviceInfos''))"

definition zhalGetFirmwareVersion :: "'j cjson_api \<Rightarrow> 'j link_api \<Rightarrow> 'j zlog \<Rightarrow> cstr \<times> 'j zlog" where
  "zhalGetFirmwareVersion J L log =
     with_response (sendRequest J L 0 (json_request J ''getFirmwareVersion'' []) log) (\<lambda>_. None)
       (\<lambda>response. let item = cJSON_GetObjectItem J response ''version'' in if cJSON_IsString J item then Option.bind item (cJSON_valuestring J) else None)"

record zhalEnergyScanResult =
  es_channel :: u8
  es_maxRssi :: u8
  es_minRssi :: u8
  es_averageRssi :: u8
  es_score :: u32

definition read_scan :: "'j cjson_api \<Rightarrow> 'j \<Rightarrow> zhalEnergyScanResult option" where
  "read_scan J entry =
     (case (int_item J entry ''chan'', int_item J entry ''max'', int_item J entry ''min'', int_item J entry ''avg'', int_item J entry ''score'') of
        (Some c, Some mx, Some mn, Some av, Some sc) \<Rightarrow> Some \<lparr>es_channel = word_of_int c, es_maxRssi = word_of_int mx, es_minRssi = word_of_int mn,
          es_averageRssi = word_of_int av, es_score = word_of_int sc\<rparr>
      | _ \<Rightarrow> None)"

text \<open>The mask has a bit for each channel. A shift by 32 or more is not defined in C and is a fault here.\<close>

definition channel_mask :: "u8 list \<Rightarrow> u32 option" where
  "channel_mask channels = (if list_all (\<lambda>c. unat c < 32) channels then Some (foldl (\<lambda>m c. Bit_Operations.or m (push_bit (unat c) 1)) 0 channels) else None)"

definition zhalPerformEnergyScan :: "'j cjson_api \<Rightarrow> 'j link_api \<Rightarrow> u8 list option \<Rightarrow> u32 \<Rightarrow> u32 \<Rightarrow> 'j zlog \<Rightarrow> zhalEnergyScanResult list option option \<times> 'j zlog" where
  "zhalPerformEnergyScan J L channelsToScan scanDurationMillis numScans log =
     (case channelsToScan of
        Some (c # cs) \<Rightarrow> (case channel_mask (c # cs) of None \<Rightarrow> (None, log)
          | Some channelMask \<Rightarrow> with_response (sendRequest J L 0 (json_request J ''energyScan''
              [(''channelMask'', Num (uint channelMask)), (''scanDurationMillis'', Num (uint scanDurationMillis)), (''scanCount'', Num (uint numScans))]) log)
              (\<lambda>_. Some None)
              (\<lambda>response. Some (map_option (\<lambda>entries. List.map_filter (read_scan J) (map snd (cJSON_children J entries))) (cJSON_GetObjectItem J response ''entries''))))
      | _ \<Rightarrow> (Some None, log))"

definition zhalTest :: "'j cjson_api \<Rightarrow> 'j link_api \<Rightarrow> 'j zlog \<Rightarrow> cstr \<times> 'j zlog" where
  "zhalTest J L log =
     with_response (sendRequest J L 0 (json_request J ''test'' []) log) (\<lambda>_. None)
       (\<lambda>response. map_option (cJSON_PrintUnformatted J) (cJSON_GetObjectItem J response ''testResult''))"

record zhalAddressTableEntry =
  at_nodeId :: u16
  at_strEui64 :: cstr

definition read_address :: "'j cjson_api \<Rightarrow> 'j \<Rightarrow> zhalAddressTableEntry option" where
  "read_address J obj =
     (let euiItem = cJSON_GetObjectItem J obj ''eui''; idItem = cJSON_GetObjectItem J obj ''nodeId''
      in if cJSON_IsString J euiItem \<and> cJSON_IsNumber J idItem
         then Some \<lparr>at_nodeId = word_of_int (int_or_0 J obj ''nodeId''), at_strEui64 = Option.bind euiItem (cJSON_valuestring J)\<rparr> else None)"

definition zhalGetAddressTable :: "'j cjson_api \<Rightarrow> 'j link_api \<Rightarrow> 'j zlog \<Rightarrow> zhalAddressTableEntry list option \<times> 'j zlog" where
  "zhalGetAddressTable J L log =
     (case sendRequest J L 0 (json_request J ''getAddressTable'' []) log of ((rc, output), log') \<Rightarrow>
        (if rc = ZHAL_STATUS_OK
         then Some (case Option.bind output (\<lambda>j. cJSON_GetObjectItem J j ''addressTable'') of None \<Rightarrow> []
           | Some a \<Rightarrow> List.map_filter (read_address J) (map snd (cJSON_children J a)))
         else None, log'))"


section \<open>Sending\<close>

text \<open>
  When the result is 0 there is a response, it says so itself, and it answers the last attempt. So the
  callers that leave their pointer uninitialised never read it.
\<close>

lemma send_loop_ok:
  assumes "send_loop J L n eui64 request t result log = ((0, response), log')" "result \<noteq> 0"
  shows "\<exists>resp c. response = Some resp \<and> cJSON_GetObjectItem J resp ''resultCode'' = Some c \<and> cJSON_valueint J c = 0 \<and>
    log' \<noteq> [] \<and> last log' \<noteq> None \<and> link_reply L (length log' - 1) = Some resp"
  using assms
proof (induction n arbitrary: request result log)
  case (Suc n)
  consider (again) request' log1 where "send_loop J L n eui64 request' t ZHAL_STATUS_NETWORK_BUSY log1 = ((0, response), log')"
    | (ok) resp c x where "link_reply L (length log) = Some resp" "cJSON_GetObjectItem J resp ''resultCode'' = Some c" "cJSON_valueint J c = 0"
        "response = Some resp" "log' = log @ [Some x]"
    using Suc.prems by (auto simp: Let_def ZHAL_STATUS_OK_def split: if_splits option.splits)
  then show ?case
  proof cases
    case again
    then show ?thesis by (rule Suc.IH) (simp add: ZHAL_STATUS_NETWORK_BUSY_def)
  next
    case ok
    then show ?thesis by simp
  qed
qed simp

theorem successful_send_has_response:
  assumes "sendRequestWithTimeout J L eui64 request t log = ((0, response), log')"
  shows "\<exists>resp c. response = Some resp \<and> cJSON_GetObjectItem J resp ''resultCode'' = Some c \<and> cJSON_valueint J c = 0 \<and>
    log' \<noteq> [] \<and> last log' \<noteq> None \<and> link_reply L (length log' - 1) = Some resp"
  using assms unfolding sendRequestWithTimeout_def by (rule send_loop_ok) simp

text \<open>What is relied on of cJSON: deleting an item that has just been added gives the object back.\<close>

definition delete_added_ok :: "'j cjson_api \<Rightarrow> bool" where
  "delete_added_ok J \<longleftrightarrow> (\<forall>j k v. cJSON_IsObject J (Some j) \<and> cJSON_GetObjectItem J j k = None \<longrightarrow>
     cJSON_DeleteItemFromObject J (cJSON_AddNumberToObject J j k v) k = j)"

definition busy_reply :: "'j cjson_api \<Rightarrow> 'j option \<Rightarrow> bool" where
  "busy_reply J reply \<longleftrightarrow> (\<exists>resp c. reply = Some resp \<and> cJSON_GetObjectItem J resp ''resultCode'' = Some c \<and> cJSON_valueint J c = ZHAL_STATUS_NETWORK_BUSY)"

definition attempts :: "'j cjson_api \<Rightarrow> 'j link_api \<Rightarrow> u64 \<Rightarrow> 'j \<Rightarrow> int \<Rightarrow> nat \<Rightarrow> nat \<Rightarrow> 'j zlog" where
  "attempts J L eui64 request t m k =
     map (\<lambda>i. Some (eui64, cJSON_AddNumberToObject J request ''requestId'' (uint (link_id L i)), t)) [m..<m + k]"

lemma attempts_Suc: "attempts J L e r t m (Suc k) = Some (e, cJSON_AddNumberToObject J r ''requestId'' (uint (link_id L m)), t) # attempts J L e r t (Suc m) k"
  by (simp add: attempts_def upt_conv_Cons del: upt_Suc)

lemma send_loop_busy:
  assumes "delete_added_ok J" "cJSON_IsObject J (Some request)" "cJSON_GetObjectItem J request ''requestId'' = None"
    and "\<forall>i < k. link_up L (length log + i) \<and> busy_reply J (link_reply L (length log + i))"
  shows "send_loop J L (k + n) eui64 request t result log =
    send_loop J L n eui64 request t (if k = 0 then result else ZHAL_STATUS_NETWORK_BUSY) (log @ attempts J L eui64 request t (length log) k)"
  using assms(4)
proof (induction k arbitrary: log result)
  case 0
  then show ?case by (simp add: attempts_def)
next
  case (Suc k)
  let ?r = "cJSON_AddNumberToObject J request ''requestId'' (uint (link_id L (length log)))"
  let ?log = "log @ [Some (eui64, ?r, t)]"
  have "busy_reply J (link_reply L (length log))" "link_up L (length log)" using Suc.prems by auto
  then obtain resp c where c: "link_reply L (length log) = Some resp" "cJSON_GetObjectItem J resp ''resultCode'' = Some c"
    "cJSON_valueint J c = ZHAL_STATUS_NETWORK_BUSY" "link_up L (length log)" by (auto simp: busy_reply_def)
  have del: "cJSON_DeleteItemFromObject J ?r ''requestId'' = request" using assms(1-3) by (simp add: delete_added_ok_def)
  have "send_loop J L (Suc k + n) eui64 request t result log = send_loop J L (k + n) eui64 request t ZHAL_STATUS_NETWORK_BUSY ?log"
    using c del by (simp add: Let_def ZHAL_STATUS_NETWORK_BUSY_def ZHAL_STATUS_OK_def)
  also have "\<dots> = send_loop J L n eui64 request t ZHAL_STATUS_NETWORK_BUSY (?log @ attempts J L eui64 request t (length ?log) k)"
  proof -
    have "\<forall>i < k. link_up L (length ?log + i) \<and> busy_reply J (link_reply L (length ?log + i))" using Suc.prems by auto
    then show ?thesis by (subst Suc.IH) auto
  qed
  finally show ?case by (simp add: attempts_Suc)
qed

text \<open>
  C8. While the network is busy the same request is sent again, each time with its own id and no other, five
  times at most; then the busy network is reported. Before that the first other outcome decides and ends the
  attempts: a layer that is down, no reply, a reply without a code, or a code, which is the result, and only
  for the code 0 the reply is handed on.
\<close>

theorem busy_request_sent_again:
  assumes "delete_added_ok J" "cJSON_IsObject J (Some request)" "cJSON_GetObjectItem J request ''requestId'' = None"
    and "\<forall>i < k. link_up L (length log + i) \<and> busy_reply J (link_reply L (length log + i))"
    and "k < 5 \<and> \<not> (link_up L (length log + k) \<and> busy_reply J (link_reply L (length log + k))) \<or> k = 5"
  shows "sendRequestWithTimeout J L eui64 request t log =
    (let so_far = (if k = 0 then - 1 else - 7); sent = attempts J L eui64 request t (length log)
     in if k = 5 then ((- 7, None), log @ sent 5)
        else if \<not> link_up L (length log + k) then ((so_far, None), log @ sent k @ [None])
        else ((case link_reply L (length log + k) of None \<Rightarrow> (so_far, None)
            | Some resp \<Rightarrow> (case cJSON_GetObjectItem J resp ''resultCode'' of None \<Rightarrow> (so_far, Some resp)
                | Some c \<Rightarrow> (cJSON_valueint J c, if cJSON_valueint J c = 0 then Some resp else None))),
          log @ sent (Suc k)))"
proof (cases "k = 5")
  case True
  have "send_loop J L (5 + 0) eui64 request t (- 1) log = ((- 7, None), log @ attempts J L eui64 request t (length log) 5)"
    using send_loop_busy [OF assms(1-3), of 5 L log 0 eui64 t "- 1"] assms(4) True by (simp add: ZHAL_STATUS_NETWORK_BUSY_def)
  then show ?thesis using True by (simp add: sendRequestWithTimeout_def MAX_NETWORK_BUSY_RETRIES_def)
next
  case False
  then obtain n where n: "MAX_NETWORK_BUSY_RETRIES = k + Suc n" using assms(5) less_iff_Suc_add [of k 5] by (auto simp: MAX_NETWORK_BUSY_RETRIES_def)
  have "sendRequestWithTimeout J L eui64 request t log = send_loop J L (Suc n) eui64 request t (if k = 0 then - 1 else ZHAL_STATUS_NETWORK_BUSY)
      (log @ attempts J L eui64 request t (length log) k)"
    unfolding sendRequestWithTimeout_def n by (rule send_loop_busy [OF assms(1-4)])
  moreover have "attempts J L eui64 request t (length log) (Suc k) = attempts J L eui64 request t (length log) k @
      [Some (eui64, cJSON_AddNumberToObject J request ''requestId'' (uint (link_id L (length log + k))), t)]" by (simp add: attempts_def)
  moreover have "length (attempts J L eui64 request t (length log) k) = k" by (simp add: attempts_def)
  moreover have "link_up L (length log + k) \<Longrightarrow> \<not> busy_reply J (link_reply L (length log + k))" using assms(5) False by blast
  ultimately show ?thesis
    using False by (auto simp: ZHAL_STATUS_OK_def ZHAL_STATUS_NETWORK_BUSY_def Let_def busy_reply_def split: option.split)
qed

section \<open>Addresses\<close>

lemma hexval_hex_char: "d < 16 \<Longrightarrow> hexval (hex_char d) = Some d"
  by (simp add: hexval_def hex_char_def Let_def)

lemma hex_prefix_append: "list_all (\<lambda>c. hexval c \<noteq> None) xs \<Longrightarrow> hex_prefix (xs @ ys) = map (\<lambda>c. the (hexval c)) xs @ hex_prefix ys"
  by (induction xs) auto

lemma hex_text_digits: "list_all (\<lambda>c. hexval c \<noteq> None) (hex_text k n)"
  by (induction k arbitrary: n) (auto simp: hexval_hex_char)

lemma hex_text_length: "length (hex_text k n) = k"
  by (induction k arbitrary: n) auto

lemma hex_text_value: "n < 16 ^ k \<Longrightarrow> foldl (\<lambda>n d. 16 * n + int d) 0 (hex_prefix (hex_text k n)) = int n"
proof (induction k arbitrary: n)
  case (Suc k)
  have "n div 16 < 16 ^ k" using Suc.prems by (simp add: less_mult_imp_div_less)
  then have "foldl (\<lambda>n d. 16 * n + int d) 0 (hex_prefix (hex_text k (n div 16))) = int (n div 16)" by (rule Suc.IH)
  moreover have "hex_prefix (hex_text k m) = map (\<lambda>c. the (hexval c)) (hex_text k m)" for m
    using hex_prefix_append [OF hex_text_digits, of k m "[]"] by simp
  ultimately show ?case by (simp add: hex_prefix_append [OF hex_text_digits] hexval_hex_char) (simp add: zdiv_int zmod_int)
qed simp

lemma digit_plain: "hexval c \<noteq> None \<Longrightarrow> \<not> is_space c \<and> c \<noteq> CHR ''-'' \<and> c \<noteq> CHR ''+'' \<and> c \<noteq> CHR ''x'' \<and> c \<noteq> CHR ''X''"
  by (auto simp: hexval_def is_space_def Let_def split: if_splits)

lemma eui64_read: "scan_hex64 (eui64_text eui64) = Some eui64"
proof -
  let ?t = "eui64_text eui64"
  have digits: "list_all (\<lambda>c. hexval c \<noteq> None) ?t" and len: "length ?t = 16"
    by (simp_all only: eui64_text_def hex_text_digits hex_text_length)
  then obtain a b rest where t: "?t = a # b # rest" by (metis One_nat_def Suc_length_conv numeral_eq_Suc pred_numeral_simps(2))
  have "hexval a \<noteq> None" "hexval b \<noteq> None" using digits t by auto
  then have ab: "\<not> is_space a" "a \<noteq> CHR ''-''" "a \<noteq> CHR ''+''" "b \<noteq> CHR ''x''" "b \<noteq> CHR ''X''" using digit_plain by auto
  have "unat eui64 < 16 ^ 16" using unsigned_less [of eui64, where 'a = nat] by simp
  then have v: "foldl (\<lambda>n d. 16 * n + int d) 0 (hex_prefix ?t) = uint eui64" by (simp add: hex_text_value eui64_text_def)
  have ne: "hex_prefix ?t \<noteq> []" using t \<open>hexval a \<noteq> None\<close> by auto
  have "take 16 (dropWhile is_space ?t) = ?t" using ab(1) len by (simp add: t)
  then have "scan_hex64 ?t = parse_hex ?t" by (simp add: scan_hex64_def)
  also have "\<dots> = Some (if uint eui64 \<ge> 2 ^ 64 then - 1 else word_of_int (uint eui64))"
    unfolding parse_hex_def Let_def v [symmetric] using ab ne by (simp add: t)
  also have "\<dots> = Some eui64" using uint_lt2p [of eui64] by simp
  finally show ?thesis .
qed

text \<open>
  C13. An address that a request carries is read back by the event handler as the same device, whatever
  the target held before.
\<close>

theorem address_read_back: "setAddress eui64 = (''address'', Str (Some t)) \<Longrightarrow> sscanf_eui64 (Some t) before = Some eui64"
  by (auto simp: setAddress_def sscanf_eui64_def eui64_read)

theorem address_read_back_witness: "sscanf_eui64 (Some (eui64_text 17)) 0 = Some 17"
  by (rule address_read_back) (simp add: setAddress_def)


section \<open>Reading responses\<close>

lemma those_length: "those xs = Some ys \<Longrightarrow> length ys = length xs"
  by (induction xs arbitrary: ys) (auto split: option.splits)

lemma array_items_length: "array_items J a n = Some js \<Longrightarrow> length js = n"
  by (auto simp: array_items_def dest: those_length)

lemma read_clusters_length:
  assumes "read_clusters J item = Some (ok, cs)"
  shows "length cs \<le> MAX_CLUSTERS_PER_ENDPOINT"
proof -
  have "unat (of_nat n :: u8) \<le> 255" for n using unsigned_less [of "of_nat n :: u8", where 'a = nat] by simp
  then show ?thesis using assms by (auto simp: read_clusters_def MAX_CLUSTERS_PER_ENDPOINT_def split: option.splits dest!: array_items_length)
qed

text \<open>A request either reads the response to its last attempt, or has a result that is not 0.\<close>

lemma with_response_cases:
  assumes "with_response (sendRequest J L eui64 request log) dflt f = (x, log')"
  obtains (read) response where "x = f response" "link_reply L (length log' - 1) = Some response" | (none) r where "x = dflt r" "r \<noteq> 0"
proof -
  obtain result resp where send: "sendRequest J L eui64 request log = ((result, resp), log')"
    and x: "x = (case (result = 0, resp) of (True, Some r) \<Rightarrow> f r | _ \<Rightarrow> dflt result)"
    using assms by (auto simp: with_response_def split: prod.splits)
  show thesis
  proof (cases "result = 0")
    case True
    have "send_loop J L MAX_NETWORK_BUSY_RETRIES eui64 request DEFAULT_REQUEST_TIMEOUT_SECONDS (-1) log = ((0, resp), log')"
      using send True by (simp add: sendRequest_def sendRequestWithTimeout_def)
    from send_loop_ok [OF this] show thesis using that(1) x True by auto
  next
    case False
    then show thesis using that(2) [of result] x by simp
  qed
qed

text \<open>
  C10. However many clusters a response lists, those that are stored fit into the arrays of the endpoint.
\<close>

theorem clusters_fit:
  assumes "zhalGetEndpointInfo J L eui64 endpointId log = (Some (r, Some info), log')"
  shows "length (ei_serverClusterIds info) \<le> MAX_CLUSTERS_PER_ENDPOINT \<and> length (ei_clientClusterIds info) \<le> MAX_CLUSTERS_PER_ENDPOINT"
  using assms [unfolded zhalGetEndpointInfo_def]
proof (cases rule: with_response_cases)
  case (read response)
  then have "map_option (map_prod id Some) (read_endpoint_info J response) = Some (r, Some info)" by simp
  then have "read_endpoint_info J response = Some (r, info)" by auto
  then show ?thesis by (auto simp: read_endpoint_info_def Let_def split: bind_splits prod.splits dest!: read_clusters_length)
qed simp

lemma read_attributes_complete:
  assumes "read_attributes J X n response = Some (r, ds)" "n < 256"
  shows "length ds = n \<and> (r = 0 \<longrightarrow> (\<exists>datas js. cJSON_GetObjectItem J response ''attributeData'' = Some datas \<and>
    array_items J datas n = Some js \<and> list_all2 (\<lambda>j d. read_attribute J X j = Some (True, d)) js ds))"
proof -
  have n: "unat (of_nat n :: u8) = n" using assms(2) by (simp add: unsigned_of_nat take_bit_nat_eq_self)
  consider (none) "r \<noteq> 0" "ds = replicate n no_attribute"
    | (some) datas js rs where "cJSON_GetObjectItem J response ''attributeData'' = Some datas"
      "array_items J datas n = Some js" "those (map (read_attribute J X) js) = Some rs" "r = (if list_all fst rs then 0 else -1)" "ds = map snd rs"
    using assms(1) n by (auto simp: read_attributes_def Let_def split: option.splits if_splits bind_splits)
  then show ?thesis
  proof cases
    case some
    have "list_all2 (\<lambda>j d. read_attribute J X j = Some d) js rs" using some(3)
      by (induction js arbitrary: rs) (auto split: option.splits)
    then have "list_all fst rs \<Longrightarrow> list_all2 (\<lambda>j d. read_attribute J X j = Some (True, d)) js (map snd rs)"
      by (induction js rs rule: list_all2_induct) auto
    moreover have "length ds = n" using some(2,3,5) by (auto dest!: those_length array_items_length)
    ultimately show ?thesis using some by auto
  qed simp
qed

text \<open>
  C9. Reading attributes: as many values come back as were asked for; the result is 0 only when the response
  to the last attempt has, for each of them, an entry with an id, from which the value is read.
\<close>

theorem attributes_read_complete:
  assumes "attributesRead J X L eui64 endpointId clusterId toServer mfg mfgId (Some ids) log = (Some (r, ds), log')" "ids \<noteq> []" "length ids < 256"
  shows "length ds = length ids \<and> (r = 0 \<longrightarrow> (\<exists>response datas js. link_reply L (length log' - 1) = Some response \<and>
    cJSON_GetObjectItem J response ''attributeData'' = Some datas \<and> array_items J datas (length ids) = Some js \<and>
    list_all2 (\<lambda>j d. read_attribute J X j = Some (True, d)) js ds))"
proof -
  obtain a as where ids: "ids = a # as" using assms(2) by (cases ids) auto
  from assms(1) [unfolded attributesRead_def ids option.case list.case] show ?thesis
  proof (cases rule: with_response_cases)
    case (read response)
    then show ?thesis using read_attributes_complete [of J X "length ids" response r ds] assms(3) by (auto simp: ids simp del: list.size)
  next
    case (none r')
    then show ?thesis by (simp add: ids)
  qed
qed


section \<open>Responses that go wrong\<close>

text \<open>
  A reply without a result code is a failure, but its JSON is passed on: the counters the caller gets are
  then the whole reply.
\<close>

theorem counters_without_code:
  assumes "link_up L (length log)" "link_reply L (length log) = Some resp" "cJSON_GetObjectItem J resp ''resultCode'' = None"
  shows "fst (zhalGetAndClearCounters J L log) = Some resp"
  using assms by (simp add: zhalGetAndClearCounters_def sendRequest_def sendRequestWithTimeout_def MAX_NETWORK_BUSY_RETRIES_def eval_nat_numeral)

text \<open>An entry that claims success and has no data is a fault.\<close>

theorem attribute_without_data_faults:
  assumes "int_item J item ''id'' = Some i" "int_item J item ''success'' = Some v" "v \<noteq> 0" "cJSON_GetObjectItem J item ''data'' = None"
  shows "read_attribute J X item = None"
  using assms by (simp add: read_attribute_def Let_def)

section \<open>Examples\<close>

definition code_reply :: "int \<Rightarrow> (string \<times> json) list \<Rightarrow> json" where
  "code_reply n fs = JObject ((''resultCode'', JNumber n) # fs)"

text \<open>A network that is busy once and then gives a reply.\<close>

definition example_link :: "json \<Rightarrow> json link_api" where
  "example_link reply = \<lparr>link_up = (\<lambda>_. True), link_id = of_nat, link_reply = (\<lambda>n. Some (if n = 0 then code_reply (-7) [] else reply))\<rparr>"

lemma ci_lookup_None: "ci_lookup fs k = None \<longleftrightarrow> (\<forall>(n, v) \<in> set fs. lower n \<noteq> lower k)"
  by (auto simp: ci_lookup_def find_None_iff)

lemma delete_added_example: "delete_added_ok example_cjson"
proof -
  have "filter (\<lambda>(n, _). lower n \<noteq> lower k) (fs @ [(k, v)]) = fs" if "ci_lookup fs k = None" for fs k and v :: json
    using that by (auto simp: ci_lookup_None filter_id_conv)
  then show ?thesis
    by (auto simp: delete_added_ok_def example_cjson_def example_json_def json_api.defs json_item_def split: json.splits)
qed

theorem busy_request_sent_again_witness:
  "sendRequestWithTimeout example_cjson (example_link (code_reply 3 [])) 7 (JObject []) 30 [] =
     ((3, None), attempts example_cjson (example_link (code_reply 3 [])) 7 (JObject []) 30 0 2)"
proof -
  have item: "cJSON_GetObjectItem example_cjson (code_reply n fs) ''resultCode'' = Some (JNumber n)" "cJSON_valueint example_cjson (JNumber n) = n"
    "cJSON_IsObject example_cjson (Some (JObject []))" "cJSON_GetObjectItem example_cjson (JObject []) ''requestId'' = None" for n fs
    by (simp_all add: example_cjson_def example_json_def json_api.defs json_item_def ci_lookup_def code_reply_def)
  have "busy_reply example_cjson (Some (code_reply (-7) []))" "\<not> busy_reply example_cjson (Some (code_reply 3 []))"
    by (auto simp: busy_reply_def item ZHAL_STATUS_NETWORK_BUSY_def)
  then show ?thesis
    using busy_request_sent_again [OF delete_added_example item(3,4), of 1 "example_link (code_reply 3 [])" "[]" 7 30]
    by (simp add: item example_link_def numeral_2_eq_2)
qed

theorem successful_send_has_response_witness:
  "\<exists>resp. snd (fst (sendRequestWithTimeout example_cjson (example_link (code_reply 0 [])) 7 (JObject []) 30 [])) = Some resp"
proof -
  have "fst (fst (sendRequestWithTimeout example_cjson (example_link (code_reply 0 [])) 7 (JObject []) 30 [])) = 0" by code_simp
  then obtain r l where "sendRequestWithTimeout example_cjson (example_link (code_reply 0 [])) 7 (JObject []) 30 [] = ((0, r), l)"
    by (metis prod.collapse)
  then show ?thesis using successful_send_has_response by fastforce
qed

definition example_clusters :: json where
  "example_clusters = code_reply 0 [(''endpointId'', JNumber 1), (''appProfileId'', JNumber 260), (''appDeviceId'', JNumber 10), (''appDeviceVersion'', JNumber 0),
     (''appInputClusterIds'', JObject [('''', JNumber 6)]), (''appOutputClusterIds'', JObject [])]"

theorem clusters_fit_witness:
  "\<exists>info. fst (zhalGetEndpointInfo example_cjson (example_link example_clusters) 7 1 []) = Some (0, Some info) \<and>
    length (ei_serverClusterIds info) \<le> MAX_CLUSTERS_PER_ENDPOINT"
proof -
  let ?r = "zhalGetEndpointInfo example_cjson (example_link example_clusters) 7 1 []"
  have r: "fst ?r = Some (0, Some \<lparr>ei_endpointId = 1, ei_appProfileId = 260, ei_appDeviceId = 10, ei_appDeviceVersion = 0, ei_serverClusterIds = [6], ei_clientClusterIds = []\<rparr>)"
    by code_simp
  then show ?thesis using clusters_fit [of example_cjson "example_link example_clusters" 7 1 "[]"] by (metis prod.collapse)
qed

definition example_attributes :: json where
  "example_attributes = code_reply 0 [(''attributeData'', JObject [('''', JObject [(''id'', JNumber 5), (''type'', JNumber 32), (''success'', JNumber 1), (''data'', JString ''A'')])])]"

theorem attributes_read_complete_witness:
  "\<exists>ds. fst (attributesRead example_cjson example_zevent_api (example_link example_attributes) 7 1 6 True False 0 (Some [5]) []) = Some (0, ds) \<and> length ds = 1"
proof -
  let ?r = "attributesRead example_cjson example_zevent_api (example_link example_attributes) 7 1 6 True False 0 (Some [5]) []"
  have r: "fst ?r = Some (0, [\<lparr>ad_attributeInfo = \<lparr>ai_id = 5, ai_type = 32\<rparr>, ad_data = Some [65]\<rparr>])" by code_simp
  then obtain ds l where "?r = (Some (0, ds), l)" by (metis prod.collapse)
  then show ?thesis using attributes_read_complete [of example_cjson example_zevent_api "example_link example_attributes" 7 1 6 True False 0 "[5]" "[]" 0 ds l] by simp
qed

end
