(* ===== verification/Zigbee_Details.thy ===== *)
theory Zigbee_Details
  imports Zhal_Requests
begin

text \<open>
  What discovery finds out about a Zigbee device, the part of \<^verbatim>\<open>core/src/subsystems/zigbee/zigbeeSubsystem.c\<close> on
  \<^verbatim>\<open>IcDiscoveredDeviceDetails\<close>: endpoints, clusters and attributes; their copy, their JSON form in both
  directions, which is stored with the device, and the questions drivers ask. An array and its length
  are a list. Reading the JSON has two ways to fail: \<open>Some None\<close> is a failure the code reports, \<open>None\<close> is a write past
  the end of an array.
\<close>

section \<open>Data\<close>

text \<open>Ids of devices are hexadecimal texts.\<close>

definition zigbeeSubsystemEui64ToId :: "u64 \<Rightarrow> string" where
  "zigbeeSubsystemEui64ToId eui64 = eui64_text eui64"

definition zigbeeSubsystemIdToEui64 :: "string \<Rightarrow> u64" where
  "zigbeeSubsystemIdToEui64 uuid = (case scan_hex64 uuid of None \<Rightarrow> 0 | Some v \<Rightarrow> v)"

definition zigbeeSubsystemEndpointIdAsString :: "u8 \<Rightarrow> string" where
  "zigbeeSubsystemEndpointIdAsString epId = decimal (unat epId)"

record IcDiscoveredAttributeValue =
  av_attributeType :: u8
  av_data :: "u8 list"

record IcDiscoveredClusterDetails =
  cd_clusterId :: u16
  cd_isServer :: bool
  cd_attributeIds :: "u16 list"
  cd_attributeValues :: "IcDiscoveredAttributeValue list option"

record IcDiscoveredEndpointDetails =
  ed_endpointId :: u8
  ed_appProfileId :: u16
  ed_appDeviceId :: u16
  ed_appDeviceVersion :: u8
  ed_serverClusterDetails :: "IcDiscoveredClusterDetails list"
  ed_clientClusterDetails :: "IcDiscoveredClusterDetails list"

record IcDiscoveredDeviceDetails =
  dt_eui64 :: u64
  dt_manufacturer :: cstr
  dt_model :: cstr
  dt_hardwareVersion :: u64
  dt_firmwareVersion :: u64
  dt_appVersion :: u64
  dt_endpointDetails :: "IcDiscoveredEndpointDetails list"
  dt_deviceType :: zhalDeviceType
  dt_powerSource :: zhalPowerSource

definition createIcDiscoveredDeviceDetails :: IcDiscoveredDeviceDetails where
  "createIcDiscoveredDeviceDetails = \<lparr>dt_eui64 = 0, dt_manufacturer = None, dt_model = None, dt_hardwareVersion = 0, dt_firmwareVersion = 0,
     dt_appVersion = 0, dt_endpointDetails = [], dt_deviceType = deviceTypeUnknown, dt_powerSource = powerSourceUnknown\<rparr>"

text \<open>The values of a cluster without attributes are not copied.\<close>

definition cloneIcDiscoveredClusterDetails :: "IcDiscoveredClusterDetails \<Rightarrow> IcDiscoveredClusterDetails" where
  "cloneIcDiscoveredClusterDetails c =
     (if cd_attributeIds c \<noteq> []
      then c\<lparr>cd_attributeValues := map_option (map (\<lambda>v. \<lparr>av_attributeType = av_attributeType v, av_data = av_data v\<rparr>)) (cd_attributeValues c)\<rparr>
      else c\<lparr>cd_attributeIds := [], cd_attributeValues := None\<rparr>)"

definition cloneIcDiscoveredEndpointDetails :: "IcDiscoveredEndpointDetails \<Rightarrow> IcDiscoveredEndpointDetails" where
  "cloneIcDiscoveredEndpointDetails e =
     e\<lparr>ed_serverClusterDetails := map cloneIcDiscoveredClusterDetails (ed_serverClusterDetails e),
       ed_clientClusterDetails := map cloneIcDiscoveredClusterDetails (ed_clientClusterDetails e)\<rparr>"

definition cloneIcDiscoveredDeviceDetails :: "IcDiscoveredDeviceDetails option \<Rightarrow> IcDiscoveredDeviceDetails option" where
  "cloneIcDiscoveredDeviceDetails original =
     map_option (\<lambda>d. d\<lparr>dt_endpointDetails := map cloneIcDiscoveredEndpointDetails (dt_endpointDetails d)\<rparr>) original"

section \<open>To JSON\<close>

definition icDiscoveredClusterDetailsToJson :: "'j cjson_api \<Rightarrow> IcDiscoveredClusterDetails \<Rightarrow> 'j" where
  "icDiscoveredClusterDetailsToJson J c = json_object J
     [(''id'', Num (uint (cd_clusterId c))), (''isServer'', Boolean (cd_isServer c)),
      (''attributeIds'', Sub (json_array J (map (\<lambda>i. cJSON_CreateNumber J (uint i)) (cd_attributeIds c))))]"

definition icDiscoveredEndpointDetailsToJson :: "'j cjson_api \<Rightarrow> IcDiscoveredEndpointDetails \<Rightarrow> 'j" where
  "icDiscoveredEndpointDetailsToJson J e = json_object J
     [(''id'', Num (uint (ed_endpointId e))), (''profileId'', Num (uint (ed_appProfileId e))), (''deviceId'', Num (uint (ed_appDeviceId e))),
      (''deviceVer'', Num (uint (ed_appDeviceVersion e))),
      (''serverClusterInfos'', Sub (json_array J (map (icDiscoveredClusterDetailsToJson J) (ed_serverClusterDetails e)))),
      (''clientClusterInfos'', Sub (json_array J (map (icDiscoveredClusterDetailsToJson J) (ed_clientClusterDetails e))))]"

fun device_type_text :: "zhalDeviceType \<Rightarrow> string" where
  "device_type_text deviceTypeEndDevice = ''end''"
| "device_type_text deviceTypeRouter = ''router''"
| "device_type_text deviceTypeUnknown = ''unknown''"

fun power_source_text :: "zhalPowerSource \<Rightarrow> string" where
  "power_source_text powerSourceMains = ''mains''"
| "power_source_text powerSourceBattery = ''batt''"
| "power_source_text powerSourceUnknown = ''unknown''"

definition icDiscoveredDeviceDetailsToJson :: "'j cjson_api \<Rightarrow> IcDiscoveredDeviceDetails option \<Rightarrow> 'j option" where
  "icDiscoveredDeviceDetailsToJson J details = map_option (\<lambda>d. json_object J
     [(''eui64'', Str (Some (zigbeeSubsystemEui64ToId (dt_eui64 d)))), (''manufacturer'', Str (dt_manufacturer d)), (''model'', Str (dt_model d)),
      (''hwVer'', Num (uint (dt_hardwareVersion d))), (''fwVer'', Num (uint (dt_firmwareVersion d))), (''appVer'', Num (uint (dt_appVersion d))),
      (''type'', Str (Some (device_type_text (dt_deviceType d)))), (''power'', Str (Some (power_source_text (dt_powerSource d)))),
      (''endpoints'', Sub (json_array J (map (icDiscoveredEndpointDetailsToJson J) (dt_endpointDetails d))))]) details"

section \<open>From JSON\<close>

text \<open>A step that can fail, and the continuation; the counters are 8 bits wide.\<close>

definition require :: "'a option \<Rightarrow> ('a \<Rightarrow> 'b option option) \<Rightarrow> 'b option option" where
  "require m f = (case m of None \<Rightarrow> Some None | Some x \<Rightarrow> f x)"

definition proceed :: "'a option option \<Rightarrow> ('a \<Rightarrow> 'b option option) \<Rightarrow> 'b option option" where
  "proceed m f = (case m of None \<Rightarrow> None | Some r \<Rightarrow> require r f)"

definition array_count :: "'j cjson_api \<Rightarrow> 'j \<Rightarrow> nat" where
  "array_count J a = unat (of_nat (cJSON_GetArraySize J a) :: u8)"

text \<open>
  \<open>room\<close> tells whether the structure that is filled lies within its array. All ids of the array are
  written, although only as many as the counter says have been allocated.
\<close>

definition icDiscoveredClusterDetailsFromJson :: "'j cjson_api \<Rightarrow> bool \<Rightarrow> 'j \<Rightarrow> IcDiscoveredClusterDetails option option" where
  "icDiscoveredClusterDetailsFromJson J room detailsJson =
     require (getCJSONInt J detailsJson ''id'') (\<lambda>i. if \<not> room then None else
     require (getCJSONBool J detailsJson ''isServer'') (\<lambda>isServer.
     require (cJSON_GetObjectItem J detailsJson ''attributeIds'') (\<lambda>attributeIds.
       let ids = map (\<lambda>j. word_of_int (cJSON_valueint J (snd j))) (cJSON_children J attributeIds)
       in if length ids > array_count J attributeIds then None
          else Some (Some \<lparr>cd_clusterId = word_of_int i, cd_isServer = isServer, cd_attributeIds = ids, cd_attributeValues = None\<rparr>))))"

text \<open>The elements of an array in order, with the number of structures that are left.\<close>

fun read_elements :: "(bool \<Rightarrow> 'j \<Rightarrow> 'a option option) \<Rightarrow> nat \<Rightarrow> 'j list \<Rightarrow> 'a list option option" where
  "read_elements f n [] = Some (Some [])"
| "read_elements f n (j # js) = proceed (f (n > 0) j) (\<lambda>x. proceed (read_elements f (n - 1) js) (\<lambda>xs. Some (Some (x # xs))))"

definition read_array :: "'j cjson_api \<Rightarrow> (bool \<Rightarrow> 'j \<Rightarrow> 'a option option) \<Rightarrow> 'j \<Rightarrow> 'a list option option" where
  "read_array J f a = read_elements f (array_count J a) (map snd (cJSON_children J a))"

definition icDiscoveredEndpointDetailsFromJson :: "'j cjson_api \<Rightarrow> bool \<Rightarrow> 'j \<Rightarrow> IcDiscoveredEndpointDetails option option" where
  "icDiscoveredEndpointDetailsFromJson J room detailsJson =
     require (getCJSONInt J detailsJson ''id'') (\<lambda>i. if \<not> room then None else
     require (getCJSONInt J detailsJson ''profileId'') (\<lambda>profileId.
     require (getCJSONInt J detailsJson ''deviceId'') (\<lambda>deviceId.
     require (getCJSONInt J detailsJson ''deviceVer'') (\<lambda>deviceVer.
     require (cJSON_GetObjectItem J detailsJson ''serverClusterInfos'') (\<lambda>serverClusterInfos.
     proceed (read_array J (icDiscoveredClusterDetailsFromJson J) serverClusterInfos) (\<lambda>servers.
     require (cJSON_GetObjectItem J detailsJson ''clientClusterInfos'') (\<lambda>clientClusterInfos.
     proceed (read_array J (icDiscoveredClusterDetailsFromJson J) clientClusterInfos) (\<lambda>clients.
       Some (Some \<lparr>ed_endpointId = word_of_int i, ed_appProfileId = word_of_int profileId, ed_appDeviceId = word_of_int deviceId,
         ed_appDeviceVersion = word_of_int deviceVer, ed_serverClusterDetails = servers, ed_clientClusterDetails = clients\<rparr>)))))))))"

text \<open>\<open>getDouble\<close> is \<^verbatim>\<open>getCJSONDouble\<close>, cut off to a whole number.\<close>

definition icDiscoveredDeviceDetailsFromJson :: "'j cjson_api \<Rightarrow> ('j \<Rightarrow> string \<Rightarrow> int option) \<Rightarrow> 'j option \<Rightarrow> IcDiscoveredDeviceDetails option option" where
  "icDiscoveredDeviceDetailsFromJson J getDouble detailsJson =
     require detailsJson (\<lambda>j.
     require (getCJSONString J j ''eui64'') (\<lambda>eui64Str.
     require (getCJSONString J j ''manufacturer'') (\<lambda>manufacturer.
     require (getCJSONString J j ''model'') (\<lambda>model.
     require (getDouble j ''hwVer'') (\<lambda>hwVer.
     require (getDouble j ''fwVer'') (\<lambda>fwVer.
     require (getDouble j ''appVer'') (\<lambda>appVer.
     require (cJSON_GetObjectItem J j ''endpoints'') (\<lambda>endpoints.
     proceed (read_array J (icDiscoveredEndpointDetailsFromJson J) endpoints) (\<lambda>endpointDetails.
     require (getCJSONString J j ''type'') (\<lambda>deviceType.
     require (getCJSONString J j ''power'') (\<lambda>powerSource.
       Some (Some \<lparr>dt_eui64 = zigbeeSubsystemIdToEui64 eui64Str, dt_manufacturer = Some manufacturer, dt_model = Some model,
         dt_hardwareVersion = word_of_int hwVer, dt_firmwareVersion = word_of_int fwVer, dt_appVersion = word_of_int appVer,
         dt_endpointDetails = endpointDetails,
         dt_deviceType = (if deviceType = ''end'' then deviceTypeEndDevice else if deviceType = ''router'' then deviceTypeRouter else deviceTypeUnknown),
         dt_powerSource = (if powerSource = ''mains'' then powerSourceMains else if powerSource = ''batt'' then powerSourceBattery else powerSourceUnknown)\<rparr>))))))))))))"


section \<open>Questions\<close>

text \<open>The endpoint of the first server cluster that has the attribute, and of the first that has the id.\<close>

fun attribute_endpoint :: "u16 \<Rightarrow> u16 \<Rightarrow> IcDiscoveredEndpointDetails list \<Rightarrow> u8 option" where
  "attribute_endpoint clusterId attributeId [] = None"
| "attribute_endpoint clusterId attributeId (e # es) =
     (if list_ex (\<lambda>c. cd_clusterId c = clusterId \<and> cd_isServer c \<and> list_ex (\<lambda>a. a = attributeId) (cd_attributeIds c)) (ed_serverClusterDetails e)
      then Some (ed_endpointId e) else attribute_endpoint clusterId attributeId es)"

definition icDiscoveredDeviceDetailsGetAttributeEndpoint :: "IcDiscoveredDeviceDetails option \<Rightarrow> u16 \<Rightarrow> u16 \<Rightarrow> u8 option" where
  "icDiscoveredDeviceDetailsGetAttributeEndpoint details clusterId attributeId =
     Option.bind details (\<lambda>d. attribute_endpoint clusterId attributeId (dt_endpointDetails d))"

fun cluster_endpoint :: "u16 \<Rightarrow> IcDiscoveredEndpointDetails list \<Rightarrow> u8 option" where
  "cluster_endpoint clusterId [] = None"
| "cluster_endpoint clusterId (e # es) =
     (if list_ex (\<lambda>c. cd_clusterId c = clusterId \<and> cd_isServer c) (ed_serverClusterDetails e) then Some (ed_endpointId e) else cluster_endpoint clusterId es)"

definition icDiscoveredDeviceDetailsGetClusterEndpoint :: "IcDiscoveredDeviceDetails option \<Rightarrow> u16 \<Rightarrow> u8 option" where
  "icDiscoveredDeviceDetailsGetClusterEndpoint details clusterId = Option.bind details (\<lambda>d. cluster_endpoint clusterId (dt_endpointDetails d))"

definition clusters_of :: "bool \<Rightarrow> IcDiscoveredEndpointDetails \<Rightarrow> IcDiscoveredClusterDetails list" where
  "clusters_of wantServer e = (if wantServer then ed_serverClusterDetails e else ed_clientClusterDetails e)"

text \<open>Only the first endpoint with the id is looked at.\<close>

definition icDiscoveredDeviceDetailsEndpointHasCluster :: "IcDiscoveredDeviceDetails option \<Rightarrow> u8 \<Rightarrow> u16 \<Rightarrow> bool \<Rightarrow> bool" where
  "icDiscoveredDeviceDetailsEndpointHasCluster details endpointId clusterId wantServer =
     (case details of None \<Rightarrow> False
      | Some d \<Rightarrow> (case find (\<lambda>e. ed_endpointId e = endpointId) (dt_endpointDetails d) of None \<Rightarrow> False
          | Some e \<Rightarrow> list_ex (\<lambda>c. cd_clusterId c = clusterId \<and> cd_isServer c = wantServer) (clusters_of wantServer e)))"

text \<open>The first cluster with the id of every endpoint with the id.\<close>

definition icDiscoveredDeviceDetailsClusterHasAttribute :: "IcDiscoveredDeviceDetails option \<Rightarrow> u8 \<Rightarrow> u16 \<Rightarrow> bool \<Rightarrow> u16 \<Rightarrow> bool" where
  "icDiscoveredDeviceDetailsClusterHasAttribute details endpointId clusterId wantServer attributeId =
     (case details of None \<Rightarrow> False
      | Some d \<Rightarrow> list_ex (\<lambda>e. ed_endpointId e = endpointId \<and>
          (case find (\<lambda>c. cd_clusterId c = clusterId) (clusters_of wantServer e) of None \<Rightarrow> False
           | Some c \<Rightarrow> list_ex (\<lambda>a. a = attributeId) (cd_attributeIds c))) (dt_endpointDetails d))"

fun value_at :: "u16 \<Rightarrow> u16 list \<Rightarrow> IcDiscoveredAttributeValue list \<Rightarrow> IcDiscoveredAttributeValue option" where
  "value_at attributeId (a # as) (v # vs) = (if a = attributeId then Some v else value_at attributeId as vs)"
| "value_at attributeId _ _ = None"

fun endpoint_value :: "u8 \<Rightarrow> u16 \<Rightarrow> bool \<Rightarrow> u16 \<Rightarrow> IcDiscoveredEndpointDetails list \<Rightarrow> IcDiscoveredAttributeValue option" where
  "endpoint_value endpointId clusterId wantServer attributeId [] = None"
| "endpoint_value endpointId clusterId wantServer attributeId (e # es) =
     (case (if ed_endpointId e = endpointId
        then Option.bind (find (\<lambda>c. cd_clusterId c = clusterId) (clusters_of wantServer e))
          (\<lambda>c. Option.bind (cd_attributeValues c) (value_at attributeId (cd_attributeIds c)))
        else None) of Some v \<Rightarrow> Some v | None \<Rightarrow> endpoint_value endpointId clusterId wantServer attributeId es)"

definition icDiscoveredDeviceDetailsClusterGetAttributeValue :: "IcDiscoveredDeviceDetails option \<Rightarrow> u8 \<Rightarrow> u16 \<Rightarrow> bool \<Rightarrow> u16 \<Rightarrow> IcDiscoveredAttributeValue option" where
  "icDiscoveredDeviceDetailsClusterGetAttributeValue details endpointId clusterId wantServer attributeId =
     Option.bind details (\<lambda>d. endpoint_value endpointId clusterId wantServer attributeId (dt_endpointDetails d))"

definition icDiscoveredDeviceDetailsEndpointGetDeviceId :: "IcDiscoveredDeviceDetails option \<Rightarrow> u8 \<Rightarrow> u16 option" where
  "icDiscoveredDeviceDetailsEndpointGetDeviceId details endpointId =
     Option.bind details (\<lambda>d. map_option ed_appDeviceId (find (\<lambda>e. ed_endpointId e = endpointId) (dt_endpointDetails d)))"

section \<open>Round trip\<close>

text \<open>What is relied on of cJSON besides \<open>cjson_ok\<close>: arrays keep their items, and numbers are read back.\<close>

definition cjson_array_ok :: "'j cjson_api \<Rightarrow> bool" where
  "cjson_array_ok J \<longleftrightarrow> cjson_ok (json_api.truncate J) \<and> cJSON_children J (cJSON_CreateArray J) = [] \<and>
     (\<forall>a j. map snd (cJSON_children J (cJSON_AddItemToArray J a j)) = map snd (cJSON_children J a) @ [j]) \<and>
     (\<forall>n. - (2 ^ 31) \<le> n \<longrightarrow> n < 2 ^ 31 \<longrightarrow> cJSON_valueint J (cJSON_CreateNumber J n) = n)"

definition double_ok :: "'j cjson_api \<Rightarrow> ('j \<Rightarrow> string \<Rightarrow> int option) \<Rightarrow> bool" where
  "double_ok J getDouble \<longleftrightarrow> (\<forall>j k n. cJSON_GetObjectItem J j k = Some (cJSON_CreateNumber J n) \<longrightarrow> 0 \<le> n \<longrightarrow> n \<le> 2 ^ 53 \<longrightarrow> getDouble j k = Some n)"

lemma truncate_sel [simp]:
  "cJSON_CreateObject (json_api.truncate J) = cJSON_CreateObject J" "cJSON_CreateString (json_api.truncate J) = cJSON_CreateString J"
  "cJSON_CreateNumber (json_api.truncate J) = cJSON_CreateNumber J" "cJSON_CreateBool (json_api.truncate J) = cJSON_CreateBool J"
  "cJSON_AddItemToObject (json_api.truncate J) = cJSON_AddItemToObject J" "cJSON_AddStringToObject (json_api.truncate J) = cJSON_AddStringToObject J"
  "cJSON_AddNumberToObject (json_api.truncate J) = cJSON_AddNumberToObject J" "cJSON_AddBoolToObject (json_api.truncate J) = cJSON_AddBoolToObject J"
  "cJSON_children (json_api.truncate J) = cJSON_children J" "cJSON_GetObjectItem (json_api.truncate J) = cJSON_GetObjectItem J"
  "cJSON_GetArraySize (json_api.truncate J) = cJSON_GetArraySize J" "getCJSONString (json_api.truncate J) = getCJSONString J"
  "getCJSONInt (json_api.truncate J) = getCJSONInt J" "getCJSONBool (json_api.truncate J) = getCJSONBool J"
  by (simp_all add: json_api.truncate_def)

fun field_item :: "'j cjson_api \<Rightarrow> string \<times> 'j field \<Rightarrow> (string \<times> 'j) list" where
  "field_item J (k, Str s) = (case s of None \<Rightarrow> [] | Some t \<Rightarrow> [(k, cJSON_CreateString J t)])"
| "field_item J (k, Num n) = [(k, cJSON_CreateNumber J n)]"
| "field_item J (k, Boolean b) = [(k, cJSON_CreateBool J b)]"
| "field_item J (k, Sub v) = [(k, v)]"

lemma children_object:
  assumes "cjson_array_ok J"
  shows "cJSON_children J (json_object J fs) = concat (map (field_item J) fs)"
proof -
  note c = cjson_children_simps [of "json_api.truncate J", simplified]
  have ok: "cjson_ok (json_api.truncate J)" using assms by (simp add: cjson_array_ok_def)
  have add: "cJSON_children J (add_field J j f) = cJSON_children J j @ field_item J f" for j f
    by (cases f, rename_tac k v, case_tac v) (auto simp: c [OF ok] split: option.splits)
  have "cJSON_children J (foldl (add_field J) j fs) = cJSON_children J j @ concat (map (field_item J) fs)" for j
    by (induction fs arbitrary: j) (simp_all add: add)
  then show ?thesis by (simp add: json_object_def c(1) [OF ok])
qed

lemma children_array:
  assumes "cjson_array_ok J"
  shows "map snd (cJSON_children J (json_array J js)) = js"
proof -
  have "map snd (cJSON_children J (foldl (cJSON_AddItemToArray J) a js)) = map snd (cJSON_children J a) @ js" for a
    using assms by (induction js arbitrary: a) (simp_all add: cjson_array_ok_def)
  then show ?thesis using assms by (simp add: json_array_def cjson_array_ok_def)
qed


lemma array_size:
  assumes "cjson_array_ok J" "length js < 256"
  shows "array_count J (json_array J js) = length js"
proof -
  have "cJSON_GetArraySize J a = length (map snd (cJSON_children J a))" for a
    using assms(1) by (simp add: cjson_array_ok_def cjson_ok_def cjson_read_ok_def)
  then have "cJSON_GetArraySize J (json_array J js) = length js" by (simp only: children_array [OF assms(1)])
  then show ?thesis using assms(2) by (simp add: array_count_def unsigned_of_nat take_bit_nat_eq_self)
qed

lemma read_elements_map:
  assumes "\<And>x. x \<in> set xs \<Longrightarrow> f True (g x) = Some (Some x)" "length xs \<le> n"
  shows "read_elements f n (map g xs) = Some (Some xs)"
  using assms by (induction xs arbitrary: n) (auto simp: proceed_def require_def)

lemma read_array_map:
  assumes "cjson_array_ok J" "\<And>x. x \<in> set xs \<Longrightarrow> f True (g x) = Some (Some x)" "length xs < 256"
  shows "read_array J f (json_array J (map g xs)) = Some (Some xs)"
  using assms array_size [of J "map g xs"] by (simp add: read_array_def children_array read_elements_map)

text \<open>Items of an object that was built, as the typed readers see them.\<close>

lemma object_items:
  assumes "cjson_array_ok J"
  shows "cJSON_GetObjectItem J (json_object J fs) k = ci_lookup (concat (map (field_item J) fs)) k"
    and "ci_lookup (concat (map (field_item J) fs)) k = Some (cJSON_CreateString J t) \<Longrightarrow> getCJSONString J (json_object J fs) k = Some t"
    and "ci_lookup (concat (map (field_item J) fs)) k = Some (cJSON_CreateNumber J n) \<Longrightarrow> - (2 ^ 31) \<le> n \<Longrightarrow> n < 2 ^ 31 \<Longrightarrow> getCJSONInt J (json_object J fs) k = Some n"
    and "ci_lookup (concat (map (field_item J) fs)) k = Some (cJSON_CreateBool J b) \<Longrightarrow> getCJSONBool J (json_object J fs) k = Some b"
proof -
  have ok: "cjson_ok (json_api.truncate J)" using assms by (simp add: cjson_array_ok_def)
  show item: "cJSON_GetObjectItem J (json_object J fs) k = ci_lookup (concat (map (field_item J) fs)) k" for fs k
    using cjson_item [OF ok] by (simp add: children_object [OF assms])
  note t = cjson_typed [of "json_api.truncate J", simplified, OF ok]
  show "ci_lookup (concat (map (field_item J) fs)) k = Some (cJSON_CreateString J t) \<Longrightarrow> getCJSONString J (json_object J fs) k = Some t"
    "ci_lookup (concat (map (field_item J) fs)) k = Some (cJSON_CreateNumber J n) \<Longrightarrow> - (2 ^ 31) \<le> n \<Longrightarrow> n < 2 ^ 31 \<Longrightarrow> getCJSONInt J (json_object J fs) k = Some n"
    "ci_lookup (concat (map (field_item J) fs)) k = Some (cJSON_CreateBool J b) \<Longrightarrow> getCJSONBool J (json_object J fs) k = Some b"
    using t by (simp_all add: item)
qed

lemma word_range:
  "0 \<le> uint (x :: u8)" "uint (x :: u8) < 2 ^ 31" "- (2 ^ 31) \<le> uint (x :: u8)" "uint (y :: u16) < 2 ^ 31" "- (2 ^ 31) \<le> uint (y :: u16)"
  using uint_lt2p [of x] uint_lt2p [of y] by (auto simp: order_trans [OF _ uint_ge_0])

lemma object_words:
  assumes "cjson_array_ok J"
  shows "ci_lookup (concat (map (field_item J) fs)) k = Some (cJSON_CreateNumber J (uint (x :: u8))) \<Longrightarrow> getCJSONInt J (json_object J fs) k = Some (uint x)"
    and "ci_lookup (concat (map (field_item J) fs)) k = Some (cJSON_CreateNumber J (uint (y :: u16))) \<Longrightarrow> getCJSONInt J (json_object J fs) k = Some (uint y)"
  by (auto intro!: object_items(3) [OF assms] word_range)

definition storable_cluster :: "IcDiscoveredClusterDetails \<Rightarrow> bool" where
  "storable_cluster c \<longleftrightarrow> length (cd_attributeIds c) < 256 \<and> cd_attributeValues c = None"

definition storable_endpoint :: "IcDiscoveredEndpointDetails \<Rightarrow> bool" where
  "storable_endpoint e \<longleftrightarrow> length (ed_serverClusterDetails e) < 256 \<and> length (ed_clientClusterDetails e) < 256 \<and>
     list_all storable_cluster (ed_serverClusterDetails e) \<and> list_all storable_cluster (ed_clientClusterDetails e)"

definition storable_details :: "IcDiscoveredDeviceDetails \<Rightarrow> bool" where
  "storable_details d \<longleftrightarrow> dt_manufacturer d \<noteq> None \<and> dt_model d \<noteq> None \<and> length (dt_endpointDetails d) < 256 \<and> list_all storable_endpoint (dt_endpointDetails d) \<and>
     uint (dt_hardwareVersion d) \<le> 2 ^ 53 \<and> uint (dt_firmwareVersion d) \<le> 2 ^ 53 \<and> uint (dt_appVersion d) \<le> 2 ^ 53"

lemma cluster_roundtrip:
  assumes "cjson_array_ok J" "storable_cluster c"
  shows "icDiscoveredClusterDetailsFromJson J True (icDiscoveredClusterDetailsToJson J c) = Some (Some c)"
proof -
  let ?j = "icDiscoveredClusterDetailsToJson J c" and ?a = "json_array J (map (\<lambda>i. cJSON_CreateNumber J (uint i)) (cd_attributeIds c))"
  have i: "getCJSONInt J ?j ''id'' = Some (uint (cd_clusterId c))" unfolding icDiscoveredClusterDetailsToJson_def
    by (rule object_words(2) [OF assms(1)]) (simp add: lower_def to_lower_def)
  have b: "getCJSONBool J ?j ''isServer'' = Some (cd_isServer c)" unfolding icDiscoveredClusterDetailsToJson_def
    by (rule object_items(4) [OF assms(1)]) (simp add: lower_def to_lower_def)
  have a: "cJSON_GetObjectItem J ?j ''attributeIds'' = Some ?a" unfolding icDiscoveredClusterDetailsToJson_def
    by (simp add: object_items(1) [OF assms(1)] lower_def to_lower_def)
  have num: "cJSON_valueint J (cJSON_CreateNumber J (uint y)) = uint y" for y :: u16
    using assms(1) word_range(4,5) by (simp add: cjson_array_ok_def)
  have "map (\<lambda>j. word_of_int (cJSON_valueint J (snd j)) :: u16) (cJSON_children J ?a) = map (\<lambda>j. word_of_int (cJSON_valueint J j)) (map snd (cJSON_children J ?a))" by simp
  also have "\<dots> = cd_attributeIds c" by (simp only: children_array [OF assms(1)]) (simp add: num comp_def)
  finally have ids: "map (\<lambda>j. word_of_int (cJSON_valueint J (snd j)) :: u16) (cJSON_children J ?a) = cd_attributeIds c" .
  have len: "length (cJSON_children J ?a) = length (cd_attributeIds c)" using arg_cong [OF ids, of length] by simp
  have n: "array_count J ?a = length (cd_attributeIds c)" using array_size [OF assms(1)] assms(2) by (simp add: storable_cluster_def)
  show ?thesis unfolding icDiscoveredClusterDetailsFromJson_def i b a Let_def
    using assms(2) by (simp add: require_def storable_cluster_def ids n len)
qed


lemma endpoint_details_roundtrip:
  assumes "cjson_array_ok J" "storable_endpoint e"
  shows "icDiscoveredEndpointDetailsFromJson J True (icDiscoveredEndpointDetailsToJson J e) = Some (Some e)"
proof -
  let ?j = "icDiscoveredEndpointDetailsToJson J e"
  let ?a = "\<lambda>cs. json_array J (map (icDiscoveredClusterDetailsToJson J) cs)"
  have ints: "getCJSONInt J ?j ''id'' = Some (uint (ed_endpointId e))" "getCJSONInt J ?j ''deviceVer'' = Some (uint (ed_appDeviceVersion e))"
    unfolding icDiscoveredEndpointDetailsToJson_def by (rule object_words(1) [OF assms(1)], simp add: lower_def to_lower_def)+
  have ints16: "getCJSONInt J ?j ''profileId'' = Some (uint (ed_appProfileId e))" "getCJSONInt J ?j ''deviceId'' = Some (uint (ed_appDeviceId e))"
    unfolding icDiscoveredEndpointDetailsToJson_def by (rule object_words(2) [OF assms(1)], simp add: lower_def to_lower_def)+
  have arrays: "cJSON_GetObjectItem J ?j ''serverClusterInfos'' = Some (?a (ed_serverClusterDetails e))"
    "cJSON_GetObjectItem J ?j ''clientClusterInfos'' = Some (?a (ed_clientClusterDetails e))"
    unfolding icDiscoveredEndpointDetailsToJson_def by (simp_all add: object_items(1) [OF assms(1)] lower_def to_lower_def)
  have "read_array J (icDiscoveredClusterDetailsFromJson J) (?a cs) = Some (Some cs)" if "list_all storable_cluster cs" "length cs < 256" for cs
    by (rule read_array_map [OF assms(1)]) (use that cluster_roundtrip [OF assms(1)] in \<open>auto simp: list_all_iff\<close>)
  then show ?thesis unfolding icDiscoveredEndpointDetailsFromJson_def ints ints16 arrays
    using assms(2) by (simp add: require_def proceed_def storable_endpoint_def)
qed

text \<open>
  C11. The details of a device that are stored as JSON are read back as they were. The hypotheses are that
  manufacturer and model are known, that versions fit a double, that there are fewer than 256 endpoints,
  clusters and attributes, and that there are no attribute values, which are not stored.
\<close>

theorem details_roundtrip:
  assumes "cjson_array_ok J" "double_ok J getDouble" "storable_details d"
  shows "icDiscoveredDeviceDetailsFromJson J getDouble (icDiscoveredDeviceDetailsToJson J (Some d)) = Some (Some d)"
proof -
  obtain j where j: "icDiscoveredDeviceDetailsToJson J (Some d) = Some j" by (simp add: icDiscoveredDeviceDetailsToJson_def)
  obtain ma mo where mm: "dt_manufacturer d = Some ma" "dt_model d = Some mo" using assms(3) by (auto simp: storable_details_def)
  let ?a = "json_array J (map (icDiscoveredEndpointDetailsToJson J) (dt_endpointDetails d))"
  note js = j [unfolded icDiscoveredDeviceDetailsToJson_def, simplified, symmetric]
  note l = lower_def to_lower_def mm
  have s: "getCJSONString J j ''eui64'' = Some (eui64_text (dt_eui64 d))" "getCJSONString J j ''manufacturer'' = Some ma" "getCJSONString J j ''model'' = Some mo"
    "getCJSONString J j ''type'' = Some (device_type_text (dt_deviceType d))" "getCJSONString J j ''power'' = Some (power_source_text (dt_powerSource d))"
    unfolding js by (rule object_items(2) [OF assms(1)], simp add: l zigbeeSubsystemEui64ToId_def)+
  have n: "getDouble j ''hwVer'' = Some (uint (dt_hardwareVersion d))" "getDouble j ''fwVer'' = Some (uint (dt_firmwareVersion d))"
    "getDouble j ''appVer'' = Some (uint (dt_appVersion d))"
    using assms(2,3) unfolding js by (simp_all add: double_ok_def object_items(1) [OF assms(1)] l storable_details_def)
  have a: "cJSON_GetObjectItem J j ''endpoints'' = Some ?a" unfolding js by (simp add: object_items(1) [OF assms(1)] l)
  have r: "read_array J (icDiscoveredEndpointDetailsFromJson J) ?a = Some (Some (dt_endpointDetails d))"
    by (rule read_array_map [OF assms(1)]) (use assms(3) endpoint_details_roundtrip [OF assms(1)] in \<open>auto simp: list_all_iff storable_details_def\<close>)
  have t: "(if device_type_text x = ''end'' then deviceTypeEndDevice else if device_type_text x = ''router'' then deviceTypeRouter else deviceTypeUnknown) = x"
    "(if power_source_text y = ''mains'' then powerSourceMains else if power_source_text y = ''batt'' then powerSourceBattery else powerSourceUnknown) = y" for x y
    by (cases x; simp) (cases y; simp)
  have e: "zigbeeSubsystemIdToEui64 (eui64_text v) = v" for v by (simp add: zigbeeSubsystemIdToEui64_def eui64_read)
  obtain d' where d': "icDiscoveredDeviceDetailsFromJson J getDouble (Some j) = Some (Some d')" "d' = d\<lparr>dt_manufacturer := Some ma, dt_model := Some mo\<rparr>"
    by (simp add: icDiscoveredDeviceDetailsFromJson_def require_def proceed_def s n a r t e)
  moreover have "d\<lparr>dt_manufacturer := Some ma, dt_model := Some mo\<rparr> = d" using mm by (cases d) simp
  ultimately show ?thesis by (simp add: j)
qed


section \<open>Too many attributes\<close>

text \<open>
  C12. A cluster may have up to 65535 attributes, and all are stored. When it has 256 or more, reading it back writes past
  the end of the array, which has been allocated for the number in 8 bits.
\<close>

theorem many_attributes_overflow:
  assumes "cjson_array_ok J" "256 \<le> length (cd_attributeIds c)"
  shows "icDiscoveredClusterDetailsFromJson J True (icDiscoveredClusterDetailsToJson J c) = None"
proof -
  let ?j = "icDiscoveredClusterDetailsToJson J c" and ?a = "json_array J (map (\<lambda>i. cJSON_CreateNumber J (uint i)) (cd_attributeIds c))"
  have i: "getCJSONInt J ?j ''id'' = Some (uint (cd_clusterId c))" unfolding icDiscoveredClusterDetailsToJson_def
    by (rule object_words(2) [OF assms(1)]) (simp add: lower_def to_lower_def)
  have b: "getCJSONBool J ?j ''isServer'' = Some (cd_isServer c)" unfolding icDiscoveredClusterDetailsToJson_def
    by (rule object_items(4) [OF assms(1)]) (simp add: lower_def to_lower_def)
  have a: "cJSON_GetObjectItem J ?j ''attributeIds'' = Some ?a" unfolding icDiscoveredClusterDetailsToJson_def
    by (simp add: object_items(1) [OF assms(1)] lower_def to_lower_def)
  have len: "length (cJSON_children J ?a) = length (cd_attributeIds c)"
    using arg_cong [OF children_array [OF assms(1), of "map (\<lambda>i. cJSON_CreateNumber J (uint i)) (cd_attributeIds c)"], of length] by simp
  have "array_count J ?a < 256" using unsigned_less [of "of_nat (cJSON_GetArraySize J ?a) :: u8", where 'a = nat] by (simp add: array_count_def)
  then show ?thesis unfolding icDiscoveredClusterDetailsFromJson_def i b a Let_def
    using assms(2) by (simp add: require_def len)
qed

text \<open>A copy is the original, up to the values of clusters that have no attributes.\<close>

theorem clone_is_copy:
  assumes "\<forall>e \<in> set (dt_endpointDetails d). \<forall>c \<in> set (ed_serverClusterDetails e @ ed_clientClusterDetails e). cd_attributeIds c = [] \<longrightarrow> cd_attributeValues c = None"
  shows "cloneIcDiscoveredDeviceDetails (Some d) = Some d"
proof -
  have "cloneIcDiscoveredClusterDetails c = c" if "cd_attributeIds c = [] \<longrightarrow> cd_attributeValues c = None" for c
  proof -
    have "(\<lambda>v. \<lparr>av_attributeType = av_attributeType v, av_data = av_data v\<rparr>) = id" by (auto simp: fun_eq_iff)
    then show ?thesis using that by (cases c) (auto simp: cloneIcDiscoveredClusterDetails_def map_option.id)
  qed
  then have "cloneIcDiscoveredEndpointDetails e = e" if "e \<in> set (dt_endpointDetails d)" for e
    using assms that by (cases e) (auto simp: cloneIcDiscoveredEndpointDetails_def intro!: map_idI)
  then have "map cloneIcDiscoveredEndpointDetails (dt_endpointDetails d) = dt_endpointDetails d" by (simp add: map_idI)
  then show ?thesis by (cases d) (simp add: cloneIcDiscoveredDeviceDetails_def)
qed

section \<open>Examples\<close>

lemma cjson_array_ok_example: "cjson_array_ok example_cjson"
proof -
  have "cjson_ok (json_api.truncate example_cjson)"
    by (auto simp: cjson_ok_def cjson_build_ok_def cjson_read_ok_def cjson_typed_ok_def example_cjson_def json_api.defs example_json_def json_item_def)
  then show ?thesis by (simp add: cjson_array_ok_def example_cjson_def json_api.defs example_json_def)
qed

definition example_double :: "json \<Rightarrow> string \<Rightarrow> int option" where
  "example_double j k = (case json_item j k of Some (JNumber n) \<Rightarrow> Some n | _ \<Rightarrow> None)"

lemma double_ok_example: "double_ok example_cjson example_double"
  by (simp add: double_ok_def example_double_def example_cjson_def json_api.defs example_json_def)

definition example_cluster :: "u16 list \<Rightarrow> IcDiscoveredClusterDetails" where
  "example_cluster ids = \<lparr>cd_clusterId = 1280, cd_isServer = True, cd_attributeIds = ids, cd_attributeValues = None\<rparr>"

definition example_details :: IcDiscoveredDeviceDetails where
  "example_details = \<lparr>dt_eui64 = 17, dt_manufacturer = Some ''acme'', dt_model = Some ''m'', dt_hardwareVersion = 1, dt_firmwareVersion = 2, dt_appVersion = 3,
     dt_endpointDetails = [\<lparr>ed_endpointId = 1, ed_appProfileId = 260, ed_appDeviceId = 1026, ed_appDeviceVersion = 0,
       ed_serverClusterDetails = [example_cluster [0, 1, 2]], ed_clientClusterDetails = []\<rparr>],
     dt_deviceType = deviceTypeEndDevice, dt_powerSource = powerSourceBattery\<rparr>"

theorem details_roundtrip_witness:
  "icDiscoveredDeviceDetailsFromJson example_cjson example_double (icDiscoveredDeviceDetailsToJson example_cjson (Some example_details)) = Some (Some example_details)"
  by (rule details_roundtrip [OF cjson_array_ok_example double_ok_example])
    (simp add: storable_details_def storable_endpoint_def storable_cluster_def example_details_def example_cluster_def)

theorem many_attributes_overflow_witness:
  "icDiscoveredClusterDetailsFromJson example_cjson True (icDiscoveredClusterDetailsToJson example_cjson (example_cluster (replicate 300 0))) = None"
  by (rule many_attributes_overflow [OF cjson_array_ok_example]) (simp add: example_cluster_def)

end
