(* ===== verification/Zigbee_Radio.thy ===== *)
theory Zigbee_Radio
  imports Device_Service_Props Zigbee_Details
begin

text \<open>
  The radio side of \<^verbatim>\<open>core/src/subsystems/zigbee/zigbeeSubsystem.c\<close>: the quality of a link with its hysteresis, the
  choice and the change of the channel with the watchdog that reverts it, and the map of the network.
  The state \<open>zigbee_radio\<close> joins the variables of the file with the device service and the requests sent to the
  Zigbee process; scheduled watchdog tasks are a list. Functions with result \<open>None\<close> have read through a \<^verbatim>\<open>NULL\<close>
  pointer.
\<close>

section \<open>Link quality\<close>

datatype ZigbeeSubsystemLinkQualityLevel =
  LINK_QUALITY_LEVEL_UNKNOWN | LINK_QUALITY_LEVEL_POOR | LINK_QUALITY_LEVEL_FAIR | LINK_QUALITY_LEVEL_GOOD

fun level_number :: "ZigbeeSubsystemLinkQualityLevel \<Rightarrow> nat" where
  "level_number LINK_QUALITY_LEVEL_UNKNOWN = 0"
| "level_number LINK_QUALITY_LEVEL_POOR = 1"
| "level_number LINK_QUALITY_LEVEL_FAIR = 2"
| "level_number LINK_QUALITY_LEVEL_GOOD = 3"

instantiation ZigbeeSubsystemLinkQualityLevel :: linorder
begin

definition less_eq_ZigbeeSubsystemLinkQualityLevel :: "ZigbeeSubsystemLinkQualityLevel \<Rightarrow> ZigbeeSubsystemLinkQualityLevel \<Rightarrow> bool" where
  "less_eq_ZigbeeSubsystemLinkQualityLevel a b \<longleftrightarrow> level_number a \<le> level_number b"

definition less_ZigbeeSubsystemLinkQualityLevel :: "ZigbeeSubsystemLinkQualityLevel \<Rightarrow> ZigbeeSubsystemLinkQualityLevel \<Rightarrow> bool" where
  "less_ZigbeeSubsystemLinkQualityLevel a b \<longleftrightarrow> level_number a < level_number b"

instance
proof (intro_classes, goal_cases)
  case (4 x y)
  then show ?case by (cases x; cases y) (simp_all add: less_eq_ZigbeeSubsystemLinkQualityLevel_def)
qed (auto simp: less_eq_ZigbeeSubsystemLinkQualityLevel_def less_ZigbeeSubsystemLinkQualityLevel_def)

end

lemmas level_order = less_eq_ZigbeeSubsystemLinkQualityLevel_def less_ZigbeeSubsystemLinkQualityLevel_def

fun linkQualityLevelLabels :: "ZigbeeSubsystemLinkQualityLevel \<Rightarrow> string" where
  "linkQualityLevelLabels LINK_QUALITY_LEVEL_UNKNOWN = ''unknown''"
| "linkQualityLevelLabels LINK_QUALITY_LEVEL_POOR = ''poor''"
| "linkQualityLevelLabels LINK_QUALITY_LEVEL_FAIR = ''fair''"
| "linkQualityLevelLabels LINK_QUALITY_LEVEL_GOOD = ''good''"

text \<open>The configuration; the thresholds of the signal strength are signed.\<close>

record link_config =
  useLqiForLinkQuality :: bool
  useRssiForLinkQuality :: bool
  crossAboveDb :: u8
  crossBelowDb :: u8
  lqiWarn :: u8
  lqiBad :: u8
  rssiWarn :: u8
  rssiBad :: u8

definition zigbeeLinkQualityConfigure :: "('j, 's, 'w) svc_env \<Rightarrow> ('j, 's, 'w) device_service \<Rightarrow> link_config" where
  "zigbeeLinkQualityConfigure E s =
     (let I = svc_provider E; G = svc_glib E; w = svc_world s; db = svc_db s
      in \<lparr>useLqiForLinkQuality = get_property_as_bool I (Some ''cpe.zigbee.linkQuality.lqi.enabled'') False w db,
          useRssiForLinkQuality = get_property_as_bool I (Some ''cpe.zigbee.linkQuality.rssi.enabled'') True w db,
          crossAboveDb = get_property_as_uint8 G I (Some ''cpe.zigbee.linkQuality.rssi.crossAboveDb'') 6 w db,
          crossBelowDb = get_property_as_uint8 G I (Some ''cpe.zigbee.linkQuality.rssi.crossBelowDb'') 6 w db,
          lqiWarn = get_property_as_uint8 G I (Some ''cpe.zigbee.linkQuality.lqi.warnThreshold'') 236 w db,
          lqiBad = get_property_as_uint8 G I (Some ''cpe.zigbee.linkQuality.lqi.badThreshold'') 150 w db,
          rssiWarn = get_property_as_int8 G I (Some ''cpe.zigbee.linkQuality.rssi.warnThreshold'') (-65) w db,
          rssiBad = get_property_as_int8 G I (Some ''cpe.zigbee.linkQuality.rssi.badThreshold'') (-75) w db\<rparr>)"

definition calculateLinkQuality :: "link_config \<Rightarrow> u8 \<Rightarrow> ZigbeeSubsystemLinkQualityLevel" where
  "calculateLinkQuality C rssiSample =
     (if sint rssiSample < sint (rssiBad C) then LINK_QUALITY_LEVEL_POOR
      else if sint rssiSample < sint (rssiWarn C) then LINK_QUALITY_LEVEL_FAIR
      else LINK_QUALITY_LEVEL_GOOD)"

definition zigbeeSubsystemLinkQualityStringToEnum :: "util_api \<Rightarrow> cstr \<Rightarrow> ZigbeeSubsystemLinkQualityLevel" where
  "zigbeeSubsystemLinkQualityStringToEnum U linkQuality =
     (case find (\<lambda>l. linkQuality \<noteq> None \<and> stringCompare U (Some (linkQualityLevelLabels l)) linkQuality False = 0)
        [LINK_QUALITY_LEVEL_UNKNOWN, LINK_QUALITY_LEVEL_POOR, LINK_QUALITY_LEVEL_FAIR, LINK_QUALITY_LEVEL_GOOD] of
        None \<Rightarrow> LINK_QUALITY_LEVEL_UNKNOWN | Some l \<Rightarrow> l)"

text \<open>The worse of two values, of which one or both may be missing; strengths are signed.\<close>

definition worst_rssi :: "u8 \<Rightarrow> u8 \<Rightarrow> u8 option" where
  "worst_rssi neRssi feRssi =
     (if sint neRssi \<noteq> -128 \<and> sint feRssi \<noteq> -128 then Some (if sint neRssi < sint feRssi then neRssi else feRssi)
      else if sint neRssi \<noteq> -128 then Some neRssi
      else if sint feRssi \<noteq> -128 then Some feRssi
      else None)"

definition worst_lqi :: "u8 \<Rightarrow> u8 \<Rightarrow> u8 option" where
  "worst_lqi neLqi feLqi =
     (if neLqi \<noteq> 0 \<and> feLqi \<noteq> 0 then Some (if neLqi < feLqi then neLqi else feLqi)
      else if neLqi \<noteq> 0 then Some neLqi
      else if feLqi \<noteq> 0 then Some feLqi
      else None)"

text \<open>The sum and the difference become 8 bits wide when they are passed on.\<close>

definition rssi_health :: "link_config \<Rightarrow> u8 \<Rightarrow> ZigbeeSubsystemLinkQualityLevel \<Rightarrow> ZigbeeSubsystemLinkQualityLevel" where
  "rssi_health C worstRssi qualityHint =
     (let linkQualNow = calculateLinkQuality C worstRssi
      in if linkQualNow < qualityHint then calculateLinkQuality C (word_of_int (sint worstRssi + uint (crossBelowDb C)))
         else if linkQualNow > qualityHint then calculateLinkQuality C (word_of_int (sint worstRssi - uint (crossAboveDb C)))
         else linkQualNow)"

definition lqi_health :: "link_config \<Rightarrow> u8 \<Rightarrow> ZigbeeSubsystemLinkQualityLevel" where
  "lqi_health C worstLqi =
     (if worstLqi < lqiBad C then LINK_QUALITY_LEVEL_POOR else if worstLqi < lqiWarn C then LINK_QUALITY_LEVEL_FAIR else LINK_QUALITY_LEVEL_GOOD)"

definition zigbeeSubsystemDetermineLinkQuality ::
  "link_config \<Rightarrow> u8 \<Rightarrow> u8 \<Rightarrow> u8 \<Rightarrow> u8 \<Rightarrow> ZigbeeSubsystemLinkQualityLevel \<Rightarrow> string" where
  "zigbeeSubsystemDetermineLinkQuality C neRssi feRssi neLqi feLqi qualityHint =
     (let rssiHealth = (case worst_rssi neRssi feRssi of
            Some r \<Rightarrow> if useRssiForLinkQuality C then rssi_health C r qualityHint else LINK_QUALITY_LEVEL_UNKNOWN
          | None \<Rightarrow> LINK_QUALITY_LEVEL_UNKNOWN);
          lqiHealth = (case worst_lqi neLqi feLqi of
            Some l \<Rightarrow> if useLqiForLinkQuality C then lqi_health C l else LINK_QUALITY_LEVEL_UNKNOWN
          | None \<Rightarrow> LINK_QUALITY_LEVEL_UNKNOWN)
      in if lqiHealth \<noteq> LINK_QUALITY_LEVEL_UNKNOWN \<and> rssiHealth \<noteq> LINK_QUALITY_LEVEL_UNKNOWN
         then (if rssiHealth < lqiHealth then linkQualityLevelLabels rssiHealth else linkQualityLevelLabels lqiHealth)
         else if lqiHealth \<noteq> LINK_QUALITY_LEVEL_UNKNOWN then linkQualityLevelLabels lqiHealth
         else if rssiHealth \<noteq> LINK_QUALITY_LEVEL_UNKNOWN then linkQualityLevelLabels rssiHealth
         else ''unknown'')"

section \<open>Best channel\<close>

text \<open>The best score so far is 8 bits wide and signed, and unsigned with 32 bits in the comparison.\<close>

fun best_channel :: "u8 \<Rightarrow> u8 \<Rightarrow> zhalEnergyScanResult list \<Rightarrow> u8" where
  "best_channel bestScore result [] = result"
| "best_channel bestScore result (r # rs) =
     (if es_score r > word_of_int (sint bestScore) then best_channel (ucast (es_score r)) (es_channel r) rs
      else best_channel bestScore result rs)"

section \<open>State\<close>

text \<open>
  What the functions below use besides the device service: JSON and the link to the Zigbee process,
  \<^verbatim>\<open>stringToUint8\<close>, and whether the alarm panel forbids a change (never, when it is not built in).
\<close>

record ('j, 's, 'w) radio_env =
  zr_svc :: "('j, 's, 'w) svc_env"
  zr_json :: "'j cjson_api"
  zr_read :: zevent_api
  zr_link :: "'j link_api"
  stringToUint8 :: "string \<Rightarrow> u8 option"
  panel_armed :: bool

text \<open>\<open>wt_millis\<close> tells that the delay of a task counts milliseconds, otherwise minutes.\<close>

record ChannelChangeDeviceWatchdogArg =
  deviceIdsPreviouslyInCommFail :: "(string, unit) hmap"
  previousChannel :: u8
  targetedChannel :: u8
  maxRejoinTimeoutMillis :: u64

record watchdog_task =
  wt_delay :: u32
  wt_millis :: bool
  wt_arg :: ChannelChangeDeviceWatchdogArg

text \<open>The events are whether a change succeeded, the channel that is now used, and the one that was aimed at.\<close>

record ('j, 's, 'w) zigbee_radio =
  zr_service :: "('j, 's, 'w) device_service"
  zr_log :: "'j zlog"
  isChannelChangeInProgress :: bool
  zr_tasks :: "watchdog_task list"
  zr_events :: "(bool \<times> u8 \<times> u8) list"

datatype ChannelChangeResponseCode =
  channelChangeUnknown | channelChangeSuccess | channelChangeFailed | channelChangeNotAllowed | channelChangeInvalidChannel
| channelChangeInProgress | channelChangeUnableToCalculate

record ChannelChangeResponse =
  channelNumber :: u8
  responseCode :: ChannelChangeResponseCode

definition ZIGBEE_PREVIOUS_CHANNEL_NAME :: string where "ZIGBEE_PREVIOUS_CHANNEL_NAME = ''ZIGBEE_PREVIOUS_CHANNEL''"
definition ZIGBEE_SUBSYSTEM_NAME :: string where "ZIGBEE_SUBSYSTEM_NAME = ''zigbee''"
definition MIN_ZIGBEE_CHANNEL :: u8 where "MIN_ZIGBEE_CHANNEL = 11"
definition MAX_ZIGBEE_CHANNEL :: u8 where "MAX_ZIGBEE_CHANNEL = 26"

definition radio_property :: "('j, 's, 'w) radio_env \<Rightarrow> string \<Rightarrow> u32 \<Rightarrow> ('j, 's, 'w) zigbee_radio \<Rightarrow> u32" where
  "radio_property E key dflt s = get_property_as_uint32 (svc_glib (zr_svc E)) (svc_provider (zr_svc E)) (Some key) dflt
     (svc_world (zr_service s)) (svc_db (zr_service s))"

definition radio_flag :: "('j, 's, 'w) radio_env \<Rightarrow> string \<Rightarrow> bool \<Rightarrow> ('j, 's, 'w) zigbee_radio \<Rightarrow> bool" where
  "radio_flag E key dflt s = get_property_as_bool (svc_provider (zr_svc E)) (Some key) dflt (svc_world (zr_service s)) (svc_db (zr_service s))"

definition set_previous :: "('j, 's, 'w) radio_env \<Rightarrow> string \<Rightarrow> ('j, 's, 'w) zigbee_radio \<Rightarrow> ('j, 's, 'w) zigbee_radio" where
  "set_previous E v s = s\<lparr>zr_service := set_db (snd (deviceServiceSetSystemProperty (svc_db_env (zr_svc E)) ZIGBEE_PREVIOUS_CHANNEL_NAME v
     (svc_db (zr_service s)))) (zr_service s)\<rparr>"

text \<open>The channel the property holds, when it holds one.\<close>

definition previous_channel :: "('j, 's, 'w) radio_env \<Rightarrow> ('j, 's, 'w) zigbee_radio \<Rightarrow> u8 option" where
  "previous_channel E s =
     (case deviceServiceGetSystemProperty ZIGBEE_PREVIOUS_CHANNEL_NAME (svc_db (zr_service s)) of
        Some t \<Rightarrow> if t \<noteq> [] then stringToUint8 E t else None
      | None \<Rightarrow> None)"

definition network_change :: "('j, 's, 'w) radio_env \<Rightarrow> u8 \<Rightarrow> ('j, 's, 'w) zigbee_radio \<Rightarrow> bool \<times> ('j, 's, 'w) zigbee_radio" where
  "network_change E channel s =
     (case zhalNetworkChange (zr_json E) (zr_link E) \<lparr>nc_channel = channel, nc_panId = 0, nc_networkKey = replicate 16 0\<rparr> (zr_log s) of
        (rc, log') \<Rightarrow> (rc = 0, s\<lparr>zr_log := log'\<rparr>))"

section \<open>Change of the channel\<close>

definition calculateBestChannel :: "('j, 's, 'w) radio_env \<Rightarrow> ('j, 's, 'w) zigbee_radio \<Rightarrow> (u8 \<times> ('j, 's, 'w) zigbee_radio) option" where
  "calculateBestChannel E s =
     (let duration = radio_property E ''cpe.diagnostics.zigBeeData.channelScanDurationMs'' 30 s;
          scanCount = radio_property E ''cpe.diagnostics.zigBeeData.numberOfScansPerChannel'' 16 s
      in case zhalPerformEnergyScan (zr_json E) (zr_link E) (Some [15, 19, 20, 25]) duration scanCount (zr_log s) of
           (None, log') \<Rightarrow> None
         | (Some scanResults, log') \<Rightarrow> Some (case scanResults of None \<Rightarrow> 0 | Some rs \<Rightarrow> best_channel 0 0 rs, s\<lparr>zr_log := log'\<rparr>))"

fun failing_ids :: "util_api \<Rightarrow> 's json_db \<Rightarrow> icDevice list \<Rightarrow> (string, unit) hmap \<Rightarrow> (string, unit) hmap option" where
  "failing_ids U db [] m = Some m"
| "failing_ids U db (d # ds) m = do {
     found \<leftarrow> deviceServiceGetResourceById U (d_uuid d) None (Some ''communicationFailure'') db;
     m' \<leftarrow> (case found of None \<Rightarrow> Some m
        | Some r \<Rightarrow> do { v \<leftarrow> r_value r; if v = ''true'' then do { u \<leftarrow> d_uuid d; Some (snd (hashMapPut m u ())) } else Some m });
     failing_ids U db ds m' }"

definition getDeviceIdsInCommFail :: "('j, 's, 'w) radio_env \<Rightarrow> ('j, 's, 'w) zigbee_radio \<Rightarrow> (string, unit) hmap option" where
  "getDeviceIdsInCommFail E s = do {
     allDevices \<leftarrow> deviceServiceGetDevicesBySubsystem ZIGBEE_SUBSYSTEM_NAME (zr_service s);
     failing_ids (svc_util (zr_svc E)) (svc_db (zr_service s)) allDevices [] }"

definition isTimedOut :: "u64 \<Rightarrow> u64 \<Rightarrow> ('j, 's, 'w) device_service \<Rightarrow> bool \<times> ('j, 's, 'w) device_service" where
  "isTimedOut dateOfLastContactMillis maxRejoin s =
     (case getCurrentUnixTimeMillis s of (now, s') \<Rightarrow> (now - dateOfLastContactMillis > maxRejoin, s'))"

text \<open>Whether a device that was not failing before is silent; the search ends at the first.\<close>

fun device_silent :: "util_api \<Rightarrow> ChannelChangeDeviceWatchdogArg \<Rightarrow> icDevice list \<Rightarrow> ('j, 's, 'w) device_service \<Rightarrow>
    (bool \<times> ('j, 's, 'w) device_service) option" where
  "device_silent U arg [] s = Some (False, s)"
| "device_silent U arg (d # ds) s = do {
     u \<leftarrow> d_uuid d;
     if hashMapContains (deviceIdsPreviouslyInCommFail arg) u then device_silent U arg ds s
     else do {
       contact \<leftarrow> getDeviceDateLastContacted U (Some u) (svc_db s);
       case isTimedOut contact (maxRejoinTimeoutMillis arg) s of (late, s') \<Rightarrow>
         if late then Some (True, s') else device_silent U arg ds s' } }"

text \<open>
  The fall back: the channel it reports is the one the property held, also when the request failed, and 0 when
  the property held none.
\<close>

definition fall_back :: "('j, 's, 'w) radio_env \<Rightarrow> ('j, 's, 'w) zigbee_radio \<Rightarrow> u8 \<times> ('j, 's, 'w) zigbee_radio" where
  "fall_back E s = (case previous_channel E s of None \<Rightarrow> (0, s) | Some c \<Rightarrow> (c, snd (network_change E c s)))"

definition channelChangeDeviceWatchdogTask ::
  "('j, 's, 'w) radio_env \<Rightarrow> ChannelChangeDeviceWatchdogArg \<Rightarrow> ('j, 's, 'w) zigbee_radio \<Rightarrow> ('j, 's, 'w) zigbee_radio option" where
  "channelChangeDeviceWatchdogTask E arg s = do {
     allDevices \<leftarrow> deviceServiceGetDevicesBySubsystem ZIGBEE_SUBSYSTEM_NAME (zr_service s);
     (back, service) \<leftarrow> device_silent (svc_util (zr_svc E)) arg allDevices (zr_service s);
     let (channel, s1) = (if back then fall_back E (s\<lparr>zr_service := service\<rparr>) else (targetedChannel arg, s\<lparr>zr_service := service\<rparr>));
     let s2 = set_previous E [] s1;
     Some (s2\<lparr>isChannelChangeInProgress := False, zr_events := zr_events s2 @ [(\<not> back, channel, targetedChannel arg)]\<rparr>) }"

definition startChannelChangeDeviceWatchdog ::
  "('j, 's, 'w) radio_env \<Rightarrow> u8 \<Rightarrow> u8 \<Rightarrow> ('j, 's, 'w) zigbee_radio \<Rightarrow> ('j, 's, 'w) zigbee_radio option" where
  "startChannelChangeDeviceWatchdog E previous targeted s = do {
     ids \<leftarrow> getDeviceIdsInCommFail E s;
     let minutes = radio_property E ''cpe.zigbee.channelChange.maxWaitTimeMin'' 30 s;
     Some (s\<lparr>zr_tasks := zr_tasks s @ [\<lparr>wt_delay = minutes, wt_millis = radio_flag E ''cpe.tests.fastTimers'' False s,
       wt_arg = \<lparr>deviceIdsPreviouslyInCommFail = ids, previousChannel = previous, targetedChannel = targeted,
         maxRejoinTimeoutMillis = ucast minutes * 60 * 1000\<rparr>\<rparr>]\<rparr>) }"

definition get_status :: "('j, 's, 'w) radio_env \<Rightarrow> ('j, 's, 'w) zigbee_radio \<Rightarrow> (zhalSystemStatus option \<times> ('j, 's, 'w) zigbee_radio) option" where
  "get_status E s =
     (case zhalGetSystemStatus (zr_json E) (zr_read E) (zr_link E) (zr_log s) of
        (None, log') \<Rightarrow> None
      | (Some (rc, status), log') \<Rightarrow> Some (if rc = 0 then status else None, s\<lparr>zr_log := log'\<rparr>))"

definition restartChannelChangeDeviceWatchdogIfRequired ::
  "('j, 's, 'w) radio_env \<Rightarrow> ('j, 's, 'w) zigbee_radio \<Rightarrow> ('j, 's, 'w) zigbee_radio option" where
  "restartChannelChangeDeviceWatchdogIfRequired E s =
     (case previous_channel E s of None \<Rightarrow> Some s
      | Some previous \<Rightarrow> do {
          (status, s1) \<leftarrow> get_status E s;
          case status of None \<Rightarrow> Some s1
          | Some st \<Rightarrow> startChannelChangeDeviceWatchdog E previous (ss_channel st) s1 })"

text \<open>The change to a channel other than 0, and the whole request.\<close>

definition change_to :: "('j, 's, 'w) radio_env \<Rightarrow> u8 \<Rightarrow> bool \<Rightarrow> ('j, 's, 'w) zigbee_radio \<Rightarrow> (ChannelChangeResponse \<times> ('j, 's, 'w) zigbee_radio) option" where
  "change_to E channel dryRun s = do {
     (status, s1) \<leftarrow> get_status E s;
     let answer = (\<lambda>code. \<lparr>channelNumber = channel, responseCode = code\<rparr>);
     case status of None \<Rightarrow> Some (answer channelChangeFailed, s1)
     | Some st \<Rightarrow>
         if ss_channel st = channel then Some (answer channelChangeSuccess, s1)
         else if \<not> dryRun
         then (case network_change E channel (set_previous E (decimal (unat (ss_channel st))) s1) of
             (True, s2) \<Rightarrow> map_option (Pair (answer channelChangeSuccess))
               (startChannelChangeDeviceWatchdog E (ss_channel st) channel (s2\<lparr>isChannelChangeInProgress := True\<rparr>))
           | (False, s2) \<Rightarrow> Some (answer channelChangeFailed, s2))
         else Some (answer channelChangeSuccess, s1) }"

definition zigbeeSubsystemChangeChannel ::
  "('j, 's, 'w) radio_env \<Rightarrow> u8 \<Rightarrow> bool \<Rightarrow> ('j, 's, 'w) zigbee_radio \<Rightarrow> (ChannelChangeResponse \<times> ('j, 's, 'w) zigbee_radio) option" where
  "zigbeeSubsystemChangeChannel E channel dryRun s =
     (if \<not> radio_flag E ''cpe.zigbee.channelChange.enabled'' True s \<or> panel_armed E
      then Some (\<lparr>channelNumber = 0, responseCode = channelChangeNotAllowed\<rparr>, s)
      else if isChannelChangeInProgress s then Some (\<lparr>channelNumber = 0, responseCode = channelChangeInProgress\<rparr>, s)
      else if channel \<noteq> 0 \<and> (channel < MIN_ZIGBEE_CHANNEL \<or> channel > MAX_ZIGBEE_CHANNEL)
      then Some (\<lparr>channelNumber = channel, responseCode = channelChangeInvalidChannel\<rparr>, s)
      else do {
        (c, s1) \<leftarrow> (if channel = 0 then calculateBestChannel E s else Some (channel, s));
        if c = 0 then Some (\<lparr>channelNumber = 0, responseCode = channelChangeUnableToCalculate\<rparr>, s1)
        else change_to E c dryRun s1 })"

section \<open>Map of the network\<close>

record ZigbeeSubsystemNetworkMapEntry =
  nm_address :: u64
  nm_nextCloserHop :: u64
  nm_lqi :: int
  nm_nodeId :: u16

definition findLqiInTable :: "u64 \<Rightarrow> zhalLqiData list option \<Rightarrow> int" where
  "findLqiInTable eui64 lqiTable =
     (case Option.bind lqiTable (find (\<lambda>item. lqi_eui64 item = eui64)) of None \<Rightarrow> -1 | Some item \<Rightarrow> uint (lqi_lqi item))"

text \<open>The hop towards a device: this hub for a child, and all ones when no route is known.\<close>

definition next_hop :: "('j, 's, 'w) radio_env \<Rightarrow> u64 \<Rightarrow> u64 \<Rightarrow> 'j zlog \<Rightarrow> (u64 \<times> 'j zlog) option" where
  "next_hop E ourEui64 deviceEui64 log =
     (case zhalDeviceIsChild (zr_json E) (zr_link E) deviceEui64 log of
        (True, log1) \<Rightarrow> Some (ourEui64, log1)
      | (False, log1) \<Rightarrow> (case zhalGetSourceRoute (zr_json E) (zr_read E) (zr_link E) deviceEui64 log1 of
            (None, _) \<Rightarrow> None
          | (Some None, log2) \<Rightarrow> Some (- 1, log2)
          | (Some (Some []), log2) \<Rightarrow> Some (ourEui64, log2)
          | (Some (Some (hop # _)), log2) \<Rightarrow> Some (hop, log2)))"

text \<open>The table of a hop, from those already fetched or asked for; a table that could not be fetched is asked for again.\<close>

definition hop_table :: "('j, 's, 'w) radio_env \<Rightarrow> u64 \<Rightarrow> (u64, zhalLqiData list) hmap \<Rightarrow> 'j zlog \<Rightarrow>
    (zhalLqiData list option \<times> (u64, zhalLqiData list) hmap \<times> 'j zlog) option" where
  "hop_table E hop tables log =
     (case hashMapGet tables hop of Some t \<Rightarrow> Some (Some t, tables, log)
      | None \<Rightarrow> (case zhalGetLqiTable (zr_json E) (zr_link E) hop log of
            (None, _) \<Rightarrow> None
          | (Some None, log') \<Rightarrow> Some (None, tables, log')
          | (Some (Some t), log') \<Rightarrow> Some (Some t, snd (hashMapPut tables hop t), log')))"

definition node_id :: "util_api \<Rightarrow> cstr \<Rightarrow> zhalAddressTableEntry list \<Rightarrow> u16" where
  "node_id U uuid addressTable =
     (case find (\<lambda>e. stringCompare U (at_strEui64 e) uuid False = 0) addressTable of None \<Rightarrow> 0 | Some e \<Rightarrow> at_nodeId e)"

fun map_entries :: "('j, 's, 'w) radio_env \<Rightarrow> u64 \<Rightarrow> zhalAddressTableEntry list \<Rightarrow> icDevice list \<Rightarrow> (u64, zhalLqiData list) hmap \<Rightarrow> 'j zlog \<Rightarrow>
    (ZigbeeSubsystemNetworkMapEntry list \<times> 'j zlog) option" where
  "map_entries E ourEui64 addressTable [] tables log = Some ([], log)"
| "map_entries E ourEui64 addressTable (d # ds) tables log = do {
     uuid \<leftarrow> d_uuid d;
     let address = zigbeeSubsystemIdToEui64 uuid;
     (hop, log1) \<leftarrow> next_hop E ourEui64 address log;
     (lqiTable, tables', log2) \<leftarrow> hop_table E hop tables log1;
     (es, log3) \<leftarrow> map_entries E ourEui64 addressTable ds tables' log2;
     Some (\<lparr>nm_address = address, nm_nextCloserHop = hop, nm_lqi = findLqiInTable address lqiTable,
       nm_nodeId = node_id (svc_util (zr_svc E)) (Some uuid) addressTable\<rparr> # es, log3) }"

text \<open>The status is zero when it cannot be read.\<close>

definition zigbeeSubsystemGetNetworkMap ::
  "('j, 's, 'w) radio_env \<Rightarrow> ('j, 's, 'w) zigbee_radio \<Rightarrow> (ZigbeeSubsystemNetworkMapEntry list option \<times> ('j, 's, 'w) zigbee_radio) option" where
  "zigbeeSubsystemGetNetworkMap E s =
     (case zhalGetAddressTable (zr_json E) (zr_link E) (zr_log s) of
        (None, log1) \<Rightarrow> Some (None, s\<lparr>zr_log := log1\<rparr>)
      | (Some addressTable, log1) \<Rightarrow> (case zhalGetSystemStatus (zr_json E) (zr_read E) (zr_link E) log1 of
            (None, _) \<Rightarrow> None
          | (Some (_, status), log2) \<Rightarrow> do {
              devices \<leftarrow> deviceServiceGetDevicesBySubsystem ZIGBEE_SUBSYSTEM_NAME (zr_service s);
              (es, log3) \<leftarrow> map_entries E (case status of None \<Rightarrow> 0 | Some st \<Rightarrow> ss_eui64 st) addressTable devices [] log2;
              Some (Some es, s\<lparr>zr_log := log3\<rparr>) }))"

section \<open>Link quality: theorems\<close>

lemma sint_u8_range: "- 128 \<le> sint (x :: u8)" "sint (x :: u8) < 128"
  using sint_ge [of x] sint_lt [of x] by simp_all

lemma sint_word_of_int_u8: "- 128 \<le> i \<Longrightarrow> i < 128 \<Longrightarrow> sint (word_of_int i :: u8) = i"
  by (simp add: int_word_sint)

lemmas level_cases = calculateLinkQuality_def level_order

text \<open>
  While the thresholds are further apart than the margins and nothing wraps around, the new level lies
  between the previous level and that of the sample; it differs from the previous one exactly when the sample
  is past the threshold by the margin.
\<close>

theorem link_quality_hysteresis:
  assumes "sint (rssiBad C) < sint (rssiWarn C)"
    "uint (crossBelowDb C) \<le> sint (rssiWarn C) - sint (rssiBad C)" "uint (crossAboveDb C) \<le> sint (rssiWarn C) - sint (rssiBad C)"
    "sint r + uint (crossBelowDb C) < 128" "- 128 \<le> sint r - uint (crossAboveDb C)"
    "hint \<noteq> LINK_QUALITY_LEVEL_UNKNOWN"
  shows "min hint (calculateLinkQuality C r) \<le> rssi_health C r hint \<and> rssi_health C r hint \<le> max hint (calculateLinkQuality C r) \<and>
    (rssi_health C r hint < hint \<longleftrightarrow> calculateLinkQuality C (word_of_int (sint r + uint (crossBelowDb C))) < hint) \<and>
    (rssi_health C r hint > hint \<longleftrightarrow> calculateLinkQuality C (word_of_int (sint r - uint (crossAboveDb C))) > hint)"
proof -
  define a b where ab: "a = uint (crossAboveDb C)" "b = uint (crossBelowDb C)"
  have pos: "0 \<le> a" "0 \<le> b" by (simp_all add: ab)
  note hyps = assms [folded ab] pos
  have "sint (word_of_int (sint r + b) :: u8) = sint r + b" "sint (word_of_int (sint r - a) :: u8) = sint r - a"
    using sint_u8_range [of r] hyps by (intro sint_word_of_int_u8; linarith)+
  then have up: "sint (r + crossBelowDb C) = sint r + b" and down: "sint (r - crossAboveDb C) = sint r - a"
    by (simp_all add: ab)
  show ?thesis
    using hyps by (cases hint; intro conjI) (auto simp: rssi_health_def Let_def level_cases up down min_def max_def)
qed

text \<open>The values of the variables before any configuration.\<close>

definition link_defaults :: link_config where
  "link_defaults = \<lparr>useLqiForLinkQuality = False, useRssiForLinkQuality = True, crossAboveDb = 6, crossBelowDb = 6,
     lqiWarn = 236, lqiBad = 150, rssiWarn = - 65, rssiBad = - 75\<rparr>"

text \<open>
  A signal that is so weak that the margin takes it below the smallest 8-bit number is reported as good
  when nothing is known about the link before.
\<close>

theorem weakest_signal_is_good:
  assumes "useRssiForLinkQuality C" "\<not> useLqiForLinkQuality C" "sint r \<noteq> - 128" "sint r < sint (rssiBad C)"
    "sint r - uint (crossAboveDb C) < - 128" "sint (rssiWarn C) \<le> sint r - uint (crossAboveDb C) + 256" "sint (rssiBad C) \<le> sint (rssiWarn C)"
  shows "calculateLinkQuality C r = LINK_QUALITY_LEVEL_POOR \<and>
    zigbeeSubsystemDetermineLinkQuality C r r neLqi feLqi LINK_QUALITY_LEVEL_UNKNOWN = ''good''"
proof -
  define a where a: "a = uint (crossAboveDb C)"
  have "sint (word_of_int (sint r - a + 256) :: u8) = sint r - a + 256"
    using sint_u8_range [of r] uint_lt2p [of "crossAboveDb C"] assms(5) by (intro sint_word_of_int_u8) (simp_all add: a)
  moreover have "(word_of_int (sint r - a + 256) :: u8) = r - crossAboveDb C"
    by (simp add: a)
  ultimately have "sint (r - crossAboveDb C) = sint r - a + 256" by metis
  then show ?thesis
    using assms by (simp add: zigbeeSubsystemDetermineLinkQuality_def worst_rssi_def rssi_health_def level_cases Let_def a split: option.split)
qed

section \<open>Best channel: theorems\<close>

lemma foldr_max:
  "foldr max xs (max a b) = max a (foldr max xs (b :: 'a :: linorder))" "b \<le> foldr max xs b" "foldr max xs b \<noteq> b \<Longrightarrow> foldr max xs b \<in> set xs"
  by (induction xs) (auto simp: max.left_commute max_def)

lemma small_score:
  assumes "b < (128 :: u32)"
  shows "scast (ucast b :: u8) = b"
proof -
  have "uint b < 128" using assms by (simp add: word_less_def)
  then have "sint (word_of_int (uint b) :: u8) = uint b"
    using uint_ge_0 [of b] by (intro sint_word_of_int_u8) linarith+
  then have "sint (ucast b :: u8) = uint b" by simp
  then show ?thesis by (metis of_int_sint word_of_int_uint)
qed

lemma best_channel_max:
  assumes "\<forall>r \<in> set rs. es_score r < 128" "b < (128 :: u32)"
  shows "best_channel (ucast b) c rs =
    (let m = foldr max (map es_score rs) b in if m = b then c else case find (\<lambda>r. es_score r = m) rs of None \<Rightarrow> c | Some r \<Rightarrow> es_channel r)"
  using assms
proof (induction rs arbitrary: b c)
  case (Cons r rs)
  let ?m = "foldr max (map es_score rs)"
  show ?case
  proof (cases "es_score r > b")
    case True
    then have m: "foldr max (map es_score (r # rs)) b = ?m (es_score r)"
      using foldr_max(1) [of "map es_score rs" "es_score r" b] max_absorb1 [of b "es_score r"] by simp
    have "find (\<lambda>x. es_score x = ?m (es_score r)) rs \<noteq> None" if "?m (es_score r) \<noteq> es_score r"
      using foldr_max(3) [OF that] by (auto simp: find_None_iff)
    moreover have "best_channel (ucast b) c (r # rs) = best_channel (ucast (es_score r)) (es_channel r) rs"
      using True Cons.prems by (simp add: small_score)
    moreover have "?m (es_score r) \<noteq> b"
      using True foldr_max(2) [of "es_score r" "map es_score rs"] by auto
    ultimately show ?thesis
      unfolding m using Cons.IH [of "es_score r" "es_channel r"] Cons.prems
      by (cases "?m (es_score r) = es_score r") (auto simp: Let_def split: option.split)
  next
    case False
    then have m: "foldr max (map es_score (r # rs)) b = ?m b"
      using foldr_max(2) [of b "map es_score rs"] by (auto simp: max_def)
    have "best_channel (ucast b) c (r # rs) = best_channel (ucast b) c rs"
      using False Cons.prems by (simp add: small_score)
    then show ?thesis
      unfolding m using False Cons.IH [of b c] Cons.prems foldr_max(2) [of b "map es_score rs"]
      by (cases "?m b = b") (auto simp: Let_def)
  qed
qed simp

text \<open>
  As long as no score exceeds 127 the channel chosen is the first of those with the largest score, and
  no channel when there is no score but 0.
\<close>

theorem best_channel_exact:
  assumes "\<forall>r \<in> set rs. es_score r < 128"
  shows "best_channel 0 0 rs =
    (let m = foldr max (map es_score rs) 0 in if m = 0 then 0 else case find (\<lambda>r. es_score r = m) rs of None \<Rightarrow> 0 | Some r \<Rightarrow> es_channel r)"
  using best_channel_max [OF assms, of 0 0] by simp

text \<open>After a channel with a score from 128 to 255 no later channel is chosen, however good it is.\<close>

theorem large_score_hides_better:
  assumes "128 \<le> es_score r" "es_score r < 256" "\<forall>x \<in> set rs. es_score x < 0xFFFFFF80"
  shows "best_channel 0 0 (r # rs) = es_channel r"
proof -
  have "uint (es_score r) < 256" "128 \<le> uint (es_score r)" using assms by (simp_all add: word_less_def word_le_def)
  then have "sint (word_of_int (uint (es_score r) - 256) :: u8) = uint (es_score r) - 256"
    by (intro sint_word_of_int_u8) simp_all
  moreover have "(word_of_int (uint (es_score r) - 256) :: u8) = ucast (es_score r)" by simp
  ultimately have s: "sint (ucast (es_score r) :: u8) = uint (es_score r) - 256" by metis
  have high: "0xFFFFFF80 \<le> (word_of_int (uint (es_score r) - 256) :: u32)"
  proof -
    have "uint (word_of_int (uint (es_score r) - 256 + 2 ^ 32) :: u32) = uint (es_score r) - 256 + 2 ^ 32"
      using \<open>uint (es_score r) < 256\<close> \<open>128 \<le> uint (es_score r)\<close> by (subst uint_word_of_int) (simp add: mod_pos_pos_trivial)
    moreover have "(word_of_int (uint (es_score r) - 256 + 2 ^ 32) :: u32) = word_of_int (uint (es_score r) - 256)" by simp
    ultimately show ?thesis using \<open>128 \<le> uint (es_score r)\<close> by (simp only: word_le_def) simp
  qed
  have "best_channel (ucast (es_score r)) (es_channel r) xs = es_channel r" if "set xs \<subseteq> set rs" for xs
    using that assms(3) high by (induction xs) (auto simp: s not_less intro: less_le_trans order.strict_implies_order)
  then show ?thesis using assms(1) by (auto simp: word_less_def word_le_def)
qed

section \<open>Change of the channel: theorems\<close>

text \<open>
  Requests to change the channel, the watchdog tasks, and whatever the rest of the program does to the device
  service and the link, as long as it keeps away from the property with the previous channel.
\<close>

inductive radio_step :: "('j, 's, 'w) radio_env \<Rightarrow> ('j, 's, 'w) zigbee_radio \<Rightarrow> ('j, 's, 'w) zigbee_radio \<Rightarrow> bool" for E where
  request: "zigbeeSubsystemChangeChannel E channel dryRun s = Some (response, s') \<Longrightarrow> radio_step E s s'"
| watchdog: "zr_tasks s = before @ t # after \<Longrightarrow> channelChangeDeviceWatchdogTask E (wt_arg t) (s\<lparr>zr_tasks := before @ after\<rparr>) = Some s' \<Longrightarrow> radio_step E s s'"
| elsewhere: "deviceServiceGetSystemProperty ZIGBEE_PREVIOUS_CHANNEL_NAME (svc_db service) =
      deviceServiceGetSystemProperty ZIGBEE_PREVIOUS_CHANNEL_NAME (svc_db (zr_service s)) \<Longrightarrow>
    radio_step E s (s\<lparr>zr_service := service, zr_log := log\<rparr>)"

abbreviation previous_text :: "('j, 's, 'w) zigbee_radio \<Rightarrow> cstr" where
  "previous_text s \<equiv> deviceServiceGetSystemProperty ZIGBEE_PREVIOUS_CHANNEL_NAME (svc_db (zr_service s))"

text \<open>A change in progress has exactly one watchdog task, and the property holds the channel to go back to.\<close>

definition radio_ok :: "('j, 's, 'w) zigbee_radio \<Rightarrow> bool" where
  "radio_ok s \<longleftrightarrow> (if isChannelChangeInProgress s
     then (case zr_tasks s of [t] \<Rightarrow> previous_text s = Some (decimal (unat (previousChannel (wt_arg t)))) | _ \<Rightarrow> False)
     else zr_tasks s = [])"

lemma decimal_nonempty: "decimal n \<noteq> []"
  by (simp add: decimal_digits)

lemma svc_db_set_db [simp]: "svc_db (set_db db s) = db"
  by (simp add: svc_db_def set_db_def)

lemma previous_cleared: "previous_text s = Some [] \<Longrightarrow> previous_channel E s = None"
  by (simp add: previous_channel_def)

lemma set_previous_frame [simp]:
  "previous_text (set_previous E v s) = Some v" "zr_tasks (set_previous E v s) = zr_tasks s"
  "isChannelChangeInProgress (set_previous E v s) = isChannelChangeInProgress s" "zr_events (set_previous E v s) = zr_events s"
  "zr_log (set_previous E v s) = zr_log s"
  by (simp_all add: set_previous_def dbprops.get_set)

lemma network_change_frame [simp]:
  "zr_service (snd (network_change E c s)) = zr_service s" "zr_tasks (snd (network_change E c s)) = zr_tasks s"
  "isChannelChangeInProgress (snd (network_change E c s)) = isChannelChangeInProgress s" "zr_events (snd (network_change E c s)) = zr_events s"
  by (simp_all add: network_change_def split: prod.split)

lemma get_status_frame:
  assumes "get_status E s = Some (status, s1)"
  shows "zr_service s1 = zr_service s" "zr_tasks s1 = zr_tasks s" "isChannelChangeInProgress s1 = isChannelChangeInProgress s" "zr_events s1 = zr_events s"
  using assms by (auto simp: get_status_def split: prod.splits option.splits)

lemma best_frame:
  assumes "calculateBestChannel E s = Some (c, s1)"
  shows "zr_service s1 = zr_service s" "zr_tasks s1 = zr_tasks s" "isChannelChangeInProgress s1 = isChannelChangeInProgress s" "zr_events s1 = zr_events s"
  using assms by (auto simp: calculateBestChannel_def Let_def split: prod.splits option.splits)

lemma watchdog_started:
  assumes "startChannelChangeDeviceWatchdog E previous targeted s = Some s'"
  obtains t where "s' = s\<lparr>zr_tasks := zr_tasks s @ [t]\<rparr>" "previousChannel (wt_arg t) = previous" "targetedChannel (wt_arg t) = targeted"
  using assms by (auto simp: startChannelChangeDeviceWatchdog_def Let_def split: Option.bind_splits)

text \<open>A change that is started, and every other outcome.\<close>

lemma change_to_cases:
  assumes "change_to E channel dryRun s = Some (response, s')"
  obtains (started) t where "\<not> dryRun" "isChannelChangeInProgress s'" "zr_tasks s' = zr_tasks s @ [t]" "responseCode response = channelChangeSuccess"
      "targetedChannel (wt_arg t) = channel" "previous_text s' = Some (decimal (unat (previousChannel (wt_arg t))))"
  | (failed) "\<not> dryRun" "isChannelChangeInProgress s' = isChannelChangeInProgress s" "zr_tasks s' = zr_tasks s" "responseCode response = channelChangeFailed"
  | (unchanged) "isChannelChangeInProgress s' = isChannelChangeInProgress s" "zr_tasks s' = zr_tasks s" "zr_service s' = zr_service s"
proof -
  obtain status s1 where st: "get_status E s = Some (status, s1)"
    using assms by (cases "get_status E s") (auto simp: change_to_def)
  note frame = get_status_frame [OF st]
  show thesis
  proof (cases "status = None \<or> (\<exists>x. status = Some x \<and> (ss_channel x = channel \<or> dryRun))")
    case True
    then have "s' = s1" using assms by (auto simp: change_to_def st split: if_splits)
    then show thesis using unchanged frame by simp
  next
    case False
    then obtain x where x: "status = Some x" "ss_channel x \<noteq> channel" "\<not> dryRun" by auto
    let ?p = "set_previous E (decimal (unat (ss_channel x))) s1"
    obtain ok s2 where n: "network_change E channel ?p = (ok, s2)" by fastforce
    then have s2: "s2 = snd (network_change E channel ?p)" by simp
    have s2f: "zr_tasks s2 = zr_tasks s" "isChannelChangeInProgress s2 = isChannelChangeInProgress s"
      "previous_text s2 = Some (decimal (unat (ss_channel x)))"
      by (simp_all add: s2 frame)
    show thesis
    proof (cases ok)
      case True
      then obtain "startChannelChangeDeviceWatchdog E (ss_channel x) channel (s2\<lparr>isChannelChangeInProgress := True\<rparr>) = Some s'"
          "responseCode response = channelChangeSuccess"
        using assms x by (auto simp: change_to_def st n)
      moreover from this(1) obtain t where "s' = (s2\<lparr>isChannelChangeInProgress := True\<rparr>)\<lparr>zr_tasks := zr_tasks s2 @ [t]\<rparr>"
          "previousChannel (wt_arg t) = ss_channel x" "targetedChannel (wt_arg t) = channel"
        by (rule watchdog_started) simp
      ultimately show thesis using x s2f by (intro started [of t]) simp_all
    next
      case False
      then show thesis using assms failed x s2f by (auto simp: change_to_def st n)
    qed
  qed
qed

lemma change_channel_cases:
  assumes "zigbeeSubsystemChangeChannel E channel dryRun s = Some (response, s')"
  obtains "zr_tasks s' = zr_tasks s" "isChannelChangeInProgress s' = isChannelChangeInProgress s" "zr_service s' = zr_service s"
  | c s1 where "\<not> isChannelChangeInProgress s" "zr_tasks s1 = zr_tasks s" "isChannelChangeInProgress s1 = isChannelChangeInProgress s"
      "zr_service s1 = zr_service s" "change_to E c dryRun s1 = Some (response, s')"
proof (cases "\<exists>c s1. \<not> isChannelChangeInProgress s \<and> zr_tasks s1 = zr_tasks s \<and> isChannelChangeInProgress s1 = isChannelChangeInProgress s \<and>
      zr_service s1 = zr_service s \<and> change_to E c dryRun s1 = Some (response, s')")
  case False
  have "zr_tasks s' = zr_tasks s \<and> isChannelChangeInProgress s' = isChannelChangeInProgress s \<and> zr_service s' = zr_service s"
  proof (cases "calculateBestChannel E s")
    case None
    then show ?thesis using assms False by (auto simp: zigbeeSubsystemChangeChannel_def split: if_splits)
  next
    case (Some x)
    then show ?thesis
      using assms False best_frame [of E s "fst x" "snd x"] by (cases x) (auto simp: zigbeeSubsystemChangeChannel_def split: if_splits)
  qed
  then show thesis using that(1) by blast
qed (use that(2) in blast)

lemma radio_request:
  assumes "zigbeeSubsystemChangeChannel E channel dryRun s = Some (response, s')" "radio_ok s"
  shows "radio_ok s'"
  using assms(1)
proof (cases rule: change_channel_cases)
  case 1
  then show ?thesis using assms(2) by (auto simp: radio_ok_def split: list.splits)
next
  case (2 c s1)
  from 2(5) show ?thesis by (cases rule: change_to_cases) (use 2 assms(2) in \<open>auto simp: radio_ok_def split: list.splits\<close>)
qed

text \<open>What the watchdog does, with its verdict on the devices.\<close>

lemma device_silent_db:
  "device_silent U arg ds sv = Some (silent, sv') \<Longrightarrow> svc_db sv' = svc_db sv"
  by (induction ds arbitrary: sv)
    (auto simp: isTimedOut_def getCurrentUnixTimeMillis_def svc_db_def split: if_splits option.splits Option.bind_splits)

lemma watchdog_effect:
  assumes "channelChangeDeviceWatchdogTask E arg s = Some s'"
  obtains allDevices silent service where
    "deviceServiceGetDevicesBySubsystem ZIGBEE_SUBSYSTEM_NAME (zr_service s) = Some allDevices"
    "device_silent (svc_util (zr_svc E)) arg allDevices (zr_service s) = Some (silent, service)"
    "\<not> isChannelChangeInProgress s'" "zr_tasks s' = zr_tasks s" "previous_text s' = Some []"
    "zr_log s' = (if silent then case previous_channel E s of None \<Rightarrow> zr_log s | Some c \<Rightarrow> zr_log (snd (network_change E c s)) else zr_log s)"
    "zr_events s' = zr_events s @ [(\<not> silent, if silent then case previous_channel E s of None \<Rightarrow> 0 | Some c \<Rightarrow> c else targetedChannel arg, targetedChannel arg)]"
proof -
  obtain ds silent sv where ds: "deviceServiceGetDevicesBySubsystem ZIGBEE_SUBSYSTEM_NAME (zr_service s) = Some ds"
      "device_silent (svc_util (zr_svc E)) arg ds (zr_service s) = Some (silent, sv)"
    using assms by (auto simp: channelChangeDeviceWatchdogTask_def split: Option.bind_splits)
  have same: "previous_channel E (s\<lparr>zr_service := sv\<rparr>) = previous_channel E s"
    using device_silent_db [OF ds(2)] by (simp add: previous_channel_def)
  have log: "zr_log (snd (network_change E c (s\<lparr>zr_service := sv\<rparr>))) = zr_log (snd (network_change E c s))" for c
    by (simp add: network_change_def split: prod.split)
  show thesis
    using assms by (intro that [OF ds])
      (auto simp: channelChangeDeviceWatchdogTask_def ds fall_back_def same log Let_def split: option.splits if_splits)
qed

text \<open>
  In every order of requests, watchdog tasks and other work, a change in progress has exactly one watchdog
  and knows the channel to go back to, and without a change there is no watchdog.
\<close>

theorem one_change_at_a_time:
  assumes "(radio_step E)\<^sup>*\<^sup>* s s'" "radio_ok s"
  shows "radio_ok s'"
  using assms
proof (induction rule: rtranclp_induct)
  case (step a b)
  from step.hyps(2) show ?case
  proof (cases rule: radio_step.cases)
    case (watchdog before t after)
    from watchdog(2) show ?thesis
      by (rule watchdog_effect) (use watchdog(1) step.IH [OF step.prems] in \<open>auto simp: radio_ok_def append_eq_Cons_conv split: if_splits list.splits\<close>)
  next
    case request
    then show ?thesis by (rule radio_request) (rule step.IH [OF step.prems])
  next
    case elsewhere
    then show ?thesis using step.IH [OF step.prems] by (auto simp: radio_ok_def split: list.splits)
  qed
qed assumption

text \<open>
  The devices that count for a change, those not failing before it, and whether one of them has been silent
  for too long when its turn comes; each reads the clock once.
\<close>

definition watched_devices :: "ChannelChangeDeviceWatchdogArg \<Rightarrow> icDevice list \<Rightarrow> icDevice list" where
  "watched_devices arg = filter (\<lambda>d. \<not> list_ex (\<lambda>e. d_uuid d = Some (fst e)) (deviceIdsPreviouslyInCommFail arg))"

definition contact_lost :: "util_api \<Rightarrow> ChannelChangeDeviceWatchdogArg \<Rightarrow> icDevice list \<Rightarrow> ('j, 's, 'w) device_service \<Rightarrow> bool" where
  "contact_lost U arg ds sv \<longleftrightarrow> (\<exists>i < length (watched_devices arg ds).
     case getDeviceDateLastContacted U (d_uuid (watched_devices arg ds ! i)) (svc_db sv) of None \<Rightarrow> False
     | Some contact \<Rightarrow> svc_clock sv (svc_ticks sv + i) - contact > maxRejoinTimeoutMillis arg)"

lemma device_silent_contact_lost: "device_silent U arg ds sv = Some (silent, sv') \<Longrightarrow> silent = contact_lost U arg ds sv"
proof (induction ds arbitrary: sv)
  case (Cons d ds)
  let ?sv = "sv\<lparr>svc_ticks := Suc (svc_ticks sv)\<rparr>"
  obtain u where u: "d_uuid d = Some u" using Cons.prems by (auto split: Option.bind_splits)
  have known: "list_ex (\<lambda>e. d_uuid d = Some (fst e)) m \<longleftrightarrow> hashMapContains m u" for m :: "(string, unit) hmap"
    unfolding hashMapContains_def map_of_eq_None_iff by (auto simp: u list_ex_iff)
  then have watched: "watched_devices arg (d # ds) =
      (if hashMapContains (deviceIdsPreviouslyInCommFail arg) u then watched_devices arg ds else d # watched_devices arg ds)"
    by (simp add: watched_devices_def)
  show ?case
  proof (cases "hashMapContains (deviceIdsPreviouslyInCommFail arg) u")
    case True
    with Cons.prems u have "device_silent U arg ds sv = Some (silent, sv')" by simp
    from Cons.IH [OF this] True show ?thesis by (simp add: contact_lost_def watched)
  next
    case False
    then obtain contact where c: "getDeviceDateLastContacted U (Some u) (svc_db sv) = Some contact"
      using Cons.prems u by (auto split: Option.bind_splits)
    have "svc_db ?sv = svc_db sv" by (simp add: svc_db_def)
    then have split: "contact_lost U arg (d # ds) sv \<longleftrightarrow>
        svc_clock sv (svc_ticks sv) - contact > maxRejoinTimeoutMillis arg \<or> contact_lost U arg ds ?sv"
      using False c by (simp add: contact_lost_def watched u Ex_less_Suc2 cong: option.case_cong)
    show ?thesis
    proof (cases "svc_clock sv (svc_ticks sv) - contact > maxRejoinTimeoutMillis arg")
      case True
      with Cons.prems u False c split show ?thesis by (simp add: isTimedOut_def getCurrentUnixTimeMillis_def)
    next
      case late: False
      with Cons.prems u False c have "device_silent U arg ds ?sv = Some (silent, sv')"
        by (simp add: isTimedOut_def getCurrentUnixTimeMillis_def)
      from Cons.IH [OF this] late split show ?thesis by simp
    qed
  qed
qed (simp add: contact_lost_def watched_devices_def)

text \<open>
  C33. The watchdog of a change in progress ends it. When a device that was not failing before the change has
  been silent for longer than the change allows, one request sends the network back to the previous channel and the
  failure is reported with that channel; otherwise nothing is sent and the change is reported as done. In either
  case no change is in progress and no channel to go back to is remembered.
\<close>

theorem watchdog_ends_change:
  assumes "radio_ok s" "zr_tasks s = [t]" "\<forall>c. stringToUint8 E (decimal (unat c)) = Some c"
    "deviceServiceGetDevicesBySubsystem ZIGBEE_SUBSYSTEM_NAME (zr_service s) = Some ds"
    "channelChangeDeviceWatchdogTask E (wt_arg t) (s\<lparr>zr_tasks := []\<rparr>) = Some s'"
  shows "\<not> isChannelChangeInProgress s' \<and> zr_tasks s' = [] \<and> previous_text s' = Some [] \<and>
    (if contact_lost (svc_util (zr_svc E)) (wt_arg t) ds (zr_service s)
     then zr_events s' = zr_events s @ [(False, previousChannel (wt_arg t), targetedChannel (wt_arg t))] \<and>
       zr_log s' = snd (zhalNetworkChange (zr_json E) (zr_link E)
         \<lparr>nc_channel = previousChannel (wt_arg t), nc_panId = 0, nc_networkKey = replicate 16 0\<rparr> (zr_log s))
     else zr_events s' = zr_events s @ [(True, targetedChannel (wt_arg t), targetedChannel (wt_arg t))] \<and> zr_log s' = zr_log s)"
proof -
  have "previous_text s = Some (decimal (unat (previousChannel (wt_arg t))))" and "isChannelChangeInProgress s"
    using assms(1,2) by (auto simp: radio_ok_def split: if_splits)
  then have prev: "previous_channel E (s\<lparr>zr_tasks := []\<rparr>) = Some (previousChannel (wt_arg t))"
    using assms(3) by (simp add: previous_channel_def decimal_nonempty)
  have log: "zr_log (snd (network_change E c (s\<lparr>zr_tasks := []\<rparr>))) =
      snd (zhalNetworkChange (zr_json E) (zr_link E) \<lparr>nc_channel = c, nc_panId = 0, nc_networkKey = replicate 16 0\<rparr> (zr_log s))" for c
    by (simp add: network_change_def split: prod.split)
  from assms(5) show ?thesis
    by (rule watchdog_effect) (use assms(4) in \<open>auto simp: prev log dest!: device_silent_contact_lost\<close>)
qed

text \<open>
  When the network refuses the change, the request fails but the property keeps the present channel: at the
  next start a watchdog is scheduled for a change that never took place. It does not count as a change in
  progress, so that another change is let through beside it.
\<close>

theorem refused_change_restarts_watchdog:
  assumes "get_status E s = Some (Some st, s1)" "ss_channel st \<noteq> channel" "\<not> isChannelChangeInProgress s"
    "\<not> fst (network_change E channel (set_previous E (decimal (unat (ss_channel st))) s1))"
    "\<forall>c. stringToUint8 E (decimal (unat c)) = Some c"
    "change_to E channel False s = Some (response, s2)"
    "get_status E s2 = Some (Some st', s3)" "restartChannelChangeDeviceWatchdogIfRequired E s2 = Some s4"
  shows "responseCode response = channelChangeFailed \<and> \<not> isChannelChangeInProgress s4 \<and>
    (\<exists>t. zr_tasks s4 = zr_tasks s @ [t] \<and> previousChannel (wt_arg t) = ss_channel st)"
proof -
  let ?p = "set_previous E (decimal (unat (ss_channel st))) s1"
  obtain ok x where n: "network_change E channel ?p = (ok, x)" by fastforce
  then have s2: "s2 = snd (network_change E channel ?p)" "responseCode response = channelChangeFailed"
    using assms(1,2,4,6) by (auto simp: change_to_def)
  have prev: "previous_channel E s2 = Some (ss_channel st)"
    using assms(5) by (simp add: previous_channel_def s2 decimal_nonempty)
  from assms(7,8) have "startChannelChangeDeviceWatchdog E (ss_channel st) (ss_channel st') s3 = Some s4"
    by (simp add: restartChannelChangeDeviceWatchdogIfRequired_def prev)
  then obtain t where "s4 = s3\<lparr>zr_tasks := zr_tasks s3 @ [t]\<rparr>" "previousChannel (wt_arg t) = ss_channel st"
    by (rule watchdog_started)
  then show ?thesis
    using get_status_frame [OF assms(7)] get_status_frame [OF assms(1)] assms(3) by (simp add: s2)
qed

section \<open>Map of the network: theorems\<close>

lemma map_entries_devices:
  "map_entries E our addresses ds tables log = Some (es, log') \<Longrightarrow>
     map (\<lambda>d. map_option zigbeeSubsystemIdToEui64 (d_uuid d)) ds = map (Some \<circ> nm_address) es \<and> list_all (\<lambda>e. - 1 \<le> nm_lqi e \<and> nm_lqi e < 256) es"
proof (induction ds arbitrary: tables log es log')
  case (Cons d ds)
  have "- 1 \<le> findLqiInTable a t" "findLqiInTable a t < 256" for a t
    using uint_lt2p [where 'a = 8] by (auto simp: findLqiInTable_def split: option.splits intro: order_trans [OF _ uint_ge_0])
  with Cons show ?case by (fastforce simp: Let_def split: Option.bind_splits)
qed simp

theorem network_map_lists_devices:
  assumes "zigbeeSubsystemGetNetworkMap E s = Some (Some es, s')"
  shows "\<exists>ds. deviceServiceGetDevicesBySubsystem ZIGBEE_SUBSYSTEM_NAME (zr_service s) = Some ds \<and>
    map (\<lambda>d. map_option zigbeeSubsystemIdToEui64 (d_uuid d)) ds = map (Some \<circ> nm_address) es \<and>
    list_all (\<lambda>e. - 1 \<le> nm_lqi e \<and> nm_lqi e < 256) es"
  using assms map_entries_devices
  by (fastforce simp: zigbeeSubsystemGetNetworkMap_def split: prod.splits option.splits Option.bind_splits)

section \<open>Examples\<close>

definition radio_status :: json where
  "radio_status = code_reply 0 [(''networkIsUp'', JBool True), (''networkIsOpenForJoin'', JBool False), (''eui64'', JString ''1''), (''originalEui64'', JString ''1''),
     (''channel'', JNumber 15), (''panId'', JNumber 7), (''networkKey'', JString (replicate 32 CHR ''0''))]"

text \<open>The replies of the Zigbee process, in order.\<close>

definition radio_link :: "json list \<Rightarrow> json link_api" where
  "radio_link replies = \<lparr>link_up = (\<lambda>_. True), link_id = of_nat, link_reply = (\<lambda>n. if n < length replies then Some (replies ! n) else None)\<rparr>"

definition example_radio_env :: "json list \<Rightarrow> (json, (string \<times> string) list, unit) radio_env" where
  "example_radio_env replies = \<lparr>zr_svc = example_svc_env, zr_json = example_cjson,
     zr_read = example_zevent_api\<lparr>stringToUnsigned := (\<lambda>t b. Some 1)\<rparr>, zr_link = radio_link replies,
     stringToUint8 = (\<lambda>t. map_option of_nat (find (\<lambda>n. decimal n = t) [0..<256])), panel_armed = False\<rparr>"

definition example_radio :: "(json, (string \<times> string) list, unit) zigbee_radio" where
  "example_radio = \<lparr>zr_service = set_db (one_db\<lparr>devices := [], resourcesByUri := []\<rparr>) example_service, zr_log = [], isChannelChangeInProgress = False, zr_tasks = [], zr_events = []\<rparr>"

lemma example_channels: "stringToUint8 (example_radio_env replies) (decimal (unat c)) = Some c"
proof -
  have inj: "decimal n = decimal m \<longleftrightarrow> n = m" for n m by (metis decimal_digits)
  have "find (\<lambda>n. n = k) ([0..<m]) = (if k < m then Some k else None)" for k m by (induction m) (auto simp: find_append)
  moreover have "unat c < 256" using unsigned_less [of c, where 'a = nat] by simp
  ultimately show ?thesis by (simp add: example_radio_env_def inj)
qed

text \<open>A change from channel 15 to 20 and a change that is refused.\<close>

definition change_replies :: "json list" where
  "change_replies = [radio_status, code_reply 0 [], code_reply 0 []]"

definition refused_replies :: "json list" where
  "refused_replies = [radio_status, code_reply 1 [], radio_status]"

definition changed_radio :: "(json, (string \<times> string) list, unit) zigbee_radio" where
  "changed_radio = snd (the (zigbeeSubsystemChangeChannel (example_radio_env change_replies) 20 False example_radio))"

lemma changed_radio_step: "radio_step (example_radio_env change_replies) example_radio changed_radio"
proof -
  have "\<not> Option.is_none (zigbeeSubsystemChangeChannel (example_radio_env change_replies) 20 False example_radio)" by code_simp
  then show ?thesis
    by (intro radio_step.request [of _ 20 False _ "fst (the (zigbeeSubsystemChangeChannel (example_radio_env change_replies) 20 False example_radio))"])
      (auto simp: changed_radio_def Option.is_none_def)
qed

theorem one_change_at_a_time_witness: "radio_ok changed_radio"
  by (rule one_change_at_a_time [OF r_into_rtranclp, OF changed_radio_step]) (simp add: radio_ok_def example_radio_def)

definition example_task :: watchdog_task where
  "example_task = \<lparr>wt_delay = 30, wt_millis = True, wt_arg = \<lparr>deviceIdsPreviouslyInCommFail = [], previousChannel = 15, targetedChannel = 20,
     maxRejoinTimeoutMillis = 30\<rparr>\<rparr>"

definition watched_radio :: "(json, (string \<times> string) list, unit) zigbee_radio" where
  "watched_radio = set_previous (example_radio_env change_replies) (decimal 15) (example_radio\<lparr>isChannelChangeInProgress := True, zr_tasks := [example_task]\<rparr>)"

theorem watchdog_ends_change_witness:
  "zr_events (the (channelChangeDeviceWatchdogTask (example_radio_env change_replies) (wt_arg example_task) (watched_radio\<lparr>zr_tasks := []\<rparr>))) =
     [(True, 20, 20)]"
proof -
  let ?E = "example_radio_env change_replies"
  have t: "zr_tasks watched_radio = [example_task]" "zr_events watched_radio = []" "radio_ok watched_radio"
    by (simp_all add: watched_radio_def radio_ok_def example_task_def) (simp add: example_radio_def)
  have "Option.is_none (deviceServiceGetDevicesBySubsystem ZIGBEE_SUBSYSTEM_NAME (zr_service watched_radio)) = False"
    "the (deviceServiceGetDevicesBySubsystem ZIGBEE_SUBSYSTEM_NAME (zr_service watched_radio)) = []" by code_simp+
  then have devices: "deviceServiceGetDevicesBySubsystem ZIGBEE_SUBSYSTEM_NAME (zr_service watched_radio) = Some []"
    by (auto simp: Option.is_none_def)
  then obtain s' where s': "channelChangeDeviceWatchdogTask ?E (wt_arg example_task) (watched_radio\<lparr>zr_tasks := []\<rparr>) = Some s'"
    by (simp add: channelChangeDeviceWatchdogTask_def)
  have "\<not> contact_lost (svc_util (zr_svc ?E)) (wt_arg example_task) [] (zr_service watched_radio)"
    by (simp add: contact_lost_def watched_devices_def)
  with watchdog_ends_change [OF t(3,1) _ devices s'] show ?thesis
    by (simp add: example_channels s' t) (simp add: example_task_def)
qed

abbreviation refused_env :: "(json, (string \<times> string) list, unit) radio_env" where
  "refused_env \<equiv> example_radio_env refused_replies"


lemma refused_status: "\<not> Option.is_none (Option.bind (get_status refused_env example_radio) fst)"
  by code_simp

lemma refused_change: "\<not> Option.is_none (change_to refused_env 20 False example_radio)"
  by code_simp

lemma refused_status_after:
  "\<not> Option.is_none (Option.bind (change_to refused_env 20 False example_radio) (\<lambda>(r, s2). Option.bind (get_status refused_env s2) fst))"
  by code_simp

lemma no_devices: "devices (svc_db sv) = [] \<Longrightarrow> deviceServiceGetDevicesBySubsystem n sv = Some []"
  by (simp add: deviceServiceGetDevicesBySubsystem_def jsonDatabaseGetDevices_def)

lemma set_previous_devices [simp]: "devices (svc_db (zr_service (set_previous E v s))) = devices (svc_db (zr_service s))"
  by (simp add: set_previous_def deviceServiceSetSystemProperty_def jsonDatabaseSetSystemProperty_def saveSystemProperties_def split: prod.split bool.split)

lemma change_to_devices:
  assumes "change_to E channel dryRun s = Some (response, s')"
  shows "devices (svc_db (zr_service s')) = devices (svc_db (zr_service s))"
proof -
  obtain status s1 where st: "get_status E s = Some (status, s1)"
    using assms by (cases "get_status E s") (auto simp: change_to_def)
  note frame = get_status_frame [OF st]
  have n: "zr_service x = zr_service y" if "network_change E channel y = (ok, x)" for x y ok
    using network_change_frame(1) [of E channel y] that by simp
  show ?thesis
    using assms frame by (auto simp: change_to_def st dest!: n elim!: watchdog_started split: option.splits if_splits prod.splits bool.splits)
qed

lemma refused_channel: "map_option (\<lambda>(st, s1). ss_channel (the st)) (get_status refused_env example_radio) = Some 15"
  by code_simp

lemma refused_network:
  "map_option (\<lambda>(st, s1). \<not> fst (network_change refused_env 20 (set_previous refused_env (decimal 15) s1))) (get_status refused_env example_radio) = Some True"
  by code_simp

theorem refused_change_restarts_watchdog_witness:
  "\<exists>response s2 s4 t. change_to refused_env 20 False example_radio = Some (response, s2) \<and>
     restartChannelChangeDeviceWatchdogIfRequired refused_env s2 = Some s4 \<and>
     responseCode response = channelChangeFailed \<and> \<not> isChannelChangeInProgress s4 \<and> zr_tasks s4 = [t] \<and> previousChannel (wt_arg t) = 15"
proof -
  obtain st s1 where a: "get_status refused_env example_radio = Some (Some st, s1)"
    using refused_status by (auto simp: Option.is_none_def split: Option.bind_splits)
  obtain r s2 where b: "change_to refused_env 20 False example_radio = Some (r, s2)"
    using refused_change by (auto simp: Option.is_none_def)
  obtain st' s3 where c: "get_status refused_env s2 = Some (Some st', s3)"
    using refused_status_after by (auto simp: b Option.is_none_def split: Option.bind_splits)
  have "devices (svc_db (zr_service s3)) = []"
    using get_status_frame(1) [OF c] change_to_devices [OF b] by (simp add: example_radio_def)
  then obtain s4 where d: "restartChannelChangeDeviceWatchdogIfRequired refused_env s2 = Some s4"
    by (cases "previous_channel refused_env s2")
      (simp_all add: restartChannelChangeDeviceWatchdogIfRequired_def c startChannelChangeDeviceWatchdog_def getDeviceIdsInCommFail_def no_devices Let_def)
  have "ss_channel st = 15" "\<not> fst (network_change refused_env 20 (set_previous refused_env (decimal 15) s1))"
    using refused_channel refused_network by (simp_all add: a)
  then show ?thesis
    using refused_change_restarts_watchdog [OF a _ _ _ _ b c d] b d by (simp add: example_channels example_radio_def)
qed

theorem link_quality_hysteresis_witness:
  "rssi_health link_defaults (- 67) LINK_QUALITY_LEVEL_GOOD = LINK_QUALITY_LEVEL_GOOD"
proof -
  have "calculateLinkQuality link_defaults (- 67) = LINK_QUALITY_LEVEL_FAIR"
    "calculateLinkQuality link_defaults (word_of_int (sint (- 67 :: u8) + uint (crossBelowDb link_defaults))) = LINK_QUALITY_LEVEL_GOOD"
    by code_simp+
  moreover have "sint (rssiBad link_defaults) < sint (rssiWarn link_defaults)"
    "uint (crossBelowDb link_defaults) \<le> sint (rssiWarn link_defaults) - sint (rssiBad link_defaults)"
    "uint (crossAboveDb link_defaults) \<le> sint (rssiWarn link_defaults) - sint (rssiBad link_defaults)"
    "sint (- 67 :: u8) + uint (crossBelowDb link_defaults) < 128" "- 128 \<le> sint (- 67 :: u8) - uint (crossAboveDb link_defaults)"
    by code_simp+
  ultimately show ?thesis
    using link_quality_hysteresis [of link_defaults "- 67" LINK_QUALITY_LEVEL_GOOD]
    by (cases "rssi_health link_defaults (- 67) LINK_QUALITY_LEVEL_GOOD") (auto simp: max_def level_order)
qed

theorem weakest_signal_is_good_witness:
  "zigbeeSubsystemDetermineLinkQuality link_defaults (- 125) (- 125) 0 0 LINK_QUALITY_LEVEL_UNKNOWN = ''good''"
proof -
  have "useRssiForLinkQuality link_defaults" "\<not> useLqiForLinkQuality link_defaults" "sint (- 125 :: u8) \<noteq> - 128" "sint (- 125 :: u8) < sint (rssiBad link_defaults)"
    "sint (- 125 :: u8) - uint (crossAboveDb link_defaults) < - 128" "sint (rssiWarn link_defaults) \<le> sint (- 125 :: u8) - uint (crossAboveDb link_defaults) + 256"
    "sint (rssiBad link_defaults) \<le> sint (rssiWarn link_defaults)"
    by code_simp+
  from weakest_signal_is_good [OF this] show ?thesis by simp
qed

definition scan_result :: "u8 \<Rightarrow> u32 \<Rightarrow> zhalEnergyScanResult" where
  "scan_result channel score = \<lparr>es_channel = channel, es_maxRssi = 0, es_minRssi = 0, es_averageRssi = 0, es_score = score\<rparr>"

theorem best_channel_exact_witness: "best_channel 0 0 [scan_result 15 10, scan_result 19 90, scan_result 20 90] = 19"
  by (subst best_channel_exact) (simp_all add: scan_result_def max_def)

theorem large_score_hides_better_witness: "best_channel 0 0 [scan_result 15 128, scan_result 19 255] = 15"
  by (subst large_score_hides_better) (simp_all add: scan_result_def)

end
