(* ===== verification/Spec2Isabelle.thy ===== *)
theory Spec2Isabelle
  imports
    Barton_Externals
    Version_Utils
    Device_Descriptors
    Zigbee_IO
    Comm_Watchdog
    Device_Model
    Device_Builder
    Json_Database_Reload
    Driver_Manager
    Subsystem_Manager_Props
    Comm_Fail
    Device_Reconfigure
    Descriptor_Handler
    Zigbee_Radio
begin

text \<open>
  BartonCore, a library that manages the devices of a home (Zigbee, Matter and others) for a client
  program: a model of its core in C, with the theorems that make it correct.

  \<^bold>\<open>The program.\<close> The device service (\<^verbatim>\<open>core/src/deviceService.c\<close>) is the hub. It keeps devices in a
  database (\<^verbatim>\<open>core/src/database\<close>) as trees of endpoints, resources and metadata
  (\<^verbatim>\<open>core/src/device\<close>), which are stored as JSON. A client starts the discovery of a class of devices; a
  device that is found is admitted when a descriptor of an allow list matches it and no deny list does
  (\<^verbatim>\<open>libs/device/descriptors\<close>), is then built by its driver, finalised and reported. The lists are
  downloaded by repeating tasks (\<^verbatim>\<open>deviceDescriptorHandler.c\<close>). Device drivers, registered with the
  driver manager, build and control the devices of a family; they work on subsystems (Zigbee, Matter,
  Thread), which the subsystem manager migrates, initialises and watches for readiness. The
  communication watchdog reports devices that have been silent for too long to the communication
  failure service, which forwards the reports to the drivers. The Zigbee radio is driven by another
  process, to which the hardware layer (\<^verbatim>\<open>core/src/zhal\<close>) sends requests as JSON, one at a time for each
  device, and from which it gets responses and events; the Zigbee subsystem
  (\<^verbatim>\<open>core/src/subsystems/zigbee\<close>) keeps what it learns about devices, watches the quality of the links and
  changes the channel of the network. Payloads are read and written with a small codec (\<^verbatim>\<open>zigbeeIO.c\<close>).

  \<^bold>\<open>Theories, sources and state.\<close>
  \<^item> \<open>Barton_Prelude\<close>: integer widths, nullable strings, the hash maps and linked lists of the
    support library and GLib; the locale \<open>hash_map\<close>.
  \<^item> \<open>Barton_Externals\<close>: cJSON and the string helpers as records of operations with their documented
    behaviour (\<open>cjson_ok\<close>, \<open>util_ok\<close>, \<open>decimal_ok\<close>), and instances on which examples evaluate.
  \<^item> \<open>Version_Utils\<close> (\<^verbatim>\<open>versionUtils.c\<close>): parsing of version strings, with the two buffers of the code and
    writes past them as errors, and comparison, shown equal to the lexicographic comparison of the
    arrays padded with zeros.
  \<^item> \<open>Device_Descriptors\<close> (\<^verbatim>\<open>deviceDescriptors.c\<close>, \<^verbatim>\<open>deviceDescriptor.c\<close>): descriptors, version ranges, the
    cached lists and the lookup; its state \<open>dd_state\<close> is the file's statics. The locale
    \<open>descriptor_search\<close> states what the search promises.
  \<^item> \<open>Zigbee_IO\<close> (\<^verbatim>\<open>zigbeeIO.c\<close>): the payload with its cursor and \<^verbatim>\<open>errno\<close>; every reader and writer. The locale
    \<open>byte_codec\<close> is interpreted for 8, 16 and 32 bits.
  \<^item> \<open>Device_Model\<close> (\<^verbatim>\<open>icDevice.c\<close>, \<^verbatim>\<open>icDeviceEndpoint.c\<close>, \<^verbatim>\<open>icDeviceResource.c\<close>, \<^verbatim>\<open>icDeviceMetadata.c\<close>,
    \<^verbatim>\<open>icSerDesContext.c\<close>): the device tree, its clone, its URIs, and its JSON form in both directions.
  \<^item> \<open>Device_Builder\<close> (\<^verbatim>\<open>icInitialResourceValues.c\<close>, \<^verbatim>\<open>deviceModelHelper.c\<close>): initial values and the construction
    of devices.
  \<^item> \<open>Json_Database\<close>, \<open>Json_Database_Props\<close>, \<open>Json_Database_Reload\<close> (\<^verbatim>\<open>jsonDatabase.c\<close>): the cache, the index
    by URI, the system properties and the storage; definitions, theorems on the operations, and the
    round trip through storage.
  \<^item> \<open>Comm_Watchdog\<close> (\<^verbatim>\<open>deviceCommunicationWatchdog.c\<close>): the table of monitored devices, the countdown in
    32-bit milliseconds, the monitor thread, and the interleaving of the locked sections.
  \<^item> \<open>Driver_Manager\<close> (\<^verbatim>\<open>deviceDriverManager.c\<close>): the map of drivers and the list in registration order.
  \<^item> \<open>Subsystem_Manager\<close>, \<open>Subsystem_Manager_Props\<close> (\<^verbatim>\<open>subsystemManager.c\<close>): registration, disabling, migration
    recorded in the system properties, readiness and notifications; the step relation \<open>sm_step\<close>. The
    locale \<open>property_store\<close> is interpreted on the system properties of the database.
  \<^item> \<open>Comm_Fail\<close> (\<^verbatim>\<open>deviceServiceCommFail.c\<close>): timeouts of devices, on top of the watchdog, the drivers and
    the database. The locale \<open>device_monitor\<close> is interpreted on the watchdog.
  \<^item> \<open>Descriptor_Parser\<close> (\<^verbatim>\<open>parser.c\<close>): the lists of descriptors, from the nodes of an XML document to the
    records of \<open>Device_Descriptors\<close>, with \<^verbatim>\<open>strtol\<close> and \<^verbatim>\<open>strsep\<close>.
  \<^item> \<open>Property_Provider\<close> (\<^verbatim>\<open>barton-core-property-provider.c\<close>): typed properties over the client's interface
    and the system properties.
  \<^item> \<open>Device_Service\<close>, \<open>Device_Service_Props\<close> (\<^verbatim>\<open>deviceService.c\<close>): the state \<open>device_service\<close> joins the file's
    variables with the states of the components above, the log of events and calls of drivers, and the
    world outside; access to resources by URI or pattern, metadata, endpoints, removal, low power mode.
  \<^item> \<open>Service_Events\<close> (\<^verbatim>\<open>deviceEventHandler.c\<close>, part of \<^verbatim>\<open>deviceService.c\<close>): changed properties, denied devices,
    the restoration of a configuration; the provider's signal closes the loop from \<open>denylistDevice\<close> to the
    handler.
  \<^item> \<open>Device_Pairing\<close>: filters, the device that is found, recovered devices and finalisation.
  \<^item> \<open>Device_Discovery\<close>: start, roll-back and stop of discovery, and its monitor threads as steps (\<open>disc_step\<close>).
  \<^item> \<open>Device_Reconfigure\<close>: reconfiguration tasks, their contexts and waits, and the initialisation of the
    known devices at the start.
  \<^item> \<open>Descriptor_Handler\<close> (\<^verbatim>\<open>deviceDescriptorHandler.c\<close>): the downloads of the lists, their tasks and the
    readiness for pairing, as steps (\<open>dh_step\<close>).
  \<^item> \<open>Zhal_Queue\<close> (\<^verbatim>\<open>zhalImpl.c\<close>): the queue of requests of each device, the worker, the responses and the
    shutdown; every critical section is a step of \<open>zq_step\<close>.
  \<^item> \<open>Zhal_Events\<close> (\<^verbatim>\<open>zhalEventHandler.c\<close>, \<^verbatim>\<open>zhalAsyncReceiver.c\<close>): every event with its callback, and the
    check for repeated commands. A call of a callback that is not set is a fault.
  \<^item> \<open>Zhal_Requests\<close> (\<^verbatim>\<open>zhalRequests.c\<close>): every request as JSON, the attempts while the network is busy, and
    the reading of every response; the other process is the argument \<open>link_api\<close>.
  \<^item> \<open>Zigbee_Details\<close> (part of \<^verbatim>\<open>zigbeeSubsystem.c\<close>): what discovery finds out about a device, and its JSON form.
  \<^item> \<open>Zigbee_Radio\<close> (part of \<^verbatim>\<open>zigbeeSubsystem.c\<close>): link quality, the change of the channel and its watchdog, the
    map of the network; the state \<open>zigbee_radio\<close> extends that of the device service.

  \<^bold>\<open>Conventions.\<close> A definition has the name of the function it models; a loop or a locked section of a
  function is a definition of its own. A structure is a record, a hash map an association list with
  distinct keys, a \<^verbatim>\<open>NULL\<close> pointer \<open>None\<close>. Reading through a \<^verbatim>\<open>NULL\<close> or dangling pointer, using a freed
  structure or a destroyed mutex, writing past a buffer and a failed assertion are results of the
  model (\<open>None\<close> or \<open>Inl\<close>), so that a theorem that an operation returns normally excludes them. In the
  database a pointer into a device is the uuid and the URIs that lead to its target. Code that a mutex
  protects is atomic; where a function releases its lock in between, its parts are separate steps in the
  relations \<open>wd_step\<close>, \<open>zq_step\<close> and \<open>disc_step\<close>. Two relations are coarser: a step of \<open>sm_step\<close> is a whole
  function of the subsystem manager, and a step of \<open>dh_step\<close> a whole run of a task, although the code takes
  and releases locks inside; the interleavings within them are not covered, but for the two locked parts of
  the initialisation, which \<open>register_during_initialize_lost\<close> separates.
  Clock readings and calls of function pointers are arguments and recorded events; what a driver does is
  an argument that may change the whole state of the service. All definitions are total, by structural
  recursion or with a termination proof, with one exception: \<open>updateResource\<close> calls itself for the date
  of the last contact and is a \<^verbatim>\<open>partial_function\<close>, with a theorem that it returns. There is no fuel; a
  wait takes the sequence of its wake-ups as an argument.

  \<^bold>\<open>What the theorems show.\<close>
  \<^item> Database: adding a device is atomic and keeps cache and index consistent; lookups, updates and
    removal affect exactly the addressed item; reloading from storage brings back the same devices. Four
    error paths where the code leaves the index inconsistent or loses data.
  \<^item> Device model: a device survives storing and loading; loaded devices are valid; permissive loading
    extends strict loading; URIs are unambiguous.
  \<^item> Watchdog: after a contact the device is reported exactly once and not early; failures and
    restorations alternate in every interleaving, and nothing faults unless a device is monitored twice;
    two ways in which notifications or entries go wrong.
  \<^item> Managers: the readiness callback is called exactly when it should be; migrations run until they
    succeed; initialisation registers exactly the enabled subsystems; drivers behave as the list of
    registrations; timeouts reach the watchdog without faults. Registration under a taken name, or
    during initialisation, and very long timeouts go wrong.
  \<^item> Versions, descriptors, codec: equivalence with reference definitions, exact admission, round trips
    and bounds, and the overflows the code permits.
  \<^item> Parser: exactly the descriptors that the deny document lists are dropped, and a version text admits
    what it lists; an empty element or a descriptor without a name faults.
  \<^item> Downloads: a list is replaced by checked contents or not at all, a fetched list is current, and
    readiness is announced once, with both lists valid, in every interleaving; a late clean-up hides the
    next task, and a deny list dropped at run time leaves the service unready.
  \<^item> Device service: the effect of a change of a resource and its termination, the outcome of a write on
    every branch, no access to disabled endpoints; removing the last endpoint removes the device.
  \<^item> Discovery and pairing: a start is all or nothing, an active discovery can end in every interleaving, a
    new device is added as a whole; denying a device removes exactly that device; stops and removals that
    come at the wrong moment are lost.
  \<^item> Reconfiguration: metadata, dates and labels survive, waits end, cancelled waits end at once; a device
    whose second half fails is lost although success is reported.
  \<^item> Requests to the Zigbee process: one request of a device at a time, in order, answered by its own
    response, and no idle device is left waiting; a busy network is asked five times; what responses hold
    fits the arrays it is stored in. A request that meets the shutdown keeps a mutex locked.
  \<^item> Zigbee events: no event of well-formed text faults while callbacks are registered, and repeated commands
    are delivered once; ids that cannot be read and events after the end go wrong.
  \<^item> Zigbee details and radio: what discovery found survives storing and loading, up to 255 attributes; link
    quality has a hysteresis; one change of the channel at a time, which its watchdog ends; three places where
    narrow integers or the order of two steps give a wrong result.

  \<^bold>\<open>Not modelled.\<close> libxml2, network and file access, GObject wrappers and the C++ parts (Matter, Thread)
  are outside the development: documents, downloads, storage and property values are arguments. Of the
  device service the start and the shutdown remain, with the wrappers of Matter commissioning, which
  forward to C++. Of the Zigbee subsystem start and shutdown, the discovery of devices, the callbacks of
  devices and the event tracker remain. The Zigbee drivers and clusters and the observability registries are
  not modelled. Reference counts are not counted: a
  subsystem or driver is assumed to outlive its registration. Telemetry counters and log lines have no
  effect on what is modelled.
\<close>

end
